(* ===== verification/Prelude.thy ===== *)
theory Prelude
  imports Main "HOL-Library.Word" "HOL-Library.Multiset"
begin

text \<open>
  Shared vocabulary of the development: bytes, Go errors and outcomes (a call returns,
  fails with an error, or panics), loops over slices that stop at the first failure, and
  the few generic lemmas on lists and words that several components use.
\<close>

section \<open>Bytes and words\<close>

type_synonym byte = "8 word"
type_synonym bytes = "byte list"
type_synonym u8 = "8 word"
type_synonym u32 = "32 word"
type_synonym u64 = "64 word"
type_synonym i64 = "64 word"

named_theorems outcome_simps "equations that evaluate outcomes"
named_theorems model_defs "definitions a component's proofs unfold"

section \<open>Errors\<close>

text \<open>
  A Go error value. \<open>ErrNew\<close> is \<open>errors.New\<close> or \<open>fmt.Errorf\<close> without \<open>%w\<close>,
  \<open>ErrWrap\<close> is \<open>fmt.Errorf("<text>: %w", err)\<close>, which keeps the wrapped error in the
  chain \<open>errors.Is\<close> walks, and \<open>ErrStruct\<close> is an error struct that prints its cause but
  has no \<open>Unwrap\<close> method, so \<open>errors.Is\<close> stops there.
\<close>

datatype goerr =
    ErrNew string
  | ErrWrap string goerr
  | ErrStruct string goerr

fun err_text :: "goerr \<Rightarrow> string" where
  "err_text (ErrNew t) = t"
| "err_text (ErrWrap t e) = t @ '': '' @ err_text e"
| "err_text (ErrStruct t e) = t @ '' '' @ err_text e"

fun err_is :: "goerr \<Rightarrow> goerr \<Rightarrow> bool" where
  "err_is (ErrWrap t e) target \<longleftrightarrow> ErrWrap t e = target \<or> err_is e target"
| "err_is e target \<longleftrightarrow> e = target"

section \<open>Outcomes\<close>

datatype 'a outcome =
    Ok (the_ok: 'a)
  | Err goerr
  | Panic string

fun bind_outcome :: "'a outcome \<Rightarrow> ('a \<Rightarrow> 'b outcome) \<Rightarrow> 'b outcome" where
  "bind_outcome (Ok x) f = f x"
| "bind_outcome (Err e) f = Err e"
| "bind_outcome (Panic p) f = Panic p"

fun wrap_err :: "string \<Rightarrow> 'a outcome \<Rightarrow> 'a outcome" where
  "wrap_err t (Err e) = Err (ErrWrap t e)"
| "wrap_err t (Ok x) = Ok x"
| "wrap_err t (Panic p) = Panic p"

definition is_ok :: "'a outcome \<Rightarrow> bool" where
  "is_ok r \<longleftrightarrow> (case r of Ok _ \<Rightarrow> True | _ \<Rightarrow> False)"

definition is_panic :: "'a outcome \<Rightarrow> bool" where
  "is_panic r \<longleftrightarrow> (case r of Panic _ \<Rightarrow> True | _ \<Rightarrow> False)"

lemma is_ok_simps [simp]:
  "is_ok (Ok x)" "\<not> is_ok (Err e)" "\<not> is_ok (Panic p)"
  by (simp_all add: is_ok_def)

lemma is_panic_simps [simp]:
  "\<not> is_panic (Ok x)" "\<not> is_panic (Err e)" "is_panic (Panic p)"
  by (simp_all add: is_panic_def)

lemma is_okE: "is_ok r \<Longrightarrow> (\<And>x. r = Ok x \<Longrightarrow> P) \<Longrightarrow> P"
  by (cases r) auto

lemma bind_outcome_Ok_iff [outcome_simps]:
  "bind_outcome m f = Ok y \<longleftrightarrow> (\<exists>x. m = Ok x \<and> f x = Ok y)"
  by (cases m) auto

lemma bind_outcome_assoc:
  "bind_outcome (bind_outcome m f) g = bind_outcome m (\<lambda>x. bind_outcome (f x) g)"
  by (cases m) auto

lemma bind_outcome_cong [fundef_cong]:
  "m = n \<Longrightarrow> (\<And>x. n = Ok x \<Longrightarrow> f x = g x) \<Longrightarrow> bind_outcome m f = bind_outcome n g"
  by (cases n) auto

lemma wrap_err_Ok_iff [simp]: "wrap_err t m = Ok x \<longleftrightarrow> m = Ok x"
  by (cases m) auto

text \<open>
  A \<open>for\<close> loop over a slice whose body maps each element and leaves the function at the
  first error or panic.
\<close>

fun traverse :: "('a \<Rightarrow> 'b outcome) \<Rightarrow> 'a list \<Rightarrow> 'b list outcome" where
  "traverse f [] = Ok []"
| "traverse f (x # xs) =
     bind_outcome (f x) (\<lambda>y. bind_outcome (traverse f xs) (\<lambda>ys. Ok (y # ys)))"

lemma traverse_cong [fundef_cong]:
  "xs = ys \<Longrightarrow> (\<And>x. x \<in> set ys \<Longrightarrow> f x = g x) \<Longrightarrow> traverse f xs = traverse g ys"
  by (induction ys arbitrary: xs) auto

lemma traverse_Ok:
  "(\<And>x. x \<in> set xs \<Longrightarrow> f x = Ok (g x)) \<Longrightarrow> traverse f xs = Ok (map g xs)"
  by (induction xs) auto

lemma length_traverse: "traverse f xs = Ok ys \<Longrightarrow> length ys = length xs"
  by (induction xs arbitrary: ys) (auto simp: bind_outcome_Ok_iff)

section \<open>Slices\<close>

text \<open>Indexing a slice panics out of range; it never reads an unspecified value.\<close>

definition index_or_panic :: "'a list \<Rightarrow> nat \<Rightarrow> 'a outcome" where
  "index_or_panic xs i =
     (if i < length xs then Ok (xs ! i) else Panic ''index out of range'')"

lemma index_or_panic_Ok [simp]: "i < length xs \<Longrightarrow> index_or_panic xs i = Ok (xs ! i)"
  by (simp add: index_or_panic_def)

lemma index_or_panic_Panic [simp]:
  "\<not> i < length xs \<Longrightarrow> index_or_panic xs i = Panic ''index out of range''"
  by (simp add: index_or_panic_def)

lemma upt_append: "i \<le> j \<Longrightarrow> j \<le> k \<Longrightarrow> [i..<j] @ [j..<k] = [i..<k]"
  by (metis le_add_diff_inverse upt_add_eq_append)

text \<open>Exchanging two positions of a list, the abstract view of a \<open>Swap\<close> method.\<close>

definition list_swap :: "'a list \<Rightarrow> nat \<Rightarrow> nat \<Rightarrow> 'a list" where
  "list_swap xs i j = xs[i := xs ! j, j := xs ! i]"

lemma length_list_swap [simp]: "length (list_swap xs i j) = length xs"
  by (simp add: list_swap_def)

lemma nth_list_swap:
  "i < length xs \<Longrightarrow> j < length xs \<Longrightarrow> k < length xs \<Longrightarrow>
     list_swap xs i j ! k = (if k = i then xs ! j else if k = j then xs ! i else xs ! k)"
  by (auto simp: list_swap_def nth_list_update)

lemma mset_list_swap [simp]:
  "i < length xs \<Longrightarrow> j < length xs \<Longrightarrow> mset (list_swap xs i j) = mset xs"
  unfolding list_swap_def by (rule mset_swap)

lemma set_list_swap [simp]:
  "i < length xs \<Longrightarrow> j < length xs \<Longrightarrow> set (list_swap xs i j) = set xs"
  by (metis mset_list_swap set_mset_mset)

lemma mset_butlast:
  assumes "xs \<noteq> []"
  shows "mset (butlast xs) = mset xs - {#last xs#}"
  using assms by (metis append_butlast_last_id mset_append add_diff_cancel_right'
      mset_single_iff_right)

text \<open>Writing one element of a list, seen through a map to lists and through a filter.\<close>

lemma mset_concat_update:
  assumes "i < length xs"
  shows "mset (concat (map f (xs[i := x]))) + mset (f (xs ! i)) = mset (concat (map f xs)) + mset (f x)"
  using assms
proof (induction xs arbitrary: i)
  case (Cons y ys)
  then show ?case by (cases i) (auto simp: ac_simps)
qed simp

lemma length_filter_update:
  assumes "i < length xs"
  shows "length (filter P (xs[i := x])) + (if P (xs ! i) then 1 else 0)
    = length (filter P xs) + (if P x then 1 else 0)"
  using assms
proof (induction xs arbitrary: i)
  case (Cons y ys)
  then show ?case by (cases i) auto
qed simp

lemma length_remove1_Suc: "x \<in> set xs \<Longrightarrow> length xs = Suc (length (remove1 x xs))"
  by (induction xs) auto

end
