(* ===== verification/GoHeap.thy ===== *)
theory GoHeap
  imports Prelude
begin

text \<open>
  Go's \<open>container/heap\<close>: \<open>up\<close>, \<open>down\<close>, \<open>Push\<close>, \<open>Pop\<close> and \<open>Remove\<close> over any
  implementation of \<open>heap.Interface\<close>, and the locale \<open>heap_interface\<close> that states what the
  five methods of an implementation promise. The locale's lemmas are interpreted on the
  block stack of the priority queue and on the slice of cross transactions sorted by price.
\<close>

section \<open>The loops\<close>

definition parent :: "nat \<Rightarrow> nat" where
  "parent j = (j - 1) div 2"

lemma parent_less [simp]: "0 < k \<Longrightarrow> parent k < k"
  by (auto simp: parent_def)

lemma parent_le [simp]: "parent k \<le> k"
  by (auto simp: parent_def)

lemma parent_0 [simp]: "parent 0 = 0" "parent (Suc 0) = 0"
  by (simp_all add: parent_def)

lemma parent_eq_iff [simp]: "parent j = j \<longleftrightarrow> j = 0"
  by (auto simp: parent_def)

lemma parent_lt [simp]: "j < n \<Longrightarrow> parent j < n"
  by (rule le_less_trans [OF parent_le])

function heap_up :: "('s \<Rightarrow> nat \<Rightarrow> nat \<Rightarrow> bool) \<Rightarrow> ('s \<Rightarrow> nat \<Rightarrow> nat \<Rightarrow> 's) \<Rightarrow> 's \<Rightarrow> nat \<Rightarrow> 's" where
  "heap_up lt swap s j =
     (let i = parent j in
      if i = j \<or> \<not> lt s j i then s else heap_up lt swap (swap s i j) i)"
  by pat_completeness auto
termination
  by (relation "measure (\<lambda>(_, _, _, j). j)") (auto simp: parent_def)

text \<open>\<open>down\<close> returns the state and the index the element came to rest at.\<close>

definition down_child :: "('s \<Rightarrow> nat \<Rightarrow> nat \<Rightarrow> bool) \<Rightarrow> 's \<Rightarrow> nat \<Rightarrow> nat \<Rightarrow> nat" where
  "down_child lt s i n =
     (let j1 = 2 * i + 1; j2 = j1 + 1 in if j2 < n \<and> lt s j2 j1 then j2 else j1)"

function heap_down ::
    "('s \<Rightarrow> nat \<Rightarrow> nat \<Rightarrow> bool) \<Rightarrow> ('s \<Rightarrow> nat \<Rightarrow> nat \<Rightarrow> 's) \<Rightarrow> 's \<Rightarrow> nat \<Rightarrow> nat \<Rightarrow> 's \<times> nat" where
  "heap_down lt swap s i n =
     (if 2 * i + 1 \<ge> n then (s, i)
      else let j = down_child lt s i n in
        if \<not> lt s j i then (s, i) else heap_down lt swap (swap s i j) j n)"
  by pat_completeness auto
termination
  by (relation "measure (\<lambda>(_, _, _, i, n). n - i)") (auto simp: down_child_def Let_def)

declare heap_up.simps [simp del] heap_down.simps [simp del]

definition heap_push ::
    "('s \<Rightarrow> nat) \<Rightarrow> ('s \<Rightarrow> nat \<Rightarrow> nat \<Rightarrow> bool) \<Rightarrow> ('s \<Rightarrow> nat \<Rightarrow> nat \<Rightarrow> 's) \<Rightarrow> ('a \<Rightarrow> 's \<Rightarrow> 's)
      \<Rightarrow> 'a \<Rightarrow> 's \<Rightarrow> 's" where
  "heap_push len lt swap push x s =
     (let s1 = push x s in heap_up lt swap s1 (len s1 - 1))"

definition heap_pop ::
    "('s \<Rightarrow> nat) \<Rightarrow> ('s \<Rightarrow> nat \<Rightarrow> nat \<Rightarrow> bool) \<Rightarrow> ('s \<Rightarrow> nat \<Rightarrow> nat \<Rightarrow> 's) \<Rightarrow> ('s \<Rightarrow> 'a \<times> 's)
      \<Rightarrow> 's \<Rightarrow> 'a \<times> 's" where
  "heap_pop len lt swap pop s =
     (let n = len s - 1 in pop (fst (heap_down lt swap (swap s 0 n) 0 n)))"

definition heap_remove ::
    "('s \<Rightarrow> nat) \<Rightarrow> ('s \<Rightarrow> nat \<Rightarrow> nat \<Rightarrow> bool) \<Rightarrow> ('s \<Rightarrow> nat \<Rightarrow> nat \<Rightarrow> 's) \<Rightarrow> ('s \<Rightarrow> 'a \<times> 's)
      \<Rightarrow> nat \<Rightarrow> 's \<Rightarrow> 'a \<times> 's" where
  "heap_remove len lt swap pop i s =
     (let n = len s - 1 in
      if n \<noteq> i then
        (let (s1, k) = heap_down lt swap (swap s i n) i n
         in pop (if k > i then s1 else heap_up lt swap s1 i))
      else pop s)"

section \<open>Heap order on lists\<close>

text \<open>
  \<open>before\<close> is the order \<open>Less\<close> computes. It need only be a weak order on the elements at
  hand: asymmetric, with a transitive complement.
\<close>

definition weak_order_on :: "('a \<Rightarrow> 'a \<Rightarrow> bool) \<Rightarrow> 'a set \<Rightarrow> bool" where
  "weak_order_on before A \<longleftrightarrow>
     (\<forall>x \<in> A. \<forall>y \<in> A. before x y \<longrightarrow> \<not> before y x) \<and>
     (\<forall>x \<in> A. \<forall>y \<in> A. \<forall>z \<in> A. \<not> before y x \<longrightarrow> \<not> before z y \<longrightarrow> \<not> before z x)"

lemma weak_order_asym: "weak_order_on before A \<Longrightarrow> x \<in> A \<Longrightarrow> y \<in> A \<Longrightarrow> before x y \<Longrightarrow> \<not> before y x"
  unfolding weak_order_on_def by blast

lemma weak_order_trans:
  "weak_order_on before A \<Longrightarrow> x \<in> A \<Longrightarrow> y \<in> A \<Longrightarrow> z \<in> A \<Longrightarrow>
     \<not> before y x \<Longrightarrow> \<not> before z y \<Longrightarrow> \<not> before z x"
  unfolding weak_order_on_def by blast

lemma weak_order_subset: "weak_order_on before A \<Longrightarrow> B \<subseteq> A \<Longrightarrow> weak_order_on before B"
  unfolding weak_order_on_def by blast

lemma weak_order_key:
  assumes "\<And>x y. x \<in> A \<Longrightarrow> y \<in> A \<Longrightarrow> before x y \<longleftrightarrow> key x > (key y :: 'k :: linorder)"
  shows "weak_order_on before A"
  using assms by (auto simp: weak_order_on_def)

definition heap_ordered :: "('a \<Rightarrow> 'a \<Rightarrow> bool) \<Rightarrow> 'a list \<Rightarrow> nat \<Rightarrow> bool" where
  "heap_ordered before xs n \<longleftrightarrow> (\<forall>k < n. 0 < k \<longrightarrow> \<not> before (xs ! k) (xs ! (parent k)))"

text \<open>The heap order with one position left out, for the upward and the downward loop.\<close>

definition up_hole :: "('a \<Rightarrow> 'a \<Rightarrow> bool) \<Rightarrow> 'a list \<Rightarrow> nat \<Rightarrow> nat \<Rightarrow> bool" where
  "up_hole before xs n j \<longleftrightarrow>
     (\<forall>k < n. 0 < k \<longrightarrow> k \<noteq> j \<longrightarrow> \<not> before (xs ! k) (xs ! (parent k))) \<and>
     (\<forall>k < n. 0 < k \<longrightarrow> 0 < j \<longrightarrow> parent k = j \<longrightarrow>
        \<not> before (xs ! k) (xs ! (parent j)))"

definition down_hole :: "('a \<Rightarrow> 'a \<Rightarrow> bool) \<Rightarrow> 'a list \<Rightarrow> nat \<Rightarrow> nat \<Rightarrow> bool" where
  "down_hole before xs n i \<longleftrightarrow>
     (\<forall>k < n. 0 < k \<longrightarrow> parent k \<noteq> i \<longrightarrow> \<not> before (xs ! k) (xs ! (parent k))) \<and>
     (\<forall>k < n. 0 < k \<longrightarrow> 0 < i \<longrightarrow> parent k = i \<longrightarrow>
        \<not> before (xs ! k) (xs ! (parent i)))"

abbreviation list_less :: "('a \<Rightarrow> 'a \<Rightarrow> bool) \<Rightarrow> 'a list \<Rightarrow> nat \<Rightarrow> nat \<Rightarrow> bool" where
  "list_less before xs i j \<equiv> before (xs ! i) (xs ! j)"

abbreviation list_up :: "('a \<Rightarrow> 'a \<Rightarrow> bool) \<Rightarrow> 'a list \<Rightarrow> nat \<Rightarrow> 'a list" where
  "list_up before \<equiv> heap_up (list_less before) list_swap"

abbreviation list_down :: "('a \<Rightarrow> 'a \<Rightarrow> bool) \<Rightarrow> 'a list \<Rightarrow> nat \<Rightarrow> nat \<Rightarrow> 'a list \<times> nat" where
  "list_down before \<equiv> heap_down (list_less before) list_swap"

lemma child_parent: "(0 < k \<and> parent k = i) \<longleftrightarrow> (k = 2 * i + 1 \<or> k = 2 * i + 2)"
  by (auto simp: parent_def)

lemma heap_ordered_root:
  assumes "heap_ordered before xs n" "weak_order_on before (set xs)" "n \<le> length xs" "k < n"
  shows "\<not> before (xs ! k) (xs ! 0)"
  using assms(4)
proof (induction k rule: less_induct)
  case (less k)
  show ?case
  proof (cases "k = 0")
    case True
    with less.prems assms(2,3) show ?thesis
      by (metis nth_mem order_less_le_trans weak_order_asym)
  next
    case False
    let ?p = "parent k"
    have p: "?p < k" using False by simp
    with less.prems have pn: "?p < n" by simp
    have "\<not> before (xs ! k) (xs ! ?p)"
      using assms(1) less.prems False by (simp add: heap_ordered_def)
    moreover note less.IH [OF p pn]
    moreover have "xs ! k \<in> set xs" "xs ! ?p \<in> set xs" "xs ! 0 \<in> set xs"
      using assms(3) less.prems pn by (auto intro: nth_mem)
    ultimately show ?thesis using weak_order_trans [OF assms(2)] by blast
  qed
qed

subsection \<open>Upwards\<close>

lemma length_list_up [simp]: "length (list_up before xs j) = length xs"
proof (induction j arbitrary: xs rule: less_induct)
  case (less j)
  show ?case
    using less.IH [of "parent j"] by (subst heap_up.simps) (auto simp: Let_def)
qed

lemma mset_list_up [simp]: "j < length xs \<Longrightarrow> mset (list_up before xs j) = mset xs"
proof (induction j arbitrary: xs rule: less_induct)
  case (less j)
  then show ?case
    using less.IH [of "parent j"] by (subst heap_up.simps) (auto simp: Let_def)
qed

lemma set_list_up [simp]: "j < length xs \<Longrightarrow> set (list_up before xs j) = set xs"
  using mset_list_up mset_eq_setD by blast

lemma up_hole_step:
  assumes hole: "up_hole before xs n j" and wo: "weak_order_on before (set xs)"
    and n: "n \<le> length xs" "j < n" and b: "before (xs ! j) (xs ! (parent j))"
    and ne: "parent j \<noteq> j"
  shows "up_hole before (list_swap xs (parent j) j) n (parent j)"
proof -
  let ?i = "parent j"
  let ?ys = "list_swap xs ?i j"
  have i: "?i < j" "?i < length xs" "j < length xs" using ne n by auto
  have mem: "\<And>k. k < n \<Longrightarrow> xs ! k \<in> set xs" using n by (auto intro: nth_mem)
  have ys: "\<And>k. k < n \<Longrightarrow> ?ys ! k = (if k = ?i then xs ! j else if k = j then xs ! ?i else xs ! k)"
    using i n by (simp add: nth_list_swap)
  have asym: "\<not> before (xs ! ?i) (xs ! j)"
    using weak_order_asym [OF wo mem mem b] n i by simp
  have c1: "\<not> before (?ys ! k) (?ys ! (parent k))" if k: "k < n" "0 < k" "k \<noteq> ?i" for k
  proof -
    have pk: "parent k < n" using k by auto
    show ?thesis
    proof (cases "k = j")
      case True
      then show ?thesis using ys [OF k(1)] ys [OF pk] asym ne by simp
    next
      case False
      have h: "\<not> before (xs ! k) (xs ! (parent k))"
        using hole k False by (simp add: up_hole_def)
      consider "parent k = j" | "parent k = ?i" "parent k \<noteq> j"
        | "parent k \<noteq> j" "parent k \<noteq> ?i" by blast
      then show ?thesis
      proof cases
        case 1
        then have "\<not> before (xs ! k) (xs ! ?i)"
          using hole k i by (auto simp: up_hole_def)
        with 1 show ?thesis using ys [OF k(1)] ys [OF pk] k False ne by simp
      next
        case 2
        have "\<not> before (xs ! k) (xs ! j)"
          using weak_order_trans [OF wo mem mem mem, of j ?i k] asym h 2 k n i
          by (metis less_trans)
        with 2 show ?thesis using ys [OF k(1)] ys [OF pk] k False by simp
      next
        case 3
        then show ?thesis using ys [OF k(1)] ys [OF pk] k False h by simp
      qed
    qed
  qed
  have c2: "\<not> before (?ys ! k) (?ys ! (parent ?i))"
    if k: "k < n" "0 < k" "0 < ?i" "parent k = ?i" for k
  proof -
    have pi: "parent ?i < ?i" "parent ?i < n"
      using k(3) i n by (simp, meson k(3) less_trans parent_less)
    have hi: "\<not> before (xs ! ?i) (xs ! (parent ?i))"
      using hole k i n by (auto simp: up_hole_def)
    have ki: "k \<noteq> ?i" using k by auto
    show ?thesis
    proof (cases "k = j")
      case True
      then show ?thesis using ys [OF k(1)] ys [OF pi(2)] hi pi i ki by simp
    next
      case False
      have "\<not> before (xs ! k) (xs ! ?i)"
        using hole k False by (auto simp: up_hole_def)
      then have "\<not> before (xs ! k) (xs ! (parent ?i))"
        using weak_order_trans [OF wo mem mem mem] hi k pi i n by (meson less_trans)
      then show ?thesis using ys [OF k(1)] ys [OF pi(2)] pi i ki False by simp
    qed
  qed
  show ?thesis unfolding up_hole_def using c1 c2 by blast
qed

lemma up_hole_done:
  "up_hole before xs n j \<Longrightarrow> parent j = j \<or> \<not> before (xs ! j) (xs ! (parent j)) \<Longrightarrow>
     heap_ordered before xs n"
  unfolding up_hole_def heap_ordered_def by (cases "j = 0") auto

lemma list_up_heap:
  "up_hole before xs n j \<Longrightarrow> weak_order_on before (set xs) \<Longrightarrow> n \<le> length xs \<Longrightarrow> j < n \<Longrightarrow>
     heap_ordered before (list_up before xs j) n"
proof (induction j arbitrary: xs rule: less_induct)
  case (less j)
  let ?i = "parent j"
  show ?case
  proof (cases "?i = j \<or> \<not> before (xs ! j) (xs ! ?i)")
    case True
    with up_hole_done [OF less.prems(1)] show ?thesis by (subst heap_up.simps) (simp add: Let_def)
  next
    case False
    then have "?i < j" by auto
    have "heap_ordered before (list_up before (list_swap xs ?i j) ?i) n"
    proof (rule less.IH [OF \<open>?i < j\<close>])
      show "up_hole before (list_swap xs ?i j) n ?i"
        using up_hole_step [OF less.prems] False by blast
      show "weak_order_on before (set (list_swap xs ?i j))"
        using less.prems by (subst set_list_swap) auto
    qed (use less.prems \<open>?i < j\<close> in auto)
    with False show ?thesis by (subst heap_up.simps) (simp add: Let_def)
  qed
qed

subsection \<open>Downwards\<close>

definition wdown_hole :: "('a \<Rightarrow> 'a \<Rightarrow> bool) \<Rightarrow> 'a list \<Rightarrow> nat \<Rightarrow> nat \<Rightarrow> bool" where
  "wdown_hole before xs n i \<longleftrightarrow>
     (\<forall>k < n. 0 < k \<longrightarrow> k \<noteq> i \<longrightarrow> parent k \<noteq> i \<longrightarrow> \<not> before (xs ! k) (xs ! parent k)) \<and>
     (\<forall>k < n. 0 < k \<longrightarrow> 0 < i \<longrightarrow> parent k = i \<longrightarrow> \<not> before (xs ! k) (xs ! parent i))"

lemma down_hole_weaken: "down_hole before xs n i \<Longrightarrow> wdown_hole before xs n i"
  by (auto simp: down_hole_def wdown_hole_def)

lemma down_child_bounds:
  assumes "2 * i + 1 < n"
  shows "down_child lt s i n < n" "i < down_child lt s i n" "parent (down_child lt s i n) = i"
  using assms by (auto simp: down_child_def Let_def parent_def)

lemma down_child_best:
  assumes "weak_order_on before (set xs)" "n \<le> length xs" "2 * i + 1 < n"
    and k: "k < n" "0 < k" "parent k = i"
  shows "\<not> before (xs ! k) (xs ! down_child (list_less before) xs i n)"
proof -
  have mem: "\<And>k. k < n \<Longrightarrow> xs ! k \<in> set xs" using assms(2) by (auto intro: nth_mem)
  have irr: "\<And>k. k < n \<Longrightarrow> \<not> before (xs ! k) (xs ! k)"
    using weak_order_asym [OF assms(1) mem mem] by blast
  have "k = 2 * i + 1 \<or> k = 2 * i + 2" using k child_parent by blast
  then show ?thesis
    using irr k(1) weak_order_asym [OF assms(1) mem mem]
    by (auto simp: down_child_def Let_def)
qed

lemma down_hole_step:
  assumes hole: "wdown_hole before xs n i" and wo: "weak_order_on before (set xs)"
    and n: "n \<le> length xs" "2 * i + 1 < n"
    and j: "j = down_child (list_less before) xs i n" and b: "before (xs ! j) (xs ! i)"
  shows "down_hole before (list_swap xs i j) n j"
proof -
  let ?ys = "list_swap xs i j"
  have ji: "j < n" "i < j" "parent j = i" using down_child_bounds [OF n(2)] j by auto
  have mem: "\<And>k. k < n \<Longrightarrow> xs ! k \<in> set xs" using n by (auto intro: nth_mem)
  have ys: "\<And>k. k < n \<Longrightarrow> ?ys ! k = (if k = i then xs ! j else if k = j then xs ! i else xs ! k)"
    using ji n by (simp add: nth_list_swap)
  have best: "\<And>k. k < n \<Longrightarrow> 0 < k \<Longrightarrow> parent k = i \<Longrightarrow> \<not> before (xs ! k) (xs ! j)"
    using down_child_best [OF wo n] j by blast
  have asym: "\<not> before (xs ! i) (xs ! j)"
    using weak_order_asym [OF wo mem mem b] ji by simp
  have c1: "\<not> before (?ys ! k) (?ys ! parent k)" if k: "k < n" "0 < k" "parent k \<noteq> j" for k
  proof -
    have pk: "parent k < n" using k by simp
    consider "k = i" | "k = j" | "k \<noteq> i" "k \<noteq> j" "parent k = i" | "k \<noteq> i" "k \<noteq> j" "parent k \<noteq> i"
      by blast
    then show ?thesis
    proof cases
      case 1
      then have "\<not> before (xs ! j) (xs ! parent i)"
        using hole ji k by (auto simp: wdown_hole_def)
      moreover have "parent i \<noteq> i" "parent i \<noteq> j" using 1 k ji by auto
      ultimately show ?thesis using 1 ys [OF k(1)] ys [OF pk] by simp
    next
      case 2
      then show ?thesis using ys [OF k(1)] ys [OF pk] asym ji by simp
    next
      case 3
      then show ?thesis using ys [OF k(1)] ys [OF pk] best k by simp
    next
      case 4
      then show ?thesis using ys [OF k(1)] ys [OF pk] hole k by (simp add: wdown_hole_def)
    qed
  qed
  have c2: "\<not> before (?ys ! k) (?ys ! parent j)" if k: "k < n" "0 < k" "parent k = j" for k
  proof -
    have "j < k" using k parent_less [of k] by simp
    then show ?thesis
      using hole k ji ys [of i] ys [OF k(1)] n by (auto simp: wdown_hole_def)
  qed
  show ?thesis unfolding down_hole_def using c1 c2 by blast
qed

lemma down_hole_stop:
  assumes "weak_order_on before (set xs)" "n \<le> length xs"
    and "n \<le> 2 * i + 1 \<or> \<not> before (xs ! down_child (list_less before) xs i n) (xs ! i)"
    and "k < n" "0 < k" "parent k = i"
  shows "\<not> before (xs ! k) (xs ! i)"
proof -
  have lt: "2 * i + 1 < n" using assms(4-6) child_parent [of k i] by auto
  let ?j = "down_child (list_less before) xs i n"
  have "\<not> before (xs ! ?j) (xs ! i)" using assms(3) lt by auto
  moreover have "\<not> before (xs ! k) (xs ! ?j)" using down_child_best [OF assms(1,2) lt assms(4-6)] .
  moreover have "xs ! k \<in> set xs" "xs ! ?j \<in> set xs" "xs ! i \<in> set xs"
    using down_child_bounds [OF lt, of "list_less before" xs] assms(2,4) lt by (auto intro!: nth_mem)
  ultimately show ?thesis using weak_order_trans [OF assms(1)] by blast
qed

lemma list_down_shape:
  assumes "n \<le> length xs"
  shows "length (fst (list_down before xs i n)) = length xs \<and>
         mset (fst (list_down before xs i n)) = mset xs \<and>
         i \<le> snd (list_down before xs i n) \<and>
         (\<forall>m. n \<le> m \<longrightarrow> m < length xs \<longrightarrow> fst (list_down before xs i n) ! m = xs ! m)"
  using assms
proof (induction "n - i" arbitrary: xs i rule: less_induct)
  case less
  show ?case
  proof (cases "2 * i + 1 < n \<and> before (xs ! down_child (list_less before) xs i n) (xs ! i)")
    case False
    then show ?thesis by (subst (1 2 3 4) heap_down.simps) (auto simp: Let_def)
  next
    case True
    let ?j = "down_child (list_less before) xs i n"
    have j: "?j < n" "i < ?j" using down_child_bounds True by auto
    have ij: "i < length xs" "?j < length xs" using j less.prems by auto
    have eq: "list_down before xs i n = list_down before (list_swap xs i ?j) ?j n"
      using True by (subst heap_down.simps) (auto simp: Let_def)
    have "n - ?j < n - i" using j by simp
    from less.hyps [OF this, of "list_swap xs i ?j"] less.prems ij j
    show ?thesis unfolding eq by (auto simp: nth_list_swap)
  qed
qed

lemma length_list_down [simp]:
  "n \<le> length xs \<Longrightarrow> length (fst (list_down before xs i n)) = length xs"
  using list_down_shape by blast

lemma mset_list_down [simp]: "n \<le> length xs \<Longrightarrow> mset (fst (list_down before xs i n)) = mset xs"
  using list_down_shape by blast

lemma set_list_down [simp]: "n \<le> length xs \<Longrightarrow> set (fst (list_down before xs i n)) = set xs"
  using mset_list_down mset_eq_setD by blast

lemma list_down_above:
  "n \<le> length xs \<Longrightarrow> n \<le> m \<Longrightarrow> m < length xs \<Longrightarrow> fst (list_down before xs i n) ! m = xs ! m"
  using list_down_shape by blast

lemma list_down_heap:
  "down_hole before xs n i \<Longrightarrow> weak_order_on before (set xs) \<Longrightarrow> n \<le> length xs \<Longrightarrow>
     heap_ordered before (fst (list_down before xs i n)) n"
proof (induction "n - i" arbitrary: xs i rule: less_induct)
  case less
  let ?j = "down_child (list_less before) xs i n"
  show ?case
  proof (cases "2 * i + 1 < n \<and> before (xs ! ?j) (xs ! i)")
    case False
    then have "\<not> before (xs ! k) (xs ! parent k)" if "k < n" "0 < k" for k
      using down_hole_stop [OF less.prems(2,3), of i k] less.prems(1) that
      by (cases "parent k = i") (auto simp: down_hole_def)
    with False show ?thesis
      by (subst heap_down.simps) (auto simp: Let_def heap_ordered_def)
  next
    case True
    have j: "?j < n" "i < ?j" using down_child_bounds True by auto
    have eq: "list_down before xs i n = list_down before (list_swap xs i ?j) ?j n"
      using True by (subst heap_down.simps) (auto simp: Let_def)
    have "n - ?j < n - i" using j by simp
    then have "heap_ordered before (fst (list_down before (list_swap xs i ?j) ?j n)) n"
    proof (rule less.hyps)
      show "down_hole before (list_swap xs i ?j) n ?j"
        using down_hole_step [OF down_hole_weaken [OF less.prems(1)] less.prems(2,3)] True by blast
      show "weak_order_on before (set (list_swap xs i ?j))"
        using less.prems j by (subst set_list_swap) auto
    qed (use less.prems in simp)
    then show ?thesis unfolding eq .
  qed
qed

text \<open>\<open>down\<close> from a position whose own place is unknown: either it moved and the heap is
  restored, or nothing changed and only that position may be out of place.\<close>

lemma list_down_wheap:
  assumes "wdown_hole before xs n i" "weak_order_on before (set xs)" "n \<le> length xs"
  shows "if snd (list_down before xs i n) > i
         then heap_ordered before (fst (list_down before xs i n)) n
         else fst (list_down before xs i n) = xs \<and> up_hole before xs n i"
proof -
  let ?j = "down_child (list_less before) xs i n"
  show ?thesis
  proof (cases "2 * i + 1 < n \<and> before (xs ! ?j) (xs ! i)")
    case False
    then have eq: "list_down before xs i n = (xs, i)"
      by (subst heap_down.simps) (auto simp: Let_def)
    from False have "\<not> before (xs ! k) (xs ! parent k)" if "k < n" "0 < k" "k \<noteq> i" for k
      using down_hole_stop [OF assms(2,3), of i k] assms(1) that
      by (cases "parent k = i") (auto simp: wdown_hole_def)
    with assms(1) eq show ?thesis by (auto simp: up_hole_def wdown_hole_def)
  next
    case True
    have j: "?j < n" "i < ?j" using down_child_bounds True by auto
    have eq: "list_down before xs i n = list_down before (list_swap xs i ?j) ?j n"
      using True by (subst heap_down.simps) (auto simp: Let_def)
    have len: "n \<le> length (list_swap xs i ?j)" using assms(3) by simp
    have "heap_ordered before (fst (list_down before (list_swap xs i ?j) ?j n)) n"
    proof (rule list_down_heap [OF _ _ len])
      show "down_hole before (list_swap xs i ?j) n ?j"
        using down_hole_step [OF assms] True by blast
      show "weak_order_on before (set (list_swap xs i ?j))"
        using assms j by (subst set_list_swap) auto
    qed
    moreover have "?j \<le> snd (list_down before (list_swap xs i ?j) ?j n)"
      using list_down_shape [OF len] by blast
    ultimately show ?thesis using j eq by auto
  qed
qed

subsection \<open>Push, pop and remove on lists\<close>

lemma list_up_above: "j < m \<Longrightarrow> m < length xs \<Longrightarrow> list_up before xs j ! m = xs ! m"
proof (induction j arbitrary: xs rule: less_induct)
  case (less j)
  have "parent j < length xs" using less.prems by (simp add: le_less_trans [OF parent_le])
  then show ?case
    using less.IH [of "parent j" "list_swap xs (parent j) j"] less.prems
    by (subst heap_up.simps) (auto simp: Let_def nth_list_swap le_less_trans [OF parent_le])
qed

lemma push_hole:
  "heap_ordered before xs (length xs) \<Longrightarrow>
     up_hole before (xs @ [x]) (Suc (length xs)) (length xs)"
  by (auto simp: heap_ordered_def up_hole_def nth_append less_Suc_eq)
     (metis parent_less less_asym)

lemma pop_hole:
  "heap_ordered before xs (length xs) \<Longrightarrow> xs \<noteq> [] \<Longrightarrow>
     down_hole before (list_swap xs 0 (length xs - 1)) (length xs - 1) 0"
proof -
  assume h: "heap_ordered before xs (length xs)" and ne: "xs \<noteq> []"
  let ?n = "length xs - 1"
  let ?ys = "list_swap xs 0 ?n"
  have "\<not> before (?ys ! k) (?ys ! parent k)" if k: "k < ?n" "0 < k" "parent k \<noteq> 0" for k
  proof -
    have pk: "parent k < ?n" using k by simp
    have n: "?n < length xs" using ne by simp
    have "0 < length xs" "k < length xs" "parent k < length xs" using pk k n by linarith+
    then have "?ys ! k = xs ! k" "?ys ! parent k = xs ! parent k"
      using k less_imp_neq [OF pk] n by (auto simp: nth_list_swap)
    with h k show ?thesis by (simp add: heap_ordered_def)
  qed
  then show ?thesis by (simp add: down_hole_def)
qed

lemma remove_hole:
  assumes h: "heap_ordered before xs (length xs)" and wo: "weak_order_on before (set xs)"
    and i: "i < length xs - 1"
  shows "wdown_hole before (list_swap xs i (length xs - 1)) (length xs - 1) i"
proof -
  let ?n = "length xs - 1"
  let ?ys = "list_swap xs i ?n"
  have ys: "?ys ! k = (if k = i then xs ! ?n else xs ! k)" if "k < ?n" for k
    using that i by (simp add: nth_list_swap)
  have "\<not> before (xs ! k) (xs ! parent i)" if "k < ?n" "0 < k" "0 < i" "parent k = i" for k
  proof -
    have "\<not> before (xs ! k) (xs ! i)" "\<not> before (xs ! i) (xs ! parent i)"
      using h that i by (auto simp: heap_ordered_def)
    then show ?thesis
      using weak_order_trans [OF wo, of "xs ! parent i" "xs ! i" "xs ! k"] that i by simp
  qed
  moreover have "\<not> before (?ys ! k) (?ys ! parent k)"
    if k: "k < ?n" "0 < k" "k \<noteq> i" "parent k \<noteq> i" for k
  proof -
    have "?ys ! k = xs ! k" "?ys ! parent k = xs ! parent k"
      using k i ys [of k] ys [of "parent k"] by auto
    with h k show ?thesis by (simp add: heap_ordered_def)
  qed
  moreover have "?ys ! k = xs ! k \<and> ?ys ! parent i = xs ! parent i"
    if "k < ?n" "0 < k" "0 < i" "parent k = i" for k
    using that i ys [of k] ys [of "parent i"] parent_less [of k] parent_less [of i] by auto
  ultimately show ?thesis unfolding wdown_hole_def by metis
qed

lemma heap_ordered_butlast:
  "heap_ordered before xs (length xs - 1) \<Longrightarrow> heap_ordered before (butlast xs) (length (butlast xs))"
  by (auto simp: heap_ordered_def nth_butlast)

section \<open>The interface\<close>

locale heap_interface =
  fixes ln :: "'s \<Rightarrow> nat"
    and lt :: "'s \<Rightarrow> nat \<Rightarrow> nat \<Rightarrow> bool"
    and sw :: "'s \<Rightarrow> nat \<Rightarrow> nat \<Rightarrow> 's"
    and pu :: "'a \<Rightarrow> 's \<Rightarrow> 's"
    and po :: "'s \<Rightarrow> 'a \<times> 's"
    and elems :: "'s \<Rightarrow> 'a list"
    and invar :: "'s \<Rightarrow> bool"
    and before :: "'a \<Rightarrow> 'a \<Rightarrow> bool"
  assumes len_elems: "invar s \<Longrightarrow> ln s = length (elems s)"
    and lt_elems: "invar s \<Longrightarrow> i < length (elems s) \<Longrightarrow> j < length (elems s) \<Longrightarrow>
      lt s i j = before (elems s ! i) (elems s ! j)"
    and sw_elems: "invar s \<Longrightarrow> i < length (elems s) \<Longrightarrow> j < length (elems s) \<Longrightarrow>
      elems (sw s i j) = list_swap (elems s) i j"
    and sw_invar: "invar s \<Longrightarrow> i < length (elems s) \<Longrightarrow> j < length (elems s) \<Longrightarrow> invar (sw s i j)"
    and pu_elems: "invar s \<Longrightarrow> elems (pu x s) = elems s @ [x]"
    and pu_invar: "invar s \<Longrightarrow> invar (pu x s)"
    and po_last: "invar s \<Longrightarrow> elems s \<noteq> [] \<Longrightarrow> fst (po s) = last (elems s)"
    and po_elems: "invar s \<Longrightarrow> elems s \<noteq> [] \<Longrightarrow> elems (snd (po s)) = butlast (elems s)"
    and po_invar: "invar s \<Longrightarrow> elems s \<noteq> [] \<Longrightarrow> invar (snd (po s))"
begin

lemma up_refines:
  "invar s \<Longrightarrow> j < length (elems s) \<Longrightarrow>
     invar (heap_up lt sw s j) \<and> elems (heap_up lt sw s j) = list_up before (elems s) j"
proof (induction j arbitrary: s rule: less_induct)
  case (less j)
  have p: "parent j < length (elems s)" using less.prems by simp
  have IH: "0 < j \<Longrightarrow> invar (heap_up lt sw (sw s (parent j) j) (parent j)) \<and>
      elems (heap_up lt sw (sw s (parent j) j) (parent j)) =
      list_up before (elems (sw s (parent j) j)) (parent j)"
    using less.prems p by (intro less.IH) (auto simp: sw_elems sw_invar)
  show ?case
    using less.prems p IH
    by (subst (1 2) heap_up.simps [of lt], subst heap_up.simps [of "list_less before"])
       (auto simp: Let_def lt_elems sw_elems)
qed

lemma down_child_refines:
  "invar s \<Longrightarrow> n \<le> length (elems s) \<Longrightarrow> 2 * i + 1 < n \<Longrightarrow>
     down_child lt s i n = down_child (list_less before) (elems s) i n"
  by (auto simp: down_child_def Let_def lt_elems)

lemma down_refines:
  "invar s \<Longrightarrow> n \<le> length (elems s) \<Longrightarrow>
     invar (fst (heap_down lt sw s i n)) \<and>
     elems (fst (heap_down lt sw s i n)) = fst (list_down before (elems s) i n) \<and>
     snd (heap_down lt sw s i n) = snd (list_down before (elems s) i n)"
proof (induction "n - i" arbitrary: s i rule: less_induct)
  case less
  show ?case
  proof (cases "2 * i + 1 < n")
    case False
    with less.prems show ?thesis
      by (simp add: heap_down.simps [of lt] heap_down.simps [of "list_less before"])
  next
    case True
    let ?j = "down_child lt s i n"
    have j: "?j < n" "i < ?j" using down_child_bounds [OF True, of lt s] by auto
    have cj: "?j = down_child (list_less before) (elems s) i n"
      using down_child_refines less.prems True by blast
    have b: "lt s ?j i = before (elems s ! ?j) (elems s ! i)"
      using less.prems j by (simp add: lt_elems)
    have "n - ?j < n - i" using j by simp
    then have "invar (fst (heap_down lt sw (sw s i ?j) ?j n)) \<and>
     elems (fst (heap_down lt sw (sw s i ?j) ?j n)) = fst (list_down before (elems (sw s i ?j)) ?j n) \<and>
     snd (heap_down lt sw (sw s i ?j) ?j n) = snd (list_down before (elems (sw s i ?j)) ?j n)"
      by (rule less.hyps) (use less.prems j in \<open>auto simp: sw_elems sw_invar\<close>)
    with less.prems True j b cj show ?thesis
      by (simp add: heap_down.simps [of lt] heap_down.simps [of "list_less before"] Let_def sw_elems)
  qed
qed

lemma push_correct:
  assumes "invar s" "weak_order_on before (insert x (set (elems s)))"
    and "heap_ordered before (elems s) (length (elems s))"
  shows "invar (heap_push ln lt sw pu x s)"
    and "mset (elems (heap_push ln lt sw pu x s)) = add_mset x (mset (elems s))"
    and "heap_ordered before (elems (heap_push ln lt sw pu x s))
           (length (elems (heap_push ln lt sw pu x s)))"
proof -
  let ?xs = "elems s @ [x]"
  let ?j = "length (elems s)"
  have s1: "invar (pu x s)" "elems (pu x s) = ?xs" using assms(1) pu_invar pu_elems by auto
  have eq: "heap_push ln lt sw pu x s = heap_up lt sw (pu x s) ?j"
    using s1 by (simp add: heap_push_def len_elems)
  have r: "invar (heap_push ln lt sw pu x s)"
    "elems (heap_push ln lt sw pu x s) = list_up before ?xs ?j"
    unfolding eq using up_refines [OF s1(1), of ?j] s1(2) by auto
  show "invar (heap_push ln lt sw pu x s)" by (fact r(1))
  show "mset (elems (heap_push ln lt sw pu x s)) = add_mset x (mset (elems s))"
    by (simp add: r(2))
  show "heap_ordered before (elems (heap_push ln lt sw pu x s))
          (length (elems (heap_push ln lt sw pu x s)))"
    unfolding r(2) using list_up_heap [OF push_hole [OF assms(3)], of x] assms(2) by simp
qed

lemma pop_correct:
  assumes "invar s" "elems s \<noteq> []" "weak_order_on before (set (elems s))"
    and "heap_ordered before (elems s) (length (elems s))"
  shows "invar (snd (heap_pop ln lt sw po s))"
    and "fst (heap_pop ln lt sw po s) = elems s ! 0"
    and "\<forall>y \<in> set (elems s). \<not> before y (fst (heap_pop ln lt sw po s))"
    and "mset (elems (snd (heap_pop ln lt sw po s))) = mset (elems s) - {#elems s ! 0#}"
    and "heap_ordered before (elems (snd (heap_pop ln lt sw po s)))
           (length (elems (snd (heap_pop ln lt sw po s))))"
proof -
  let ?n = "length (elems s) - 1"
  let ?ys = "list_swap (elems s) 0 ?n"
  let ?zs = "fst (list_down before ?ys 0 ?n)"
  let ?s1 = "fst (heap_down lt sw (sw s 0 ?n) 0 ?n)"
  have n: "0 < length (elems s)" "?n < length (elems s)" using assms(2) by auto
  have sw: "invar (sw s 0 ?n)" "elems (sw s 0 ?n) = ?ys"
    using assms(1) n sw_invar sw_elems by auto
  have d: "invar ?s1" "elems ?s1 = ?zs"
    using down_refines [OF sw(1), of ?n 0] sw(2) n by auto
  have zs: "length ?zs = length (elems s)" "mset ?zs = mset (elems s)" using n by auto
  have ne: "?zs \<noteq> []" using zs(1) assms(2) by (metis length_0_conv)
  have lst: "last ?zs = elems s ! 0"
    using list_down_above [of ?n ?ys ?n before 0] n zs(1) ne by (simp add: last_conv_nth nth_list_swap)
  have eq: "heap_pop ln lt sw po s = po ?s1"
    using assms(1) by (simp add: heap_pop_def Let_def len_elems)
  show inv: "invar (snd (heap_pop ln lt sw po s))"
    unfolding eq using po_invar d ne by simp
  show fst: "fst (heap_pop ln lt sw po s) = elems s ! 0"
    unfolding eq using po_last d ne lst by simp
  show "\<forall>y \<in> set (elems s). \<not> before y (fst (heap_pop ln lt sw po s))"
    unfolding fst using heap_ordered_root [OF assms(4,3)] by (metis in_set_conv_nth order_refl)
  have el: "elems (snd (heap_pop ln lt sw po s)) = butlast ?zs"
    unfolding eq using po_elems d ne by simp
  show "mset (elems (snd (heap_pop ln lt sw po s))) = mset (elems s) - {#elems s ! 0#}"
    unfolding el using mset_butlast [OF ne] zs(2) lst by simp
  have "heap_ordered before ?zs ?n"
    using list_down_heap [OF pop_hole [OF assms(4,2)]] assms(3) n by simp
  then show "heap_ordered before (elems (snd (heap_pop ln lt sw po s)))
           (length (elems (snd (heap_pop ln lt sw po s))))"
    unfolding el using heap_ordered_butlast [of before ?zs] zs(1) by simp
qed

lemma remove_correct:
  assumes "invar s" "i < length (elems s)" "weak_order_on before (set (elems s))"
    and "heap_ordered before (elems s) (length (elems s))"
  shows "invar (snd (heap_remove ln lt sw po i s))"
    and "fst (heap_remove ln lt sw po i s) = elems s ! i"
    and "mset (elems (snd (heap_remove ln lt sw po i s))) = mset (elems s) - {#elems s ! i#}"
    and "heap_ordered before (elems (snd (heap_remove ln lt sw po i s)))
           (length (elems (snd (heap_remove ln lt sw po i s))))"
proof -
  let ?n = "length (elems s) - 1"
  let ?r = "heap_remove ln lt sw po i s"
  have "\<exists>s1. ?r = po s1 \<and> invar s1 \<and> length (elems s1) = length (elems s) \<and>
      mset (elems s1) = mset (elems s) \<and> elems s1 ! ?n = elems s ! i \<and>
      heap_ordered before (elems s1) ?n"
  proof (cases "i = ?n")
    case True
    then show ?thesis
      using assms by (intro exI [of _ s]) (auto simp: heap_remove_def len_elems heap_ordered_def)
  next
    case False
    let ?ys = "list_swap (elems s) i ?n"
    let ?d = "heap_down lt sw (sw s i ?n) i ?n"
    have n: "i < ?n" "?n < length (elems s)" using False assms(2) by auto
    have sw: "invar (sw s i ?n)" "elems (sw s i ?n) = ?ys"
      using assms n sw_invar sw_elems by auto
    have d: "invar (fst ?d)" "elems (fst ?d) = fst (list_down before ?ys i ?n)"
        "snd ?d = snd (list_down before ?ys i ?n)"
      using down_refines [OF sw(1), of ?n i] sw(2) n by auto
    have wo: "weak_order_on before (set ?ys)" using assms n by simp
    have hole: "wdown_hole before ?ys ?n i" using remove_hole [OF assms(4,3) n(1)] .
    have nl: "?n \<le> length ?ys" by simp
    have ysn: "?ys ! ?n = elems s ! i" using n assms(2) by (simp add: nth_list_swap)
    have eq: "?r = po (if snd ?d > i then fst ?d else heap_up lt sw (fst ?d) i)"
      using False assms(1) by (simp add: heap_remove_def Let_def len_elems split_beta)
    show ?thesis
    proof (cases "snd ?d > i")
      case True
      then have "heap_ordered before (elems (fst ?d)) ?n"
        using list_down_wheap [OF hole wo nl] d by simp
      moreover have "elems (fst ?d) ! ?n = elems s ! i"
        using list_down_above [OF nl, of ?n before i] d n ysn by simp
      ultimately show ?thesis using True d eq n assms(2) by (intro exI [of _ "fst ?d"]) simp
    next
      case False
      then have ys: "elems (fst ?d) = ?ys" and up: "up_hole before ?ys ?n i"
        using list_down_wheap [OF hole wo nl] d by auto
      have u: "invar (heap_up lt sw (fst ?d) i)"
        "elems (heap_up lt sw (fst ?d) i) = list_up before ?ys i"
        using up_refines [OF d(1), of i] ys assms(2) by auto
      moreover have "heap_ordered before (list_up before ?ys i) ?n"
        using list_up_heap [OF up wo nl n(1)] .
      moreover have "list_up before ?ys i ! ?n = elems s ! i"
        using list_up_above [OF n(1), of ?ys before] n ysn by simp
      ultimately show ?thesis
        using False eq n assms(2) by (intro exI [of _ "heap_up lt sw (fst ?d) i"]) simp
    qed
  qed
  then obtain s1 where s1: "?r = po s1" "invar s1" "length (elems s1) = length (elems s)"
    "mset (elems s1) = mset (elems s)" "elems s1 ! ?n = elems s ! i"
    "heap_ordered before (elems s1) ?n" by blast
  have ne: "elems s1 \<noteq> []" using s1(3) assms(2) by auto
  have lst: "last (elems s1) = elems s ! i" using s1(3,5) ne by (simp add: last_conv_nth)
  show "invar (snd ?r)" using po_invar [OF s1(2) ne] s1(1) by simp
  show "fst ?r = elems s ! i" using po_last [OF s1(2) ne] s1(1) lst by simp
  have el: "elems (snd ?r) = butlast (elems s1)" using po_elems [OF s1(2) ne] s1(1) by simp
  show "mset (elems (snd ?r)) = mset (elems s) - {#elems s ! i#}"
    unfolding el using mset_butlast [OF ne] s1(4) lst by simp
  show "heap_ordered before (elems (snd ?r)) (length (elems (snd ?r)))"
    unfolding el using heap_ordered_butlast [of before "elems s1"] s1(3,6) by simp
qed

end

end
