(* ===== verification/Prque.thy ===== *)
theory Prque
  imports GoHeap
begin

text \<open>
  The priority queue of the courier (fabric/courier/utils/prque): \<open>sstack\<close>, a stack kept in
  blocks of 4096 slots with an alias to the block in use, and \<open>Prque\<close>, the heap on top of it.
  The stack refines a list; the queue's operations are Go's heap operations on the stack.
\<close>

section \<open>The block stack\<close>

definition blockSize :: nat where
  "blockSize = 4096"

lemma blockSize_pos [simp]: "0 < blockSize"
  by (simp add: blockSize_def)

record 'v item =
  it_value :: 'v
  it_priority :: i64

text \<open>
  \<open>active\<close> is a Go slice that shares its memory with one of the blocks: the model keeps the
  index of that block, and writes through \<open>active\<close> are writes to the block. An unused slot
  is \<open>None\<close> (a nil pointer). \<open>ss_calls\<close> records the calls of the callback \<open>setIndex\<close>, if
  there is one, in order.
\<close>

record 'v sstack =
  ss_callback :: bool
  ss_calls :: "('v \<times> int) list"
  ss_size :: nat
  ss_capacity :: nat
  ss_offset :: nat
  ss_blocks :: "'v item option list list"
  ss_active :: nat

definition newSstack :: "bool \<Rightarrow> 'v sstack" where
  "newSstack cb = \<lparr> ss_callback = cb, ss_calls = [], ss_size = 0, ss_capacity = blockSize,
     ss_offset = 0, ss_blocks = [replicate blockSize None], ss_active = 0 \<rparr>"

definition call_setIndex :: "'v \<Rightarrow> int \<Rightarrow> 'v sstack \<Rightarrow> 'v sstack" where
  "call_setIndex v i s = (if ss_callback s then s\<lparr>ss_calls := ss_calls s @ [(v, i)]\<rparr> else s)"

definition get_slot :: "'v sstack \<Rightarrow> nat \<Rightarrow> 'v item option" where
  "get_slot s i = ss_blocks s ! (i div blockSize) ! (i mod blockSize)"

definition put_slot :: "nat \<Rightarrow> nat \<Rightarrow> 'v item option \<Rightarrow> 'v sstack \<Rightarrow> 'v sstack" where
  "put_slot b k x s = s\<lparr>ss_blocks := (ss_blocks s)[b := (ss_blocks s ! b)[k := x]]\<rparr>"

definition sstack_Push :: "'v item \<Rightarrow> 'v sstack \<Rightarrow> 'v sstack" where
  "sstack_Push data s =
     (let s1 =
        (if ss_size s = ss_capacity s then
           s\<lparr>ss_blocks := ss_blocks s @ [replicate blockSize None],
             ss_active := length (ss_blocks s),
             ss_capacity := ss_capacity s + blockSize,
             ss_offset := 0\<rparr>
         else if ss_offset s = blockSize then
           s\<lparr>ss_active := ss_size s div blockSize, ss_offset := 0\<rparr>
         else s);
        s2 = call_setIndex (it_value data) (int (ss_size s1)) s1;
        s3 = put_slot (ss_active s2) (ss_offset s2) (Some data) s2
      in s3\<lparr>ss_offset := ss_offset s3 + 1, ss_size := ss_size s3 + 1\<rparr>)"

text \<open>\<open>Pop\<close> is reached with a non-empty stack only: \<open>heap.Pop\<close> and \<open>heap.Remove\<close> index the
  last element before they call it.\<close>

definition sstack_Pop :: "'v sstack \<Rightarrow> 'v item \<times> 'v sstack" where
  "sstack_Pop s =
     (let s1 =
        (if ss_offset s = 0 then
           s\<lparr>ss_size := ss_size s - 1, ss_offset := blockSize - 1,
             ss_active := (ss_size s - 1) div blockSize\<rparr>
         else s\<lparr>ss_size := ss_size s - 1, ss_offset := ss_offset s - 1\<rparr>);
        res = the (ss_blocks s1 ! ss_active s1 ! ss_offset s1);
        s2 = put_slot (ss_active s1) (ss_offset s1) None s1
      in (res, call_setIndex (it_value res) (-1) s2))"

definition sstack_Len :: "'v sstack \<Rightarrow> nat" where
  "sstack_Len s = ss_size s"

text \<open>Priorities may wrap around: \<open>a\<close> comes before \<open>b\<close> if \<open>a - b > 0\<close> at 64 bits.\<close>

definition item_before :: "'v item \<Rightarrow> 'v item \<Rightarrow> bool" where
  "item_before a b \<longleftrightarrow> 0 < sint (it_priority a - it_priority b)"

definition sstack_Less :: "'v sstack \<Rightarrow> nat \<Rightarrow> nat \<Rightarrow> bool" where
  "sstack_Less s i j = item_before (the (get_slot s i)) (the (get_slot s j))"

definition sstack_Swap :: "'v sstack \<Rightarrow> nat \<Rightarrow> nat \<Rightarrow> 'v sstack" where
  "sstack_Swap s i j =
     (let ib = i div blockSize; io = i mod blockSize;
          jb = j div blockSize; jo = j mod blockSize;
          a = ss_blocks s ! jb ! jo; b = ss_blocks s ! ib ! io;
          s1 = call_setIndex (it_value (the a)) (int i) s;
          s2 = call_setIndex (it_value (the b)) (int j) s1
      in put_slot jb jo b (put_slot ib io a s2))"

definition sstack_Reset :: "'v sstack \<Rightarrow> 'v sstack" where
  "sstack_Reset s = (newSstack (ss_callback s))\<lparr>ss_calls := ss_calls s\<rparr>"

section \<open>The queue\<close>

definition prque_New :: "bool \<Rightarrow> 'v sstack" where
  "prque_New setIndex = newSstack setIndex"

definition prque_Push :: "'v \<Rightarrow> i64 \<Rightarrow> 'v sstack \<Rightarrow> 'v sstack" where
  "prque_Push data priority p =
     heap_push sstack_Len sstack_Less sstack_Swap sstack_Push
       \<lparr>it_value = data, it_priority = priority\<rparr> p"

definition prque_Pop :: "'v sstack \<Rightarrow> (('v \<times> i64) \<times> 'v sstack) outcome" where
  "prque_Pop p =
     (if ss_size p = 0 then Panic ''index out of range''
      else let (it, p') = heap_pop sstack_Len sstack_Less sstack_Swap sstack_Pop p
           in Ok ((it_value it, it_priority it), p'))"

definition prque_PopItem :: "'v sstack \<Rightarrow> ('v \<times> 'v sstack) outcome" where
  "prque_PopItem p = bind_outcome (prque_Pop p) (\<lambda>((v, _), p'). Ok (v, p'))"

text \<open>
  \<open>Remove\<close> returns nil for a negative index. An index at or past the size is outside what
  the heap operations allow (the Go code then moves a nil slot about); the model has no
  result there.
\<close>

definition prque_Remove :: "int \<Rightarrow> 'v sstack \<Rightarrow> ('v item option \<times> 'v sstack) option" where
  "prque_Remove i p =
     (if i < 0 then Some (None, p)
      else if nat i < ss_size p then
        (let (it, p') = heap_remove sstack_Len sstack_Less sstack_Swap sstack_Pop (nat i) p
         in Some (Some it, p'))
      else None)"

definition prque_Empty :: "'v sstack \<Rightarrow> bool" where
  "prque_Empty p \<longleftrightarrow> ss_size p = 0"

definition prque_Size :: "'v sstack \<Rightarrow> nat" where
  "prque_Size p = ss_size p"

definition prque_Reset :: "'v sstack \<Rightarrow> 'v sstack" where
  "prque_Reset p = (prque_New (ss_callback p))\<lparr>ss_calls := ss_calls p\<rparr>"

text \<open>The loop \<open>for !prq.Empty() { item, _ := prq.Pop(); ... }\<close> that the courier uses, with
  fuel; the size of the queue is enough (\<open>prque_drain_sorted\<close>).\<close>

fun prque_drain :: "nat \<Rightarrow> 'v sstack \<Rightarrow> (('v \<times> i64) list \<times> 'v sstack) option" where
  "prque_drain n p =
     (if prque_Empty p then Some ([], p)
      else case n of
        0 \<Rightarrow> None
      | Suc m \<Rightarrow>
          (case prque_Pop p of
             Ok (x, p') \<Rightarrow> map_option (\<lambda>(xs, q). (x # xs, q)) (prque_drain m p')
           | _ \<Rightarrow> None))"

declare prque_drain.simps [simp del]

section \<open>The stack refines a list\<close>

definition ss_elems :: "'v sstack \<Rightarrow> 'v item list" where
  "ss_elems s = map (\<lambda>i. the (get_slot s i)) [0..<ss_size s]"

definition ss_ok :: "'v sstack \<Rightarrow> bool" where
  "ss_ok s \<longleftrightarrow>
     ss_capacity s = blockSize * length (ss_blocks s) \<and>
     (\<forall>b \<in> set (ss_blocks s). length b = blockSize) \<and>
     ss_active s < length (ss_blocks s) \<and>
     ss_size s = blockSize * ss_active s + ss_offset s \<and>
     ss_offset s \<le> blockSize \<and>
     ss_size s \<le> ss_capacity s"

lemma length_ss_elems [simp]: "length (ss_elems s) = ss_size s"
  by (simp add: ss_elems_def)

lemma ss_elems_Nil [simp]: "ss_elems s = [] \<longleftrightarrow> ss_size s = 0"
  by (simp flip: length_0_conv)

lemma nth_ss_elems [simp]: "i < ss_size s \<Longrightarrow> ss_elems s ! i = the (get_slot s i)"
  by (simp add: ss_elems_def)

lemma call_setIndex_simps [simp]:
  "ss_size (call_setIndex v i s) = ss_size s"
  "ss_capacity (call_setIndex v i s) = ss_capacity s"
  "ss_offset (call_setIndex v i s) = ss_offset s"
  "ss_blocks (call_setIndex v i s) = ss_blocks s"
  "ss_active (call_setIndex v i s) = ss_active s"
  "ss_callback (call_setIndex v i s) = ss_callback s"
  "get_slot (call_setIndex v i s) k = get_slot s k"
  by (simp_all add: call_setIndex_def get_slot_def)

lemma ss_ok_call_setIndex [simp]: "ss_ok (call_setIndex v i s) = ss_ok s"
  by (simp add: ss_ok_def)

lemma put_slot_simps [simp]:
  "ss_size (put_slot b k x s) = ss_size s"
  "ss_capacity (put_slot b k x s) = ss_capacity s"
  "ss_offset (put_slot b k x s) = ss_offset s"
  "ss_active (put_slot b k x s) = ss_active s"
  "length (ss_blocks (put_slot b k x s)) = length (ss_blocks s)"
  by (simp_all add: put_slot_def)

lemma ss_ok_put_slot: "ss_ok s \<Longrightarrow> b < length (ss_blocks s) \<Longrightarrow> ss_ok (put_slot b k x s)"
  unfolding ss_ok_def by (auto simp: put_slot_def dest!: set_update_subset_insert [THEN subsetD])

lemma get_put_slot:
  assumes "ss_ok s" "b < length (ss_blocks s)" "k < blockSize" "i < ss_capacity s"
  shows "get_slot (put_slot b k x s) i = (if i = blockSize * b + k then x else get_slot s i)"
proof -
  have ib: "i div blockSize < length (ss_blocks s)"
    using assms(1,4) by (simp add: ss_ok_def less_mult_imp_div_less mult.commute)
  have len: "length (ss_blocks s ! b) = blockSize" using assms(1,2) by (simp add: ss_ok_def)
  have eq: "i = blockSize * b + k \<longleftrightarrow> i div blockSize = b \<and> i mod blockSize = k"
    using assms(3) by (metis div_mult_self4 mod_mult_self4 mult_div_mod_eq div_less mod_less
        blockSize_pos add.commute add.left_neutral less_not_refl)
  show ?thesis
    using assms(2,3) ib len by (auto simp: put_slot_def get_slot_def eq nth_list_update)
qed

text \<open>The first step of \<open>Push\<close>: make \<open>active\<close> the block with the next free slot.\<close>

definition next_block :: "'v sstack \<Rightarrow> 'v sstack" where
  "next_block s =
     (if ss_size s = ss_capacity s then
        s\<lparr>ss_blocks := ss_blocks s @ [replicate blockSize None],
          ss_active := length (ss_blocks s),
          ss_capacity := ss_capacity s + blockSize,
          ss_offset := 0\<rparr>
      else if ss_offset s = blockSize then
        s\<lparr>ss_active := ss_size s div blockSize, ss_offset := 0\<rparr>
      else s)"

lemma next_block_ok:
  assumes "ss_ok s"
  shows "ss_ok (next_block s)" "ss_offset (next_block s) < blockSize"
    "ss_size (next_block s) = ss_size s" "ss_size s < ss_capacity (next_block s)"
    "ss_callback (next_block s) = ss_callback s"
    "i < ss_size s \<Longrightarrow> get_slot (next_block s) i = get_slot s i"
proof -
  have full: "ss_size s = ss_capacity s \<or> ss_size s < ss_capacity s"
    using assms by (auto simp: ss_ok_def)
  have act: "ss_size s div blockSize = Suc (ss_active s)" if "ss_offset s = blockSize"
    using assms that by (simp add: ss_ok_def)
  have "Suc (ss_active s) < length (ss_blocks s)" if "ss_offset s = blockSize" "ss_size s < ss_capacity s"
  proof -
    have "blockSize * Suc (ss_active s) < blockSize * length (ss_blocks s)"
      using assms that by (simp add: ss_ok_def)
    then show ?thesis by (simp only: mult_less_cancel1)
  qed
  then show "ss_ok (next_block s)" "ss_offset (next_block s) < blockSize"
    "ss_size (next_block s) = ss_size s" "ss_size s < ss_capacity (next_block s)"
    "ss_callback (next_block s) = ss_callback s"
    using assms full act by (auto simp: ss_ok_def next_block_def)
  show "get_slot (next_block s) i = get_slot s i" if "i < ss_size s"
  proof -
    have "i div blockSize < length (ss_blocks s)"
      using assms that by (simp add: ss_ok_def less_mult_imp_div_less mult.commute)
    then show ?thesis by (auto simp: next_block_def get_slot_def nth_append)
  qed
qed

lemma sstack_Push_next_block:
  "sstack_Push data s =
     (let s2 = call_setIndex (it_value data) (int (ss_size s)) (next_block s);
          s3 = put_slot (ss_active s2) (ss_offset s2) (Some data) s2
      in s3\<lparr>ss_offset := ss_offset s3 + 1, ss_size := ss_size s3 + 1\<rparr>)"
  by (auto simp: sstack_Push_def next_block_def Let_def)

lemma get_slot_size_offset [simp]:
  "get_slot (s\<lparr>ss_offset := a, ss_size := b\<rparr>) i = get_slot s i"
  "get_slot (s\<lparr>ss_size := b, ss_offset := a\<rparr>) i = get_slot s i"
  "get_slot (s\<lparr>ss_size := b, ss_offset := a, ss_active := c\<rparr>) i = get_slot s i"
  by (simp_all add: get_slot_def)

lemma sstack_Push_correct:
  assumes "ss_ok s"
  shows "ss_ok (sstack_Push x s)" "ss_elems (sstack_Push x s) = ss_elems s @ [x]"
proof -
  let ?s1 = "call_setIndex (it_value x) (int (ss_size s)) (next_block s)"
  let ?a = "ss_active (next_block s)" and ?o = "ss_offset (next_block s)"
  note nb = next_block_ok [OF assms]
  have ok1: "ss_ok ?s1" using nb by simp
  have act: "?a < length (ss_blocks ?s1)" "?o < blockSize" "ss_size s < ss_capacity ?s1"
    using ok1 nb by (auto simp: ss_ok_def)
  have sz: "blockSize * ?a + ?o = ss_size s" using nb(1,3) by (simp add: ss_ok_def)
  have slot: "get_slot (put_slot ?a ?o (Some x) ?s1) i =
      (if i = ss_size s then Some x else get_slot s i)" if "i \<le> ss_size s" for i
    using get_put_slot [OF ok1 act(1,2), of i "Some x"] act that nb(6) [of i] by (simp add: sz)
  have "ss_ok (put_slot ?a ?o (Some x) ?s1)" using ss_ok_put_slot [OF ok1 act(1)] .
  then show "ss_ok (sstack_Push x s)"
    using act sz nb(3) by (simp add: sstack_Push_next_block Let_def ss_ok_def)
  show "ss_elems (sstack_Push x s) = ss_elems s @ [x]"
    by (rule nth_equalityI)
       (auto simp: sstack_Push_next_block Let_def nb(3) nth_append less_Suc_eq slot)
qed

text \<open>The first step of \<open>Pop\<close>: make \<open>active\<close> the block with the last element.\<close>

definition prev_block :: "'v sstack \<Rightarrow> 'v sstack" where
  "prev_block s =
     (if ss_offset s = 0 then
        s\<lparr>ss_size := ss_size s - 1, ss_offset := blockSize - 1,
          ss_active := (ss_size s - 1) div blockSize\<rparr>
      else s\<lparr>ss_size := ss_size s - 1, ss_offset := ss_offset s - 1\<rparr>)"

lemma prev_block_simps [simp]:
  "ss_blocks (prev_block s) = ss_blocks s" "ss_size (prev_block s) = ss_size s - 1"
  "ss_capacity (prev_block s) = ss_capacity s" "get_slot (prev_block s) i = get_slot s i"
  by (simp_all add: prev_block_def get_slot_def)

lemma prev_block_ok:
  assumes ok: "ss_ok s" and sz: "0 < ss_size s"
  shows "ss_ok (prev_block s) \<and> ss_offset (prev_block s) < blockSize \<and>
    blockSize * ss_active (prev_block s) + ss_offset (prev_block s) = ss_size s - 1"
proof (cases "ss_offset s = 0")
  case False
  with ok sz show ?thesis by (auto simp: ss_ok_def prev_block_def)
next
  case True
  then have e: "ss_size s = blockSize * ss_active s" "0 < ss_active s"
    using ok sz by (auto simp: ss_ok_def)
  have m: "ss_size s - 1 = blockSize * (ss_active s - 1) + (blockSize - 1)"
  proof -
    obtain k where k: "ss_active s = Suc k" using e(2) by (cases "ss_active s") auto
    then have "ss_size s = blockSize + blockSize * k" using e by simp
    moreover have "1 \<le> blockSize" by (simp add: blockSize_def)
    ultimately show ?thesis using k by simp
  qed
  then have d: "(ss_size s - 1) div blockSize = ss_active s - 1" by simp
  have "ss_size s \<le> blockSize * length (ss_blocks s)" using ok by (simp add: ss_ok_def)
  then have le: "ss_size s - 1 \<le> blockSize * length (ss_blocks s)"
    by (rule le_trans [OF diff_le_self])
  have a: "ss_active s - 1 < length (ss_blocks s)"
    and c: "ss_capacity s = blockSize * length (ss_blocks s)"
    and b: "\<forall>b \<in> set (ss_blocks s). length b = blockSize"
    using ok by (auto simp: ss_ok_def)
  have s1: "prev_block s = s\<lparr>ss_size := ss_size s - 1, ss_offset := blockSize - 1,
      ss_active := ss_active s - 1\<rparr>" using True d by (simp add: prev_block_def)
  show ?thesis unfolding s1 ss_ok_def using m le a b c by (simp add: blockSize_def)
qed

lemma sstack_Pop_prev_block:
  "sstack_Pop s =
     (let s1 = prev_block s;
          res = the (ss_blocks s1 ! ss_active s1 ! ss_offset s1)
      in (res, call_setIndex (it_value res) (-1) (put_slot (ss_active s1) (ss_offset s1) None s1)))"
  by (simp add: sstack_Pop_def prev_block_def Let_def)

lemma sstack_Pop_correct:
  assumes ok: "ss_ok s" and sz: "0 < ss_size s"
  shows "ss_ok (snd (sstack_Pop s))" "fst (sstack_Pop s) = last (ss_elems s)"
    "ss_elems (snd (sstack_Pop s)) = butlast (ss_elems s)"
proof -
  let ?a = "ss_active (prev_block s)" and ?o = "ss_offset (prev_block s)"
  have ok1: "ss_ok (prev_block s)" and o: "?o < blockSize"
    and at: "blockSize * ?a + ?o = ss_size s - 1"
    using prev_block_ok [OF assms] by auto
  have a: "?a < length (ss_blocks (prev_block s))" using ok1 by (simp add: ss_ok_def)
  have res: "ss_blocks s ! ?a ! ?o = get_slot s (ss_size s - 1)"
    unfolding get_slot_def at [symmetric] using o by simp
  show "fst (sstack_Pop s) = last (ss_elems s)"
    using sz by (simp add: sstack_Pop_prev_block Let_def res last_conv_nth)
  show "ss_ok (snd (sstack_Pop s))"
    using ss_ok_put_slot [OF ok1 a] by (simp add: sstack_Pop_prev_block Let_def)
  show "ss_elems (snd (sstack_Pop s)) = butlast (ss_elems s)"
  proof (rule nth_equalityI)
    fix i assume "i < length (ss_elems (snd (sstack_Pop s)))"
    then have i: "i < ss_size s - 1" by (simp add: sstack_Pop_prev_block Let_def)
    have "ss_size s \<le> ss_capacity s" using ok by (simp add: ss_ok_def)
    with i have "i < ss_capacity s" by linarith
    then have "get_slot (put_slot ?a ?o None (prev_block s)) i = get_slot s i"
      using get_put_slot [OF ok1 a o, of i None] at i by simp
    with i show "ss_elems (snd (sstack_Pop s)) ! i = butlast (ss_elems s) ! i"
      by (simp add: sstack_Pop_prev_block Let_def nth_butlast)
  qed (simp add: sstack_Pop_prev_block Let_def)
qed

lemma sstack_Swap_correct:
  assumes ok: "ss_ok s" and i: "i < ss_size s" and j: "j < ss_size s"
  shows "ss_ok (sstack_Swap s i j)" "ss_elems (sstack_Swap s i j) = list_swap (ss_elems s) i j"
proof -
  let ?a = "get_slot s j" and ?b = "get_slot s i"
  let ?s2 = "call_setIndex (it_value (the ?b)) (int j) (call_setIndex (it_value (the ?a)) (int i) s)"
  let ?s3 = "put_slot (i div blockSize) (i mod blockSize) ?a ?s2"
  have eq: "sstack_Swap s i j = put_slot (j div blockSize) (j mod blockSize) ?b ?s3"
    by (simp add: sstack_Swap_def Let_def get_slot_def)
  have div: "k div blockSize < length (ss_blocks s)" if "k < ss_size s" for k
    using ok that by (simp add: ss_ok_def less_mult_imp_div_less mult.commute)
  have ok2: "ss_ok ?s2" using ok by simp
  have ok3: "ss_ok ?s3" using ss_ok_put_slot [OF ok2] div [OF i] by simp
  show "ss_ok (sstack_Swap s i j)" unfolding eq using ss_ok_put_slot [OF ok3] div [OF j] by simp
  have cap: "k < ss_capacity s" if "k < ss_size s" for k using ok that by (simp add: ss_ok_def)
  have "get_slot (sstack_Swap s i j) k = (if k = j then ?b else if k = i then ?a else get_slot s k)"
    if "k < ss_size s" for k
    unfolding eq
    using get_put_slot [OF ok3, of "j div blockSize" "j mod blockSize" k ?b]
      get_put_slot [OF ok2, of "i div blockSize" "i mod blockSize" k ?a] div i j cap that
    by simp
  then show "ss_elems (sstack_Swap s i j) = list_swap (ss_elems s) i j"
    using i j by (intro nth_equalityI) (auto simp: eq nth_list_swap)
qed

interpretation pq: heap_interface sstack_Len sstack_Less sstack_Swap sstack_Push sstack_Pop
  ss_elems ss_ok item_before
proof unfold_locales
  fix s :: "'a sstack" and i j :: nat and x :: "'a item"
  assume ok: "ss_ok s"
  show "sstack_Len s = length (ss_elems s)" by (simp add: sstack_Len_def)
  show "ss_ok (sstack_Push x s)" "ss_elems (sstack_Push x s) = ss_elems s @ [x]"
    using ok sstack_Push_correct by auto
  show "i < length (ss_elems s) \<Longrightarrow> j < length (ss_elems s) \<Longrightarrow>
      sstack_Less s i j = item_before (ss_elems s ! i) (ss_elems s ! j)"
    by (simp add: sstack_Less_def)
  show "i < length (ss_elems s) \<Longrightarrow> j < length (ss_elems s) \<Longrightarrow>
      ss_elems (sstack_Swap s i j) = list_swap (ss_elems s) i j"
    and "i < length (ss_elems s) \<Longrightarrow> j < length (ss_elems s) \<Longrightarrow> ss_ok (sstack_Swap s i j)"
    using ok sstack_Swap_correct by auto
  assume "ss_elems s \<noteq> []"
  then have "0 < ss_size s" by (simp add: ss_elems_def)
  then show "fst (sstack_Pop s) = last (ss_elems s)"
    and "ss_elems (snd (sstack_Pop s)) = butlast (ss_elems s)" and "ss_ok (snd (sstack_Pop s))"
    using ok sstack_Pop_correct by auto
qed

section \<open>Queue invariant\<close>

text \<open>
  The comment in sstack.go: the difference between the lowest and the highest priority in
  the queue should be less than \<open>2 ^ 63\<close>. Within such a window the wrapped comparison is the
  order of the priorities.
\<close>

definition in_window :: "'v item multiset \<Rightarrow> bool" where
  "in_window M \<longleftrightarrow>
     (\<forall>a \<in># M. \<forall>b \<in># M. \<bar>sint (it_priority a) - sint (it_priority b)\<bar> < 2 ^ 63)"

abbreviation prque_items :: "'v sstack \<Rightarrow> 'v item multiset" where
  "prque_items q \<equiv> mset (ss_elems q)"

definition prque_ok :: "'v sstack \<Rightarrow> bool" where
  "prque_ok q \<longleftrightarrow> ss_ok q \<and> in_window (prque_items q) \<and>
     heap_ordered item_before (ss_elems q) (ss_size q)"

lemma item_before_window:
  assumes "\<bar>sint (it_priority a) - sint (it_priority b)\<bar> < 2 ^ 63"
  shows "item_before a b \<longleftrightarrow> sint (it_priority a) > sint (it_priority b)"
proof -
  have "signed_take_bit 63 (sint (it_priority a) - sint (it_priority b))
      = sint (it_priority a) - sint (it_priority b)"
    using assms by (intro signed_take_bit_int_eq_self) auto
  then show ?thesis by (simp add: item_before_def sint_word_ariths)
qed

lemma in_window_weak_order: "in_window M \<Longrightarrow> weak_order_on item_before (set_mset M)"
  by (rule weak_order_key [where key = "\<lambda>it. sint (it_priority it)"])
     (auto simp: in_window_def item_before_window)

lemma in_window_mono: "in_window N \<Longrightarrow> M \<subseteq># N \<Longrightarrow> in_window M"
  unfolding in_window_def by (meson mset_subset_eqD)

lemma prque_ok_New [simp]: "prque_ok (prque_New cb)" "prque_items (prque_New cb) = {#}"
  by (auto simp: prque_ok_def prque_New_def newSstack_def ss_ok_def in_window_def
      heap_ordered_def ss_elems_def)

lemma prque_Size_items: "prque_Size q = size (prque_items q)"
  by (simp add: prque_Size_def)

lemma prque_Empty_items: "prque_Empty q \<longleftrightarrow> prque_items q = {#}"
  by (simp add: prque_Empty_def flip: length_0_conv)

lemma prque_Push_ok:
  assumes "prque_ok q" "in_window (add_mset \<lparr>it_value = v, it_priority = p\<rparr> (prque_items q))"
  shows "prque_ok (prque_Push v p q)"
    and "prque_items (prque_Push v p q) = add_mset \<lparr>it_value = v, it_priority = p\<rparr> (prque_items q)"
proof -
  let ?x = "\<lparr>it_value = v, it_priority = p\<rparr>"
  have wo: "weak_order_on item_before (insert ?x (set (ss_elems q)))"
    using in_window_weak_order [OF assms(2)] by simp
  note r = pq.push_correct [OF _ wo]
  show "prque_items (prque_Push v p q) = add_mset ?x (prque_items q)"
    using r(2) assms(1) by (simp add: prque_ok_def prque_Push_def)
  then show "prque_ok (prque_Push v p q)"
    using r(1,3) assms by (simp add: prque_ok_def prque_Push_def)
qed

lemma prque_Pop_ok:
  assumes "prque_ok q" "prque_items q \<noteq> {#}"
  obtains v p q' where "prque_Pop q = Ok ((v, p), q')" "prque_ok q'"
    "prque_items q = add_mset \<lparr>it_value = v, it_priority = p\<rparr> (prque_items q')"
    "\<forall>it \<in># prque_items q. sint (it_priority it) \<le> sint p"
proof -
  let ?r = "heap_pop sstack_Len sstack_Less sstack_Swap sstack_Pop q"
  have ne: "ss_elems q \<noteq> []" "0 < ss_size q" using assms(2) by auto
  have win: "in_window (prque_items q)" and ok: "ss_ok q"
    and ho: "heap_ordered item_before (ss_elems q) (length (ss_elems q))"
    using assms(1) by (auto simp: prque_ok_def)
  have wo: "weak_order_on item_before (set (ss_elems q))" using in_window_weak_order [OF win] by simp
  note r = pq.pop_correct [OF ok ne(1) wo ho]
  let ?it = "ss_elems q ! 0"
  have mem: "?it \<in># prque_items q" using ne nth_mem [of 0 "ss_elems q"] by simp
  have items: "prque_items q = add_mset ?it (prque_items (snd ?r))"
    using r(4) mem by simp
  show ?thesis
  proof (rule that [of "it_value ?it" "it_priority ?it" "snd ?r"])
    show "prque_Pop q = Ok ((it_value ?it, it_priority ?it), snd ?r)"
      using ne r(2) by (simp add: prque_Pop_def split_beta)
    have "in_window (prque_items (snd ?r))"
      by (rule in_window_mono [OF win]) (simp add: items)
    then show "prque_ok (snd ?r)" using r(1,5) by (simp add: prque_ok_def)
    show "prque_items q = add_mset \<lparr>it_value = it_value ?it, it_priority = it_priority ?it\<rparr>
        (prque_items (snd ?r))"
      using items by simp
    show "\<forall>it \<in># prque_items q. sint (it_priority it) \<le> sint (it_priority ?it)"
    proof
      fix it assume it: "it \<in># prque_items q"
      then have "\<not> item_before it ?it" using r(2,3) by simp
      then show "sint (it_priority it) \<le> sint (it_priority ?it)"
        using item_before_window [of it ?it] win it mem by (auto simp: in_window_def not_less)
    qed
  qed
qed

section \<open>Properties\<close>

text \<open>Pushing keeps the queue's invariant (blocks, heap order, priority window) and adds
  exactly the pushed item.\<close>

theorem prque_Push_correct:
  assumes "prque_ok q" "in_window (add_mset \<lparr>it_value = v, it_priority = p\<rparr> (prque_items q))"
  shows "prque_ok (prque_Push v p q) \<and>
    prque_items (prque_Push v p q) = add_mset \<lparr>it_value = v, it_priority = p\<rparr> (prque_items q)"
  using prque_Push_ok [OF assms] by blast

theorem prque_Push_correct_witness:
  "prque_ok (prque_Push ''a'' 7 (prque_New True)) \<and>
   prque_items (prque_Push ''a'' 7 (prque_New True)) = {#\<lparr>it_value = ''a'', it_priority = 7\<rparr>#}"
  using prque_Push_correct [OF prque_ok_New(1) [of True], of "''a''" 7] by (simp add: in_window_def)

text \<open>Popping a non-empty queue never panics, returns an item of the greatest priority, removes
  exactly that item and keeps the invariant.\<close>

theorem prque_Pop_max:
  assumes "prque_ok q" "prque_items q \<noteq> {#}"
  shows "\<exists>v p q'. prque_Pop q = Ok ((v, p), q') \<and> prque_ok q' \<and>
    prque_items q = add_mset \<lparr>it_value = v, it_priority = p\<rparr> (prque_items q') \<and>
    (\<forall>it \<in># prque_items q. sint (it_priority it) \<le> sint p)"
  using prque_Pop_ok [OF assms] by metis

theorem prque_Pop_max_witness:
  "\<exists>v p q'. prque_Pop (prque_Push CHR ''x'' 4 (prque_New False)) = Ok ((v, p), q') \<and> prque_ok q' \<and>
    {#\<lparr>it_value = CHR ''x'', it_priority = 4\<rparr>#}
      = add_mset \<lparr>it_value = v, it_priority = p\<rparr> (prque_items q') \<and> sint p \<ge> 4"
proof -
  have "prque_ok (prque_Push CHR ''x'' 4 (prque_New False))"
    and items: "prque_items (prque_Push CHR ''x'' 4 (prque_New False))
      = {#\<lparr>it_value = CHR ''x'', it_priority = 4\<rparr>#}"
    using prque_Push_ok [OF prque_ok_New(1) [of False], of "CHR ''x''" 4]
    by (simp_all add: in_window_def)
  from prque_Pop_max [OF this(1)] items show ?thesis by simp
qed

lemma prque_drain_correct:
  assumes "prque_ok q" "n = size (prque_items q)"
  shows "\<exists>xs q'. prque_drain n q = Some (xs, q') \<and> prque_ok q' \<and> prque_items q' = {#} \<and>
    mset (map (\<lambda>(v, p). \<lparr>it_value = v, it_priority = p\<rparr>) xs) = prque_items q \<and>
    sorted_wrt (\<lambda>a b. sint (snd b) \<le> sint (snd a)) xs"
  using assms
proof (induction n arbitrary: q)
  case 0
  then show ?case by (auto simp: prque_drain.simps prque_Empty_items)
next
  case (Suc n)
  then have "prque_items q \<noteq> {#}" by auto
  from prque_Pop_ok [OF Suc.prems(1) this] obtain v p q1 where pop: "prque_Pop q = Ok ((v, p), q1)"
    "prque_ok q1" "prque_items q = add_mset \<lparr>it_value = v, it_priority = p\<rparr> (prque_items q1)"
    "\<forall>it \<in># prque_items q. sint (it_priority it) \<le> sint p" by blast
  then have "n = size (prque_items q1)" using Suc.prems(2) by (simp del: size_mset)
  from Suc.IH [OF pop(2) this] obtain xs q' where IH: "prque_drain n q1 = Some (xs, q')"
    "prque_ok q'" "prque_items q' = {#}"
    "mset (map (\<lambda>(v, p). \<lparr>it_value = v, it_priority = p\<rparr>) xs) = prque_items q1"
    "sorted_wrt (\<lambda>a b. sint (snd b) \<le> sint (snd a)) xs" by blast
  have "\<forall>x \<in> set xs. sint (snd x) \<le> sint p"
  proof
    fix x assume "x \<in> set xs"
    then have "\<lparr>it_value = fst x, it_priority = snd x\<rparr> \<in># prque_items q1"
      unfolding IH(4) [symmetric] by (auto simp: split_beta)
    with pop(3,4) have "sint (it_priority \<lparr>it_value = fst x, it_priority = snd x\<rparr>) \<le> sint p"
      by (metis insert_iff set_mset_add_mset_insert)
    then show "sint (snd x) \<le> sint p" by simp
  qed
  with IH pop \<open>prque_items q \<noteq> {#}\<close> show ?case
    by (subst prque_drain.simps) (auto simp: prque_Empty_items)
qed

text \<open>C18: the loop that empties the queue ends after as many rounds as there are items, and yields
  all of them in descending order of priority.\<close>

theorem prque_drain_sorted:
  assumes "prque_ok q"
  shows "\<exists>xs q'. prque_drain (prque_Size q) q = Some (xs, q') \<and> prque_Empty q' \<and>
    mset (map (\<lambda>(v, p). \<lparr>it_value = v, it_priority = p\<rparr>) xs) = prque_items q \<and>
    sorted_wrt (\<lambda>a b. sint (snd b) \<le> sint (snd a)) xs"
  using prque_drain_correct [OF assms refl]
  by (metis prque_Empty_items prque_Size_items)

theorem prque_drain_sorted_witness:
  "\<exists>xs q'. prque_drain 2 (prque_Push CHR ''b'' 9 (prque_Push CHR ''a'' 4 (prque_New False)))
       = Some (xs, q') \<and> prque_Empty q' \<and>
     mset (map (\<lambda>(v, p). \<lparr>it_value = v, it_priority = p\<rparr>) xs)
       = {#\<lparr>it_value = CHR ''b'', it_priority = 9\<rparr>, \<lparr>it_value = CHR ''a'', it_priority = 4\<rparr>#} \<and>
     sorted_wrt (\<lambda>a b. sint (snd b) \<le> sint (snd a)) xs"
proof -
  let ?q1 = "prque_Push CHR ''a'' 4 (prque_New False)"
  let ?q2 = "prque_Push CHR ''b'' 9 ?q1"
  have q1: "prque_ok ?q1" "prque_items ?q1 = {#\<lparr>it_value = CHR ''a'', it_priority = 4\<rparr>#}"
    using prque_Push_ok [OF prque_ok_New(1) [of False], of "CHR ''a''" 4]
    by (simp_all add: in_window_def)
  have q2: "prque_ok ?q2" "prque_items ?q2
      = {#\<lparr>it_value = CHR ''b'', it_priority = 9\<rparr>, \<lparr>it_value = CHR ''a'', it_priority = 4\<rparr>#}"
    using prque_Push_ok [OF q1(1), of "CHR ''b''" 9] q1(2)
    by (simp_all add: in_window_def)
  have "prque_Size ?q2 = 2" unfolding prque_Size_items q2(2) by simp
  with prque_drain_sorted [OF q2(1)] q2(2) show ?thesis by simp
qed

end
