(* ===== verification/GoText.thy ===== *)
theory GoText
  imports Prelude
begin

text \<open>
  The parts of Go's \<open>strings\<close>, \<open>strconv\<close>, \<open>encoding/hex\<close> and \<open>math/big\<close> the
  program uses, executable, with their round trips: substring search and splitting,
  decimal numbers at 64 bits with the clamped results of a failed parse, hexadecimal, and
  big-endian byte strings.
\<close>

section \<open>Substrings\<close>

fun starts_with :: "string \<Rightarrow> string \<Rightarrow> bool" where
  "starts_with s [] = True"
| "starts_with [] (c # t) = False"
| "starts_with (a # s) (b # t) = (a = b \<and> starts_with s t)"

text \<open>\<open>strings.Index\<close>, with \<open>None\<close> for \<open>-1\<close>.\<close>

fun index_of :: "string \<Rightarrow> string \<Rightarrow> nat option" where
  "index_of [] t = (if t = [] then Some 0 else None)"
| "index_of (c # s) t =
     (if starts_with (c # s) t then Some 0 else map_option Suc (index_of s t))"

definition contains :: "string \<Rightarrow> string \<Rightarrow> bool" where
  "contains s t \<longleftrightarrow> index_of s t \<noteq> None"

text \<open>\<open>strings.LastIndex\<close>.\<close>

fun last_index_of :: "string \<Rightarrow> string \<Rightarrow> nat option" where
  "last_index_of [] t = (if t = [] then Some 0 else None)"
| "last_index_of (c # s) t =
     (case last_index_of s t of
        Some i \<Rightarrow> Some (Suc i)
      | None \<Rightarrow> if starts_with (c # s) t then Some 0 else None)"

lemma starts_with_iff: "starts_with s t \<longleftrightarrow> (\<exists>r. s = t @ r)"
  by (induction s t rule: starts_with.induct) auto

lemma starts_with_append [simp]: "starts_with (t @ r) t"
  by (auto simp: starts_with_iff)

lemma index_of_Some:
  "index_of s t = Some i \<Longrightarrow> \<exists>r. s = take i s @ t @ r \<and> i + length t \<le> length s"
proof (induction s t arbitrary: i rule: index_of.induct)
  case (1 t)
  then show ?case by (auto split: if_splits)
next
  case (2 c s t)
  show ?case
  proof (cases "starts_with (c # s) t")
    case True
    then obtain r where r: "c # s = t @ r" by (auto simp: starts_with_iff)
    from True "2.prems" have "i = 0" by simp
    moreover from r have "length t \<le> length (c # s)" by simp
    ultimately show ?thesis using r by (intro exI [of _ r]) simp
  next
    case False
    with "2.prems" obtain j where j: "index_of s t = Some j" "i = Suc j" by auto
    from "2.IH" [OF False j(1)] obtain r where "s = take j s @ t @ r" "j + length t \<le> length s"
      by blast
    with j(2) show ?thesis by (intro exI [of _ r]) simp
  qed
qed

lemma index_of_append: "\<exists>i. index_of (a @ t @ b) t = Some i"
proof (induction a)
  case Nil
  have "starts_with (t @ b) t" by simp
  then show ?case by (cases "t @ b") (auto split: if_splits)
next
  case (Cons c a)
  then show ?case by auto
qed

lemma contains_iff: "contains s t \<longleftrightarrow> (\<exists>a b. s = a @ t @ b)"
proof
  assume "contains s t"
  then obtain i where "index_of s t = Some i" by (auto simp: contains_def)
  from index_of_Some [OF this] show "\<exists>a b. s = a @ t @ b" by blast
next
  assume "\<exists>a b. s = a @ t @ b"
  then show "contains s t"
    unfolding contains_def using index_of_append by fastforce
qed

lemma contains_refl [simp]: "contains t t"
  by (auto simp: contains_iff intro: exI [of _ "[]"])

lemma contains_prefix: "contains s t \<Longrightarrow> contains (a @ s) t"
  by (metis append.assoc contains_iff)

text \<open>\<open>strings.Split(s, sep)\<close> for a separator of one character.\<close>

fun split_on :: "char \<Rightarrow> string \<Rightarrow> string list" where
  "split_on c [] = [[]]"
| "split_on c (x # xs) =
     (if x = c then [] # split_on c xs
      else (x # hd (split_on c xs)) # tl (split_on c xs))"

fun join_with :: "char \<Rightarrow> string list \<Rightarrow> string" where
  "join_with c [] = []"
| "join_with c [w] = w"
| "join_with c (w # ws) = w @ c # join_with c ws"

lemma split_on_nonempty [simp]: "split_on c xs \<noteq> []"
  by (cases xs) auto

lemma split_on_word: "c \<notin> set w \<Longrightarrow> split_on c w = [w]"
  by (induction w) auto

lemma split_on_append: "c \<notin> set w \<Longrightarrow> split_on c (w @ c # r) = w # split_on c r"
  by (induction w) auto

lemma split_join:
  "ws \<noteq> [] \<Longrightarrow> (\<forall>w \<in> set ws. c \<notin> set w) \<Longrightarrow> split_on c (join_with c ws) = ws"
  by (induction c ws rule: join_with.induct) (auto simp: split_on_word split_on_append)

lemma join_split: "join_with c (split_on c s) = s"
proof (induction s)
  case Nil
  then show ?case by simp
next
  case (Cons x xs)
  then show ?case by (cases "split_on c xs"; cases "tl (split_on c xs)") auto
qed

section \<open>File names\<close>

text \<open>\<open>filepath.Clean\<close>: the elements of the path from the left, \<open>..\<close> taking back the one before it.\<close>

fun clean_elems :: "bool \<Rightarrow> string list \<Rightarrow> string list \<Rightarrow> string list" where
  "clean_elems rooted [] out = rev out"
| "clean_elems rooted (w # ws) out =
     (if w = [] \<or> w = ''.'' then clean_elems rooted ws out
      else if w = ''..'' then
        (case out of
           [] \<Rightarrow> clean_elems rooted ws (if rooted then [] else [''..''])
         | v # vs \<Rightarrow> clean_elems rooted ws (if v = ''..'' then ''..'' # out else vs))
      else clean_elems rooted ws (w # out))"

definition path_clean :: "string \<Rightarrow> string" where
  "path_clean path =
     (let rooted = starts_with path ''/'';
          body = join_with (CHR ''/'') (clean_elems rooted (split_on (CHR ''/'') path) []) in
      if rooted then CHR ''/'' # body else if body = [] then ''.'' else body)"

text \<open>\<open>filepath.Base\<close> and \<open>filepath.Join\<close> of two elements.\<close>

definition path_base :: "string \<Rightarrow> string" where
  "path_base path =
     (if path = [] then ''.''
      else case filter (\<lambda>w. w \<noteq> []) (split_on (CHR ''/'') path) of [] \<Rightarrow> ''/'' | ws \<Rightarrow> last ws)"

definition path_join :: "string \<Rightarrow> string \<Rightarrow> string" where
  "path_join dir file =
     (if dir = [] then (if file = [] then [] else path_clean file) else path_clean (dir @ ''/'' @ file))"

lemma path_clean_simple:
  "CHR ''/'' \<notin> set w \<Longrightarrow> w \<notin> {[], ''.'', ''..''} \<Longrightarrow> path_clean w = w"
  by (cases w) (auto simp: path_clean_def split_on_word)

lemma path_clean_dot:
  "CHR ''/'' \<notin> set w \<Longrightarrow> w \<notin> {[], ''.'', ''..''} \<Longrightarrow> path_clean (''./'' @ w) = w"
  using split_on_append [of "CHR ''/''" "''.''" w] by (simp add: path_clean_def split_on_word)

lemma path_base_simple: "CHR ''/'' \<notin> set w \<Longrightarrow> w \<noteq> [] \<Longrightarrow> path_base w = w"
  by (simp add: path_base_def split_on_word)

section \<open>Decimal numbers\<close>

definition digit_char :: "nat \<Rightarrow> char" where
  "digit_char d = char_of (48 + d)"

definition digit_val :: "char \<Rightarrow> nat option" where
  "digit_val c = (let n = of_char c in if 48 \<le> n \<and> n \<le> 57 then Some (n - 48) else None)"

fun show_nat :: "nat \<Rightarrow> string" where
  "show_nat n = (if n < 10 then [digit_char n] else show_nat (n div 10) @ [digit_char (n mod 10)])"

declare show_nat.simps [simp del]

text \<open>
  \<open>strconv.ParseUint(s, 10, 64)\<close> without its first test for an empty string: digits are
  read from the left, so an overflow is reported before a bad character behind it.
\<close>

datatype num_err = ErrSyntax | ErrRange

fun parse_uint :: "nat \<Rightarrow> string \<Rightarrow> num_err + nat" where
  "parse_uint acc [] = Inr acc"
| "parse_uint acc (c # cs) =
     (case digit_val c of
        None \<Rightarrow> Inl ErrSyntax
      | Some d \<Rightarrow> if 10 * acc + d \<ge> 2 ^ 64 then Inl ErrRange else parse_uint (10 * acc + d) cs)"

text \<open>
  \<open>strconv.Atoi\<close> (on a 64-bit platform) and \<open>strconv.ParseInt(s, 10, 64)\<close>: the value
  and the error. A syntax error returns 0, a range error the nearest representable number.
\<close>

definition parse_signed :: "bool \<Rightarrow> string \<Rightarrow> i64 \<times> num_err option" where
  "parse_signed neg cs =
     (if cs = [] then (0, Some ErrSyntax)
      else case parse_uint 0 cs of
        Inl ErrSyntax \<Rightarrow> (0, Some ErrSyntax)
      | Inl ErrRange \<Rightarrow>
          if neg then (word_of_int (- (2 ^ 63)), Some ErrRange)
          else (word_of_int (2 ^ 63 - 1), Some ErrRange)
      | Inr n \<Rightarrow>
          if \<not> neg \<and> n \<ge> 2 ^ 63 then (word_of_int (2 ^ 63 - 1), Some ErrRange)
          else if neg \<and> n > 2 ^ 63 then (word_of_int (- (2 ^ 63)), Some ErrRange)
          else (word_of_int (if neg then - int n else int n), None))"

definition atoi :: "string \<Rightarrow> i64 \<times> num_err option" where
  "atoi s =
     (case s of
        [] \<Rightarrow> (0, Some ErrSyntax)
      | c # cs \<Rightarrow>
          if c = CHR ''-'' then parse_signed True cs
          else if c = CHR ''+'' then parse_signed False cs
          else parse_signed False (c # cs))"

definition itoa :: "i64 \<Rightarrow> string" where
  "itoa w = (if sint w < 0 then CHR ''-'' # show_nat (nat (- sint w)) else show_nat (nat (sint w)))"

text \<open>\<open>(*big.Int).SetString(s, 10)\<close>: no bound on the size, \<open>None\<close> for \<open>ok = false\<close>.\<close>

fun parse_nat :: "nat \<Rightarrow> string \<Rightarrow> nat option" where
  "parse_nat acc [] = Some acc"
| "parse_nat acc (c # cs) =
     (case digit_val c of None \<Rightarrow> None | Some d \<Rightarrow> parse_nat (10 * acc + d) cs)"

definition big_set_string :: "string \<Rightarrow> int option" where
  "big_set_string s =
     (case s of
        [] \<Rightarrow> None
      | c # cs \<Rightarrow>
          if c = CHR ''-'' then (if cs = [] then None else map_option (\<lambda>n. - int n) (parse_nat 0 cs))
          else if c = CHR ''+'' then (if cs = [] then None else map_option int (parse_nat 0 cs))
          else map_option int (parse_nat 0 (c # cs)))"

lemma digit_val_char [simp]: "d < 10 \<Longrightarrow> digit_val (digit_char d) = Some d"
  by (simp add: digit_val_def digit_char_def)

lemma digit_char_sign: "d < 10 \<Longrightarrow> digit_char d \<noteq> CHR ''-'' \<and> digit_char d \<noteq> CHR ''+''"
proof -
  assume "d < 10"
  then have "digit_val (digit_char d) = Some d" by simp
  moreover have "digit_val (CHR ''-'') = None" "digit_val (CHR ''+'') = None"
    by (simp_all add: digit_val_def)
  ultimately show ?thesis by auto
qed

lemma show_nat_nonempty [simp]: "show_nat n \<noteq> []"
  by (subst show_nat.simps) simp

lemma hd_show_nat: "\<exists>d < 10. hd (show_nat n) = digit_char d"
proof (induction n rule: show_nat.induct)
  case (1 n)
  then show ?case by (subst (1) show_nat.simps) auto
qed

lemma parse_uint_append_digit:
  "parse_uint acc (cs @ [digit_char d]) =
     (case parse_uint acc cs of
        Inl e \<Rightarrow> Inl e
      | Inr n \<Rightarrow> if 10 * n + d \<ge> 2 ^ 64 then Inl ErrRange else Inr (10 * n + d))"
  if "d < 10"
  using that by (induction acc cs rule: parse_uint.induct) (auto split: option.splits)

lemma parse_uint_show_nat: "n < 2 ^ 64 \<Longrightarrow> parse_uint 0 (show_nat n) = Inr n"
proof (induction n rule: show_nat.induct)
  case (1 n)
  show ?case
  proof (cases "n < 10")
    case True
    then show ?thesis by (subst show_nat.simps) simp
  next
    case False
    have "n div 10 < 2 ^ 64" using "1.prems" by (rule le_less_trans [OF div_le_dividend])
    with "1.IH" False have "parse_uint 0 (show_nat (n div 10)) = Inr (n div 10)" by simp
    with False "1.prems" show ?thesis
      by (subst show_nat.simps) (simp add: parse_uint_append_digit)
  qed
qed

lemma parse_nat_append_digit:
  "parse_nat acc (cs @ [digit_char d]) = map_option (\<lambda>n. 10 * n + d) (parse_nat acc cs)"
  if "d < 10"
  using that by (induction acc cs rule: parse_nat.induct) (auto split: option.splits)

lemma parse_nat_show_nat: "parse_nat 0 (show_nat n) = Some n"
proof (induction n rule: show_nat.induct)
  case (1 n)
  then show ?case
    by (cases "n < 10") (subst show_nat.simps; simp add: parse_nat_append_digit)+
qed

lemma big_set_string_show_nat: "big_set_string (show_nat n) = Some (int n)"
proof -
  obtain d where "d < 10" "hd (show_nat n) = digit_char d" using hd_show_nat by blast
  then show ?thesis
    using digit_char_sign [of d] parse_nat_show_nat [of n]
    by (cases "show_nat n") (auto simp: big_set_string_def)
qed

lemma sint_range: "- (2 ^ 63) \<le> sint (w :: i64)" "sint (w :: i64) < 2 ^ 63"
  using sint_ge [of w] sint_lt [of w] by simp_all

text \<open>Printing a 64-bit integer and parsing it back is the identity, without an error.\<close>

lemma atoi_itoa [simp]: "atoi (itoa w) = (w, None)"
proof (cases "sint w < 0")
  case True
  let ?n = "nat (- sint w)"
  have "?n \<le> 2 ^ 63" using sint_range [of w] by simp
  then have "parse_uint 0 (show_nat ?n) = Inr ?n"
    by (intro parse_uint_show_nat) (simp add: le_less_trans)
  with True \<open>?n \<le> 2 ^ 63\<close> show ?thesis
    by (simp add: itoa_def atoi_def parse_signed_def)
next
  case False
  let ?n = "nat (sint w)"
  have lt: "?n < 2 ^ 63" using sint_range [of w] False by simp
  then have p: "parse_uint 0 (show_nat ?n) = Inr ?n"
    by (intro parse_uint_show_nat) simp
  obtain d where "d < 10" "hd (show_nat ?n) = digit_char d" using hd_show_nat by blast
  then have "hd (show_nat ?n) \<noteq> CHR ''-''" "hd (show_nat ?n) \<noteq> CHR ''+''"
    using digit_char_sign by auto
  with False lt p show ?thesis
    by (cases "show_nat ?n") (auto simp: itoa_def atoi_def parse_signed_def)
qed

lemma itoa_inject: "itoa v = itoa w \<longleftrightarrow> v = w"
  by (metis atoi_itoa prod.inject)

section \<open>Bytes\<close>

text \<open>\<open>[]byte(s)\<close>.\<close>

definition str_bytes :: "string \<Rightarrow> bytes" where
  "str_bytes s = map (\<lambda>c. word_of_nat (of_char c)) s"

lemma str_bytes_append [simp]: "str_bytes (s @ t) = str_bytes s @ str_bytes t"
  by (simp add: str_bytes_def)

lemma length_str_bytes [simp]: "length (str_bytes s) = length s"
  by (simp add: str_bytes_def)

lemma str_bytes_inject [simp]: "str_bytes s = str_bytes t \<longleftrightarrow> s = t"
proof -
  have "inj (\<lambda>c :: char. word_of_nat (of_char c) :: byte)"
  proof (rule injI)
    fix c d :: char
    assume "(word_of_nat (of_char c) :: byte) = word_of_nat (of_char d)"
    then have "unat (word_of_nat (of_char c) :: byte) = unat (word_of_nat (of_char d) :: byte)"
      by simp
    moreover have "of_char c < (256 :: nat)" "of_char d < (256 :: nat)"
      by (rule nat_of_char_less_256)+
    ultimately have "(of_char c :: nat) = of_char d"
      by (simp add: unat_of_nat take_bit_eq_mod)
    then show "c = d" by simp
  qed
  then show ?thesis
    unfolding str_bytes_def by (metis inj_map_eq_map)
qed

lemma byte_bound: "unat (b :: byte) < 256"
proof -
  have "unat b < 2 ^ LENGTH(8)" by (rule unsigned_less)
  then show ?thesis by simp
qed

text \<open>\<open>(*big.Int).SetBytes\<close> and \<open>(*big.Int).Bytes\<close>: big-endian, without leading zeros.\<close>

definition be_nat :: "bytes \<Rightarrow> nat" where
  "be_nat bs = foldl (\<lambda>n b. 256 * n + unat b) 0 bs"

fun be_bytes :: "nat \<Rightarrow> bytes" where
  "be_bytes n = (if n = 0 then [] else be_bytes (n div 256) @ [word_of_nat (n mod 256)])"

declare be_bytes.simps [simp del]

definition big_Bytes :: "int \<Rightarrow> bytes" where
  "big_Bytes n = be_bytes (nat \<bar>n\<bar>)"

lemma be_nat_simps [simp]:
  "be_nat [] = 0" "be_nat (bs @ [b]) = 256 * be_nat bs + unat b"
  by (simp_all add: be_nat_def)

lemma be_bytes_0 [simp]: "be_bytes 0 = []"
  by (simp add: be_bytes.simps)

lemma be_nat_be_bytes [simp]: "be_nat (be_bytes n) = n"
proof (induction n rule: be_bytes.induct)
  case (1 n)
  have "unat (word_of_nat (n mod 256) :: byte) = n mod 256"
    by (simp add: unat_of_nat take_bit_eq_mod)
  with 1 show ?case by (subst be_bytes.simps) simp
qed

lemma be_nat_zeros [simp]: "be_nat (replicate k 0 @ bs) = be_nat bs"
  unfolding be_nat_def by (induction k) simp_all

lemma length_be_bytes: "n < 256 ^ k \<Longrightarrow> length (be_bytes n) \<le> k"
proof (induction n arbitrary: k rule: be_bytes.induct)
  case (1 n)
  show ?case
  proof (cases "n = 0")
    case False
    then obtain j where k: "k = Suc j" using "1.prems" by (cases k) auto
    have "n div 256 < 256 ^ j" using "1.prems" by (simp add: k less_mult_imp_div_less mult.commute)
    from "1.IH" [OF False this] False k show ?thesis by (subst be_bytes.simps) simp
  qed simp
qed

lemma be_nat_less: "be_nat bs < 256 ^ length bs"
proof (induction bs rule: rev_induct)
  case (snoc b bs)
  have "unat b < 256" by (rule byte_bound)
  moreover have "be_nat bs + 1 \<le> 256 ^ length bs" using snoc.IH by simp
  then have "256 * (be_nat bs + 1) \<le> 256 * 256 ^ length bs" by (rule mult_le_mono2)
  ultimately show ?case by simp
qed simp

text \<open>\<open>hex.EncodeToString\<close> and \<open>hex.DecodeString\<close>.\<close>

definition hex_digit :: "nat \<Rightarrow> char" where
  "hex_digit d = (if d < 10 then char_of (48 + d) else char_of (87 + d))"

definition hex_val :: "char \<Rightarrow> nat option" where
  "hex_val c =
     (let n = of_char c in
      if 48 \<le> n \<and> n \<le> 57 then Some (n - 48)
      else if 97 \<le> n \<and> n \<le> 102 then Some (n - 87)
      else if 65 \<le> n \<and> n \<le> 70 then Some (n - 55)
      else None)"

fun hex_encode :: "bytes \<Rightarrow> string" where
  "hex_encode [] = []"
| "hex_encode (b # bs) = hex_digit (unat b div 16) # hex_digit (unat b mod 16) # hex_encode bs"

fun hex_decode :: "string \<Rightarrow> bytes option" where
  "hex_decode [] = Some []"
| "hex_decode [c] = None"
| "hex_decode (c # d # cs) =
     (case (hex_val c, hex_val d, hex_decode cs) of
        (Some h, Some l, Some bs) \<Rightarrow> Some (word_of_nat (16 * h + l) # bs)
      | _ \<Rightarrow> None)"

lemma hex_val_digit [simp]: "d < 16 \<Longrightarrow> hex_val (hex_digit d) = Some d"
  by (simp add: hex_val_def hex_digit_def)

lemma hex_decode_encode [simp]: "hex_decode (hex_encode bs) = Some bs"
proof (induction bs)
  case (Cons b bs)
  have "unat b < 256" by (rule byte_bound)
  then have "unat b div 16 < 16" "unat b mod 16 < 16" by simp_all
  with Cons show ?case by simp
qed simp

end
