(* ===== verification/Hubnet.thy ===== *)
theory Hubnet
  imports GoText
begin

text \<open>
  The peer-to-peer layer of the hub (hubnet/rlpx.go, message.go, handle.go, stream_manager.go,
  p2p.go, config.go): message frames on a stream, the loop that reads a stream, the stream
  manager and the send operations. RLP and libp2p are parameters: \<open>rlp_codec\<close> encodes message
  codes, \<open>p2p_host\<close> opens streams and writes to them.
\<close>

unbundle bit_operations_syntax

section \<open>Messages\<close>

record msg =
  m_Code :: u8
  m_Size :: u32
  m_Bytes :: bytes

text \<open>\<open>encode\<close> is \<open>rlp.EncodeToBytes\<close> of the payload.\<close>

definition NewMsg :: "('a \<Rightarrow> goerr + bytes) \<Rightarrow> u8 \<Rightarrow> 'a \<Rightarrow> goerr + msg" where
  "NewMsg encode msgcode data =
     (case encode data of
        Inl e \<Rightarrow> Inl e
      | Inr b \<Rightarrow> Inr \<lparr> m_Code = msgcode, m_Size = word_of_nat (length b), m_Bytes = b \<rparr>)"

definition Msg_Decode :: "(bytes \<Rightarrow> goerr + 'a) \<Rightarrow> msg \<Rightarrow> goerr + 'a" where
  "Msg_Decode decode m = decode (m_Bytes m)"

section \<open>Frames\<close>

definition maxUint24 :: u32 where
  "maxUint24 = drop_bit 8 (NOT 0)"

definition readInt24 :: "bytes \<Rightarrow> u32" where
  "readInt24 b = ucast (b ! 2) OR push_bit 8 (ucast (b ! 1)) OR push_bit 16 (ucast (b ! 0))"

definition putInt24 :: "u32 \<Rightarrow> bytes \<Rightarrow> bytes" where
  "putInt24 v b = b[0 := ucast (drop_bit 16 v), 1 := ucast (drop_bit 8 v), 2 := ucast v]"

record rlp_codec =
  rlp_encode :: "u8 \<Rightarrow> bytes"
  rlp_decode :: "bytes \<Rightarrow> goerr + u8"

text \<open>
  The RLP rules for a one-byte number: 0 is the empty string \<open>0x80\<close>, a value below \<open>0x80\<close> is its
  own encoding, a larger one has the prefix \<open>0x81\<close>, which is not an encoding on its own.
\<close>

definition rlp_law :: "rlp_codec \<Rightarrow> bool" where
  "rlp_law rlp \<longleftrightarrow>
     (\<forall>c < 128. length (rlp_encode rlp c) = 1 \<and> rlp_decode rlp (rlp_encode rlp c) = Inr c) \<and>
     (\<forall>c \<ge> 128. rlp_encode rlp c = [0x81, c]) \<and>
     (\<exists>e. rlp_decode rlp [0x81] = Inl e)"

definition EOF :: goerr where "EOF = ErrNew ''EOF''"
definition ErrUnexpectedEOF :: goerr where "ErrUnexpectedEOF = ErrNew ''unexpected EOF''"

text \<open>\<open>io.ReadFull\<close> on a stream that delivers the bytes and then ends.\<close>

definition read_full :: "nat \<Rightarrow> bytes \<Rightarrow> (goerr + bytes) \<times> bytes" where
  "read_full n s =
     (if n \<le> length s then (Inr (take n s), drop n s)
      else if s = [] then (Inl EOF, [])
      else (Inl ErrUnexpectedEOF, []))"

definition ReadMsg :: "rlp_codec \<Rightarrow> bytes \<Rightarrow> (goerr + msg) \<times> bytes" where
  "ReadMsg rlp s =
     (case read_full 32 s of
        (Inl e, s) \<Rightarrow> (Inl e, s)
      | (Inr headbuf, s) \<Rightarrow>
          let fsize = readInt24 headbuf in
          (case read_full 1 s of
             (Inl e, s) \<Rightarrow> (Inl e, s)
           | (Inr codebuf, s) \<Rightarrow>
               (case rlp_decode rlp codebuf of
                  Inl e \<Rightarrow> (Inl e, s)
                | Inr code \<Rightarrow>
                    let size = fsize - 1 in
                    (case read_full (unat size) s of
                       (Inl e, s) \<Rightarrow> (Inl e, s)
                     | (Inr framebuf, s) \<Rightarrow>
                         (Inr \<lparr> m_Code = code, m_Size = size, m_Bytes = framebuf \<rparr>, s)))))"

text \<open>\<open>WriteMsg\<close> makes three writes; \<open>write\<close> writes to the connection in the world \<open>'w\<close>.\<close>

definition WriteMsg ::
    "rlp_codec \<Rightarrow> (bytes \<Rightarrow> 'w \<Rightarrow> goerr option \<times> 'w) \<Rightarrow> msg \<Rightarrow> 'w \<Rightarrow> goerr option \<times> 'w" where
  "WriteMsg rlp write m w =
     (let ptype = rlp_encode rlp (m_Code m);
          fsize = word_of_nat (length ptype) + m_Size m in
      if fsize > maxUint24 then (Some (ErrNew ''message size overflows uint24''), w)
      else
        (case write (putInt24 fsize (replicate 32 0)) w of
           (Some e, w) \<Rightarrow> (Some e, w)
         | (None, w) \<Rightarrow>
             (case write ptype w of
                (Some e, w) \<Rightarrow> (Some e, w)
              | (None, w) \<Rightarrow> write (m_Bytes m) w)))"

text \<open>
  The loop of \<open>handleNewStream\<close> over the bytes the stream delivers: the messages given to the
  handler, and whether the stream is reset (it is on every error but a clean end).
\<close>

lemma read_full_length: "read_full n s = (Inr b, r) \<Longrightarrow> s = b @ r \<and> length b = n"
  by (auto simp: read_full_def split: if_splits)

lemma ReadMsg_shorter: "ReadMsg rlp s = (Inr m, r) \<Longrightarrow> length r < length s"
  by (auto simp: ReadMsg_def Let_def split: prod.splits sum.splits dest!: read_full_length)

function handleNewStream :: "rlp_codec \<Rightarrow> bytes \<Rightarrow> msg list \<times> bool" where
  "handleNewStream rlp s =
     (case ReadMsg rlp s of
        (Inl e, _) \<Rightarrow> ([], e \<noteq> EOF)
      | (Inr m, s) \<Rightarrow> (let (ms, reset) = handleNewStream rlp s in (m # ms, reset)))"
  by pat_completeness auto
termination
  by (relation "measure (\<lambda>(rlp, s). length s)") (auto dest: ReadMsg_shorter [OF sym])

declare handleNewStream.simps [simp del]

section \<open>Streams and peers\<close>

type_synonym peer_id = string

record ('s, 'w) p2p_host =
  NewStream :: "peer_id \<Rightarrow> 'w \<Rightarrow> (goerr + 's) \<times> 'w"
  SetWriteDeadline :: "'s \<Rightarrow> 'w \<Rightarrow> goerr option \<times> 'w"
  stream_write :: "'s \<Rightarrow> bytes \<Rightarrow> 'w \<Rightarrow> goerr option \<times> 'w"
  stream_arrived :: "'s \<Rightarrow> 'w \<Rightarrow> bytes option"
  AddAddrs :: "peer_id \<Rightarrow> 'w \<Rightarrow> 'w"
  host_Connect :: "peer_id \<Rightarrow> 'w \<Rightarrow> goerr option \<times> 'w"
  ClosePeer :: "peer_id \<Rightarrow> 'w \<Rightarrow> goerr option \<times> 'w"

type_synonym 's streams = "peer_id \<rightharpoonup> 's"

definition streamMgr_get ::
    "('s, 'w) p2p_host \<Rightarrow> peer_id \<Rightarrow> 's streams \<times> 'w \<Rightarrow> (goerr + 's) \<times> 's streams \<times> 'w" where
  "streamMgr_get h pid st =
     (case st of (streams, w) \<Rightarrow>
        (case streams pid of
           Some s \<Rightarrow> (Inr s, streams, w)
         | None \<Rightarrow>
             (case NewStream h pid w of
                (Inl e, w) \<Rightarrow> (Inl (ErrWrap ''new stream'' e), streams, w)
              | (Inr s, w) \<Rightarrow> (Inr s, streams(pid \<mapsto> s), w))))"

definition streamMgr_remove :: "peer_id \<Rightarrow> 's streams \<times> 'w \<Rightarrow> 's streams \<times> 'w" where
  "streamMgr_remove pid st = (case st of (streams, w) \<Rightarrow> (streams(pid := None), w))"

definition p2p_send ::
    "rlp_codec \<Rightarrow> ('s, 'w) p2p_host \<Rightarrow> 's \<Rightarrow> msg \<Rightarrow> 'w \<Rightarrow> goerr option \<times> 'w" where
  "p2p_send rlp h s m w =
     (case SetWriteDeadline h s w of
        (Some e, w) \<Rightarrow> (Some (ErrWrap ''set deadline'' e), w)
      | (None, w) \<Rightarrow>
          (case WriteMsg rlp (stream_write h s) m w of
             (Some e, w) \<Rightarrow> (Some (ErrWrap ''write msg'' e), w)
           | (None, w) \<Rightarrow> (None, w)))"

definition SendWithStream ::
    "rlp_codec \<Rightarrow> ('s, 'w) p2p_host \<Rightarrow> 's \<Rightarrow> msg \<Rightarrow> 'w \<Rightarrow> goerr option \<times> 'w" where
  "SendWithStream rlp h s m w = p2p_send rlp h s m w"

definition AsyncSend ::
    "rlp_codec \<Rightarrow> ('s, 'w) p2p_host \<Rightarrow> peer_id \<Rightarrow> msg \<Rightarrow> 's streams \<times> 'w \<Rightarrow> goerr option \<times> 's streams \<times> 'w" where
  "AsyncSend rlp h pid m st =
     (case streamMgr_get h pid st of
        (Inl e, st) \<Rightarrow> (Some (ErrWrap ''get stream'' e), st)
      | (Inr s, streams, w) \<Rightarrow>
          (case p2p_send rlp h s m w of
             (Some e, w) \<Rightarrow> (Some e, streamMgr_remove pid (streams, w))
           | (None, w) \<Rightarrow> (None, streams, w)))"

text \<open>\<open>waitMsg\<close>: what arrived before the timeout is read as one message; a timeout and a broken
  message are both nil.\<close>

definition waitMsg :: "rlp_codec \<Rightarrow> ('s, 'w) p2p_host \<Rightarrow> 's \<Rightarrow> 'w \<Rightarrow> msg option" where
  "waitMsg rlp h s w =
     (case stream_arrived h s w of
        None \<Rightarrow> None
      | Some bs \<Rightarrow> (case fst (ReadMsg rlp bs) of Inl e \<Rightarrow> None | Inr m \<Rightarrow> Some m))"

definition Send ::
    "rlp_codec \<Rightarrow> ('s, 'w) p2p_host \<Rightarrow> peer_id \<Rightarrow> msg \<Rightarrow> 's streams \<times> 'w \<Rightarrow> (goerr + msg) \<times> 's streams \<times> 'w" where
  "Send rlp h pid m st =
     (case streamMgr_get h pid st of
        (Inl e, st) \<Rightarrow> (Inl (ErrWrap ''get stream'' e), st)
      | (Inr s, streams, w) \<Rightarrow>
          (case p2p_send rlp h s m w of
             (Some e, w) \<Rightarrow> (Inl e, streamMgr_remove pid (streams, w))
           | (None, w) \<Rightarrow>
               (case waitMsg rlp h s w of
                  None \<Rightarrow> (Inl (ErrNew (''sync send msg to node['' @ pid @ ''] timeout'')), streams, w)
                | Some r \<Rightarrow> (Inr r, streams, w))))"

fun p2p_Broadcast ::
    "rlp_codec \<Rightarrow> ('s, 'w) p2p_host \<Rightarrow> peer_id list \<Rightarrow> msg \<Rightarrow> 's streams \<times> 'w \<Rightarrow> 's streams \<times> 'w" where
  "p2p_Broadcast rlp h [] m st = st"
| "p2p_Broadcast rlp h (pid # ids) m st = p2p_Broadcast rlp h ids m (snd (AsyncSend rlp h pid m st))"

definition p2p_Connect ::
    "('s, 'w) p2p_host \<Rightarrow> (peer_id \<Rightarrow> goerr option) option \<Rightarrow> peer_id \<Rightarrow> 'w \<Rightarrow> goerr option \<times> 'w" where
  "p2p_Connect h connectCallback addr w =
     (case host_Connect h addr w of
        (Some e, w) \<Rightarrow> (Some e, w)
      | (None, w) \<Rightarrow>
          let w = AddAddrs h addr w in
          (case connectCallback of None \<Rightarrow> (None, w) | Some f \<Rightarrow> (f addr, w)))"

definition Disconnect ::
    "('s, 'w) p2p_host \<Rightarrow> peer_id \<Rightarrow> 's streams \<times> 'w \<Rightarrow> goerr option \<times> 's streams \<times> 'w" where
  "Disconnect h pid st =
     (case streamMgr_remove pid st of (streams, w) \<Rightarrow>
        (case ClosePeer h pid w of (e, w) \<Rightarrow> (e, streams, w)))"

section \<open>Configuration\<close>

record p2p_config =
  localAddr :: string
  privKey :: "string option"
  protocolID :: string

definition WithPrivateKey :: "string \<Rightarrow> p2p_config \<Rightarrow> p2p_config" where
  "WithPrivateKey k c = c\<lparr>privKey := Some k\<rparr>"

definition WithLocalAddr :: "string \<Rightarrow> p2p_config \<Rightarrow> p2p_config" where
  "WithLocalAddr a c = c\<lparr>localAddr := a\<rparr>"

definition WithProtocolID :: "string \<Rightarrow> p2p_config \<Rightarrow> p2p_config" where
  "WithProtocolID i c = c\<lparr>protocolID := i\<rparr>"

definition p2p_checkConfig :: "p2p_config \<Rightarrow> goerr option" where
  "p2p_checkConfig c = (if localAddr c = [] then Some (ErrNew ''empty local address'') else None)"

definition generateConfig :: "(p2p_config \<Rightarrow> p2p_config) list \<Rightarrow> goerr + p2p_config" where
  "generateConfig opts =
     (let conf = fold (\<lambda>opt c. opt c) opts \<lparr> localAddr = [], privKey = None, protocolID = [] \<rparr> in
      case p2p_checkConfig conf of
        Some e \<Rightarrow> Inl (ErrWrap ''create p2p'' e)
      | None \<Rightarrow> Inr conf)"

section \<open>Sizes in three bytes\<close>

lemma maxUint24_value: "maxUint24 = 2 ^ 24 - 1"
  by (simp add: maxUint24_def mask_eq_exp_minus_1)

lemma Int24_roundtrip:
  assumes "3 \<le> length b" "v \<le> maxUint24"
  shows "readInt24 (putInt24 v b) = v"
proof -
  have "take_bit 24 v = v"
  proof -
    have "unat v \<le> 2 ^ 24 - 1" using assms(2) by (simp add: maxUint24_value word_le_nat_alt)
    then have "unat v < 2 ^ 24" by simp
    then have "unat (take_bit 24 v) = unat v"
      by (simp add: unsigned_take_bit_eq take_bit_nat_eq_self)
    then show ?thesis by (rule unsigned_word_eqI)
  qed
  moreover obtain x y z r where "b = x # y # z # r"
    using assms(1) by (auto simp: numeral_3_eq_3 Suc_le_length_iff)
  then have "readInt24 (putInt24 v b) = take_bit 24 v"
    apply (intro bit_word_eqI)
    apply (auto simp: readInt24_def putInt24_def bit_simps)
    subgoal for n by (cases "n < 16") auto
    done
  ultimately show ?thesis by simp
qed

section \<open>One frame\<close>

text \<open>The bytes \<open>WriteMsg\<close> hands to the connection.\<close>

definition frame :: "rlp_codec \<Rightarrow> msg \<Rightarrow> bytes" where
  "frame rlp m =
     (let ptype = rlp_encode rlp (m_Code m) in
      putInt24 (word_of_nat (length ptype) + m_Size m) (replicate 32 0) @ ptype @ m_Bytes m)"

definition msg_ok :: "msg \<Rightarrow> bool" where
  "msg_ok m \<longleftrightarrow> m_Code m < 128 \<and> length (m_Bytes m) < 2 ^ 24 - 1 \<and>
     m_Size m = word_of_nat (length (m_Bytes m))"

lemma length_putInt24 [simp]: "length (putInt24 v b) = length b"
  by (simp add: putInt24_def)

lemma msg_ok_size:
  assumes "rlp_law rlp" "msg_ok m"
  shows "unat (m_Size m) = length (m_Bytes m)"
    and "word_of_nat (length (rlp_encode rlp (m_Code m))) + m_Size m = 1 + m_Size m"
    and "1 + m_Size m \<le> maxUint24"
proof -
  have l: "length (m_Bytes m) < 2 ^ 24 - 1" using assms(2) by (simp add: msg_ok_def)
  then show u: "unat (m_Size m) = length (m_Bytes m)"
    using assms(2) by (simp add: msg_ok_def unat_of_nat take_bit_nat_eq_self)
  show "word_of_nat (length (rlp_encode rlp (m_Code m))) + m_Size m = 1 + m_Size m"
    using assms by (simp add: rlp_law_def msg_ok_def)
  have "unat (1 + m_Size m) = length (m_Bytes m) + 1"
    using u l by (simp add: unat_word_ariths)
  with l show "1 + m_Size m \<le> maxUint24"
    by (simp add: maxUint24_value word_le_nat_alt)
qed

lemma read_full_append [simp]: "length b = n \<Longrightarrow> read_full n (b @ s) = (Inr b, s)"
  by (auto simp: read_full_def)

lemma ReadMsg_frame:
  assumes "rlp_law rlp" "msg_ok m"
  shows "ReadMsg rlp (frame rlp m @ s) = (Inr m, s)"
proof -
  have c: "length (rlp_encode rlp (m_Code m)) = 1"
      "rlp_decode rlp (rlp_encode rlp (m_Code m)) = Inr (m_Code m)"
    using assms by (simp_all add: rlp_law_def msg_ok_def)
  have i: "readInt24 (putInt24 (1 + m_Size m) (replicate 32 0)) = 1 + m_Size m"
    using msg_ok_size(3) [OF assms] by (intro Int24_roundtrip) simp_all
  show ?thesis
    unfolding frame_def Let_def append_assoc msg_ok_size(2) [OF assms] ReadMsg_def
    using c i msg_ok_size(1) [OF assms] by simp
qed

text \<open>C13: what \<open>WriteMsg\<close> sends, \<open>ReadMsg\<close> reads back: for a message with a code below 128 and a
  payload that fits, the three writes put one frame on the connection, and reading that frame
  gives the message and leaves exactly what follows it.\<close>

theorem WriteMsg_ReadMsg:
  assumes "rlp_law rlp" "msg_ok m" "\<And>b w. write b w = (None, w @ b)"
  shows "\<exists>f. WriteMsg rlp write m w = (None, w @ f) \<and> (\<forall>s. ReadMsg rlp (f @ s) = (Inr m, s))"
proof (intro exI conjI allI)
  show "WriteMsg rlp write m w = (None, w @ frame rlp m)"
    using msg_ok_size(2,3) [OF assms(1,2)] assms(3)
    by (simp add: WriteMsg_def frame_def Let_def linorder_not_less)
  show "ReadMsg rlp (frame rlp m @ s) = (Inr m, s)" for s
    by (rule ReadMsg_frame [OF assms(1,2)])
qed

definition demo_rlp :: rlp_codec where
  "demo_rlp = \<lparr> rlp_encode = \<lambda>c. if c = 0 then [0x80] else if c < 128 then [c] else [0x81, c],
     rlp_decode = \<lambda>b. if b = [0x80] then Inr 0 else if length b = 1 \<and> b ! 0 < 128 then Inr (b ! 0)
       else Inl (ErrNew ''rlp'') \<rparr>"

lemma demo_rlp_law: "rlp_law demo_rlp"
  by (auto simp: rlp_law_def demo_rlp_def)

definition demo_msg :: msg where
  "demo_msg = \<lparr> m_Code = 3, m_Size = 2, m_Bytes = [7, 8] \<rparr>"

lemma demo_msg_ok: "msg_ok demo_msg"
  by (simp add: msg_ok_def demo_msg_def)

lemma WriteMsg_ReadMsg_witness:
  "\<exists>f. WriteMsg demo_rlp (\<lambda>b w. (None, w @ b)) demo_msg [] = (None, [] @ f)
     \<and> (\<forall>s. ReadMsg demo_rlp (f @ s) = (Inr demo_msg, s))"
  by (rule WriteMsg_ReadMsg [OF demo_rlp_law demo_msg_ok]) simp

text \<open>A code of 128 or more does not survive: it is written as two bytes, of which \<open>ReadMsg\<close>
  reads one, so the receiver fails on the frame.\<close>

theorem large_code_rejected:
  assumes "rlp_law rlp" "128 \<le> m_Code m"
  shows "\<exists>e r. ReadMsg rlp (frame rlp m @ s) = (Inl e, r)"
  using assms by (auto simp: frame_def Let_def ReadMsg_def rlp_law_def read_full_def)

lemma large_code_rejected_witness:
  "\<exists>e r. ReadMsg demo_rlp (frame demo_rlp \<lparr> m_Code = 200, m_Size = 1, m_Bytes = [1] \<rparr> @ []) = (Inl e, r)"
  by (rule large_code_rejected [OF demo_rlp_law]) simp

text \<open>C38: a header that announces a frame of 0 bytes makes the size wrap around: \<open>ReadMsg\<close> asks the
  stream for \<open>2 ^ 32 - 1\<close> bytes and fails on every stream that has fewer.\<close>

theorem zero_frame_wraps:
  assumes "length h = 32" "take 3 h = [0, 0, 0]" "rlp_decode rlp [c] = Inr code"
  shows "ReadMsg rlp (h @ c # s) =
    (if length s < 2 ^ 32 - 1 then (Inl (if s = [] then EOF else ErrUnexpectedEOF), [])
     else (Inr \<lparr> m_Code = code, m_Size = - 1, m_Bytes = take (2 ^ 32 - 1) s \<rparr>, drop (2 ^ 32 - 1) s))"
proof -
  have "h ! i = 0" if "i < 3" for i
    using assms(1,2) that by (metis nth_take less_Suc_eq nth_Cons_0 nth_Cons_Suc numeral_3_eq_3 less_nat_zero_code not_less_eq)
  then have "readInt24 h = 0" by (simp add: readInt24_def)
  moreover have "unat (0 - 1 :: u32) = 2 ^ 32 - 1"
    by (simp add: unsigned_minus_1_eq_mask mask_eq_exp_minus_1)
  ultimately show ?thesis
    using assms(1,3) by (auto simp: ReadMsg_def Let_def read_full_def)
qed

lemma zero_frame_wraps_witness:
  "ReadMsg demo_rlp (replicate 32 0 @ 3 # [1, 2]) = (Inl ErrUnexpectedEOF, [])"
  using zero_frame_wraps [of "replicate 32 0" demo_rlp 3 3 "[1, 2]"]
  by (simp add: demo_rlp_def numeral_3_eq_3)

section \<open>A stream of frames\<close>

lemma handle_frame:
  assumes "rlp_law rlp" "msg_ok m"
  shows "handleNewStream rlp (frame rlp m @ s) =
    (m # fst (handleNewStream rlp s), snd (handleNewStream rlp s))"
  by (subst handleNewStream.simps) (simp add: ReadMsg_frame [OF assms] case_prod_beta Let_def)

lemma handle_end [simp]: "handleNewStream rlp [] = ([], False)"
  by (subst handleNewStream.simps) (simp add: ReadMsg_def read_full_def)

text \<open>Every message put on a stream reaches the handler, in order and unchanged, and the
  stream is not reset when it ends after the last frame.\<close>

theorem stream_delivers:
  assumes "rlp_law rlp" "\<forall>m \<in> set ms. msg_ok m"
  shows "handleNewStream rlp (concat (map (frame rlp) ms)) = (ms, False)"
  using assms(2) by (induction ms) (simp_all add: handle_frame [OF assms(1)])

lemma stream_delivers_witness:
  "handleNewStream demo_rlp (concat (map (frame demo_rlp) [demo_msg, demo_msg]))
   = ([demo_msg, demo_msg], False)"
  by (rule stream_delivers [OF demo_rlp_law]) (simp add: demo_msg_ok)

lemma ReadMsg_cut:
  assumes "rlp_law rlp" "msg_ok m" "n < length (frame rlp m)"
  shows "\<exists>e. ReadMsg rlp (take n (frame rlp m)) = (Inl e, [])"
proof -
  let ?h = "putInt24 (1 + m_Size m) (replicate 32 0) :: bytes"
  let ?c = "rlp_encode rlp (m_Code m)"
  have c: "length ?c = 1" "rlp_decode rlp ?c = Inr (m_Code m)"
    using assms(1,2) by (simp_all add: rlp_law_def msg_ok_def)
  have i: "readInt24 ?h = 1 + m_Size m"
    using msg_ok_size(3) [OF assms(1,2)] by (intro Int24_roundtrip) simp_all
  have f: "frame rlp m = ?h @ ?c @ m_Bytes m"
    by (simp add: frame_def Let_def msg_ok_size(2) [OF assms(1,2)])
  consider "n < 32" | "n = 32" | "33 \<le> n" by linarith
  then show ?thesis
  proof cases
    case 1
    then have "\<exists>e. read_full 32 (take n (frame rlp m)) = (Inl e, [])"
      by (auto simp: read_full_def f)
    then show ?thesis by (auto simp: ReadMsg_def)
  next
    case 2
    then have "take n (frame rlp m) = ?h @ []" by (simp add: f)
    then show ?thesis by (auto simp: ReadMsg_def read_full_def Let_def)
  next
    case 3
    then have t: "take n (frame rlp m) = ?h @ ?c @ take (n - 33) (m_Bytes m)"
      using c(1) by (simp add: f)
    have "\<not> length (m_Bytes m) \<le> length (take (n - 33) (m_Bytes m))"
      using assms(3) 3 c(1) by (simp add: f)
    then show ?thesis
      unfolding t using c i msg_ok_size(1) [OF assms(1,2)]
      by (auto simp: ReadMsg_def Let_def) (auto simp: read_full_def)
  qed
qed

text \<open>A stream cut anywhere delivers exactly the messages whose frames are complete: a prefix
  of what was sent, never a corrupted message.\<close>

theorem stream_cut_prefix:
  assumes "rlp_law rlp" "\<forall>m \<in> set ms. msg_ok m"
  shows "\<exists>k reset. handleNewStream rlp (take n (concat (map (frame rlp) ms))) = (take k ms, reset)
    \<and> length (concat (map (frame rlp) (take k ms))) \<le> n"
  using assms(2)
proof (induction ms arbitrary: n)
  case Nil
  show ?case by (intro exI [of _ 0] exI [of _ False]) simp
next
  case (Cons m ms)
  show ?case
  proof (cases "n < length (frame rlp m)")
    case True
    then obtain e where "ReadMsg rlp (take n (frame rlp m)) = (Inl e, [])"
      using ReadMsg_cut [OF assms(1), of m n] Cons.prems by auto
    with True have "handleNewStream rlp (take n (concat (map (frame rlp) (m # ms)))) = (take 0 (m # ms), e \<noteq> EOF)"
      by (subst handleNewStream.simps) simp
    then show ?thesis by (intro exI [of _ 0] exI [of _ "e \<noteq> EOF"]) simp
  next
    case False
    let ?n = "n - length (frame rlp m)"
    obtain k reset where
      "handleNewStream rlp (take ?n (concat (map (frame rlp) ms))) = (take k ms, reset)"
      "length (concat (map (frame rlp) (take k ms))) \<le> ?n"
      using Cons.IH [of ?n] Cons.prems by auto
    with False Cons.prems show ?thesis
      by (intro exI [of _ "Suc k"] exI [of _ reset]) (simp add: handle_frame [OF assms(1)])
  qed
qed

lemma stream_cut_prefix_witness:
  "\<exists>k reset. handleNewStream demo_rlp (take 40 (concat (map (frame demo_rlp) [demo_msg, demo_msg])))
     = (take k [demo_msg, demo_msg], reset)
   \<and> length (concat (map (frame demo_rlp) (take k [demo_msg, demo_msg]))) \<le> 40"
  by (rule stream_cut_prefix [OF demo_rlp_law]) (simp add: demo_msg_ok)

section \<open>Sending\<close>

lemma streamMgr_get_cached:
  "streamMgr_get h pid (streams, w) = (Inr s, streams', w') \<Longrightarrow> streams' = streams(pid \<mapsto> s)"
  by (auto simp: streamMgr_get_def split: option.splits prod.splits sum.splits)

text \<open>The stream manager never keeps a stream that failed: after an \<open>AsyncSend\<close> that returned
  an error there is no stream for the peer, and after one that returned none there is; the streams
  of the other peers are untouched.\<close>

theorem AsyncSend_streams:
  assumes "AsyncSend rlp h pid m (streams, w) = (e, streams', w')"
  shows "(e = None \<longleftrightarrow> streams' pid \<noteq> None) \<and> (\<forall>q. q \<noteq> pid \<longrightarrow> streams' q = streams q)"
  using assms
  by (auto simp: AsyncSend_def streamMgr_get_def streamMgr_remove_def
      split: option.splits prod.splits sum.splits if_splits)

definition demo_host :: "(peer_id, bytes) p2p_host" where
  "demo_host = \<lparr> NewStream = \<lambda>pid w. (Inr pid, w), SetWriteDeadline = \<lambda>s w. (None, w),
     stream_write = \<lambda>s b w. (None, w @ b), stream_arrived = \<lambda>s w. None,
     AddAddrs = \<lambda>pid w. w, host_Connect = \<lambda>pid w. (None, w), ClosePeer = \<lambda>pid w. (None, w) \<rparr>"

lemma AsyncSend_streams_witness:
  "snd (AsyncSend demo_rlp demo_host ''p'' demo_msg (Map.empty, [])) =
     ([''p'' \<mapsto> ''p''], frame demo_rlp demo_msg) \<and>
   fst (snd (AsyncSend demo_rlp demo_host ''p'' demo_msg (Map.empty, []))) ''p'' \<noteq> None"
proof -
  have e: "AsyncSend demo_rlp demo_host ''p'' demo_msg (Map.empty, []) =
      (None, [''p'' \<mapsto> ''p''], frame demo_rlp demo_msg)"
    using msg_ok_size(2,3) [OF demo_rlp_law demo_msg_ok]
    by (simp add: AsyncSend_def streamMgr_get_def p2p_send_def WriteMsg_def demo_host_def Let_def
        frame_def linorder_not_less)
  from AsyncSend_streams [OF e] show ?thesis by (simp add: e)
qed

end
