(* ===== verification/Peers.thy ===== *)
theory Peers
  imports Hubnet
begin

text \<open>
  The network service of a hub as a whole (hubnet/p2p.go, handle.go, stream_manager.go): its constructor over
  libp2p, starting and stopping, the callbacks, the stream handler with the handler of messages installed, and any
  sequence of its operations, whose streams are those opened to the peers they are kept for.
\<close>

section \<open>The service\<close>

text \<open>What libp2p gives: \<open>lb_New\<close> takes the identity and the address, \<open>lb_ConnsToPeer\<close> the remote public keys of the
  connections to a peer; contexts that end are \<open>lb_cancel\<close>.\<close>

record ('s, 'w, 'k) libp2p =
  lb_New :: "string option \<Rightarrow> string \<Rightarrow> 'w \<Rightarrow> (goerr + ('s, 'w) p2p_host) \<times> 'w"
  lb_cancel :: "'w \<Rightarrow> 'w"
  lb_SetStreamHandler :: "string \<Rightarrow> 'w \<Rightarrow> 'w"
  lb_Close :: "'w \<Rightarrow> goerr option \<times> 'w"
  lb_ConnsToPeer :: "peer_id \<Rightarrow> 'w \<Rightarrow> 'k list"
  lb_SetReadDeadline :: "'s \<Rightarrow> 'w \<Rightarrow> goerr option \<times> 'w"
  lb_Reset :: "'s \<Rightarrow> 'w \<Rightarrow> goerr option \<times> 'w"

record ('s, 'w) p2p_service =
  sv_config :: p2p_config
  sv_host :: "('s, 'w) p2p_host"
  sv_streams :: "'s streams"
  sv_connectCallback :: "(peer_id \<Rightarrow> goerr option) option"
  sv_handleMessage :: "('s \<Rightarrow> msg \<Rightarrow> 'w \<Rightarrow> 'w) option"

definition newStreamMng :: "'s streams" where
  "newStreamMng = Map.empty"

definition p2p_New ::
    "('s, 'w, 'k) libp2p \<Rightarrow> (p2p_config \<Rightarrow> p2p_config) list \<Rightarrow> 'w \<Rightarrow> (goerr + ('s, 'w) p2p_service) \<times> 'w" where
  "p2p_New lib opts w =
     (case generateConfig opts of
        Inl e \<Rightarrow> (Inl (ErrWrap ''generate config'' e), w)
      | Inr config \<Rightarrow>
          (case lb_New lib (privKey config) (localAddr config) w of
             (Inl e, w) \<Rightarrow> (Inl (ErrWrap ''create libp2p'' e), lb_cancel lib w)
           | (Inr h, w) \<Rightarrow>
               (Inr \<lparr> sv_config = config, sv_host = h, sv_streams = newStreamMng, sv_connectCallback = None,
                      sv_handleMessage = None \<rparr>, w)))"

definition p2p_Start :: "('s, 'w, 'k) libp2p \<Rightarrow> ('s, 'w) p2p_service \<Rightarrow> 'w \<Rightarrow> goerr option \<times> 'w" where
  "p2p_Start lib p w = (None, lb_SetStreamHandler lib (protocolID (sv_config p)) w)"

definition SetConnectCallback ::
    "(peer_id \<Rightarrow> goerr option) \<Rightarrow> ('s, 'w) p2p_service \<Rightarrow> ('s, 'w) p2p_service" where
  "SetConnectCallback callback p = p\<lparr>sv_connectCallback := Some callback\<rparr>"

definition SetMessageHandler ::
    "('s \<Rightarrow> msg \<Rightarrow> 'w \<Rightarrow> 'w) \<Rightarrow> ('s, 'w) p2p_service \<Rightarrow> ('s, 'w) p2p_service" where
  "SetMessageHandler handler p = p\<lparr>sv_handleMessage := Some handler\<rparr>"

definition p2p_Stop :: "('s, 'w, 'k) libp2p \<Rightarrow> 'w \<Rightarrow> goerr option \<times> 'w" where
  "p2p_Stop lib w = lb_Close lib (lb_cancel lib w)"

text \<open>The two parsers are those of go-multiaddr and of libp2p's package peer.\<close>

definition AddrToPeerInfo :: "(string \<Rightarrow> goerr + 'm) \<Rightarrow> ('m \<Rightarrow> goerr + 'i) \<Rightarrow> string \<Rightarrow> goerr + 'i" where
  "AddrToPeerInfo NewMultiaddr AddrInfoFromP2pAddr multiAddr =
     (case NewMultiaddr multiAddr of Inl e \<Rightarrow> Inl e | Inr maddr \<Rightarrow> AddrInfoFromP2pAddr maddr)"

definition GetRemotePubKey :: "('s, 'w, 'k) libp2p \<Rightarrow> peer_id \<Rightarrow> 'w \<Rightarrow> goerr + 'k" where
  "GetRemotePubKey lib pid w =
     (case lb_ConnsToPeer lib pid w of
        conn # _ \<Rightarrow> Inr conn
      | [] \<Rightarrow> Inl (ErrNew ''get remote pub key: not found''))"

text \<open>The stream handler, for a stream that delivers the bytes \<open>bs\<close>: without a deadline for reading, each message
  goes to the handler of messages, when there is one, and an error that is not the end resets the stream.\<close>

definition service_stream ::
    "rlp_codec \<Rightarrow> ('s, 'w, 'k) libp2p \<Rightarrow> ('s, 'w) p2p_service \<Rightarrow> 's \<Rightarrow> bytes \<Rightarrow> 'w \<Rightarrow> 'w" where
  "service_stream rlp lib p s bs w =
     (case lb_SetReadDeadline lib s w of
        (Some e, w) \<Rightarrow> w
      | (None, w) \<Rightarrow>
          (case handleNewStream rlp bs of (ms, reset) \<Rightarrow>
             let w = (case sv_handleMessage p of None \<Rightarrow> w | Some f \<Rightarrow> fold (f s) ms w) in
             if reset then snd (lb_Reset lib s w) else w))"

section \<open>Runs of the service\<close>

datatype ('s, 'w) service_op =
    OpConnect peer_id
  | OpDisconnect peer_id
  | OpAsyncSend peer_id msg
  | OpSend peer_id msg
  | OpBroadcast "peer_id list" msg
  | OpConnectCallback "peer_id \<Rightarrow> goerr option"
  | OpMessageHandler "'s \<Rightarrow> msg \<Rightarrow> 'w \<Rightarrow> 'w"

text \<open>An operation that works on the streams of the service.\<close>

definition on_streams ::
    "('s streams \<times> 'w \<Rightarrow> 's streams \<times> 'w) \<Rightarrow> ('s, 'w) p2p_service \<times> 'w \<Rightarrow> ('s, 'w) p2p_service \<times> 'w" where
  "on_streams f st = (case st of (p, w) \<Rightarrow> case f (sv_streams p, w) of (streams, w) \<Rightarrow> (p\<lparr>sv_streams := streams\<rparr>, w))"

fun service_step ::
    "rlp_codec \<Rightarrow> ('s, 'w) service_op \<Rightarrow> ('s, 'w) p2p_service \<times> 'w \<Rightarrow> ('s, 'w) p2p_service \<times> 'w" where
  "service_step rlp (OpConnect pid) (p, w) = (p, snd (p2p_Connect (sv_host p) (sv_connectCallback p) pid w))"
| "service_step rlp (OpDisconnect pid) (p, w) = on_streams (\<lambda>st. snd (Disconnect (sv_host p) pid st)) (p, w)"
| "service_step rlp (OpAsyncSend pid m) (p, w) = on_streams (\<lambda>st. snd (AsyncSend rlp (sv_host p) pid m st)) (p, w)"
| "service_step rlp (OpSend pid m) (p, w) = on_streams (\<lambda>st. snd (Send rlp (sv_host p) pid m st)) (p, w)"
| "service_step rlp (OpBroadcast ids m) (p, w) = on_streams (p2p_Broadcast rlp (sv_host p) ids m) (p, w)"
| "service_step rlp (OpConnectCallback f) (p, w) = (SetConnectCallback f p, w)"
| "service_step rlp (OpMessageHandler f) (p, w) = (SetMessageHandler f p, w)"

text \<open>Every stream that is kept was opened to the peer it is kept for.\<close>

definition streams_opened :: "('s, 'w) p2p_host \<Rightarrow> 's streams \<Rightarrow> bool" where
  "streams_opened h streams = (\<forall>pid s. streams pid = Some s \<longrightarrow> (\<exists>w w'. NewStream h pid w = (Inr s, w')))"

lemma streams_opened_remove [intro]: "streams_opened h streams \<Longrightarrow> streams_opened h (streams(pid := None))"
  by (simp add: streams_opened_def)

lemma get_opened:
  assumes "streamMgr_get h pid (streams, w) = (r, streams', w')" "streams_opened h streams"
  shows "streams_opened h streams'"
  using assms by (auto simp: streamMgr_get_def streams_opened_def split: option.splits prod.splits sum.splits if_splits) blast+

lemma send_opened:
  assumes "streams_opened h (fst st)"
  shows "streams_opened h (fst (snd (AsyncSend rlp h pid m st)))" "streams_opened h (fst (snd (Send rlp h pid m st)))"
proof -
  obtain r streams w where g: "streamMgr_get h pid st = (r, streams, w)" by (metis surj_pair)
  have o: "streams_opened h streams" using get_opened [of h pid "fst st" "snd st"] g assms by simp
  show "streams_opened h (fst (snd (AsyncSend rlp h pid m st)))"
    using o by (auto simp: AsyncSend_def g streamMgr_remove_def split: sum.splits prod.splits option.splits)
  show "streams_opened h (fst (snd (Send rlp h pid m st)))"
    using o by (auto simp: Send_def g streamMgr_remove_def split: sum.splits prod.splits option.splits)
qed

lemma broadcast_opened: "streams_opened h (fst st) \<Longrightarrow> streams_opened h (fst (p2p_Broadcast rlp h ids m st))"
  by (induction ids arbitrary: st) (simp_all add: send_opened)

lemma disconnect_opened: "streams_opened h (fst st) \<Longrightarrow> streams_opened h (fst (snd (Disconnect h pid st)))"
  by (auto simp: Disconnect_def streamMgr_remove_def split: prod.splits)

lemma service_step_keeps:
  assumes "streams_opened (sv_host p) (sv_streams p)" "service_step rlp op (p, w) = (p', w')"
  shows "streams_opened (sv_host p') (sv_streams p') \<and> sv_host p' = sv_host p \<and> sv_config p' = sv_config p"
  using assms send_opened [of "sv_host p" "(sv_streams p, w)" rlp] broadcast_opened [of "sv_host p" "(sv_streams p, w)" rlp]
    disconnect_opened [of "sv_host p" "(sv_streams p, w)"]
  by (cases op) (auto simp: on_streams_def SetConnectCallback_def SetMessageHandler_def split: prod.splits, (metis fst_conv)+)

lemma p2p_New_ok:
  assumes "p2p_New lib opts w = (Inr p, w')"
  shows "sv_streams p = Map.empty \<and> generateConfig opts = Inr (sv_config p)
    \<and> lb_New lib (privKey (sv_config p)) (localAddr (sv_config p)) w = (Inr (sv_host p), w')"
  using assms by (auto simp: p2p_New_def newStreamMng_def split: sum.splits prod.splits)

text \<open>Whatever is done with a service that was made, in any order, its streams are opened to their own peers.\<close>

theorem service_streams_opened:
  assumes "p2p_New lib opts w0 = (Inr p0, w1)" "fold (service_step rlp) ops (p0, w1) = (p, w)"
  shows "streams_opened (sv_host p) (sv_streams p) \<and> sv_host p = sv_host p0"
proof -
  have "streams_opened (sv_host p') (sv_streams p') \<Longrightarrow> fold (service_step rlp) ops (p', w') = (p, w) \<Longrightarrow>
      streams_opened (sv_host p) (sv_streams p) \<and> sv_host p = sv_host p'" for p' w'
  proof (induction ops arbitrary: p' w')
    case (Cons op ops)
    obtain q v where q: "service_step rlp op (p', w') = (q, v)" by fastforce
    with Cons.prems show ?case using service_step_keeps [OF Cons.prems(1) q] Cons.IH [of q v] by auto
  qed simp
  moreover have "streams_opened (sv_host p0) (sv_streams p0)"
    using p2p_New_ok [OF assms(1)] by (simp add: streams_opened_def)
  ultimately show ?thesis using assms(2) by blast
qed

text \<open>The messages whose frames arrive on a stream are handled one after the other, and the stream is not reset.\<close>

theorem service_handles_stream:
  assumes "rlp_law rlp" "\<forall>m \<in> set ms. msg_ok m" "lb_SetReadDeadline lib s w = (None, w')"
  shows "service_stream rlp lib (SetMessageHandler f p) s (concat (map (frame rlp) ms)) w = fold (f s) ms w'"
  using assms by (simp add: service_stream_def SetMessageHandler_def stream_delivers)

text \<open>Without a handler the messages are read and lost; a service is made only for an address.\<close>

lemma service_unhandled:
  assumes "rlp_law rlp" "\<forall>m \<in> set ms. msg_ok m" "lb_SetReadDeadline lib s w = (None, w')" "sv_handleMessage p = None"
  shows "service_stream rlp lib p s (concat (map (frame rlp) ms)) w = w'"
  using assms by (simp add: service_stream_def stream_delivers)

lemma p2p_New_no_address:
  "p2p_New lib [WithPrivateKey k, WithProtocolID i] w
   = (Inl (ErrWrap ''generate config'' (ErrWrap ''create p2p'' (ErrNew ''empty local address''))), w)"
  by (simp add: p2p_New_def generateConfig_def p2p_checkConfig_def WithPrivateKey_def WithProtocolID_def)

end
