(* ===== verification/CoreTx.thy ===== *)
theory CoreTx
  imports Complex_Main GoText GoHeap
begin

text \<open>
  Cross-chain transactions and receipts: core/cross_status.go, the live part of
  core/cross_transaction.go, core/cross_transaction_signing.go, core/recept_transaction.go and
  core/recept_transaction_signing.go. Hashes and addresses are byte lists. The functions of
  go-simplechain (Keccak, padding, EIP155 helpers, public key recovery) are the fields of
  \<open>chain_lib\<close>; what the proofs rely on is named in \<open>left_pad_law\<close>, \<open>derive_law\<close>,
  \<open>recover_law\<close> and \<open>signs_as\<close>.
\<close>

section \<open>Status\<close>

type_synonym ctx_status = u8

definition CtxStatusPending :: ctx_status where "CtxStatusPending = 0"
definition CtxStatusWaiting :: ctx_status where "CtxStatusWaiting = 1"
definition CtxStatusIllegal :: ctx_status where "CtxStatusIllegal = 2"
definition CtxStatusExecuting :: ctx_status where "CtxStatusExecuting = 3"
definition CtxStatusExecuted :: ctx_status where "CtxStatusExecuted = 4"
definition CtxStatusFinishing :: ctx_status where "CtxStatusFinishing = 5"
definition CtxStatusFinished :: ctx_status where "CtxStatusFinished = 6"

lemmas ctx_status_defs = CtxStatusPending_def CtxStatusWaiting_def CtxStatusIllegal_def
  CtxStatusExecuting_def CtxStatusExecuted_def CtxStatusFinishing_def CtxStatusFinished_def

definition ctxStatusToString :: "(ctx_status \<times> string) list" where
  "ctxStatusToString =
     [(CtxStatusPending, ''pending''), (CtxStatusWaiting, ''waiting''),
      (CtxStatusIllegal, ''illegal''), (CtxStatusExecuting, ''executing''),
      (CtxStatusExecuted, ''executed''), (CtxStatusFinishing, ''finishing''),
      (CtxStatusFinished, ''finished'')]"

definition CtxStatus_String :: "ctx_status \<Rightarrow> string" where
  "CtxStatus_String s = (case map_of ctxStatusToString s of Some t \<Rightarrow> t | None \<Rightarrow> ''unknown'')"

text \<open>The loop ranges over a Go map; no two of its values are equal, so its order is immaterial.\<close>

definition CtxStatus_UnmarshalText :: "string \<Rightarrow> ctx_status outcome" where
  "CtxStatus_UnmarshalText input =
     (case find (\<lambda>(k, v). v = input) ctxStatusToString of
        Some (k, v) \<Rightarrow> Ok k
      | None \<Rightarrow> Err (ErrNew ''not found''))"

section \<open>Parameters\<close>

type_synonym hash = bytes
type_synonym address = bytes

record chain_lib =
  Keccak :: "bytes \<Rightarrow> hash"
  LeftPadBytes :: "bytes \<Rightarrow> nat \<Rightarrow> bytes"
  HexToAddress :: "string \<Rightarrow> address"
  DeriveChainId :: "int \<Rightarrow> int"
  RecoverPlain :: "hash \<Rightarrow> int \<Rightarrow> int \<Rightarrow> int \<Rightarrow> bool \<Rightarrow> goerr + address"

type_synonym sign_fn = "hash \<Rightarrow> goerr + bytes"

definition left_pad_law :: "chain_lib \<Rightarrow> bool" where
  "left_pad_law lib \<longleftrightarrow>
     (\<forall>b. length b \<le> 32 \<longrightarrow> LeftPadBytes lib b 32 = replicate (32 - length b) 0 @ b)"

text \<open>EIP155: \<open>v\<close> is 27 or 28 for an unprotected signature and \<open>35 + 2 * id + parity\<close> otherwise.\<close>

definition derive_law :: "chain_lib \<Rightarrow> bool" where
  "derive_law lib \<longleftrightarrow> DeriveChainId lib 27 = 0 \<and> DeriveChainId lib 28 = 0 \<and>
     (\<forall>c > 0. DeriveChainId lib (35 + 2 * c) = c \<and> DeriveChainId lib (36 + 2 * c) = c)"

definition ErrInvalidSig :: goerr where "ErrInvalidSig = ErrNew ''invalid transaction v, r, s values''"
definition ErrInvalidChainId :: goerr where "ErrInvalidChainId = ErrNew ''invalid chain id for signer''"

definition recover_law :: "chain_lib \<Rightarrow> bool" where
  "recover_law lib \<longleftrightarrow>
     (\<forall>h r s v. v \<notin> {27, 28} \<longrightarrow> RecoverPlain lib h r s v True = Inl ErrInvalidSig)"

text \<open>\<open>sig\<close> is a signature of \<open>h\<close> by the key of \<open>a\<close>, in the \<open>[R || S || V]\<close> form.\<close>

definition signs_as :: "chain_lib \<Rightarrow> address \<Rightarrow> hash \<Rightarrow> bytes \<Rightarrow> bool" where
  "signs_as lib a h sig \<longleftrightarrow> length sig = 65 \<and> sig ! 64 \<in> {0, 1} \<and>
     RecoverPlain lib h (int (be_nat (take 32 sig))) (int (be_nat (take 32 (drop 32 sig))))
       (27 + int (unat (sig ! 64))) True = Inr a"

section \<open>Cross transactions\<close>

record ctxdata =
  ctx_CTxId :: hash
  ctx_TxHash :: hash
  ctx_BlockHash :: hash
  ctx_Value :: int
  ctx_Charge :: int
  ctx_From :: string
  ctx_To :: string
  ctx_Origin :: u8
  ctx_Purpose :: u8
  ctx_Payload :: bytes
  ctx_V :: int
  ctx_R :: int
  ctx_S :: int

record eip155_signer =
  chainId :: int
  chainIdMul :: int

record cross_tx =
  ctx_Data :: ctxdata
  ctx_hash :: "hash option"
  ctx_signHash :: "hash option"
  ctx_from :: "(eip155_signer \<times> address) option"

definition uncached :: "ctxdata \<Rightarrow> cross_tx" where
  "uncached d = \<lparr> ctx_Data = d, ctx_hash = None, ctx_signHash = None, ctx_from = None \<rparr>"

definition NewCrossTransaction ::
    "int \<Rightarrow> int \<Rightarrow> string \<Rightarrow> string \<Rightarrow> u8 \<Rightarrow> u8 \<Rightarrow> hash \<Rightarrow> hash \<Rightarrow> hash \<Rightarrow> bytes \<Rightarrow> cross_tx" where
  "NewCrossTransaction amount charge from to origin purpose i txHash bHash input =
     uncached \<lparr> ctx_CTxId = i, ctx_TxHash = txHash, ctx_BlockHash = bHash, ctx_Value = amount,
       ctx_Charge = charge, ctx_From = from, ctx_To = to, ctx_Origin = origin,
       ctx_Purpose = purpose, ctx_Payload = input, ctx_V = 0, ctx_R = 0, ctx_S = 0 \<rparr>"

definition CrossTransaction_ID :: "cross_tx \<Rightarrow> hash" where
  "CrossTransaction_ID tx = ctx_CTxId (ctx_Data tx)"

definition CrossTransaction_ChainId :: "chain_lib \<Rightarrow> cross_tx \<Rightarrow> int" where
  "CrossTransaction_ChainId lib tx = DeriveChainId lib (ctx_V (ctx_Data tx))"

definition CrossTransaction_Destination :: "cross_tx \<Rightarrow> u8" where
  "CrossTransaction_Destination tx = ctx_Purpose (ctx_Data tx)"

definition pad32 :: "chain_lib \<Rightarrow> int \<Rightarrow> bytes" where
  "pad32 lib n = LeftPadBytes lib (big_Bytes n) 32"

text \<open>The buffer \<open>b\<close> that \<open>Hash\<close>, \<open>SignHash\<close> and the signer's \<open>Hash\<close> fill in the same way.\<close>

definition ctx_preimage :: "chain_lib \<Rightarrow> ctxdata \<Rightarrow> bytes" where
  "ctx_preimage lib d =
     ctx_CTxId d @ ctx_TxHash d @ ctx_BlockHash d @ pad32 lib (ctx_Value d) @ pad32 lib (ctx_Charge d)
     @ str_bytes (ctx_From d) @ str_bytes (ctx_To d) @ [ctx_Origin d] @ [ctx_Purpose d]
     @ ctx_Payload d"

definition ctx_simple_preimage :: "chain_lib \<Rightarrow> ctxdata \<Rightarrow> bytes" where
  "ctx_simple_preimage lib d =
     ctx_CTxId d @ ctx_TxHash d @ ctx_BlockHash d @ pad32 lib (ctx_Value d) @ pad32 lib (ctx_Charge d)
     @ HexToAddress lib (ctx_From d) @ HexToAddress lib (ctx_To d) @ [ctx_Origin d] @ [ctx_Purpose d]
     @ ctx_Payload d"

definition CrossTransaction_Hash :: "chain_lib \<Rightarrow> cross_tx \<Rightarrow> hash \<times> cross_tx" where
  "CrossTransaction_Hash lib tx =
     (case ctx_hash tx of
        Some h \<Rightarrow> (h, tx)
      | None \<Rightarrow>
          let h = Keccak lib (ctx_preimage lib (ctx_Data tx)) in (h, tx\<lparr>ctx_hash := Some h\<rparr>))"

definition CrossTransaction_SimpleHash :: "chain_lib \<Rightarrow> cross_tx \<Rightarrow> hash" where
  "CrossTransaction_SimpleHash lib tx = Keccak lib (ctx_simple_preimage lib (ctx_Data tx))"

definition ctx_sign_preimage :: "chain_lib \<Rightarrow> ctxdata \<Rightarrow> bytes" where
  "ctx_sign_preimage lib d =
     ctx_preimage lib d @ pad32 lib (ctx_V d) @ pad32 lib (ctx_R d) @ pad32 lib (ctx_S d)"

definition CrossTransaction_SignHash :: "chain_lib \<Rightarrow> cross_tx \<Rightarrow> hash \<times> cross_tx" where
  "CrossTransaction_SignHash lib tx =
     (case ctx_signHash tx of
        Some h \<Rightarrow> (h, tx)
      | None \<Rightarrow>
          let h = Keccak lib (ctx_sign_preimage lib (ctx_Data tx)) in
          (h, tx\<lparr>ctx_signHash := Some h\<rparr>))"

definition CrossTransaction_Price :: "cross_tx \<Rightarrow> rat" where
  "CrossTransaction_Price tx =
     (if ctx_Value (ctx_Data tx) = 0 then of_int (2 ^ 64 - 1)
      else Fract (ctx_Charge (ctx_Data tx)) (ctx_Value (ctx_Data tx)))"

text \<open>\<open>CtxIDs.String\<close>; \<open>show\<close> prints one hash.\<close>

definition CtxIDs_String :: "(hash \<Rightarrow> string) \<Rightarrow> hash list \<Rightarrow> string" where
  "CtxIDs_String show_id ids =
     ''['' @ concat (map (\<lambda>i. '' '' @ show_id i) ids) @ '' ]''"

section \<open>Transactions by price\<close>

definition CTxByPrice_Len :: "cross_tx list \<Rightarrow> nat" where
  "CTxByPrice_Len s = length s"

definition price_before :: "cross_tx \<Rightarrow> cross_tx \<Rightarrow> bool" where
  "price_before a b \<longleftrightarrow> CrossTransaction_Price a > CrossTransaction_Price b"

definition CTxByPrice_Less :: "cross_tx list \<Rightarrow> nat \<Rightarrow> nat \<Rightarrow> bool" where
  "CTxByPrice_Less s i j \<longleftrightarrow> price_before (s ! i) (s ! j)"

definition CTxByPrice_Swap :: "cross_tx list \<Rightarrow> nat \<Rightarrow> nat \<Rightarrow> cross_tx list" where
  "CTxByPrice_Swap s i j = s[i := s ! j, j := s ! i]"

definition CTxByPrice_Push :: "cross_tx \<Rightarrow> cross_tx list \<Rightarrow> cross_tx list" where
  "CTxByPrice_Push x s = s @ [x]"

definition CTxByPrice_Pop :: "cross_tx list \<Rightarrow> cross_tx \<times> cross_tx list" where
  "CTxByPrice_Pop s = (let n = length s in (s ! (n - 1), take (n - 1) s))"

text \<open>\<open>heap.Push\<close> and \<open>heap.Pop\<close> on a \<open>CTxByPrice\<close>.\<close>

abbreviation ctx_heap_push :: "cross_tx \<Rightarrow> cross_tx list \<Rightarrow> cross_tx list" where
  "ctx_heap_push \<equiv> heap_push CTxByPrice_Len CTxByPrice_Less CTxByPrice_Swap CTxByPrice_Push"

abbreviation ctx_heap_pop :: "cross_tx list \<Rightarrow> cross_tx \<times> cross_tx list" where
  "ctx_heap_pop \<equiv> heap_pop CTxByPrice_Len CTxByPrice_Less CTxByPrice_Swap CTxByPrice_Pop"

section \<open>Signing\<close>

text \<open>\<open>SignCtx\<close>, \<open>SignSimpleCtx\<close> and \<open>SignRtx\<close> have one body, over the hash they sign.\<close>

definition sign_tx ::
    "('tx \<Rightarrow> hash) \<Rightarrow> ('tx \<Rightarrow> bytes \<Rightarrow> 'tx outcome) \<Rightarrow> sign_fn \<Rightarrow> 'tx \<Rightarrow> 'tx outcome" where
  "sign_tx hash with_sig signHash tx =
     (case signHash (hash tx) of Inl e \<Rightarrow> Err e | Inr sig \<Rightarrow> with_sig tx sig)"

definition NewEIP155CtxSigner :: "int option \<Rightarrow> eip155_signer" where
  "NewEIP155CtxSigner c =
     (let c = (case c of None \<Rightarrow> 0 | Some c \<Rightarrow> c) in \<lparr> chainId = c, chainIdMul = c * 2 \<rparr>)"

definition EIP155CtxSigner_Equal :: "eip155_signer \<Rightarrow> eip155_signer \<Rightarrow> bool" where
  "EIP155CtxSigner_Equal s s2 \<longleftrightarrow> chainId s2 = chainId s"

definition EIP155CtxSigner_Hash :: "chain_lib \<Rightarrow> cross_tx \<Rightarrow> hash" where
  "EIP155CtxSigner_Hash lib tx = Keccak lib (ctx_preimage lib (ctx_Data tx))"

definition EIP155CtxSigner_SimpleHash :: "chain_lib \<Rightarrow> cross_tx \<Rightarrow> hash" where
  "EIP155CtxSigner_SimpleHash lib tx = Keccak lib (ctx_simple_preimage lib (ctx_Data tx))"

definition EIP155CtxSigner_Sender :: "chain_lib \<Rightarrow> eip155_signer \<Rightarrow> cross_tx \<Rightarrow> address outcome" where
  "EIP155CtxSigner_Sender lib s tx =
     (if CrossTransaction_ChainId lib tx \<noteq> chainId s then Err ErrInvalidChainId
      else
        let V = ctx_V (ctx_Data tx) - chainIdMul s - 8 in
        case RecoverPlain lib (EIP155CtxSigner_Hash lib tx) (ctx_R (ctx_Data tx))
               (ctx_S (ctx_Data tx)) V True of
          Inl e \<Rightarrow> Err e
        | Inr a \<Rightarrow> Ok a)"

definition EIP155CtxSigner_SignatureValues :: "eip155_signer \<Rightarrow> bytes \<Rightarrow> (int \<times> int \<times> int) outcome" where
  "EIP155CtxSigner_SignatureValues s sig =
     (if length sig \<noteq> 65 then
        Panic (''wrong size for signature: got '' @ show_nat (length sig) @ '', want 65'')
      else
        let R = int (be_nat (take 32 sig));
            S = int (be_nat (take 32 (drop 32 sig)));
            V = (if chainId s = 0 then int (unat (sig ! 64 + 27))
                 else int (unat (sig ! 64 + 35)) + chainIdMul s) in
        Ok (R, S, V))"

definition CrossTransaction_WithSignature :: "eip155_signer \<Rightarrow> cross_tx \<Rightarrow> bytes \<Rightarrow> cross_tx outcome" where
  "CrossTransaction_WithSignature s tx sig =
     bind_outcome (EIP155CtxSigner_SignatureValues s sig) (\<lambda>(r, s, v).
       Ok (uncached ((ctx_Data tx)\<lparr>ctx_R := r, ctx_S := s, ctx_V := v\<rparr>)))"

definition SignCtx :: "chain_lib \<Rightarrow> eip155_signer \<Rightarrow> sign_fn \<Rightarrow> cross_tx \<Rightarrow> cross_tx outcome" where
  "SignCtx lib s signHash tx =
     sign_tx (EIP155CtxSigner_Hash lib) (CrossTransaction_WithSignature s) signHash tx"

definition SignSimpleCtx :: "chain_lib \<Rightarrow> eip155_signer \<Rightarrow> sign_fn \<Rightarrow> cross_tx \<Rightarrow> cross_tx outcome" where
  "SignSimpleCtx lib s signHash tx =
     sign_tx (EIP155CtxSigner_SimpleHash lib) (CrossTransaction_WithSignature s) signHash tx"

definition CtxSender :: "chain_lib \<Rightarrow> eip155_signer \<Rightarrow> cross_tx \<Rightarrow> address outcome \<times> cross_tx" where
  "CtxSender lib signer tx =
     (let derive =
        (case EIP155CtxSigner_Sender lib signer tx of
           Ok addr \<Rightarrow> (Ok addr, tx\<lparr>ctx_from := Some (signer, addr)\<rparr>)
         | Err e \<Rightarrow> (Err e, tx)
         | Panic p \<Rightarrow> (Panic p, tx)) in
      case ctx_from tx of
        Some (s, from) \<Rightarrow> if EIP155CtxSigner_Equal s signer then (Ok from, tx) else derive
      | None \<Rightarrow> derive)"

section \<open>Receipts\<close>

record rtxdata =
  rtx_CTxId :: hash
  rtx_TxHash :: hash
  rtx_From :: string
  rtx_To :: string
  rtx_Taker :: string
  rtx_Origin :: u8
  rtx_Purpose :: u8
  rtx_Payload :: bytes
  rtx_V :: int
  rtx_R :: int
  rtx_S :: int

record recept_tx =
  rtx_Data :: rtxdata
  rtx_hash :: "hash option"
  rtx_signHash :: "hash option"
  rtx_from :: "(eip155_signer \<times> address) option"

definition rtx_uncached :: "rtxdata \<Rightarrow> recept_tx" where
  "rtx_uncached d = \<lparr> rtx_Data = d, rtx_hash = None, rtx_signHash = None, rtx_from = None \<rparr>"

definition NewReceptTransaction ::
    "hash \<Rightarrow> hash \<Rightarrow> string \<Rightarrow> string \<Rightarrow> string \<Rightarrow> u8 \<Rightarrow> u8 \<Rightarrow> bytes \<Rightarrow> recept_tx" where
  "NewReceptTransaction i txHash from to taker origin purpose input =
     rtx_uncached \<lparr> rtx_CTxId = i, rtx_TxHash = txHash, rtx_From = from, rtx_To = to,
       rtx_Taker = taker, rtx_Origin = origin, rtx_Purpose = purpose, rtx_Payload = input,
       rtx_V = 0, rtx_R = 0, rtx_S = 0 \<rparr>"

definition ReceptTransaction_ChainId :: "chain_lib \<Rightarrow> recept_tx \<Rightarrow> int" where
  "ReceptTransaction_ChainId lib tx = DeriveChainId lib (rtx_V (rtx_Data tx))"

definition rtx_preimage :: "rtxdata \<Rightarrow> bytes" where
  "rtx_preimage d =
     rtx_CTxId d @ rtx_TxHash d @ str_bytes (rtx_From d) @ str_bytes (rtx_To d)
     @ str_bytes (rtx_Taker d) @ [rtx_Origin d] @ [rtx_Purpose d] @ rtx_Payload d"

definition ReceptTransaction_Hash :: "chain_lib \<Rightarrow> recept_tx \<Rightarrow> hash \<times> recept_tx" where
  "ReceptTransaction_Hash lib tx =
     (case rtx_hash tx of
        Some h \<Rightarrow> (h, tx)
      | None \<Rightarrow> let h = Keccak lib (rtx_preimage (rtx_Data tx)) in (h, tx\<lparr>rtx_hash := Some h\<rparr>))"

definition ReceptTransaction_SignHash :: "chain_lib \<Rightarrow> recept_tx \<Rightarrow> hash \<times> recept_tx" where
  "ReceptTransaction_SignHash lib tx =
     (case rtx_signHash tx of
        Some h \<Rightarrow> (h, tx)
      | None \<Rightarrow>
          let d = rtx_Data tx;
              h = Keccak lib (rtx_preimage d @ pad32 lib (rtx_V d) @ pad32 lib (rtx_R d)
                    @ pad32 lib (rtx_S d)) in
          (h, tx\<lparr>rtx_signHash := Some h\<rparr>))"

text \<open>The signer's hash of a receipt: it leaves \<open>Origin\<close> out.\<close>

definition EIP155RtxSigner_Hash :: "chain_lib \<Rightarrow> recept_tx \<Rightarrow> hash" where
  "EIP155RtxSigner_Hash lib tx =
     (let d = rtx_Data tx in
      Keccak lib (rtx_CTxId d @ rtx_TxHash d @ str_bytes (rtx_From d) @ str_bytes (rtx_To d)
        @ str_bytes (rtx_Taker d) @ [rtx_Purpose d] @ rtx_Payload d))"

definition NewEIP155RtxSigner :: "int option \<Rightarrow> eip155_signer" where
  "NewEIP155RtxSigner c =
     (let c = (case c of None \<Rightarrow> 0 | Some c \<Rightarrow> c) in \<lparr> chainId = c, chainIdMul = c * 2 \<rparr>)"

definition EIP155RtxSigner_Equal :: "eip155_signer \<Rightarrow> eip155_signer \<Rightarrow> bool" where
  "EIP155RtxSigner_Equal s s2 \<longleftrightarrow> chainId s2 = chainId s"

definition EIP155RtxSigner_Sender :: "chain_lib \<Rightarrow> eip155_signer \<Rightarrow> recept_tx \<Rightarrow> address outcome" where
  "EIP155RtxSigner_Sender lib s tx =
     (if ReceptTransaction_ChainId lib tx \<noteq> chainId s then Err ErrInvalidChainId
      else
        let V = rtx_V (rtx_Data tx) - chainIdMul s - 8 in
        case RecoverPlain lib (EIP155RtxSigner_Hash lib tx) (rtx_R (rtx_Data tx))
               (rtx_S (rtx_Data tx)) V True of
          Inl e \<Rightarrow> Err e
        | Inr a \<Rightarrow> Ok a)"

definition EIP155RtxSigner_SignatureValues :: "eip155_signer \<Rightarrow> bytes \<Rightarrow> (int \<times> int \<times> int) outcome" where
  "EIP155RtxSigner_SignatureValues s sig =
     (if length sig \<noteq> 65 then
        Panic (''wrong size for signature: got '' @ show_nat (length sig) @ '', want 65'')
      else
        let R = int (be_nat (take 32 sig));
            S = int (be_nat (take 32 (drop 32 sig)));
            V = (if chainId s = 0 then int (unat (sig ! 64 + 27))
                 else int (unat (sig ! 64 + 35)) + chainIdMul s) in
        Ok (R, S, V))"

definition ReceptTransaction_WithSignature :: "eip155_signer \<Rightarrow> recept_tx \<Rightarrow> bytes \<Rightarrow> recept_tx outcome" where
  "ReceptTransaction_WithSignature s tx sig =
     bind_outcome (EIP155RtxSigner_SignatureValues s sig) (\<lambda>(r, s, v).
       Ok (rtx_uncached ((rtx_Data tx)\<lparr>rtx_R := r, rtx_S := s, rtx_V := v\<rparr>)))"

definition SignRtx :: "chain_lib \<Rightarrow> eip155_signer \<Rightarrow> sign_fn \<Rightarrow> recept_tx \<Rightarrow> recept_tx outcome" where
  "SignRtx lib s signHash tx =
     sign_tx (EIP155RtxSigner_Hash lib) (ReceptTransaction_WithSignature s) signHash tx"

definition RtxSender :: "chain_lib \<Rightarrow> eip155_signer \<Rightarrow> recept_tx \<Rightarrow> address outcome \<times> recept_tx" where
  "RtxSender lib signer tx =
     (let derive =
        (case EIP155RtxSigner_Sender lib signer tx of
           Ok addr \<Rightarrow> (Ok addr, tx\<lparr>rtx_from := Some (signer, addr)\<rparr>)
         | Err e \<Rightarrow> (Err e, tx)
         | Panic p \<Rightarrow> (Panic p, tx)) in
      case rtx_from tx of
        Some (s, from) \<Rightarrow> if EIP155RtxSigner_Equal s signer then (Ok from, tx) else derive
      | None \<Rightarrow> derive)"

record recept =
  rec_TxId :: hash
  rec_TxHash :: hash
  rec_From :: string
  rec_To :: string
  rec_Taker :: address
  rec_Origin :: u8
  rec_Purpose :: u8
  rec_Data :: bytes

text \<open>\<open>pack\<close> is the ABI encoder of the contract the receipt is sent to.\<close>

definition ConstructData ::
    "chain_lib \<Rightarrow> (string \<Rightarrow> recept \<Rightarrow> goerr + bytes) \<Rightarrow> recept_tx \<Rightarrow> goerr + bytes" where
  "ConstructData lib pack rtx =
     (let d = rtx_Data rtx in
      pack ''makerFinish''
        \<lparr> rec_TxId = rtx_CTxId d, rec_TxHash = rtx_TxHash d, rec_From = rtx_From d,
          rec_To = rtx_To d, rec_Taker = HexToAddress lib (rtx_Taker d),
          rec_Origin = rtx_Origin d, rec_Purpose = rtx_Purpose d, rec_Data = rtx_Payload d \<rparr>)"

section \<open>Status texts\<close>

lemma CtxStatus_String_known:
  "s \<le> 6 \<Longrightarrow> CtxStatus_UnmarshalText (CtxStatus_String s) = Ok s"
proof -
  assume "s \<le> 6"
  then have "unat s \<le> 6" by (simp add: word_le_nat_alt)
  then have "unat s \<in> {0, 1, 2, 3, 4, 5, 6}" by auto
  then have "s \<in> {0, 1, 2, 3, 4, 5, 6}"
    by (auto simp: unat_eq_0 dest!: arg_cong [where f = "word_of_nat :: nat \<Rightarrow> u8"])
  then show ?thesis
    by (auto simp: CtxStatus_UnmarshalText_def CtxStatus_String_def ctxStatusToString_def
        ctx_status_defs)
qed

lemma CtxStatus_String_unknown: "6 < s \<Longrightarrow> CtxStatus_String s = ''unknown''"
  by (auto simp: CtxStatus_String_def ctxStatusToString_def ctx_status_defs)

text \<open>Each of the seven states of a cross transaction is read back from its text, and the
  text printed for any other byte is refused.\<close>

theorem CtxStatus_roundtrip:
  "CtxStatus_UnmarshalText (CtxStatus_String s) =
     (if s \<le> CtxStatusFinished then Ok s else Err (ErrNew ''not found''))"
proof (cases "s \<le> 6")
  case True
  then show ?thesis by (simp add: CtxStatus_String_known CtxStatusFinished_def)
next
  case False
  then have "CtxStatus_String s = ''unknown''" by (intro CtxStatus_String_unknown) simp
  with False show ?thesis
    by (simp add: CtxStatus_UnmarshalText_def ctxStatusToString_def CtxStatusFinished_def)
qed

section \<open>Transactions by price\<close>

lemma price_weak_order: "weak_order_on price_before A"
  by (rule weak_order_key [where key = CrossTransaction_Price]) (simp add: price_before_def)

interpretation ctxs: heap_interface CTxByPrice_Len CTxByPrice_Less CTxByPrice_Swap CTxByPrice_Push
  CTxByPrice_Pop "\<lambda>s. s" "\<lambda>s. True" price_before
  by unfold_locales
    (auto simp: CTxByPrice_Len_def CTxByPrice_Less_def CTxByPrice_Swap_def CTxByPrice_Push_def
      CTxByPrice_Pop_def list_swap_def Let_def last_conv_nth butlast_conv_take)

definition ctx_heap_of :: "cross_tx list \<Rightarrow> cross_tx list" where
  "ctx_heap_of txs = fold ctx_heap_push txs []"

lemma fold_heap_push:
  "heap_ordered price_before h (length h) \<Longrightarrow>
     heap_ordered price_before (fold ctx_heap_push txs h) (length (fold ctx_heap_push txs h)) \<and>
     mset (fold ctx_heap_push txs h) = mset txs + mset h"
proof (induction txs arbitrary: h)
  case (Cons x txs)
  note p = ctxs.push_correct(2,3) [OF TrueI price_weak_order Cons.prems]
  from Cons.IH [OF p(2) [of x]] show ?case by (simp add: p(1))
qed simp

lemma ctx_heap_of_correct:
  "heap_ordered price_before (ctx_heap_of txs) (length (ctx_heap_of txs))"
  "mset (ctx_heap_of txs) = mset txs"
  using fold_heap_push [of "[]" txs] by (simp_all add: ctx_heap_of_def heap_ordered_def)

text \<open>Popping a heap of transactions built by \<open>heap.Push\<close> over \<open>CTxByPrice\<close> gives a
  transaction no other one beats in price, and leaves a heap of exactly the other ones.\<close>

theorem CTxByPrice_pop_best:
  assumes "txs \<noteq> []" "ctx_heap_pop (ctx_heap_of txs) = (x, h)"
  shows "x \<in> set txs \<and> (\<forall>y \<in> set txs. CrossTransaction_Price y \<le> CrossTransaction_Price x)
    \<and> mset h = mset txs - {#x#} \<and> heap_ordered price_before h (length h)"
proof -
  let ?s = "ctx_heap_of txs"
  have ne: "?s \<noteq> []" using assms(1) ctx_heap_of_correct(2) [of txs] by auto
  note p = ctxs.pop_correct [OF TrueI ne price_weak_order ctx_heap_of_correct(1)]
  have set: "set ?s = set txs" using ctx_heap_of_correct(2) [of txs] by (metis set_mset_mset)
  have x: "x = ?s ! 0" using p(2) assms(2) by simp
  then have "x \<in> set txs" using ne set by (metis length_greater_0_conv nth_mem)
  moreover have "\<forall>y \<in> set txs. CrossTransaction_Price y \<le> CrossTransaction_Price x"
    using p(3) assms(2) set by (auto simp: price_before_def not_less)
  moreover have "mset h = mset txs - {#x#}" "heap_ordered price_before h (length h)"
    using p(4,5) assms(2) ctx_heap_of_correct(2) [of txs] x by auto
  ultimately show ?thesis by blast
qed

definition priced :: "int \<Rightarrow> int \<Rightarrow> cross_tx" where
  "priced charge value = NewCrossTransaction value charge ''a'' ''b'' 1 2 [] [] [] []"

lemma CTxByPrice_pop_best_witness:
  "CrossTransaction_Price (priced 1 2) \<le>
     CrossTransaction_Price (fst (ctx_heap_pop (ctx_heap_of [priced 1 2, priced 3 2])))"
  using CTxByPrice_pop_best [of "[priced 1 2, priced 3 2]"
      "fst (ctx_heap_pop (ctx_heap_of [priced 1 2, priced 3 2]))"
      "snd (ctx_heap_pop (ctx_heap_of [priced 1 2, priced 3 2]))"]
  by simp

section \<open>What the signing hash covers\<close>

lemma pad32_length:
  assumes "left_pad_law lib" "0 \<le> n" "n < 2 ^ 256"
  shows "length (pad32 lib n) = 32" "be_nat (pad32 lib n) = nat n"
proof -
  have "nat n < 256 ^ 32" using assms(2,3) by (simp add: nat_less_iff)
  then have "length (be_bytes (nat n)) \<le> 32" by (rule length_be_bytes)
  then show "length (pad32 lib n) = 32" "be_nat (pad32 lib n) = nat n"
    using assms(1,2) by (simp_all add: pad32_def left_pad_law_def big_Bytes_def)
qed

lemma pad32_inject:
  assumes "left_pad_law lib" "0 \<le> n" "n < 2 ^ 256" "0 \<le> m" "m < 2 ^ 256"
  shows "pad32 lib n = pad32 lib m \<longleftrightarrow> n = m"
  using pad32_length [OF assms(1-3)] pad32_length [OF assms(1,4,5)] assms
  by (metis eq_nat_nat_iff)

definition ctx_wf :: "ctxdata \<Rightarrow> bool" where
  "ctx_wf d \<longleftrightarrow> length (ctx_CTxId d) = 32 \<and> length (ctx_TxHash d) = 32 \<and>
     length (ctx_BlockHash d) = 32 \<and> 0 \<le> ctx_Value d \<and> ctx_Value d < 2 ^ 256 \<and>
     0 \<le> ctx_Charge d \<and> ctx_Charge d < 2 ^ 256"

text \<open>The bytes a cross transaction is hashed and signed over determine the transaction up to
  its signature, for values of at most 256 bits, as long as the two account names are known to
  have the same lengths.\<close>

theorem ctx_preimage_injective:
  assumes "left_pad_law lib" "ctx_wf d" "ctx_wf d'"
    and "length (ctx_From d) = length (ctx_From d')" "length (ctx_To d) = length (ctx_To d')"
    and "ctx_preimage lib d = ctx_preimage lib d'"
  shows "d'\<lparr>ctx_V := ctx_V d, ctx_R := ctx_R d, ctx_S := ctx_S d\<rparr> = d"
proof -
  note v = pad32_length(1) [OF assms(1), of "ctx_Value d"] pad32_length(1) [OF assms(1), of "ctx_Value d'"]
    pad32_length(1) [OF assms(1), of "ctx_Charge d"] pad32_length(1) [OF assms(1), of "ctx_Charge d'"]
  have "ctx_CTxId d = ctx_CTxId d'" "ctx_TxHash d = ctx_TxHash d'" "ctx_BlockHash d = ctx_BlockHash d'"
      "pad32 lib (ctx_Value d) = pad32 lib (ctx_Value d')"
      "pad32 lib (ctx_Charge d) = pad32 lib (ctx_Charge d')"
      "ctx_From d = ctx_From d'" "ctx_To d = ctx_To d'" "ctx_Origin d = ctx_Origin d'"
      "ctx_Purpose d = ctx_Purpose d'" "ctx_Payload d = ctx_Payload d'"
    using assms(2-6) v by (auto simp: ctx_preimage_def ctx_wf_def)
  moreover from this have "ctx_Value d = ctx_Value d'" "ctx_Charge d = ctx_Charge d'"
    using assms(1-3) pad32_inject by (auto simp: ctx_wf_def)
  ultimately show ?thesis by simp
qed

definition demo_lib :: chain_lib where
  "demo_lib = \<lparr> Keccak = \<lambda>b. b, LeftPadBytes = \<lambda>b n. replicate (n - length b) 0 @ b,
     HexToAddress = \<lambda>_. replicate 20 0,
     DeriveChainId = \<lambda>v. if v \<in> {27, 28} then 0 else (v - 35) div 2,
     RecoverPlain = \<lambda>h r s v b. if v \<in> {27, 28} then Inr (replicate 20 7) else Inl ErrInvalidSig \<rparr>"

lemma demo_lib_laws:
  "left_pad_law demo_lib" "derive_law demo_lib" "recover_law demo_lib"
  by (simp_all add: left_pad_law_def derive_law_def recover_law_def demo_lib_def)

definition demo_ctx :: cross_tx where
  "demo_ctx = NewCrossTransaction 10 1 ''ab'' ''c'' 1 2 (replicate 32 1) (replicate 32 2)
     (replicate 32 3) [9]"

lemma ctx_preimage_injective_witness:
  "(ctx_Data demo_ctx)\<lparr>ctx_V := 0, ctx_R := 0, ctx_S := 0\<rparr> = ctx_Data demo_ctx"
  using ctx_preimage_injective [OF demo_lib_laws(1), of "ctx_Data demo_ctx" "ctx_Data demo_ctx"]
  by (simp add: ctx_wf_def demo_ctx_def NewCrossTransaction_def uncached_def)

text \<open>Without that knowledge they do not: the two names are concatenated without a length,
  so moving characters from the end of \<open>From\<close> to the front of \<open>To\<close> keeps the hash that is
  signed, whatever the hash function.\<close>

theorem ctx_hash_ambiguous:
  "EIP155CtxSigner_Hash lib (uncached (d\<lparr>ctx_From := a @ b, ctx_To := c\<rparr>)) =
   EIP155CtxSigner_Hash lib (uncached (d\<lparr>ctx_From := a, ctx_To := b @ c\<rparr>))"
  by (simp add: EIP155CtxSigner_Hash_def uncached_def ctx_preimage_def)

section \<open>Hash caches\<close>

definition ctx_cache_ok :: "chain_lib \<Rightarrow> cross_tx \<Rightarrow> bool" where
  "ctx_cache_ok lib tx \<longleftrightarrow>
     (\<forall>h. ctx_hash tx = Some h \<longrightarrow> h = Keccak lib (ctx_preimage lib (ctx_Data tx))) \<and>
     (\<forall>h. ctx_signHash tx = Some h \<longrightarrow> h = Keccak lib (ctx_sign_preimage lib (ctx_Data tx))) \<and>
     (\<forall>s a. ctx_from tx = Some (s, a) \<longrightarrow> chainIdMul s = chainId s * 2
        \<and> EIP155CtxSigner_Sender lib s tx = Ok a)"

lemma Sender_cache_irrelevant [simp]:
  "EIP155CtxSigner_Sender lib s (tx\<lparr>ctx_hash := a\<rparr>) = EIP155CtxSigner_Sender lib s tx"
  "EIP155CtxSigner_Sender lib s (tx\<lparr>ctx_signHash := a\<rparr>) = EIP155CtxSigner_Sender lib s tx"
  "EIP155CtxSigner_Sender lib s (tx\<lparr>ctx_from := b\<rparr>) = EIP155CtxSigner_Sender lib s tx"
  by (simp_all add: EIP155CtxSigner_Sender_def CrossTransaction_ChainId_def EIP155CtxSigner_Hash_def)

lemma ctx_cache_ok_uncached [simp]: "ctx_cache_ok lib (uncached d)"
  by (simp add: ctx_cache_ok_def uncached_def)

lemma WithSignature_uncached:
  "CrossTransaction_WithSignature s tx sig = Ok tx' \<Longrightarrow> \<exists>r q v.
     tx' = uncached ((ctx_Data tx)\<lparr>ctx_R := r, ctx_S := q, ctx_V := v\<rparr>)"
  by (auto simp: CrossTransaction_WithSignature_def outcome_simps)

lemma CtxSender_eq:
  assumes "ctx_cache_ok lib tx" "chainIdMul s = chainId s * 2"
  shows "fst (CtxSender lib s tx) = EIP155CtxSigner_Sender lib s tx"
    and "ctx_cache_ok lib (snd (CtxSender lib s tx))"
    and "ctx_Data (snd (CtxSender lib s tx)) = ctx_Data tx"
proof -
  have "s = q" if "chainIdMul q = chainId q * 2" "chainId s = chainId q" for q :: eip155_signer
    using that assms(2) by simp
  then show "fst (CtxSender lib s tx) = EIP155CtxSigner_Sender lib s tx"
      "ctx_cache_ok lib (snd (CtxSender lib s tx))"
      "ctx_Data (snd (CtxSender lib s tx)) = ctx_Data tx"
    using assms
    by (auto simp: CtxSender_def Let_def EIP155CtxSigner_Equal_def ctx_cache_ok_def
        split: option.splits outcome.splits)
qed

text \<open>The caches never change an answer. On a transaction built by the constructor or by
  \<open>WithSignature\<close>, and after any of the caching calls, \<open>Hash\<close> and \<open>SignHash\<close> return the hash of
  the current data and \<open>CtxSender\<close> returns what the signer derives, also when another signer was
  asked before.\<close>

theorem ctx_caches_coherent:
  assumes "ctx_cache_ok lib tx" "chainIdMul s = chainId s * 2"
  shows "fst (CrossTransaction_Hash lib tx) = Keccak lib (ctx_preimage lib (ctx_Data tx))
    \<and> ctx_cache_ok lib (snd (CrossTransaction_Hash lib tx))
    \<and> fst (CrossTransaction_SignHash lib tx) = Keccak lib (ctx_sign_preimage lib (ctx_Data tx))
    \<and> ctx_cache_ok lib (snd (CrossTransaction_SignHash lib tx))
    \<and> fst (CtxSender lib s tx) = EIP155CtxSigner_Sender lib s tx
    \<and> ctx_cache_ok lib (snd (CtxSender lib s tx))
    \<and> (\<forall>sig tx'. CrossTransaction_WithSignature s tx sig = Ok tx' \<longrightarrow> ctx_cache_ok lib tx')"
proof (intro conjI allI impI)
  show "fst (CrossTransaction_Hash lib tx) = Keccak lib (ctx_preimage lib (ctx_Data tx))"
    "ctx_cache_ok lib (snd (CrossTransaction_Hash lib tx))"
    "fst (CrossTransaction_SignHash lib tx) = Keccak lib (ctx_sign_preimage lib (ctx_Data tx))"
    "ctx_cache_ok lib (snd (CrossTransaction_SignHash lib tx))"
    using assms(1)
    by (auto simp: CrossTransaction_Hash_def CrossTransaction_SignHash_def ctx_cache_ok_def Let_def
        split: option.splits)
  show "fst (CtxSender lib s tx) = EIP155CtxSigner_Sender lib s tx"
    "ctx_cache_ok lib (snd (CtxSender lib s tx))"
    using CtxSender_eq [OF assms] by blast+
  show "ctx_cache_ok lib tx'" if "CrossTransaction_WithSignature s tx sig = Ok tx'" for sig tx'
    using WithSignature_uncached [OF that] by auto
qed

lemma ctx_caches_coherent_witness:
  "fst (CrossTransaction_Hash demo_lib demo_ctx) = ctx_preimage demo_lib (ctx_Data demo_ctx)"
  using ctx_caches_coherent [of demo_lib demo_ctx "NewEIP155CtxSigner (Some 5)"]
  by (simp add: demo_ctx_def NewCrossTransaction_def NewEIP155CtxSigner_def demo_lib_def)

section \<open>Signing and recovering the signer\<close>

text \<open>The contract of a signer: attaching an accepted signature of the hash gives a transaction
  whose sender is the owner of the key.\<close>

locale tx_signing =
  fixes hash :: "'tx \<Rightarrow> hash"
    and with_sig :: "'tx \<Rightarrow> bytes \<Rightarrow> 'tx outcome"
    and sender :: "'tx \<Rightarrow> address outcome"
    and accepts :: "address \<Rightarrow> hash \<Rightarrow> bytes \<Rightarrow> bool"
  assumes signed: "accepts a (hash tx) sig \<Longrightarrow> with_sig tx sig = r \<Longrightarrow> \<exists>tx'. r = Ok tx' \<and> sender tx' = Ok a"
begin

lemma sign_sender:
  assumes "f (hash tx) = Inr sig" "accepts a (hash tx) sig"
  shows "\<exists>tx'. sign_tx hash with_sig f tx = Ok tx' \<and> with_sig tx sig = Ok tx' \<and> sender tx' = Ok a"
  using assms signed [OF assms(2) refl] by (auto simp: sign_tx_def)

lemma sign_error: "f (hash tx) = Inl e \<Longrightarrow> sign_tx hash with_sig f tx = Err e"
  by (simp add: sign_tx_def)

end

definition eip155_accepts :: "chain_lib \<Rightarrow> eip155_signer \<Rightarrow> address \<Rightarrow> hash \<Rightarrow> bytes \<Rightarrow> bool" where
  "eip155_accepts lib s a h sig \<longleftrightarrow>
     derive_law lib \<and> 0 < chainId s \<and> chainIdMul s = chainId s * 2 \<and> signs_as lib a h sig"

lemma byte_35_36: "unat (0 + 35 :: byte) = 35" "unat (1 + 35 :: byte) = 36"
    "unat (0 + 27 :: byte) = 27" "unat (1 + 27 :: byte) = 28"
  by (simp_all add: take_bit_eq_mod)

lemma parity_byte:
  "b = 0 \<or> b = 1 \<Longrightarrow> int (unat (b + 35 :: byte)) = 35 + int (unat b) \<and> int (unat b) \<in> {0, 1}"
  using byte_35_36 by auto

lemma eip155_V:
  assumes "eip155_accepts lib s a h sig"
  defines "V \<equiv> int (unat (sig ! 64 + 35)) + chainIdMul s"
  shows "DeriveChainId lib V = chainId s" "V - chainIdMul s - 8 = 27 + int (unat (sig ! 64))"
proof -
  have "sig ! 64 = 0 \<or> sig ! 64 = 1" using assms(1) by (simp add: eip155_accepts_def signs_as_def)
  then obtain r where r: "int (unat (sig ! 64 + 35)) = 35 + r" "int (unat (sig ! 64)) = r"
      "r = 0 \<or> r = 1"
    using parity_byte by blast
  have law: "derive_law lib" "0 < chainId s" "chainIdMul s = chainId s * 2"
    using assms(1) by (auto simp: eip155_accepts_def)
  then have "DeriveChainId lib (35 + r + chainId s * 2) = chainId s"
    using r(3) by (auto simp: derive_law_def algebra_simps)
  then show "DeriveChainId lib V = chainId s" "V - chainIdMul s - 8 = 27 + int (unat (sig ! 64))"
    unfolding V_def r law(3) by simp_all
qed

lemma ctx_WithSignature_sender:
  assumes "eip155_accepts lib s a (EIP155CtxSigner_Hash lib tx) sig"
  shows "\<exists>tx'. CrossTransaction_WithSignature s tx sig = Ok tx' \<and> EIP155CtxSigner_Sender lib s tx' = Ok a"
  using assms eip155_V [OF assms]
  by (auto simp: eip155_accepts_def signs_as_def CrossTransaction_WithSignature_def Let_def
      EIP155CtxSigner_SignatureValues_def EIP155CtxSigner_Sender_def uncached_def
      EIP155CtxSigner_Hash_def CrossTransaction_ChainId_def ctx_preimage_def)

lemma rtx_WithSignature_sender:
  assumes "eip155_accepts lib s a (EIP155RtxSigner_Hash lib tx) sig"
  shows "\<exists>tx'. ReceptTransaction_WithSignature s tx sig = Ok tx' \<and> EIP155RtxSigner_Sender lib s tx' = Ok a"
  using assms eip155_V [OF assms]
  by (auto simp: eip155_accepts_def signs_as_def ReceptTransaction_WithSignature_def Let_def
      EIP155RtxSigner_SignatureValues_def EIP155RtxSigner_Sender_def rtx_uncached_def
      EIP155RtxSigner_Hash_def ReceptTransaction_ChainId_def)

interpretation ctx_signing: tx_signing "EIP155CtxSigner_Hash lib" "CrossTransaction_WithSignature s"
  "EIP155CtxSigner_Sender lib s" "eip155_accepts lib s" for lib s
  by unfold_locales (use ctx_WithSignature_sender in blast)

interpretation rtx_signing: tx_signing "EIP155RtxSigner_Hash lib" "ReceptTransaction_WithSignature s"
  "EIP155RtxSigner_Sender lib s" "eip155_accepts lib s" for lib s
  by unfold_locales (use rtx_WithSignature_sender in blast)

lemma SignCtx_accepted:
  assumes "eip155_accepts lib s a (EIP155CtxSigner_Hash lib tx) sig"
    and "f (EIP155CtxSigner_Hash lib tx) = Inr sig"
  shows "\<exists>tx'. SignCtx lib s f tx = Ok tx'
    \<and> CtxSender lib s tx' = (Ok a, tx'\<lparr>ctx_from := Some (s, a)\<rparr>)
    \<and> (\<forall>lib'. CtxSender lib' s (tx'\<lparr>ctx_from := Some (s, a)\<rparr>) = (Ok a, tx'\<lparr>ctx_from := Some (s, a)\<rparr>))"
proof -
  obtain tx' where tx': "SignCtx lib s f tx = Ok tx'" "CrossTransaction_WithSignature s tx sig = Ok tx'"
      "EIP155CtxSigner_Sender lib s tx' = Ok a"
    using ctx_signing.sign_sender [where f = f, OF assms(2,1)] by (auto simp: SignCtx_def)
  then have "ctx_from tx' = None" using WithSignature_uncached by (fastforce simp: uncached_def)
  with tx' show ?thesis by (auto simp: CtxSender_def EIP155CtxSigner_Equal_def)
qed

text \<open>C14: signing a cross transaction with a key and asking for its sender gives the address of
  the key, for every chain identifier but 0; \<open>CtxSender\<close> keeps the answer and gives it again
  without the signer.\<close>

theorem SignCtx_sender:
  assumes "eip155_accepts lib s a (EIP155CtxSigner_Hash lib tx) sig"
    and "f (EIP155CtxSigner_Hash lib tx) = Inr sig"
  shows "\<exists>tx'. SignCtx lib s f tx = Ok tx'
    \<and> CtxSender lib s tx' = (Ok a, tx'\<lparr>ctx_from := Some (s, a)\<rparr>)
    \<and> (\<forall>lib'. CtxSender lib' s (tx'\<lparr>ctx_from := Some (s, a)\<rparr>) = (Ok a, tx'\<lparr>ctx_from := Some (s, a)\<rparr>))"
  using assms by (rule SignCtx_accepted)

definition demo_sig :: bytes where
  "demo_sig = replicate 32 4 @ replicate 32 5 @ [1]"

lemma demo_accepts:
  assumes "0 < c"
  shows "eip155_accepts demo_lib (NewEIP155CtxSigner (Some c)) (replicate 20 7) h demo_sig"
proof -
  have "length demo_sig = 65" "demo_sig ! 64 = 1" by (simp_all add: demo_sig_def nth_append)
  moreover have "RecoverPlain demo_lib h' r q 28 True = Inr (replicate 20 7)" for h' r q
    by (simp add: demo_lib_def)
  ultimately show ?thesis
    using assms by (simp add: eip155_accepts_def demo_lib_laws NewEIP155CtxSigner_def signs_as_def)
qed

lemmas demo_accepts5 = demo_accepts [of 5, OF zero_less_numeral]

lemma SignCtx_sender_witness:
  "\<exists>tx'. SignCtx demo_lib (NewEIP155CtxSigner (Some 5)) (\<lambda>h. Inr demo_sig) demo_ctx = Ok tx'
    \<and> fst (CtxSender demo_lib (NewEIP155CtxSigner (Some 5)) tx') = Ok (replicate 20 7)"
  using SignCtx_sender [OF demo_accepts5, of "\<lambda>h. Inr demo_sig" demo_ctx] by auto

text \<open>A signer for chain 0 cannot recognise what it signed: \<open>SignatureValues\<close> writes 27 or 28
  for such a chain, \<open>Sender\<close> subtracts 8 all the same and asks for the recovery with 19 or 20,
  which no recovery accepts.\<close>

theorem chain0_sender_fails:
  assumes "derive_law lib" "recover_law lib" "length sig = 65" "sig ! 64 \<in> {0, 1}"
    and "f (EIP155CtxSigner_Hash lib tx) = Inr sig"
  shows "\<exists>tx'. SignCtx lib (NewEIP155CtxSigner None) f tx = Ok tx'
    \<and> fst (CtxSender lib (NewEIP155CtxSigner None) tx') = Err ErrInvalidSig"
  using assms
  by (auto simp: SignCtx_def sign_tx_def NewEIP155CtxSigner_def CrossTransaction_WithSignature_def
      EIP155CtxSigner_SignatureValues_def Let_def CtxSender_def EIP155CtxSigner_Sender_def
      CrossTransaction_ChainId_def derive_law_def recover_law_def uncached_def)

lemma chain0_sender_fails_witness:
  "\<exists>tx'. SignCtx demo_lib (NewEIP155CtxSigner None) (\<lambda>h. Inr demo_sig) demo_ctx = Ok tx'
    \<and> fst (CtxSender demo_lib (NewEIP155CtxSigner None) tx') = Err ErrInvalidSig"
  by (rule chain0_sender_fails) (simp_all add: demo_lib_laws demo_sig_def nth_append)

lemma rtx_Sender_origin [simp]:
  "EIP155RtxSigner_Sender lib s (tx\<lparr>rtx_Data := (rtx_Data tx)\<lparr>rtx_Origin := o'\<rparr>\<rparr>) =
   EIP155RtxSigner_Sender lib s tx"
  by (simp add: EIP155RtxSigner_Sender_def EIP155RtxSigner_Hash_def ReceptTransaction_ChainId_def
      Let_def)

text \<open>A receipt's signature does not bind its origin: the receipt signed by a key still has
  that key as its sender after \<open>Origin\<close> has been changed, although its \<open>Hash\<close> covers the field.\<close>

theorem SignRtx_origin_unbound:
  assumes "eip155_accepts lib s a (EIP155RtxSigner_Hash lib tx) sig"
    and "f (EIP155RtxSigner_Hash lib tx) = Inr sig"
  shows "\<exists>tx'. SignRtx lib s f tx = Ok tx' \<and> fst (RtxSender lib s tx') = Ok a
    \<and> fst (RtxSender lib s (tx'\<lparr>rtx_Data := (rtx_Data tx')\<lparr>rtx_Origin := o'\<rparr>\<rparr>)) = Ok a"
proof -
  obtain tx' where tx': "SignRtx lib s f tx = Ok tx'" "ReceptTransaction_WithSignature s tx sig = Ok tx'"
      "EIP155RtxSigner_Sender lib s tx' = Ok a"
    using rtx_signing.sign_sender [where f = f, OF assms(2,1)] by (auto simp: SignRtx_def)
  then have "rtx_from tx' = None"
    by (auto simp: ReceptTransaction_WithSignature_def outcome_simps rtx_uncached_def)
  with tx' show ?thesis by (auto simp: RtxSender_def Let_def)
qed

lemma SignRtx_origin_unbound_witness:
  "\<exists>tx'. SignRtx demo_lib (NewEIP155CtxSigner (Some 5)) (\<lambda>h. Inr demo_sig)
       (NewReceptTransaction [1] [2] ''a'' ''b'' ''c'' 1 2 []) = Ok tx'
    \<and> fst (RtxSender demo_lib (NewEIP155CtxSigner (Some 5))
        (tx'\<lparr>rtx_Data := (rtx_Data tx')\<lparr>rtx_Origin := 9\<rparr>\<rparr>)) = Ok (replicate 20 7)"
  using SignRtx_origin_unbound [OF demo_accepts5, of "\<lambda>h. Inr demo_sig"
      "NewReceptTransaction [1] [2] ''a'' ''b'' ''c'' 1 2 []" 9] by auto

end
