(* ===== verification/IndexDB.thy ===== *)
theory IndexDB
  imports CoreTx
begin

text \<open>
  The store of cross transactions (database/ctx_list.go, database/indexdb.go and the live part of
  database/ctx_db.go): rows, the cache in front of the storm database, and every operation of
  \<open>IndexDB\<close>. The storm database and the ARC cache are third-party code. Storm is a record of
  functions over an abstract database; \<open>storm_law\<close> states, over a view of the database as a map
  from \<open>CtxId\<close> to rows, what the code relies on. The cache is a map that may forget entries when
  one is added (\<open>evict\<close>).
\<close>

section \<open>Rows\<close>

record ctx_row =
  row_PK :: u64
  row_CtxId :: hash
  row_TxHash :: hash
  row_BlockHash :: hash
  row_Value :: int
  row_Charge :: int
  row_From :: string
  row_To :: string
  row_Origin :: u8
  row_Purpose :: u8
  row_Payload :: bytes
  row_Price :: rat
  row_V :: int
  row_R :: int
  row_S :: int

text \<open>\<open>float\<close> is the rounding of \<open>new(big.Float).SetRat\<close>.\<close>

definition NewCrossTransactionIndexed :: "(rat \<Rightarrow> rat) \<Rightarrow> cross_tx \<Rightarrow> ctx_row" where
  "NewCrossTransactionIndexed float_of ctx =
     (let d = ctx_Data ctx in
      \<lparr> row_PK = 0, row_CtxId = CrossTransaction_ID ctx, row_TxHash = ctx_TxHash d,
        row_BlockHash = ctx_BlockHash d, row_Value = ctx_Value d, row_Charge = ctx_Charge d,
        row_From = ctx_From d, row_To = ctx_To d, row_Origin = ctx_Origin d,
        row_Purpose = ctx_Purpose d, row_Payload = ctx_Payload d,
        row_Price = float_of (CrossTransaction_Price ctx),
        row_V = ctx_V d, row_R = ctx_R d, row_S = ctx_S d \<rparr>)"

definition ToCrossTransaction :: "ctx_row \<Rightarrow> cross_tx" where
  "ToCrossTransaction c =
     uncached \<lparr> ctx_CTxId = row_CtxId c, ctx_TxHash = row_TxHash c, ctx_BlockHash = row_BlockHash c,
       ctx_Value = row_Value c, ctx_Charge = row_Charge c, ctx_From = row_From c, ctx_To = row_To c,
       ctx_Origin = row_Origin c, ctx_Purpose = row_Purpose c, ctx_Payload = row_Payload c,
       ctx_V = row_V c, ctx_R = row_R c, ctx_S = row_S c \<rparr>"

text \<open>The zero value of the struct, \<open>var old CrossTransactionIndexed\<close>.\<close>

definition zero_row :: ctx_row where
  "zero_row = \<lparr> row_PK = 0, row_CtxId = replicate 32 0, row_TxHash = replicate 32 0,
     row_BlockHash = replicate 32 0, row_Value = 0, row_Charge = 0, row_From = [], row_To = [],
     row_Origin = 0, row_Purpose = 0, row_Payload = [], row_Price = 0, row_V = 0, row_R = 0,
     row_S = 0 \<rparr>"

section \<open>Fields, keys and the cache\<close>

type_synonym field_name = string

definition PK_field :: field_name where "PK_field = ''PK''"
definition CtxIdIndex :: field_name where "CtxIdIndex = ''CtxId''"
definition TxHashIndex :: field_name where "TxHashIndex = ''TxHash''"
definition PriceIndex :: field_name where "PriceIndex = ''Price''"
definition StatusField :: field_name where "StatusField = ''Status''"
definition FromField :: field_name where "FromField = ''From''"
definition ToField :: field_name where "ToField = ''To''"
definition DestinationValue :: field_name where "DestinationValue = ''Charge''"

datatype db_key = KHash hash | KText string | KNum int

type_synonym ctx_cache = "field_name \<times> db_key \<rightharpoonup> ctx_row"

definition cache_Get :: "ctx_cache option \<Rightarrow> field_name \<Rightarrow> db_key \<Rightarrow> ctx_row option" where
  "cache_Get c f k = (case c of None \<Rightarrow> None | Some m \<Rightarrow> m (f, k))"

definition cache_Put ::
    "(ctx_cache \<Rightarrow> ctx_cache) \<Rightarrow> field_name \<Rightarrow> db_key \<Rightarrow> ctx_row \<Rightarrow> ctx_cache option \<Rightarrow> ctx_cache option" where
  "cache_Put evict f k r c = map_option (\<lambda>m. evict (m((f, k) \<mapsto> r))) c"

definition cache_Remove :: "field_name \<Rightarrow> db_key \<Rightarrow> ctx_cache option \<Rightarrow> ctx_cache option" where
  "cache_Remove f k c = map_option (\<lambda>m. m((f, k) := None)) c"

text \<open>\<open>lru.NewARC\<close> refuses a size that is not positive; the cache is nil then.\<close>

definition newIndexDbCache :: "int \<Rightarrow> ctx_cache option" where
  "newIndexDbCache cap = (if cap \<le> 0 then None else Some Map.empty)"

section \<open>Storm\<close>

record db_query =
  q_order :: "field_name list"
  q_reverse :: bool
  q_limit :: "i64 option"
  q_skip :: "i64 option"

record ('d, 'f) storm_lib =
  db_Begin :: "'d \<Rightarrow> goerr option"
  db_One :: "'d \<Rightarrow> field_name \<Rightarrow> db_key \<Rightarrow> goerr + ctx_row"
  db_Save :: "ctx_row \<Rightarrow> 'd \<Rightarrow> goerr + 'd"
  db_Update :: "ctx_row \<Rightarrow> 'd \<Rightarrow> goerr + 'd"
  db_DeleteStruct :: "ctx_row \<Rightarrow> 'd \<Rightarrow> goerr + 'd"
  db_Commit :: "'d \<Rightarrow> goerr + 'd"
  db_Find :: "db_query \<Rightarrow> 'f list \<Rightarrow> 'd \<Rightarrow> ctx_row list"
  db_Count :: "'f list \<Rightarrow> 'd \<Rightarrow> int"
  db_Set :: "string \<Rightarrow> string \<Rightarrow> u64 \<Rightarrow> 'd \<Rightarrow> goerr + 'd"
  db_Get :: "string \<Rightarrow> string \<Rightarrow> 'd \<Rightarrow> goerr + u64"
  evict :: "ctx_cache \<Rightarrow> ctx_cache"
  float_of_rat :: "rat \<Rightarrow> rat"

definition ErrNotFound :: goerr where "ErrNotFound = ErrNew ''not found''"

definition ErrCtxDbFailure :: "string \<Rightarrow> goerr \<Rightarrow> goerr" where
  "ErrCtxDbFailure msg e = ErrStruct (''DB ctx handle failed:'' @ msg) e"

record 'd index_db =
  idb_chainID :: int
  idb_db :: 'd
  idb_cache :: "ctx_cache option"

text \<open>\<open>open_db name\<close> is the node \<open>rootDB.From(name).WithBatch(true)\<close>; \<open>int(cacheSize)\<close> of a
  \<open>uint64\<close> is its signed reading.\<close>

definition NewIndexDB :: "(string \<Rightarrow> 'd) \<Rightarrow> int \<Rightarrow> u64 \<Rightarrow> 'd index_db" where
  "NewIndexDB open_db chainID cacheSize =
     \<lparr> idb_chainID = chainID,
       idb_db = open_db (''chain'' @ (if chainID < 0 then ''-'' else []) @ show_nat (nat \<bar>chainID\<bar>)),
       idb_cache = newIndexDbCache (sint cacheSize) \<rparr>"

section \<open>Operations\<close>

definition IndexDB_Count :: "('d, 'f) storm_lib \<Rightarrow> 'f list \<Rightarrow> 'd index_db \<Rightarrow> int" where
  "IndexDB_Count lib filters d = db_Count lib filters (idb_db d)"

definition IndexDB_Close :: "('d, 'f) storm_lib \<Rightarrow> 'd index_db \<Rightarrow> goerr option \<times> 'd index_db" where
  "IndexDB_Close lib d =
     (case db_Commit lib (idb_db d) of
        Inl e \<Rightarrow> (Some e, d)
      | Inr db \<Rightarrow> (None, d\<lparr>idb_db := db\<rparr>))"

definition IndexDB_ChainID :: "'d index_db \<Rightarrow> int" where
  "IndexDB_ChainID d = idb_chainID d"

definition IndexDB_Load :: "'d index_db \<Rightarrow> goerr option" where
  "IndexDB_Load d = None"

text \<open>\<open>ReIndex\<close> and \<open>Drop\<close> of storm, for the bucket of the rows; neither touches the cache.\<close>

definition on_bucket :: "('d \<Rightarrow> goerr + 'd) \<Rightarrow> 'd index_db \<Rightarrow> goerr option \<times> 'd index_db" where
  "on_bucket f d = (case f (idb_db d) of Inl e \<Rightarrow> (Some e, d) | Inr db \<Rightarrow> (None, d\<lparr>idb_db := db\<rparr>))"

definition IndexDB_Repair :: "('d \<Rightarrow> goerr + 'd) \<Rightarrow> 'd index_db \<Rightarrow> goerr option \<times> 'd index_db" where
  "IndexDB_Repair ReIndex d = on_bucket ReIndex d"

definition IndexDB_Clean :: "('d \<Rightarrow> goerr + 'd) \<Rightarrow> 'd index_db \<Rightarrow> goerr option \<times> 'd index_db" where
  "IndexDB_Clean Drop d = on_bucket Drop d"

text \<open>The two \<open>Remove\<close> calls of \<open>Writes\<close>; both name \<open>CtxIdIndex\<close>.\<close>

definition writes_invalidate :: "cross_tx \<Rightarrow> ctx_cache option \<Rightarrow> ctx_cache option" where
  "writes_invalidate ctx c =
     cache_Remove CtxIdIndex (KHash (ctx_TxHash (ctx_Data ctx)))
       (cache_Remove CtxIdIndex (KHash (CrossTransaction_ID ctx)) c)"

text \<open>The loop of \<open>Writes\<close> on the open transaction \<open>tx\<close>: the transaction at the end or the error
  that leaves the loop, and the cache.\<close>

fun Writes_loop ::
    "('d, 'f) storm_lib \<Rightarrow> bool \<Rightarrow> cross_tx list \<Rightarrow> 'd \<Rightarrow> ctx_cache option \<Rightarrow> (goerr + 'd) \<times> ctx_cache option" where
  "Writes_loop lib replaceable [] tx c = (Inr tx, c)"
| "Writes_loop lib replaceable (ctx # ctxs) tx c =
     (let new = NewCrossTransactionIndexed (float_of_rat lib) ctx;
          found = db_One lib tx CtxIdIndex (KHash (CrossTransaction_ID ctx)) in
      if found = Inl ErrNotFound then
        (case db_Save lib new tx of
           Inl e \<Rightarrow> (Inl e, c)
         | Inr tx' \<Rightarrow> Writes_loop lib replaceable ctxs tx' (writes_invalidate ctx c))
      else
        let old = (case found of Inr r \<Rightarrow> r | Inl _ \<Rightarrow> zero_row) in
        if replaceable then
          (case db_Update lib (new\<lparr>row_PK := row_PK old\<rparr>) tx of
             Inl e \<Rightarrow> (Inl e, c)
           | Inr tx' \<Rightarrow> Writes_loop lib replaceable ctxs tx' (writes_invalidate ctx c))
        else Writes_loop lib replaceable ctxs tx c)"

text \<open>\<open>tx.Commit()\<close> at the end of a transaction; on every other way out \<open>Rollback\<close> leaves the
  database as it was, but the cache keeps what happened to it.\<close>

definition finish_tx ::
    "('d, 'f) storm_lib \<Rightarrow> 'd index_db \<Rightarrow> (goerr + 'd) \<times> ctx_cache option \<Rightarrow> goerr option \<times> 'd index_db" where
  "finish_tx lib d r =
     (case r of
        (Inl e, c) \<Rightarrow> (Some e, d\<lparr>idb_cache := c\<rparr>)
      | (Inr tx, c) \<Rightarrow>
          (case db_Commit lib tx of
             Inl e \<Rightarrow> (Some e, d\<lparr>idb_cache := c\<rparr>)
           | Inr db \<Rightarrow> (None, d\<lparr>idb_db := db, idb_cache := c\<rparr>)))"

definition IndexDB_Writes ::
    "('d, 'f) storm_lib \<Rightarrow> cross_tx list \<Rightarrow> bool \<Rightarrow> 'd index_db \<Rightarrow> goerr option \<times> 'd index_db" where
  "IndexDB_Writes lib ctxList replaceable d =
     (case db_Begin lib (idb_db d) of
        Some e \<Rightarrow> (Some (ErrCtxDbFailure ''begin transaction failed'' e), d)
      | None \<Rightarrow> finish_tx lib d (Writes_loop lib replaceable ctxList (idb_db d) (idb_cache d)))"

definition IndexDB_Write :: "('d, 'f) storm_lib \<Rightarrow> cross_tx \<Rightarrow> 'd index_db \<Rightarrow> goerr option \<times> 'd index_db" where
  "IndexDB_Write lib ctx d =
     (case IndexDB_Writes lib [ctx] True d of
        (Some e, d) \<Rightarrow> (Some e, d)
      | (None, d) \<Rightarrow>
          (None, d\<lparr>idb_cache := cache_Put (evict lib) CtxIdIndex (KHash (CrossTransaction_ID ctx))
             (NewCrossTransactionIndexed (float_of_rat lib) ctx) (idb_cache d)\<rparr>))"

definition IndexDB_get ::
    "('d, 'f) storm_lib \<Rightarrow> (hash \<Rightarrow> string) \<Rightarrow> hash \<Rightarrow> 'd index_db \<Rightarrow> (goerr + ctx_row) \<times> 'd index_db" where
  "IndexDB_get lib show_id ctxId d =
     (case cache_Get (idb_cache d) CtxIdIndex (KHash ctxId) of
        Some r \<Rightarrow> (Inr r, d)
      | None \<Rightarrow>
          (case db_One lib (idb_db d) CtxIdIndex (KHash ctxId) of
             Inl e \<Rightarrow> (Inl (ErrCtxDbFailure (''get ctx:'' @ show_id ctxId @ '' failed'') e), d)
           | Inr r \<Rightarrow>
               (Inr r, d\<lparr>idb_cache := cache_Put (evict lib) CtxIdIndex (KHash ctxId) r (idb_cache d)\<rparr>)))"

definition IndexDB_Read ::
    "('d, 'f) storm_lib \<Rightarrow> (hash \<Rightarrow> string) \<Rightarrow> hash \<Rightarrow> 'd index_db \<Rightarrow> (goerr + cross_tx) \<times> 'd index_db" where
  "IndexDB_Read lib show_id ctxId d =
     (case IndexDB_get lib show_id ctxId d of
        (Inl e, d) \<Rightarrow> (Inl e, d)
      | (Inr r, d) \<Rightarrow> (Inr (ToCrossTransaction r), d))"

definition IndexDB_Has ::
    "('d, 'f) storm_lib \<Rightarrow> (hash \<Rightarrow> string) \<Rightarrow> hash \<Rightarrow> 'd index_db \<Rightarrow> bool \<times> 'd index_db" where
  "IndexDB_Has lib show_id i d =
     (case IndexDB_get lib show_id i d of (Inl e, d) \<Rightarrow> (False, d) | (Inr r, d) \<Rightarrow> (True, d))"

definition IndexDB_One ::
    "('d, 'f) storm_lib \<Rightarrow> field_name \<Rightarrow> db_key \<Rightarrow> 'd index_db \<Rightarrow> cross_tx option \<times> 'd index_db" where
  "IndexDB_One lib field key d =
     (case cache_Get (idb_cache d) field key of
        Some r \<Rightarrow> (Some (ToCrossTransaction r), d)
      | None \<Rightarrow>
          (case db_One lib (idb_db d) field key of
             Inl e \<Rightarrow> (None, d)
           | Inr r \<Rightarrow>
               (Some (ToCrossTransaction r),
                d\<lparr>idb_cache := cache_Put (evict lib) field key r (idb_cache d)\<rparr>)))"

fun Updates_loop ::
    "('d, 'f) storm_lib \<Rightarrow> (hash \<times> (ctx_row \<Rightarrow> ctx_row)) list \<Rightarrow> 'd \<Rightarrow> ctx_cache option \<Rightarrow>
     (goerr + 'd) \<times> ctx_cache option" where
  "Updates_loop lib [] tx c = (Inr tx, c)"
| "Updates_loop lib ((i, updater) # us) tx c =
     (case db_One lib tx CtxIdIndex (KHash i) of
        Inl e \<Rightarrow> (Inl (ErrCtxDbFailure ''transaction want to be updated is not exist'' e), c)
      | Inr r \<Rightarrow>
          let ctx = updater r in
          (case db_Update lib ctx tx of
             Inl e \<Rightarrow> (Inl (ErrCtxDbFailure ''transaction update failed'' e), c)
           | Inr tx' \<Rightarrow>
               Updates_loop lib us tx'
                 (cache_Remove TxHashIndex (KHash (row_TxHash ctx)) (cache_Remove CtxIdIndex (KHash i) c))))"

definition IndexDB_Updates ::
    "('d, 'f) storm_lib \<Rightarrow> hash list \<Rightarrow> (ctx_row \<Rightarrow> ctx_row) list \<Rightarrow> 'd index_db \<Rightarrow> goerr option \<times> 'd index_db" where
  "IndexDB_Updates lib idList updaters d =
     (if length idList \<noteq> length updaters then
        (Some (ErrCtxDbFailure [] (ErrNew ''invalid updates params'')), d)
      else
        case db_Begin lib (idb_db d) of
          Some e \<Rightarrow> (Some (ErrCtxDbFailure ''begin transaction failed'' e), d)
        | None \<Rightarrow> finish_tx lib d (Updates_loop lib (zip idList updaters) (idb_db d) (idb_cache d)))"

definition IndexDB_Update ::
    "('d, 'f) storm_lib \<Rightarrow> hash \<Rightarrow> (ctx_row \<Rightarrow> ctx_row) \<Rightarrow> 'd index_db \<Rightarrow> goerr option \<times> 'd index_db" where
  "IndexDB_Update lib i updater d = IndexDB_Updates lib [i] [updater] d"

fun Deletes_loop ::
    "('d, 'f) storm_lib \<Rightarrow> hash list \<Rightarrow> 'd \<Rightarrow> ctx_cache option \<Rightarrow> (goerr + 'd) \<times> ctx_cache option" where
  "Deletes_loop lib [] tx c = (Inr tx, c)"
| "Deletes_loop lib (i # is) tx c =
     (case db_One lib tx CtxIdIndex (KHash i) of
        Inl e \<Rightarrow> Deletes_loop lib is tx c
      | Inr ctx \<Rightarrow>
          let c = cache_Remove TxHashIndex (KHash (row_TxHash ctx)) (cache_Remove CtxIdIndex (KHash i) c) in
          (case db_DeleteStruct lib ctx tx of
             Inl e \<Rightarrow> (Inl (ErrCtxDbFailure ''transaction delete failed'' e), c)
           | Inr tx' \<Rightarrow> Deletes_loop lib is tx' c))"

definition IndexDB_Deletes ::
    "('d, 'f) storm_lib \<Rightarrow> hash list \<Rightarrow> 'd index_db \<Rightarrow> goerr option \<times> 'd index_db" where
  "IndexDB_Deletes lib idList d =
     (case db_Begin lib (idb_db d) of
        Some e \<Rightarrow> (Some (ErrCtxDbFailure ''begin transaction failed'' e), d)
      | None \<Rightarrow> finish_tx lib d (Deletes_loop lib idList (idb_db d) (idb_cache d)))"

text \<open>\<open>Query\<close>: \<open>pageSize * (startPage - 1)\<close> is 64-bit arithmetic; the error of \<open>Find\<close> is
  dropped, the result is then empty.\<close>

definition IndexDB_Query ::
    "('d, 'f) storm_lib \<Rightarrow> i64 \<Rightarrow> i64 \<Rightarrow> field_name list \<Rightarrow> bool \<Rightarrow> 'f list \<Rightarrow> 'd index_db \<Rightarrow> cross_tx list" where
  "IndexDB_Query lib pageSize startPage orderBy reverse filters d =
     (if 0 < sint pageSize \<and> sint startPage \<le> 0 then []
      else
        let q = \<lparr> q_order = orderBy, q_reverse = reverse,
                  q_limit = (if 0 < sint pageSize then Some pageSize else None),
                  q_skip = (if 0 < sint pageSize then Some (pageSize * (startPage - 1)) else None) \<rparr> in
        map ToCrossTransaction (db_Find lib q filters (idb_db d)))"

definition IndexDB_Set :: "('d, 'f) storm_lib \<Rightarrow> string \<Rightarrow> u64 \<Rightarrow> 'd index_db \<Rightarrow> goerr option \<times> 'd index_db" where
  "IndexDB_Set lib key v d =
     (case db_Set lib ''config'' key v (idb_db d) of
        Inl e \<Rightarrow> (Some e, d)
      | Inr db \<Rightarrow> (None, d\<lparr>idb_db := db\<rparr>))"

definition IndexDB_Get :: "('d, 'f) storm_lib \<Rightarrow> string \<Rightarrow> 'd index_db \<Rightarrow> u64" where
  "IndexDB_Get lib key d =
     (case db_Get lib ''config'' key (idb_db d) of Inl e \<Rightarrow> 0 | Inr v \<Rightarrow> v)"

section \<open>What storm promises\<close>

text \<open>
  \<open>rows\<close> is the view of a database as the map from \<open>CtxId\<close> (a unique index) to its row.
  \<open>Save\<close> of a new row gives it a key, \<open>Update\<close> of a row with the key of the stored one replaces
  it, field by field for the fields that are not the zero value of their type, \<open>DeleteStruct\<close>
  removes it, and \<open>Commit\<close> publishes the transaction.
\<close>

definition no_zero_fields :: "ctx_row \<Rightarrow> bool" where
  "no_zero_fields r \<longleftrightarrow> row_CtxId r \<noteq> replicate 32 0 \<and> row_TxHash r \<noteq> replicate 32 0 \<and>
     row_BlockHash r \<noteq> replicate 32 0 \<and> row_From r \<noteq> [] \<and> row_To r \<noteq> [] \<and>
     row_Origin r \<noteq> 0 \<and> row_Purpose r \<noteq> 0 \<and> row_Payload r \<noteq> []"

definition storm_law :: "('d, 'f) storm_lib \<Rightarrow> ('d \<Rightarrow> hash \<rightharpoonup> ctx_row) \<Rightarrow> bool" where
  "storm_law lib rows \<longleftrightarrow>
     (\<forall>d k. db_One lib d CtxIdIndex (KHash k) =
        (case rows d k of Some r \<Rightarrow> Inr r | None \<Rightarrow> Inl ErrNotFound)) \<and>
     (\<forall>d k r. rows d k = Some r \<longrightarrow> row_CtxId r = k) \<and>
     (\<forall>d r d'. db_Save lib r d = Inr d' \<longrightarrow> rows d (row_CtxId r) = None \<longrightarrow>
        (\<exists>pk. rows d' = (rows d)(row_CtxId r \<mapsto> r\<lparr>row_PK := pk\<rparr>))) \<and>
     (\<forall>d k cur r d'. db_Update lib r d = Inr d' \<longrightarrow> rows d k = Some cur \<longrightarrow> row_CtxId r = k \<longrightarrow>
        row_PK r = row_PK cur \<longrightarrow>
        (\<exists>m. rows d' = (rows d)(k \<mapsto> m) \<and> row_CtxId m = k \<and> (no_zero_fields r \<longrightarrow> m = r))) \<and>
     (\<forall>d k r d'. db_DeleteStruct lib r d = Inr d' \<longrightarrow> rows d k = Some r \<longrightarrow>
        rows d' = (rows d)(k := None)) \<and>
     (\<forall>d d'. db_Commit lib d = Inr d' \<longrightarrow> rows d' = rows d)"

definition evict_law :: "('d, 'f) storm_lib \<Rightarrow> bool" where
  "evict_law lib \<longleftrightarrow> (\<forall>c. evict lib c \<subseteq>\<^sub>m c)"

lemma storm_One:
  "storm_law lib rows \<Longrightarrow> db_One lib d CtxIdIndex (KHash k) =
     (case rows d k of Some r \<Rightarrow> Inr r | None \<Rightarrow> Inl ErrNotFound)"
  by (simp add: storm_law_def)

lemma storm_CtxId: "storm_law lib rows \<Longrightarrow> rows d k = Some r \<Longrightarrow> row_CtxId r = k"
  by (simp add: storm_law_def)

lemma storm_Save:
  "storm_law lib rows \<Longrightarrow> db_Save lib r d = Inr d' \<Longrightarrow> rows d (row_CtxId r) = None \<Longrightarrow>
     \<exists>pk. rows d' = (rows d)(row_CtxId r \<mapsto> r\<lparr>row_PK := pk\<rparr>)"
  by (simp add: storm_law_def)

lemma storm_Update:
  assumes "storm_law lib rows" "db_Update lib r d = Inr d'" "rows d k = Some cur"
    "row_CtxId r = k" "row_PK r = row_PK cur"
  shows "\<exists>m. rows d' = (rows d)(k \<mapsto> m) \<and> row_CtxId m = k \<and> (no_zero_fields r \<longrightarrow> m = r)"
  using assms unfolding storm_law_def by blast

lemma storm_Delete:
  "storm_law lib rows \<Longrightarrow> db_DeleteStruct lib r d = Inr d' \<Longrightarrow> rows d k = Some r \<Longrightarrow>
     rows d' = (rows d)(k := None)"
  unfolding storm_law_def by blast

lemma storm_Commit: "storm_law lib rows \<Longrightarrow> db_Commit lib d = Inr d' \<Longrightarrow> rows d' = rows d"
  by (simp add: storm_law_def)

section \<open>Rows and transactions\<close>

lemma To_New [simp]: "ToCrossTransaction (NewCrossTransactionIndexed f ctx) = uncached (ctx_Data ctx)"
  by (cases "ctx_Data ctx")
    (simp add: ToCrossTransaction_def NewCrossTransactionIndexed_def Let_def CrossTransaction_ID_def)

lemma To_PK [simp]: "ToCrossTransaction (r\<lparr>row_PK := pk\<rparr>) = ToCrossTransaction r"
  by (simp add: ToCrossTransaction_def)

lemma New_CtxId [simp]: "row_CtxId (NewCrossTransactionIndexed f ctx) = CrossTransaction_ID ctx"
  by (simp add: NewCrossTransactionIndexed_def Let_def)

lemma no_zero_PK [simp]: "no_zero_fields (r\<lparr>row_PK := pk\<rparr>) = no_zero_fields r"
  by (simp add: no_zero_fields_def)

section \<open>Cache coherence\<close>

definition cached_id :: "ctx_cache option \<Rightarrow> hash \<Rightarrow> ctx_row option" where
  "cached_id c k = cache_Get c CtxIdIndex (KHash k)"

definition coherent :: "('d \<Rightarrow> hash \<rightharpoonup> ctx_row) \<Rightarrow> 'd index_db \<Rightarrow> bool" where
  "coherent rows d \<longleftrightarrow> (\<forall>k r. cached_id (idb_cache d) k = Some r \<longrightarrow>
     (\<exists>r'. rows (idb_db d) k = Some r' \<and> ToCrossTransaction r = ToCrossTransaction r'))"

lemma TxHashIndex_neq [simp]: "TxHashIndex \<noteq> CtxIdIndex" "CtxIdIndex \<noteq> TxHashIndex"
  by (simp_all add: TxHashIndex_def CtxIdIndex_def)

lemma cached_Remove [simp]:
  "cached_id (cache_Remove CtxIdIndex (KHash i) c) k = (if k = i then None else cached_id c k)"
  "cached_id (cache_Remove TxHashIndex h c) k = cached_id c k"
  by (auto simp: cached_id_def cache_Remove_def cache_Get_def split: option.split)

lemma cached_Put:
  assumes "evict_law lib" "cached_id (cache_Put (evict lib) f key r c) k = Some x"
  shows "(f = CtxIdIndex \<and> key = KHash k \<and> x = r) \<or> cached_id c k = Some x"
proof -
  from assms(2) obtain m where m: "c = Some m" "evict lib (m((f, key) \<mapsto> r)) (CtxIdIndex, KHash k) = Some x"
    by (auto simp: cached_id_def cache_Put_def cache_Get_def split: option.splits)
  moreover have "evict lib (m((f, key) \<mapsto> r)) \<subseteq>\<^sub>m m((f, key) \<mapsto> r)"
    using assms(1) by (simp add: evict_law_def)
  ultimately have "(m((f, key) \<mapsto> r)) (CtxIdIndex, KHash k) = Some x"
    by (metis domI map_le_def)
  then show ?thesis using m(1) by (auto simp: cached_id_def cache_Get_def split: if_splits)
qed

text \<open>
  What the loop of a transaction promises about the cache: it only forgets, and an entry that is
  still there was not touched in the database.
\<close>

definition loop_ok ::
    "('d \<Rightarrow> hash \<rightharpoonup> ctx_row) \<Rightarrow> 'd \<Rightarrow> ctx_cache option \<Rightarrow> (goerr + 'd) \<times> ctx_cache option \<Rightarrow> bool" where
  "loop_ok rows tx c r \<longleftrightarrow>
     (\<forall>k x. cached_id (snd r) k = Some x \<longrightarrow> cached_id c k = Some x \<and>
        (\<forall>tx'. fst r = Inr tx' \<longrightarrow> rows tx' k = rows tx k))"

lemma loop_ok_refl [simp]: "loop_ok rows tx c (Inr tx, c)" "loop_ok rows tx c (Inl e, c)"
  by (simp_all add: loop_ok_def)

lemma loop_ok_step:
  assumes "loop_ok rows tx1 c1 r"
    and "\<And>k x. cached_id c1 k = Some x \<Longrightarrow> cached_id c k = Some x \<and> rows tx1 k = rows tx k"
  shows "loop_ok rows tx c r"
  using assms unfolding loop_ok_def by metis

lemma finish_coherent:
  assumes "storm_law lib rows" "coherent rows d" "loop_ok rows (idb_db d) (idb_cache d) r"
  shows "coherent rows (snd (finish_tx lib d r))"
proof -
  obtain q c where r: "r = (q, c)" by (cases r)
  show ?thesis
  proof (cases "\<exists>tx db. q = Inr tx \<and> db_Commit lib tx = Inr db")
    case True
    then obtain tx db where q: "q = Inr tx" "db_Commit lib tx = Inr db" by blast
    with assms show ?thesis
      by (auto simp: r finish_tx_def coherent_def loop_ok_def storm_Commit)
  next
    case False
    then show ?thesis
      using assms(2,3)
      by (auto simp: r finish_tx_def coherent_def loop_ok_def split: sum.splits)
  qed
qed

lemma invalidated [simp]:
  "cached_id (writes_invalidate ctx c) k = Some x \<longleftrightarrow>
     k \<noteq> CrossTransaction_ID ctx \<and> k \<noteq> ctx_TxHash (ctx_Data ctx) \<and> cached_id c k = Some x"
  by (auto simp: writes_invalidate_def)

lemma Writes_loop_Cons:
  assumes "storm_law lib rows"
  shows "Writes_loop lib replaceable (ctx # ctxs) tx c =
    (let new = NewCrossTransactionIndexed (float_of_rat lib) ctx in
     case rows tx (CrossTransaction_ID ctx) of
       None \<Rightarrow>
         (case db_Save lib new tx of
            Inl e \<Rightarrow> (Inl e, c)
          | Inr tx' \<Rightarrow> Writes_loop lib replaceable ctxs tx' (writes_invalidate ctx c))
     | Some old \<Rightarrow>
         if replaceable then
           (case db_Update lib (new\<lparr>row_PK := row_PK old\<rparr>) tx of
              Inl e \<Rightarrow> (Inl e, c)
            | Inr tx' \<Rightarrow> Writes_loop lib replaceable ctxs tx' (writes_invalidate ctx c))
         else Writes_loop lib replaceable ctxs tx c)"
  by (simp add: Let_def storm_One [OF assms] split: option.split)

lemma Save_rows:
  assumes "storm_law lib rows" "rows tx (CrossTransaction_ID ctx) = None"
    "db_Save lib (NewCrossTransactionIndexed f ctx) tx = Inr tx'"
  shows "\<exists>m. rows tx' = (rows tx)(CrossTransaction_ID ctx \<mapsto> m) \<and> ToCrossTransaction m = uncached (ctx_Data ctx)"
  using storm_Save [OF assms(1,3)] assms(2) by force

lemma Update_rows:
  assumes "storm_law lib rows" "rows tx (CrossTransaction_ID ctx) = Some old"
    "db_Update lib ((NewCrossTransactionIndexed f ctx)\<lparr>row_PK := row_PK old\<rparr>) tx = Inr tx'"
  shows "\<exists>m. rows tx' = (rows tx)(CrossTransaction_ID ctx \<mapsto> m) \<and>
     (no_zero_fields (NewCrossTransactionIndexed f ctx) \<longrightarrow> ToCrossTransaction m = uncached (ctx_Data ctx))"
  using storm_Update [OF assms(1,3,2)] by fastforce

lemma Writes_loop_ok:
  assumes "storm_law lib rows"
  shows "loop_ok rows tx c (Writes_loop lib replaceable ctxs tx c)"
proof (induction ctxs arbitrary: tx c)
  case (Cons ctx ctxs)
  let ?id = "CrossTransaction_ID ctx"
  let ?new = "NewCrossTransactionIndexed (float_of_rat lib) ctx"
  have step: "loop_ok rows tx c (Writes_loop lib replaceable ctxs tx' (writes_invalidate ctx c))"
    if "rows tx' = (rows tx)(?id \<mapsto> m)" for tx' m
    by (rule loop_ok_step [OF Cons.IH]) (auto simp: that)
  show ?case
  proof (cases "rows tx ?id")
    case None
    have "loop_ok rows tx c (Writes_loop lib replaceable ctxs tx' (writes_invalidate ctx c))"
      if "db_Save lib ?new tx = Inr tx'" for tx'
      using Save_rows [OF assms None that] step by blast
    with None show ?thesis
      by (cases "db_Save lib ?new tx")
        (auto simp: Writes_loop_Cons [OF assms] Let_def simp del: Writes_loop.simps)
  next
    case (Some old)
    have "loop_ok rows tx c (Writes_loop lib replaceable ctxs tx' (writes_invalidate ctx c))"
      if "db_Update lib (?new\<lparr>row_PK := row_PK old\<rparr>) tx = Inr tx'" for tx'
      using Update_rows [OF assms Some that] step by blast
    with Some Cons.IH show ?thesis
      by (cases "db_Update lib (?new\<lparr>row_PK := row_PK old\<rparr>) tx")
        (auto simp: Writes_loop_Cons [OF assms] Let_def simp del: Writes_loop.simps)
  qed
qed simp

lemma Updates_loop_ok:
  assumes "storm_law lib rows"
    and "\<And>i f r. (i, f) \<in> set us \<Longrightarrow> row_CtxId (f r) = row_CtxId r \<and> row_PK (f r) = row_PK r"
  shows "loop_ok rows tx c (Updates_loop lib us tx c)"
  using assms(2)
proof (induction us arbitrary: tx c)
  case (Cons u us)
  obtain i f where u: "u = (i, f)" by (cases u)
  show ?case
  proof (cases "rows tx i")
    case None
    then show ?thesis by (simp add: u storm_One [OF assms(1)])
  next
    case (Some r)
    let ?c = "cache_Remove TxHashIndex (KHash (row_TxHash (f r))) (cache_Remove CtxIdIndex (KHash i) c)"
    have step: "loop_ok rows tx c (Updates_loop lib us tx' ?c)" if upd: "db_Update lib (f r) tx = Inr tx'" for tx'
    proof -
      have "row_CtxId (f r) = i" "row_PK (f r) = row_PK r"
        using Cons.prems [of i f r] storm_CtxId [OF assms(1) Some] u by auto
      then obtain m where "rows tx' = (rows tx)(i \<mapsto> m)"
        using storm_Update [OF assms(1) upd Some] by blast
      then show ?thesis
        by (intro loop_ok_step [OF Cons.IH]) (use Cons.prems u in \<open>auto split: if_splits\<close>)
    qed
    then show ?thesis
      using Some
      by (cases "db_Update lib (f r) tx") (simp_all add: u storm_One [OF assms(1)] Let_def)
  qed
qed simp

lemma Deletes_loop_ok:
  assumes "storm_law lib rows"
  shows "loop_ok rows tx c (Deletes_loop lib ids tx c)"
proof (induction ids arbitrary: tx c)
  case (Cons i ids)
  show ?case
  proof (cases "rows tx i")
    case None
    then show ?thesis using Cons.IH by (simp add: storm_One [OF assms])
  next
    case (Some r)
    let ?c = "cache_Remove TxHashIndex (KHash (row_TxHash r)) (cache_Remove CtxIdIndex (KHash i) c)"
    have step: "loop_ok rows tx c (Deletes_loop lib ids tx' ?c)" if "db_DeleteStruct lib r tx = Inr tx'" for tx'
      by (rule loop_ok_step [OF Cons.IH])
        (use storm_Delete [OF assms that Some] in \<open>auto split: if_splits\<close>)
    moreover have "loop_ok rows tx c (Inl e, ?c)" for e
      by (auto simp: loop_ok_def split: if_splits)
    ultimately show ?thesis
      using Some
      by (cases "db_DeleteStruct lib r tx") (simp_all add: storm_One [OF assms] Let_def)
  qed
qed simp

lemma Writes_coherent:
  assumes "storm_law lib rows" "coherent rows d"
  shows "coherent rows (snd (IndexDB_Writes lib ctxs replaceable d))"
  using assms finish_coherent [OF assms Writes_loop_ok [OF assms(1)]]
  by (simp add: IndexDB_Writes_def split: option.split)

lemma get_coherent:
  assumes "storm_law lib rows" "evict_law lib" "coherent rows d"
  shows "coherent rows (snd (IndexDB_get lib show_id k d))"
proof -
  have "coherent rows (d\<lparr>idb_cache := cache_Put (evict lib) CtxIdIndex (KHash k) r (idb_cache d)\<rparr>)"
    if "rows (idb_db d) k = Some r" for r
    using assms(3) that by (auto simp: coherent_def dest!: cached_Put [OF assms(2)])
  then show ?thesis
    using assms(3)
    by (auto simp: IndexDB_get_def storm_One [OF assms(1)] split: option.splits)
qed

lemma One_coherent:
  assumes "storm_law lib rows" "evict_law lib" "coherent rows d"
  shows "coherent rows (snd (IndexDB_One lib field key d))"
proof -
  have "coherent rows (d\<lparr>idb_cache := cache_Put (evict lib) field key r (idb_cache d)\<rparr>)"
    if "db_One lib (idb_db d) field key = Inr r" for r
    using assms(3) that storm_One [OF assms(1)]
    by (fastforce simp: coherent_def dest!: cached_Put [OF assms(2)] split: option.splits)
  then show ?thesis
    using assms(3) by (auto simp: IndexDB_One_def split: option.splits sum.splits)
qed

lemma Write_row:
  assumes "storm_law lib rows" "IndexDB_Writes lib [ctx] True d = (None, d')"
    and "rows (idb_db d) (CrossTransaction_ID ctx) = None \<or>
      no_zero_fields (NewCrossTransactionIndexed (float_of_rat lib) ctx)"
  shows "\<exists>m. rows (idb_db d') (CrossTransaction_ID ctx) = Some m
    \<and> ToCrossTransaction m = uncached (ctx_Data ctx)"
proof -
  have "finish_tx lib d (Writes_loop lib True [ctx] (idb_db d) (idb_cache d)) = (None, d')"
    using assms(2) by (simp add: IndexDB_Writes_def split: option.splits)
  then obtain tx c where l: "Writes_loop lib True [ctx] (idb_db d) (idb_cache d) = (Inr tx, c)"
      "rows (idb_db d') = rows tx"
    by (auto simp: finish_tx_def storm_Commit [OF assms(1)] split: prod.splits sum.splits)
  show ?thesis
    using l assms(3) Save_rows [OF assms(1), of "idb_db d" ctx] Update_rows [OF assms(1), of "idb_db d" ctx]
    unfolding Writes_loop_Cons [OF assms(1)]
    by (fastforce simp: Let_def split: option.splits sum.splits)
qed

lemma Write_coherent:
  assumes "storm_law lib rows" "evict_law lib" "coherent rows d"
    and "rows (idb_db d) (CrossTransaction_ID ctx) = None \<or>
      no_zero_fields (NewCrossTransactionIndexed (float_of_rat lib) ctx)"
  shows "coherent rows (snd (IndexDB_Write lib ctx d))"
proof (cases "IndexDB_Writes lib [ctx] True d")
  case (Pair e d')
  have c: "coherent rows d'" using Writes_coherent [OF assms(1,3), of "[ctx]" True] Pair by simp
  show ?thesis
  proof (cases e)
    case None
    then obtain m where "rows (idb_db d') (CrossTransaction_ID ctx) = Some m"
        "ToCrossTransaction m = uncached (ctx_Data ctx)"
      using Write_row [OF assms(1) _ assms(4)] Pair by blast
    with c None show ?thesis
      by (auto simp: IndexDB_Write_def Pair coherent_def dest!: cached_Put [OF assms(2)])
  next
    case (Some x)
    with c show ?thesis by (simp add: IndexDB_Write_def Pair)
  qed
qed


text \<open>A database in memory, the instance for the examples.\<close>

definition mem_rows :: "(hash \<rightharpoonup> ctx_row) \<Rightarrow> hash \<rightharpoonup> ctx_row" where
  "mem_rows d k = (case d k of Some r \<Rightarrow> if row_CtxId r = k then Some r else None | None \<Rightarrow> None)"

definition mem_storm :: "(hash \<rightharpoonup> ctx_row, unit) storm_lib" where
  "mem_storm = \<lparr> db_Begin = \<lambda>d. None,
     db_One = \<lambda>d f k.
       (case k of
          KHash h \<Rightarrow> (case mem_rows d h of Some r \<Rightarrow> Inr r | None \<Rightarrow> Inl ErrNotFound)
        | _ \<Rightarrow> Inl ErrNotFound),
     db_Save = \<lambda>r d. Inr (d(row_CtxId r \<mapsto> r\<lparr>row_PK := 1\<rparr>)),
     db_Update = \<lambda>r d. Inr (d(row_CtxId r \<mapsto> r)),
     db_DeleteStruct = \<lambda>r d. Inr (d(row_CtxId r := None)),
     db_Commit = Inr, db_Find = \<lambda>q f d. [], db_Count = \<lambda>f d. 0,
     db_Set = \<lambda>b k v d. Inr d, db_Get = \<lambda>b k d. Inl ErrNotFound,
     evict = \<lambda>c. c, float_of_rat = \<lambda>p. p \<rparr>"

lemma mem_rows_upd [simp]:
  "mem_rows (d(row_CtxId r \<mapsto> r)) = (mem_rows d)(row_CtxId r \<mapsto> r)"
  "mem_rows (d(row_CtxId r \<mapsto> r\<lparr>row_PK := pk\<rparr>)) = (mem_rows d)(row_CtxId r \<mapsto> r\<lparr>row_PK := pk\<rparr>)"
  "mem_rows (d(k := None)) = (mem_rows d)(k := None)"
  by (auto simp: mem_rows_def)

lemma mem_storm_laws: "storm_law mem_storm mem_rows" "evict_law mem_storm"
proof -
  have "row_CtxId r = k" if "mem_rows d k = Some r" for d k r
    using that by (auto simp: mem_rows_def split: option.splits if_splits)
  then show "storm_law mem_storm mem_rows"
    by (auto simp: storm_law_def mem_storm_def)
  show "evict_law mem_storm" by (simp add: evict_law_def mem_storm_def)
qed

definition empty_db :: "(hash \<rightharpoonup> ctx_row) index_db" where
  "empty_db = NewIndexDB (\<lambda>name. Map.empty) 5 16"

lemma empty_db_coherent [simp]: "coherent mem_rows empty_db"
  by (simp add: coherent_def empty_db_def NewIndexDB_def newIndexDbCache_def cached_id_def cache_Get_def)


section \<open>Reading back\<close>

lemma Read_coherent:
  assumes "storm_law lib rows" "coherent rows d"
  shows "fst (IndexDB_Read lib show_id k d) =
    (case rows (idb_db d) k of
       Some r \<Rightarrow> Inr (ToCrossTransaction r)
     | None \<Rightarrow> Inl (ErrCtxDbFailure (''get ctx:'' @ show_id k @ '' failed'') ErrNotFound))"
  using assms(2)
  by (fastforce simp: IndexDB_Read_def IndexDB_get_def storm_One [OF assms(1)] coherent_def cached_id_def
      split: option.splits)

lemma Write_then_Read:
  assumes "storm_law lib rows" "evict_law lib" "coherent rows d"
    and "rows (idb_db d) (CrossTransaction_ID ctx) = None \<or>
      no_zero_fields (NewCrossTransactionIndexed (float_of_rat lib) ctx)"
    and "IndexDB_Write lib ctx d = (None, d')"
  shows "fst (IndexDB_Read lib show_id (CrossTransaction_ID ctx) d') = Inr (uncached (ctx_Data ctx))"
proof -
  have c: "coherent rows d'" using Write_coherent [OF assms(1-4)] assms(5) by simp
  obtain d1 where "IndexDB_Writes lib [ctx] True d = (None, d1)" "idb_db d' = idb_db d1"
    using assms(5) by (auto simp: IndexDB_Write_def split: prod.splits option.splits)
  with Write_row [OF assms(1) _ assms(4)] show ?thesis
    by (auto simp: Read_coherent [OF assms(1) c])
qed

text \<open>A written transaction is read back with exactly its data, with a cache of any size that
  forgets anything at any time, or with none; the caches of the transaction itself (hashes, sender)
  are not stored. The transaction must be new or have no field of value zero, since storm's
  \<open>Update\<close> skips such fields.\<close>

theorem Write_Read:
  assumes "storm_law lib rows" "evict_law lib" "coherent rows d"
    and "rows (idb_db d) (CrossTransaction_ID ctx) = None \<or>
      no_zero_fields (NewCrossTransactionIndexed (float_of_rat lib) ctx)"
    and "IndexDB_Write lib ctx d = (None, d')"
  shows "fst (IndexDB_Read lib show_id (CrossTransaction_ID ctx) d') = Inr (uncached (ctx_Data ctx))"
  by (rule Write_then_Read [OF assms])

lemma Write_Read_witness:
  "fst (IndexDB_Read mem_storm (\<lambda>_. ''id'') (CrossTransaction_ID demo_ctx)
     (snd (IndexDB_Write mem_storm demo_ctx empty_db))) = Inr (uncached (ctx_Data demo_ctx))"
proof (rule Write_Read [OF mem_storm_laws empty_db_coherent])
  show "mem_rows (idb_db empty_db) (CrossTransaction_ID demo_ctx) = None \<or>
      no_zero_fields (NewCrossTransactionIndexed (float_of_rat mem_storm) demo_ctx)"
    by (simp add: empty_db_def NewIndexDB_def mem_rows_def)
  show "IndexDB_Write mem_storm demo_ctx empty_db = (None, snd (IndexDB_Write mem_storm demo_ctx empty_db))"
    by (simp add: IndexDB_Write_def IndexDB_Writes_def mem_storm_def finish_tx_def Let_def mem_rows_def
        empty_db_def NewIndexDB_def)
qed

section \<open>Repairing and cleaning\<close>

lemma Repair_coherent:
  assumes "coherent rows d" "\<And>db db'. ReIndex db = Inr db' \<Longrightarrow> rows db' = rows db"
  shows "coherent rows (snd (IndexDB_Repair ReIndex d))"
  using assms by (auto simp: IndexDB_Repair_def on_bucket_def coherent_def split: sum.split)

text \<open>\<open>Clean\<close> drops the rows and leaves the cache: what was cached before is read as if it were still stored.\<close>

theorem Clean_leaves_cache:
  assumes "cache_Get (idb_cache d) CtxIdIndex (KHash k) = Some r"
  shows "fst (IndexDB_Read lib show_id k (snd (IndexDB_Clean Drop d))) = Inr (ToCrossTransaction r)"
  using assms by (auto simp: IndexDB_Clean_def on_bucket_def IndexDB_Read_def IndexDB_get_def split: sum.split)

lemma Clean_leaves_cache_witness:
  "fst (IndexDB_Read mem_storm (\<lambda>_. ''id'') (CrossTransaction_ID demo_ctx)
     (snd (IndexDB_Clean (\<lambda>db. Inr Map.empty) (snd (IndexDB_Write mem_storm demo_ctx empty_db)))))
   = Inr (ToCrossTransaction (NewCrossTransactionIndexed (float_of_rat mem_storm) demo_ctx))"
  by (rule Clean_leaves_cache)
     (simp add: IndexDB_Write_def IndexDB_Writes_def mem_storm_def finish_tx_def Let_def mem_rows_def
      empty_db_def NewIndexDB_def newIndexDbCache_def cache_Get_def cache_Put_def writes_invalidate_def
      cache_Remove_def)

section \<open>Rows cached by transaction hash\<close>

lemma invalidate_TxHash [simp]:
  "cache_Get (writes_invalidate ctx c) TxHashIndex h = cache_Get c TxHashIndex h"
  by (auto simp: writes_invalidate_def cache_Remove_def cache_Get_def split: option.split)

lemma Writes_loop_TxHash:
  "cache_Get (snd (Writes_loop lib replaceable ctxs tx c)) TxHashIndex h = cache_Get c TxHashIndex h"
  by (induction lib replaceable ctxs tx c rule: Writes_loop.induct)
     (auto simp: Let_def split: sum.split)

text \<open>\<open>Writes\<close> never drops what \<open>One\<close> cached under a transaction hash, since both of its
  \<open>Remove\<close> calls name the \<open>CtxId\<close> index: after any write, also one that replaces the row,
  \<open>One(TxHash, h)\<close> keeps answering with the old row.\<close>

theorem Writes_keep_stale_TxHash:
  assumes "cache_Get (idb_cache d) TxHashIndex h = Some r"
  shows "fst (IndexDB_One lib TxHashIndex h (snd (IndexDB_Writes lib' ctxs replaceable d)))
    = Some (ToCrossTransaction r)"
proof -
  have "cache_Get (idb_cache (snd (IndexDB_Writes lib' ctxs replaceable d))) TxHashIndex h = Some r"
    using assms Writes_loop_TxHash [of lib' replaceable ctxs "idb_db d" "idb_cache d" h]
    by (auto simp: IndexDB_Writes_def finish_tx_def split: option.split prod.split sum.split)
  then show ?thesis by (simp add: IndexDB_One_def)
qed

lemma Writes_keep_stale_TxHash_witness:
  "fst (IndexDB_One mem_storm TxHashIndex (KHash (replicate 32 2))
     (snd (IndexDB_Writes mem_storm [demo_ctx] True
       (empty_db\<lparr>idb_cache := Some [(TxHashIndex, KHash (replicate 32 2)) \<mapsto> zero_row]\<rparr>))))
   = Some (ToCrossTransaction zero_row)"
  by (rule Writes_keep_stale_TxHash) (simp add: cache_Get_def)

text \<open>Rows and transactions are converted without loss: the row of a transaction, turned back,
  is the transaction without its caches, and a row turned into a transaction and back differs at
  most in its storage key and the price computed from charge and value.\<close>

theorem Indexed_roundtrip:
  "ToCrossTransaction (NewCrossTransactionIndexed f ctx) = uncached (ctx_Data ctx)
   \<and> (\<exists>pk p. NewCrossTransactionIndexed f (ToCrossTransaction r) = r\<lparr>row_PK := pk, row_Price := p\<rparr>)"
proof
  show "ToCrossTransaction (NewCrossTransactionIndexed f ctx) = uncached (ctx_Data ctx)" by simp
  show "\<exists>pk p. NewCrossTransactionIndexed f (ToCrossTransaction r) = r\<lparr>row_PK := pk, row_Price := p\<rparr>"
    by (cases r)
      (auto simp: NewCrossTransactionIndexed_def ToCrossTransaction_def uncached_def Let_def
        CrossTransaction_ID_def)
qed

end
