(* ===== verification/Chainview.thy ===== *)
theory Chainview
  imports IndexDB
begin

text \<open>
  The view of the hub on its own chain (chainview/chainview.go): polling the contract's events in
  windows of blocks, turning them into signed transactions and receipts, taking in the messages of
  other hubs, and the list of anchors. The node's RPC client, the ABI codec and the transaction
  type of the chain are parameters over a world \<open>'w\<close>. An ABI decoder that fails leaves the argument
  struct as it was, so a decoder is a total function whose big integers may be nil.
\<close>

section \<open>State and parameters\<close>

record maker_args =
  mk_TxId :: hash
  mk_Value :: "int option"
  mk_DestValue :: "int option"
  mk_From :: string
  mk_To :: string
  mk_Purpose :: u8
  mk_Payload :: bytes

record taker_args =
  tk_TxId :: hash
  tk_From :: address
  tk_To :: address
  tk_Taker :: string
  tk_Purpose :: u8
  tk_Payload :: bytes

record finish_args =
  fin_TxId :: hash
  fin_To :: address

record log_event =
  lg_Topics :: "hash list"
  lg_Data :: bytes
  lg_TxHash :: hash
  lg_BlockHash :: hash

text \<open>What goes out on \<open>eventCh\<close>; \<open>None\<close> is the nil transaction.\<close>

datatype view_msg = ViewCtx "cross_tx option" | ViewRtx recept_tx

record chain_tx =
  ct_nonce :: u64
  ct_to :: address
  ct_amount :: int
  ct_gasLimit :: u64
  ct_gasPrice :: int
  ct_input :: bytes

record ('d, 'f, 'w) view_env =
  ve_lib :: chain_lib
  ve_storm :: "('d, 'f) storm_lib"
  ve_sign :: sign_fn
  ve_makerTx :: hash
  ve_takerTx :: hash
  ve_makerFinish :: hash
  ve_unpack_maker :: "bytes \<Rightarrow> maker_args"
  ve_unpack_taker :: "bytes \<Rightarrow> taker_args"
  ve_unpack_finish :: "bytes \<Rightarrow> finish_args"
  ve_addr_String :: "address \<Rightarrow> string"
  ve_blockNumber :: "'w \<Rightarrow> (goerr + nat) \<times> 'w"
  ve_FilterLogs :: "int \<Rightarrow> int \<Rightarrow> address \<Rightarrow> 'w \<Rightarrow> (goerr + log_event list) \<times> 'w"
  ve_CallContract :: "address \<Rightarrow> bytes \<Rightarrow> nat \<Rightarrow> 'w \<Rightarrow> (goerr + bytes) \<times> 'w"
  ve_pack :: "string \<Rightarrow> recept \<Rightarrow> goerr + bytes"
  ve_PendingNonce :: "'w \<Rightarrow> (goerr + u64) \<times> 'w"
  ve_tx_Hash :: "chain_tx \<Rightarrow> hash"
  ve_tx_WithSignature :: "chain_tx \<Rightarrow> bytes \<Rightarrow> goerr + chain_tx"
  ve_SendTransaction :: "chain_tx option \<Rightarrow> 'w \<Rightarrow> goerr option \<times> 'w"

record 'd viewer =
  vw_Address :: string
  vw_currentHeight :: u64
  vw_sent :: "view_msg list"
  vw_RemoteStore :: "'d index_db"
  vw_LocalStore :: "'d index_db"
  vw_Anchors :: "address list"
  vw_cancelled :: bool

definition nil_deref :: "'a outcome" where
  "nil_deref = Panic ''nil pointer dereference''"

definition zero_address :: address where
  "zero_address = replicate 20 0"

definition MakeCtxSigner :: "int \<Rightarrow> eip155_signer" where
  "MakeCtxSigner chainID = NewEIP155CtxSigner (Some chainID)"

definition MakeRtxSigner :: "int \<Rightarrow> eip155_signer" where
  "MakeRtxSigner chainID = NewEIP155RtxSigner (Some chainID)"

text \<open>\<open>New\<close>, after the client and the database are open, and \<open>Stop\<close>.\<close>

definition NewViewer ::
    "('d, 'f, 'w) view_env \<Rightarrow> (string \<Rightarrow> 'd) \<Rightarrow> string \<Rightarrow> 'd viewer" where
  "NewViewer env open_db contract =
     (let remoteDb = NewIndexDB open_db 5 4096; localDb = NewIndexDB open_db 2 4096 in
      \<lparr> vw_Address = contract, vw_currentHeight = IndexDB_Get (ve_storm env) ''currentHeight'' localDb,
        vw_sent = [], vw_RemoteStore = remoteDb, vw_LocalStore = localDb, vw_Anchors = [],
        vw_cancelled = False \<rparr>)"

definition viewer_Stop :: "('d, 'f, 'w) view_env \<Rightarrow> 'd viewer \<Rightarrow> 'd viewer" where
  "viewer_Stop env v =
     (case IndexDB_Set (ve_storm env) ''currentHeight'' (vw_currentHeight v) (vw_LocalStore v) of
        (_, db) \<Rightarrow> v\<lparr>vw_LocalStore := db, vw_cancelled := True\<rparr>)"

section \<open>Events of the contract\<close>

text \<open>\<open>store.Write(ctms)\<close> with a nil transaction gets as far as opening the database transaction.\<close>

definition write_signed ::
    "('d, 'f) storm_lib \<Rightarrow> cross_tx option \<Rightarrow> 'd index_db \<Rightarrow> 'd index_db outcome" where
  "write_signed lib ctms db =
     (case ctms of
        Some tx \<Rightarrow> Ok (snd (IndexDB_Write lib tx db))
      | None \<Rightarrow> (case db_Begin lib (idb_db db) of Some e \<Rightarrow> Ok db | None \<Rightarrow> nil_deref))"

text \<open>A signing error is logged and leaves the nil transaction.\<close>

fun or_nil :: "'a outcome \<Rightarrow> 'a option outcome" where
  "or_nil (Ok x) = Ok (Some x)"
| "or_nil (Err e) = Ok None"
| "or_nil (Panic p) = Panic p"

definition maker_event :: "('d, 'f, 'w) view_env \<Rightarrow> log_event \<Rightarrow> 'd viewer \<Rightarrow> 'd viewer outcome" where
  "maker_event env e v =
     (let args = ve_unpack_maker env (lg_Data e) in
      case (mk_Value args, mk_DestValue args) of
        (Some value, Some destValue) \<Rightarrow>
          let ctm = NewCrossTransaction value destValue (mk_From args) (mk_To args) 2 (mk_Purpose args)
                (mk_TxId args) (lg_TxHash e) (lg_BlockHash e) (mk_Payload args) in
          bind_outcome (or_nil (SignCtx (ve_lib env) (MakeCtxSigner 11) (ve_sign env) ctm)) (\<lambda>ctms.
          bind_outcome (write_signed (ve_storm env) ctms (vw_LocalStore v)) (\<lambda>db.
          Ok (v\<lparr>vw_LocalStore := db, vw_sent := vw_sent v @ [ViewCtx ctms]\<rparr>)))
      | _ \<Rightarrow> nil_deref)"

definition taker_event :: "('d, 'f, 'w) view_env \<Rightarrow> log_event \<Rightarrow> 'd viewer \<Rightarrow> 'd viewer outcome" where
  "taker_event env e v =
     (let args = ve_unpack_taker env (lg_Data e);
          rtm = NewReceptTransaction (tk_TxId args) (lg_TxHash e) (ve_addr_String env (tk_From args))
            (ve_addr_String env (tk_To args)) (tk_Taker args) 2 (tk_Purpose args) (tk_Payload args) in
      bind_outcome (or_nil (SignRtx (ve_lib env) (MakeRtxSigner 11) (ve_sign env) rtm)) (\<lambda>rtms.
      case rtms of
        None \<Rightarrow> nil_deref
      | Some rtx \<Rightarrow>
          let db = snd (IndexDB_Deletes (ve_storm env) [rtx_CTxId (rtx_Data rtx)] (vw_RemoteStore v)) in
          Ok (v\<lparr>vw_RemoteStore := db, vw_sent := vw_sent v @ [ViewRtx rtx]\<rparr>)))"

definition finish_event :: "('d, 'f, 'w) view_env \<Rightarrow> log_event \<Rightarrow> 'd viewer \<Rightarrow> 'd viewer" where
  "finish_event env e v =
     (let db = snd (IndexDB_Deletes (ve_storm env) [fin_TxId (ve_unpack_finish env (lg_Data e))]
            (vw_LocalStore v)) in
      v\<lparr>vw_LocalStore := db\<rparr>)"

fun EventLog :: "('d, 'f, 'w) view_env \<Rightarrow> log_event list \<Rightarrow> 'd viewer \<Rightarrow> 'd viewer outcome" where
  "EventLog env [] v = Ok v"
| "EventLog env (e # logs) v =
     bind_outcome (index_or_panic (lg_Topics e) 0) (\<lambda>topic.
     bind_outcome
       (if topic = ve_makerTx env then maker_event env e v
        else if topic = ve_takerTx env then taker_event env e v
        else if topic = ve_makerFinish env then Ok (finish_event env e v)
        else Ok v)
       (EventLog env logs))"

section \<open>Polling\<close>

definition toBlock :: "u64 \<Rightarrow> u64 \<Rightarrow> u64" where
  "toBlock currentHeight head =
     (if currentHeight < head - 99 then currentHeight + 99 else head - 1)"

text \<open>\<open>GetEvents\<close>; beside the new state it gives the head it saw and the window it asked for. A
  failed call leaves the head 0 and the logs empty.\<close>

definition GetEvents ::
    "('d, 'f, 'w) view_env \<Rightarrow> 'd viewer \<times> 'w \<Rightarrow> ((u64 \<times> u64 \<times> u64) \<times> 'd viewer \<times> 'w) outcome" where
  "GetEvents env vw =
     (case vw of (v, w) \<Rightarrow>
        let (r, w) = ve_blockNumber env w;
            head = (case r of Inl e \<Rightarrow> 0 | Inr n \<Rightarrow> of_nat n);
            from = vw_currentHeight v;
            to = toBlock from head;
            (l, w) = ve_FilterLogs env (sint from) (sint to) (HexToAddress (ve_lib env) (vw_Address v)) w;
            logs = (case l of Inl e \<Rightarrow> [] | Inr ls \<Rightarrow> ls) in
        bind_outcome (EventLog env logs v) (\<lambda>v.
        Ok ((head, from, to), v\<lparr>vw_currentHeight := to + 1\<rparr>, w)))"

fun GetEvents_times ::
    "nat \<Rightarrow> ('d, 'f, 'w) view_env \<Rightarrow> 'd viewer \<times> 'w \<Rightarrow> ((u64 \<times> u64 \<times> u64) list \<times> 'd viewer \<times> 'w) outcome" where
  "GetEvents_times 0 env vw = Ok ([], vw)"
| "GetEvents_times (Suc n) env vw =
     bind_outcome (GetEvents env vw) (\<lambda>(q, vw).
     bind_outcome (GetEvents_times n env vw) (\<lambda>(qs, vw). Ok (q # qs, vw)))"

section \<open>Anchors\<close>

definition slice_or_panic :: "bytes \<Rightarrow> nat \<Rightarrow> nat \<Rightarrow> bytes outcome" where
  "slice_or_panic b lo hi =
     (if lo \<le> hi \<and> hi \<le> length b then Ok (take (hi - lo) (drop lo b))
      else Panic ''slice bounds out of range'')"

fun read_anchors :: "bytes \<Rightarrow> u64 \<Rightarrow> nat \<Rightarrow> address list outcome" where
  "read_anchors ret i 0 = Ok []"
| "read_anchors ret i (Suc n) =
     bind_outcome (slice_or_panic ret (unat (32 * (4 + i) - 20)) (unat (32 * (4 + i)))) (\<lambda>anchor.
     bind_outcome (read_anchors ret (i + 1) n) (\<lambda>anchors. Ok (anchor # anchors)))"

definition getAnchors_call :: bytes where
  "getAnchors_call = [0x02, 0x8a, 0xcd, 0x48] @ replicate 31 0 @ [5]"

text \<open>What \<open>GetAnchors\<close> does with the answer of the contract.\<close>

definition take_anchors :: "bytes \<Rightarrow> 'd viewer \<Rightarrow> 'd viewer outcome" where
  "take_anchors ret v =
     (if length ret > 64 then
        let signConfirmCount = of_nat (be_nat (take 32 (drop 32 ret))) :: u64 in
        bind_outcome (slice_or_panic ret 64 96) (\<lambda>len.
        bind_outcome (read_anchors ret 0 (unat (of_nat (be_nat len) :: u64))) (\<lambda>anchors.
        Ok (if signConfirmCount > 0
            then v\<lparr>vw_Anchors := fold List.insert anchors (vw_Anchors v)\<rparr> else v)))
      else Ok v)"

definition GetAnchors :: "('d, 'f, 'w) view_env \<Rightarrow> 'd viewer \<times> 'w \<Rightarrow> ('d viewer \<times> 'w) outcome" where
  "GetAnchors env vw =
     (case vw of (v, w) \<Rightarrow>
        (case ve_blockNumber env w of
           (Inl e, w) \<Rightarrow> Ok (v, w)
         | (Inr n, w) \<Rightarrow>
             (case ve_CallContract env (HexToAddress (ve_lib env) (vw_Address v)) getAnchors_call n w of
                (Inl e, w) \<Rightarrow> Ok (v, w)
              | (Inr ret, w) \<Rightarrow> bind_outcome (take_anchors ret v) (\<lambda>v. Ok (v, w)))))"

section \<open>Messages of other hubs\<close>

definition createTransaction ::
    "('d, 'f, 'w) view_env \<Rightarrow> 'd viewer \<Rightarrow> recept_tx \<Rightarrow> 'w \<Rightarrow> (goerr + chain_tx) \<times> 'w" where
  "createTransaction env v rtm w =
     (case ConstructData (ve_lib env) (ve_pack env) rtm of
        Inl e \<Rightarrow> (Inl e, w)
      | Inr input \<Rightarrow>
          let (r, w) = ve_PendingNonce env w;
              tx = \<lparr> ct_nonce = (case r of Inl e \<Rightarrow> 0 | Inr n \<Rightarrow> n),
                ct_to = HexToAddress (ve_lib env) (vw_Address v), ct_amount = 0,
                ct_gasLimit = 250000, ct_gasPrice = 10 ^ 10, ct_input = input \<rparr> in
          (case ve_sign env (ve_tx_Hash env tx) of
             Inl e \<Rightarrow> (Inl e, w)
           | Inr sig \<Rightarrow> (ve_tx_WithSignature env tx sig, w)))"

text \<open>The sender of a message; on an error it is the zero address.\<close>

definition sender_or_zero :: "address outcome \<Rightarrow> address outcome" where
  "sender_or_zero r = (case r of Ok a \<Rightarrow> Ok a | Err e \<Rightarrow> Ok zero_address | Panic p \<Rightarrow> Panic p)"

definition handle_ctx :: "('d, 'f, 'w) view_env \<Rightarrow> cross_tx \<Rightarrow> 'd viewer \<Rightarrow> 'd viewer outcome" where
  "handle_ctx env ctm v =
     (case CtxSender (ve_lib env) (MakeCtxSigner 11) ctm of (r, ctm) \<Rightarrow>
        bind_outcome (sender_or_zero r) (\<lambda>from.
        if from \<in> set (vw_Anchors v) then
          bind_outcome (or_nil (SignSimpleCtx (ve_lib env) (MakeCtxSigner 2) (ve_sign env) ctm)) (\<lambda>ctms.
          bind_outcome (write_signed (ve_storm env) ctms (vw_RemoteStore v)) (\<lambda>db.
          Ok (v\<lparr>vw_RemoteStore := db\<rparr>)))
        else Ok v))"

definition handle_rtx ::
    "('d, 'f, 'w) view_env \<Rightarrow> recept_tx \<Rightarrow> 'd viewer \<times> 'w \<Rightarrow> ('d viewer \<times> 'w) outcome" where
  "handle_rtx env rtm vw =
     (case vw of (v, w) \<Rightarrow>
        bind_outcome (sender_or_zero (fst (RtxSender (ve_lib env) (MakeRtxSigner 11) rtm))) (\<lambda>from.
        if from \<in> set (vw_Anchors v) then
          let (r, w) = createTransaction env v rtm w;
              (_, w) = ve_SendTransaction env (case r of Inl e \<Rightarrow> None | Inr tx \<Rightarrow> Some tx) w in
          Ok (v, w)
        else Ok (v, w)))"

text \<open>One round of \<open>loop\<close>.\<close>

datatype view_event = EventTick | AnchorTick | MsgCtx cross_tx | MsgRtx recept_tx | MsgOther

definition loop_round ::
    "('d, 'f, 'w) view_env \<Rightarrow> view_event \<Rightarrow> 'd viewer \<times> 'w \<Rightarrow> ('d viewer \<times> 'w) outcome" where
  "loop_round env ev vw =
     (case ev of
        EventTick \<Rightarrow> bind_outcome (GetEvents env vw) (\<lambda>(q, vw). Ok vw)
      | AnchorTick \<Rightarrow> GetAnchors env vw
      | MsgCtx ctm \<Rightarrow> (case vw of (v, w) \<Rightarrow> bind_outcome (handle_ctx env ctm v) (\<lambda>v. Ok (v, w)))
      | MsgRtx rtm \<Rightarrow> handle_rtx env rtm vw
      | MsgOther \<Rightarrow> Ok vw)"

fun viewer_loop ::
    "('d, 'f, 'w) view_env \<Rightarrow> view_event list \<Rightarrow> 'd viewer \<times> 'w \<Rightarrow> ('d viewer \<times> 'w) outcome" where
  "viewer_loop env [] vw = Ok vw"
| "viewer_loop env (ev # evs) vw = bind_outcome (loop_round env ev vw) (viewer_loop env evs)"

definition viewer_Start ::
    "('d, 'f, 'w) view_env \<Rightarrow> view_event list \<Rightarrow> 'd viewer \<times> 'w \<Rightarrow> ('d viewer \<times> 'w) outcome" where
  "viewer_Start env evs vw = bind_outcome (GetAnchors env vw) (viewer_loop env evs)"

section \<open>What the handlers keep\<close>

lemma event_keeps:
  "maker_event env e v = Ok u \<Longrightarrow> vw_currentHeight u = vw_currentHeight v \<and> vw_Anchors u = vw_Anchors v"
  "taker_event env e v = Ok u \<Longrightarrow> vw_currentHeight u = vw_currentHeight v \<and> vw_Anchors u = vw_Anchors v"
  "vw_currentHeight (finish_event env e v) = vw_currentHeight v"
  "vw_Anchors (finish_event env e v) = vw_Anchors v"
proof -
  show "vw_currentHeight u = vw_currentHeight v \<and> vw_Anchors u = vw_Anchors v"
    if "maker_event env e v = Ok u"
    using that by (auto simp: maker_event_def nil_deref_def Let_def bind_outcome_Ok_iff split: option.splits)
  show "vw_currentHeight u = vw_currentHeight v \<and> vw_Anchors u = vw_Anchors v"
    if "taker_event env e v = Ok u"
    using that by (auto simp: taker_event_def nil_deref_def Let_def bind_outcome_Ok_iff
        split: option.splits prod.splits)
qed (simp_all add: finish_event_def split: prod.split)

lemma EventLog_keeps:
  "EventLog env logs v = Ok v' \<Longrightarrow>
     vw_currentHeight v' = vw_currentHeight v \<and> vw_Anchors v' = vw_Anchors v"
proof (induction logs arbitrary: v)
  case (Cons e logs)
  then obtain u where u: "EventLog env logs u = Ok v'"
      "maker_event env e v = Ok u \<or> taker_event env e v = Ok u \<or> u = finish_event env e v \<or> u = v"
    by (auto simp: bind_outcome_Ok_iff split: if_splits)
  with Cons.IH [OF u(1)] event_keeps show ?case by metis
qed simp

lemma GetEvents_Ok:
  assumes "GetEvents env (v, w) = Ok ((head, from, to), v', w')"
  shows "from = vw_currentHeight v \<and> to = toBlock from head \<and> vw_currentHeight v' = to + 1
    \<and> vw_Anchors v' = vw_Anchors v"
  using assms EventLog_keeps
  by (fastforce simp: GetEvents_def Let_def bind_outcome_Ok_iff split: prod.splits)

section \<open>Windows\<close>

lemma toBlock_window:
  assumes "99 \<le> unat head" "unat cur \<le> unat head"
  shows "unat cur \<le> unat (toBlock cur head + 1) \<and> unat (toBlock cur head + 1) \<le> unat head
    \<and> unat (toBlock cur head + 1) \<le> unat cur + 100"
proof -
  have "(99 :: u64) \<le> head" using assms(1) by (simp add: word_le_nat_alt)
  then have h: "unat (head - 99) = unat head - 99" by (simp add: unat_sub)
  show ?thesis
  proof (cases "cur < head - 99")
    case True
    then have "unat cur < unat head - 99" using h by (simp add: word_less_nat_alt)
    moreover have "unat head < 2 ^ 64" using unsigned_less [of head] by simp
    ultimately have n: "unat (cur + 100) = unat cur + 100" by (simp add: unat_word_ariths)
    have t: "toBlock cur head + 1 = cur + 100" using True by (simp add: toBlock_def)
    show ?thesis unfolding t n using \<open>unat cur < unat head - 99\<close> by simp
  next
    case False
    then have "unat head - 99 \<le> unat cur" using h by (simp add: word_less_nat_alt)
    then show ?thesis using False assms by (simp add: toBlock_def)
  qed
qed

text \<open>The blocks of a window \<open>(head, from, to)\<close>.\<close>

definition window_blocks :: "u64 \<times> u64 \<times> u64 \<Rightarrow> nat list" where
  "window_blocks q = (case q of (h, f, t) \<Rightarrow> [unat f..<unat (t + 1)])"

definition window_ok :: "u64 \<times> u64 \<times> u64 \<Rightarrow> bool" where
  "window_ok q = (case q of (h, f, t) \<Rightarrow> unat (t + 1) \<le> unat f + 100 \<and> unat (t + 1) \<le> unat h)"

text \<open>C21: while the node answers, polling looks at every block exactly once. For any number of calls
  of \<open>GetEvents\<close> that see heads of at least 99 which do not go down, starting at or below the first
  head, the windows asked for, one after the other, are the blocks from the old height to the new
  one without a gap or a repetition; each window has at most 100 blocks and none lies above the
  head.\<close>

theorem poll_windows_contiguous:
  assumes "GetEvents_times n env (v, w) = Ok (qs, v', w')"
    and "sorted (map (unat \<circ> fst) qs)" "\<forall>q \<in> set qs. 99 \<le> unat (fst q)"
    and "\<forall>q \<in> set qs. unat (vw_currentHeight v) \<le> unat (fst q)"
  shows "concat (map window_blocks qs) = [unat (vw_currentHeight v)..<unat (vw_currentHeight v')]
    \<and> unat (vw_currentHeight v) \<le> unat (vw_currentHeight v')
    \<and> (\<forall>q \<in> set qs. window_ok q)"
  using assms
proof (induction n arbitrary: v w qs)
  case (Suc n)
  obtain h f t v1 w1 qs' where q: "GetEvents env (v, w) = Ok ((h, f, t), v1, w1)"
      "GetEvents_times n env (v1, w1) = Ok (qs', v', w')" "qs = (h, f, t) # qs'"
    using Suc.prems(1) by (auto simp: bind_outcome_Ok_iff)
  note g = GetEvents_Ok [OF q(1)]
  have w1: "unat f \<le> unat (t + 1) \<and> unat (t + 1) \<le> unat h \<and> unat (t + 1) \<le> unat f + 100"
    using toBlock_window [of h f] g Suc.prems(3,4) q(3) by auto
  have prems: "\<forall>q \<in> set qs'. unat (vw_currentHeight v1) \<le> unat (fst q)"
    using Suc.prems(2) w1 g q(3) by fastforce
  have "sorted (map (unat \<circ> fst) qs')" "\<forall>q \<in> set qs'. 99 \<le> unat (fst q)"
    using Suc.prems(2,3) q(3) by (auto simp: comp_def)
  note prems = this prems
  note IH = Suc.IH [OF q(2) prems]
  have "[unat f..<unat (t + 1)] @ [unat (t + 1)..<unat (vw_currentHeight v')]
      = [unat f..<unat (vw_currentHeight v')]"
    using w1 IH g upt_append by metis
  then show ?case using IH w1 g q(3) by (simp add: window_blocks_def window_ok_def)
qed simp

text \<open>A poll that fails moves on all the same. When the node answers neither the head nor the
  logs, the height still grows by 100, whatever the real head is, and the blocks of the window are
  never asked for again.\<close>

theorem failed_poll_skips:
  assumes "ve_blockNumber env w = (Inl e, w1)"
    and "\<And>from to a. ve_FilterLogs env from to a w1 = (Inl e', w2)"
    and "unat (vw_currentHeight v) < 2 ^ 64 - 99"
  shows "GetEvents env (v, w) = Ok ((0, vw_currentHeight v, vw_currentHeight v + 99),
    v\<lparr>vw_currentHeight := vw_currentHeight v + 100\<rparr>, w2)"
proof -
  have "unat (0 - 99 :: u64) = 2 ^ 64 - 99" by simp
  then have "vw_currentHeight v < 0 - 99" using assms(3) by (simp only: word_less_nat_alt)
  then show ?thesis by (simp add: GetEvents_def assms(1,2) toBlock_def Let_def add.commute)
qed

section \<open>Anchors\<close>

lemma sender_or_zero_Ok [simp]: "sender_or_zero (Ok a) = Ok a"
  by (simp add: sender_or_zero_def)

lemma set_fold_insert: "set (fold List.insert xs ys) = set xs \<union> set ys"
  by (induction xs arbitrary: ys) auto

lemma take_anchors_keeps:
  "take_anchors ret v = Ok v' \<Longrightarrow> set (vw_Anchors v) \<subseteq> set (vw_Anchors v')"
  by (auto simp: take_anchors_def Let_def bind_outcome_Ok_iff set_fold_insert split: if_splits)

lemma loop_round_anchors:
  "loop_round env ev (v, w) = Ok (v', w') \<Longrightarrow> set (vw_Anchors v) \<subseteq> set (vw_Anchors v')"
proof (cases ev)
  case EventTick
  assume "loop_round env ev (v, w) = Ok (v', w')"
  with EventTick show ?thesis using GetEvents_Ok by (fastforce simp: loop_round_def bind_outcome_Ok_iff)
next
  case AnchorTick
  assume "loop_round env ev (v, w) = Ok (v', w')"
  with AnchorTick show ?thesis
    using take_anchors_keeps
    by (fastforce simp: loop_round_def GetAnchors_def bind_outcome_Ok_iff split: prod.splits sum.splits)
next
  case (MsgCtx ctm)
  assume "loop_round env ev (v, w) = Ok (v', w')"
  with MsgCtx have "vw_Anchors v' = vw_Anchors v"
    by (auto simp: loop_round_def handle_ctx_def bind_outcome_Ok_iff split: prod.splits if_splits)
  then show ?thesis by simp
next
  case (MsgRtx rtm)
  assume "loop_round env ev (v, w) = Ok (v', w')"
  with MsgRtx have "v' = v"
    by (auto simp: loop_round_def handle_rtx_def bind_outcome_Ok_iff Let_def split: prod.splits if_splits)
  then show ?thesis by simp
qed (simp add: loop_round_def)

text \<open>An anchor is trusted until the program ends: no event of the loop, not even a new answer of
  \<open>getAnchors\<close> without it, takes an address out of the set.\<close>

theorem anchors_never_revoked:
  assumes "viewer_loop env evs (v, w) = Ok (v', w')"
  shows "set (vw_Anchors v) \<subseteq> set (vw_Anchors v')"
  using assms
proof (induction evs arbitrary: v w)
  case (Cons ev evs)
  then show ?case using loop_round_anchors by (fastforce simp: bind_outcome_Ok_iff)
qed simp

section \<open>Transactions between hubs\<close>

text \<open>A transaction of another hub changes nothing but the remote store, and that only when its
  sender is an anchor. (The sender of a transaction without a valid signature is the zero address,
  so this rests on the zero address not being an anchor.)\<close>

theorem ctx_from_stranger_ignored:
  assumes "handle_ctx env ctm v = Ok v'" "zero_address \<notin> set (vw_Anchors v)"
  shows "v' = v\<lparr>vw_RemoteStore := vw_RemoteStore v'\<rparr>
    \<and> ((\<exists>a \<in> set (vw_Anchors v). fst (CtxSender (ve_lib env) (MakeCtxSigner 11) ctm) = Ok a) \<or> v' = v)"
proof -
  obtain r c where s: "CtxSender (ve_lib env) (MakeCtxSigner 11) ctm = (r, c)" by fastforce
  obtain a where f: "sender_or_zero r = Ok a"
    using assms(1) by (auto simp: handle_ctx_def s bind_outcome_Ok_iff)
  show ?thesis
  proof (cases "a \<in> set (vw_Anchors v)")
    case True
    then have "r = Ok a"
      using f assms(2) by (auto simp: sender_or_zero_def split: outcome.splits)
    with True show ?thesis
      using assms(1) by (auto simp: handle_ctx_def s bind_outcome_Ok_iff f)
  next
    case False
    then show ?thesis using assms(1) by (simp add: handle_ctx_def s f)
  qed
qed

text \<open>The transaction a maker event stands for, before it is signed.\<close>

definition maker_ctx :: "('d, 'f, 'w) view_env \<Rightarrow> log_event \<Rightarrow> int \<Rightarrow> int \<Rightarrow> cross_tx" where
  "maker_ctx env e value destValue =
     (let args = ve_unpack_maker env (lg_Data e) in
      NewCrossTransaction value destValue (mk_From args) (mk_To args) 2 (mk_Purpose args)
        (mk_TxId args) (lg_TxHash e) (lg_BlockHash e) (mk_Payload args))"

lemma sign_keeps_data:
  assumes "length sig = 65" "f (hash tx) = Inr sig"
  shows "\<exists>r q u. sign_tx hash (CrossTransaction_WithSignature s) f tx =
    Ok (uncached ((ctx_Data tx)\<lparr>ctx_R := r, ctx_S := q, ctx_V := u\<rparr>))"
  using assms
  by (auto simp: sign_tx_def CrossTransaction_WithSignature_def EIP155CtxSigner_SignatureValues_def Let_def)


section \<open>A concrete hub\<close>

text \<open>Its world is the head of the chain; \<open>up\<close> says whether the node answers.\<close>

definition demo_view :: "bool \<Rightarrow> (hash \<rightharpoonup> ctx_row, unit, nat) view_env" where
  "demo_view up = \<lparr> ve_lib = demo_lib, ve_storm = mem_storm, ve_sign = \<lambda>_. Inr demo_sig,
     ve_makerTx = [1], ve_takerTx = [2], ve_makerFinish = [3],
     ve_unpack_maker = \<lambda>_. \<lparr> mk_TxId = replicate 32 1, mk_Value = Some 10, mk_DestValue = Some 1,
       mk_From = ''ab'', mk_To = ''c'', mk_Purpose = 5, mk_Payload = [9] \<rparr>,
     ve_unpack_taker = \<lambda>_. \<lparr> tk_TxId = replicate 32 1, tk_From = [], tk_To = [], tk_Taker = ''t'',
       tk_Purpose = 5, tk_Payload = [] \<rparr>,
     ve_unpack_finish = \<lambda>_. \<lparr> fin_TxId = replicate 32 1, fin_To = [] \<rparr>,
     ve_addr_String = \<lambda>_. [],
     ve_blockNumber = \<lambda>w. (if up then Inr w else Inl (ErrNew ''connection refused''), w + 50),
     ve_FilterLogs = \<lambda>from to a w. (if up then Inr [] else Inl (ErrNew ''connection refused''), w),
     ve_CallContract = \<lambda>a d n w. (Inl (ErrNew ''reverted''), w),
     ve_pack = \<lambda>f r. Inr [], ve_PendingNonce = \<lambda>w. (Inr 0, w), ve_tx_Hash = \<lambda>_. [],
     ve_tx_WithSignature = \<lambda>tx sig. Inr tx, ve_SendTransaction = \<lambda>tx w. (None, w) \<rparr>"

definition demo_viewer :: "(hash \<rightharpoonup> ctx_row) viewer" where
  "demo_viewer = \<lparr> vw_Address = ''0x1'', vw_currentHeight = 0, vw_sent = [], vw_RemoteStore = empty_db,
     vw_LocalStore = empty_db, vw_Anchors = [replicate 20 7], vw_cancelled = False \<rparr>"

lemma demo_GetEvents:
  "GetEvents (demo_view True) (demo_viewer\<lparr>vw_currentHeight := c\<rparr>, w) =
     Ok ((of_nat w, c, toBlock c (of_nat w)), demo_viewer\<lparr>vw_currentHeight := toBlock c (of_nat w) + 1\<rparr>, w + 50)"
  by (simp add: GetEvents_def demo_view_def demo_viewer_def Let_def)

lemma poll_windows_contiguous_witness:
  "concat (map window_blocks [(150, 0, 99), (200, 100, 199)]) = [0..<200]"
proof -
  have two: "GetEvents_times 2 (demo_view True) (demo_viewer\<lparr>vw_currentHeight := 0\<rparr>, 150) =
      Ok ([(150, 0, 99), (200, 100, 199)], demo_viewer\<lparr>vw_currentHeight := 200\<rparr>, 250)"
    by (simp only: numeral_2_eq_2 GetEvents_times.simps demo_GetEvents bind_outcome.simps prod.case)
      (simp add: toBlock_def)
  from poll_windows_contiguous [OF two] show ?thesis by simp
qed

lemma failed_poll_skips_witness:
  "GetEvents (demo_view False) (demo_viewer, 7) =
     Ok ((0, 0, 99), demo_viewer\<lparr>vw_currentHeight := 100\<rparr>, 57)"
  using failed_poll_skips [of "demo_view False" 7 "ErrNew ''connection refused''" 57
      "ErrNew ''connection refused''" 57 demo_viewer]
  by (simp add: demo_view_def demo_viewer_def)

lemma anchors_never_revoked_witness:
  "\<exists>v'. viewer_loop (demo_view True) [EventTick, AnchorTick] (demo_viewer, 150) = Ok (v', 250)
     \<and> replicate 20 7 \<in> set (vw_Anchors v')"
proof -
  have "GetEvents (demo_view True) (demo_viewer, 150) =
      Ok ((150, 0, 99), demo_viewer\<lparr>vw_currentHeight := 100\<rparr>, 200)"
    using demo_GetEvents [of 0 150] by (simp add: demo_viewer_def toBlock_def)
  then obtain v' where v': "viewer_loop (demo_view True) [EventTick, AnchorTick] (demo_viewer, 150) = Ok (v', 250)"
    by (simp add: loop_round_def GetAnchors_def demo_view_def)
  from anchors_never_revoked [OF this] v' show ?thesis by (auto simp: demo_viewer_def)
qed

lemma ctx_from_stranger_ignored_witness:
  "handle_ctx (demo_view True) demo_ctx demo_viewer = Ok demo_viewer"
proof -
  have s: "CtxSender demo_lib (MakeCtxSigner 11) demo_ctx = (Err ErrInvalidChainId, demo_ctx)"
    by (simp add: CtxSender_def EIP155CtxSigner_Sender_def CrossTransaction_ChainId_def demo_lib_def
        demo_ctx_def NewCrossTransaction_def uncached_def MakeCtxSigner_def NewEIP155CtxSigner_def)
  have z: "zero_address \<notin> set (vw_Anchors demo_viewer)"
    by (simp add: zero_address_def demo_viewer_def)
  obtain v' where v': "handle_ctx (demo_view True) demo_ctx demo_viewer = Ok v'"
    using s z by (simp add: handle_ctx_def demo_view_def sender_or_zero_def)
  from ctx_from_stranger_ignored [OF this z] show ?thesis
    using v' s by (simp add: demo_view_def)
qed

definition demo_maker_log :: log_event where
  "demo_maker_log = \<lparr> lg_Topics = [[1]], lg_Data = [], lg_TxHash = replicate 32 2, lg_BlockHash = replicate 32 3 \<rparr>"

lemma demo_write: "fst (IndexDB_Write mem_storm tx empty_db) = None"
  by (simp add: IndexDB_Write_def IndexDB_Writes_def mem_storm_def finish_tx_def Let_def mem_rows_def
      empty_db_def NewIndexDB_def)


end
