(* ===== verification/Certs.thy ===== *)
theory Certs
  imports GoText
begin

text \<open>
  Certificates: cert/cert.go (checking, parsing and the template of a new certificate) and the tools of
  \<open>crosshub cert\<close> in cmd/crosshub/cert.go, which make keys, requests and certificates in files. The x509
  and PEM libraries are a parameter; the file system is a map from cleaned paths, a random source and
  a clock (nanoseconds).
\<close>

section \<open>Certificates\<close>

record pkix_name =
  pn_Country :: string
  pn_Locality :: string
  pn_Province :: string
  pn_OrganizationalUnit :: string
  pn_Organization :: string
  pn_StreetAddress :: "string list"
  pn_PostalCode :: string
  pn_CommonName :: string

datatype key_usage = DigitalSignature | KeyEncipherment | CertSign | CRLSign

text \<open>The fields of \<open>x509.Certificate\<close> the program sets or reads. \<open>xc_Raw\<close> is what was parsed, with the
  signature; a template has none. A template of a request copies its signature fields and public key.\<close>

record 'p x509 =
  xc_SerialNumber :: int
  xc_NotBefore :: int
  xc_NotAfter :: int
  xc_BasicConstraintsValid :: bool
  xc_IsCA :: bool
  xc_KeyUsage :: "key_usage list"
  xc_Subject :: pkix_name
  xc_Issuer :: "pkix_name option"
  xc_PublicKey :: "'p option"
  xc_SubjectKeyId :: bytes
  xc_Raw :: bytes

record 'p x509_request =
  xr_Subject :: pkix_name
  xr_PublicKey :: 'p
  xr_Raw :: bytes

record ('k, 'p, 'r) cert_lib =
  cl_pem_decode :: "bytes \<Rightarrow> (string \<times> bytes) option"
  cl_pem_encode :: "string \<Rightarrow> bytes \<Rightarrow> bytes"
  cl_GenerateKey :: "'r \<Rightarrow> (goerr + 'k) \<times> 'r"
  cl_MarshalECPrivateKey :: "'k \<Rightarrow> goerr + bytes"
  cl_ParseECPrivateKey :: "bytes \<Rightarrow> goerr + 'k"
  cl_public :: "'k \<Rightarrow> 'p"
  cl_elliptic_Marshal :: "'p \<Rightarrow> bytes"
  cl_sha256 :: "bytes \<Rightarrow> bytes"
  cl_rand_Int :: "'r \<Rightarrow> int \<Rightarrow> (goerr + int) \<times> 'r"
  cl_ParseCertificate :: "bytes \<Rightarrow> goerr + 'p x509"
  cl_CreateCertificate :: "'r \<Rightarrow> 'p x509 \<Rightarrow> 'p x509 \<Rightarrow> 'p \<Rightarrow> 'k \<Rightarrow> (goerr + bytes) \<times> 'r"
  cl_CheckSignatureFrom :: "'p x509 \<Rightarrow> 'p x509 \<Rightarrow> goerr option"
  cl_CreateCertificateRequest :: "'r \<Rightarrow> pkix_name \<Rightarrow> 'k \<Rightarrow> (goerr + bytes) \<times> 'r"
  cl_ParseCertificateRequest :: "bytes \<Rightarrow> goerr + 'p x509_request"
  cl_CheckSignature :: "'p x509_request \<Rightarrow> goerr option"

section \<open>cert.go\<close>

text \<open>The two readings of the clock are taken as one.\<close>

definition VerifySign :: "('k, 'p, 'r) cert_lib \<Rightarrow> int \<Rightarrow> 'p x509 \<Rightarrow> 'p x509 \<Rightarrow> goerr option" where
  "VerifySign lib now subCert caCert =
     (case cl_CheckSignatureFrom lib subCert caCert of
        Some e \<Rightarrow> Some (ErrWrap ''check sign'' e)
      | None \<Rightarrow>
          if now < xc_NotBefore subCert \<or> xc_NotAfter subCert < now then Some (ErrNew ''cert expired'')
          else None)"

definition ParsePrivateKey :: "('k, 'p, 'r) cert_lib \<Rightarrow> bytes option \<Rightarrow> goerr + 'k" where
  "ParsePrivateKey lib data =
     (case data of
        None \<Rightarrow> Inl (ErrNew ''empty data'')
      | Some d \<Rightarrow>
          (case cl_pem_decode lib d of
             None \<Rightarrow> Inl (ErrNew ''empty block'')
           | Some (_, b) \<Rightarrow> cl_ParseECPrivateKey lib b))"

definition ParseCert :: "('k, 'p, 'r) cert_lib \<Rightarrow> bytes option \<Rightarrow> goerr + 'p x509" where
  "ParseCert lib data =
     (case data of
        None \<Rightarrow> Inl (ErrNew ''empty data'')
      | Some d \<Rightarrow>
          (case cl_pem_decode lib d of
             None \<Rightarrow> Inl (ErrNew ''empty block'')
           | Some (_, b) \<Rightarrow> cl_ParseCertificate lib b))"

definition priKeyHash :: "('k, 'p, 'r) cert_lib \<Rightarrow> 'k \<Rightarrow> bytes" where
  "priKeyHash lib priKey = cl_sha256 lib (cl_elliptic_Marshal lib (cl_public lib priKey))"

definition minute :: int where "minute = 60 * 10 ^ 9"
definition fifty_years :: int where "fifty_years = 50 * 365 * 24 * 60 * minute"

definition all_usages :: "key_usage list" where
  "all_usages = [DigitalSignature, KeyEncipherment, CertSign, CRLSign]"

definition GenerateCert ::
    "('k, 'p, 'r) cert_lib \<Rightarrow> int \<Rightarrow> 'k \<Rightarrow> bool \<Rightarrow> string \<Rightarrow> 'r \<Rightarrow> (goerr + 'p x509) \<times> 'r" where
  "GenerateCert lib now privKey isCA organization r =
     (case cl_rand_Int lib r 1000000 of
        (Inl e, r) \<Rightarrow> (Inl e, r)
      | (Inr sn, r) \<Rightarrow>
          let notBefore = now - 5 * minute in
          (Inr \<lparr> xc_SerialNumber = sn, xc_NotBefore = notBefore, xc_NotAfter = notBefore + fifty_years,
             xc_BasicConstraintsValid = True, xc_IsCA = isCA, xc_KeyUsage = all_usages,
             xc_Subject = \<lparr> pn_Country = ''CN'', pn_Locality = ''HangZhou'', pn_Province = ''ZheJiang'',
               pn_OrganizationalUnit = ''BitXHub'', pn_Organization = organization,
               pn_StreetAddress = [''street'', ''address''], pn_PostalCode = ''324000'',
               pn_CommonName = ''bitxhub.cn'' \<rparr>,
             xc_Issuer = None, xc_PublicKey = None, xc_SubjectKeyId = priKeyHash lib privKey, xc_Raw = [] \<rparr>, r))"

section \<open>Files\<close>

record 'r tool_world =
  tw_files :: "string \<rightharpoonup> bytes"
  tw_rand :: 'r
  tw_now :: int

record file_env =
  fe_create :: "string \<Rightarrow> goerr option"
  fe_write :: "string \<Rightarrow> goerr option"

definition read_file :: "string \<Rightarrow> 'r tool_world \<Rightarrow> goerr + bytes" where
  "read_file path w =
     (case tw_files w (path_clean path) of
        None \<Rightarrow> Inl (ErrNew (''open '' @ path @ '': no such file or directory''))
      | Some b \<Rightarrow> Inr b)"

text \<open>\<open>os.Create\<close> empties the file; \<open>pem.Encode\<close> then writes to it.\<close>

definition create_pem ::
    "file_env \<Rightarrow> ('k, 'p, 'r) cert_lib \<Rightarrow> (goerr \<Rightarrow> goerr) \<Rightarrow> (goerr \<Rightarrow> goerr) \<Rightarrow> string \<Rightarrow> string \<Rightarrow> bytes \<Rightarrow>
     'r tool_world \<Rightarrow> unit outcome \<times> 'r tool_world" where
  "create_pem fs lib wrap_create wrap_write path kind data w =
     (case fe_create fs path of
        Some e \<Rightarrow> (Err (wrap_create e), w)
      | None \<Rightarrow>
          let w = w\<lparr>tw_files := (tw_files w)(path_clean path \<mapsto> [])\<rparr> in
          (case fe_write fs path of
             Some e \<Rightarrow> (Err (wrap_write e), w)
           | None \<Rightarrow> (Ok (), w\<lparr>tw_files := (tw_files w)(path_clean path \<mapsto> cl_pem_encode lib kind data)\<rparr>)))"

text \<open>The tools decode PEM without the test for an empty block that cert.go has.\<close>

definition pem_bytes :: "('k, 'p, 'r) cert_lib \<Rightarrow> bytes \<Rightarrow> bytes outcome" where
  "pem_bytes lib data =
     (case cl_pem_decode lib data of
        None \<Rightarrow> Panic ''nil pointer dereference''
      | Some (_, b) \<Rightarrow> Ok b)"

fun of_result :: "(goerr \<Rightarrow> goerr) \<Rightarrow> goerr + 'a \<Rightarrow> 'a outcome" where
  "of_result f (Inl e) = Err (f e)"
| "of_result f (Inr x) = Ok x"

text \<open>Reading a file, decoding it and parsing the block.\<close>

definition load_pem ::
    "('k, 'p, 'r) cert_lib \<Rightarrow> (goerr \<Rightarrow> goerr) \<Rightarrow> (goerr \<Rightarrow> goerr) \<Rightarrow> (bytes \<Rightarrow> goerr + 'a) \<Rightarrow> string \<Rightarrow>
     'r tool_world \<Rightarrow> 'a outcome" where
  "load_pem lib wrap_read wrap_parse parse path w =
     bind_outcome (of_result wrap_read (read_file path w)) (\<lambda>data.
     bind_outcome (pem_bytes lib data) (\<lambda>b. of_result wrap_parse (parse b)))"

definition getFileName :: "string \<Rightarrow> string" where
  "getFileName path =
     (let bs = split_on (CHR ''.'') (path_base path) in if length bs \<noteq> 2 then ''default'' else bs ! 0)"

section \<open>The tools\<close>

definition caCMD ::
    "file_env \<Rightarrow> ('k, 'p, 'r) cert_lib \<Rightarrow> 'r tool_world \<Rightarrow> unit outcome \<times> 'r tool_world" where
  "caCMD fs lib w =
     (case cl_GenerateKey lib (tw_rand w) of
        (Inl e, r) \<Rightarrow> (Err e, w\<lparr>tw_rand := r\<rparr>)
      | (Inr privKey, r) \<Rightarrow>
          let w = w\<lparr>tw_rand := r\<rparr> in
          (case cl_MarshalECPrivateKey lib privKey of
             Inl e \<Rightarrow> (Err e, w)
           | Inr priKeyEncode \<Rightarrow>
               (case create_pem fs lib id id ''./ca.priv'' ''EC PRIVATE KEY'' priKeyEncode w of
                  (Err e, w) \<Rightarrow> (Err e, w)
                | (Panic p, w) \<Rightarrow> (Panic p, w)
                | (Ok _, w) \<Rightarrow>
                    (case GenerateCert lib (tw_now w) privKey True ''Hyperchain'' (tw_rand w) of
                       (Inl e, r) \<Rightarrow> (Err e, w\<lparr>tw_rand := r\<rparr>)
                     | (Inr c, r) \<Rightarrow>
                         (case cl_CreateCertificate lib r c c (cl_public lib privKey) privKey of
                            (Inl e, r) \<Rightarrow> (Err e, w\<lparr>tw_rand := r\<rparr>)
                          | (Inr x509certEncode, r) \<Rightarrow>
                              create_pem fs lib id id ''./ca.cert'' ''CERTIFICATE'' x509certEncode
                                (w\<lparr>tw_rand := r\<rparr>))))))"

definition privCMD ::
    "file_env \<Rightarrow> ('k, 'p, 'r) cert_lib \<Rightarrow> string \<Rightarrow> string \<Rightarrow> 'r tool_world \<Rightarrow> unit outcome \<times> 'r tool_world" where
  "privCMD fs lib name target w =
     (case cl_GenerateKey lib (tw_rand w) of
        (Inl e, r) \<Rightarrow> (Err (ErrWrap ''generate key'' e), w\<lparr>tw_rand := r\<rparr>)
      | (Inr privKey, r) \<Rightarrow>
          let w = w\<lparr>tw_rand := r\<rparr> in
          (case cl_MarshalECPrivateKey lib privKey of
             Inl e \<Rightarrow> (Err (ErrWrap ''marshal key'' e), w)
           | Inr priKeyEncode \<Rightarrow>
               create_pem fs lib (ErrWrap ''create file'') (ErrWrap ''pem encode'')
                 (path_join target (name @ ''.priv'')) ''EC PRIVATE KEY'' priKeyEncode w))"

definition csr_subject :: "string \<Rightarrow> pkix_name" where
  "csr_subject org = \<lparr> pn_Country = ''CN'', pn_Locality = ''HangZhou'', pn_Province = ''ZheJiang'',
     pn_OrganizationalUnit = ''CrossHub'', pn_Organization = org, pn_StreetAddress = [''street'', ''address''],
     pn_PostalCode = ''324000'', pn_CommonName = ''CrossHub'' \<rparr>"

definition csrCMD ::
    "file_env \<Rightarrow> ('k, 'p, 'r) cert_lib \<Rightarrow> string \<Rightarrow> string \<Rightarrow> string \<Rightarrow> 'r tool_world \<Rightarrow> unit outcome \<times> 'r tool_world" where
  "csrCMD fs lib privPath org target w =
     (case load_pem lib id (ErrWrap ''parse private key'') (cl_ParseECPrivateKey lib) privPath w of
        Panic p \<Rightarrow> (Panic p, w)
      | Err e \<Rightarrow> (Err e, w)
      | Ok privKey \<Rightarrow>
          (case cl_CreateCertificateRequest lib (tw_rand w) (csr_subject org) privKey of
             (Inl e, r) \<Rightarrow> (Err e, w\<lparr>tw_rand := r\<rparr>)
           | (Inr data, r) \<Rightarrow>
               create_pem fs lib id id (path_join target (getFileName privPath @ ''.csr'')) ''CSR'' data
                 (w\<lparr>tw_rand := r\<rparr>)))"

definition issue_template :: "int \<Rightarrow> int \<Rightarrow> bool \<Rightarrow> 'p x509 \<Rightarrow> 'p x509_request \<Rightarrow> 'p x509" where
  "issue_template sn now isCA caCert crs =
     (let notBefore = now - 5 * minute in
      \<lparr> xc_SerialNumber = sn, xc_NotBefore = notBefore, xc_NotAfter = notBefore + fifty_years,
        xc_BasicConstraintsValid = True, xc_IsCA = isCA, xc_KeyUsage = all_usages,
        xc_Subject = xr_Subject crs, xc_Issuer = Some (xc_Subject caCert),
        xc_PublicKey = Some (xr_PublicKey crs), xc_SubjectKeyId = [], xc_Raw = [] \<rparr>)"

definition issueCMD ::
    "file_env \<Rightarrow> ('k, 'p, 'r) cert_lib \<Rightarrow> string \<Rightarrow> bool \<Rightarrow> string \<Rightarrow> string \<Rightarrow> string \<Rightarrow> 'r tool_world \<Rightarrow>
     unit outcome \<times> 'r tool_world" where
  "issueCMD fs lib crsPath isCA privPath certPath target w =
     (case
        (bind_outcome (load_pem lib (ErrWrap ''read ca private key'') (ErrWrap ''parse ca private key'')
             (cl_ParseECPrivateKey lib) privPath w) (\<lambda>privKey.
         bind_outcome (load_pem lib id (ErrWrap ''parse ca cert'') (cl_ParseCertificate lib) certPath w) (\<lambda>caCert.
         bind_outcome (load_pem lib (ErrWrap ''read crs'') (ErrWrap ''parse csr'')
             (cl_ParseCertificateRequest lib) crsPath w) (\<lambda>crs.
         case cl_CheckSignature lib crs of
           Some e \<Rightarrow> Err (ErrWrap ''wrong csr sign'' e)
         | None \<Rightarrow> Ok (privKey, caCert, crs)))))
      of
        Panic p \<Rightarrow> (Panic p, w)
      | Err e \<Rightarrow> (Err e, w)
      | Ok (privKey, caCert, crs) \<Rightarrow>
          (case cl_rand_Int lib (tw_rand w) 1000000 of
             (Inl e, r) \<Rightarrow> (Err e, w\<lparr>tw_rand := r\<rparr>)
           | (Inr sn, r) \<Rightarrow>
               (case cl_CreateCertificate lib r (issue_template sn (tw_now w) isCA caCert crs) caCert
                       (xr_PublicKey crs) privKey of
                  (Inl e, r) \<Rightarrow> (Err (ErrWrap ''create cert'' e), w\<lparr>tw_rand := r\<rparr>)
                | (Inr x509certEncode, r) \<Rightarrow>
                    create_pem fs lib id id (path_join target (getFileName crsPath @ ''.cert'')) ''CERTIFICATE''
                      x509certEncode (w\<lparr>tw_rand := r\<rparr>))))"

definition verifyCMD ::
    "('k, 'p, 'r) cert_lib \<Rightarrow> string \<Rightarrow> string \<Rightarrow> 'r tool_world \<Rightarrow> unit outcome" where
  "verifyCMD lib subPath caPath w =
     bind_outcome (load_pem lib id (ErrWrap ''parse sub cert'') (cl_ParseCertificate lib) subPath w) (\<lambda>subCert.
     bind_outcome (load_pem lib id (ErrWrap ''parse ca cert'') (cl_ParseCertificate lib) caPath w) (\<lambda>caCert.
     case cl_CheckSignatureFrom lib subCert caCert of Some e \<Rightarrow> Err e | None \<Rightarrow> Ok ()))"

text \<open>\<open>parse\<close> prints the certificate as JSON.\<close>

definition parseCMD ::
    "('k, 'p, 'r) cert_lib \<Rightarrow> ('p x509 \<Rightarrow> goerr + string) \<Rightarrow> string \<Rightarrow> 'r tool_world \<Rightarrow> string outcome" where
  "parseCMD lib json path w =
     bind_outcome (load_pem lib id (ErrWrap ''parse cert'') (cl_ParseCertificate lib) path w) (\<lambda>c.
     of_result id (json c))"

section \<open>What the tools rely on\<close>

text \<open>A certificate under which the holder of a private key can issue others.\<close>

definition can_issue :: "('k, 'p, 'r) cert_lib \<Rightarrow> 'p x509 \<Rightarrow> 'k \<Rightarrow> bool" where
  "can_issue lib c k \<longleftrightarrow>
     xc_PublicKey c = Some (cl_public lib k) \<and> xc_BasicConstraintsValid c \<and> xc_IsCA c
     \<and> CertSign \<in> set (xc_KeyUsage c)"

text \<open>Documented behaviour of the libraries: PEM and EC keys read back what was written; a created
  certificate parses to the fields of its template with its times cut to seconds, and its signature checks
  against every certificate of the signing key that may issue.\<close>

definition cert_law :: "('k, 'p, 'r) cert_lib \<Rightarrow> bool" where
  "cert_law lib \<longleftrightarrow>
     (\<forall>t \<in> {''EC PRIVATE KEY'', ''CSR'', ''CERTIFICATE''}. \<forall>b.
        cl_pem_decode lib (cl_pem_encode lib t b) = Some (t, b))
     \<and> (\<forall>k b. cl_MarshalECPrivateKey lib k = Inr b \<longrightarrow> cl_ParseECPrivateKey lib b = Inr k)
     \<and> (\<forall>r n k b r'. cl_CreateCertificateRequest lib r n k = (Inr b, r') \<longrightarrow>
          (\<exists>q. cl_ParseCertificateRequest lib b = Inr q \<and> xr_PublicKey q = cl_public lib k
             \<and> cl_CheckSignature lib q = None))
     \<and> (\<forall>r t p q k b r'. cl_CreateCertificate lib r t p q k = (Inr b, r') \<longrightarrow>
          (\<exists>c. cl_ParseCertificate lib b = Inr c \<and> xc_PublicKey c = Some q \<and> xc_IsCA c = xc_IsCA t
             \<and> xc_BasicConstraintsValid c = xc_BasicConstraintsValid t \<and> xc_KeyUsage c = xc_KeyUsage t
             \<and> xc_NotBefore c \<le> xc_NotBefore t \<and> xc_NotAfter t - 10 ^ 9 < xc_NotAfter c
             \<and> (\<forall>ca. can_issue lib ca k \<longrightarrow> cl_CheckSignatureFrom lib c ca = None)))"

text \<open>A file that holds something, as the loaders read it.\<close>

definition holds_pem ::
    "('k, 'p, 'r) cert_lib \<Rightarrow> (bytes \<Rightarrow> goerr + 'a) \<Rightarrow> string \<Rightarrow> 'a \<Rightarrow> 'r tool_world \<Rightarrow> bool" where
  "holds_pem lib parse path x w \<longleftrightarrow>
     (\<exists>d t b. tw_files w (path_clean path) = Some d \<and> cl_pem_decode lib d = Some (t, b) \<and> parse b = Inr x)"

lemma load_pem_holds: "holds_pem lib parse path x w \<Longrightarrow> load_pem lib wr wp parse path w = Ok x"
  by (auto simp: holds_pem_def load_pem_def read_file_def pem_bytes_def)

lemma load_pem_Ok_iff: "load_pem lib wr wp parse path w = Ok x \<longleftrightarrow> holds_pem lib parse path x w"
proof
  assume "load_pem lib wr wp parse path w = Ok x"
  then obtain d b where "read_file path w = Inr d" "pem_bytes lib d = Ok b" "parse b = Inr x"
    by (auto simp: load_pem_def bind_outcome_Ok_iff elim!: of_result.elims)
  then show "holds_pem lib parse path x w"
    by (auto simp: holds_pem_def read_file_def pem_bytes_def split: option.splits)
qed (rule load_pem_holds)

text \<open>The PEM loaders agree with those of cert.go.\<close>

lemma holds_ParseCert:
  "holds_pem lib (cl_ParseCertificate lib) path c w \<longleftrightarrow>
   (\<exists>d. tw_files w (path_clean path) = Some d \<and> ParseCert lib (Some d) = Inr c)"
  unfolding holds_pem_def ParseCert_def by (force split: option.splits)

lemma create_pem_Ok:
  assumes "create_pem fs lib f g path kind data w = (Ok (), w')"
  shows "tw_files w' = (tw_files w)(path_clean path \<mapsto> cl_pem_encode lib kind data) \<and> tw_now w' = tw_now w"
  using assms by (auto simp: create_pem_def Let_def split: option.splits)

lemma create_pem_holds:
  assumes "cert_law lib" "create_pem fs lib f g path kind data w = (Ok (), w')" "parse data = Inr x"
    and "kind \<in> {''EC PRIVATE KEY'', ''CSR'', ''CERTIFICATE''}"
  shows "holds_pem lib parse path x w'"
  using create_pem_Ok [OF assms(2)] assms(1,3,4) unfolding holds_pem_def cert_law_def by fastforce

lemma create_pem_keeps:
  assumes "create_pem fs lib f g path kind data w = (Ok (), w')" "holds_pem lib parse path' x w"
    and "path_clean path' \<noteq> path_clean path"
  shows "holds_pem lib parse path' x w'"
  using create_pem_Ok [OF assms(1)] assms(2,3) by (simp add: holds_pem_def)

lemma holds_rand [simp]: "holds_pem lib parse path x (w\<lparr>tw_rand := r\<rparr>) \<longleftrightarrow> holds_pem lib parse path x w"
  by (simp add: holds_pem_def)

text \<open>Rules that split a tool's run at its library calls.\<close>

lemma created:
  assumes "cert_law lib" "cl_CreateCertificate lib r t p q k = (Inr b, r')"
  obtains c where "cl_ParseCertificate lib b = Inr c" "xc_PublicKey c = Some q" "xc_IsCA c = xc_IsCA t"
    "xc_BasicConstraintsValid c = xc_BasicConstraintsValid t" "xc_KeyUsage c = xc_KeyUsage t"
    "xc_NotBefore c \<le> xc_NotBefore t" "xc_NotAfter t - 10 ^ 9 < xc_NotAfter c"
    "\<And>ca. can_issue lib ca k \<Longrightarrow> cl_CheckSignatureFrom lib c ca = None"
  using assms unfolding cert_law_def by blast

lemma issueCMD_cases:
  assumes "issueCMD fs lib crsPath isCA privPath certPath target w = (Ok (), w')"
  obtains k ca q sn r b r' where
    "holds_pem lib (cl_ParseECPrivateKey lib) privPath k w" "holds_pem lib (cl_ParseCertificate lib) certPath ca w"
    "holds_pem lib (cl_ParseCertificateRequest lib) crsPath q w" "cl_CheckSignature lib q = None"
    "cl_CreateCertificate lib r (issue_template sn (tw_now w) isCA ca q) ca (xr_PublicKey q) k = (Inr b, r')"
    "create_pem fs lib id id (path_join target (getFileName crsPath @ ''.cert'')) ''CERTIFICATE'' b (w\<lparr>tw_rand := r'\<rparr>)
       = (Ok (), w')"
  using assms unfolding issueCMD_def
  by (auto simp: bind_outcome_Ok_iff load_pem_Ok_iff
      split: outcome.splits prod.splits sum.splits option.splits)

lemma holds_unique:
  "holds_pem lib parse path x w \<Longrightarrow> holds_pem lib parse path y w \<Longrightarrow> x = y"
  by (auto simp: holds_pem_def)

lemma issued:
  assumes "cert_law lib" "issueCMD fs lib crsPath isCA privPath certPath target w = (Ok (), w')"
    and "holds_pem lib (cl_ParseECPrivateKey lib) privPath k w"
    and "holds_pem lib (cl_ParseCertificate lib) certPath ca w" "can_issue lib ca k"
    and "holds_pem lib (cl_ParseCertificateRequest lib) crsPath q w"
  shows "\<exists>c. holds_pem lib (cl_ParseCertificate lib) (path_join target (getFileName crsPath @ ''.cert'')) c w'
    \<and> cl_CheckSignatureFrom lib c ca = None
    \<and> xc_NotBefore c \<le> tw_now w - 5 * minute \<and> tw_now w - 5 * minute + fifty_years - 10 ^ 9 < xc_NotAfter c
    \<and> xc_PublicKey c = Some (xr_PublicKey q)
    \<and> xc_IsCA c = isCA \<and> xc_BasicConstraintsValid c \<and> xc_KeyUsage c = all_usages
    \<and> (\<forall>path. path_clean path \<noteq> path_clean (path_join target (getFileName crsPath @ ''.cert'')) \<longrightarrow>
        tw_files w' (path_clean path) = tw_files w (path_clean path))"
  using assms(2)
proof (cases rule: issueCMD_cases)
  case (1 k1 ca1 q1 sn r b r')
  then have eq: "k1 = k" "ca1 = ca" "q1 = q" using holds_unique assms(3,4,6) by metis+
  obtain c where c: "cl_ParseCertificate lib b = Inr c" "xc_PublicKey c = Some (xr_PublicKey q)" "xc_IsCA c = isCA"
      "xc_BasicConstraintsValid c" "xc_KeyUsage c = all_usages"
      "xc_NotBefore c \<le> tw_now w - 5 * minute" "tw_now w - 5 * minute + fifty_years - 10 ^ 9 < xc_NotAfter c"
      "cl_CheckSignatureFrom lib c ca = None"
    by (rule created [OF assms(1) 1(5)]) (use assms(5) eq in \<open>auto simp: issue_template_def Let_def\<close>)
  show ?thesis
    using create_pem_holds [where parse = "cl_ParseCertificate lib", OF assms(1) 1(6) c(1)] c
      create_pem_Ok [OF 1(6)] by auto
qed

text \<open>A certificate made by \<open>issue\<close> passes the check of cert.go against the certificate it was issued
  under, from the moment it is made and for fifty years less six minutes. It belongs to the key of the
  request and can itself issue exactly if it was made with \<open>is_ca\<close>.\<close>

theorem issueCMD_verifies:
  assumes "cert_law lib" "issueCMD fs lib crsPath isCA privPath certPath target w = (Ok (), w')"
    and "holds_pem lib (cl_ParseECPrivateKey lib) privPath k w"
    and "holds_pem lib (cl_ParseCertificate lib) certPath ca w" "can_issue lib ca k"
    and "holds_pem lib (cl_ParseCertificateRequest lib) crsPath q w" "xr_PublicKey q = cl_public lib k'"
    and "tw_now w \<le> now" "now \<le> tw_now w + fifty_years - 6 * minute"
  shows "\<exists>c. holds_pem lib (cl_ParseCertificate lib) (path_join target (getFileName crsPath @ ''.cert'')) c w'
    \<and> VerifySign lib now c ca = None \<and> (can_issue lib c k' \<longleftrightarrow> isCA)"
proof -
  obtain c where c: "holds_pem lib (cl_ParseCertificate lib) (path_join target (getFileName crsPath @ ''.cert'')) c w'"
      "cl_CheckSignatureFrom lib c ca = None"
      "xc_NotBefore c \<le> tw_now w - 5 * minute" "tw_now w - 5 * minute + fifty_years - 10 ^ 9 < xc_NotAfter c"
      "xc_PublicKey c = Some (xr_PublicKey q)" "xc_IsCA c = isCA" "xc_BasicConstraintsValid c"
      "xc_KeyUsage c = all_usages"
    using issued [OF assms(1-6)] by blast
  have "\<not> now < xc_NotBefore c" "\<not> xc_NotAfter c < now"
    using c(3,4) assms(8,9) by (simp_all add: minute_def)
  then have "VerifySign lib now c ca = None" using c(2) by (simp add: VerifySign_def)
  moreover have "can_issue lib c k' \<longleftrightarrow> isCA"
    using c assms(7) by (simp add: can_issue_def all_usages_def)
  ultimately show ?thesis using c(1) by blast
qed

section \<open>From nothing to a verified certificate\<close>

lemma caCMD_Ok:
  assumes "cert_law lib" "caCMD fs lib w = (Ok (), w')"
  shows "\<exists>k ca. holds_pem lib (cl_ParseECPrivateKey lib) ''./ca.priv'' k w'
    \<and> holds_pem lib (cl_ParseCertificate lib) ''./ca.cert'' ca w' \<and> can_issue lib ca k"
proof -
  obtain k r1 b w1 t r2 d r3 where
      k: "cl_MarshalECPrivateKey lib k = Inr b" and
      f: "create_pem fs lib id id ''./ca.priv'' ''EC PRIVATE KEY'' b (w\<lparr>tw_rand := r1\<rparr>) = (Ok (), w1)" and
      g: "GenerateCert lib (tw_now w1) k True ''Hyperchain'' (tw_rand w1) = (Inr t, r2)" and
      c: "cl_CreateCertificate lib r2 t t (cl_public lib k) k = (Inr d, r3)" and
      h: "create_pem fs lib id id ''./ca.cert'' ''CERTIFICATE'' d (w1\<lparr>tw_rand := r3\<rparr>) = (Ok (), w')"
    using assms(2) unfolding caCMD_def Let_def
    by (auto split: prod.splits sum.splits outcome.splits)
  have t: "xc_IsCA t" "xc_BasicConstraintsValid t" "xc_KeyUsage t = all_usages"
    using g by (auto simp: GenerateCert_def Let_def split: prod.splits sum.splits)
  obtain ca where ca: "cl_ParseCertificate lib d = Inr ca" "can_issue lib ca k"
    by (rule created [OF assms(1) c]) (use t in \<open>auto simp: can_issue_def all_usages_def\<close>)
  have "cl_ParseECPrivateKey lib b = Inr k" using assms(1) k by (simp add: cert_law_def)
  from create_pem_holds [where parse = "cl_ParseECPrivateKey lib", OF assms(1) f this]
  have "holds_pem lib (cl_ParseECPrivateKey lib) ''./ca.priv'' k (w1\<lparr>tw_rand := r3\<rparr>)" by simp
  from create_pem_keeps [OF h this]
  have "holds_pem lib (cl_ParseECPrivateKey lib) ''./ca.priv'' k w'" by (simp add: path_clean_def)
  then show ?thesis
    using create_pem_holds [where parse = "cl_ParseCertificate lib", OF assms(1) h ca(1)] ca(2) by blast
qed

lemma privCMD_Ok:
  assumes "cert_law lib" "privCMD fs lib name target w = (Ok (), w')"
  shows "(\<exists>k. holds_pem lib (cl_ParseECPrivateKey lib) (path_join target (name @ ''.priv'')) k w')
    \<and> (\<forall>path. path_clean path \<noteq> path_clean (path_join target (name @ ''.priv'')) \<longrightarrow>
        tw_files w' (path_clean path) = tw_files w (path_clean path))"
proof -
  obtain k r b where k: "cl_MarshalECPrivateKey lib k = Inr b" and
      f: "create_pem fs lib (ErrWrap ''create file'') (ErrWrap ''pem encode'') (path_join target (name @ ''.priv''))
        ''EC PRIVATE KEY'' b (w\<lparr>tw_rand := r\<rparr>) = (Ok (), w')"
    using assms(2) unfolding privCMD_def Let_def by (auto split: prod.splits sum.splits)
  have "cl_ParseECPrivateKey lib b = Inr k" using assms(1) k by (simp add: cert_law_def)
  from create_pem_holds [where parse = "cl_ParseECPrivateKey lib", OF assms(1) f this]
  show ?thesis using create_pem_Ok [OF f] by auto
qed

lemma csrCMD_Ok:
  assumes "cert_law lib" "csrCMD fs lib privPath org target w = (Ok (), w')"
    and "holds_pem lib (cl_ParseECPrivateKey lib) privPath k w"
  shows "(\<exists>q. holds_pem lib (cl_ParseCertificateRequest lib) (path_join target (getFileName privPath @ ''.csr'')) q w'
      \<and> xr_PublicKey q = cl_public lib k)
    \<and> (\<forall>path. path_clean path \<noteq> path_clean (path_join target (getFileName privPath @ ''.csr'')) \<longrightarrow>
        tw_files w' (path_clean path) = tw_files w (path_clean path))"
proof -
  obtain d r' where c: "cl_CreateCertificateRequest lib (tw_rand w) (csr_subject org) k = (Inr d, r')" and
      f: "create_pem fs lib id id (path_join target (getFileName privPath @ ''.csr'')) ''CSR'' d
        (w\<lparr>tw_rand := r'\<rparr>) = (Ok (), w')"
    using assms(2) unfolding csrCMD_def load_pem_holds [OF assms(3)]
    by (auto split: prod.splits sum.splits)
  obtain q where q: "cl_ParseCertificateRequest lib d = Inr q" "xr_PublicKey q = cl_public lib k"
    using assms(1) c unfolding cert_law_def by blast
  from create_pem_holds [where parse = "cl_ParseCertificateRequest lib", OF assms(1) f q(1)]
  show ?thesis using create_pem_Ok [OF f] q(2) by auto
qed

lemma create_pem_now: "create_pem fs lib f g path kind data w = (Ok (), w') \<Longrightarrow> tw_now w' = tw_now w"
  using create_pem_Ok by blast

text \<open>A name of one element with one dot.\<close>

lemma names:
  assumes "CHR ''/'' \<notin> set n" "CHR ''.'' \<notin> set n" "CHR ''/'' \<notin> set e" "CHR ''.'' \<notin> set e" "e \<noteq> []"
  shows "path_clean (n @ ''.'' @ e) = n @ ''.'' @ e" "path_join [] (n @ ''.'' @ e) = n @ ''.'' @ e"
    "getFileName (n @ ''.'' @ e) = n"
proof -
  have w: "n @ ''.'' @ e \<notin> {[], ''.'', ''..''}" "CHR ''/'' \<notin> set (n @ ''.'' @ e)"
    using assms by (auto simp: append_eq_Cons_conv)
  show c: "path_clean (n @ ''.'' @ e) = n @ ''.'' @ e" by (rule path_clean_simple [OF w(2,1)])
  then show "path_join [] (n @ ''.'' @ e) = n @ ''.'' @ e" by (simp add: path_join_def)
  have "split_on (CHR ''.'') (n @ CHR ''.'' # e) = [n, e]"
    using assms(2,4) by (simp add: split_on_append split_on_word)
  then show "getFileName (n @ ''.'' @ e) = n"
    using path_base_simple [OF w(2)] by (simp add: getFileName_def Let_def)
qed

lemma verifyCMD_iff:
  assumes "holds_pem lib (cl_ParseCertificate lib) subPath c w" "holds_pem lib (cl_ParseCertificate lib) caPath ca w"
  shows "verifyCMD lib subPath caPath w = (case cl_CheckSignatureFrom lib c ca of Some e \<Rightarrow> Err e | None \<Rightarrow> Ok ())"
  using load_pem_holds [OF assms(1)] load_pem_holds [OF assms(2)] by (simp add: verifyCMD_def)

text \<open>The tools panic on a file that is not PEM, where cert.go returns an error.\<close>

lemma bad_pem_panics:
  assumes "tw_files w (path_clean path) = Some d" "cl_pem_decode lib d = None"
  shows "verifyCMD lib path caPath w = Panic ''nil pointer dereference''
    \<and> csrCMD fs lib path org target w = (Panic ''nil pointer dereference'', w)
    \<and> ParseCert lib (Some d) = Inl (ErrNew ''empty block'')"
  using assms by (simp add: verifyCMD_def csrCMD_def ParseCert_def load_pem_def read_file_def pem_bytes_def)

text \<open>C32: the tools work together. After \<open>ca\<close>, \<open>priv\<close>, \<open>csr\<close> and \<open>issue\<close> in one directory, \<open>verify\<close>
  accepts the new certificate under the new authority, for every plain name that is not the
  authority's own.\<close>

theorem tools_chain:
  assumes "cert_law lib" "n \<noteq> ''ca''" "CHR ''/'' \<notin> set n" "CHR ''.'' \<notin> set n"
    and "caCMD fs lib w = (Ok (), w1)" "privCMD fs lib n [] w1 = (Ok (), w2)"
    and "csrCMD fs lib (n @ ''.priv'') org [] w2 = (Ok (), w3)"
    and "issueCMD fs lib (n @ ''.csr'') isCA ''./ca.priv'' ''./ca.cert'' [] w3 = (Ok (), w4)"
  shows "verifyCMD lib (n @ ''.cert'') ''./ca.cert'' w4 = Ok ()"
proof -
  let ?K = "cl_ParseECPrivateKey lib" and ?C = "cl_ParseCertificate lib" and ?R = "cl_ParseCertificateRequest lib"
  have priv: "path_clean (n @ ''.priv'') = n @ ''.priv''" "path_join [] (n @ ''.priv'') = n @ ''.priv''"
      "getFileName (n @ ''.priv'') = n"
    using names [OF assms(3,4), of "''priv''"] by simp_all
  have csr: "path_clean (n @ ''.csr'') = n @ ''.csr''" "path_join [] (n @ ''.csr'') = n @ ''.csr''"
      "getFileName (n @ ''.csr'') = n"
    using names [OF assms(3,4), of "''csr''"] by simp_all
  have crt: "path_clean (n @ ''.cert'') = n @ ''.cert''" "path_join [] (n @ ''.cert'') = n @ ''.cert''"
    using names [OF assms(3,4), of "''cert''"] by simp_all
  have ca: "path_clean ''./ca.priv'' = ''ca.priv''" "path_clean ''./ca.cert'' = ''ca.cert''"
    by (simp_all add: path_clean_def)
  have ne: "n @ ''.priv'' \<noteq> ''ca.priv''" "n @ ''.cert'' \<noteq> ''ca.cert''"
      "n @ ''.priv'' \<noteq> ''ca.cert''" "n @ ''.csr'' \<noteq> ''ca.priv''" "n @ ''.csr'' \<noteq> ''ca.cert''"
    using assms(2,4) by (auto simp: append_eq_Cons_conv)
  obtain k c where 1: "holds_pem lib ?K ''./ca.priv'' k w1" "holds_pem lib ?C ''./ca.cert'' c w1" "can_issue lib c k"
    using caCMD_Ok [OF assms(1,5)] by blast
  have keep2: "path_clean path \<noteq> n @ ''.priv'' \<Longrightarrow> tw_files w2 (path_clean path) = tw_files w1 (path_clean path)"
    for path using privCMD_Ok [OF assms(1,6)] priv by simp
  obtain k' where 2: "holds_pem lib ?K (n @ ''.priv'') k' w2" using privCMD_Ok [OF assms(1,6)] priv by auto
  note csr3 = csrCMD_Ok [OF assms(1,7) 2]
  obtain q where 3: "holds_pem lib ?R (n @ ''.csr'') q w3" "xr_PublicKey q = cl_public lib k'"
    using csr3 priv csr by auto
  have keep3: "path_clean path \<noteq> n @ ''.csr'' \<Longrightarrow> tw_files w3 (path_clean path) = tw_files w2 (path_clean path)"
    for path using csr3 priv csr by simp
  have 4: "holds_pem lib ?K ''./ca.priv'' k w3" "holds_pem lib ?C ''./ca.cert'' c w3"
    using 1(1,2) keep2 [of "''./ca.priv''"] keep2 [of "''./ca.cert''"] keep3 [of "''./ca.priv''"]
      keep3 [of "''./ca.cert''"] ca ne by (simp_all add: holds_pem_def)
  obtain d where d: "holds_pem lib ?C (n @ ''.cert'') d w4" "cl_CheckSignatureFrom lib d c = None"
      "\<forall>path. path_clean path \<noteq> n @ ''.cert'' \<longrightarrow> tw_files w4 (path_clean path) = tw_files w3 (path_clean path)"
    using issued [OF assms(1,8) 4 1(3) 3(1)] unfolding csr(3) crt by blast
  have 5: "holds_pem lib ?C (n @ ''.cert'') d w4" "cl_CheckSignatureFrom lib d c = None"
      "tw_files w4 ''ca.cert'' = tw_files w3 ''ca.cert''"
    using d spec [OF d(3), of "''./ca.cert''"] ca ne by auto
  have "holds_pem lib ?C ''./ca.cert'' c w4" using 4(2) 5(3) ca by (simp add: holds_pem_def)
  then show ?thesis using verifyCMD_iff [OF 5(1)] 5(2) by simp
qed

section \<open>A concrete run\<close>

text \<open>A library whose keys are bytes; a certificate is written as its flag, its key and its signer.\<close>

definition demo_x509 :: "bytes \<Rightarrow> byte x509" where
  "demo_x509 d = \<lparr> xc_SerialNumber = 7, xc_NotBefore = - 5 * minute, xc_NotAfter = - 5 * minute + fifty_years,
     xc_BasicConstraintsValid = True, xc_IsCA = (d ! 0 = 1), xc_KeyUsage = all_usages, xc_Subject = csr_subject [],
     xc_Issuer = None, xc_PublicKey = Some (d ! 1), xc_SubjectKeyId = [], xc_Raw = d \<rparr>"

definition demo_cert_lib :: "(byte, byte, byte) cert_lib" where
  "demo_cert_lib =
     \<lparr> cl_pem_decode = (\<lambda>d. case d of [] \<Rightarrow> None
         | t # b \<Rightarrow> Some (if t = 0 then ''EC PRIVATE KEY'' else if t = 1 then ''CSR'' else ''CERTIFICATE'', b)),
       cl_pem_encode = (\<lambda>t b. (if t = ''EC PRIVATE KEY'' then 0 else if t = ''CSR'' then 1 else 2) # b),
       cl_GenerateKey = (\<lambda>r. (Inr r, r + 1)),
       cl_MarshalECPrivateKey = (\<lambda>k. Inr [k]),
       cl_ParseECPrivateKey = (\<lambda>b. case b of [k] \<Rightarrow> Inr k | _ \<Rightarrow> Inl (ErrNew ''asn1'')),
       cl_public = (\<lambda>k. k), cl_elliptic_Marshal = (\<lambda>p. [p]), cl_sha256 = (\<lambda>b. b),
       cl_rand_Int = (\<lambda>r n. (Inr 7, r)),
       cl_ParseCertificate = (\<lambda>d. if length d = 3 then Inr (demo_x509 d) else Inl (ErrNew ''asn1'')),
       cl_CreateCertificate = (\<lambda>r t p q k.
         (if xc_BasicConstraintsValid t \<and> xc_KeyUsage t = all_usages \<and> xc_NotBefore t = - 5 * minute
             \<and> xc_NotAfter t = - 5 * minute + fifty_years
          then Inr [if xc_IsCA t then 1 else 0, q, k] else Inl (ErrNew ''template''), r)),
       cl_CheckSignatureFrom = (\<lambda>c p. if xc_PublicKey p = Some (xc_Raw c ! 2) then None else Some (ErrNew ''sign'')),
       cl_CreateCertificateRequest = (\<lambda>r n k. (Inr [k], r)),
       cl_ParseCertificateRequest = (\<lambda>b. case b of
         [k] \<Rightarrow> Inr \<lparr> xr_Subject = csr_subject [], xr_PublicKey = k, xr_Raw = b \<rparr> | _ \<Rightarrow> Inl (ErrNew ''asn1'')),
       cl_CheckSignature = (\<lambda>q. None) \<rparr>"

definition demo_files :: file_env where
  "demo_files = \<lparr> fe_create = (\<lambda>p. None), fe_write = (\<lambda>p. None) \<rparr>"

definition demo_tools :: "byte tool_world" where
  "demo_tools = \<lparr> tw_files = Map.empty, tw_rand = 40, tw_now = 0 \<rparr>"

lemma demo_cert_law: "cert_law demo_cert_lib"
  by (auto simp: cert_law_def demo_cert_lib_def demo_x509_def can_issue_def split: if_splits)

definition demo_ca :: "byte tool_world" where
  "demo_ca = snd (caCMD demo_files demo_cert_lib demo_tools)"

definition demo_priv :: "byte tool_world" where
  "demo_priv = snd (privCMD demo_files demo_cert_lib ''node'' [] demo_ca)"

definition demo_csr :: "byte tool_world" where
  "demo_csr = snd (csrCMD demo_files demo_cert_lib ''node.priv'' ''org'' [] demo_priv)"

definition demo_issued :: "byte tool_world" where
  "demo_issued = snd (issueCMD demo_files demo_cert_lib ''node.csr'' False ''./ca.priv'' ''./ca.cert'' [] demo_csr)"

lemmas demo_paths = path_clean_def path_join_def path_base_def getFileName_def

lemma demo_ca_world:
  "caCMD demo_files demo_cert_lib demo_tools =
     (Ok (), \<lparr> tw_files = [''ca.priv'' \<mapsto> [0, 40], ''ca.cert'' \<mapsto> [2, 1, 40, 40]], tw_rand = 41, tw_now = 0 \<rparr>)"
  by (simp add: caCMD_def demo_cert_lib_def demo_files_def demo_tools_def create_pem_def GenerateCert_def
      path_clean_def Let_def)

lemmas demo_ca_eq = demo_ca_world [THEN arg_cong, of snd, unfolded snd_conv, folded demo_ca_def]

lemma demo_priv_world:
  "privCMD demo_files demo_cert_lib ''node'' [] demo_ca =
     (Ok (), \<lparr> tw_files = [''ca.priv'' \<mapsto> [0, 40], ''ca.cert'' \<mapsto> [2, 1, 40, 40], ''node.priv'' \<mapsto> [0, 41]],
       tw_rand = 42, tw_now = 0 \<rparr>)"
  by (simp add: privCMD_def demo_ca_eq demo_cert_lib_def demo_files_def create_pem_def
      demo_paths Let_def)

lemmas demo_priv_eq = demo_priv_world [THEN arg_cong, of snd, unfolded snd_conv, folded demo_priv_def]

lemma demo_csr_world:
  "csrCMD demo_files demo_cert_lib ''node.priv'' ''org'' [] demo_priv =
     (Ok (), \<lparr> tw_files = [''ca.priv'' \<mapsto> [0, 40], ''ca.cert'' \<mapsto> [2, 1, 40, 40], ''node.priv'' \<mapsto> [0, 41],
       ''node.csr'' \<mapsto> [1, 41]], tw_rand = 42, tw_now = 0 \<rparr>)"
  by (simp add: csrCMD_def demo_priv_eq demo_cert_lib_def demo_files_def create_pem_def
      load_pem_def read_file_def pem_bytes_def demo_paths Let_def)

lemmas demo_csr_eq = demo_csr_world [THEN arg_cong, of snd, unfolded snd_conv, folded demo_csr_def]

lemma demo_issued_world:
  "issueCMD demo_files demo_cert_lib ''node.csr'' False ''./ca.priv'' ''./ca.cert'' [] demo_csr =
     (Ok (), \<lparr> tw_files = [''ca.priv'' \<mapsto> [0, 40], ''ca.cert'' \<mapsto> [2, 1, 40, 40], ''node.priv'' \<mapsto> [0, 41],
       ''node.csr'' \<mapsto> [1, 41], ''node.cert'' \<mapsto> [2, 0, 41, 40]], tw_rand = 42, tw_now = 0 \<rparr>)"
  by (simp add: issueCMD_def issue_template_def demo_csr_eq demo_cert_lib_def demo_files_def
      create_pem_def load_pem_def read_file_def pem_bytes_def demo_paths Let_def)

lemmas demo_issued_eq = demo_issued_world [THEN arg_cong, of snd, unfolded snd_conv, folded demo_issued_def]

lemma tools_chain_witness: "verifyCMD demo_cert_lib ''node.cert'' ''./ca.cert'' demo_issued = Ok ()"
proof -
  have "caCMD demo_files demo_cert_lib demo_tools = (Ok (), demo_ca)"
      "privCMD demo_files demo_cert_lib ''node'' [] demo_ca = (Ok (), demo_priv)"
      "csrCMD demo_files demo_cert_lib (''node'' @ ''.priv'') ''org'' [] demo_priv = (Ok (), demo_csr)"
      "issueCMD demo_files demo_cert_lib (''node'' @ ''.csr'') False ''./ca.priv'' ''./ca.cert'' [] demo_csr
         = (Ok (), demo_issued)"
    unfolding demo_ca_eq demo_priv_eq demo_csr_eq demo_issued_eq
    using demo_ca_world demo_priv_world demo_csr_world demo_issued_world
    by (simp_all add: demo_ca_eq demo_priv_eq demo_csr_eq)
  from tools_chain [OF demo_cert_law _ _ _ this] show ?thesis by simp
qed

lemma issueCMD_verifies_witness:
  "\<exists>c. VerifySign demo_cert_lib 5 c (demo_x509 [1, 40, 40]) = None \<and> \<not> can_issue demo_cert_lib c 41"
proof -
  have i: "issueCMD demo_files demo_cert_lib ''node.csr'' False ''./ca.priv'' ''./ca.cert'' [] demo_csr = (Ok (), demo_issued)"
    using demo_issued_world by (simp add: demo_issued_eq)
  have h: "holds_pem demo_cert_lib (cl_ParseECPrivateKey demo_cert_lib) ''./ca.priv'' 40 demo_csr"
      "holds_pem demo_cert_lib (cl_ParseCertificate demo_cert_lib) ''./ca.cert'' (demo_x509 [1, 40, 40]) demo_csr"
      "can_issue demo_cert_lib (demo_x509 [1, 40, 40]) 40"
      "holds_pem demo_cert_lib (cl_ParseCertificateRequest demo_cert_lib) ''node.csr''
         \<lparr> xr_Subject = csr_subject [], xr_PublicKey = 41, xr_Raw = [41] \<rparr> demo_csr"
      "xr_PublicKey (\<lparr> xr_Subject = csr_subject [], xr_PublicKey = 41, xr_Raw = [41] \<rparr>) = cl_public demo_cert_lib 41"
    by (simp_all add: holds_pem_def can_issue_def demo_csr_eq demo_cert_lib_def demo_x509_def
        path_clean_def all_usages_def)
  have t: "tw_now demo_csr \<le> 5" "5 \<le> tw_now demo_csr + fifty_years - 6 * minute"
    by (simp_all add: demo_csr_eq fifty_years_def minute_def)
  from issueCMD_verifies [OF demo_cert_law i h t] show ?thesis by auto
qed

end
