(* ===== verification/Swarm.thy ===== *)
theory Swarm
  imports Hubnet Certs Chainview
begin

text \<open>
  The hubs' network (swarm/swarm.go, handle.go, protocol.go): connecting to the configured peers,
  exchanging and checking certificates, sending the chain view's transactions and receipts to the connected
  peers, and handing theirs to the chain view. It stands on hubnet (Hubnet.thy), the certificate
  checks (Certs.thy) and the messages of the chain view (Chainview.thy). A peer's address is its peer id;
  \<open>sync.Map\<close> is the list of its keys; \<open>rlp\<close> of the payloads is a parameter, and decoding gives the value left
  in the variable together with the error.
\<close>

section \<open>State\<close>

record certs_message =
  crt_Id :: string
  crt_AgencyCert :: "bytes option"
  crt_NodeCert :: "bytes option"

definition GetCertMsg :: u8 where "GetCertMsg = 1"
definition CertMsg :: u8 where "CertMsg = 2"
definition CtxSignMsg :: u8 where "CtxSignMsg = 3"
definition RtxSignMsg :: u8 where "RtxSignMsg = 4"

record ('k, 'p, 'r, 's, 'w) swarm_env =
  se_cert :: "('k, 'p, 'r) cert_lib"
  se_rlp :: rlp_codec
  se_host :: "('s, 'w) p2p_host"
  se_now :: "'w \<Rightarrow> int"
  se_id_String :: "peer_id \<Rightarrow> string"
  se_encode_certs :: "certs_message \<Rightarrow> goerr + bytes"
  se_decode_certs :: "bytes \<Rightarrow> certs_message \<times> goerr option"
  se_encode_ctx :: "cross_tx option \<Rightarrow> goerr + bytes"
  se_decode_ctx :: "bytes \<Rightarrow> cross_tx \<times> goerr option"
  se_encode_rtx :: "recept_tx \<Rightarrow> goerr + bytes"
  se_decode_rtx :: "bytes \<Rightarrow> recept_tx \<times> goerr option"

text \<open>The parts of the repository the swarm uses, its peers by id, the connected ones, and what went out on
  \<open>messageCh\<close>.\<close>

record ('p, 's) swarm =
  sw_ID :: u64
  sw_PeerId :: string
  sw_AgencyCertData :: "bytes option"
  sw_NodeCertData :: "bytes option"
  sw_CACert :: "'p x509"
  sw_peers :: "(u64 \<times> peer_id) list"
  sw_connected :: "peer_id list"
  sw_messages :: "view_msg list"
  sw_streams :: "'s streams"
  sw_cancelled :: bool

definition swarm_protocolID :: string where
  "swarm_protocolID = ''/SimpleChain/CrossHub/1.0.0''"

text \<open>\<open>New\<close>: \<open>new_p2p\<close> is \<open>hubnet.New\<close> on the checked configuration.\<close>

definition NewSwarm ::
    "(p2p_config \<Rightarrow> goerr option) \<Rightarrow> string \<Rightarrow> string \<Rightarrow> ('p, 's) swarm \<Rightarrow> goerr + ('p, 's) swarm" where
  "NewSwarm new_p2p laddr key repo =
     (case generateConfig [WithLocalAddr laddr, WithPrivateKey key, WithProtocolID swarm_protocolID] of
        Inl e \<Rightarrow> Inl (ErrWrap ''create p2p'' e)
      | Inr conf \<Rightarrow>
          (case new_p2p conf of
             Some e \<Rightarrow> Inl (ErrWrap ''create p2p'' e)
           | None \<Rightarrow>
               Inr (repo\<lparr>sw_connected := [], sw_messages := [], sw_streams := Map.empty, sw_cancelled := False\<rparr>)))"

definition connected_Store :: "peer_id \<Rightarrow> peer_id list \<Rightarrow> peer_id list" where
  "connected_Store pid ids = (if pid \<in> set ids then ids else ids @ [pid])"

section \<open>Sending\<close>

definition checkID :: "('p, 's) swarm \<Rightarrow> u64 \<Rightarrow> goerr option" where
  "checkID sw i =
     (case map_of (sw_peers sw) i of
        None \<Rightarrow> Some (ErrNew (''wrong id: '' @ show_nat (unat i)))
      | Some _ \<Rightarrow> None)"

definition peer_of_id :: "('p, 's) swarm \<Rightarrow> u64 \<Rightarrow> peer_id" where
  "peer_of_id sw i = the (map_of (sw_peers sw) i)"

definition swarm_AsyncSend ::
    "('k, 'p, 'r, 's, 'w) swarm_env \<Rightarrow> u64 \<Rightarrow> msg \<Rightarrow> ('p, 's) swarm \<times> 'w \<Rightarrow> goerr option \<times> ('p, 's) swarm \<times> 'w" where
  "swarm_AsyncSend env i m st =
     (case st of (sw, w) \<Rightarrow>
        (case checkID sw i of
           Some e \<Rightarrow> (Some (ErrWrap ''p2p send'' e), sw, w)
         | None \<Rightarrow>
             (case AsyncSend (se_rlp env) (se_host env) (peer_of_id sw i) m (sw_streams sw, w) of
                (e, streams, w) \<Rightarrow> (e, sw\<lparr>sw_streams := streams\<rparr>, w))))"

definition swarm_SendWithStream ::
    "('k, 'p, 'r, 's, 'w) swarm_env \<Rightarrow> 's \<Rightarrow> msg \<Rightarrow> 'w \<Rightarrow> goerr option \<times> 'w" where
  "swarm_SendWithStream env s m w = SendWithStream (se_rlp env) (se_host env) s m w"

definition swarm_Send ::
    "('k, 'p, 'r, 's, 'w) swarm_env \<Rightarrow> u64 \<Rightarrow> msg \<Rightarrow> ('p, 's) swarm \<times> 'w \<Rightarrow> (goerr + msg) \<times> ('p, 's) swarm \<times> 'w" where
  "swarm_Send env i m st =
     (case st of (sw, w) \<Rightarrow>
        (case checkID sw i of
           Some e \<Rightarrow> (Inl (ErrWrap ''check id'' e), sw, w)
         | None \<Rightarrow>
             (case Send (se_rlp env) (se_host env) (peer_of_id sw i) m (sw_streams sw, w) of
                (Inl e, streams, w) \<Rightarrow> (Inl (ErrWrap ''sync send'' e), sw\<lparr>sw_streams := streams\<rparr>, w)
              | (Inr r, streams, w) \<Rightarrow> (Inr r, sw\<lparr>sw_streams := streams\<rparr>, w))))"

definition swarm_Broadcast ::
    "('k, 'p, 'r, 's, 'w) swarm_env \<Rightarrow> msg \<Rightarrow> ('p, 's) swarm \<times> 'w \<Rightarrow> ('p, 's) swarm \<times> 'w" where
  "swarm_Broadcast env m st =
     (case st of (sw, w) \<Rightarrow>
        (case p2p_Broadcast (se_rlp env) (se_host env) (sw_connected sw) m (sw_streams sw, w) of
           (streams, w) \<Rightarrow> (sw\<lparr>sw_streams := streams\<rparr>, w)))"

text \<open>\<open>Broadcast(nil)\<close>: the first peer whose stream opens and takes a deadline makes \<open>WriteMsg\<close> read
  through the nil pointer.\<close>

fun broadcast_nil ::
    "('s, 'w) p2p_host \<Rightarrow> peer_id list \<Rightarrow> 's streams \<times> 'w \<Rightarrow> ('s streams \<times> 'w) outcome" where
  "broadcast_nil h [] st = Ok st"
| "broadcast_nil h (pid # ids) st =
     (case streamMgr_get h pid st of
        (Inl e, st) \<Rightarrow> broadcast_nil h ids st
      | (Inr s, streams, w) \<Rightarrow>
          (case SetWriteDeadline h s w of
             (Some e, w) \<Rightarrow> broadcast_nil h ids (streamMgr_remove pid (streams, w))
           | (None, w) \<Rightarrow> Panic ''nil pointer dereference''))"

definition broadcast_new ::
    "('k, 'p, 'r, 's, 'w) swarm_env \<Rightarrow> goerr + msg \<Rightarrow> ('p, 's) swarm \<times> 'w \<Rightarrow> (('p, 's) swarm \<times> 'w) outcome" where
  "broadcast_new env mm st =
     (case mm of
        Inr m \<Rightarrow> Ok (swarm_Broadcast env m st)
      | Inl e \<Rightarrow>
          (case st of (sw, w) \<Rightarrow>
             bind_outcome (broadcast_nil (se_host env) (sw_connected sw) (sw_streams sw, w)) (\<lambda>(streams, w).
             Ok (sw\<lparr>sw_streams := streams\<rparr>, w))))"

text \<open>The loop of \<open>Start\<close> over \<open>eventCh\<close>, for one event; an encoding error is only logged.\<close>

definition swarm_event ::
    "('k, 'p, 'r, 's, 'w) swarm_env \<Rightarrow> view_msg \<Rightarrow> ('p, 's) swarm \<times> 'w \<Rightarrow> (('p, 's) swarm \<times> 'w) outcome" where
  "swarm_event env ev st =
     (case ev of
        ViewCtx ctm \<Rightarrow> broadcast_new env (NewMsg (se_encode_ctx env) CtxSignMsg ctm) st
      | ViewRtx rtm \<Rightarrow> broadcast_new env (NewMsg (se_encode_rtx env) RtxSignMsg rtm) st)"

definition Peers :: "('p, 's) swarm \<Rightarrow> u64 \<rightharpoonup> peer_id" where
  "Peers sw = map_of (sw_peers sw)"

definition OtherPeers :: "('p, 's) swarm \<Rightarrow> u64 \<rightharpoonup> peer_id" where
  "OtherPeers sw = (Peers sw)(sw_ID sw := None)"

section \<open>Certificates of peers\<close>

definition verifyCerts ::
    "('k, 'p, 'r) cert_lib \<Rightarrow> int \<Rightarrow> 'p x509 \<Rightarrow> 'p x509 \<Rightarrow> 'p x509 \<Rightarrow> goerr option" where
  "verifyCerts lib now nodeCert agencyCert caCert =
     (case VerifySign lib now agencyCert caCert of
        Some e \<Rightarrow> Some (ErrWrap ''verify agency cert'' e)
      | None \<Rightarrow>
          (case VerifySign lib now nodeCert agencyCert of
             Some e \<Rightarrow> Some (ErrWrap ''verify node cert'' e)
           | None \<Rightarrow> None))"

text \<open>Parsing and checking the two certificates of a message, the same text in \<open>handleMessage\<close> and
  \<open>verifyCert\<close>.\<close>

definition check_certs ::
    "('k, 'p, 'r, 's, 'w) swarm_env \<Rightarrow> 'p x509 \<Rightarrow> int \<Rightarrow> certs_message \<Rightarrow> goerr option" where
  "check_certs env ca now certs =
     (case ParseCert (se_cert env) (crt_NodeCert certs) of
        Inl e \<Rightarrow> Some (ErrWrap ''parse node cert'' e)
      | Inr nodeCert \<Rightarrow>
          (case ParseCert (se_cert env) (crt_AgencyCert certs) of
             Inl e \<Rightarrow> Some (ErrWrap ''parse agency cert'' e)
           | Inr agencyCert \<Rightarrow>
               (case verifyCerts (se_cert env) now nodeCert agencyCert ca of
                  Some e \<Rightarrow> Some (ErrWrap ''verify certs'' e)
                | None \<Rightarrow> None)))"

definition self_certs :: "('p, 's) swarm \<Rightarrow> certs_message" where
  "self_certs sw =
     \<lparr> crt_Id = sw_PeerId sw, crt_AgencyCert = sw_AgencyCertData sw, crt_NodeCert = sw_NodeCertData sw \<rparr>"

definition verifyCert ::
    "('k, 'p, 'r, 's, 'w) swarm_env \<Rightarrow> u64 \<Rightarrow> ('p, 's) swarm \<times> 'w \<Rightarrow> goerr option \<times> ('p, 's) swarm \<times> 'w" where
  "verifyCert env i st =
     (case st of (sw, w) \<Rightarrow>
        (case checkID sw i of
           Some e \<Rightarrow> (Some (ErrWrap ''check id'' e), sw, w)
         | None \<Rightarrow>
             (case NewMsg (se_encode_certs env) GetCertMsg (self_certs sw) of
                Inl e \<Rightarrow> (Some e, sw, w)
              | Inr m \<Rightarrow>
                  (case swarm_Send env i m (sw, w) of
                     (Inl e, sw, w) \<Rightarrow> (Some (ErrWrap ''sync send'' e), sw, w)
                   | (Inr ret, sw, w) \<Rightarrow>
                       let certs = fst (se_decode_certs env (m_Bytes ret)) in
                       (case check_certs env (sw_CACert sw) (se_now env w) certs of
                          Some e \<Rightarrow> (Some e, sw, w)
                        | None \<Rightarrow>
                            (case Disconnect (se_host env) (peer_of_id sw i) (sw_streams sw, w) of
                               (Some e, streams, w) \<Rightarrow>
                                 (Some (ErrWrap ''disconnect peer'' e), sw\<lparr>sw_streams := streams\<rparr>, w)
                             | (None, streams, w) \<Rightarrow> (None, sw\<lparr>sw_streams := streams\<rparr>, w)))))))"

text \<open>One attempt of the goroutine that \<open>Start\<close> makes for each peer that is not connected; \<open>retry.Retry\<close> repeats it
  every second until it succeeds, here at most \<open>n\<close> times.\<close>

definition connect_attempt ::
    "('k, 'p, 'r, 's, 'w) swarm_env \<Rightarrow> u64 \<times> peer_id \<Rightarrow> ('p, 's) swarm \<times> 'w \<Rightarrow>
     goerr option \<times> ('p, 's) swarm \<times> 'w" where
  "connect_attempt env ia st =
     (case ia of (i, addr) \<Rightarrow> (case st of (sw, w) \<Rightarrow>
        (case p2p_Connect (se_host env) None addr w of
           (Some e, w) \<Rightarrow> (Some e, sw, w)
         | (None, w) \<Rightarrow>
             (case verifyCert env i (sw, w) of
                (Some e, sw, w) \<Rightarrow> (Some e, sw, w)
              | (None, sw, w) \<Rightarrow> (None, sw\<lparr>sw_connected := connected_Store addr (sw_connected sw)\<rparr>, w)))))"

fun connect_retry ::
    "('k, 'p, 'r, 's, 'w) swarm_env \<Rightarrow> u64 \<times> peer_id \<Rightarrow> nat \<Rightarrow> ('p, 's) swarm \<times> 'w \<Rightarrow>
     (('p, 's) swarm \<times> 'w) option" where
  "connect_retry env ia 0 st = None"
| "connect_retry env ia (Suc n) st =
     (case connect_attempt env ia st of
        (None, st) \<Rightarrow> Some st
      | (Some e, st) \<Rightarrow> connect_retry env ia n st)"

text \<open>The peers \<open>Start\<close> makes a goroutine for.\<close>

definition start_targets :: "('p, 's) swarm \<Rightarrow> (u64 \<times> peer_id) list" where
  "start_targets sw = filter (\<lambda>(i, addr). addr \<notin> set (sw_connected sw)) (sw_peers sw)"

definition swarm_Stop :: "('p, 's) swarm \<Rightarrow> ('p, 's) swarm" where
  "swarm_Stop sw = sw\<lparr>sw_cancelled := True\<rparr>"

section \<open>Receiving\<close>

definition handleFetchCertMessage ::
    "('k, 'p, 'r, 's, 'w) swarm_env \<Rightarrow> 's \<Rightarrow> ('p, 's) swarm \<times> 'w \<Rightarrow> goerr option \<times> ('p, 's) swarm \<times> 'w" where
  "handleFetchCertMessage env s st =
     (case st of (sw, w) \<Rightarrow>
        (case NewMsg (se_encode_certs env) CertMsg (self_certs sw) of
           Inl e \<Rightarrow> (Some e, sw, w)
         | Inr m \<Rightarrow>
             (case swarm_SendWithStream env s m w of
                (Some e, w) \<Rightarrow> (Some (ErrWrap ''send msg'' e), sw, w)
              | (None, w) \<Rightarrow> (None, sw, w))))"

definition store_named ::
    "('k, 'p, 'r, 's, 'w) swarm_env \<Rightarrow> string \<Rightarrow> (u64 \<times> peer_id) list \<Rightarrow> peer_id list \<Rightarrow> peer_id list" where
  "store_named env name peers ids =
     fold (\<lambda>(i, addr) ids. if se_id_String env addr = name then connected_Store addr ids else ids) peers ids"

definition swarm_handler ::
    "('k, 'p, 'r, 's, 'w) swarm_env \<Rightarrow> 's \<Rightarrow> msg \<Rightarrow> ('p, 's) swarm \<times> 'w \<Rightarrow> goerr option \<times> ('p, 's) swarm \<times> 'w" where
  "swarm_handler env s data st =
     (case st of (sw, w) \<Rightarrow>
        if m_Code data = GetCertMsg then
          (case se_decode_certs env (m_Bytes data) of
             (certs, Some e) \<Rightarrow> (Some e, sw, w)
           | (certs, None) \<Rightarrow>
               (case check_certs env (sw_CACert sw) (se_now env w) certs of
                  Some e \<Rightarrow> (Some e, sw, w)
                | None \<Rightarrow>
                    handleFetchCertMessage env s
                      (sw\<lparr>sw_connected := store_named env (crt_Id certs) (sw_peers sw) (sw_connected sw)\<rparr>, w)))
        else if m_Code data = CertMsg then (None, sw, w)
        else if m_Code data = CtxSignMsg then
          (None, sw\<lparr>sw_messages := sw_messages sw @ [ViewCtx (Some (fst (se_decode_ctx env (m_Bytes data))))]\<rparr>, w)
        else if m_Code data = RtxSignMsg then
          (None, sw\<lparr>sw_messages := sw_messages sw @ [ViewRtx (fst (se_decode_rtx env (m_Bytes data)))]\<rparr>, w)
        else (None, sw, w))"

definition swarm_handleMessage ::
    "('k, 'p, 'r, 's, 'w) swarm_env \<Rightarrow> 's \<Rightarrow> msg \<Rightarrow> ('p, 's) swarm \<times> 'w \<Rightarrow> ('p, 's) swarm \<times> 'w" where
  "swarm_handleMessage env s data st = snd (swarm_handler env s data st)"

text \<open>A stream's reading loop with this handler.\<close>

definition swarm_stream ::
    "('k, 'p, 'r, 's, 'w) swarm_env \<Rightarrow> 's \<Rightarrow> bytes \<Rightarrow> ('p, 's) swarm \<times> 'w \<Rightarrow> ('p, 's) swarm \<times> 'w" where
  "swarm_stream env s bs st = fold (swarm_handleMessage env s) (fst (handleNewStream (se_rlp env) bs)) st"

section \<open>Who is connected\<close>

definition connected_ok :: "('p, 's) swarm \<Rightarrow> bool" where
  "connected_ok sw \<longleftrightarrow> distinct (sw_connected sw) \<and> set (sw_connected sw) \<subseteq> snd ` set (sw_peers sw)"

lemma connected_Store_ok:
  "distinct ids \<Longrightarrow> set ids \<subseteq> A \<Longrightarrow> pid \<in> A \<Longrightarrow>
   distinct (connected_Store pid ids) \<and> set (connected_Store pid ids) \<subseteq> A"
  by (auto simp: connected_Store_def)

lemma store_named_ok:
  "distinct ids \<Longrightarrow> set ids \<subseteq> A \<Longrightarrow> snd ` set peers \<subseteq> A \<Longrightarrow>
   distinct (store_named env name peers ids) \<and> set (store_named env name peers ids) \<subseteq> A"
proof (induction peers arbitrary: ids)
  case (Cons q peers)
  then show ?case
    using connected_Store_ok [OF Cons.prems(1,2), of "snd q"]
    by (cases q) (auto simp: store_named_def)
qed (simp add: store_named_def)

lemma store_named_iff:
  "p \<in> set (store_named env name peers ids) \<longleftrightarrow> p \<in> set ids \<or> (\<exists>i. (i, p) \<in> set peers \<and> se_id_String env p = name)"
proof (induction peers arbitrary: ids)
  case (Cons q peers)
  have "store_named env name (q # peers) ids = store_named env name peers
      (if se_id_String env (snd q) = name then connected_Store (snd q) ids else ids)"
    by (cases q) (simp add: store_named_def)
  then show ?case using Cons by (cases q) (auto simp: connected_Store_def)
qed (simp add: store_named_def)

lemma handleFetchCert_state [simp]: "fst (snd (handleFetchCertMessage env s (sw, w))) = sw"
  by (simp add: handleFetchCertMessage_def split: sum.splits prod.splits option.splits)

lemma handler_effect:
  "sw_peers (fst (swarm_handleMessage env s m (sw, w))) = sw_peers sw \<and>
   (sw_connected (fst (swarm_handleMessage env s m (sw, w))) = sw_connected sw \<or>
    (\<exists>name. sw_connected (fst (swarm_handleMessage env s m (sw, w))) =
        store_named env name (sw_peers sw) (sw_connected sw)))"
  by (simp add: swarm_handleMessage_def swarm_handler_def split: prod.split option.split) blast

lemma verifyCert_keeps:
  "verifyCert env i (sw, w) = (e, sw', w') \<Longrightarrow>
   sw_connected sw' = sw_connected sw \<and> sw_peers sw' = sw_peers sw \<and> sw_CACert sw' = sw_CACert sw"
  by (auto simp: verifyCert_def swarm_Send_def Let_def split: option.splits sum.splits prod.splits)

lemma handler_connected:
  assumes "connected_ok sw"
  shows "connected_ok (fst (swarm_handleMessage env s m (sw, w)))"
proof -
  have "distinct (store_named env name (sw_peers sw) (sw_connected sw))
      \<and> set (store_named env name (sw_peers sw) (sw_connected sw)) \<subseteq> snd ` set (sw_peers sw)" for name
    using store_named_ok assms unfolding connected_ok_def by (metis order_refl)
  then show ?thesis
    using assms handler_effect [of env s m sw w] unfolding connected_ok_def by metis
qed

text \<open>Only configured peers are ever connected, each once: every message of another hub, every attempt to
  connect and every broadcast keeps this.\<close>

theorem connected_configured:
  assumes "connected_ok sw" "ia \<in> set (sw_peers sw)"
  shows "connected_ok (fst (swarm_stream env s bs (sw, w)))
    \<and> connected_ok (fst (snd (connect_attempt env ia (sw, w))))
    \<and> connected_ok (fst (swarm_Broadcast env m (sw, w)))"
proof (intro conjI)
  have "connected_ok (fst (fold (swarm_handleMessage env s) ms st))" if "connected_ok (fst st)" for ms st
    using that
  proof (induction ms arbitrary: st)
    case (Cons m ms)
    then show ?case using handler_connected [of "fst st" env s m "snd st"] by simp
  qed simp
  then show "connected_ok (fst (swarm_stream env s bs (sw, w)))"
    using assms(1) by (simp add: swarm_stream_def)
  show "connected_ok (fst (snd (connect_attempt env ia (sw, w))))"
  proof -
    have "snd ia \<in> snd ` set (sw_peers sw)" using assms(2) by (rule imageI)
    then show ?thesis
      using assms(1) connected_Store_ok [of "sw_connected sw" "snd ` set (sw_peers sw)" "snd ia"]
      by (cases ia) (auto simp: connect_attempt_def connected_ok_def split: prod.splits option.splits
          dest!: verifyCert_keeps)
  qed
  show "connected_ok (fst (swarm_Broadcast env m (sw, w)))"
    using assms(1) by (simp add: swarm_Broadcast_def connected_ok_def split: prod.split)
qed

section \<open>What a certificate shows\<close>

definition chain_checked :: "('k, 'p, 'r) cert_lib \<Rightarrow> int \<Rightarrow> 'p x509 \<Rightarrow> certs_message \<Rightarrow> bool" where
  "chain_checked lib now ca certs \<longleftrightarrow>
     (\<exists>node agency. ParseCert lib (crt_NodeCert certs) = Inr node \<and> ParseCert lib (crt_AgencyCert certs) = Inr agency
        \<and> VerifySign lib now agency ca = None \<and> VerifySign lib now node agency = None)"

lemma check_certs_iff: "check_certs env ca now certs = None \<longleftrightarrow> chain_checked (se_cert env) now ca certs"
  by (auto simp: check_certs_def chain_checked_def verifyCerts_def split: sum.splits option.splits)

lemma verifyCert_Ok:
  assumes "verifyCert env i (sw, w) = (None, sw', w')"
  shows "\<exists>m ret sw1 w1. swarm_Send env i m (sw, w) = (Inr ret, sw1, w1)
    \<and> chain_checked (se_cert env) (se_now env w1) (sw_CACert sw) (fst (se_decode_certs env (m_Bytes ret)))"
proof -
  obtain m ret sw1 w1 where r: "swarm_Send env i m (sw, w) = (Inr ret, sw1, w1)"
      "check_certs env (sw_CACert sw1) (se_now env w1) (fst (se_decode_certs env (m_Bytes ret))) = None"
    using assms by (auto simp: verifyCert_def Let_def split: option.splits sum.splits prod.splits)
  moreover have "sw_CACert sw1 = sw_CACert sw"
    using r(1) by (auto simp: swarm_Send_def split: option.splits sum.splits prod.splits)
  ultimately show ?thesis unfolding check_certs_iff by metis
qed


text \<open>The certificates are not bound to the peer that shows them: a hub whose chain is accepted under one
  name is accepted under any, so with one valid pair of certificates a sender on any stream makes
  every configured peer count as connected.\<close>

theorem certificate_not_bound:
  assumes "chain_checked (se_cert env) (se_now env w) (sw_CACert sw) certs" "(i, p) \<in> set (sw_peers sw)"
    and "m_Code m = GetCertMsg"
    and "se_decode_certs env (m_Bytes m) = (certs\<lparr>crt_Id := se_id_String env p\<rparr>, None)"
  shows "p \<in> set (sw_connected (fst (swarm_handleMessage env s m (sw, w))))"
proof -
  have "chain_checked (se_cert env) (se_now env w) (sw_CACert sw) (certs\<lparr>crt_Id := se_id_String env p\<rparr>)"
    using assms(1) by (simp add: chain_checked_def)
  then have "check_certs env (sw_CACert sw) (se_now env w) (certs\<lparr>crt_Id := se_id_String env p\<rparr>) = None"
    by (simp only: check_certs_iff)
  then show ?thesis
    using assms(2-4) by (auto simp: swarm_handleMessage_def swarm_handler_def store_named_iff)
qed

text \<open>The tools' certificates are what the swarm asks for: an agency certificate issued with \<open>is_ca\<close> by
  the authority and a node certificate issued by the agency pass the check of every hub of this
  authority, from the time both are made until either ends.\<close>

theorem issued_hub_accepted:
  fixes lib :: "('k, 'p, 'r) cert_lib"
  assumes law: "cert_law lib" "se_cert env = lib"
    and agency: "issueCMD fs lib csrA True privCA certCA target w = (Ok (), w1)"
      "holds_pem lib (cl_ParseECPrivateKey lib) privCA k w" "holds_pem lib (cl_ParseCertificate lib) certCA ca w"
      "can_issue lib ca k" "holds_pem lib (cl_ParseCertificateRequest lib) csrA qA w" "xr_PublicKey qA = cl_public lib kA"
    and files: "certA = path_join target (getFileName csrA @ ''.cert'')" "path_clean certA = certA"
    and node: "issueCMD fs lib csrN isCA privA certA target' w1 = (Ok (), w2)"
      "holds_pem lib (cl_ParseECPrivateKey lib) privA kA w1" "holds_pem lib (cl_ParseCertificateRequest lib) csrN qN w1"
    and certN: "certN = path_join target' (getFileName csrN @ ''.cert'')"
    and times: "tw_now w \<le> now" "tw_now w1 \<le> now"
      "now \<le> tw_now w + fifty_years - 6 * minute" "now \<le> tw_now w1 + fifty_years - 6 * minute"
  shows "check_certs env ca now
    \<lparr> crt_Id = name, crt_AgencyCert = tw_files w1 certA, crt_NodeCert = tw_files w2 (path_clean certN) \<rparr> = None"
proof -
  have "tw_files w1 (path_clean certA) = tw_files w1 certA" using files(2) by simp
  obtain a where a: "holds_pem lib (cl_ParseCertificate lib) certA a w1" "cl_CheckSignatureFrom lib a ca = None"
      "xc_NotBefore a \<le> tw_now w - 5 * minute" "tw_now w - 5 * minute + fifty_years - 10 ^ 9 < xc_NotAfter a"
      "xc_PublicKey a = Some (xr_PublicKey qA)" "xc_IsCA a" "xc_BasicConstraintsValid a" "xc_KeyUsage a = all_usages"
    using issued [OF law(1) agency(1-5)] unfolding files(1) by blast
  have ia: "can_issue lib a kA" using a(5-8) agency(6) by (simp add: can_issue_def all_usages_def)
  obtain n where n: "holds_pem lib (cl_ParseCertificate lib) certN n w2" "cl_CheckSignatureFrom lib n a = None"
      "xc_NotBefore n \<le> tw_now w1 - 5 * minute" "tw_now w1 - 5 * minute + fifty_years - 10 ^ 9 < xc_NotAfter n"
    using issued [OF law(1) node(1,2) a(1) ia node(3)] unfolding certN by blast
  have "VerifySign lib now a ca = None"
    using a(2-4) times by (simp add: VerifySign_def minute_def)
  moreover have "VerifySign lib now n a = None"
    using n(2-4) times by (simp add: VerifySign_def minute_def)
  moreover have "ParseCert lib (tw_files w1 certA) = Inr a" "ParseCert lib (tw_files w2 (path_clean certN)) = Inr n"
    using a(1) n(1) files(2) unfolding holds_ParseCert by auto
  ultimately show ?thesis by (auto simp: check_certs_iff chain_checked_def law(2))
qed

section \<open>From hub to hub\<close>

text \<open>A network on which nothing fails: \<open>arrived p w\<close> is what has reached peer \<open>p\<close>.\<close>

definition healthy :: "('s, 'w) p2p_host \<Rightarrow> ('s \<Rightarrow> peer_id) \<Rightarrow> (peer_id \<Rightarrow> 'w \<Rightarrow> bytes) \<Rightarrow> bool" where
  "healthy h peer_of arrived \<longleftrightarrow>
     (\<forall>pid w. \<exists>s w'. NewStream h pid w = (Inr s, w') \<and> peer_of s = pid \<and> (\<forall>q. arrived q w' = arrived q w))
     \<and> (\<forall>s w. \<exists>w'. SetWriteDeadline h s w = (None, w') \<and> (\<forall>q. arrived q w' = arrived q w))
     \<and> (\<forall>s b w. \<exists>w'. stream_write h s b w = (None, w')
          \<and> (\<forall>q. arrived q w' = (if q = peer_of s then arrived q w @ b else arrived q w)))"

definition streams_ok :: "('s \<Rightarrow> peer_id) \<Rightarrow> 's streams \<Rightarrow> bool" where
  "streams_ok peer_of streams \<longleftrightarrow> (\<forall>pid s. streams pid = Some s \<longrightarrow> peer_of s = pid)"

lemma healthy_write:
  assumes "healthy h peer_of arrived" "rlp_law rlp" "msg_ok m"
  shows "\<exists>w'. WriteMsg rlp (stream_write h s) m w = (None, w')
    \<and> (\<forall>q. arrived q w' = (if q = peer_of s then arrived q w @ frame rlp m else arrived q w))"
proof -
  let ?hd = "putInt24 (word_of_nat (length (rlp_encode rlp (m_Code m))) + m_Size m) (replicate 32 0)"
  have sz: "\<not> maxUint24 < word_of_nat (length (rlp_encode rlp (m_Code m))) + m_Size m"
    using msg_ok_size(2,3) [OF assms(2,3)] by simp
  have wr: "\<exists>w'. stream_write h s b w = (None, w')
      \<and> (\<forall>q. arrived q w' = (if q = peer_of s then arrived q w @ b else arrived q w))" for b w
    using assms(1) by (simp add: healthy_def)
  obtain w1 where w1: "stream_write h s ?hd w = (None, w1)"
      "\<forall>q. arrived q w1 = (if q = peer_of s then arrived q w @ ?hd else arrived q w)" using wr by blast
  obtain w2 where w2: "stream_write h s (rlp_encode rlp (m_Code m)) w1 = (None, w2)"
      "\<forall>q. arrived q w2 = (if q = peer_of s then arrived q w1 @ rlp_encode rlp (m_Code m) else arrived q w1)"
    using wr by blast
  obtain w3 where w3: "stream_write h s (m_Bytes m) w2 = (None, w3)"
      "\<forall>q. arrived q w3 = (if q = peer_of s then arrived q w2 @ m_Bytes m else arrived q w2)" using wr by blast
  show ?thesis
    using sz w1 w2 w3 by (simp add: WriteMsg_def frame_def Let_def)
qed

lemma healthy_AsyncSend:
  assumes "healthy h peer_of arrived" "rlp_law rlp" "msg_ok m" "streams_ok peer_of streams"
  shows "\<exists>streams' w'. AsyncSend rlp h pid m (streams, w) = (None, streams', w') \<and> streams_ok peer_of streams'
    \<and> (\<forall>q. arrived q w' = (if q = pid then arrived q w @ frame rlp m else arrived q w))"
proof -
  obtain s streams1 w1 where g: "streamMgr_get h pid (streams, w) = (Inr s, streams1, w1)" "peer_of s = pid"
      "streams_ok peer_of streams1" "\<forall>q. arrived q w1 = arrived q w"
  proof (cases "streams pid")
    case None
    obtain s w1 where "NewStream h pid w = (Inr s, w1)" "peer_of s = pid" "\<forall>q. arrived q w1 = arrived q w"
      using assms(1) unfolding healthy_def by metis
    with None assms(4) that show ?thesis by (auto simp: streamMgr_get_def streams_ok_def)
  next
    case (Some s)
    with assms(4) that show ?thesis by (auto simp: streamMgr_get_def streams_ok_def)
  qed
  obtain w2 where d: "SetWriteDeadline h s w1 = (None, w2)" "\<forall>q. arrived q w2 = arrived q w1"
    using assms(1) unfolding healthy_def by metis
  obtain w3 where "WriteMsg rlp (stream_write h s) m w2 = (None, w3)"
      "\<forall>q. arrived q w3 = (if q = peer_of s then arrived q w2 @ frame rlp m else arrived q w2)"
    using healthy_write [OF assms(1-3)] by blast
  then show ?thesis
    using g d by (auto simp: AsyncSend_def p2p_send_def)
qed

lemma healthy_Broadcast:
  assumes "healthy h peer_of arrived" "rlp_law rlp" "msg_ok m" "distinct ids" "streams_ok peer_of streams"
  shows "\<exists>streams' w'. p2p_Broadcast rlp h ids m (streams, w) = (streams', w')
    \<and> (\<forall>q. arrived q w' = (if q \<in> set ids then arrived q w @ frame rlp m else arrived q w))"
  using assms(4,5)
proof (induction ids arbitrary: streams w)
  case (Cons pid ids)
  obtain streams1 w1 where a: "AsyncSend rlp h pid m (streams, w) = (None, streams1, w1)"
      "streams_ok peer_of streams1"
      "\<forall>q. arrived q w1 = (if q = pid then arrived q w @ frame rlp m else arrived q w)"
    using healthy_AsyncSend [OF assms(1-3) Cons.prems(2)] by blast
  obtain streams2 w2 where "p2p_Broadcast rlp h ids m (streams1, w1) = (streams2, w2)"
      "\<forall>q. arrived q w2 = (if q \<in> set ids then arrived q w1 @ frame rlp m else arrived q w1)"
    using Cons.IH [OF _ a(2)] Cons.prems(1) by force
  then show ?case using a(1,3) Cons.prems(1) by auto
qed simp

lemma message_crosses:
  assumes "healthy (se_host env) peer_of arrived" "rlp_law (se_rlp env)" "se_rlp env2 = se_rlp env"
    and "streams_ok peer_of (sw_streams sw)" "connected_ok sw" "msg_ok m"
  shows "\<exists>sw' w' f. swarm_Broadcast env m (sw, w) = (sw', w')
    \<and> (\<forall>q. arrived q w' = (if q \<in> set (sw_connected sw) then arrived q w @ f else arrived q w))
    \<and> swarm_stream env2 s f (sw2, w2) = swarm_handleMessage env2 s m (sw2, w2)"
proof -
  have d: "distinct (sw_connected sw)" using assms(5) by (simp add: connected_ok_def)
  obtain streams' w' where br: "p2p_Broadcast (se_rlp env) (se_host env) (sw_connected sw) m (sw_streams sw, w) = (streams', w')"
      "\<forall>q. arrived q w' = (if q \<in> set (sw_connected sw) then arrived q w @ frame (se_rlp env) m else arrived q w)"
    using healthy_Broadcast [OF assms(1,2,6) d assms(4)] by blast
  have "handleNewStream (se_rlp env2) (frame (se_rlp env) m) = ([m], False)"
    using handle_frame [OF assms(2,6), of "[]"] assms(3) by simp
  then have "swarm_stream env2 s (frame (se_rlp env) m) (sw2, w2) = swarm_handleMessage env2 s m (sw2, w2)"
    by (simp add: swarm_stream_def)
  moreover have "swarm_Broadcast env m (sw, w) = (sw\<lparr>sw_streams := streams'\<rparr>, w')"
    using br(1) by (simp add: swarm_Broadcast_def)
  ultimately show ?thesis using br(2) by blast
qed

lemma rtx_crosses:
  assumes "healthy (se_host env) peer_of arrived" "rlp_law (se_rlp env)" "se_rlp env2 = se_rlp env"
    and "streams_ok peer_of (sw_streams sw)" "connected_ok sw"
    and "se_encode_rtx env rtx = Inr b" "length b < 2 ^ 24 - 1" "se_decode_rtx env2 b = (rtx', None)"
  shows "\<exists>sw' w' f. swarm_event env (ViewRtx rtx) (sw, w) = Ok (sw', w')
    \<and> (\<forall>q. arrived q w' = (if q \<in> set (sw_connected sw) then arrived q w @ f else arrived q w))
    \<and> swarm_stream env2 s f (sw2, w2) = (sw2\<lparr>sw_messages := sw_messages sw2 @ [ViewRtx rtx']\<rparr>, w2)"
proof -
  let ?m = "\<lparr> m_Code = RtxSignMsg, m_Size = word_of_nat (length b), m_Bytes = b \<rparr>"
  have ok: "msg_ok ?m" using assms(7) by (simp add: msg_ok_def RtxSignMsg_def)
  have "swarm_handleMessage env2 s ?m (sw2, w2) = (sw2\<lparr>sw_messages := sw_messages sw2 @ [ViewRtx rtx']\<rparr>, w2)"
    using assms(8)
    by (simp add: swarm_handleMessage_def swarm_handler_def CtxSignMsg_def GetCertMsg_def CertMsg_def RtxSignMsg_def)
  moreover have "swarm_event env (ViewRtx rtx) (sw, w) = Ok (swarm_Broadcast env ?m (sw, w))"
    using assms(6) by (simp add: swarm_event_def NewMsg_def broadcast_new_def)
  ultimately show ?thesis using message_crosses [OF assms(1-5) ok, of w s sw2 w2] by auto
qed


text \<open>Nothing about a transaction is checked on the way in: a stranger on any stream, with no
  certificate shown, puts a transaction on \<open>messageCh\<close>, and bytes that do not decode put what the decoder left.\<close>

theorem stranger_ctx_accepted:
  assumes "m_Code m = CtxSignMsg" "sw_connected sw = []"
  shows "sw_messages (fst (swarm_handleMessage env s m (sw, w))) =
    sw_messages sw @ [ViewCtx (Some (fst (se_decode_ctx env (m_Bytes m))))]"
  using assms
  by (simp add: swarm_handleMessage_def swarm_handler_def CtxSignMsg_def GetCertMsg_def CertMsg_def)

text \<open>An event that cannot be encoded makes the swarm broadcast a nil message: with one healthy peer the
  hub panics.\<close>

lemma nil_event_panics:
  assumes "healthy (se_host env) peer_of arrived" "se_encode_ctx env ctm = Inl e" "sw_connected sw \<noteq> []"
  shows "swarm_event env (ViewCtx ctm) (sw, w) = Panic ''nil pointer dereference''"
proof -
  obtain pid ids where ids: "sw_connected sw = pid # ids" using assms(3) by (cases "sw_connected sw") auto
  obtain s streams1 w1 where g: "streamMgr_get (se_host env) pid (sw_streams sw, w) = (Inr s, streams1, w1)"
  proof (cases "sw_streams sw pid")
    case None
    obtain s w1 where "NewStream (se_host env) pid w = (Inr s, w1)"
      using assms(1) unfolding healthy_def by metis
    with None that show ?thesis by (simp add: streamMgr_get_def)
  qed (use that in \<open>simp add: streamMgr_get_def\<close>)
  obtain w2 where "SetWriteDeadline (se_host env) s w1 = (None, w2)"
    using assms(1) unfolding healthy_def by metis
  then show ?thesis using g ids assms(2)
    by (simp add: swarm_event_def NewMsg_def broadcast_new_def)
qed

section \<open>A concrete pair of hubs\<close>

text \<open>A network that keeps what each peer received; every request is answered with the certificates of a node
  of the demo authority.\<close>

definition demo_certs :: certs_message where
  "demo_certs = \<lparr> crt_Id = ''p'', crt_AgencyCert = Some [2, 1, 41, 40], crt_NodeCert = Some [2, 0, 42, 41] \<rparr>"

definition demo_net :: "(peer_id, peer_id \<Rightarrow> bytes) p2p_host" where
  "demo_net = \<lparr> NewStream = \<lambda>pid w. (Inr pid, w), SetWriteDeadline = \<lambda>s w. (None, w),
     stream_write = \<lambda>s b w. (None, w(s := w s @ b)), stream_arrived = \<lambda>s w. Some (frame demo_rlp demo_msg),
     AddAddrs = \<lambda>pid w. w, host_Connect = \<lambda>pid w. (None, w), ClosePeer = \<lambda>pid w. (None, w) \<rparr>"

definition demo_swarm_ctx :: cross_tx where
  "demo_swarm_ctx = NewCrossTransaction 5 6 ''a'' ''b'' 2 1 [1] [2] [3] [4]"

definition demo_swarm_env :: "(byte, byte, byte, peer_id, peer_id \<Rightarrow> bytes) swarm_env" where
  "demo_swarm_env =
     \<lparr> se_cert = demo_cert_lib, se_rlp = demo_rlp, se_host = demo_net, se_now = (\<lambda>w. 5), se_id_String = (\<lambda>p. p),
       se_encode_certs = (\<lambda>c. Inr [9]), se_decode_certs = (\<lambda>b. (demo_certs, None)),
       se_encode_ctx = (\<lambda>t. case t of None \<Rightarrow> Inl (ErrNew ''nil'') | Some _ \<Rightarrow> Inr [1]),
       se_decode_ctx = (\<lambda>b. (demo_swarm_ctx, None)),
       se_encode_rtx = (\<lambda>t. Inr [2]), se_decode_rtx = (\<lambda>b. (NewReceptTransaction [1] [2] ''a'' ''b'' ''c'' 2 1 [4], None)) \<rparr>"

definition demo_hub :: "peer_id list \<Rightarrow> (byte, peer_id) swarm" where
  "demo_hub ids =
     \<lparr> sw_ID = 1, sw_PeerId = ''me'', sw_AgencyCertData = None, sw_NodeCertData = None,
       sw_CACert = demo_x509 [1, 40, 40], sw_peers = [(2, ''p''), (3, ''q'')], sw_connected = ids,
       sw_messages = [], sw_streams = Map.empty, sw_cancelled = False \<rparr>"

lemma demo_healthy: "healthy demo_net (\<lambda>s. s) (\<lambda>q w. w q)"
  by (auto simp: healthy_def demo_net_def)

lemma demo_hub_ok: "connected_ok (demo_hub [''p''])" "connected_ok (demo_hub [])"
  by (simp_all add: connected_ok_def demo_hub_def)

lemma demo_chain: "chain_checked demo_cert_lib 5 (demo_x509 [1, 40, 40]) demo_certs"
  by (simp add: chain_checked_def demo_certs_def ParseCert_def demo_cert_lib_def VerifySign_def demo_x509_def
      minute_def fifty_years_def)

lemma connected_configured_witness:
  "connected_ok (fst (snd (connect_attempt demo_swarm_env (2, ''p'') (demo_hub [], \<lambda>q. []))))"
proof -
  have "(2, ''p'') \<in> set (sw_peers (demo_hub []))" by (simp add: demo_hub_def)
  from connected_configured [OF demo_hub_ok(2) this, of demo_swarm_env "''x''" "[]" "\<lambda>q. []"] show ?thesis by simp
qed

lemma certificate_not_bound_witness:
  "''q'' \<in> set (sw_connected (fst (swarm_handleMessage
     (demo_swarm_env\<lparr>se_decode_certs := \<lambda>b. (demo_certs\<lparr>crt_Id := ''q''\<rparr>, None)\<rparr>) ''x''
     \<lparr> m_Code = GetCertMsg, m_Size = 1, m_Bytes = [9] \<rparr> (demo_hub [], \<lambda>q. []))))"
  using certificate_not_bound [of "demo_swarm_env\<lparr>se_decode_certs := \<lambda>b. (demo_certs\<lparr>crt_Id := ''q''\<rparr>, None)\<rparr>"
      "\<lambda>q. []" "demo_hub []" demo_certs 3 "''q''" "\<lparr> m_Code = GetCertMsg, m_Size = 1, m_Bytes = [9] \<rparr>" "''x''"]
    demo_chain
  by (simp add: demo_swarm_env_def demo_hub_def)

lemma demo_Send:
  "\<exists>streams w'. swarm_Send demo_swarm_env 2 \<lparr> m_Code = GetCertMsg, m_Size = 1, m_Bytes = [9] \<rparr> (demo_hub [], \<lambda>q. [])
     = (Inr demo_msg, (demo_hub [])\<lparr>sw_streams := streams\<rparr>, w')"
proof -
  let ?m = "\<lparr> m_Code = GetCertMsg, m_Size = 1, m_Bytes = [9] \<rparr>"
  have "msg_ok ?m" by (simp add: msg_ok_def GetCertMsg_def)
  then obtain w' where w: "WriteMsg demo_rlp (stream_write demo_net ''p'') ?m (\<lambda>q. []) = (None, w')"
    using healthy_write [OF demo_healthy demo_rlp_law] by blast
  have "ReadMsg demo_rlp (frame demo_rlp demo_msg) = (Inr demo_msg, [])"
    using ReadMsg_frame [OF demo_rlp_law demo_msg_ok, of "[]"] by simp
  then have "waitMsg demo_rlp demo_net ''p'' w' = Some demo_msg"
    by (simp add: waitMsg_def demo_net_def)
  then show ?thesis
    using w by (simp add: swarm_Send_def Send_def checkID_def peer_of_id_def streamMgr_get_def p2p_send_def
        demo_swarm_env_def demo_hub_def demo_net_def)
qed

lemma demo_attempt:
  "\<exists>sw' w'. connect_attempt demo_swarm_env (2, ''p'') (demo_hub [], \<lambda>q. []) = (None, sw', w')"
proof -
  obtain streams w' where send: "swarm_Send demo_swarm_env 2 \<lparr> m_Code = GetCertMsg, m_Size = 1, m_Bytes = [9] \<rparr>
      (demo_hub [], \<lambda>q. []) = (Inr demo_msg, (demo_hub [])\<lparr>sw_streams := streams\<rparr>, w')"
    using demo_Send by blast
  have new: "NewMsg (se_encode_certs demo_swarm_env) GetCertMsg (self_certs (demo_hub [])) =
      Inr \<lparr> m_Code = GetCertMsg, m_Size = 1, m_Bytes = [9] \<rparr>"
    by (simp add: NewMsg_def demo_swarm_env_def)
  have id: "checkID (demo_hub []) 2 = None" by (simp add: checkID_def demo_hub_def)
  have ca: "sw_CACert (demo_hub []) = demo_x509 [1, 40, 40]" by (simp add: demo_hub_def)
  have con: "p2p_Connect (se_host demo_swarm_env) None ''p'' (\<lambda>q. []) = (None, \<lambda>q. [])"
    by (simp add: p2p_Connect_def demo_swarm_env_def demo_net_def)
  have "se_cert demo_swarm_env = demo_cert_lib" by (simp add: demo_swarm_env_def)
  then have chk: "check_certs demo_swarm_env (demo_x509 [1, 40, 40]) 5 demo_certs = None"
    using demo_chain by (simp add: check_certs_iff)
  have dec: "se_decode_certs demo_swarm_env b = (demo_certs, None)" "se_now demo_swarm_env w = 5" for b w
    by (simp_all add: demo_swarm_env_def)
  have dis: "fst (Disconnect (se_host demo_swarm_env) pid st) = None" for pid st
    by (cases st) (simp add: Disconnect_def streamMgr_remove_def demo_swarm_env_def demo_net_def)
  show ?thesis
    using dis [of "peer_of_id ((demo_hub [])\<lparr>sw_streams := streams\<rparr>) 2" "(streams, w')"]
    by (auto simp: connect_attempt_def verifyCert_def con new id send chk dec ca Let_def
        split: prod.split option.split)
qed


lemma stranger_ctx_accepted_witness:
  "sw_messages (fst (swarm_handleMessage demo_swarm_env ''x'' \<lparr> m_Code = CtxSignMsg, m_Size = 1, m_Bytes = [7] \<rparr>
     (demo_hub [], \<lambda>q. []))) = [ViewCtx (Some demo_swarm_ctx)]"
  using stranger_ctx_accepted [of "\<lparr> m_Code = CtxSignMsg, m_Size = 1, m_Bytes = [7] \<rparr>" "demo_hub []"
      demo_swarm_env "''x''" "\<lambda>q. []"]
  by (simp add: demo_hub_def demo_swarm_env_def)


text \<open>An agency and a node under the demo authority, from the files of the tools.\<close>

definition demo_office :: "byte tool_world" where
  "demo_office = \<lparr> tw_files = [''ca.priv'' \<mapsto> [0, 40], ''ca.cert'' \<mapsto> [2, 1, 40, 40], ''agency.priv'' \<mapsto> [0, 41],
     ''agency.csr'' \<mapsto> [1, 41], ''node.csr'' \<mapsto> [1, 42]], tw_rand = 0, tw_now = 0 \<rparr>"

definition demo_office2 :: "byte tool_world" where
  "demo_office2 = demo_office\<lparr>tw_files := (tw_files demo_office)(''agency.cert'' \<mapsto> [2, 1, 41, 40])\<rparr>"

definition demo_office3 :: "byte tool_world" where
  "demo_office3 = demo_office\<lparr>tw_files := (tw_files demo_office2)(''node.cert'' \<mapsto> [2, 0, 42, 41])\<rparr>"

lemmas demo_issue_simps = issueCMD_def issue_template_def demo_office_def demo_office2_def demo_office3_def
  demo_cert_lib_def demo_files_def create_pem_def load_pem_def read_file_def pem_bytes_def demo_paths Let_def

lemma demo_issue_agency:
  "issueCMD demo_files demo_cert_lib ''agency.csr'' True ''ca.priv'' ''ca.cert'' [] demo_office = (Ok (), demo_office2)"
  by (simp add: demo_issue_simps)

lemma demo_issue_node:
  "issueCMD demo_files demo_cert_lib ''node.csr'' False ''agency.priv'' ''agency.cert'' [] demo_office2
     = (Ok (), demo_office3)"
  by (simp add: demo_issue_simps demo_x509_def)

lemma issued_hub_accepted_witness:
  "check_certs demo_swarm_env (demo_x509 [1, 40, 40]) 5
     \<lparr> crt_Id = ''n'', crt_AgencyCert = Some [2, 1, 41, 40], crt_NodeCert = Some [2, 0, 42, 41] \<rparr> = None"
proof -
  let ?q = "\<lambda>k. \<lparr> xr_Subject = csr_subject [], xr_PublicKey = k, xr_Raw = [k] \<rparr> :: byte x509_request"
  have env: "se_cert demo_swarm_env = demo_cert_lib" by (simp add: demo_swarm_env_def)
  have a: "holds_pem demo_cert_lib (cl_ParseECPrivateKey demo_cert_lib) ''ca.priv'' 40 demo_office"
      "holds_pem demo_cert_lib (cl_ParseCertificate demo_cert_lib) ''ca.cert'' (demo_x509 [1, 40, 40]) demo_office"
      "can_issue demo_cert_lib (demo_x509 [1, 40, 40]) 40"
      "holds_pem demo_cert_lib (cl_ParseCertificateRequest demo_cert_lib) ''agency.csr'' (?q 41) demo_office"
      "xr_PublicKey (?q 41) = cl_public demo_cert_lib 41"
    by (simp_all add: holds_pem_def can_issue_def demo_office_def demo_cert_lib_def demo_x509_def path_clean_def
        all_usages_def)
  have f: "''agency.cert'' = path_join [] (getFileName ''agency.csr'' @ ''.cert'')" "path_clean ''agency.cert'' = ''agency.cert''"
      "''node.cert'' = path_join [] (getFileName ''node.csr'' @ ''.cert'')"
    by (simp_all add: demo_paths Let_def)
  have n: "holds_pem demo_cert_lib (cl_ParseECPrivateKey demo_cert_lib) ''agency.priv'' 41 demo_office2"
      "holds_pem demo_cert_lib (cl_ParseCertificateRequest demo_cert_lib) ''node.csr'' (?q 42) demo_office2"
    by (simp_all add: holds_pem_def demo_office2_def demo_office_def demo_cert_lib_def path_clean_def)
  have t: "tw_now demo_office \<le> 5" "tw_now demo_office2 \<le> 5" "5 \<le> tw_now demo_office + fifty_years - 6 * minute"
      "5 \<le> tw_now demo_office2 + fifty_years - 6 * minute"
    by (simp_all add: demo_office_def demo_office2_def fifty_years_def minute_def)
  have p: "path_clean ''node.cert'' = ''node.cert''" by (simp add: path_clean_def)
  from issued_hub_accepted [OF demo_cert_law env demo_issue_agency a f(1,2) demo_issue_node n f(3) t, of "''n''"]
  show ?thesis by (simp add: p) (simp add: demo_office3_def demo_office2_def)
qed

end
