(* ===== verification/Executor.thy ===== *)
theory Executor
  imports Prelude
begin

text \<open>
  The task executor of fabric-cli (fabric/fabric-cli/executor/executor.go with the worker pool in
  executor/worker/worker.go and workerpool.go). A call of the interface is a function on the state;
  what the goroutines do between two points where they can block is one step of a relation: the
  submitters (one per call that waits for room in the queue), the timers of \<open>SubmitDelayed\<close>, the
  dispatcher, the workers, and the goroutine inside \<open>Stop\<close>. Channels are lists, wait groups are
  integers; \<open>Done\<close> on a wait group at zero would be a panic, which the invariant excludes. A task is
  opaque; its \<open>Invoke\<close> is taken to return.
\<close>

section \<open>Workers and their pool\<close>

text \<open>A worker before \<open>Start\<close>, about to offer itself, in its \<open>select\<close>, running a task, and ended.\<close>

datatype 'a worker = WNew | WOffer | WSelect | WBusy 'a | WStopped

record 'a pool =
  pl_name :: string
  pl_workers :: "'a worker list"
  pl_availableWorker :: "nat list"
  pl_taskWg :: int
  pl_wg :: int

definition NewPool :: "string \<Rightarrow> nat \<Rightarrow> 'a pool" where
  "NewPool name concurrency =
     \<lparr> pl_name = name, pl_workers = replicate concurrency WNew, pl_availableWorker = [],
       pl_taskWg = 0, pl_wg = 0 \<rparr>"

definition pool_Start :: "'a pool \<Rightarrow> 'a pool" where
  "pool_Start p =
     p\<lparr>pl_wg := pl_wg p + int (length (pl_workers p)),
       pl_workers := map (\<lambda>_. WOffer) (pl_workers p)\<rparr>"

definition set_worker :: "nat \<Rightarrow> 'a worker \<Rightarrow> 'a pool \<Rightarrow> 'a pool" where
  "set_worker w x p = p\<lparr>pl_workers := (pl_workers p)[w := x]\<rparr>"

text \<open>The pieces of \<open>Pool.Submit\<close>: counting the task, taking a worker, handing the task over.\<close>

definition pool_count :: "'a pool \<Rightarrow> 'a pool" where
  "pool_count p = p\<lparr>pl_taskWg := pl_taskWg p + 1\<rparr>"

definition pool_take :: "'a pool \<Rightarrow> 'a pool" where
  "pool_take p = p\<lparr>pl_availableWorker := tl (pl_availableWorker p)\<rparr>"

definition worker_Submit :: "nat \<Rightarrow> 'a \<Rightarrow> 'a pool \<Rightarrow> 'a pool" where
  "worker_Submit w t p = set_worker w (WBusy t) p"

text \<open>The end of \<open>invoke\<close> with \<open>TaskCompleted\<close>, and \<open>StateChange\<close>.\<close>

definition worker_invoked :: "nat \<Rightarrow> 'a pool \<Rightarrow> 'a pool" where
  "worker_invoked w p = set_worker w WOffer (p\<lparr>pl_taskWg := pl_taskWg p - 1\<rparr>)"

datatype worker_state = READY | STOPPED

definition StateChange :: "nat \<Rightarrow> worker_state \<Rightarrow> 'a pool \<Rightarrow> 'a pool" where
  "StateChange w st p =
     (case st of
        READY \<Rightarrow> p\<lparr>pl_availableWorker := pl_availableWorker p @ [w]\<rparr>
      | STOPPED \<Rightarrow> p\<lparr>pl_wg := pl_wg p - 1\<rparr>)"

definition worker_ready :: "nat \<Rightarrow> 'a pool \<Rightarrow> 'a pool" where
  "worker_ready w p = set_worker w WSelect (StateChange w READY p)"

definition worker_Stop :: "nat \<Rightarrow> 'a pool \<Rightarrow> 'a pool" where
  "worker_Stop w p = set_worker w WStopped (StateChange w STOPPED p)"

section \<open>The executor\<close>

datatype ex_phase = NEW | STARTED | TERMINATED

text \<open>The dispatcher: not started, in its \<open>select\<close>, inside \<open>Pool.Submit\<close> waiting for a worker or
  with one in hand, and ended.\<close>

datatype 'a dispatcher = DispOff | DispIdle | DispWait 'a | DispGive nat 'a | DispDone

text \<open>Where \<open>Stop\<close> is: waiting for the dispatcher's tasks, sending on \<open>terminating\<close>, waiting for the
  tasks of the pool, collecting \<open>k\<close> more workers, with a worker in hand, and returned.\<close>

datatype stop_pc =
    StopNone | StopWaitWg bool | StopTerm bool | StopWaitTasks | StopCollect nat | StopHold nat nat
  | StopReturned

record 'a executor =
  ex_name :: string
  ex_state :: ex_phase
  ex_queueLength :: nat
  ex_tasks :: "'a list"
  ex_senders :: "('a \<times> bool) list"
  ex_timers :: "'a list"
  ex_wg :: int
  ex_disp :: "'a dispatcher"
  ex_stop :: stop_pc
  ex_pool :: "'a pool"

definition NewExecutor :: "string \<Rightarrow> nat \<Rightarrow> 'a pool \<Rightarrow> 'a executor" where
  "NewExecutor name queueLength pool =
     \<lparr> ex_name = name, ex_state = NEW, ex_queueLength = queueLength, ex_tasks = [], ex_senders = [],
       ex_timers = [], ex_wg = 0, ex_disp = DispOff, ex_stop = StopNone, ex_pool = pool \<rparr>"

text \<open>\<open>math.MaxInt16\<close> is 32767; \<open>uint16\<close> arguments.\<close>

definition NewConcurrent :: "string \<Rightarrow> 16 word \<Rightarrow> 'a executor" where
  "NewConcurrent name concurrency = NewExecutor name 32767 (NewPool name (unat concurrency))"

definition NewBoundedConcurrent :: "string \<Rightarrow> 16 word \<Rightarrow> 16 word \<Rightarrow> 'a executor" where
  "NewBoundedConcurrent name concurrency queueLength =
     NewExecutor name (unat queueLength) (NewPool name (unat concurrency))"

definition executor_Start :: "'a executor \<Rightarrow> bool \<times> 'a executor" where
  "executor_Start e =
     (if ex_state e \<noteq> NEW then (False, e)
      else (True, e\<lparr>ex_pool := pool_Start (ex_pool e), ex_disp := DispIdle, ex_state := STARTED\<rparr>))"

definition not_started :: "'a executor \<Rightarrow> goerr" where
  "not_started e = ErrNew (''executor ['' @ ex_name e @ ''] is not started'')"

text \<open>\<open>Submit\<close> up to its send on the channel; \<open>d\<close> says that the caller is the goroutine of
  \<open>SubmitDelayed\<close>.\<close>

definition executor_Submit :: "bool \<Rightarrow> 'a \<Rightarrow> 'a executor \<Rightarrow> goerr option \<times> 'a executor" where
  "executor_Submit d task e =
     (if ex_state e \<noteq> STARTED then (Some (not_started e), e)
      else (None, e\<lparr>ex_wg := ex_wg e + 1, ex_senders := ex_senders e @ [(task, d)]\<rparr>))"

definition SubmitDelayed :: "'a \<Rightarrow> 'a executor \<Rightarrow> goerr option \<times> 'a executor" where
  "SubmitDelayed task e =
     (if ex_state e \<noteq> STARTED then (Some (not_started e), e)
      else (None, e\<lparr>ex_wg := ex_wg e + 1, ex_timers := ex_timers e @ [task]\<rparr>))"

definition wg_Done :: "bool \<Rightarrow> 'a executor \<Rightarrow> 'a executor" where
  "wg_Done b e = (if b then e\<lparr>ex_wg := ex_wg e - 1\<rparr> else e)"

text \<open>The goroutine of \<open>SubmitDelayed\<close> when its delay is over: the error of \<open>Submit\<close> is dropped.\<close>

definition timer_fires :: "'a \<Rightarrow> 'a executor \<Rightarrow> 'a executor" where
  "timer_fires task e =
     (case executor_Submit True task (e\<lparr>ex_timers := remove1 task (ex_timers e)\<rparr>) of
        (Some err, e) \<Rightarrow> wg_Done True e
      | (None, e) \<Rightarrow> e)"

text \<open>\<open>Stop\<close> up to its first wait.\<close>

definition executor_Stop :: "bool \<Rightarrow> 'a executor \<Rightarrow> bool \<times> 'a executor" where
  "executor_Stop wait e =
     (if ex_state e \<noteq> STARTED then (False, e)
      else (True, e\<lparr>ex_state := TERMINATED, ex_stop := StopWaitWg wait\<rparr>))"

section \<open>Steps\<close>

datatype 'a ex_event =
    Submitted 'a
  | DelayedSubmit 'a
  | Refused 'a
  | StopCalled bool
  | Fired 'a
  | Dropped 'a
  | Finished 'a
  | Moved

definition on_pool :: "('a pool \<Rightarrow> 'a pool) \<Rightarrow> 'a executor \<Rightarrow> 'a executor" where
  "on_pool f e = e\<lparr>ex_pool := f (ex_pool e)\<rparr>"

abbreviation workers :: "'a executor \<Rightarrow> 'a worker list" where
  "workers e \<equiv> pl_workers (ex_pool e)"

abbreviation avail :: "'a executor \<Rightarrow> nat list" where
  "avail e \<equiv> pl_availableWorker (ex_pool e)"

inductive ex_step :: "'a executor \<Rightarrow> 'a ex_event \<Rightarrow> 'a executor \<Rightarrow> bool" where
  submitted: "executor_Submit False t e = (None, e') \<Longrightarrow> ex_step e (Submitted t) e'"
| refused: "executor_Submit False t e = (Some err, e') \<Longrightarrow> ex_step e (Refused t) e'"
| delayed: "SubmitDelayed t e = (None, e') \<Longrightarrow> ex_step e (DelayedSubmit t) e'"
| stop_called: "executor_Stop b e = (True, e') \<Longrightarrow> ex_step e (StopCalled b) e'"
| fired: "t \<in> set (ex_timers e) \<Longrightarrow> ex_state e = STARTED \<Longrightarrow> ex_step e (Fired t) (timer_fires t e)"
| dropped: "t \<in> set (ex_timers e) \<Longrightarrow> ex_state e \<noteq> STARTED \<Longrightarrow> ex_step e (Dropped t) (timer_fires t e)"
| enqueue: "ex_senders e = us @ (t, d) # vs \<Longrightarrow> length (ex_tasks e) < ex_queueLength e \<Longrightarrow>
    ex_step e Moved (wg_Done d (e\<lparr>ex_tasks := ex_tasks e @ [t], ex_senders := us @ vs\<rparr>))"
| direct: "ex_senders e = us @ (t, d) # vs \<Longrightarrow> ex_tasks e = [] \<Longrightarrow> ex_disp e = DispIdle \<Longrightarrow>
    ex_step e Moved (on_pool pool_count (wg_Done d (e\<lparr>ex_disp := DispWait t, ex_senders := us @ vs\<rparr>)))"
| dispatch: "ex_tasks e = t # ts \<Longrightarrow> ex_disp e = DispIdle \<Longrightarrow>
    ex_step e Moved (on_pool pool_count (e\<lparr>ex_tasks := ts, ex_disp := DispWait t\<rparr>))"
| got_worker: "ex_disp e = DispWait t \<Longrightarrow> avail e = w # ws \<Longrightarrow>
    ex_step e Moved (on_pool pool_take (e\<lparr>ex_disp := DispGive w t\<rparr>))"
| gave_task: "ex_disp e = DispGive w t \<Longrightarrow> w < length (workers e) \<Longrightarrow> workers e ! w = WSelect \<Longrightarrow>
    ex_step e Moved (wg_Done True (on_pool (worker_Submit w t) (e\<lparr>ex_disp := DispIdle\<rparr>)))"
| finished: "w < length (workers e) \<Longrightarrow> workers e ! w = WBusy t \<Longrightarrow>
    ex_step e (Finished t) (on_pool (worker_invoked w) e)"
| offered: "w < length (workers e) \<Longrightarrow> workers e ! w = WOffer \<Longrightarrow>
    ex_step e Moved (on_pool (worker_ready w) e)"
| stop_waited: "ex_stop e = StopWaitWg b \<Longrightarrow> ex_wg e = 0 \<Longrightarrow> ex_step e Moved (e\<lparr>ex_stop := StopTerm b\<rparr>)"
| stop_dispatcher: "ex_stop e = StopTerm b \<Longrightarrow> ex_disp e = DispIdle \<Longrightarrow>
    ex_step e Moved (e\<lparr>ex_disp := DispDone,
      ex_stop := if b then StopWaitTasks else StopCollect (length (workers e))\<rparr>)"
| stop_tasks: "ex_stop e = StopWaitTasks \<Longrightarrow> pl_taskWg (ex_pool e) = 0 \<Longrightarrow>
    ex_step e Moved (e\<lparr>ex_stop := StopCollect (length (workers e))\<rparr>)"
| stop_take: "ex_stop e = StopCollect (Suc k) \<Longrightarrow> avail e = w # ws \<Longrightarrow>
    ex_step e Moved (on_pool pool_take (e\<lparr>ex_stop := StopHold w k\<rparr>))"
| stop_worker: "ex_stop e = StopHold w k \<Longrightarrow> w < length (workers e) \<Longrightarrow> workers e ! w = WSelect \<Longrightarrow>
    ex_step e Moved (on_pool (worker_Stop w) (e\<lparr>ex_stop := StopCollect k\<rparr>))"
| stop_pool: "ex_stop e = StopCollect 0 \<Longrightarrow> pl_wg (ex_pool e) = 0 \<Longrightarrow>
    ex_step e Moved (e\<lparr>ex_stop := StopReturned\<rparr>)"

text \<open>\<open>StateChange(READY)\<close> sends on a channel with room for every worker; the invariant below says
  that no worker is in it twice, so the send does not block.\<close>

inductive ex_run :: "'a executor \<Rightarrow> 'a ex_event list \<Rightarrow> 'a executor \<Rightarrow> bool" where
  ex_start: "ex_run e [] e"
| ex_more: "ex_run e evs e' \<Longrightarrow> ex_step e' ev e'' \<Longrightarrow> ex_run e (evs @ [ev]) e''"

definition started_executor :: "string \<Rightarrow> nat \<Rightarrow> nat \<Rightarrow> 'a executor" where
  "started_executor name concurrency queueLength =
     snd (executor_Start (NewExecutor name queueLength (NewPool name concurrency)))"

section \<open>Where the tasks are\<close>

fun worker_tasks :: "'a worker \<Rightarrow> 'a list" where
  "worker_tasks (WBusy t) = [t]"
| "worker_tasks _ = []"

fun disp_tasks :: "'a dispatcher \<Rightarrow> 'a list" where
  "disp_tasks (DispWait t) = [t]"
| "disp_tasks (DispGive w t) = [t]"
| "disp_tasks _ = []"

fun disp_held :: "'a dispatcher \<Rightarrow> nat list" where
  "disp_held (DispGive w t) = [w]"
| "disp_held _ = []"

fun stop_held :: "stop_pc \<Rightarrow> nat list" where
  "stop_held (StopHold w k) = [w]"
| "stop_held _ = []"

definition busy :: "'a worker list \<Rightarrow> 'a multiset" where
  "busy ws = mset (concat (map worker_tasks ws))"

definition live :: "'a worker list \<Rightarrow> nat" where
  "live ws = length (filter (\<lambda>x. x \<noteq> WStopped) ws)"

lemma busy_update:
  "w < length ws \<Longrightarrow> busy (ws[w := x]) + mset (worker_tasks (ws ! w)) = busy ws + mset (worker_tasks x)"
  unfolding busy_def by (rule mset_concat_update)

lemma live_update:
  assumes "w < length ws" "ws ! w \<noteq> WStopped"
  shows "live (ws[w := x]) + (if x = WStopped then 1 else 0) = live ws"
  using length_filter_update [OF assms(1), of "\<lambda>x. x \<noteq> WStopped" x] assms(2) unfolding live_def by auto

lemma busy_init [simp]: "busy (replicate n WOffer) = {#}" "live (replicate n WOffer) = n"
  by (induction n) (simp_all add: busy_def live_def)

lemma busy_size_update:
  assumes "w < length ws"
  shows "size (busy (ws[w := x])) + length (worker_tasks (ws ! w)) = size (busy ws) + length (worker_tasks x)"
proof -
  have "size (busy (ws[w := x]) + mset (worker_tasks (ws ! w))) = size (busy ws + mset (worker_tasks x))"
    by (simp only: busy_update [OF assms])
  then show ?thesis by (simp only: size_union size_mset)
qed

lemma no_new_update: "WNew \<notin> set ws \<Longrightarrow> x \<noteq> WNew \<Longrightarrow> WNew \<notin> set (ws[w := x])"
  using set_update_subset_insert [of ws w x] by auto

text \<open>The tasks accepted and not yet finished.\<close>

definition pending :: "'a executor \<Rightarrow> 'a multiset" where
  "pending e = mset (map fst (ex_senders e)) + mset (ex_tasks e) + mset (disp_tasks (ex_disp e)) + busy (workers e)"

fun accepted :: "'a ex_event \<Rightarrow> 'a list" where
  "accepted (Submitted t) = [t]"
| "accepted (Fired t) = [t]"
| "accepted _ = []"

fun done_tasks :: "'a ex_event \<Rightarrow> 'a list" where
  "done_tasks (Finished t) = [t]"
| "done_tasks _ = []"

lemmas pool_defs = on_pool_def wg_Done_def pool_count_def pool_take_def worker_Submit_def worker_invoked_def
  worker_ready_def worker_Stop_def StateChange_def set_worker_def

lemmas call_defs = executor_Submit_def SubmitDelayed_def executor_Stop_def timer_fires_def

lemma ex_step_pending:
  assumes "ex_step e ev e'"
  shows "pending e' + mset (done_tasks ev) = pending e + mset (accepted ev)"
  using assms
proof (cases rule: ex_step.cases)
  case (gave_task w t)
  then show ?thesis
    using busy_update [of w "workers e" "WBusy t"] by (simp add: pending_def pool_defs ac_simps)
next
  case (finished w t)
  then show ?thesis
    using busy_update [of w "workers e" WOffer] by (simp add: pending_def pool_defs ac_simps)
next
  case (offered w)
  then show ?thesis
    using busy_update [of w "workers e" WSelect] by (simp add: pending_def pool_defs ac_simps)
next
  case (stop_worker w k)
  then show ?thesis
    using busy_update [of w "workers e" WStopped] by (simp add: pending_def pool_defs ac_simps)
qed (auto simp: pending_def pool_defs call_defs split: if_splits)

lemma ex_run_pending:
  assumes "ex_run e evs e'"
  shows "pending e' + mset (concat (map done_tasks evs)) = pending e + mset (concat (map accepted evs))"
  using assms
proof (induction rule: ex_run.induct)
  case (ex_more e evs e' ev e'')
  then show ?case using ex_step_pending [OF ex_more.hyps(2)]
    by (simp add: ac_simps) (metis add.assoc add.commute)
qed simp

section \<open>The invariant\<close>

definition wg_ok :: "'a executor \<Rightarrow> bool" where
  "wg_ok e \<longleftrightarrow> ex_wg e = int (length (ex_senders e) + length (filter snd (ex_senders e)) + length (ex_timers e)
     + length (ex_tasks e) + length (disp_tasks (ex_disp e)))"

definition pool_ok :: "'a executor \<Rightarrow> bool" where
  "pool_ok e \<longleftrightarrow>
     pl_taskWg (ex_pool e) = int (length (disp_tasks (ex_disp e)) + size (busy (workers e))) \<and>
     pl_wg (ex_pool e) = int (live (workers e)) \<and> WNew \<notin> set (workers e)"

text \<open>Every worker in its \<open>select\<close> is in the channel, or in the dispatcher's or in \<open>Stop\<close>'s hand,
  and in one place only.\<close>

definition held :: "'a executor \<Rightarrow> nat list" where
  "held e = avail e @ disp_held (ex_disp e) @ stop_held (ex_stop e)"

definition held_ok :: "'a executor \<Rightarrow> bool" where
  "held_ok e \<longleftrightarrow> distinct (held e) \<and> set (held e) = {w. w < length (workers e) \<and> workers e ! w = WSelect}"

fun stop_quiet :: "stop_pc \<Rightarrow> bool" where
  "stop_quiet StopNone = False"
| "stop_quiet (StopWaitWg b) = False"
| "stop_quiet _ = True"

fun stop_left :: "nat \<Rightarrow> stop_pc \<Rightarrow> nat" where
  "stop_left n (StopCollect k) = k"
| "stop_left n (StopHold w k) = Suc k"
| "stop_left n StopReturned = 0"
| "stop_left n _ = n"

fun disp_over :: "stop_pc \<Rightarrow> bool" where
  "disp_over StopWaitTasks = True"
| "disp_over (StopCollect k) = True"
| "disp_over (StopHold w k) = True"
| "disp_over StopReturned = True"
| "disp_over _ = False"

definition phase_ok :: "'a executor \<Rightarrow> bool" where
  "phase_ok e \<longleftrightarrow>
     ex_state e \<noteq> NEW \<and> (ex_state e = STARTED \<longleftrightarrow> ex_stop e = StopNone) \<and> ex_disp e \<noteq> DispOff \<and>
     (ex_disp e = DispDone \<longleftrightarrow> disp_over (ex_stop e)) \<and>
     (stop_quiet (ex_stop e) \<longrightarrow>
        ex_senders e = [] \<and> ex_timers e = [] \<and> ex_tasks e = [] \<and> disp_tasks (ex_disp e) = []) \<and>
     live (workers e) = stop_left (length (workers e)) (ex_stop e)"

definition ex_inv :: "'a executor \<Rightarrow> bool" where
  "ex_inv e \<longleftrightarrow> wg_ok e \<and> pool_ok e \<and> held_ok e \<and> phase_ok e"

lemma wg_ok_step:
  assumes "ex_step e ev e'" "wg_ok e"
  shows "wg_ok e'"
  using assms
proof (cases rule: ex_step.cases)
  case (fired t)
  then show ?thesis using length_remove1_Suc [of t "ex_timers e"] assms(2)
    by (simp add: wg_ok_def call_defs pool_defs)
next
  case (dropped t)
  then show ?thesis using length_remove1_Suc [of t "ex_timers e"] assms(2)
    by (simp add: wg_ok_def call_defs pool_defs)
qed (auto simp: wg_ok_def pool_defs call_defs split: if_splits)

lemma pool_ok_step:
  assumes "ex_step e ev e'" "pool_ok e"
  shows "pool_ok e'"
  using assms(1)
proof (cases rule: ex_step.cases)
  case (gave_task w t)
  then show ?thesis
    using busy_size_update [of w "workers e" "WBusy t"] live_update [of w "workers e" "WBusy t"] assms(2)
    by (simp add: pool_ok_def pool_defs no_new_update)
next
  case (finished w t)
  then show ?thesis
    using busy_size_update [of w "workers e" WOffer] live_update [of w "workers e" WOffer] assms(2)
    by (simp add: pool_ok_def pool_defs no_new_update)
next
  case (offered w)
  then show ?thesis
    using busy_size_update [of w "workers e" WSelect] live_update [of w "workers e" WSelect] assms(2)
    by (simp add: pool_ok_def pool_defs no_new_update)
next
  case (stop_worker w k)
  then show ?thesis
    using busy_size_update [of w "workers e" WStopped] live_update [of w "workers e" WStopped] assms(2)
    by (simp add: pool_ok_def pool_defs no_new_update)
qed (use assms(2) in \<open>auto simp: pool_ok_def pool_defs call_defs split: if_splits\<close>)

lemma held_ok_step:
  assumes "ex_step e ev e'" "held_ok e" "phase_ok e"
  shows "held_ok e'"
  using assms(1)
proof (cases rule: ex_step.cases)
  case (gave_task w t)
  then show ?thesis using assms(2)
    by (auto simp: held_ok_def held_def pool_defs nth_list_update set_eq_iff)
next
  case (finished w t)
  then show ?thesis using assms(2)
    by (auto simp: held_ok_def held_def pool_defs nth_list_update set_eq_iff)
next
  case (offered w)
  then have "w \<notin> set (held e)" using assms(2) by (simp add: held_ok_def)
  then show ?thesis using offered assms(2)
    by (auto simp: held_ok_def held_def pool_defs nth_list_update set_eq_iff)
next
  case (stop_worker w k)
  then show ?thesis using assms(2)
    by (auto simp: held_ok_def held_def pool_defs nth_list_update set_eq_iff)
next
  case (stop_called b)
  then have "ex_stop e = StopNone" using assms(3) by (auto simp: phase_ok_def call_defs split: if_splits)
  then show ?thesis using stop_called assms(2)
    by (auto simp: held_ok_def held_def call_defs split: if_splits)
qed (use assms(2) in \<open>auto simp: held_ok_def held_def pool_defs call_defs split: if_splits\<close>)

lemma phase_ok_step:
  assumes "ex_step e ev e'" "phase_ok e" "wg_ok e"
  shows "phase_ok e'"
  using assms(1)
proof (cases rule: ex_step.cases)
  case (gave_task w t)
  then show ?thesis
    using live_update [of w "workers e" "WBusy t"] assms(2) by (auto simp: phase_ok_def pool_defs)
next
  case (finished w t)
  then show ?thesis
    using live_update [of w "workers e" WOffer] assms(2) by (auto simp: phase_ok_def pool_defs)
next
  case (offered w)
  then show ?thesis
    using live_update [of w "workers e" WSelect] assms(2) by (auto simp: phase_ok_def pool_defs)
next
  case (stop_worker w k)
  then show ?thesis
    using live_update [of w "workers e" WStopped] assms(2) by (auto simp: phase_ok_def pool_defs)
next
  case (stop_waited b)
  then have "ex_senders e = [] \<and> ex_timers e = [] \<and> ex_tasks e = [] \<and> disp_tasks (ex_disp e) = []"
    using assms(3) unfolding wg_ok_def by (auto simp flip: of_nat_add)
  then show ?thesis using stop_waited assms(2) by (auto simp: phase_ok_def)
qed (use assms(2) in \<open>auto simp: phase_ok_def pool_defs call_defs split: if_splits\<close>)

lemma ex_step_inv: "ex_step e ev e' \<Longrightarrow> ex_inv e \<Longrightarrow> ex_inv e'"
  unfolding ex_inv_def using wg_ok_step pool_ok_step held_ok_step phase_ok_step by blast

lemma started_inv: "ex_inv (started_executor name n q)"
  by (auto simp: ex_inv_def started_executor_def executor_Start_def NewExecutor_def NewPool_def pool_Start_def
      wg_ok_def pool_ok_def held_ok_def held_def phase_ok_def)

lemma ex_run_inv:
  assumes "ex_run e evs e'" "ex_inv e"
  shows "ex_inv e'"
  using assms by (induction rule: ex_run.induct) (auto intro: ex_step_inv)

lemma ex_step_workers: "ex_step e ev e' \<Longrightarrow> length (workers e') = length (workers e)"
  by (induction rule: ex_step.induct) (auto simp: pool_defs call_defs split: if_splits)

lemma ex_run_workers: "ex_run e evs e' \<Longrightarrow> length (workers e') = length (workers e)"
  by (induction rule: ex_run.induct) (auto dest: ex_step_workers)

section \<open>Every task once\<close>

definition tasks_of :: "('a ex_event \<Rightarrow> 'a list) \<Rightarrow> 'a ex_event list \<Rightarrow> 'a multiset" where
  "tasks_of f evs = mset (concat (map f evs))"

text \<open>C11: the executor neither loses nor repeats a task, and its counters are right. At any moment the
  tasks accepted so far are the finished ones and the ones still in a submitter's hand, in the
  queue, in the dispatcher's hand or in a worker; the wait group of the executor counts what is
  ahead of the workers (twice for a delayed submission that waits for room), the one of the pool
  what has been taken out of the queue, so neither goes below zero.\<close>

theorem executor_conserves:
  assumes "ex_run (started_executor name n q) evs e"
  shows "tasks_of accepted evs = tasks_of done_tasks evs + pending e
    \<and> ex_wg e = int (length (ex_senders e) + length (filter snd (ex_senders e)) + length (ex_timers e)
        + length (ex_tasks e) + length (disp_tasks (ex_disp e)))
    \<and> pl_taskWg (ex_pool e) = int (length (disp_tasks (ex_disp e)) + size (busy (workers e)))
    \<and> 0 \<le> pl_wg (ex_pool e) \<and> length (avail e) \<le> n"
proof -
  have inv: "ex_inv e" using ex_run_inv [OF assms started_inv] .
  have n: "length (workers e) = n"
    using ex_run_workers [OF assms]
    by (simp add: started_executor_def executor_Start_def NewExecutor_def NewPool_def pool_Start_def)
  have "pending (started_executor name n q) = {#}"
    by (simp add: pending_def started_executor_def executor_Start_def NewExecutor_def NewPool_def pool_Start_def)
  then have "tasks_of accepted evs = tasks_of done_tasks evs + pending e"
    using ex_run_pending [OF assms] by (simp add: tasks_of_def add.commute)
  moreover have "distinct (avail e)" "set (avail e) \<subseteq> {..<n}"
    using inv n by (auto simp: ex_inv_def held_ok_def held_def)
  then have "length (avail e) \<le> n"
    by (metis card_lessThan card_mono distinct_card finite_lessThan)
  ultimately show ?thesis using inv by (simp add: ex_inv_def wg_ok_def pool_ok_def)
qed

text \<open>C20: when \<open>Stop\<close> has returned, every accepted task has been run exactly once and every worker has
  ended; this holds for both values of \<open>wait\<close>, since collecting the workers waits for each of them
  to be free. What is lost are the delayed submissions whose delay was not over.\<close>

theorem stop_completes_all:
  assumes "ex_run (started_executor name n q) evs e" "ex_stop e = StopReturned"
  shows "tasks_of accepted evs = tasks_of done_tasks evs \<and> (\<forall>x \<in> set (workers e). x = WStopped)
    \<and> ex_disp e = DispDone"
proof -
  have inv: "ex_inv e" using ex_run_inv [OF assms(1) started_inv] .
  have stopped: "\<forall>x \<in> set (workers e). x = WStopped"
    using inv assms(2) by (auto simp: ex_inv_def phase_ok_def live_def filter_empty_conv)
  then have "map worker_tasks (workers e) = map (\<lambda>_. []) (workers e)" by auto
  then have "busy (workers e) = {#}" by (simp add: busy_def)
  then have "pending e = {#}" "ex_disp e = DispDone"
    using inv assms(2) by (auto simp: ex_inv_def phase_ok_def pending_def)
  moreover have "pending (started_executor name n q) = {#}"
    by (simp add: pending_def started_executor_def executor_Start_def NewExecutor_def NewPool_def pool_Start_def)
  ultimately show ?thesis
    using ex_run_pending [OF assms(1)] stopped by (simp add: tasks_of_def)
qed

section \<open>Stopping ends\<close>

text \<open>The steps of the executor itself; the others are calls from outside.\<close>

fun own_step :: "'a ex_event \<Rightarrow> bool" where
  "own_step (Submitted t) = False"
| "own_step (DelayedSubmit t) = False"
| "own_step (Refused t) = False"
| "own_step (StopCalled b) = False"
| "own_step _ = True"

fun worker_weight :: "'a worker \<Rightarrow> unit list" where
  "worker_weight (WBusy t) = [(), (), ()]"
| "worker_weight WOffer = [()]"
| "worker_weight _ = []"

definition workers_weight :: "'a worker list \<Rightarrow> nat" where
  "workers_weight ws = size (mset (concat (map worker_weight ws)))"

fun disp_weight :: "'a dispatcher \<Rightarrow> nat" where
  "disp_weight (DispWait t) = 5"
| "disp_weight (DispGive w t) = 4"
| "disp_weight _ = 0"

fun stop_weight :: "nat \<Rightarrow> stop_pc \<Rightarrow> nat" where
  "stop_weight n StopNone = 0"
| "stop_weight n (StopWaitWg b) = 2 * n + 5"
| "stop_weight n (StopTerm b) = 2 * n + 4"
| "stop_weight n StopWaitTasks = 2 * n + 3"
| "stop_weight n (StopCollect k) = 2 * k + 2"
| "stop_weight n (StopHold w k) = 2 * k + 3"
| "stop_weight n StopReturned = 0"

definition ex_weight :: "'a executor \<Rightarrow> nat" where
  "ex_weight e = length (ex_timers e) + 7 * length (ex_senders e) + 6 * length (ex_tasks e)
     + disp_weight (ex_disp e) + workers_weight (workers e) + stop_weight (length (workers e)) (ex_stop e)"

lemma weight_update:
  assumes "w < length ws"
  shows "workers_weight (ws[w := x]) + length (worker_weight (ws ! w)) = workers_weight ws + length (worker_weight x)"
proof -
  have "size (mset (concat (map worker_weight (ws[w := x]))) + mset (worker_weight (ws ! w)))
      = size (mset (concat (map worker_weight ws)) + mset (worker_weight x))"
    by (simp only: mset_concat_update [OF assms])
  then show ?thesis unfolding workers_weight_def by (simp only: size_union size_mset)
qed

lemma own_step_weight:
  assumes "ex_step e ev e'" "own_step ev" "ex_state e = TERMINATED"
  shows "ex_weight e' < ex_weight e \<and> ex_state e' = TERMINATED"
  using assms(1)
proof (cases rule: ex_step.cases)
  case (gave_task w t)
  then show ?thesis
    using weight_update [of w "workers e" "WBusy t"] assms(3) by (simp add: ex_weight_def pool_defs)
next
  case (finished w t)
  then show ?thesis
    using weight_update [of w "workers e" WOffer] assms(3) by (simp add: ex_weight_def pool_defs)
next
  case (offered w)
  then show ?thesis
    using weight_update [of w "workers e" WSelect] assms(3) by (simp add: ex_weight_def pool_defs)
next
  case (stop_worker w k)
  then show ?thesis
    using weight_update [of w "workers e" WStopped] assms(3) by (simp add: ex_weight_def pool_defs)
next
  case (dropped t)
  then show ?thesis using length_remove1_Suc [of t "ex_timers e"] assms(3)
    by (simp add: ex_weight_def pool_defs call_defs)
qed (use assms(2,3) in \<open>auto simp: ex_weight_def pool_defs call_defs split: if_splits\<close>)

definition can_move :: "'a executor \<Rightarrow> bool" where
  "can_move e \<longleftrightarrow> (\<exists>ev e'. ex_step e ev e' \<and> own_step ev)"

lemma can_moveI: "ex_step e ev e' \<Longrightarrow> own_step ev \<Longrightarrow> can_move e"
  by (auto simp: can_move_def)

lemma worker_moves:
  assumes "ex_inv e" "w < length (workers e)" "workers e ! w \<noteq> WSelect" "workers e ! w \<noteq> WStopped"
  shows "can_move e"
proof (cases "workers e ! w")
  case WNew
  then show ?thesis using assms(1,2) nth_mem [OF assms(2)] by (simp add: ex_inv_def pool_ok_def)
next
  case WOffer
  from can_moveI [OF ex_step.offered [OF assms(2) this]] show ?thesis by simp
next
  case (WBusy t)
  from can_moveI [OF ex_step.finished [OF assms(2) this]] show ?thesis by simp
qed (use assms in simp_all)

lemma free_worker:
  assumes "ex_inv e" "avail e = []" "disp_held (ex_disp e) = []" "stop_held (ex_stop e) = []" "0 < live (workers e)"
  shows "can_move e"
proof -
  have "\<exists>x \<in> set (workers e). x \<noteq> WStopped"
    using assms(5) by (auto simp: live_def filter_empty_conv)
  then obtain w where "w < length (workers e)" "workers e ! w \<noteq> WStopped"
    by (auto simp: in_set_conv_nth)
  moreover have "workers e ! w \<noteq> WSelect"
    using assms(1-4) calculation(1) by (auto simp: ex_inv_def held_ok_def held_def)
  ultimately show ?thesis using worker_moves [OF assms(1)] by blast
qed

lemma dispatcher_moves:
  assumes "ex_inv e" "ex_stop e = StopWaitWg b" "disp_tasks (ex_disp e) \<noteq> []" "0 < length (workers e)"
  shows "can_move e"
proof (cases "ex_disp e")
  case (DispWait t)
  show ?thesis
  proof (cases "avail e")
    case Nil
    moreover have "live (workers e) = length (workers e)" using assms(1,2) by (simp add: ex_inv_def phase_ok_def)
    ultimately show ?thesis using free_worker [OF assms(1)] DispWait assms(2,4) by simp
  next
    case (Cons w ws)
    from can_moveI [OF ex_step.got_worker [OF DispWait this]] show ?thesis by simp
  qed
next
  case (DispGive w t)
  then have "w \<in> set (held e)" by (simp add: held_def)
  then have "w < length (workers e)" "workers e ! w = WSelect"
    using assms(1) by (auto simp: ex_inv_def held_ok_def)
  from can_moveI [OF ex_step.gave_task [OF DispGive this]] show ?thesis by simp
qed (use assms in simp_all)

lemma wait_wg_moves:
  assumes "ex_inv e" "ex_stop e = StopWaitWg b" "0 < length (workers e)"
  shows "can_move e"
proof -
  have st: "ex_state e \<noteq> STARTED" "ex_disp e \<noteq> DispOff" "ex_disp e \<noteq> DispDone"
    using assms(1,2) by (auto simp: ex_inv_def phase_ok_def)
  consider (zero) "ex_wg e = 0" | (timer) t where "t \<in> set (ex_timers e)"
    | (disp) "disp_tasks (ex_disp e) \<noteq> []"
    | (queue) t ts where "ex_tasks e = t # ts" "disp_tasks (ex_disp e) = []"
    | (sender) t d ss where "ex_senders e = (t, d) # ss" "ex_tasks e = []" "disp_tasks (ex_disp e) = []"
  proof -
    show ?thesis
    proof (cases "ex_timers e = [] \<and> ex_tasks e = [] \<and> ex_senders e = [] \<and> disp_tasks (ex_disp e) = []")
      case True
      then show ?thesis using assms(1) zero by (simp add: ex_inv_def wg_ok_def)
    next
      case False
      then show ?thesis
        using timer disp queue sender by (metis list.exhaust list.set_intros(1) prod.exhaust)
    qed
  qed
  then show ?thesis
  proof cases
    case zero
    from can_moveI [OF ex_step.stop_waited [OF assms(2) this]] show ?thesis by simp
  next
    case timer
    from can_moveI [OF ex_step.dropped [OF this st(1)]] show ?thesis by simp
  next
    case disp
    then show ?thesis using dispatcher_moves assms by blast
  next
    case queue
    then have "ex_disp e = DispIdle" using st by (cases "ex_disp e") simp_all
    from can_moveI [OF ex_step.dispatch [OF queue(1) this]] show ?thesis by simp
  next
    case sender
    then have "ex_disp e = DispIdle" using st by (cases "ex_disp e") simp_all
    from can_moveI [OF ex_step.direct [of e "[]", OF _ sender(2) this]] sender(1) show ?thesis by simp
  qed
qed

lemma stopping_moves:
  assumes "ex_inv e" "ex_state e = TERMINATED" "ex_stop e \<noteq> StopReturned" "0 < length (workers e)"
  shows "can_move e"
proof (cases "ex_stop e")
  case StopNone
  then show ?thesis using assms(1,2) by (simp add: ex_inv_def phase_ok_def)
next
  case (StopWaitWg b)
  then show ?thesis using wait_wg_moves assms(1,4) by blast
next
  case (StopTerm b)
  then have "ex_disp e = DispIdle" using assms(1) by (cases "ex_disp e") (simp_all add: ex_inv_def phase_ok_def)
  from can_moveI [OF ex_step.stop_dispatcher [OF StopTerm this]] show ?thesis by simp
next
  case StopWaitTasks
  have no_tasks: "disp_tasks (ex_disp e) = []" using assms(1) StopWaitTasks by (simp add: ex_inv_def phase_ok_def)
  show ?thesis
  proof (cases "busy (workers e) = {#}")
    case True
    then have "pl_taskWg (ex_pool e) = 0" using assms(1) no_tasks by (simp add: ex_inv_def pool_ok_def)
    from can_moveI [OF ex_step.stop_tasks [OF StopWaitTasks this]] show ?thesis by simp
  next
    case False
    then obtain x where "x \<in> set (workers e)" "worker_tasks x \<noteq> []" by (auto simp: busy_def)
    then obtain w where "w < length (workers e)" "worker_tasks (workers e ! w) \<noteq> []"
      by (auto simp: in_set_conv_nth)
    then show ?thesis using worker_moves [OF assms(1), of w] by fastforce
  qed
next
  case (StopCollect k)
  have lk: "live (workers e) = k" "disp_held (ex_disp e) = []"
    using assms(1) StopCollect by (cases "ex_disp e"; simp add: ex_inv_def phase_ok_def)+
  show ?thesis
  proof (cases k)
    case 0
    then have "pl_wg (ex_pool e) = 0" using assms(1) lk by (simp add: ex_inv_def pool_ok_def)
    from can_moveI [OF ex_step.stop_pool [OF StopCollect [unfolded 0] this]] show ?thesis by simp
  next
    case (Suc j)
    show ?thesis
    proof (cases "avail e")
      case Nil
      then show ?thesis using free_worker [OF assms(1)] lk StopCollect Suc by simp
    next
      case (Cons w ws)
      from can_moveI [OF ex_step.stop_take [OF StopCollect [unfolded Suc] this]] show ?thesis by simp
    qed
  qed
next
  case (StopHold w k)
  then have "w \<in> set (held e)" by (simp add: held_def)
  then have "w < length (workers e)" "workers e ! w = WSelect"
    using assms(1) by (auto simp: ex_inv_def held_ok_def)
  from can_moveI [OF ex_step.stop_worker [OF StopHold this]] show ?thesis by simp
qed (use assms in simp)

lemma ex_run_trans: "ex_run e' evs' e'' \<Longrightarrow> ex_run e evs e' \<Longrightarrow> ex_run e (evs @ evs') e''"
proof (induction rule: ex_run.induct)
  case (ex_more e' evs' f ev f')
  then show ?case using ex_run.ex_more [of e "evs @ evs'" f ev f'] by simp
qed simp

lemma own_run_weight:
  assumes "ex_run e evs e'" "list_all own_step evs" "ex_state e = TERMINATED"
  shows "ex_weight e' + length evs \<le> ex_weight e \<and> ex_state e' = TERMINATED"
  using assms
proof (induction rule: ex_run.induct)
  case (ex_more e evs e' ev e'')
  then show ?case using own_step_weight [OF ex_more.hyps(2)] by fastforce
qed simp

lemma stop_reached:
  assumes "ex_inv e" "ex_state e = TERMINATED" "0 < length (workers e)"
  shows "\<exists>evs e'. ex_run e evs e' \<and> list_all own_step evs \<and> ex_stop e' = StopReturned"
  using assms
proof (induction "ex_weight e" arbitrary: e rule: less_induct)
  case less
  show ?case
  proof (cases "ex_stop e = StopReturned")
    case True
    then show ?thesis using ex_run.ex_start by (intro exI [of _ "[]"] exI [of _ e]) simp
  next
    case False
    then obtain ev e1 where s: "ex_step e ev e1" "own_step ev"
      using stopping_moves [OF less.prems(1,2) False less.prems(3)] by (auto simp: can_move_def)
    have w: "ex_weight e1 < ex_weight e" "ex_state e1 = TERMINATED"
      using own_step_weight [OF s less.prems(2)] by auto
    obtain evs e' where r: "ex_run e1 evs e'" "list_all own_step evs" "ex_stop e' = StopReturned"
      using less.hyps [OF w(1) ex_step_inv [OF s(1) less.prems(1)] w(2)] ex_step_workers [OF s(1)] less.prems(3)
      by auto
    have "ex_run e [ev] e1" using ex_run.ex_more [OF ex_run.ex_start s(1)] by simp
    from ex_run_trans [OF r(1) this] r(2,3) s(2) show ?thesis
      by (intro exI [of _ "[ev] @ evs"] exI [of _ e']) simp
  qed
qed

text \<open>C10: \<open>Stop\<close> returns. With at least one worker, once it has been called the executor takes at most
  \<open>ex_weight\<close> more steps of its own, whatever their order; it never stands still before \<open>Stop\<close> has
  returned; and from every state on the way the return is reached.\<close>

theorem stop_terminates:
  assumes "ex_run (started_executor name n q) evs e" "0 < n" "ex_state e = TERMINATED"
    and "ex_run e evs' e'" "list_all own_step evs'"
  shows "length evs' \<le> ex_weight e
    \<and> (ex_stop e' = StopReturned \<or> (\<exists>ev e''. ex_step e' ev e'' \<and> own_step ev))
    \<and> (\<exists>evs'' e''. ex_run e' evs'' e'' \<and> list_all own_step evs'' \<and> ex_stop e'' = StopReturned)"
proof -
  have inv: "ex_inv e'" using ex_run_inv [OF assms(4) ex_run_inv [OF assms(1) started_inv]] .
  have "length (workers e') = n"
    using ex_run_workers [OF assms(1)] ex_run_workers [OF assms(4)]
    by (simp add: started_executor_def executor_Start_def NewExecutor_def NewPool_def pool_Start_def)
  moreover have "ex_weight e' + length evs' \<le> ex_weight e" "ex_state e' = TERMINATED"
    using own_run_weight [OF assms(4,5,3)] by auto
  ultimately show ?thesis
    using stopping_moves [OF inv] stop_reached [OF inv] assms(2) by (auto simp: can_move_def)
qed

section \<open>A concrete run\<close>

text \<open>One worker, one task: after these steps the task is running and the wait group of the executor
  is at zero, so \<open>Wait\<close> returns although its comment promises that the tasks have completed.\<close>

definition one_worker :: "char executor" where
  "one_worker = started_executor ''demo'' 1 1"

definition task_running :: "char executor" where
  "task_running = one_worker\<lparr>ex_pool := \<lparr> pl_name = ''demo'', pl_workers = [WBusy CHR ''t''],
     pl_availableWorker = [], pl_taskWg = 1, pl_wg = 1 \<rparr>\<rparr>"

lemma run_cons: "ex_step e ev e1 \<Longrightarrow> ex_run e1 evs e' \<Longrightarrow> ex_run e (ev # evs) e'"
  using ex_run_trans [of e1 evs e' e "[ev]"] ex_run.ex_more [OF ex_run.ex_start] by fastforce

lemmas demo_executor_defs = one_worker_def started_executor_def executor_Start_def NewExecutor_def
  NewPool_def pool_Start_def pool_defs call_defs

lemma demo_running:
  "ex_run one_worker [Submitted CHR ''t'', Moved, Moved, Moved, Moved] task_running"
proof -
  let ?e1 = "one_worker\<lparr>ex_wg := 1, ex_senders := [(CHR ''t'', False)]\<rparr>"
  let ?e2 = "on_pool pool_count (wg_Done False (?e1\<lparr>ex_disp := DispWait CHR ''t'', ex_senders := [] @ []\<rparr>))"
  let ?e3 = "on_pool (worker_ready 0) ?e2"
  let ?e4 = "on_pool pool_take (?e3\<lparr>ex_disp := DispGive 0 CHR ''t''\<rparr>)"
  let ?e5 = "wg_Done True (on_pool (worker_Submit 0 CHR ''t'') (?e4\<lparr>ex_disp := DispIdle\<rparr>))"
  have "ex_step one_worker (Submitted CHR ''t'') ?e1"
    by (rule ex_step.submitted) (simp add: demo_executor_defs)
  moreover have "ex_step ?e1 Moved ?e2"
    by (rule ex_step.direct) (simp_all add: demo_executor_defs)
  moreover have "ex_step ?e2 Moved ?e3"
    by (rule ex_step.offered) (simp_all add: demo_executor_defs)
  moreover have "ex_step ?e3 Moved ?e4"
    by (rule ex_step.got_worker) (simp_all add: demo_executor_defs)
  moreover have "ex_step ?e4 Moved ?e5"
    by (rule ex_step.gave_task) (simp_all add: demo_executor_defs)
  moreover have "?e5 = task_running"
    by (simp add: demo_executor_defs task_running_def)
  ultimately show ?thesis by (auto intro!: run_cons ex_run.ex_start)
qed

lemma wait_returns_early: "ex_wg task_running = 0 \<and> busy (workers task_running) = {#CHR ''t''#}"
  by (simp add: task_running_def demo_executor_defs busy_def)

lemma executor_conserves_witness:
  "tasks_of accepted [Submitted CHR ''t'', Moved, Moved, Moved, Moved] = {#CHR ''t''#} \<and>
   pending task_running = {#CHR ''t''#}"
  using executor_conserves [OF demo_running [unfolded one_worker_def]]
  by (simp add: tasks_of_def)

lemma demo_stopping:
  "ex_run one_worker ([Submitted CHR ''t'', Moved, Moved, Moved, Moved] @ [StopCalled True])
     (snd (executor_Stop True task_running))"
proof -
  have "ex_step task_running (StopCalled True) (snd (executor_Stop True task_running))"
    by (rule ex_step.stop_called) (simp add: task_running_def demo_executor_defs)
  from ex_run.ex_more [OF demo_running this] show ?thesis .
qed

lemma stop_terminates_witness:
  "\<exists>evs e. ex_run (snd (executor_Stop True task_running)) evs e \<and> ex_stop e = StopReturned"
proof -
  have t: "ex_state (snd (executor_Stop True task_running)) = TERMINATED"
    by (simp add: task_running_def demo_executor_defs)
  show ?thesis
    using stop_terminates [OF demo_stopping [unfolded one_worker_def] _ t ex_run.ex_start] by auto
qed

lemma stop_completes_all_witness:
  "\<exists>evs e. ex_run one_worker evs e \<and> ex_stop e = StopReturned \<and> ex_disp e = DispDone"
proof -
  have t: "ex_state (snd (executor_Stop True task_running)) = TERMINATED"
      "0 < length (workers (snd (executor_Stop True task_running)))"
    by (simp_all add: task_running_def demo_executor_defs)
  have inv: "ex_inv (snd (executor_Stop True task_running))"
    using ex_run_inv [OF demo_stopping [unfolded one_worker_def] started_inv] .
  obtain evs e where r: "ex_run (snd (executor_Stop True task_running)) evs e" "ex_stop e = StopReturned"
    using stop_reached [OF inv t] by blast
  note run = ex_run_trans [OF r(1) demo_stopping]
  from stop_completes_all [OF run [unfolded one_worker_def] r(2)] run r(2) show ?thesis by blast
qed

end
