(* ===== verification/CliArgs.thy ===== *)
theory CliArgs
  imports GoText
begin

text \<open>
  The argument language of fabric-cli (fabric/fabric-cli/chaincode/utils/util.go): before a chaincode
  is called, each argument is rewritten six times, for \<open>$seq()\<close>, \<open>$rand(n)\<close>, \<open>$pad(n,chars)\<close>,
  \<open>$file(path)\<close>, \<open>$set(var,value)\<close> and \<open>${var}\<close> in this order, by one loop over the text that calls an
  evaluator for each occurrence. The evaluators thread the package counter, the random source and the
  variables of the context; a panic of an evaluator ends the program.
\<close>

section \<open>The loop\<close>

text \<open>\<open>evaluateExpression\<close>: the slices panic out of range as in Go, which also bounds the recursion.
  The text of an unterminated call is printed and returned alone.\<close>

function evaluateExpression ::
    "string \<Rightarrow> string \<Rightarrow> string \<Rightarrow> (string \<Rightarrow> 's \<Rightarrow> string outcome \<times> 's) \<Rightarrow> string \<Rightarrow> 's \<Rightarrow> string outcome \<times> 's"
  where
  "evaluateExpression expression funcType endDelim evaluate result s =
     (case index_of expression funcType of
        None \<Rightarrow> (Ok (result @ expression), s)
      | Some i \<Rightarrow>
          (case index_of (drop i expression) endDelim of
             None \<Rightarrow> (Ok expression, s)
           | Some k \<Rightarrow>
               let j = i + k; b = i + length funcType in
               if j < b then (Panic ''slice bounds out of range'', s)
               else
                 (case evaluate (take (j - b) (drop b expression)) s of
                    (Panic p, s) \<Rightarrow> (Panic p, s)
                  | (r, s) \<Rightarrow>
                      if length expression < j + 1 then (Panic ''slice bounds out of range'', s)
                      else
                        evaluateExpression (drop (j + 1) expression) funcType endDelim evaluate
                          (case r of
                             Ok replacement \<Rightarrow> result @ take i expression @ replacement
                           | _ \<Rightarrow> result @ take (j + 1) expression) s)))"
  by pat_completeness auto

termination
  by (relation "measure (\<lambda>(expression, _). length expression)") auto

declare evaluateExpression.simps [simp del]

section \<open>The context and the evaluators\<close>

text \<open>The package variable \<open>sequence\<close>, the map of a \<open>defaultContext\<close> and the random source.\<close>

record 'r arg_state =
  as_sequence :: u64
  as_vars :: "string \<rightharpoonup> string"
  as_rand :: 'r

definition NewContext :: "string \<rightharpoonup> string" where
  "NewContext = Map.empty"

definition SetVar :: "string \<Rightarrow> string \<Rightarrow> (string \<rightharpoonup> string) \<Rightarrow> (string \<rightharpoonup> string)" where
  "SetVar k v vars = vars(k \<mapsto> v)"

definition GetVar :: "string \<Rightarrow> (string \<rightharpoonup> string) \<Rightarrow> string \<times> bool" where
  "GetVar k vars = (case vars k of None \<Rightarrow> ([], False) | Some v \<Rightarrow> (v, True))"

text \<open>The random source returns a number below a positive bound; files are opened and read by path,
  each step with its own error.\<close>

record 'r arg_env =
  ae_Int63n :: "'r \<Rightarrow> i64 \<Rightarrow> i64 \<times> 'r"
  ae_open :: "string \<Rightarrow> goerr option"
  ae_read :: "string \<Rightarrow> goerr + string"

definition readFile :: "'r arg_env \<Rightarrow> string \<Rightarrow> string outcome" where
  "readFile env filePath =
     (case ae_open env (path_clean filePath) of
        Some e \<Rightarrow> Err (ErrWrap (''error opening file ['' @ filePath @ '']'') e)
      | None \<Rightarrow>
          (case ae_read env (path_clean filePath) of
             Inl e \<Rightarrow> Err (ErrWrap (''error reading config file ['' @ filePath @ '']'') e)
           | Inr configBytes \<Rightarrow> Ok configBytes))"

definition eval_seq :: "string \<Rightarrow> 'r arg_state \<Rightarrow> string outcome \<times> 'r arg_state" where
  "eval_seq expression s =
     (let n = as_sequence s + 1 in (Ok (show_nat (unat n)), s\<lparr>as_sequence := n\<rparr>))"

text \<open>\<open>Int63n\<close> panics if its bound is not positive.\<close>

definition eval_rand :: "'r arg_env \<Rightarrow> string \<Rightarrow> 'r arg_state \<Rightarrow> string outcome \<times> 'r arg_state" where
  "eval_rand env expression s =
     (case atoi expression of
        (n, Some e) \<Rightarrow> (Err (ErrNew (''invalid number '' @ expression @ '' in $rand expression'')), s)
      | (n, None) \<Rightarrow>
          if sint n \<le> 0 then (Panic ''invalid argument to Int63n'', s)
          else let (v, r) = ae_Int63n env (as_rand s) n in (Ok (itoa v), s\<lparr>as_rand := r\<rparr>))"

definition eval_pad :: "string \<Rightarrow> 's \<Rightarrow> string outcome \<times> 's" where
  "eval_pad expression s =
     (let w = split_on (CHR '','') expression in
      if length w \<noteq> 2 then
        (Err (ErrNew (''invalid $pad expression: '' @ expression @ ''. Expecting $pad(n,chars)'')), s)
      else
        (case atoi (w ! 0) of
           (n, Some e) \<Rightarrow> (Err (ErrNew (''invalid number '' @ w ! 0 @ '' in $pad expression'')), s)
         | (n, None) \<Rightarrow> (Ok (concat (replicate (nat (sint n)) (w ! 1))), s)))"

definition eval_file :: "'r arg_env \<Rightarrow> string \<Rightarrow> 's \<Rightarrow> string outcome \<times> 's" where
  "eval_file env expression s = (readFile env expression, s)"

definition eval_set :: "string \<Rightarrow> 'r arg_state \<Rightarrow> string outcome \<times> 'r arg_state" where
  "eval_set expression s =
     (let w = split_on (CHR '','') expression in
      if length w \<noteq> 2 then
        (Err (ErrNew (''invalid $set expression: '' @ expression @ ''. Expecting $set(var,value)'')), s)
      else (Ok (w ! 1), s\<lparr>as_vars := SetVar (w ! 0) (w ! 1) (as_vars s)\<rparr>))"

definition eval_var :: "string \<Rightarrow> 'r arg_state \<Rightarrow> string outcome \<times> 'r arg_state" where
  "eval_var varName s =
     (case GetVar varName (as_vars s) of
        (value, False) \<Rightarrow> (Err (ErrNew (''variable ['' @ varName @ ''] not set'')), s)
      | (value, True) \<Rightarrow> (Ok value, s))"

definition evaluateSeqExpression :: "string \<Rightarrow> 'r arg_state \<Rightarrow> string outcome \<times> 'r arg_state" where
  "evaluateSeqExpression arg s = evaluateExpression arg ''$seq('' '')'' eval_seq [] s"

definition evaluateRandExpression ::
    "'r arg_env \<Rightarrow> string \<Rightarrow> 'r arg_state \<Rightarrow> string outcome \<times> 'r arg_state" where
  "evaluateRandExpression env arg s = evaluateExpression arg ''$rand('' '')'' (eval_rand env) [] s"

definition evaluatePadExpression :: "string \<Rightarrow> 'r arg_state \<Rightarrow> string outcome \<times> 'r arg_state" where
  "evaluatePadExpression arg s = evaluateExpression arg ''$pad('' '')'' eval_pad [] s"

definition evaluateFileExpression ::
    "'r arg_env \<Rightarrow> string \<Rightarrow> 'r arg_state \<Rightarrow> string outcome \<times> 'r arg_state" where
  "evaluateFileExpression env arg s = evaluateExpression arg ''$file('' '')'' (eval_file env) [] s"

definition evaluateSetExpression :: "string \<Rightarrow> 'r arg_state \<Rightarrow> string outcome \<times> 'r arg_state" where
  "evaluateSetExpression arg s = evaluateExpression arg ''$set('' '')'' eval_set [] s"

definition evaluateVarExpression :: "string \<Rightarrow> 'r arg_state \<Rightarrow> string outcome \<times> 'r arg_state" where
  "evaluateVarExpression arg s = evaluateExpression arg ''${'' ''}'' eval_var [] s"

text \<open>One rewriting after the other; an evaluator never returns an error to the caller.\<close>

fun and_then ::
    "string outcome \<times> 's \<Rightarrow> (string \<Rightarrow> 's \<Rightarrow> string outcome \<times> 's) \<Rightarrow> string outcome \<times> 's" where
  "and_then (Ok arg, s) f = f arg s"
| "and_then (Err e, s) f = (Err e, s)"
| "and_then (Panic p, s) f = (Panic p, s)"

definition getArg :: "'r arg_env \<Rightarrow> string \<Rightarrow> 'r arg_state \<Rightarrow> string outcome \<times> 'r arg_state" where
  "getArg env arg s =
     and_then (and_then (and_then (and_then (and_then
       (evaluateSeqExpression arg s)
       (evaluateRandExpression env))
       evaluatePadExpression)
       (evaluateFileExpression env))
       evaluateSetExpression)
       evaluateVarExpression"

text \<open>\<open>AsBytes\<close> on a random source that has just been seeded.\<close>

fun AsBytes_loop :: "'r arg_env \<Rightarrow> string list \<Rightarrow> 'r arg_state \<Rightarrow> bytes list outcome \<times> 'r arg_state" where
  "AsBytes_loop env [] s = (Ok [], s)"
| "AsBytes_loop env (a # args) s =
     (case getArg env a s of
        (Panic p, s) \<Rightarrow> (Panic p, s)
      | (Err e, s) \<Rightarrow> (Err e, s)
      | (Ok arg, s) \<Rightarrow>
          (case AsBytes_loop env args s of
             (Ok bs, s) \<Rightarrow> (Ok (str_bytes arg # bs), s)
           | r \<Rightarrow> r))"

definition AsBytes :: "'r arg_env \<Rightarrow> 'r \<Rightarrow> string list \<Rightarrow> 'r arg_state \<Rightarrow> bytes list outcome \<times> 'r arg_state" where
  "AsBytes env seeded args s = AsBytes_loop env args (s\<lparr>as_rand := seeded\<rparr>)"

section \<open>What a rewriting does\<close>

text \<open>The calls of a text, each with the plain text before it and its argument, then the rest. The
  flag is false if the rest holds a call that is not closed.\<close>

function split_calls :: "string \<Rightarrow> string \<Rightarrow> char \<Rightarrow> (string \<times> string) list \<times> string \<times> bool" where
  "split_calls e f d =
     (case index_of e f of
        None \<Rightarrow> ([], e, True)
      | Some i \<Rightarrow>
          let rest = drop (i + length f) e; x = takeWhile (\<lambda>c. c \<noteq> d) rest in
          if d \<in> set rest then
            (case split_calls (drop (Suc (i + length f + length x)) e) f d of
               (cs, tail, closed) \<Rightarrow> ((take i e, x) # cs, tail, closed))
          else ([], e, False))"
  by pat_completeness auto

termination
  by (relation "measure (\<lambda>(e, _). length e)") (auto dest!: in_set_dropD length_pos_if_in_set)

declare split_calls.simps [simp del]

text \<open>The evaluator runs over the calls in order; a call it refuses stays in the text.\<close>

fun eval_calls ::
    "string \<Rightarrow> char \<Rightarrow> (string \<Rightarrow> 's \<Rightarrow> string outcome \<times> 's) \<Rightarrow> (string \<times> string) list \<Rightarrow> string \<Rightarrow> 's \<Rightarrow>
     string outcome \<times> 's" where
  "eval_calls f d evaluate [] out s = (Ok out, s)"
| "eval_calls f d evaluate ((t, x) # cs) out s =
     (case evaluate x s of
        (Panic p, s) \<Rightarrow> (Panic p, s)
      | (Err e, s) \<Rightarrow> eval_calls f d evaluate cs (out @ t @ f @ x @ [d]) s
      | (Ok r, s) \<Rightarrow> eval_calls f d evaluate cs (out @ t @ r) s)"

definition spec_expression ::
    "string \<Rightarrow> string \<Rightarrow> char \<Rightarrow> (string \<Rightarrow> 's \<Rightarrow> string outcome \<times> 's) \<Rightarrow> string \<Rightarrow> 's \<Rightarrow> string outcome \<times> 's"
  where
  "spec_expression e f d evaluate out s =
     (case split_calls e f d of
        (cs, tail, closed) \<Rightarrow>
          (case eval_calls f d evaluate cs out s of
             (Ok r, s) \<Rightarrow> (Ok (if closed then r @ tail else tail), s)
           | q \<Rightarrow> q))"

lemma index_of_char:
  "index_of s [d] = (if d \<in> set s then Some (length (takeWhile (\<lambda>c. c \<noteq> d) s)) else None)"
proof (induction s)
  case (Cons c s)
  have "starts_with (c # s) [d] \<longleftrightarrow> c = d" by (cases s) auto
  then show ?case using Cons by auto
qed simp

lemma index_of_char_after:
  assumes "d \<notin> set f"
  shows "index_of (f @ r) [d] =
    (if d \<in> set r then Some (length f + length (takeWhile (\<lambda>c. c \<noteq> d) r)) else None)"
proof -
  have "takeWhile (\<lambda>c. c \<noteq> d) (f @ r) = f @ takeWhile (\<lambda>c. c \<noteq> d) r"
    by (rule takeWhile_append2) (use assms in auto)
  then show ?thesis using assms by (simp add: index_of_char)
qed

lemma index_of_split:
  assumes "index_of e f = Some i"
  shows "e = take i e @ f @ drop (i + length f) e" "i + length f \<le> length e"
    "drop i e = f @ drop (i + length f) e"
proof -
  obtain r where r: "e = take i e @ f @ r" "i + length f \<le> length e"
    using index_of_Some [OF assms] by blast
  then have "length (take i e) = i" by simp
  then have d: "drop i e = f @ r" using r(1) by (metis append_eq_conv_conj)
  then have "drop (length f) (drop i e) = r" by simp
  then have "drop (i + length f) e = r" by (simp add: add.commute)
  with r d show "e = take i e @ f @ drop (i + length f) e" "i + length f \<le> length e"
    "drop i e = f @ drop (i + length f) e" by simp_all
qed

lemma takeWhile_split:
  "d \<in> set r \<Longrightarrow> r = takeWhile (\<lambda>c. c \<noteq> d) r @ d # drop (Suc (length (takeWhile (\<lambda>c. c \<noteq> d) r))) r"
  by (induction r) auto

lemma split_calls_lossless:
  "split_calls e f d = (cs, tail, closed) \<Longrightarrow>
   e = concat (map (\<lambda>(t, x). t @ f @ x @ [d]) cs) @ tail"
proof (induction e f d arbitrary: cs rule: split_calls.induct)
  case (1 e f d)
  show ?case
  proof (cases "index_of e f")
    case None
    then show ?thesis using "1.prems" by (simp add: split_calls.simps [of e])
  next
    case (Some i)
    let ?rest = "drop (i + length f) e"
    let ?x = "takeWhile (\<lambda>c. c \<noteq> d) ?rest"
    show ?thesis
    proof (cases "d \<in> set ?rest")
      case False
      then show ?thesis using "1.prems" Some by (simp add: split_calls.simps [of e])
    next
      case True
      let ?next = "drop (Suc (i + length f + length ?x)) e"
      obtain cs' where cs': "split_calls ?next f d = (cs', tail, closed)" "cs = (take i e, ?x) # cs'"
        using "1.prems" Some True by (auto simp: split_calls.simps [of e] Let_def split: prod.splits)
      have "?next = drop (Suc (length ?x)) ?rest" by (simp add: add.commute add.left_commute)
      then have "?rest = ?x @ d # ?next" using takeWhile_split [OF True] by simp
      moreover have "?next = concat (map (\<lambda>(t, x). t @ f @ x @ [d]) cs') @ tail"
        using "1.IH" [OF Some refl refl True cs'(1)] .
      ultimately show ?thesis using index_of_split(1) [OF Some] cs'(2) by simp
    qed
  qed
qed

lemma evaluateExpression_spec:
  "d \<notin> set f \<Longrightarrow> evaluateExpression e f [d] ev out s = spec_expression e f d ev out s"
proof (induction e f d arbitrary: out s rule: split_calls.induct)
  case (1 e f d)
  show ?case
  proof (cases "index_of e f")
    case None
    then show ?thesis
      by (simp add: spec_expression_def split_calls.simps [of e] evaluateExpression.simps [of e])
  next
    case (Some i)
    note sp = index_of_split [OF Some]
    let ?rest = "drop (i + length f) e"
    let ?x = "takeWhile (\<lambda>c. c \<noteq> d) ?rest"
    have ind: "index_of (drop i e) [d] = (if d \<in> set ?rest then Some (length f + length ?x) else None)"
      unfolding sp(3) by (rule index_of_char_after [OF "1.prems"])
    show ?thesis
    proof (cases "d \<in> set ?rest")
      case False
      then show ?thesis using Some ind
        by (simp add: spec_expression_def split_calls.simps [of e] evaluateExpression.simps [of e])
    next
      case True
      let ?next = "drop (Suc (i + length f + length ?x)) e"
      have next_eq: "?next = drop (Suc (length ?x)) ?rest" by (simp add: add.commute add.left_commute)
      have rest: "?rest = ?x @ d # ?next" using takeWhile_split [OF True] next_eq by simp
      then have arg: "take (length ?x) ?rest = ?x" by (metis append_eq_conv_conj)
      have len: "\<not> length e < Suc (i + length f + length ?x)"
        using arg_cong [OF rest, of length] sp(2) by simp
      have e: "e = (take i e @ f @ ?x @ [d]) @ ?next" using sp(1) rest by simp
      have pre: "take (Suc (i + length f + length ?x)) e = take i e @ f @ ?x @ [d]"
        using arg_cong [OF e, of "take (Suc (i + length f + length ?x))"] sp(2) by simp
      have ih: "evaluateExpression ?next f [d] ev out s = spec_expression ?next f d ev out s" for out s
        using "1.IH" [OF Some refl refl True "1.prems"] .
      obtain r s' where ev: "ev ?x s = (r, s')" by fastforce
      have step: "evaluateExpression e f [d] ev out s =
          (case (r, s') of
             (Panic p, s) \<Rightarrow> (Panic p, s)
           | (r, s) \<Rightarrow> evaluateExpression ?next f [d] ev
               (case r of Ok replacement \<Rightarrow> out @ take i e @ replacement
                | _ \<Rightarrow> out @ take i e @ f @ ?x @ [d]) s)"
        using Some ind True len pre arg ev
        by (subst evaluateExpression.simps) (simp add: Let_def add.assoc split: outcome.split)
      show ?thesis
        unfolding step
        using Some True ev
        by (cases r) (simp_all add: ih spec_expression_def split_calls.simps [of e] Let_def split: prod.splits)
    qed
  qed
qed

section \<open>Rules for one step\<close>

lemma expression_text:
  "index_of e f = None \<Longrightarrow> evaluateExpression e f d ev out s = (Ok (out @ e), s)"
  by (simp add: evaluateExpression.simps [of e])

lemma expression_open:
  assumes "d \<notin> set f" "index_of e f = Some i" "d \<notin> set (drop (i + length f) e)"
  shows "evaluateExpression e f [d] ev out s = (Ok e, s)"
  using assms(2,3)
  by (simp add: evaluateExpression_spec [OF assms(1)] spec_expression_def split_calls.simps [of e])

lemma takeWhile_stop: "d \<notin> set x \<Longrightarrow> takeWhile (\<lambda>c. c \<noteq> d) (x @ d # r) = x"
  by (induction x) auto

lemma expression_call:
  assumes "d \<notin> set f" "index_of e f = Some i" "drop (i + length f) e = x @ d # r" "d \<notin> set x"
  shows "evaluateExpression e f [d] ev out s =
    (case ev x s of
       (Panic p, s) \<Rightarrow> (Panic p, s)
     | (Err e', s) \<Rightarrow> evaluateExpression r f [d] ev (out @ take i e @ f @ x @ [d]) s
     | (Ok q, s) \<Rightarrow> evaluateExpression r f [d] ev (out @ take i e @ q) s)"
proof -
  have "drop (Suc (i + length f + length x)) e = drop (Suc (length x)) (drop (i + length f) e)"
    by (simp add: add.commute add.left_commute)
  then have "drop (Suc (i + length f + length x)) e = r" by (simp add: assms(3))
  then show ?thesis
    using assms(2,4)
    by (simp add: evaluateExpression_spec [OF assms(1)] spec_expression_def split_calls.simps [of e]
        assms(3) takeWhile_stop Let_def split: prod.split outcome.split)
qed

lemma starts_with_dollar: "c \<noteq> CHR ''$'' \<Longrightarrow> \<not> starts_with (c # s) (CHR ''$'' # f)"
  by simp

lemma index_of_skip [simp]:
  "CHR ''$'' \<notin> set a \<Longrightarrow>
   index_of (a @ s) (CHR ''$'' # f) = map_option ((+) (length a)) (index_of s (CHR ''$'' # f))"
  by (cases "index_of s (CHR ''$'' # f)"; induction a) auto

lemma index_of_plain [simp]: "CHR ''$'' \<notin> set a \<Longrightarrow> index_of a (CHR ''$'' # f) = None"
  by (induction a) auto

lemma text_unchanged:
  "CHR ''$'' \<notin> set e \<Longrightarrow> evaluateExpression e (CHR ''$'' # f) d ev out s = (Ok (out @ e), s)"
  by (rule expression_text) simp

lemmas evaluators = evaluateSeqExpression_def evaluateRandExpression_def evaluatePadExpression_def
  evaluateFileExpression_def evaluateSetExpression_def evaluateVarExpression_def

section \<open>Results\<close>

definition arg_ok :: "string outcome \<times> 's \<Rightarrow> bool" where
  "arg_ok q \<longleftrightarrow> (case fst q of Ok _ \<Rightarrow> True | Err _ \<Rightarrow> False | Panic p \<Rightarrow> p = ''invalid argument to Int63n'')"

lemma arg_ok_Panic: "arg_ok (Panic p, s) \<longleftrightarrow> p = ''invalid argument to Int63n''"
  by (simp add: arg_ok_def)

lemma eval_calls_ok:
  assumes "\<And>x s p s'. ev x s = (Panic p, s') \<Longrightarrow> p = ''invalid argument to Int63n''"
  shows "arg_ok (eval_calls f d ev cs out s)"
proof (induction cs arbitrary: out s)
  case (Cons c cs)
  obtain t x r s' where c: "c = (t, x)" "ev x s = (r, s')" by (metis surj_pair)
  then show ?case
    using Cons assms [of x s _ s'] by (cases r) (simp_all add: arg_ok_Panic)
qed (simp add: arg_ok_def)

lemma expression_ok:
  assumes "d \<notin> set f" "\<And>x s p s'. ev x s = (Panic p, s') \<Longrightarrow> p = ''invalid argument to Int63n''"
  shows "arg_ok (evaluateExpression e f [d] ev out s)"
proof -
  obtain cs tail closed where sp: "split_calls e f d = (cs, tail, closed)" by (metis surj_pair)
  obtain q s' where q: "eval_calls f d ev cs out s = (q, s')" by fastforce
  have "arg_ok (q, s')" using eval_calls_ok [of ev f d cs out s, OF assms(2)] q by simp
  then show ?thesis
    by (cases q) (simp_all add: evaluateExpression_spec [OF assms(1)] spec_expression_def sp q arg_ok_def)
qed

lemma evaluators_ok:
  "arg_ok (evaluateSeqExpression arg s)" "arg_ok (evaluateRandExpression env arg s)"
  "arg_ok (evaluatePadExpression arg s)" "arg_ok (evaluateFileExpression env arg s)"
  "arg_ok (evaluateSetExpression arg s)" "arg_ok (evaluateVarExpression arg s)"
  unfolding evaluators
  by (rule expression_ok;
      auto simp: eval_seq_def eval_rand_def eval_pad_def eval_file_def eval_set_def eval_var_def readFile_def
        Let_def split: prod.splits option.splits if_splits sum.splits bool.splits)+

lemma and_then_ok: "arg_ok q \<Longrightarrow> (\<And>a s. arg_ok (f a s)) \<Longrightarrow> arg_ok (and_then q f)"
  by (induction q f rule: and_then.induct) (auto simp: arg_ok_def)

lemma getArg_ok: "arg_ok (getArg env arg s)"
  unfolding getArg_def by (intro and_then_ok evaluators_ok)

lemma AsBytes_loop_cases:
  "case fst (AsBytes_loop env args s) of
     Ok bs \<Rightarrow> length bs = length args | Err e \<Rightarrow> False | Panic p \<Rightarrow> p = ''invalid argument to Int63n''"
proof (induction args arbitrary: s)
  case (Cons a args)
  obtain r s' where g: "getArg env a s = (r, s')" by fastforce
  moreover have "arg_ok (r, s')" using getArg_ok g by metis
  ultimately show ?case
    using Cons [of s'] by (auto simp: arg_ok_def split: prod.splits outcome.splits)
qed simp

text \<open>Rewriting the arguments always comes to an end: it gives one byte string for each argument, or
  it panics in \<open>Int63n\<close> because of a \<open>$rand\<close> whose bound is not positive. No slice is ever out of range
  and no evaluator's error reaches the caller.\<close>

theorem AsBytes_ends:
  "case fst (AsBytes env seeded args s) of
     Ok bs \<Rightarrow> length bs = length args | Err e \<Rightarrow> False | Panic p \<Rightarrow> p = ''invalid argument to Int63n''"
  unfolding AsBytes_def by (rule AsBytes_loop_cases)

text \<open>C29: the loop of \<open>evaluateExpression\<close> refines a specification in two phases: the text is cut into its
  calls, losing nothing, then the evaluator runs over the calls from the left, a refused call staying as
  it was. If the rest of the text holds a call that is not closed, only this rest is returned.\<close>

theorem evaluateExpression_refines:
  assumes "d \<notin> set f" "split_calls e f d = (cs, tail, closed)"
  shows "e = concat (map (\<lambda>(t, x). t @ f @ x @ [d]) cs) @ tail
    \<and> evaluateExpression e f [d] ev out s =
        (case eval_calls f d ev cs out s of
           (Ok r, s) \<Rightarrow> (Ok (if closed then r @ tail else tail), s)
         | q \<Rightarrow> q)"
proof
  show "e = concat (map (\<lambda>(t, x). t @ f @ x @ [d]) cs) @ tail" by (rule split_calls_lossless [OF assms(2)])
qed (simp add: evaluateExpression_spec [OF assms(1)] spec_expression_def assms(2))

text \<open>The text with its calls replaced by the numbers after \<open>n\<close>.\<close>

fun numbered :: "u64 \<Rightarrow> (string \<times> string) list \<Rightarrow> string" where
  "numbered n [] = []"
| "numbered n ((t, x) # cs) = t @ show_nat (unat (n + 1)) @ numbered (n + 1) cs"

lemma eval_seq_eq:
  "eval_seq x s = (Ok (show_nat (unat (as_sequence s + 1))), s\<lparr>as_sequence := as_sequence s + 1\<rparr>)"
  by (simp add: eval_seq_def Let_def)

lemma eval_calls_seq:
  "eval_calls f d eval_seq cs out s =
     (Ok (out @ numbered (as_sequence s) cs), s\<lparr>as_sequence := as_sequence s + of_nat (length cs)\<rparr>)"
proof (induction cs arbitrary: out s)
  case (Cons c cs)
  then show ?case by (cases c) (simp add: eval_seq_eq add.assoc)
qed simp

text \<open>\<open>$seq()\<close>: each occurrence in an argument is replaced by the next number of the package counter,
  which moves on by the number of occurrences, also when their results are dropped by a call that is not
  closed.\<close>

theorem evaluateSeq_numbers:
  assumes "split_calls arg ''$seq('' CHR '')'' = (cs, tail, closed)"
  shows "evaluateSeqExpression arg s =
     (Ok (if closed then numbered (as_sequence s) cs @ tail else tail),
      s\<lparr>as_sequence := as_sequence s + of_nat (length cs)\<rparr>)"
  by (simp add: evaluateSeqExpression_def evaluateExpression_spec spec_expression_def assms eval_calls_seq)

text \<open>A variable set in an argument is there for the rest of it and for the arguments after it. For
  plain texts around the two expressions, \<open>a$set(x,v)b${x}c\<close> becomes \<open>avbvc\<close>.\<close>

theorem set_then_var:
  assumes "\<forall>w \<in> {a, b, c, x, v}. CHR ''$'' \<notin> set w"
    and "\<forall>w \<in> {x, v}. CHR '','' \<notin> set w \<and> CHR '')'' \<notin> set w" "CHR ''}'' \<notin> set x"
  shows "getArg env (a @ ''$set('' @ x @ '','' @ v @ '')'' @ b @ ''${'' @ x @ ''}'' @ c) s =
    (Ok (a @ v @ b @ v @ c), s\<lparr>as_vars := (as_vars s)(x \<mapsto> v)\<rparr>)"
proof -
  let ?e = "a @ ''$set('' @ x @ '','' @ v @ '')'' @ b @ ''${'' @ x @ ''}'' @ c"
  let ?s = "s\<lparr>as_vars := (as_vars s)(x \<mapsto> v)\<rparr>"
  have n: "index_of ?e ''$seq('' = None" "index_of ?e ''$rand('' = None" "index_of ?e ''$pad('' = None"
      "index_of ?e ''$file('' = None"
    using assms(1) by simp_all
  have sp: "split_on (CHR '','') (x @ '','' @ v) = [x, v]"
    using assms(2) by (simp add: split_on_append split_on_word)
  have "evaluateSetExpression ?e s =
      evaluateExpression (b @ ''${'' @ x @ ''}'' @ c) ''$set('' '')'' eval_set ([] @ a @ v) ?s"
    unfolding evaluateSetExpression_def
    using assms(1,2) sp
    by (subst expression_call [where i = "length a" and x = "x @ '','' @ v" and r = "b @ ''${'' @ x @ ''}'' @ c"])
      (simp_all add: eval_set_def SetVar_def)
  also have "\<dots> = (Ok (a @ v @ b @ ''${'' @ x @ ''}'' @ c), ?s)"
    using assms(1) by (subst expression_text) simp_all
  finally have set: "evaluateSetExpression ?e s = (Ok (a @ v @ b @ ''${'' @ x @ ''}'' @ c), ?s)" .
  have "evaluateVarExpression (a @ v @ b @ ''${'' @ x @ ''}'' @ c) ?s =
      evaluateExpression c ''${'' ''}'' eval_var ([] @ (a @ v @ b) @ v) ?s"
    unfolding evaluateVarExpression_def
    using assms
    by (subst expression_call [where i = "length (a @ v @ b)" and x = x and r = c])
      (simp_all add: eval_var_def GetVar_def)
  also have "\<dots> = (Ok (a @ v @ b @ v @ c), ?s)"
    using assms(1) by (subst expression_text) simp_all
  finally show ?thesis
    using set n by (simp add: getArg_def evaluateSeqExpression_def evaluateRandExpression_def
        evaluatePadExpression_def evaluateFileExpression_def expression_text)
qed

text \<open>A call that is not closed drops what came before it: of \<open>a$seq()b$seq(c\<close> only \<open>b$seq(c\<close> is
  left, although the number was taken.\<close>

theorem unterminated_drops_prefix:
  assumes "\<forall>w \<in> {a, b, c}. CHR ''$'' \<notin> set w" "CHR '')'' \<notin> set c"
  shows "getArg env (a @ ''$seq()'' @ b @ ''$seq('' @ c) s =
    (Ok (b @ ''$seq('' @ c), s\<lparr>as_sequence := as_sequence s + 1\<rparr>)"
proof -
  let ?s = "s\<lparr>as_sequence := as_sequence s + 1\<rparr>"
  let ?n = "show_nat (unat (as_sequence s + 1))"
  have "evaluateSeqExpression (a @ ''$seq()'' @ b @ ''$seq('' @ c) s =
      evaluateExpression (b @ ''$seq('' @ c) ''$seq('' '')'' eval_seq ([] @ a @ ?n) ?s"
    unfolding evaluateSeqExpression_def
    using assms(1)
    by (subst expression_call [where i = "length a" and x = "[]" and r = "b @ ''$seq('' @ c"])
      (simp_all add: eval_seq_eq)
  also have "\<dots> = (Ok (b @ ''$seq('' @ c), ?s)"
    using assms by (subst expression_open [where i = "length b"]) simp_all
  finally show ?thesis
    using assms(1)
    by (simp add: getArg_def evaluators expression_text)
qed

section \<open>Concrete arguments\<close>

text \<open>A random source that counts up and no files.\<close>

definition demo_args :: "u64 arg_env" where
  "demo_args =
     \<lparr> ae_Int63n = (\<lambda>r n. (word_of_int (sint r mod sint n), r + 1)),
       ae_open = (\<lambda>p. if p = ''/k'' then None else Some (ErrNew ''no such file'')),
       ae_read = (\<lambda>p. Inr ''${x}'') \<rparr>"

definition demo_vars :: "u64 arg_state" where
  "demo_vars = \<lparr> as_sequence = 0, as_vars = NewContext, as_rand = 0 \<rparr>"

lemma demo_seq_num: "show_nat (Suc 0) = ''1''"
  by code_simp

lemma set_then_var_witness:
  "getArg demo_args ''Key_$set(x,7)=Val_${x}'' demo_vars =
     (Ok ''Key_7=Val_7'', demo_vars\<lparr>as_vars := [''x'' \<mapsto> ''7'']\<rparr>)"
  using set_then_var [of "''Key_''" "''=Val_''" "[]" "''x''" "''7''" demo_args demo_vars]
  by (simp add: demo_vars_def NewContext_def)

lemma unterminated_drops_prefix_witness:
  "getArg demo_args ''key$seq()-$seq('' demo_vars = (Ok ''-$seq('', demo_vars\<lparr>as_sequence := 1\<rparr>)"
  using unterminated_drops_prefix [of "''key''" "''-''" "[]" demo_args demo_vars]
  by (simp add: demo_vars_def)

lemma demo_split: "split_calls ''k$seq()v'' ''$seq('' CHR '')'' = ([(''k'', [])], ''v'', True)"
  by (simp add: split_calls.simps Let_def)

lemma evaluateSeq_numbers_witness:
  "evaluateSeqExpression ''k$seq()v'' demo_vars = (Ok ''k1v'', demo_vars\<lparr>as_sequence := 1\<rparr>)"
  using evaluateSeq_numbers [OF demo_split, of demo_vars]
  by (simp add: demo_vars_def demo_seq_num)

lemma evaluateExpression_refines_witness:
  "evaluateExpression ''k$seq()v'' ''$seq('' '')'' eval_seq [] demo_vars =
     (Ok ''k1v'', demo_vars\<lparr>as_sequence := 1\<rparr>)"
  using evaluateExpression_refines [of "CHR '')''" "''$seq(''", OF _ demo_split, of eval_seq "[]" demo_vars]
  by (simp add: demo_vars_def demo_seq_num eval_seq_eq)

text \<open>The text of a file goes through the evaluators behind \<open>$file\<close>; a \<open>$rand\<close> without room panics; a
  leading \<open>$pad\<close> example of the comment of \<open>AsBytes\<close>.\<close>

lemma file_contents_evaluated:
  "fst (getArg demo_args ''$file(/k)'' (demo_vars\<lparr>as_vars := [''x'' \<mapsto> ''secret'']\<rparr>)) = Ok ''secret''"
  by (simp add: getArg_def evaluators evaluateExpression.simps eval_file_def readFile_def path_clean_def
      demo_args_def eval_var_def GetVar_def Let_def)

lemma rand_zero_panics: "fst (getArg env ''$rand(0)'' s) = Panic ''invalid argument to Int63n''"
  by (simp add: getArg_def evaluators evaluateExpression.simps eval_rand_def atoi_def parse_signed_def
      digit_val_def Let_def)

lemma demo_pad: "atoi ''3'' = (3, None)"
  by (simp add: atoi_def parse_signed_def digit_val_def)

lemma pad_example: "fst (getArg env ''val$pad(3,XYZ)'' s) = Ok ''valXYZXYZXYZ''"
proof -
  have "eval_pad ''3,XYZ'' s = (Ok ''XYZXYZXYZ'', s)"
    using demo_pad by (simp add: eval_pad_def eval_nat_numeral)
  then have "evaluatePadExpression ''val$pad(3,XYZ)'' s = (Ok ''valXYZXYZXYZ'', s)"
    unfolding evaluatePadExpression_def
    by (subst expression_call [where i = 3 and x = "''3,XYZ''" and r = "[]"])
      (simp_all add: expression_text eval_nat_numeral)
  then show ?thesis
    by (simp add: getArg_def evaluateSeqExpression_def evaluateRandExpression_def evaluateFileExpression_def
        evaluateSetExpression_def evaluateVarExpression_def expression_text)
qed

end
