(* ===== verification/CliTasks.thy ===== *)
theory CliTasks
  imports CliArgs "HOL-Library.Multiset"
begin

text \<open>
  The chaincode tasks of fabric-cli: the errors of invokeerror.go, the invoke task (invoketask.go) and
  the query task (querytask.go), the multi task that runs the tasks of one iteration in order
  (multitask.go), and what the commands \<open>invoke\<close> and \<open>query\<close> do with them (invokecmd.go, querycmd.go):
  building the tasks, the callbacks that count, and the report. The channel client is a parameter. Multi
  tasks run on concurrent workers: one \<open>Invoke\<close> of a task is one step, and a schedule says whose
  turn it is.
\<close>

section \<open>Errors\<close>

datatype ErrorCode = PersistentError | TransientError | TimeoutOnCommit

record invoke_error =
  ie_error :: goerr
  ie_code :: ErrorCode

definition invokeerror_New :: "ErrorCode \<Rightarrow> string \<Rightarrow> invoke_error" where
  "invokeerror_New code msg = \<lparr> ie_error = ErrNew msg, ie_code = code \<rparr>"

text \<open>\<open>Wrap\<close> and \<open>Wrapf\<close>, \<open>New\<close> and \<open>Errorf\<close> differ only in who formats the text.\<close>

definition invokeerror_Wrapf :: "ErrorCode \<Rightarrow> goerr \<Rightarrow> string \<Rightarrow> invoke_error" where
  "invokeerror_Wrapf code cause txt = \<lparr> ie_error = ErrWrap txt cause, ie_code = code \<rparr>"

definition invokeerror_Errorf :: "ErrorCode \<Rightarrow> string \<Rightarrow> invoke_error" where
  "invokeerror_Errorf code txt = \<lparr> ie_error = ErrNew txt, ie_code = code \<rparr>"

section \<open>Requests and the state of a command\<close>

record arg_struct =
  as_Func :: string
  as_Args :: "string list"

record cc_request =
  rq_ChaincodeID :: string
  rq_Fcn :: string
  rq_Args :: "bytes list"

datatype tx_code =
    VALID | DUPLICATE_TXID | MVCC_READ_CONFLICT | PHANTOM_READ_CONFLICT | OtherCode string

fun code_text :: "tx_code \<Rightarrow> string" where
  "code_text VALID = ''VALID''"
| "code_text DUPLICATE_TXID = ''DUPLICATE_TXID''"
| "code_text MVCC_READ_CONFLICT = ''MVCC_READ_CONFLICT''"
| "code_text PHANTOM_READ_CONFLICT = ''PHANTOM_READ_CONFLICT''"
| "code_text (OtherCode s) = s"

record 'p cc_response =
  rs_Responses :: 'p
  rs_TransactionID :: string
  rs_TxValidationCode :: tx_code

text \<open>The channel client: a call gives how often it was repeated (\<open>WithBeforeRetry\<close> is called before each
  repetition) and an error or a response. \<open>InvokeHandler\<close> takes the flag that adds the validation
  handlers. A new random source is seeded from the clock.\<close>

record ('w, 'r, 'p) cc_env =
  ce_Execute :: "cc_request \<Rightarrow> string list \<Rightarrow> 'w \<Rightarrow> (nat \<times> (goerr + 'p cc_response)) \<times> 'w"
  ce_InvokeHandler :: "bool \<Rightarrow> cc_request \<Rightarrow> string list \<Rightarrow> 'w \<Rightarrow> (nat \<times> (goerr + 'p cc_response)) \<times> 'w"
  ce_seed :: "'w \<Rightarrow> 'r"
  ce_now :: "'w \<Rightarrow> int"
  ce_arg_env :: "'r arg_env"
  ce_ChaincodeID :: string

text \<open>What the tasks of a command share: the outside, the package counter of \<open>$seq\<close>, one context of
  variables for each iteration, the printed responses and the counters behind the mutex.\<close>

record ('w, 'p, 'e) cmd_state =
  cs_world :: 'w
  cs_sequence :: u64
  cs_ctxts :: "(string \<rightharpoonup> string) list"
  cs_out :: "('p \<times> bool) list"
  cs_success :: nat
  cs_errs :: "'e list"
  cs_successDurations :: "int list"
  cs_failDurations :: "int list"

definition task_AsBytes ::
    "('w, 'r, 'p) cc_env \<Rightarrow> nat \<Rightarrow> string list \<Rightarrow> ('w, 'p, 'e) cmd_state \<Rightarrow> bytes list outcome \<times> ('w, 'p, 'e) cmd_state"
  where
  "task_AsBytes env ctxt args s =
     (let seed = ce_seed env (cs_world s);
          (r, a) = AsBytes (ce_arg_env env) seed args
            \<lparr> as_sequence = cs_sequence s, as_vars = cs_ctxts s ! ctxt, as_rand = seed \<rparr> in
      (r, s\<lparr>cs_sequence := as_sequence a, cs_ctxts := (cs_ctxts s)[ctxt := as_vars a]\<rparr>))"

section \<open>Tasks\<close>

text \<open>Both tasks with their closures: \<open>startTime\<close> is the variable the two callbacks share.\<close>

record 'e cc_task =
  ta_ctxt :: nat
  ta_id :: string
  ta_targets :: "string list"
  ta_ccID :: string
  ta_args :: arg_struct
  ta_attempt :: int
  ta_lastErr :: "'e option"
  ta_verbose :: bool
  ta_payloadOnly :: bool
  ta_validate :: bool
  ta_txID :: string
  ta_startTime :: int

definition NewTask ::
    "nat \<Rightarrow> string \<Rightarrow> string list \<Rightarrow> string \<Rightarrow> arg_struct \<Rightarrow> bool \<Rightarrow> bool \<Rightarrow> bool \<Rightarrow> 'e cc_task" where
  "NewTask ctxt i targets ccID args verbose payloadOnly validate =
     \<lparr> ta_ctxt = ctxt, ta_id = i, ta_targets = targets, ta_ccID = ccID, ta_args = args, ta_attempt = 1,
       ta_lastErr = None, ta_verbose = verbose, ta_payloadOnly = payloadOnly, ta_validate = validate,
       ta_txID = [], ta_startTime = 0 \<rparr>"

definition task_started :: "('w, 'r, 'p) cc_env \<Rightarrow> 'e cc_task \<Rightarrow> ('w, 'p, 'e) cmd_state \<Rightarrow> 'e cc_task" where
  "task_started env t s = t\<lparr>ta_startTime := ce_now env (cs_world s)\<rparr>"

text \<open>The \<open>completedCB\<close> of the two commands; the one of \<open>query\<close> keeps no duration of a failure.\<close>

definition invoke_completed ::
    "('w, 'r, 'p) cc_env \<Rightarrow> 'e cc_task \<Rightarrow> 'e option \<Rightarrow> ('w, 'p, 'e) cmd_state \<Rightarrow> ('w, 'p, 'e) cmd_state" where
  "invoke_completed env t err s =
     (let duration = ce_now env (cs_world s) - ta_startTime t in
      case err of
        Some e \<Rightarrow> s\<lparr>cs_errs := cs_errs s @ [e], cs_failDurations := cs_failDurations s @ [duration]\<rparr>
      | None \<Rightarrow> s\<lparr>cs_success := cs_success s + 1,
                  cs_successDurations := cs_successDurations s @ [duration]\<rparr>)"

definition query_completed ::
    "('w, 'r, 'p) cc_env \<Rightarrow> 'e cc_task \<Rightarrow> 'e option \<Rightarrow> ('w, 'p, 'e) cmd_state \<Rightarrow> ('w, 'p, 'e) cmd_state" where
  "query_completed env t err s =
     (let duration = ce_now env (cs_world s) - ta_startTime t in
      case err of
        Some e \<Rightarrow> s\<lparr>cs_errs := cs_errs s @ [e]\<rparr>
      | None \<Rightarrow> s\<lparr>cs_success := cs_success s + 1,
                  cs_successDurations := cs_successDurations s @ [duration]\<rparr>)"

definition task_print ::
    "'e cc_task \<Rightarrow> 'p cc_response \<Rightarrow> ('w, 'p, 'e) cmd_state \<Rightarrow> ('w, 'p, 'e) cmd_state" where
  "task_print t response s =
     (if ta_verbose t then s\<lparr>cs_out := cs_out s @ [(rs_Responses response, ta_payloadOnly t)]\<rparr> else s)"

definition eventhub_text :: "'p cc_response \<Rightarrow> string" where
  "eventhub_text response =
     ''invoke Error received from eventhub for TxID ['' @ rs_TransactionID response @ '']. Code: '' @
     code_text (rs_TxValidationCode response)"

text \<open>The end of \<open>doInvoke\<close>: what a validation code means.\<close>

definition classify_response :: "'p cc_response \<Rightarrow> invoke_error option" where
  "classify_response response =
     (case rs_TxValidationCode response of
        VALID \<Rightarrow> None
      | DUPLICATE_TXID \<Rightarrow>
          Some (invokeerror_Wrapf TransientError (ErrNew ''Duplicate TxID'') (eventhub_text response))
      | MVCC_READ_CONFLICT \<Rightarrow>
          Some (invokeerror_Wrapf TransientError (ErrNew ''Duplicate TxID'') (eventhub_text response))
      | PHANTOM_READ_CONFLICT \<Rightarrow>
          Some (invokeerror_Wrapf TransientError (ErrNew ''Duplicate TxID'') (eventhub_text response))
      | OtherCode _ \<Rightarrow>
          Some (invokeerror_Wrapf PersistentError (ErrNew ''error'') (eventhub_text response)))"

definition doInvoke_task ::
    "('w, 'r, 'p) cc_env \<Rightarrow> invoke_error cc_task \<Rightarrow> ('w, 'p, invoke_error) cmd_state \<Rightarrow>
     (invoke_error option \<times> invoke_error cc_task \<times> ('w, 'p, invoke_error) cmd_state) outcome" where
  "doInvoke_task env t s =
     (case task_AsBytes env (ta_ctxt t) (as_Args (ta_args t)) s of
        (Panic p, s) \<Rightarrow> Panic p
      | (Err e, s) \<Rightarrow> Err e
      | (Ok args, s) \<Rightarrow>
          let ((retries, r), w) = ce_Execute env
                \<lparr> rq_ChaincodeID = ta_ccID t, rq_Fcn = as_Func (ta_args t), rq_Args = args \<rparr>
                (ta_targets t) (cs_world s);
              t = t\<lparr>ta_attempt := ta_attempt t + int retries\<rparr>;
              s = s\<lparr>cs_world := w\<rparr> in
          (case r of
             Inl err \<Rightarrow>
               Ok (Some (invokeerror_Errorf TransientError
                     (''SendTransactionProposal return error: '' @ err_text err)), t, s)
           | Inr response \<Rightarrow>
               Ok (classify_response response, t\<lparr>ta_txID := rs_TransactionID response\<rparr>, task_print t response s)))"

definition invoke_Invoke ::
    "('w, 'r, 'p) cc_env \<Rightarrow> invoke_error cc_task \<Rightarrow> ('w, 'p, invoke_error) cmd_state \<Rightarrow>
     (invoke_error cc_task \<times> ('w, 'p, invoke_error) cmd_state) outcome" where
  "invoke_Invoke env t s =
     bind_outcome (doInvoke_task env (task_started env t s) s) (\<lambda>(err, t, s).
     case err of
       Some e \<Rightarrow> Ok (t\<lparr>ta_lastErr := Some e\<rparr>, invoke_completed env t (Some e) s)
     | None \<Rightarrow> Ok (t, invoke_completed env t None s))"

definition query_Invoke ::
    "('w, 'r, 'p) cc_env \<Rightarrow> goerr cc_task \<Rightarrow> ('w, 'p, goerr) cmd_state \<Rightarrow>
     (goerr cc_task \<times> ('w, 'p, goerr) cmd_state) outcome" where
  "query_Invoke env t s =
     (let t = task_started env t s in
      case task_AsBytes env (ta_ctxt t) (as_Args (ta_args t)) s of
        (Panic p, s) \<Rightarrow> Panic p
      | (Err e, s) \<Rightarrow> Err e
      | (Ok args, s) \<Rightarrow>
          let ((retries, r), w) = ce_InvokeHandler env (ta_validate t)
                \<lparr> rq_ChaincodeID = ce_ChaincodeID env, rq_Fcn = as_Func (ta_args t), rq_Args = args \<rparr>
                (ta_targets t) (cs_world s);
              t = t\<lparr>ta_attempt := ta_attempt t + int retries\<rparr>;
              s = s\<lparr>cs_world := w\<rparr> in
          (case r of
             Inl err \<Rightarrow> Ok (t\<lparr>ta_lastErr := Some err\<rparr>, query_completed env t (Some err) s)
           | Inr response \<Rightarrow> Ok (t, query_completed env t None (task_print t response s))))"

section \<open>Multi tasks and their schedule\<close>

text \<open>A multi task, the position of its loop and whether its deferred \<open>completedCB\<close> has run.\<close>

record 't multi_task =
  mt_tasks :: "'t list"
  mt_next :: nat
  mt_done :: bool

record ('t, 's) cmd =
  cm_multi :: "'t multi_task list"
  cm_wg :: int
  cm_state :: 's
  cm_panic :: "string option"

definition NewMultiTask :: "'t list \<Rightarrow> 't multi_task" where
  "NewMultiTask tasks = \<lparr> mt_tasks = tasks, mt_next = 0, mt_done = False \<rparr>"

text \<open>One step of \<open>MultiTask.Invoke\<close> on multi task \<open>i\<close>: the next task, or behind the last one
  \<open>completedCB\<close>, which is \<open>wg.Done\<close>. After a panic nothing moves.\<close>

definition multi_step :: "('t \<Rightarrow> 's \<Rightarrow> ('t \<times> 's) outcome) \<Rightarrow> nat \<Rightarrow> ('t, 's) cmd \<Rightarrow> ('t, 's) cmd" where
  "multi_step invk i c =
     (if cm_panic c \<noteq> None \<or> length (cm_multi c) \<le> i then c
      else
        let m = cm_multi c ! i in
        if mt_next m < length (mt_tasks m) then
          (case invk (mt_tasks m ! mt_next m) (cm_state c) of
             Panic p \<Rightarrow> c\<lparr>cm_panic := Some p\<rparr>
           | Err e \<Rightarrow> c\<lparr>cm_panic := Some (err_text e)\<rparr>
           | Ok (t, s) \<Rightarrow>
               c\<lparr>cm_multi := (cm_multi c)[i :=
                    m\<lparr>mt_tasks := (mt_tasks m)[mt_next m := t], mt_next := mt_next m + 1\<rparr>],
                 cm_state := s\<rparr>)
        else if mt_done m then c
        else c\<lparr>cm_multi := (cm_multi c)[i := m\<lparr>mt_done := True\<rparr>], cm_wg := cm_wg c - 1\<rparr>)"

fun multi_run :: "('t \<Rightarrow> 's \<Rightarrow> ('t \<times> 's) outcome) \<Rightarrow> nat list \<Rightarrow> ('t, 's) cmd \<Rightarrow> ('t, 's) cmd" where
  "multi_run invk [] c = c"
| "multi_run invk (i # js) c = multi_run invk js (multi_step invk i c)"

definition multi_Attempts :: "('t \<Rightarrow> int) \<Rightarrow> 't multi_task \<Rightarrow> int" where
  "multi_Attempts attempts m = fold (\<lambda>t n. n + attempts t) (mt_tasks m) 0"

fun first_lastErr :: "('t \<Rightarrow> 'e option) \<Rightarrow> 't list \<Rightarrow> 'e option" where
  "first_lastErr lastErr [] = None"
| "first_lastErr lastErr (t # ts) =
     (case lastErr t of Some e \<Rightarrow> Some e | None \<Rightarrow> first_lastErr lastErr ts)"

definition multi_LastError :: "('t \<Rightarrow> 'e option) \<Rightarrow> 't multi_task \<Rightarrow> 'e option" where
  "multi_LastError lastErr m = first_lastErr lastErr (mt_tasks m)"

section \<open>The commands\<close>

record cmd_config =
  cf_Iterations :: int
  cf_ChaincodeID :: string
  cf_Verbose :: bool
  cf_PayloadOnly :: bool
  cf_Validate :: bool

text \<open>The loop that builds the tasks of \<open>invoke\<close> and \<open>query\<close>: the tasks of an iteration share its
  context, \<open>taskID\<close> counts through.\<close>

fun build_iteration ::
    "cmd_config \<Rightarrow> string list \<Rightarrow> nat \<Rightarrow> nat \<Rightarrow> arg_struct list \<Rightarrow> 'e cc_task list" where
  "build_iteration cf targets i taskID [] = []"
| "build_iteration cf targets i taskID (args # argsArray) =
     NewTask i (show_nat (taskID + 1)) targets (cf_ChaincodeID cf) args
       (cf_Verbose cf \<or> cf_Iterations cf = 1) (cf_PayloadOnly cf) (cf_Validate cf)
     # build_iteration cf targets i (taskID + 1) argsArray"

definition build_tasks :: "cmd_config \<Rightarrow> string list \<Rightarrow> arg_struct list \<Rightarrow> 'e cc_task multi_task list" where
  "build_tasks cf targets argsArray =
     map (\<lambda>i. NewMultiTask (build_iteration cf targets i (i * length argsArray) argsArray))
       [0..<nat (cf_Iterations cf)]"

text \<open>The state when the tasks have been submitted.\<close>

definition cmd_begin ::
    "cmd_config \<Rightarrow> string list \<Rightarrow> arg_struct list \<Rightarrow> u64 \<Rightarrow> 'w \<Rightarrow>
     ('e cc_task, ('w, 'p, 'e) cmd_state) cmd" where
  "cmd_begin cf targets argsArray sequence w =
     (let ms = build_tasks cf targets argsArray in
      \<lparr> cm_multi = ms, cm_wg = int (length ms),
        cm_state = \<lparr> cs_world = w, cs_sequence = sequence,
          cs_ctxts = replicate (length ms) NewContext, cs_out = [], cs_success = 0, cs_errs = [],
          cs_successDurations = [], cs_failDurations = [] \<rparr>,
        cm_panic = None \<rparr>)"

text \<open>After \<open>wg.Wait\<close>: the errors the tasks remember, which list is printed, and the summary.
  \<open>Seconds\<close> keeps the order of durations and maps only 0 to 0, so the smallest and the largest one are
  found on the nanoseconds; 0 stands for none yet.\<close>

definition all_errs :: "('e cc_task, 's) cmd \<Rightarrow> 'e list" where
  "all_errs c = List.map_filter (multi_LastError ta_lastErr) (cm_multi c)"

datatype 'e report = ErrorsReport "'e list" | TransientReport "'e list" | NoReport

definition cmd_report :: "('e cc_task, ('w, 'p, 'e) cmd_state) cmd \<Rightarrow> 'e report" where
  "cmd_report c =
     (if 0 < length (cs_errs (cm_state c)) then ErrorsReport (cs_errs (cm_state c))
      else if 0 < length (all_errs c) then TransientReport (all_errs c)
      else NoReport)"

fun minMax_loop :: "int list \<Rightarrow> int \<times> int \<Rightarrow> int \<times> int" where
  "minMax_loop [] (mn, mx) = (mn, mx)"
| "minMax_loop (d # ds) (mn, mx) =
     minMax_loop ds (if mn = 0 \<or> d < mn then d else mn, if mx = 0 \<or> mx < d then d else mx)"

definition minMax :: "int list \<Rightarrow> int \<times> int" where
  "minMax durations = minMax_loop durations (0, 0)"

record cmd_summary =
  su_Invocations :: int
  su_Successfull :: nat
  su_attempts :: int
  su_Min :: int
  su_Max :: int

definition cmd_summarize ::
    "arg_struct list \<Rightarrow> ('e cc_task, ('w, 'p, 'e) cmd_state) cmd \<Rightarrow> cmd_summary option outcome" where
  "cmd_summarize argsArray c =
     (let numInvocations = int (length (cm_multi c) * length argsArray);
          attempts = fold (\<lambda>m n. n + multi_Attempts ta_attempt m) (cm_multi c) 0;
          ds = cs_successDurations (cm_state c) in
      if argsArray = [] then Panic ''integer divide by zero''
      else if numInvocations div int (length argsArray) > 1 then
        Ok (Some \<lparr> su_Invocations = numInvocations, su_Successfull = cs_success (cm_state c),
                   su_attempts = attempts, su_Min = fst (minMax ds), su_Max = snd (minMax ds) \<rparr>)
      else Ok None)"

section \<open>Counting\<close>

text \<open>What a task promises its multi task and its command: an \<open>Invoke\<close> that returns counts either one
  success or the error it then remembers, and attempts only grow.\<close>

definition task_err :: "('t \<Rightarrow> 'e option) \<Rightarrow> 't \<Rightarrow> 'e list" where
  "task_err lastErr t = (case lastErr t of None \<Rightarrow> [] | Some e \<Rightarrow> [e])"

definition multi_ok :: "('t \<Rightarrow> 'e option) \<Rightarrow> ('t \<Rightarrow> int) \<Rightarrow> 't multi_task \<Rightarrow> bool" where
  "multi_ok lastErr attempts m \<longleftrightarrow>
     mt_next m \<le> length (mt_tasks m) \<and> (mt_done m \<longrightarrow> mt_next m = length (mt_tasks m))
     \<and> (\<forall>t \<in> set (drop (mt_next m) (mt_tasks m)). lastErr t = None)
     \<and> (\<forall>t \<in> set (mt_tasks m). 1 \<le> attempts t)"

definition succeeded :: "('t \<Rightarrow> 'e option) \<Rightarrow> 't multi_task \<Rightarrow> nat" where
  "succeeded lastErr m = length (filter (\<lambda>t. lastErr t = None) (take (mt_next m) (mt_tasks m)))"

definition failures :: "('t \<Rightarrow> 'e option) \<Rightarrow> 't multi_task \<Rightarrow> 'e list" where
  "failures lastErr m = concat (map (task_err lastErr) (mt_tasks m))"

definition counted ::
    "('t \<Rightarrow> 'e option) \<Rightarrow> ('t \<Rightarrow> int) \<Rightarrow> ('s \<Rightarrow> nat) \<Rightarrow> ('s \<Rightarrow> 'e list) \<Rightarrow> ('t, 's) cmd \<Rightarrow> bool" where
  "counted lastErr attempts successes errs c \<longleftrightarrow>
     (\<forall>m \<in> set (cm_multi c). multi_ok lastErr attempts m)
     \<and> successes (cm_state c) = sum_list (map (succeeded lastErr) (cm_multi c))
     \<and> mset (errs (cm_state c)) = mset (concat (map (failures lastErr) (cm_multi c)))
     \<and> cm_wg c = int (length (filter (\<lambda>m. \<not> mt_done m) (cm_multi c)))"

definition multi_left :: "'t multi_task \<Rightarrow> nat" where
  "multi_left m = length (mt_tasks m) - mt_next m + (if mt_done m then 0 else 1)"

definition cmd_left :: "('t, 's) cmd \<Rightarrow> nat" where
  "cmd_left c = sum_list (map multi_left (cm_multi c))"

lemma sum_list_map_update:
  "i < length xs \<Longrightarrow> sum_list (map f (xs[i := x])) + f (xs ! i) = sum_list (map f xs) + (f x :: nat)"
proof (induction xs arbitrary: i)
  case (Cons y ys)
  then show ?case by (cases i) (auto simp: ac_simps)
qed simp

lemma take_Suc_update: "n < length xs \<Longrightarrow> take (Suc n) (xs[n := x]) = take n xs @ [x]"
  by (simp add: take_Suc_conv_app_nth)

lemma all_update: "\<forall>x \<in> set xs. P x \<Longrightarrow> P y \<Longrightarrow> \<forall>x \<in> set (xs[i := y]). P x"
  using set_update_subset_insert [of xs i y] by auto

lemma success_or_failure:
  "length (filter (\<lambda>t. lastErr t = None) ts) + length (concat (map (task_err lastErr) ts)) = length ts"
  by (induction ts) (auto simp: task_err_def split: option.split)

lemma first_error_failures: "first_lastErr lastErr ts \<noteq> None \<Longrightarrow> concat (map (task_err lastErr) ts) \<noteq> []"
  by (induction ts) (auto simp: task_err_def split: option.splits)

lemma fold_attempts: "fold (\<lambda>t n. n + f t) ts k = k + sum_list (map f ts)" for k :: int
  by (induction ts arbitrary: k) auto

lemma attempts_at_least: "\<forall>t \<in> set ts. (1 :: int) \<le> f t \<Longrightarrow> int (length ts) \<le> sum_list (map f ts)"
  by (induction ts) auto

locale task_ops =
  fixes invk :: "'t \<Rightarrow> 's \<Rightarrow> ('t \<times> 's) outcome"
    and lastErr :: "'t \<Rightarrow> 'e option"
    and attempts :: "'t \<Rightarrow> int"
    and successes :: "'s \<Rightarrow> nat"
    and errs :: "'s \<Rightarrow> 'e list"
  assumes reports: "lastErr t = None \<Longrightarrow> invk t s = Ok (t', s') \<Longrightarrow>
      mset (errs s') = mset (errs s) + mset (task_err lastErr t')
      \<and> successes s' = successes s + (if lastErr t' = None then 1 else 0)"
    and attempts_grow: "invk t s = Ok (t', s') \<Longrightarrow> attempts t \<le> attempts t'"
begin

lemma task_counted:
  assumes "counted lastErr attempts successes errs c" "i < length (cm_multi c)" "m = cm_multi c ! i"
    and "mt_next m < length (mt_tasks m)" "invk (mt_tasks m ! mt_next m) (cm_state c) = Ok (t, s)"
  shows "counted lastErr attempts successes errs
    (c\<lparr>cm_multi := (cm_multi c)[i := m\<lparr>mt_tasks := (mt_tasks m)[mt_next m := t], mt_next := mt_next m + 1\<rparr>],
       cm_state := s\<rparr>)"
proof -
  let ?m = "m\<lparr>mt_tasks := (mt_tasks m)[mt_next m := t], mt_next := mt_next m + 1\<rparr>"
  have mi: "m \<in> set (cm_multi c)" using assms(2,3) by simp
  then have ok: "multi_ok lastErr attempts m" using assms(1) by (simp add: counted_def)
  have fresh: "lastErr (mt_tasks m ! mt_next m) = None"
    using ok assms(4) by (auto simp: multi_ok_def simp flip: Cons_nth_drop_Suc)
  have notdone: "\<not> mt_done m" using ok assms(4) by (auto simp: multi_ok_def)
  note r = reports [OF fresh assms(5)]
  have "1 \<le> attempts (mt_tasks m ! mt_next m)" using ok assms(4) by (auto simp: multi_ok_def)
  then have "1 \<le> attempts t" using attempts_grow [OF assms(5)] by linarith
  moreover have "\<forall>u \<in> set (mt_tasks m). 1 \<le> attempts u" using ok by (simp add: multi_ok_def)
  ultimately have "\<forall>u \<in> set ((mt_tasks m)[mt_next m := t]). 1 \<le> attempts u" by (intro all_update)
  moreover have "\<forall>u \<in> set (drop (Suc (mt_next m)) (mt_tasks m)). lastErr u = None"
    using ok set_drop_subset_set_drop [of "mt_next m" "Suc (mt_next m)" "mt_tasks m"] by (auto simp: multi_ok_def)
  ultimately have ok': "multi_ok lastErr attempts ?m"
    using assms(4) notdone by (simp add: multi_ok_def)
  have s1: "succeeded lastErr ?m = succeeded lastErr m + (if lastErr t = None then 1 else 0)"
    using assms(4) by (simp add: succeeded_def take_Suc_update)
  have f1: "mset (failures lastErr ?m) = mset (failures lastErr m) + mset (task_err lastErr t)"
    using mset_concat_update [OF assms(4), of "task_err lastErr" t] fresh
    by (simp add: failures_def task_err_def)
  have all: "\<forall>x \<in> set ((cm_multi c)[i := ?m]). multi_ok lastErr attempts x"
    using assms(1) ok' by (intro all_update) (simp_all add: counted_def)
  have "sum_list (map (succeeded lastErr) ((cm_multi c)[i := ?m])) =
      sum_list (map (succeeded lastErr) (cm_multi c)) + (if lastErr t = None then 1 else 0)"
    using sum_list_map_update [OF assms(2), of "succeeded lastErr" ?m] s1 assms(3) by simp
  moreover have "mset (concat (map (failures lastErr) ((cm_multi c)[i := ?m]))) =
      mset (concat (map (failures lastErr) (cm_multi c))) + mset (task_err lastErr t)"
    using mset_concat_update [OF assms(2), of "failures lastErr" ?m] f1 assms(3) by simp
  moreover have "length (filter (\<lambda>m. \<not> mt_done m) ((cm_multi c)[i := ?m])) =
      length (filter (\<lambda>m. \<not> mt_done m) (cm_multi c))"
    using length_filter_update [OF assms(2), of "\<lambda>m. \<not> mt_done m" ?m] assms(3) by auto
  ultimately show ?thesis
    using assms(1) r all by (simp add: counted_def)
qed

lemma done_counted:
  assumes "counted lastErr attempts successes errs c" "i < length (cm_multi c)" "m = cm_multi c ! i"
    and "\<not> mt_next m < length (mt_tasks m)" "\<not> mt_done m"
  shows "counted lastErr attempts successes errs
    (c\<lparr>cm_multi := (cm_multi c)[i := m\<lparr>mt_done := True\<rparr>], cm_wg := cm_wg c - 1\<rparr>)"
proof -
  let ?m = "m\<lparr>mt_done := True\<rparr>"
  have mi: "m \<in> set (cm_multi c)" using assms(2,3) by simp
  then have ok: "multi_ok lastErr attempts m" using assms(1) by (simp add: counted_def)
  then have "multi_ok lastErr attempts ?m" using assms(4) by (simp add: multi_ok_def)
  then have all: "\<forall>x \<in> set ((cm_multi c)[i := ?m]). multi_ok lastErr attempts x"
    using assms(1) by (intro all_update) (simp_all add: counted_def)
  have "succeeded lastErr ?m = succeeded lastErr m" "failures lastErr ?m = failures lastErr m"
    by (simp_all add: succeeded_def failures_def)
  then have "sum_list (map (succeeded lastErr) ((cm_multi c)[i := ?m])) = sum_list (map (succeeded lastErr) (cm_multi c))"
      "mset (concat (map (failures lastErr) ((cm_multi c)[i := ?m]))) = mset (concat (map (failures lastErr) (cm_multi c)))"
    using sum_list_map_update [OF assms(2), of "succeeded lastErr" ?m]
      mset_concat_update [OF assms(2), of "failures lastErr" ?m] assms(3) by simp_all
  moreover have "length (filter (\<lambda>m. \<not> mt_done m) ((cm_multi c)[i := ?m])) + 1 =
      length (filter (\<lambda>m. \<not> mt_done m) (cm_multi c))"
    using length_filter_update [OF assms(2), of "\<lambda>m. \<not> mt_done m" ?m] assms(3,5) by auto
  ultimately show ?thesis
    using assms(1) all by (simp add: counted_def)
qed

lemma step_counted:
  assumes "counted lastErr attempts successes errs c"
  shows "counted lastErr attempts successes errs (multi_step invk i c)"
proof -
  let ?m = "cm_multi c ! i"
  have panic: "counted lastErr attempts successes errs (c\<lparr>cm_panic := p\<rparr>)" for p
    using assms by (simp add: counted_def)
  show ?thesis
    using assms panic task_counted [OF assms _ refl] done_counted [OF assms _ refl, of i]
    by (auto simp: multi_step_def Let_def split: outcome.split)
qed

lemma run_counted:
  "counted lastErr attempts successes errs c \<Longrightarrow> counted lastErr attempts successes errs (multi_run invk js c)"
  by (induction js arbitrary: c) (auto intro: step_counted)

end

section \<open>The end of a command\<close>

definition cmd_tasks :: "('t, 's) cmd \<Rightarrow> nat" where
  "cmd_tasks c = sum_list (map (\<lambda>m. length (mt_tasks m)) (cm_multi c))"

lemma step_shape:
  "length (cm_multi (multi_step invk i c)) = length (cm_multi c) \<and> cmd_tasks (multi_step invk i c) = cmd_tasks c"
proof (cases "i < length (cm_multi c)")
  case True
  have "sum_list (map (\<lambda>m. length (mt_tasks m)) ((cm_multi c)[i := x])) =
      sum_list (map (\<lambda>m. length (mt_tasks m)) (cm_multi c))"
    if "length (mt_tasks x) = length (mt_tasks (cm_multi c ! i))" for x
    using sum_list_map_update [OF True, of "\<lambda>m. length (mt_tasks m)" x] that by simp
  then show ?thesis
    by (auto simp: multi_step_def cmd_tasks_def Let_def split: outcome.split)
qed (simp add: multi_step_def)

lemma run_shape:
  "length (cm_multi (multi_run invk js c)) = length (cm_multi c) \<and> cmd_tasks (multi_run invk js c) = cmd_tasks c"
  using step_shape by (induction js arbitrary: c) fastforce+

lemma waited_all_done:
  assumes "counted lastErr attempts successes errs c" "cm_wg c = 0" "m \<in> set (cm_multi c)"
  shows "mt_next m = length (mt_tasks m)"
proof -
  have "filter (\<lambda>m. \<not> mt_done m) (cm_multi c) = []" using assms(1,2) by (simp add: counted_def)
  then have "mt_done m" using assms(3) by (simp add: filter_empty_conv)
  then show ?thesis using assms(1,3) by (simp add: counted_def multi_ok_def)
qed

lemma sum_succeeded_failures:
  assumes "\<forall>m \<in> set ms. mt_next m = length (mt_tasks m)"
  shows "sum_list (map (succeeded lastErr) ms) + length (concat (map (failures lastErr) ms))
    = sum_list (map (\<lambda>m. length (mt_tasks m)) ms)"
  using assms
proof (induction ms)
  case (Cons m ms)
  then show ?case
    using success_or_failure [of lastErr "mt_tasks m"] by (simp add: succeeded_def failures_def)
qed simp

text \<open>When \<open>Wait\<close> has returned every task is counted once, as a success or with its error.\<close>

lemma waited_counts:
  assumes "counted lastErr attempts successes errs c" "cm_wg c = 0"
  shows "successes (cm_state c) + length (errs (cm_state c)) = cmd_tasks c"
proof -
  have "length (errs (cm_state c)) = length (concat (map (failures lastErr) (cm_multi c)))"
    using assms(1) by (metis counted_def size_mset)
  then show ?thesis
    using sum_succeeded_failures [of "cm_multi c" lastErr] waited_all_done [OF assms] assms(1)
    by (simp add: counted_def cmd_tasks_def)
qed

text \<open>An error a multi task reports was counted by the command.\<close>

lemma remembered_counted:
  assumes "counted lastErr attempts successes errs c" "m \<in> set (cm_multi c)" "multi_LastError lastErr m \<noteq> None"
  shows "errs (cm_state c) \<noteq> []"
proof -
  have "failures lastErr m \<noteq> []"
    using assms(3) unfolding multi_LastError_def failures_def by (rule first_error_failures)
  then have "mset (concat (map (failures lastErr) (cm_multi c))) \<noteq> {#}" using assms(2) by auto
  then have "mset (errs (cm_state c)) \<noteq> {#}" using assms(1) by (metis counted_def)
  then show ?thesis by auto
qed

lemma int_sum_list: "int (sum_list (map f xs)) = sum_list (map (\<lambda>x. int (f x)) xs)"
  by (induction xs) auto

lemma attempts_counted:
  assumes "counted lastErr attempts successes errs c"
  shows "int (cmd_tasks c) \<le> fold (\<lambda>m n. n + multi_Attempts attempts m) (cm_multi c) 0"
proof -
  have "\<forall>m \<in> set (cm_multi c). int (length (mt_tasks m)) \<le> multi_Attempts attempts m"
    using assms attempts_at_least unfolding counted_def multi_ok_def multi_Attempts_def fold_attempts by force
  then have "sum_list (map (\<lambda>m. int (length (mt_tasks m))) (cm_multi c)) \<le>
      sum_list (map (multi_Attempts attempts) (cm_multi c))"
    by (intro sum_list_mono) auto
  moreover have "int (cmd_tasks c) = sum_list (map (\<lambda>m. int (length (mt_tasks m))) (cm_multi c))"
    unfolding cmd_tasks_def by (rule int_sum_list)
  ultimately show ?thesis by (simp add: fold_attempts)
qed

text \<open>Until \<open>Wait\<close> returns some multi task can move, and every move brings the end nearer.\<close>

lemma step_left:
  assumes "counted lastErr attempts successes errs c" "i < length (cm_multi c)" "\<not> mt_done (cm_multi c ! i)"
  shows "cm_panic (multi_step invk i c) \<noteq> None \<or> cmd_left (multi_step invk i c) < cmd_left c"
proof -
  let ?m = "cm_multi c ! i"
  have less: "sum_list (map multi_left ((cm_multi c)[i := x])) < cmd_left c" if "multi_left x < multi_left ?m" for x
    using sum_list_map_update [OF assms(2), of multi_left x] that by (simp add: cmd_left_def)
  have "multi_left (?m\<lparr>mt_done := True\<rparr>) < multi_left ?m" using assms(3) by (simp add: multi_left_def)
  moreover have "multi_left (?m\<lparr>mt_tasks := (mt_tasks ?m)[mt_next ?m := t], mt_next := Suc (mt_next ?m)\<rparr>) < multi_left ?m"
    if "mt_next ?m < length (mt_tasks ?m)" for t
    using that by (simp add: multi_left_def)
  ultimately show ?thesis
    using assms(2,3) less
    by (auto simp: multi_step_def cmd_left_def Let_def split: outcome.split)
qed

lemma waiting_moves:
  assumes "counted lastErr attempts successes errs c" "cm_wg c \<noteq> 0"
  shows "\<exists>i < length (cm_multi c). \<not> mt_done (cm_multi c ! i)"
proof -
  have "filter (\<lambda>m. \<not> mt_done m) (cm_multi c) \<noteq> []" using assms by (auto simp: counted_def)
  then show ?thesis by (auto simp: filter_empty_conv in_set_conv_nth)
qed

context task_ops begin

lemma wait_returns:
  assumes "counted lastErr attempts successes errs c"
  shows "\<exists>js. length js \<le> cmd_left c \<and> (cm_panic (multi_run invk js c) \<noteq> None \<or> cm_wg (multi_run invk js c) = 0)"
  using assms
proof (induction "cmd_left c" arbitrary: c rule: less_induct)
  case less
  show ?case
  proof (cases "cm_wg c = 0")
    case True
    then show ?thesis by (intro exI [of _ "[]"]) simp
  next
    case False
    then obtain i where i: "i < length (cm_multi c)" "\<not> mt_done (cm_multi c ! i)"
      using waiting_moves [OF less.prems] by blast
    have "0 < cmd_left c"
      using sum_list_map_update [OF i(1), of multi_left "(cm_multi c ! i)\<lparr>mt_next := length (mt_tasks (cm_multi c ! i)), mt_done := True\<rparr>"] i(2)
      by (simp add: cmd_left_def multi_left_def)
    from step_left [OF less.prems i, of invk] show ?thesis
    proof
      assume "cm_panic (multi_step invk i c) \<noteq> None"
      then show ?thesis using \<open>0 < cmd_left c\<close> by (intro exI [of _ "[i]"]) simp
    next
      assume l: "cmd_left (multi_step invk i c) < cmd_left c"
      from less.hyps [OF l step_counted [OF less.prems]] obtain js where
        "length js \<le> cmd_left (multi_step invk i c)"
        "cm_panic (multi_run invk js (multi_step invk i c)) \<noteq> None \<or> cm_wg (multi_run invk js (multi_step invk i c)) = 0"
        by blast
      then show ?thesis using l by (intro exI [of _ "i # js"]) simp
    qed
  qed
qed

end

section \<open>The two commands\<close>

lemma invoke_reports:
  assumes "ta_lastErr t = None" "invoke_Invoke env t s = Ok (t', s')"
  shows "mset (cs_errs s') = mset (cs_errs s) + mset (task_err ta_lastErr t')
    \<and> cs_success s' = cs_success s + (if ta_lastErr t' = None then 1 else 0)"
  using assms
  by (auto simp: invoke_Invoke_def doInvoke_task_def task_AsBytes_def task_started_def task_print_def
      invoke_completed_def task_err_def Let_def bind_outcome_Ok_iff
      split: prod.splits outcome.splits sum.splits option.splits if_splits)

lemma invoke_attempts: "invoke_Invoke env t s = Ok (t', s') \<Longrightarrow> ta_attempt t \<le> ta_attempt t'"
  by (auto simp: invoke_Invoke_def doInvoke_task_def task_AsBytes_def task_started_def
      Let_def bind_outcome_Ok_iff split: prod.splits outcome.splits sum.splits option.splits)

lemma query_reports:
  assumes "ta_lastErr t = None" "query_Invoke env t s = Ok (t', s')"
  shows "mset (cs_errs s') = mset (cs_errs s) + mset (task_err ta_lastErr t')
    \<and> cs_success s' = cs_success s + (if ta_lastErr t' = None then 1 else 0)"
  using assms
  by (auto simp: query_Invoke_def task_AsBytes_def task_started_def task_print_def query_completed_def
      task_err_def Let_def split: prod.splits outcome.splits sum.splits if_splits)

lemma query_attempts: "query_Invoke env t s = Ok (t', s') \<Longrightarrow> ta_attempt t \<le> ta_attempt t'"
  by (auto simp: query_Invoke_def task_AsBytes_def task_started_def Let_def
      split: prod.splits outcome.splits sum.splits)

interpretation it: task_ops "invoke_Invoke env" ta_lastErr ta_attempt cs_success cs_errs for env
  by unfold_locales (fact invoke_reports, fact invoke_attempts)

interpretation qt: task_ops "query_Invoke env" ta_lastErr ta_attempt cs_success cs_errs for env
  by unfold_locales (fact query_reports, fact query_attempts)

lemma build_iteration_facts:
  "length (build_iteration cf targets i k argsArray) = length argsArray"
  "t \<in> set (build_iteration cf targets i k argsArray) \<Longrightarrow> ta_lastErr t = None \<and> ta_attempt t = 1"
  by (induction argsArray arbitrary: k) (auto simp: NewTask_def)

lemma fresh_failures: "\<forall>t \<in> set ts. lastErr t = None \<Longrightarrow> concat (map (task_err lastErr) ts) = []"
  by (induction ts) (auto simp: task_err_def)

lemma begin_counted:
  "counted ta_lastErr ta_attempt cs_success cs_errs
     (cmd_begin cf targets argsArray q w :: ('e cc_task, ('w, 'p, 'e) cmd_state) cmd)"
proof -
  let ?ms = "build_tasks cf targets argsArray :: 'e cc_task multi_task list"
  have ms: "\<exists>i k. m = NewMultiTask (build_iteration cf targets i k argsArray)" if "m \<in> set ?ms" for m
    using that by (auto simp: build_tasks_def)
  have ok: "multi_ok ta_lastErr ta_attempt m" if "m \<in> set ?ms" for m
    using ms [OF that] build_iteration_facts(2) by (fastforce simp: multi_ok_def NewMultiTask_def)
  have "succeeded ta_lastErr m = 0" if "m \<in> set ?ms" for m
    using ms [OF that] by (auto simp: succeeded_def NewMultiTask_def)
  then have s: "sum_list (map (succeeded ta_lastErr) ?ms) = 0" by simp
  have "failures ta_lastErr m = []" if "m \<in> set ?ms" for m
    using ms [OF that] build_iteration_facts(2) unfolding failures_def
    by (intro fresh_failures) (fastforce simp: NewMultiTask_def)
  then have f: "concat (map (failures ta_lastErr) ?ms) = []" by simp
  have "filter (\<lambda>m. \<not> mt_done m) ?ms = ?ms"
    by (intro filter_True) (auto simp: build_tasks_def NewMultiTask_def)
  then show ?thesis using ok s f by (simp add: counted_def cmd_begin_def Let_def)
qed

lemma begin_tasks:
  "cmd_tasks (cmd_begin cf targets argsArray q w) = nat (cf_Iterations cf) * length argsArray"
  "length (cm_multi (cmd_begin cf targets argsArray q w)) = nat (cf_Iterations cf)"
  by (simp_all add: cmd_tasks_def cmd_begin_def build_tasks_def comp_def NewMultiTask_def
      build_iteration_facts sum_list_triv Let_def)

text \<open>What the user is told once \<open>Wait\<close> has returned.\<close>

definition told_all :: "cmd_config \<Rightarrow> arg_struct list \<Rightarrow> ('e cc_task, ('w, 'p, 'e) cmd_state) cmd \<Rightarrow> bool" where
  "told_all cf argsArray c \<longleftrightarrow>
     cs_success (cm_state c) + length (cs_errs (cm_state c)) = nat (cf_Iterations cf) * length argsArray
     \<and> cmd_report c = (if cs_errs (cm_state c) = [] then NoReport else ErrorsReport (cs_errs (cm_state c)))
     \<and> (\<forall>su. cmd_summarize argsArray c = Ok (Some su) \<longrightarrow>
          su_Invocations su = int (nat (cf_Iterations cf) * length argsArray) \<and> su_Invocations su \<le> su_attempts su)"

lemma counted_told:
  assumes "counted ta_lastErr ta_attempt cs_success cs_errs c" "cm_wg c = 0"
    and "cmd_tasks c = nat (cf_Iterations cf) * length argsArray" "length (cm_multi c) = nat (cf_Iterations cf)"
  shows "told_all cf argsArray c"
proof -
  have "all_errs c = []" if "cs_errs (cm_state c) = []"
    unfolding all_errs_def map_filter_def using remembered_counted [OF assms(1)] that
    by (auto simp: filter_empty_conv simp del: not_None_eq)
  then show ?thesis
    using waited_counts [OF assms(1,2)] attempts_counted [OF assms(1)] assms(3,4)
    by (auto simp: told_all_def cmd_report_def cmd_summarize_def Let_def split: if_splits)
qed

text \<open>Whatever the order in which the workers run the tasks: when \<open>Wait\<close> returns, successes and
  printed errors add up to the iterations times the arguments, the printed list holds every error, the list
  of ``transient errors'' is never the one printed, and the attempts are at least the invocations.\<close>

theorem invoke_told_all:
  assumes "c = multi_run (invoke_Invoke env) js (cmd_begin cf targets argsArray q w)" "cm_wg c = 0"
  shows "told_all cf argsArray c"
proof (rule counted_told)
  show "counted ta_lastErr ta_attempt cs_success cs_errs c"
    unfolding assms(1) by (rule it.run_counted [OF begin_counted])
qed (use run_shape [of "invoke_Invoke env" js] assms in \<open>simp_all add: begin_tasks\<close>)

text \<open>The same for the command \<open>query\<close>.\<close>

theorem query_told_all:
  assumes "c = multi_run (query_Invoke env) js (cmd_begin cf targets argsArray q w)" "cm_wg c = 0"
  shows "told_all cf argsArray c"
proof (rule counted_told)
  show "counted ta_lastErr ta_attempt cs_success cs_errs c"
    unfolding assms(1) by (rule qt.run_counted [OF begin_counted])
qed (use run_shape [of "query_Invoke env" js] assms in \<open>simp_all add: begin_tasks\<close>)

text \<open>\<open>Wait\<close> returns: wherever \<open>invoke\<close> stands, the multi tasks can go on so that the wait group
  reaches zero, or an argument panics, within as many steps as there are tasks and multi tasks left.\<close>

theorem invoke_wait_returns:
  "\<exists>js'. length js' \<le> cmd_left (multi_run (invoke_Invoke env) js (cmd_begin cf targets argsArray q w))
    \<and> (let c = multi_run (invoke_Invoke env) js' (multi_run (invoke_Invoke env) js (cmd_begin cf targets argsArray q w)) in
        cm_wg c = 0 \<or> (\<exists>p. cm_panic c = Some p))"
  unfolding Let_def
  using it.wait_returns [OF it.run_counted [OF begin_counted], unfolded Let_def not_None_eq]
  by (metis (no_types, lifting))

text \<open>How an invocation ends. An error is called transient exactly when the client failed or the
  validation code is one of the three conflicts; a valid transaction leaves no error; each repetition by
  the client counts as an attempt.\<close>

theorem invoke_error_codes:
  assumes "invoke_Invoke env t s = Ok (t', s')" "ta_lastErr t = None"
    and "task_AsBytes env (ta_ctxt t) (as_Args (ta_args t)) s = (Ok args, s1)"
    and "ce_Execute env \<lparr> rq_ChaincodeID = ta_ccID t, rq_Fcn = as_Func (ta_args t), rq_Args = args \<rparr>
      (ta_targets t) (cs_world s1) = ((n, r), w)"
  shows "map_option ie_code (ta_lastErr t') =
      (case r of
         Inl e \<Rightarrow> Some TransientError
       | Inr response \<Rightarrow>
           (case rs_TxValidationCode response of
              VALID \<Rightarrow> None | OtherCode _ \<Rightarrow> Some PersistentError | _ \<Rightarrow> Some TransientError))
    \<and> ta_attempt t' = ta_attempt t + int n"
proof -
  let ?t = "task_started env t s"
  have t: "ta_targets ?t = ta_targets t" "ta_lastErr ?t = None" "ta_args ?t = ta_args t" "ta_ccID ?t = ta_ccID t"
      "ta_ctxt ?t = ta_ctxt t" "ta_attempt ?t = ta_attempt t"
    using assms(2) by (simp_all add: task_started_def)
  show ?thesis
    using assms(1,3,4) t
    by (auto simp: invoke_Invoke_def doInvoke_task_def classify_response_def invokeerror_Wrapf_def invokeerror_Errorf_def
        Let_def split: sum.splits tx_code.splits)
qed

section \<open>The shortest and the longest duration\<close>

lemma minMax_loop_positive:
  assumes "\<forall>d \<in> set ds. 0 < d" "0 < mn" "0 < mx"
  shows "minMax_loop ds (mn, mx) = (Min (insert mn (set ds)), Max (insert mx (set ds)))"
  using assms
proof (induction ds arbitrary: mn mx)
  case (Cons d ds)
  have "Min (insert mn (insert d (set ds))) = Min (insert (if d < mn then d else mn) (set ds))"
    by (simp add: insert_commute min_def)
      (cases "ds = []"; auto simp: min_def not_less)
  moreover have "Max (insert mx (insert d (set ds))) = Max (insert (if mx < d then d else mx) (set ds))"
    by (cases "ds = []"; auto simp: max_def not_less)
  ultimately show ?case using Cons by simp
qed simp

text \<open>For durations that took time, \<open>minMax\<close> gives the smallest and the largest one.\<close>

theorem minMax_positive:
  assumes "ds \<noteq> []" "\<forall>d \<in> set ds. 0 < d"
  shows "minMax ds = (Min (set ds), Max (set ds))"
proof -
  obtain d ds' where "ds = d # ds'" using assms(1) by (cases ds) auto
  then show ?thesis using minMax_loop_positive [of ds' d d] assms(2) by (simp add: minMax_def)
qed

text \<open>A duration of 0 is taken for none, so the minimum can be wrong.\<close>

lemma minMax_zero: "minMax [0, 5] = (5, 5)"
  by (simp add: minMax_def)

section \<open>A concrete command\<close>

text \<open>Two iterations of one invocation; the second call of the client fails after one repetition.\<close>

definition demo_client :: "(nat, u64, string) cc_env" where
  "demo_client =
     \<lparr> ce_Execute = (\<lambda>req targets w.
         ((w, if w = 0 then Inr \<lparr> rs_Responses = ''r'', rs_TransactionID = ''tx'', rs_TxValidationCode = VALID \<rparr>
              else Inl (ErrNew ''timeout'')), w + 1)),
       ce_InvokeHandler = (\<lambda>v req targets w.
         ((w, if w = 0 then Inr \<lparr> rs_Responses = ''r'', rs_TransactionID = ''tx'', rs_TxValidationCode = VALID \<rparr>
              else Inl (ErrNew ''timeout'')), w + 1)),
       ce_seed = (\<lambda>w. 0), ce_now = (\<lambda>w. int w), ce_arg_env = demo_args, ce_ChaincodeID = ''cc'' \<rparr>"

definition demo_config :: cmd_config where
  "demo_config = \<lparr> cf_Iterations = 2, cf_ChaincodeID = ''cc'', cf_Verbose = False, cf_PayloadOnly = False,
     cf_Validate = False \<rparr>"

definition demo_call :: "arg_struct list" where
  "demo_call = [\<lparr> as_Func = ''invoke'', as_Args = [] \<rparr>]"

lemmas demo_cmd_simps = demo_client_def demo_config_def demo_call_def cmd_begin_def build_tasks_def
  NewMultiTask_def NewTask_def multi_step_def task_AsBytes_def AsBytes_def
  task_started_def task_print_def Let_def upt_rec [of 0] upt_rec [of 1]

lemma demo_invoke_run:
  "cm_wg (multi_run (invoke_Invoke demo_client) [1, 0, 1, 0] (cmd_begin demo_config [] demo_call 0 0)) = 0"
  by (simp add: demo_cmd_simps invoke_Invoke_def doInvoke_task_def classify_response_def invoke_completed_def
      eval_nat_numeral)

lemma demo_query_run:
  "cm_wg (multi_run (query_Invoke demo_client) [1, 0, 1, 0] (cmd_begin demo_config [] demo_call 0 0)) = 0"
  by (simp add: demo_cmd_simps query_Invoke_def query_completed_def eval_nat_numeral)

lemma invoke_told_all_witness:
  "told_all demo_config demo_call
     (multi_run (invoke_Invoke demo_client) [1, 0, 1, 0] (cmd_begin demo_config [] demo_call 0 0))"
  using invoke_told_all [OF refl demo_invoke_run] .

lemma query_told_all_witness:
  "told_all demo_config demo_call
     (multi_run (query_Invoke demo_client) [1, 0, 1, 0] (cmd_begin demo_config [] demo_call 0 0))"
  using query_told_all [OF refl demo_query_run] .

lemma minMax_positive_witness: "minMax [3, 1, 2] = (1, 3)"
  using minMax_positive [of "[3, 1, 2]"] by simp

lemma invoke_error_codes_witness:
  "\<exists>t' :: invoke_error cc_task. ta_attempt t' = 2 \<and> map_option ie_code (ta_lastErr t') = Some TransientError"
proof -
  let ?t = "NewTask 0 ''1'' [] ''cc'' \<lparr> as_Func = ''invoke'', as_Args = [] \<rparr> False False False :: invoke_error cc_task"
  let ?s = "\<lparr> cs_world = 1, cs_sequence = 0, cs_ctxts = [NewContext], cs_out = [], cs_success = 0, cs_errs = [],
      cs_successDurations = [], cs_failDurations = [] \<rparr> :: (nat, string, invoke_error) cmd_state"
  obtain t' s' where inv: "invoke_Invoke demo_client ?t ?s = Ok (t', s')"
    by (simp add: demo_cmd_simps invoke_Invoke_def doInvoke_task_def invoke_completed_def)
  obtain s1 where a: "task_AsBytes demo_client (ta_ctxt ?t) (as_Args (ta_args ?t)) ?s = (Ok [], s1)" "cs_world s1 = 1"
    by (simp add: demo_cmd_simps)
  have x: "ce_Execute demo_client \<lparr> rq_ChaincodeID = ta_ccID ?t, rq_Fcn = as_Func (ta_args ?t), rq_Args = [] \<rparr>
      (ta_targets ?t) (cs_world s1) = ((1, Inl (ErrNew ''timeout'')), 2)"
    using a(2) by (simp add: demo_client_def)
  have "ta_lastErr ?t = None" by (simp add: NewTask_def)
  from invoke_error_codes [OF inv this a(1) x] show ?thesis by (intro exI [of _ t']) (simp add: NewTask_def)
qed

end
