(* ===== verification/BlockFilter.thy ===== *)
theory BlockFilter
  imports GoText
begin

text \<open>
  The block filter of the courier (fabric/courier/filter.go, fabric/courier/utils/common.go and
  txvalidationflags.go): from a fabric block to the cross-chain events in it. The protobuf messages
  are records of the fields the code reads; \<open>proto.Unmarshal\<close> is the parameter \<open>fabric_pb\<close>, one
  function per message type. A pointer that may be nil is an option.
\<close>

section \<open>Messages\<close>

record timestamp =
  ts_Seconds :: i64
  ts_Nanos :: "32 word"

record block =
  blk_Number :: "u64 option"
  blk_Metadata :: "bytes list option"
  blk_Data :: "bytes option list option"

record pb_payload =
  pl_ChannelHeader :: "bytes option"
  pl_Data :: bytes

record channel_header =
  ch_Type :: "32 word"
  ch_TxId :: string
  ch_Timestamp :: "timestamp option"

record chaincode_event =
  ev_TxId :: string
  ev_ChaincodeId :: string
  ev_EventName :: string
  ev_Payload :: bytes

record fabric_pb =
  pb_Envelope :: "bytes \<Rightarrow> goerr + bytes"
  pb_Payload :: "bytes \<Rightarrow> goerr + pb_payload"
  pb_ChannelHeader :: "bytes \<Rightarrow> goerr + channel_header"
  pb_Transaction :: "bytes \<Rightarrow> goerr + bytes list"
  pb_ChaincodeActionPayload :: "bytes \<Rightarrow> goerr + bytes option"
  pb_ProposalResponsePayload :: "bytes \<Rightarrow> goerr + bytes"
  pb_ChaincodeAction :: "bytes \<Rightarrow> goerr + bytes"
  pb_ChaincodeEvent :: "bytes \<Rightarrow> goerr + chaincode_event"

section \<open>Unmarshalling helpers\<close>

definition wrapErrorf :: "string \<Rightarrow> (goerr + 'a) \<Rightarrow> 'a outcome" where
  "wrapErrorf text r = (case r of Inl e \<Rightarrow> Err (ErrWrap text e) | Inr x \<Rightarrow> Ok x)"

definition GetChaincodeEvents :: "fabric_pb \<Rightarrow> bytes \<Rightarrow> chaincode_event outcome" where
  "GetChaincodeEvents pb b = wrapErrorf ''error unmarshaling ChaicnodeEvent'' (pb_ChaincodeEvent pb b)"

definition GetChaincodeAction :: "fabric_pb \<Rightarrow> bytes \<Rightarrow> bytes outcome" where
  "GetChaincodeAction pb b = wrapErrorf ''error unmarshaling ChaincodeAction'' (pb_ChaincodeAction pb b)"

definition GetProposalResponsePayload :: "fabric_pb \<Rightarrow> bytes \<Rightarrow> bytes outcome" where
  "GetProposalResponsePayload pb b =
     wrapErrorf ''error unmarshaling ProposalResponsePayload'' (pb_ProposalResponsePayload pb b)"

definition GetChaincodeActionPayload :: "fabric_pb \<Rightarrow> bytes \<Rightarrow> bytes option outcome" where
  "GetChaincodeActionPayload pb b =
     wrapErrorf ''error unmarshaling ChaincodeActionPayload'' (pb_ChaincodeActionPayload pb b)"

definition GetEnvelopeFromBlock :: "fabric_pb \<Rightarrow> bytes \<Rightarrow> bytes outcome" where
  "GetEnvelopeFromBlock pb b = wrapErrorf ''error unmarshaling Envelope'' (pb_Envelope pb b)"

definition GetPayload :: "fabric_pb \<Rightarrow> bytes \<Rightarrow> pb_payload outcome" where
  "GetPayload pb b = wrapErrorf ''error unmarshaling Payload'' (pb_Payload pb b)"

definition UnmarshalChannelHeader :: "fabric_pb \<Rightarrow> bytes \<Rightarrow> channel_header outcome" where
  "UnmarshalChannelHeader pb b = wrapErrorf ''error unmarshaling ChannelHeader'' (pb_ChannelHeader pb b)"

definition GetTransaction :: "fabric_pb \<Rightarrow> bytes \<Rightarrow> bytes list outcome" where
  "GetTransaction pb b = wrapErrorf ''error unmarshaling Transaction'' (pb_Transaction pb b)"

section \<open>Validation flags\<close>

definition TxValidationCode_VALID :: u8 where "TxValidationCode_VALID = 0"
definition TxValidationCode_NOT_VALIDATED :: u8 where "TxValidationCode_NOT_VALIDATED = 254"

definition newTxValidationFlagsSetValue :: "nat \<Rightarrow> u8 \<Rightarrow> bytes" where
  "newTxValidationFlagsSetValue n v = replicate n v"

definition NewTxValidationFlags :: "nat \<Rightarrow> bytes" where
  "NewTxValidationFlags n = newTxValidationFlagsSetValue n TxValidationCode_NOT_VALIDATED"

definition Flag :: "bytes \<Rightarrow> nat \<Rightarrow> u8 outcome" where
  "Flag obj txIndex = index_or_panic obj txIndex"

definition IsSetTo :: "bytes \<Rightarrow> nat \<Rightarrow> u8 \<Rightarrow> bool outcome" where
  "IsSetTo obj txIndex flag = bind_outcome (Flag obj txIndex) (\<lambda>f. Ok (f = flag))"

definition IsValid :: "bytes \<Rightarrow> nat \<Rightarrow> bool outcome" where
  "IsValid obj txIndex = IsSetTo obj txIndex TxValidationCode_VALID"

definition IsInvalid :: "bytes \<Rightarrow> nat \<Rightarrow> bool outcome" where
  "IsInvalid obj txIndex = bind_outcome (IsValid obj txIndex) (\<lambda>v. Ok (\<not> v))"

section \<open>Filtering\<close>

text \<open>One turn of the loop in \<open>toFilteredActions\<close>; \<open>None\<close> is a \<open>continue\<close> or an event without
  a chaincode.\<close>

definition filtered_action :: "fabric_pb \<Rightarrow> bytes \<Rightarrow> chaincode_event option outcome" where
  "filtered_action pb action =
     bind_outcome (wrap_err ''error unmarshal transaction action payload for block event''
       (GetChaincodeActionPayload pb action)) (\<lambda>cap.
     case cap of
       None \<Rightarrow> Ok None
     | Some prp \<Rightarrow>
         bind_outcome (wrap_err ''error unmarshal proposal response payload for block event''
           (GetProposalResponsePayload pb prp)) (\<lambda>ext.
         bind_outcome (wrap_err ''error unmarshal chaincode action for block event''
           (GetChaincodeAction pb ext)) (\<lambda>events.
         bind_outcome (wrap_err ''error unmarshal chaincode event for block event''
           (GetChaincodeEvents pb events)) (\<lambda>ccEvent.
         Ok (if ev_ChaincodeId ccEvent \<noteq> [] then Some ccEvent else None)))))"

definition toFilteredActions :: "fabric_pb \<Rightarrow> bytes list \<Rightarrow> chaincode_event list outcome" where
  "toFilteredActions pb ta =
     bind_outcome (traverse (filtered_action pb) ta) (\<lambda>rs. Ok (List.map_filter (\<lambda>r. r) rs))"

record prepare_tx =
  pre_BlockNumber :: u64
  pre_TxID :: string
  pre_TimeStamp :: "timestamp option"
  pre_EventName :: string
  pre_Payload :: bytes

definition show_u64 :: "u64 \<Rightarrow> string" where
  "show_u64 w = show_nat (unat w)"

definition ParseEnvelopePayload :: "fabric_pb \<Rightarrow> nat \<Rightarrow> bytes option \<Rightarrow> (bytes \<times> bytes) outcome" where
  "ParseEnvelopePayload pb txIndex ebytes =
     (case ebytes of
        None \<Rightarrow> Err (ErrNew (''got nil data bytes for tx '' @ show_nat txIndex))
      | Some b \<Rightarrow>
          bind_outcome (wrap_err ''error getting tx from block'' (GetEnvelopeFromBlock pb b)) (\<lambda>env.
          bind_outcome (wrap_err ''could not extract payload from envelope'' (GetPayload pb env)) (\<lambda>p.
          case pl_ChannelHeader p of
            None \<Rightarrow> Err (ErrNew ''transaction payload header is nil'')
          | Some h \<Rightarrow> Ok (h, pl_Data p))))"

definition HeaderType_ENDORSER_TRANSACTION :: "32 word" where
  "HeaderType_ENDORSER_TRANSACTION = 3"

definition getChannelHeader :: "fabric_pb \<Rightarrow> bytes \<Rightarrow> channel_header outcome" where
  "getChannelHeader pb h =
     bind_outcome (UnmarshalChannelHeader pb h) (\<lambda>chdr.
       if ch_Type chdr \<noteq> HeaderType_ENDORSER_TRANSACTION
       then Err (ErrNew ''not HeaderType_ENDORSER_TRANSACTION'')
       else Ok chdr)"

definition getTxEvents :: "fabric_pb \<Rightarrow> bytes \<Rightarrow> (string \<times> bytes) outcome" where
  "getTxEvents pb payload =
     bind_outcome (wrap_err ''error unmarshal transaction payload for block event''
       (GetTransaction pb payload)) (\<lambda>actions.
     bind_outcome (toFilteredActions pb actions) (\<lambda>acts.
     case acts of
       [] \<Rightarrow> Err (ErrNew ''no chaincode event'')
     | ccEvent # _ \<Rightarrow> Ok (ev_EventName ccEvent, ev_Payload ccEvent)))"

text \<open>
  One turn of the loop in \<open>GetPrepareCrossTxs\<close>. The variable \<open>err\<close> of \<open>getChannelHeader\<close> is
  overwritten by the call of \<open>getTxEvents\<close>, so on an error other than the header type the loop goes
  on with a nil \<open>chdr\<close>. An error of \<open>getTxEvents\<close> comes with an empty event name.
\<close>

definition prepare_one ::
    "fabric_pb \<Rightarrow> (string \<Rightarrow> bool) \<Rightarrow> u64 \<Rightarrow> bytes \<Rightarrow> nat \<times> bytes option \<Rightarrow> prepare_tx option outcome" where
  "prepare_one pb filterFunc blockNum txsFltr tx =
     (case tx of (txIndex, ebytes) \<Rightarrow>
        bind_outcome (Flag txsFltr txIndex) (\<lambda>flag.
        if flag \<noteq> TxValidationCode_VALID then Ok None
        else
          bind_outcome (ParseEnvelopePayload pb txIndex ebytes) (\<lambda>(headerData, payloadData).
          let chdr = getChannelHeader pb headerData in
          case chdr of
            Panic p \<Rightarrow> Panic p
          | _ \<Rightarrow>
              if (case chdr of Err e \<Rightarrow> contains (err_text e) ''HeaderType_ENDORSER_TRANSACTION'' | _ \<Rightarrow> False)
              then Ok None
              else
                (case getTxEvents pb payloadData of
                   Panic p \<Rightarrow> Panic p
                 | Err e \<Rightarrow>
                     if contains (err_text e) ''no chaincode event'' then Ok None
                     else if \<not> filterFunc [] then Ok None
                     else Err e
                 | Ok (eventName, eventPayload) \<Rightarrow>
                     if \<not> filterFunc eventName then Ok None
                     else
                       (case chdr of
                          Ok h \<Rightarrow>
                            Ok (Some \<lparr> pre_BlockNumber = blockNum, pre_TxID = ch_TxId h,
                              pre_TimeStamp = ch_Timestamp h, pre_EventName = eventName,
                              pre_Payload = eventPayload \<rparr>)
                        | _ \<Rightarrow> Panic ''nil pointer dereference'')))))"

text \<open>\<open>BlockMetadataIndex_TRANSACTIONS_FILTER\<close> is 2.\<close>

definition deref :: "'a option \<Rightarrow> 'a outcome" where
  "deref p = (case p of None \<Rightarrow> Panic ''nil pointer dereference'' | Some x \<Rightarrow> Ok x)"

definition GetPrepareCrossTxs :: "fabric_pb \<Rightarrow> block \<Rightarrow> (string \<Rightarrow> bool) \<Rightarrow> prepare_tx list outcome" where
  "GetPrepareCrossTxs pb block filterFunc =
     bind_outcome (deref (blk_Metadata block)) (\<lambda>metadata.
     bind_outcome (index_or_panic metadata 2) (\<lambda>txsFltr.
     bind_outcome (deref (blk_Number block)) (\<lambda>blockNum.
     bind_outcome (deref (blk_Data block)) (\<lambda>data.
     bind_outcome (traverse (prepare_one pb filterFunc blockNum txsFltr) (enumerate 0 data)) (\<lambda>rs.
     let preCrossTxs = List.map_filter (\<lambda>r. r) rs in
     if preCrossTxs = [] then Err (ErrNew (''ignore block '' @ show_u64 blockNum))
     else Ok preCrossTxs)))))"

section \<open>Properties\<close>

lemma traverse_map_filter:
  "traverse f xs = Ok rs \<Longrightarrow> set (List.map_filter (\<lambda>r. r) rs) = {y. \<exists>x \<in> set xs. f x = Ok (Some y)}"
proof (induction xs arbitrary: rs)
  case (Cons x xs)
  then obtain r rs' where r: "f x = Ok r" "traverse f xs = Ok rs'" "rs = r # rs'"
    by (auto simp: bind_outcome_Ok_iff)
  from Cons.IH [OF r(2)] show ?case
    by (cases r) (auto simp: r)
qed simp

lemma prepare_one_Some:
  assumes "prepare_one pb filt n flags (i, e) = Ok (Some t)"
  shows "i < length flags \<and> flags ! i = TxValidationCode_VALID \<and> pre_BlockNumber t = n
    \<and> filt (pre_EventName t)
    \<and> (\<exists>h p c. ParseEnvelopePayload pb i e = Ok (h, p) \<and> getChannelHeader pb h = Ok c
        \<and> getTxEvents pb p = Ok (pre_EventName t, pre_Payload t)
        \<and> pre_TxID t = ch_TxId c \<and> pre_TimeStamp t = ch_Timestamp c)"
  using assms
  by (auto simp: prepare_one_def Flag_def index_or_panic_def bind_outcome_Ok_iff Let_def
      split: if_splits outcome.splits)

text \<open>What a block yields is exactly its wanted events. A successful \<open>GetPrepareCrossTxs\<close>
  returns at least one transaction; each one has the block's number, was marked valid by the
  committer, is an endorser transaction, and carries an event the filter accepts; and every
  transaction of the block for which a turn of the loop selects an event is among them.\<close>

theorem GetPrepareCrossTxs_sound:
  assumes "GetPrepareCrossTxs pb block filt = Ok txs"
    and "blk_Number block = Some n" "blk_Metadata block = Some md" "blk_Data block = Some data"
  shows "txs \<noteq> []
    \<and> set txs = {t. \<exists>i < length data. prepare_one pb filt n (md ! 2) (i, data ! i) = Ok (Some t)}
    \<and> (\<forall>t \<in> set txs. pre_BlockNumber t = n \<and> filt (pre_EventName t))"
proof -
  obtain rs where "2 < length md"
      and rs: "traverse (prepare_one pb filt n (md ! 2)) (enumerate 0 data) = Ok rs"
      and txs: "txs = List.map_filter (\<lambda>r. r) rs" "txs \<noteq> []"
    using assms
    by (auto simp: GetPrepareCrossTxs_def bind_outcome_Ok_iff deref_def index_or_panic_def Let_def
        split: if_splits)
  have "set (enumerate 0 data) = {(i, data ! i) | i. i < length data}"
    by (auto simp: in_set_enumerate_eq)
  then have set: "set txs = {t. \<exists>i < length data. prepare_one pb filt n (md ! 2) (i, data ! i) = Ok (Some t)}"
    using traverse_map_filter [OF rs] txs(1) by auto
  then have "\<forall>t \<in> set txs. pre_BlockNumber t = n \<and> filt (pre_EventName t)"
    using prepare_one_Some by blast
  with set txs(2) show ?thesis by blast
qed

text \<open>A protobuf layer for the examples: every message is its own bytes; the event \<open>precommit\<close> has
  the payload \<open>[9]\<close>; a channel header that starts with 1 does not parse.\<close>

definition demo_pb :: fabric_pb where
  "demo_pb = \<lparr> pb_Envelope = Inr, pb_Payload = \<lambda>b. Inr \<lparr> pl_ChannelHeader = Some b, pl_Data = b \<rparr>,
     pb_ChannelHeader = \<lambda>b. if b = [1] then Inl (ErrNew ''proto'')
       else Inr \<lparr> ch_Type = 3, ch_TxId = ''tx'', ch_Timestamp = None \<rparr>,
     pb_Transaction = \<lambda>b. if b = [2] then Inl (ErrNew ''proto'') else Inr [b],
     pb_ChaincodeActionPayload = \<lambda>b. Inr (Some b),
     pb_ProposalResponsePayload = Inr, pb_ChaincodeAction = Inr,
     pb_ChaincodeEvent = \<lambda>b. Inr \<lparr> ev_TxId = ''tx'', ev_ChaincodeId = ''cc'',
       ev_EventName = ''precommit'', ev_Payload = [9] \<rparr> \<rparr>"

lemmas demo_pb_eval = prepare_one_def Flag_def ParseEnvelopePayload_def GetEnvelopeFromBlock_def
  GetPayload_def getChannelHeader_def UnmarshalChannelHeader_def getTxEvents_def GetTransaction_def
  toFilteredActions_def filtered_action_def GetChaincodeActionPayload_def
  GetProposalResponsePayload_def GetChaincodeAction_def GetChaincodeEvents_def wrapErrorf_def
  demo_pb_def HeaderType_ENDORSER_TRANSACTION_def TxValidationCode_VALID_def 
  contains_def Let_def

definition demo_pre :: prepare_tx where
  "demo_pre = \<lparr> pre_BlockNumber = 7, pre_TxID = ''tx'', pre_TimeStamp = None,
     pre_EventName = ''precommit'', pre_Payload = [9] \<rparr>"

definition demo_block :: "bytes \<Rightarrow> block" where
  "demo_block b = \<lparr> blk_Number = Some 7, blk_Metadata = Some [[], [], [0]], blk_Data = Some [Some b] \<rparr>"

lemma demo_prepare: "GetPrepareCrossTxs demo_pb (demo_block [5]) (\<lambda>e. e = ''precommit'') = Ok [demo_pre]"
  by (simp add: GetPrepareCrossTxs_def demo_block_def deref_def demo_pb_eval demo_pre_def)

lemma GetPrepareCrossTxs_sound_witness:
  "pre_BlockNumber demo_pre = 7 \<and> prepare_one demo_pb (\<lambda>e. e = ''precommit'') 7 [0] (0, Some [5]) = Ok (Some demo_pre)"
  using GetPrepareCrossTxs_sound [OF demo_prepare, of 7 "[[], [], [0]]" "[Some [5]]"]
  by (auto simp: demo_block_def)

text \<open>A transaction whose content cannot be decoded does not stop the block when the filter
  rejects the empty event name: the error of \<open>getTxEvents\<close> is dropped and the transaction skipped.\<close>

theorem undecodable_tx_skipped:
  assumes "i < length flags" "flags ! i = TxValidationCode_VALID" "\<not> filt []"
    and "ParseEnvelopePayload pb i e = Ok (h, p)" "getTxEvents pb p = Err x"
  shows "prepare_one pb filt n flags (i, e) = Ok None"
proof -
  have "getChannelHeader pb h \<noteq> Panic q" for q
    by (auto simp: getChannelHeader_def UnmarshalChannelHeader_def wrapErrorf_def split: sum.splits)
  then show ?thesis
    using assms by (auto simp: prepare_one_def Flag_def Let_def split: outcome.splits)
qed

lemma undecodable_tx_skipped_witness:
  "prepare_one demo_pb (\<lambda>e. e = ''precommit'') 7 [0] (0, Some [2]) = Ok None"
  by (rule undecodable_tx_skipped [where h = "[2]" and p = "[2]"])
    (simp_all add: demo_pb_eval del: prepare_one_def)

text \<open>A valid transaction whose channel header does not parse panics the courier when it carries
  a wanted event: the error of \<open>getChannelHeader\<close> is overwritten and the nil header dereferenced.\<close>

theorem broken_header_panics:
  assumes "i < length flags" "flags ! i = TxValidationCode_VALID"
    and "ParseEnvelopePayload pb i e = Ok (h, p)" "pb_ChannelHeader pb h = Inl x"
    and "\<not> contains (err_text x) ''HeaderType_ENDORSER_TRANSACTION''"
    and "getTxEvents pb p = Ok (ev, pay)" "filt ev"
  shows "prepare_one pb filt n flags (i, e) = Panic ''nil pointer dereference''"
proof -
  have g: "getChannelHeader pb h = Err (ErrWrap ''error unmarshaling ChannelHeader'' x)"
    using assms(4) by (simp add: getChannelHeader_def UnmarshalChannelHeader_def wrapErrorf_def)
  have "\<not> contains (''error unmarshaling ChannelHeader: '' @ err_text x) ''HeaderType_ENDORSER_TRANSACTION''"
    using assms(5) by (simp add: contains_def)
  with g show ?thesis
    using assms by (simp add: prepare_one_def Flag_def Let_def)
qed

lemma broken_header_panics_witness:
  "prepare_one demo_pb (\<lambda>e. e = ''precommit'') 7 [0] (0, Some [1]) = Panic ''nil pointer dereference''"
  by (rule broken_header_panics [where h = "[1]" and p = "[1]" and x = "ErrNew ''proto''"
        and ev = "''precommit''" and pay = "[9]"])
    (simp_all add: demo_pb_eval del: prepare_one_def)

end
