(* ===== verification/Contract.thy ===== *)
theory Contract
  imports GoText
begin

text \<open>
  The contract types the chaincode and the courier exchange (fabric/courier/contractlib/type.go;
  fabric/chaincode/chaincode_example02/go/type.go is the original it is copied from): the status
  flags, the precommit and commit contracts behind the interface \<open>IContract\<close>, and their JSON
  form. JSON documents are value trees: objects keep their members in order, the text layer of
  \<open>encoding/json\<close> is left out. A nil slice and an empty slice are both \<open>[]\<close>.
\<close>

section \<open>Status flags\<close>

type_synonym cstatus = u8

definition Init :: cstatus where "Init = 128"
definition Pending :: cstatus where "Pending = 64"
definition Executed :: cstatus where "Executed = 32"
definition Finished :: cstatus where "Finished = 16"
definition Completed :: cstatus where "Completed = 8"
definition OutOnceCompleted :: cstatus where "OutOnceCompleted = 4"

lemmas cstatus_defs = Init_def Pending_def Executed_def Finished_def Completed_def
  OutOnceCompleted_def

definition CStatus_String :: "cstatus \<Rightarrow> string" where
  "CStatus_String c =
     (if c = Init then ''Init''
      else if c = Pending then ''Pending''
      else if c = Executed then ''Executed''
      else if c = Finished then ''Finished''
      else if c = Completed then ''Completed''
      else if c = OutOnceCompleted then ''OutOnceCompleted''
      else ''UnSupported'')"

definition ParseCStatus :: "string \<Rightarrow> cstatus outcome" where
  "ParseCStatus c =
     (if c = ''Init'' then Ok Init
      else if c = ''Pending'' then Ok Pending
      else if c = ''Executed'' then Ok Executed
      else if c = ''Finished'' then Ok Finished
      else if c = ''Completed'' then Ok Completed
      else if c = ''OutOnceCompleted'' then Ok OutOnceCompleted
      else Err (ErrNew (''not a valid cstatus flag: '' @ c)))"

definition supported :: "cstatus \<Rightarrow> bool" where
  "supported c \<longleftrightarrow> c \<in> {Init, Pending, Executed, Finished, Completed, OutOnceCompleted}"

lemma supported_cases [consumes 1]:
  assumes "supported c"
  obtains "c = Init" | "c = Pending" | "c = Executed" | "c = Finished" | "c = Completed"
    | "c = OutOnceCompleted"
  using assms by (auto simp: supported_def)

lemma cstatus_neq [simp]:
  "Init \<noteq> Pending" "Init \<noteq> Executed" "Init \<noteq> Finished" "Init \<noteq> Completed" "Init \<noteq> OutOnceCompleted"
  "Pending \<noteq> Init" "Pending \<noteq> Executed" "Pending \<noteq> Finished" "Pending \<noteq> Completed"
  "Pending \<noteq> OutOnceCompleted" "Executed \<noteq> Init" "Executed \<noteq> Pending" "Executed \<noteq> Finished"
  "Executed \<noteq> Completed" "Executed \<noteq> OutOnceCompleted" "Finished \<noteq> Init" "Finished \<noteq> Pending"
  "Finished \<noteq> Executed" "Finished \<noteq> Completed" "Finished \<noteq> OutOnceCompleted" "Completed \<noteq> Init"
  "Completed \<noteq> Pending" "Completed \<noteq> Executed" "Completed \<noteq> Finished"
  "Completed \<noteq> OutOnceCompleted" "OutOnceCompleted \<noteq> Init" "OutOnceCompleted \<noteq> Pending"
  "OutOnceCompleted \<noteq> Executed" "OutOnceCompleted \<noteq> Finished" "OutOnceCompleted \<noteq> Completed"
  by (simp_all add: cstatus_defs)

lemma CStatus_String_simps [simp]:
  "CStatus_String Init = ''Init''" "CStatus_String Pending = ''Pending''"
  "CStatus_String Executed = ''Executed''" "CStatus_String Finished = ''Finished''"
  "CStatus_String Completed = ''Completed''"
  "CStatus_String OutOnceCompleted = ''OutOnceCompleted''"
  by (simp_all add: CStatus_String_def)

lemma ParseCStatus_String: "supported c \<Longrightarrow> ParseCStatus (CStatus_String c) = Ok c"
  by (erule supported_cases) (simp_all add: ParseCStatus_def)

lemma CStatus_String_unsupported: "\<not> supported c \<Longrightarrow> CStatus_String c = ''UnSupported''"
  by (simp add: CStatus_String_def supported_def)

section \<open>Contracts\<close>

record contract_core =
  Address :: string
  Value :: string
  Description :: string
  Owner :: string
  ToCallFunc :: string
  Args :: "string list"
  Creator :: string

record precommit_contract =
  p_Status :: cstatus
  p_ContractID :: string
  p_Receipt :: string
  p_Core :: contract_core

record commit_contract =
  c_Status :: cstatus
  c_ContractID :: string

text \<open>The interface \<open>IContract\<close> holds a pointer to one of the two structs.\<close>

datatype icontract = PrecommitContract precommit_contract | CommitContract commit_contract

fun GetContractID :: "icontract \<Rightarrow> string" where
  "GetContractID (PrecommitContract c) = p_ContractID c"
| "GetContractID (CommitContract c) = c_ContractID c"

fun GetStatus :: "icontract \<Rightarrow> cstatus" where
  "GetStatus (PrecommitContract c) = p_Status c"
| "GetStatus (CommitContract c) = c_Status c"

fun GetCoreInfo :: "icontract \<Rightarrow> contract_core option" where
  "GetCoreInfo (PrecommitContract c) = Some (p_Core c)"
| "GetCoreInfo (CommitContract c) = None"

fun UpdateStatus :: "cstatus \<Rightarrow> icontract \<Rightarrow> icontract" where
  "UpdateStatus s (PrecommitContract c) = PrecommitContract (c\<lparr>p_Status := s\<rparr>)"
| "UpdateStatus s (CommitContract c) = CommitContract (c\<lparr>c_Status := s\<rparr>)"

definition UpdateReceipt :: "string \<Rightarrow> precommit_contract \<Rightarrow> precommit_contract" where
  "UpdateReceipt receipt c = c\<lparr>p_Receipt := receipt\<rparr>"

definition IsInit :: "icontract \<Rightarrow> bool" where "IsInit c \<longleftrightarrow> GetStatus c = Init"
definition IsPending :: "icontract \<Rightarrow> bool" where "IsPending c \<longleftrightarrow> GetStatus c = Pending"
definition IsExecuted :: "icontract \<Rightarrow> bool" where "IsExecuted c \<longleftrightarrow> GetStatus c = Executed"
definition IsFinished :: "icontract \<Rightarrow> bool" where "IsFinished c \<longleftrightarrow> GetStatus c = Finished"
definition IsCompleted :: "icontract \<Rightarrow> bool" where "IsCompleted c \<longleftrightarrow> GetStatus c = Completed"
definition IsOutOnceCompleted :: "icontract \<Rightarrow> bool" where
  "IsOutOnceCompleted c \<longleftrightarrow> GetStatus c = OutOnceCompleted"

lemma GetStatus_UpdateStatus [simp]: "GetStatus (UpdateStatus s c) = s"
  by (cases c) auto

lemma GetContractID_UpdateStatus [simp]: "GetContractID (UpdateStatus s c) = GetContractID c"
  by (cases c) auto

lemma GetCoreInfo_UpdateStatus [simp]: "GetCoreInfo (UpdateStatus s c) = GetCoreInfo c"
  by (cases c) auto

section \<open>JSON\<close>

datatype json =
    JNull
  | JBool bool
  | JNum int
  | JStr string
  | JArr "json list"
  | JObj "(string \<times> json) list"

text \<open>\<open>json.Unmarshal\<close> into a \<open>map[string]*json.RawMessage\<close>: later members win.\<close>

definition unmarshal_map :: "json \<Rightarrow> (string \<rightharpoonup> json) outcome" where
  "unmarshal_map j =
     (case j of
        JObj ms \<Rightarrow> Ok (map_of (rev ms))
      | JNull \<Rightarrow> Ok Map.empty
      | _ \<Rightarrow> Err (ErrNew ''json: cannot unmarshal into Go value of type map''))"

text \<open>\<open>*objMap[k]\<close>: a missing member or a null is a nil pointer.\<close>

definition deref_member :: "(string \<rightharpoonup> json) \<Rightarrow> string \<Rightarrow> json outcome" where
  "deref_member m k =
     (case m k of
        None \<Rightarrow> Panic ''nil pointer dereference''
      | Some JNull \<Rightarrow> Panic ''nil pointer dereference''
      | Some j \<Rightarrow> Ok j)"

definition unmarshal_string :: "json \<Rightarrow> string outcome" where
  "unmarshal_string j =
     (case j of
        JStr s \<Rightarrow> Ok s
      | JNull \<Rightarrow> Ok []
      | _ \<Rightarrow> Err (ErrNew ''json: cannot unmarshal into Go value of type string''))"

text \<open>
  Struct fields are matched by name up to the case of letters. A value of the wrong type
  leaves its field as it is and the decoder goes on; its error is reported at the end. An
  error of \<open>UnmarshalText\<close> stops the decoder.
\<close>

definition fold_char :: "char \<Rightarrow> char" where
  "fold_char c = (let n = of_char c :: nat in if 65 \<le> n \<and> n \<le> 90 then char_of (n + 32) else c)"

definition key_is :: "string \<Rightarrow> string \<Rightarrow> bool" where
  "key_is name k \<longleftrightarrow> map fold_char k = map fold_char name"

definition set_string :: "json \<Rightarrow> string \<Rightarrow> string" where
  "set_string j old = (case j of JStr s \<Rightarrow> s | _ \<Rightarrow> old)"

definition set_strings :: "json \<Rightarrow> string list \<Rightarrow> string list" where
  "set_strings j old =
     (case j of JArr js \<Rightarrow> map (\<lambda>x. set_string x []) js | JNull \<Rightarrow> [] | _ \<Rightarrow> old)"

definition decode_core_member :: "string \<Rightarrow> json \<Rightarrow> contract_core \<Rightarrow> contract_core" where
  "decode_core_member k v c =
     (if key_is ''address'' k then c\<lparr>Address := set_string v (Address c)\<rparr>
      else if key_is ''value'' k then c\<lparr>Value := set_string v (Value c)\<rparr>
      else if key_is ''description'' k then c\<lparr>Description := set_string v (Description c)\<rparr>
      else if key_is ''owner'' k then c\<lparr>Owner := set_string v (Owner c)\<rparr>
      else if key_is ''to_call'' k then c\<lparr>ToCallFunc := set_string v (ToCallFunc c)\<rparr>
      else if key_is ''args'' k then c\<lparr>Args := set_strings v (Args c)\<rparr>
      else if key_is ''creator'' k then c\<lparr>Creator := set_string v (Creator c)\<rparr>
      else c)"

fun decode_precommit :: "(string \<times> json) list \<Rightarrow> precommit_contract \<Rightarrow> precommit_contract" where
  "decode_precommit [] c = c"
| "decode_precommit ((k, v) # ms) c =
     (if key_is ''status'' k then
        (case v of
           JStr s \<Rightarrow>
             (case ParseCStatus s of
                Ok st \<Rightarrow> decode_precommit ms (c\<lparr>p_Status := st\<rparr>)
              | _ \<Rightarrow> c)
         | _ \<Rightarrow> decode_precommit ms c)
      else if key_is ''contract_id'' k then
        decode_precommit ms (c\<lparr>p_ContractID := set_string v (p_ContractID c)\<rparr>)
      else if key_is ''receipt'' k then
        decode_precommit ms (c\<lparr>p_Receipt := set_string v (p_Receipt c)\<rparr>)
      else decode_precommit ms (c\<lparr>p_Core := decode_core_member k v (p_Core c)\<rparr>))"

fun decode_commit :: "(string \<times> json) list \<Rightarrow> commit_contract \<Rightarrow> commit_contract" where
  "decode_commit [] c = c"
| "decode_commit ((k, v) # ms) c =
     (if key_is ''status'' k then
        (case v of
           JStr s \<Rightarrow>
             (case ParseCStatus s of
                Ok st \<Rightarrow> decode_commit ms (c\<lparr>c_Status := st\<rparr>)
              | _ \<Rightarrow> c)
         | _ \<Rightarrow> decode_commit ms c)
      else if key_is ''contract_id'' k then
        decode_commit ms (c\<lparr>c_ContractID := set_string v (c_ContractID c)\<rparr>)
      else decode_commit ms c)"

definition zero_core :: contract_core where
  "zero_core = \<lparr> Address = [], Value = [], Description = [], Owner = [], ToCallFunc = [],
     Args = [], Creator = [] \<rparr>"

definition zero_precommit :: precommit_contract where
  "zero_precommit = \<lparr> p_Status = 0, p_ContractID = [], p_Receipt = [], p_Core = zero_core \<rparr>"

definition zero_commit :: commit_contract where
  "zero_commit = \<lparr> c_Status = 0, c_ContractID = [] \<rparr>"

definition object_members :: "json \<Rightarrow> (string \<times> json) list" where
  "object_members j = (case j of JObj ms \<Rightarrow> ms | _ \<Rightarrow> [])"

text \<open>
  The error of the second \<open>json.Unmarshal\<close> is assigned to \<open>err\<close> and then dropped: the
  function ends with \<open>return c, nil\<close>.
\<close>

definition RebuildIContract :: "json \<Rightarrow> icontract outcome" where
  "RebuildIContract bytes =
     bind_outcome (unmarshal_map bytes) (\<lambda>contractMap.
     bind_outcome (deref_member contractMap ''status'') (\<lambda>status.
     bind_outcome (unmarshal_string status) (\<lambda>typ.
       if typ \<in> {''Init'', ''Pending'', ''Executed'', ''Completed''} then
         Ok (PrecommitContract (decode_precommit (object_members bytes) zero_precommit))
       else if typ \<in> {''Finished'', ''OutOnceCompleted''} then
         Ok (CommitContract (decode_commit (object_members bytes) zero_commit))
       else Err (ErrNew (''unsupported contract type: '' @ typ)))))"

text \<open>\<open>func (c *Contract) UnmarshalJSON\<close>; the struct \<open>Contract\<close> only embeds the interface.\<close>

definition Contract_UnmarshalJSON :: "json \<Rightarrow> icontract outcome" where
  "Contract_UnmarshalJSON bytes =
     bind_outcome (unmarshal_map bytes) (\<lambda>objMap.
     bind_outcome (deref_member objMap ''IContract'') RebuildIContract)"

definition core_json :: "contract_core \<Rightarrow> (string \<times> json) list" where
  "core_json c =
     [(''address'', JStr (Address c)), (''value'', JStr (Value c)),
      (''description'', JStr (Description c)), (''owner'', JStr (Owner c)),
      (''to_call'', JStr (ToCallFunc c)), (''args'', JArr (map JStr (Args c))),
      (''creator'', JStr (Creator c))]"

fun icontract_json :: "icontract \<Rightarrow> json" where
  "icontract_json (PrecommitContract c) =
     JObj ([(''status'', JStr (CStatus_String (p_Status c))),
            (''contract_id'', JStr (p_ContractID c)), (''receipt'', JStr (p_Receipt c))]
           @ core_json (p_Core c))"
| "icontract_json (CommitContract c) =
     JObj [(''status'', JStr (CStatus_String (c_Status c))),
           (''contract_id'', JStr (c_ContractID c))]"

text \<open>\<open>json.Marshal(contract)\<close> for \<open>Contract{...}\<close>.\<close>

definition Contract_json :: "icontract \<Rightarrow> json" where
  "Contract_json c = JObj [(''IContract'', icontract_json c)]"

text \<open>
  \<open>genContractID\<close>: the hash of the core's JSON text and the transaction id, in hexadecimal.
  \<open>render\<close> is the JSON text of a value tree and \<open>sha256\<close> the hash function.
\<close>

definition genContractID :: "(json \<Rightarrow> string) \<Rightarrow> (string \<Rightarrow> string) \<Rightarrow> contract_core \<Rightarrow> string \<Rightarrow> string" where
  "genContractID render sha256_hex core txid = sha256_hex (render (JObj (core_json core)) @ txid)"

section \<open>Round trips\<close>

text \<open>What a stored contract is read back as: the kind of struct is chosen by the status, and
  a commit contract has no room for the receipt and the core of a precommit contract.\<close>

fun canonical :: "icontract \<Rightarrow> icontract" where
  "canonical (PrecommitContract c) =
     (if p_Status c \<in> {Finished, OutOnceCompleted}
      then CommitContract \<lparr> c_Status = p_Status c, c_ContractID = p_ContractID c \<rparr>
      else PrecommitContract c)"
| "canonical (CommitContract c) =
     (if c_Status c \<in> {Finished, OutOnceCompleted} then CommitContract c
      else PrecommitContract (zero_precommit\<lparr>p_Status := c_Status c, p_ContractID := c_ContractID c\<rparr>))"

lemma key_is_eval: "key_is a b \<longleftrightarrow> map fold_char b = map fold_char a"
  by (simp add: key_is_def)

lemma set_strings_JStr [simp]: "set_strings (JArr (map JStr xs)) old = xs"
  by (simp add: set_strings_def set_string_def comp_def)

lemma set_string_JStr [simp]: "set_string (JStr s) old = s"
  by (simp add: set_string_def)

lemma decode_precommit_json:
  assumes "ParseCStatus s = Ok st"
  shows "decode_precommit
     ([(''status'', JStr s), (''contract_id'', JStr i), (''receipt'', JStr r)] @ core_json co)
     zero_precommit = \<lparr> p_Status = st, p_ContractID = i, p_Receipt = r, p_Core = co \<rparr>"
  using assms
  by (simp add: core_json_def key_is_def fold_char_def Let_def decode_core_member_def
      zero_precommit_def zero_core_def)

lemma decode_commit_precommit_json:
  assumes "ParseCStatus s = Ok st"
  shows "decode_commit
     ([(''status'', JStr s), (''contract_id'', JStr i), (''receipt'', JStr r)] @ core_json co)
     zero_commit = \<lparr> c_Status = st, c_ContractID = i \<rparr>"
  using assms
  by (simp add: core_json_def key_is_def fold_char_def Let_def zero_commit_def)

lemma decode_commit_json:
  assumes "ParseCStatus s = Ok st"
  shows "decode_commit [(''status'', JStr s), (''contract_id'', JStr i)] zero_commit
     = \<lparr> c_Status = st, c_ContractID = i \<rparr>"
  using assms by (simp add: key_is_def fold_char_def Let_def zero_commit_def)

lemma decode_precommit_commit_json:
  assumes "ParseCStatus s = Ok st"
  shows "decode_precommit [(''status'', JStr s), (''contract_id'', JStr i)] zero_precommit
     = zero_precommit\<lparr>p_Status := st, p_ContractID := i\<rparr>"
  using assms by (simp add: key_is_def fold_char_def Let_def zero_precommit_def)

lemma map_of_rev_member:
  "map_of (rev ((''status'', v) # (''contract_id'', w) # ms)) ''status''
     = (case map_of (rev ms) ''status'' of None \<Rightarrow> Some v | Some x \<Rightarrow> Some x)"
  by (simp add: map_add_def split: option.splits)

lemma core_json_no_status: "map_of (rev (core_json c)) ''status'' = None"
  by (simp add: core_json_def)

lemma icontract_json_status:
  "bind_outcome (unmarshal_map (icontract_json c)) (\<lambda>m. deref_member m ''status'')
     = Ok (JStr (CStatus_String (GetStatus c)))"
  by (cases c) (simp_all add: unmarshal_map_def deref_member_def core_json_def)

lemma RebuildIContract_json:
  "RebuildIContract (icontract_json c) =
     (let typ = CStatus_String (GetStatus c) in
       if typ \<in> {''Init'', ''Pending'', ''Executed'', ''Completed''} then
         Ok (PrecommitContract (decode_precommit (object_members (icontract_json c)) zero_precommit))
       else if typ \<in> {''Finished'', ''OutOnceCompleted''} then
         Ok (CommitContract (decode_commit (object_members (icontract_json c)) zero_commit))
       else Err (ErrNew (''unsupported contract type: '' @ typ)))"
proof -
  obtain ms where ms: "icontract_json c = JObj ms" by (cases c) auto
  have "map_of (rev ms) ''status'' = Some (JStr (CStatus_String (GetStatus c)))"
    using icontract_json_status[of c]
    by (simp add: ms unmarshal_map_def deref_member_def split: option.splits json.splits)
  then show ?thesis
    by (simp add: RebuildIContract_def ms unmarshal_map_def deref_member_def
        unmarshal_string_def Let_def)
qed

lemma decode_stored_precommit:
  assumes "supported (p_Status p)"
  shows "decode_precommit (object_members (icontract_json (PrecommitContract p))) zero_precommit = p"
    and "decode_commit (object_members (icontract_json (PrecommitContract p))) zero_commit
           = \<lparr> c_Status = p_Status p, c_ContractID = p_ContractID p \<rparr>"
  unfolding icontract_json.simps object_members_def json.case
  using decode_precommit_json[OF ParseCStatus_String[OF assms]]
    decode_commit_precommit_json[OF ParseCStatus_String[OF assms]]
  by (simp_all del: decode_precommit.simps decode_commit.simps append.simps)

lemma decode_stored_commit:
  assumes "supported (c_Status q)"
  shows "decode_precommit (object_members (icontract_json (CommitContract q))) zero_precommit
           = zero_precommit\<lparr>p_Status := c_Status q, p_ContractID := c_ContractID q\<rparr>"
    and "decode_commit (object_members (icontract_json (CommitContract q))) zero_commit = q"
  unfolding icontract_json.simps object_members_def json.case
  using decode_precommit_commit_json[OF ParseCStatus_String[OF assms]]
    decode_commit_json[OF ParseCStatus_String[OF assms]]
  by (simp_all del: decode_precommit.simps decode_commit.simps append.simps)

lemma RebuildIContract_supported:
  assumes "supported (GetStatus c)"
  shows "RebuildIContract (icontract_json c) = Ok (canonical c)"
proof (cases c)
  case (PrecommitContract p)
  with assms have st: "supported (p_Status p)" by simp
  show ?thesis
    unfolding RebuildIContract_json PrecommitContract decode_stored_precommit[OF st]
    using st by (cases rule: supported_cases) (simp_all add: Let_def)
next
  case (CommitContract q)
  with assms have st: "supported (c_Status q)" by simp
  show ?thesis
    unfolding RebuildIContract_json CommitContract decode_stored_commit[OF st]
    using st by (cases rule: supported_cases) (simp_all add: Let_def)
qed

lemma RebuildIContract_unsupported:
  assumes "\<not> supported (GetStatus c)"
  shows "RebuildIContract (icontract_json c) = Err (ErrNew ''unsupported contract type: UnSupported'')"
  by (simp add: RebuildIContract_json CStatus_String_unsupported[OF assms] Let_def)

lemma Contract_UnmarshalJSON_wrapped:
  "Contract_UnmarshalJSON (Contract_json c) = RebuildIContract (icontract_json c)"
proof -
  obtain ms where "icontract_json c = JObj ms" by (cases c) auto
  then show ?thesis
    by (simp add: Contract_UnmarshalJSON_def Contract_json_def unmarshal_map_def deref_member_def)
qed

text \<open>C30: a contract marshalled to JSON and read back by \<open>Contract.UnmarshalJSON\<close> comes back as
  the contract its status selects: unchanged when its struct is the one the status stands for,
  stripped to status and identifier when a precommit contract carries a commit status (Finished
  or OutOnceCompleted), and refused with an error for a byte that is none of the six flags.\<close>

theorem Contract_roundtrip:
  "Contract_UnmarshalJSON (Contract_json c) =
     (if supported (GetStatus c) then Ok (canonical c)
      else Err (ErrNew ''unsupported contract type: UnSupported''))"
  by (simp add: Contract_UnmarshalJSON_wrapped RebuildIContract_supported
      RebuildIContract_unsupported)

lemma Contract_read_back:
  "supported (GetStatus c) \<Longrightarrow> Contract_UnmarshalJSON (Contract_json c) = Ok (canonical c)"
  by (simp add: Contract_UnmarshalJSON_wrapped RebuildIContract_supported)

text \<open>\<open>Contract.UnmarshalJSON\<close> panics on every object that has no \<open>IContract\<close> member: the
  nil \<open>RawMessage\<close> is dereferenced before any check.\<close>

theorem Contract_missing_member_panics:
  assumes "''IContract'' \<notin> fst ` set ms"
  shows "Contract_UnmarshalJSON (JObj ms) = Panic ''nil pointer dereference''"
proof -
  have "map_of (rev ms) ''IContract'' = None"
    using assms by (simp add: map_of_eq_None_iff)
  then show ?thesis
    by (simp add: Contract_UnmarshalJSON_def unmarshal_map_def deref_member_def)
qed

lemma Contract_missing_member_panics_witness:
  "Contract_UnmarshalJSON (JObj [(''status'', JStr ''Init'')]) = Panic ''nil pointer dereference''"
  by (rule Contract_missing_member_panics) simp

end
