(* ===== verification/CourierDB.thy ===== *)
theory CourierDB
  imports Contract BlockFilter CoreTx
begin

text \<open>
  Cross-chain contracts as the courier keeps them: \<open>CrossTx\<close> with its JSON form and its
  translation to a hub transaction (fabric/courier/tx.go), and the store
  (fabric/courier/database.go). Storm is a record of functions over an abstract database, with
  \<open>store_law\<close> over the view \<open>rows\<close> of a database as a map from \<open>CrossID\<close> to records.
\<close>

section \<open>Cross transactions of the courier\<close>

record crosstx =
  ct_Contract :: "icontract option"
  ct_PK :: i64
  ct_CrossID :: string
  ct_TxID :: string
  ct_BlockNumber :: u64
  ct_TimeStamp :: "timestamp option"

definition unmarshal_int64 :: "json \<Rightarrow> i64 outcome" where
  "unmarshal_int64 j =
     (case j of
        JNum n \<Rightarrow>
          if - (2 ^ 63) \<le> n \<and> n < 2 ^ 63 then Ok (word_of_int n)
          else Err (ErrNew ''json: cannot unmarshal number into Go value of type int64'')
      | _ \<Rightarrow> Err (ErrNew ''json: cannot unmarshal into Go value of type int64''))"

definition unmarshal_uint64 :: "json \<Rightarrow> u64 outcome" where
  "unmarshal_uint64 j =
     (case j of
        JNum n \<Rightarrow>
          if 0 \<le> n \<and> n < 2 ^ 64 then Ok (word_of_int n)
          else Err (ErrNew ''json: cannot unmarshal number into Go value of type uint64'')
      | _ \<Rightarrow> Err (ErrNew ''json: cannot unmarshal into Go value of type uint64''))"

text \<open>The struct \<open>timestamp.Timestamp\<close>: members \<open>seconds\<close> and \<open>nanos\<close>, left out when zero.\<close>

fun decode_timestamp :: "(string \<times> json) list \<Rightarrow> timestamp \<Rightarrow> timestamp outcome" where
  "decode_timestamp [] t = Ok t"
| "decode_timestamp ((k, v) # ms) t =
     (if key_is ''seconds'' k then
        bind_outcome (unmarshal_int64 v) (\<lambda>n. decode_timestamp ms (t\<lparr>ts_Seconds := n\<rparr>))
      else if key_is ''nanos'' k then
        (case v of
           JNum n \<Rightarrow>
             if - (2 ^ 31) \<le> n \<and> n < 2 ^ 31 then decode_timestamp ms (t\<lparr>ts_Nanos := word_of_int n\<rparr>)
             else Err (ErrNew ''json: cannot unmarshal number into Go value of type int32'')
         | _ \<Rightarrow> Err (ErrNew ''json: cannot unmarshal into Go value of type int32''))
      else decode_timestamp ms t)"

definition unmarshal_timestamp :: "json \<Rightarrow> timestamp outcome" where
  "unmarshal_timestamp j =
     (case j of
        JObj ms \<Rightarrow> decode_timestamp ms \<lparr> ts_Seconds = 0, ts_Nanos = 0 \<rparr>
      | _ \<Rightarrow> Err (ErrNew ''json: cannot unmarshal into Go value of type timestamp.Timestamp''))"

definition timestamp_json :: "timestamp \<Rightarrow> json" where
  "timestamp_json t =
     JObj ((if ts_Seconds t = 0 then [] else [(''seconds'', JNum (sint (ts_Seconds t)))])
       @ (if ts_Nanos t = 0 then [] else [(''nanos'', JNum (sint (ts_Nanos t)))]))"

definition crosstx_json :: "crosstx \<Rightarrow> json" where
  "crosstx_json c =
     JObj [(''IContract'', case ct_Contract c of None \<Rightarrow> JNull | Some i \<Rightarrow> icontract_json i),
           (''PK'', JNum (sint (ct_PK c))), (''CrossID'', JStr (ct_CrossID c)),
           (''TxID'', JStr (ct_TxID c)), (''BlockNumber'', JNum (uint (ct_BlockNumber c))),
           (''TimeStamp'', case ct_TimeStamp c of None \<Rightarrow> JNull | Some t \<Rightarrow> timestamp_json t)]"

text \<open>
  \<open>CrossTx.UnmarshalJSON\<close> collects the errors and returns the first one at the end, but
  dereferences each member before: a missing one panics, also when the document was no object.
\<close>

definition err_of :: "'a outcome \<Rightarrow> goerr option" where
  "err_of r = (case r of Err e \<Rightarrow> Some e | _ \<Rightarrow> None)"

definition first_error :: "goerr option list \<Rightarrow> goerr option" where
  "first_error es = (case List.map_filter (\<lambda>e. e) es of [] \<Rightarrow> None | e # _ \<Rightarrow> Some e)"

definition CrossTx_UnmarshalJSON :: "json \<Rightarrow> crosstx outcome" where
  "CrossTx_UnmarshalJSON bytes =
     (let parsed = unmarshal_map bytes;
          objMap = (case parsed of Ok m \<Rightarrow> m | _ \<Rightarrow> Map.empty) in
      bind_outcome (deref_member objMap ''PK'') (\<lambda>pk.
      bind_outcome (deref_member objMap ''CrossID'') (\<lambda>crossID.
      bind_outcome (deref_member objMap ''TxID'') (\<lambda>txID.
      bind_outcome (deref_member objMap ''BlockNumber'') (\<lambda>blockNumber.
      bind_outcome (deref_member objMap ''TimeStamp'') (\<lambda>timeStamp.
      bind_outcome (deref_member objMap ''IContract'') (\<lambda>iContract.
      case RebuildIContract iContract of
        Panic p \<Rightarrow> Panic p
      | contract \<Rightarrow>
          (case first_error [err_of parsed, err_of (unmarshal_int64 pk),
               err_of (unmarshal_string crossID), err_of (unmarshal_string txID),
               err_of (unmarshal_uint64 blockNumber), err_of (unmarshal_timestamp timeStamp),
               err_of contract] of
             Some e \<Rightarrow> Err e
           | None \<Rightarrow>
               Ok \<lparr> ct_Contract = Some (the_ok contract), ct_PK = the_ok (unmarshal_int64 pk),
                 ct_CrossID = the_ok (unmarshal_string crossID),
                 ct_TxID = the_ok (unmarshal_string txID),
                 ct_BlockNumber = the_ok (unmarshal_uint64 blockNumber),
                 ct_TimeStamp = Some (the_ok (unmarshal_timestamp timeStamp)) \<rparr>))))))))"

record crosstx_receipt =
  cr_CrossID :: string
  cr_Receipt :: string
  cr_Sequence :: i64

definition SimpleChain :: u8 where "SimpleChain = 2"
definition Fabric :: u8 where "Fabric = 5"

record hub_lib =
  HexToHash :: "string \<Rightarrow> hash"
  BigToHash :: "nat \<Rightarrow> hash"
  core_text :: "contract_core \<Rightarrow> bytes"

definition big_or_zero :: "string \<Rightarrow> int" where
  "big_or_zero s = (case big_set_string s of None \<Rightarrow> 0 | Some n \<Rightarrow> n)"

definition toCrossHubTx :: "hub_lib \<Rightarrow> crosstx \<Rightarrow> cross_tx option outcome" where
  "toCrossHubTx lib tx =
     (case ct_Contract tx of
        Some (PrecommitContract pre) \<Rightarrow>
          let payload = core_text lib (p_Core pre);
              charge = big_or_zero (Value (p_Core pre)) in
          bind_outcome (index_or_panic (Args (p_Core pre)) 2) (\<lambda>arg.
            Ok (Some (NewCrossTransaction (big_or_zero arg) charge (Address (p_Core pre)) []
              Fabric SimpleChain (HexToHash lib (ct_CrossID tx)) (HexToHash lib (ct_TxID tx))
              (BigToHash lib (unat (ct_BlockNumber tx))) payload)))
      | _ \<Rightarrow> Ok None)"

section \<open>The store\<close>

record ('d, 'f) store_lib =
  sd_Begin :: "'d \<Rightarrow> goerr option"
  sd_One :: "'d \<Rightarrow> string \<Rightarrow> string \<Rightarrow> crosstx outcome"
  sd_Save :: "crosstx \<Rightarrow> 'd \<Rightarrow> goerr + 'd"
  sd_Update :: "crosstx \<Rightarrow> 'd \<Rightarrow> goerr + 'd"
  sd_Commit :: "'d \<Rightarrow> goerr + 'd"
  sd_Find :: "string list \<Rightarrow> bool \<Rightarrow> (i64 \<times> i64) option \<Rightarrow> 'f list \<Rightarrow> 'd \<Rightarrow> crosstx list"
  sd_Set :: "string \<Rightarrow> string \<Rightarrow> bytes \<Rightarrow> 'd \<Rightarrow> goerr + 'd"
  sd_Get :: "string \<Rightarrow> string \<Rightarrow> 'd \<Rightarrow> goerr + bytes"

definition store_NotFound :: goerr where "store_NotFound = ErrNew ''not found''"

definition CrossIdIndex :: string where "CrossIdIndex = ''CrossID''"
definition store_StatusField :: string where "store_StatusField = ''Status''"
definition TimestampField :: string where "TimestampField = ''Timestamp''"

definition with_contract :: "crosstx \<Rightarrow> icontract \<Rightarrow> crosstx" where
  "with_contract c i = c\<lparr>ct_Contract := Some i\<rparr>"

text \<open>The loop of \<open>Save\<close>. The status of the new contract is an argument of every log call but one,
  so a nil contract panics.\<close>

fun Save_loop :: "('d, 'f) store_lib \<Rightarrow> crosstx list \<Rightarrow> 'd \<Rightarrow> 'd outcome" where
  "Save_loop lib [] tx = Ok tx"
| "Save_loop lib (newTx # txs) tx =
     (case sd_One lib tx CrossIdIndex (ct_CrossID newTx) of
        Panic p \<Rightarrow> Panic p
      | Err e \<Rightarrow>
          if e = store_NotFound then
            (case ct_Contract newTx of
               None \<Rightarrow> Panic ''nil pointer dereference''
             | Some _ \<Rightarrow>
                 (case sd_Save lib newTx tx of
                    Inl e \<Rightarrow> Err (ErrWrap ''db save err'' e)
                  | Inr tx' \<Rightarrow> Save_loop lib txs tx'))
          else Save_loop lib txs tx
      | Ok oldTx \<Rightarrow>
          (case ct_Contract oldTx of
             None \<Rightarrow> Save_loop lib txs tx
           | Some old \<Rightarrow>
               (case ct_Contract newTx of
                  None \<Rightarrow> Panic ''nil pointer dereference''
                | Some new \<Rightarrow>
                    if IsFinished new then
                      (case sd_Update lib (with_contract oldTx (UpdateStatus Completed old)) tx of
                         Inl e \<Rightarrow> Err (ErrWrap ''db update err'' e)
                       | Inr tx' \<Rightarrow> Save_loop lib txs tx')
                    else Save_loop lib txs tx)))"

text \<open>The end of a transaction: commit, or the deferred rollback.\<close>

definition store_finish :: "('d, 'f) store_lib \<Rightarrow> 'd \<Rightarrow> 'd outcome \<Rightarrow> unit outcome \<times> 'd" where
  "store_finish lib d r =
     (case r of
        Panic p \<Rightarrow> (Panic p, d)
      | Err e \<Rightarrow> (Err e, d)
      | Ok tx \<Rightarrow> (case sd_Commit lib tx of Inl e \<Rightarrow> (Err e, d) | Inr d' \<Rightarrow> (Ok (), d')))"

definition Store_Save :: "('d, 'f) store_lib \<Rightarrow> crosstx list \<Rightarrow> 'd \<Rightarrow> unit outcome \<times> 'd" where
  "Store_Save lib txList d =
     (case sd_Begin lib d of
        Some e \<Rightarrow> (Err (ErrWrap ''db begin err'' e), d)
      | None \<Rightarrow> store_finish lib d (Save_loop lib txList d))"

definition Store_One :: "('d, 'f) store_lib \<Rightarrow> string \<Rightarrow> string \<Rightarrow> 'd \<Rightarrow> crosstx option outcome" where
  "Store_One lib fieldName v d =
     (case sd_One lib d fieldName v of Panic p \<Rightarrow> Panic p | Err e \<Rightarrow> Ok None | Ok c \<Rightarrow> Ok (Some c))"

fun store_Updates_loop ::
    "('d, 'f) store_lib \<Rightarrow> (string \<times> (crosstx \<Rightarrow> crosstx outcome)) list \<Rightarrow> 'd \<Rightarrow> 'd outcome" where
  "store_Updates_loop lib [] tx = Ok tx"
| "store_Updates_loop lib ((i, updater) # us) tx =
     bind_outcome (wrap_err ''db query err'' (sd_One lib tx CrossIdIndex i)) (\<lambda>c.
     bind_outcome (updater c) (\<lambda>c'.
     case sd_Update lib c' tx of
       Inl e \<Rightarrow> Err (ErrWrap ''db update err'' e)
     | Inr tx' \<Rightarrow> store_Updates_loop lib us tx'))"

definition Store_Updates ::
    "('d, 'f) store_lib \<Rightarrow> string list \<Rightarrow> (crosstx \<Rightarrow> crosstx outcome) list \<Rightarrow> 'd \<Rightarrow> unit outcome \<times> 'd" where
  "Store_Updates lib idList updaters d =
     (if length idList \<noteq> length updaters then (Err (ErrNew ''invalid update params''), d)
      else
        case sd_Begin lib d of
          Some e \<Rightarrow> (Err (ErrWrap ''db begin err'' e), d)
        | None \<Rightarrow> store_finish lib d (store_Updates_loop lib (zip idList updaters) d))"

definition Store_Query ::
    "('d, 'f) store_lib \<Rightarrow> i64 \<Rightarrow> i64 \<Rightarrow> string list \<Rightarrow> bool \<Rightarrow> 'f list \<Rightarrow> 'd \<Rightarrow> crosstx list" where
  "Store_Query lib pageSize startPage orderBy reverse filters d =
     (if 0 < sint pageSize \<and> sint startPage \<le> 0 then []
      else sd_Find lib orderBy reverse
        (if 0 < sint pageSize then Some (pageSize, pageSize * (startPage - 1)) else None) filters d)"

definition Store_Set :: "('d, 'f) store_lib \<Rightarrow> string \<Rightarrow> string \<Rightarrow> bytes \<Rightarrow> 'd \<Rightarrow> goerr option \<times> 'd" where
  "Store_Set lib bucket key v d =
     (case sd_Set lib bucket key v d of Inl e \<Rightarrow> (Some e, d) | Inr d' \<Rightarrow> (None, d'))"

text \<open>\<open>Get\<close> logs an error and leaves its target as it was.\<close>

definition Store_Get :: "('d, 'f) store_lib \<Rightarrow> string \<Rightarrow> string \<Rightarrow> bytes \<Rightarrow> 'd \<Rightarrow> bytes" where
  "Store_Get lib bucket key to d = (case sd_Get lib bucket key d of Inl e \<Rightarrow> to | Inr v \<Rightarrow> v)"

section \<open>JSON round trip\<close>

lemma unmarshal_int64_sint [simp]: "unmarshal_int64 (JNum (sint (w :: i64))) = Ok w"
  using sint_range [of w] by (simp add: unmarshal_int64_def)

lemma unmarshal_uint64_uint [simp]: "unmarshal_uint64 (JNum (uint (w :: u64))) = Ok w"
proof -
  have "uint w < 2 ^ LENGTH(64)" by (rule unsigned_less)
  then show ?thesis by (simp add: unmarshal_uint64_def)
qed

lemma unmarshal_timestamp_json [simp]: "unmarshal_timestamp (timestamp_json t) = Ok t"
proof -
  have "- (2 ^ 31) \<le> sint (ts_Nanos t)" "sint (ts_Nanos t) < 2 ^ 31"
    using sint_ge [of "ts_Nanos t"] sint_lt [of "ts_Nanos t"] by simp_all
  then show ?thesis
    by (cases t) (simp add: unmarshal_timestamp_def timestamp_json_def key_is_def fold_char_def Let_def)
qed

lemma err_of_simps [simp]: "err_of (Ok x) = None" "err_of (Err e) = Some e" "err_of (Panic p) = None"
  by (simp_all add: err_of_def)

lemma icontract_json_obj: "\<exists>ms. icontract_json i = JObj ms"
  by (cases i) auto

lemma timestamp_json_obj: "\<exists>ms. timestamp_json t = JObj ms"
  by (simp add: timestamp_json_def)

definition crosstx_map :: "crosstx \<Rightarrow> icontract \<Rightarrow> timestamp \<Rightarrow> string \<rightharpoonup> json" where
  "crosstx_map c i t = map_of (rev [(''IContract'', icontract_json i),
     (''PK'', JNum (sint (ct_PK c))), (''CrossID'', JStr (ct_CrossID c)),
     (''TxID'', JStr (ct_TxID c)), (''BlockNumber'', JNum (uint (ct_BlockNumber c))),
     (''TimeStamp'', timestamp_json t)])"

lemma unmarshal_crosstx_json:
  "ct_Contract c = Some i \<Longrightarrow> ct_TimeStamp c = Some t \<Longrightarrow>
     unmarshal_map (crosstx_json c) = Ok (crosstx_map c i t)"
  by (simp add: crosstx_map_def crosstx_json_def unmarshal_map_def)

lemma crosstx_members:
  "deref_member (crosstx_map c i t) ''PK'' = Ok (JNum (sint (ct_PK c)))"
  "deref_member (crosstx_map c i t) ''CrossID'' = Ok (JStr (ct_CrossID c))"
  "deref_member (crosstx_map c i t) ''TxID'' = Ok (JStr (ct_TxID c))"
  "deref_member (crosstx_map c i t) ''BlockNumber'' = Ok (JNum (uint (ct_BlockNumber c)))"
  "deref_member (crosstx_map c i t) ''TimeStamp'' = Ok (timestamp_json t)"
  "deref_member (crosstx_map c i t) ''IContract'' = Ok (icontract_json i)"
proof -
  obtain js ts where "icontract_json i = JObj js" "timestamp_json t = JObj ts"
    using icontract_json_obj timestamp_json_obj by blast
  then show "deref_member (crosstx_map c i t) ''PK'' = Ok (JNum (sint (ct_PK c)))"
    "deref_member (crosstx_map c i t) ''CrossID'' = Ok (JStr (ct_CrossID c))"
    "deref_member (crosstx_map c i t) ''TxID'' = Ok (JStr (ct_TxID c))"
    "deref_member (crosstx_map c i t) ''BlockNumber'' = Ok (JNum (uint (ct_BlockNumber c)))"
    "deref_member (crosstx_map c i t) ''TimeStamp'' = Ok (timestamp_json t)"
    "deref_member (crosstx_map c i t) ''IContract'' = Ok (icontract_json i)"
    by (simp_all add: crosstx_map_def deref_member_def)
qed

text \<open>A courier record written to the database as JSON is read back as it was, with the contract
  in the form its status selects, when it has a contract with one of the six statuses and a
  timestamp.\<close>

theorem CrossTx_roundtrip:
  assumes "ct_Contract c = Some i" "supported (GetStatus i)" "ct_TimeStamp c = Some t"
  shows "CrossTx_UnmarshalJSON (crosstx_json c) = Ok (with_contract c (canonical i))"
  using assms(1,3) RebuildIContract_supported [OF assms(2)]
  by (simp add: CrossTx_UnmarshalJSON_def unmarshal_crosstx_json crosstx_members Let_def
      unmarshal_string_def first_error_def with_contract_def)

definition demo_contract :: icontract where
  "demo_contract = PrecommitContract \<lparr> p_Status = Init, p_ContractID = ''c1'', p_Receipt = [],
     p_Core = \<lparr> Address = ''0x1'', Value = ''5'', Description = [], Owner = ''a'',
       ToCallFunc = ''invoke'', Args = [''a'', ''b'', ''10''], Creator = ''admin'' \<rparr> \<rparr>"

definition demo_crosstx :: crosstx where
  "demo_crosstx = \<lparr> ct_Contract = Some demo_contract, ct_PK = 0, ct_CrossID = ''c1'', ct_TxID = ''t1'',
     ct_BlockNumber = 7, ct_TimeStamp = Some \<lparr> ts_Seconds = 100, ts_Nanos = 0 \<rparr> \<rparr>"

lemma demo_contract_simps [simp]:
  "GetStatus demo_contract = Init" "canonical demo_contract = demo_contract"
  "ct_Contract demo_crosstx = Some demo_contract"
  by (simp_all add: demo_contract_def demo_crosstx_def)

lemma supported_statuses [simp]:
  "supported Init" "supported Pending" "supported Executed" "supported Finished"
  "supported Completed" "supported OutOnceCompleted"
  by (simp_all add: supported_def)

lemma CrossTx_roundtrip_witness:
  "CrossTx_UnmarshalJSON (crosstx_json demo_crosstx) = Ok (with_contract demo_crosstx demo_contract)"
  using CrossTx_roundtrip [of demo_crosstx demo_contract "\<lparr> ts_Seconds = 100, ts_Nanos = 0 \<rparr>"]
  by (simp add: demo_crosstx_def)

text \<open>A record without a timestamp (a channel header may have none) is written as \<open>null\<close>, and
  reading it back panics.\<close>

theorem CrossTx_nil_timestamp_panics:
  assumes "ct_TimeStamp c = None"
  shows "CrossTx_UnmarshalJSON (crosstx_json c) = Panic ''nil pointer dereference''"
  using assms
  by (simp add: CrossTx_UnmarshalJSON_def crosstx_json_def unmarshal_map_def deref_member_def Let_def)

lemma CrossTx_nil_timestamp_panics_witness:
  "CrossTx_UnmarshalJSON (crosstx_json (demo_crosstx\<lparr>ct_TimeStamp := None\<rparr>)) = Panic ''nil pointer dereference''"
  by (rule CrossTx_nil_timestamp_panics) simp

section \<open>What the store promises\<close>

definition store_law :: "('d, 'f) store_lib \<Rightarrow> ('d \<Rightarrow> string \<rightharpoonup> crosstx) \<Rightarrow> bool" where
  "store_law lib rows \<longleftrightarrow>
     (\<forall>d k. sd_One lib d CrossIdIndex k =
        (case rows d k of Some c \<Rightarrow> Ok c | None \<Rightarrow> Err store_NotFound)) \<and>
     (\<forall>d k c. rows d k = Some c \<longrightarrow> ct_CrossID c = k \<and> ct_Contract c \<noteq> None) \<and>
     (\<forall>d c i d'. sd_Save lib c d = Inr d' \<longrightarrow> rows d (ct_CrossID c) = None \<longrightarrow>
        ct_Contract c = Some i \<longrightarrow> supported (GetStatus i) \<longrightarrow>
        (\<exists>pk. rows d' = (rows d)(ct_CrossID c \<mapsto> (with_contract c (canonical i))\<lparr>ct_PK := pk\<rparr>))) \<and>
     (\<forall>d k cur i d'. sd_Update lib (with_contract cur i) d = Inr d' \<longrightarrow> rows d k = Some cur \<longrightarrow>
        supported (GetStatus i) \<longrightarrow> rows d' = (rows d)(k \<mapsto> with_contract cur (canonical i))) \<and>
     (\<forall>d d'. sd_Commit lib d = Inr d' \<longrightarrow> rows d' = rows d)"

lemma store_One:
  "store_law lib rows \<Longrightarrow> sd_One lib d CrossIdIndex k =
     (case rows d k of Some c \<Rightarrow> Ok c | None \<Rightarrow> Err store_NotFound)"
  by (simp add: store_law_def)

lemma store_row:
  "store_law lib rows \<Longrightarrow> rows d k = Some c \<Longrightarrow> ct_CrossID c = k \<and> (\<exists>i. ct_Contract c = Some i)"
  by (auto simp: store_law_def)

lemma store_Save:
  assumes "store_law lib rows" "sd_Save lib c d = Inr d'" "rows d (ct_CrossID c) = None"
    "ct_Contract c = Some i" "supported (GetStatus i)"
  shows "\<exists>pk. rows d' = (rows d)(ct_CrossID c \<mapsto> (with_contract c (canonical i))\<lparr>ct_PK := pk\<rparr>)"
  using assms unfolding store_law_def by blast

lemma store_Update:
  assumes "store_law lib rows" "sd_Update lib (with_contract cur i) d = Inr d'" "rows d k = Some cur"
    "supported (GetStatus i)"
  shows "rows d' = (rows d)(k \<mapsto> with_contract cur (canonical i))"
  using assms unfolding store_law_def by blast

lemma store_Commit: "store_law lib rows \<Longrightarrow> sd_Commit lib d = Inr d' \<Longrightarrow> rows d' = rows d"
  by (simp add: store_law_def)

lemma GetStatus_canonical [simp]: "GetStatus (canonical c) = GetStatus c"
  by (cases c) simp_all

lemma with_contract_simps [simp]:
  "ct_Contract (with_contract c i) = Some i" "ct_CrossID (with_contract c i) = ct_CrossID c"
  "ct_Contract (c\<lparr>ct_PK := pk\<rparr>) = ct_Contract c"
  by (simp_all add: with_contract_def)

text \<open>The contracts a database holds.\<close>

definition contracts_of :: "('d \<Rightarrow> string \<rightharpoonup> crosstx) \<Rightarrow> 'd \<Rightarrow> string \<rightharpoonup> icontract" where
  "contracts_of rows d k = Option.bind (rows d k) ct_Contract"

text \<open>
  What \<open>Save\<close> does to them: the first contract of an identifier is stored, a Finished one
  completes the stored one, any other duplicate is dropped.
\<close>

fun save_spec :: "crosstx list \<Rightarrow> (string \<rightharpoonup> icontract) \<Rightarrow> string \<rightharpoonup> icontract" where
  "save_spec [] m = m"
| "save_spec (t # ts) m =
     save_spec ts
       (case (m (ct_CrossID t), ct_Contract t) of
          (None, Some i) \<Rightarrow> m(ct_CrossID t \<mapsto> canonical i)
        | (Some old, Some i) \<Rightarrow>
            if IsFinished i then m(ct_CrossID t \<mapsto> canonical (UpdateStatus Completed old)) else m
        | _ \<Rightarrow> m)"

definition storable :: "crosstx \<Rightarrow> bool" where
  "storable t \<longleftrightarrow> (\<exists>i. ct_Contract t = Some i \<and> supported (GetStatus i))"

lemma Save_loop_spec:
  assumes "store_law lib rows" "\<forall>t \<in> set txs. storable t"
  shows "(\<forall>p. Save_loop lib txs tx \<noteq> Panic p) \<and>
    (\<forall>tx'. Save_loop lib txs tx = Ok tx' \<longrightarrow>
       contracts_of rows tx' = save_spec txs (contracts_of rows tx))"
  using assms(2)
proof (induction txs arbitrary: tx)
  case (Cons t txs)
  obtain i where i: "ct_Contract t = Some i" "supported (GetStatus i)"
    using Cons.prems by (auto simp: storable_def)
  have IH: "(\<forall>p. Save_loop lib txs u \<noteq> Panic p) \<and>
    (\<forall>tx'. Save_loop lib txs u = Ok tx' \<longrightarrow>
       contracts_of rows tx' = save_spec txs (contracts_of rows u))" for u
    using Cons by simp
  show ?case
  proof (cases "rows tx (ct_CrossID t)")
    case None
    have m: "contracts_of rows tx (ct_CrossID t) = None" by (simp add: contracts_of_def None)
    have "contracts_of rows tx' = (contracts_of rows tx)(ct_CrossID t \<mapsto> canonical i)"
      if "sd_Save lib t tx = Inr tx'" for tx'
      using store_Save [OF assms(1) that None i] by (auto simp: contracts_of_def fun_eq_iff)
    with None m IH show ?thesis
      by (cases "sd_Save lib t tx") (simp_all add: store_One [OF assms(1)] i)
  next
    case (Some cur)
    then obtain old where old: "ct_Contract cur = Some old"
      using store_row [OF assms(1)] by blast
    have m: "contracts_of rows tx (ct_CrossID t) = Some old" by (simp add: contracts_of_def Some old)
    have "contracts_of rows tx' =
        (contracts_of rows tx)(ct_CrossID t \<mapsto> canonical (UpdateStatus Completed old))"
      if "sd_Update lib (with_contract cur (UpdateStatus Completed old)) tx = Inr tx'" for tx'
      using store_Update [OF assms(1) that Some] by (auto simp: contracts_of_def fun_eq_iff)
    with Some m old IH show ?thesis
      by (cases "sd_Update lib (with_contract cur (UpdateStatus Completed old)) tx")
        (simp_all add: store_One [OF assms(1)] i)
  qed
qed simp


definition mem_contracts :: "(string \<rightharpoonup> crosstx) \<Rightarrow> string \<rightharpoonup> crosstx" where
  "mem_contracts d k =
     (case d k of Some c \<Rightarrow> if ct_CrossID c = k \<and> ct_Contract c \<noteq> None then Some c else None | None \<Rightarrow> None)"

definition mem_store :: "(string \<rightharpoonup> crosstx, unit) store_lib" where
  "mem_store = \<lparr> sd_Begin = \<lambda>d. None,
     sd_One = \<lambda>d f k. (case mem_contracts d k of Some c \<Rightarrow> Ok c | None \<Rightarrow> Err store_NotFound),
     sd_Save = \<lambda>c d. Inr (d(ct_CrossID c \<mapsto> c\<lparr>ct_PK := 1, ct_Contract := map_option canonical (ct_Contract c)\<rparr>)),
     sd_Update = \<lambda>c d. Inr (d(ct_CrossID c \<mapsto> c\<lparr>ct_Contract := map_option canonical (ct_Contract c)\<rparr>)),
     sd_Commit = Inr, sd_Find = \<lambda>ord r p f d. [], sd_Set = \<lambda>b k v d. Inr d,
     sd_Get = \<lambda>b k d. Inl store_NotFound \<rparr>"

lemma mem_contracts_Some:
  "mem_contracts d k = Some c \<Longrightarrow> ct_CrossID c = k \<and> ct_Contract c \<noteq> None"
  by (auto simp: mem_contracts_def split: option.splits if_splits)

lemma mem_contracts_upd [simp]:
  "ct_CrossID c = k \<Longrightarrow> ct_Contract c = Some i \<Longrightarrow> mem_contracts (d(k \<mapsto> c)) = (mem_contracts d)(k \<mapsto> c)"
  by (auto simp: mem_contracts_def fun_eq_iff)

lemma mem_store_law: "store_law mem_store mem_contracts"
  unfolding store_law_def
proof (intro conjI allI impI)
  fix d d' :: "string \<rightharpoonup> crosstx" and k :: string and c :: crosstx and i :: icontract
  show "sd_One mem_store d CrossIdIndex k =
      (case mem_contracts d k of None \<Rightarrow> Err store_NotFound | Some c \<Rightarrow> Ok c)"
    by (simp add: mem_store_def split: option.split)
  show "mem_contracts d k = Some c \<Longrightarrow> ct_CrossID c = k" "mem_contracts d k = Some c \<Longrightarrow> ct_Contract c \<noteq> None"
    using mem_contracts_Some by blast+
  show "\<exists>pk. mem_contracts d' = (mem_contracts d)(ct_CrossID c \<mapsto> with_contract c (canonical i)\<lparr>ct_PK := pk\<rparr>)"
    if "sd_Save mem_store c d = Inr d'" "ct_Contract c = Some i"
    using that by (intro exI [of _ 1]) (auto simp: mem_store_def with_contract_def)
  show "mem_contracts d' = (mem_contracts d)(k \<mapsto> with_contract c (canonical i))"
    if "sd_Update mem_store (with_contract c i) d = Inr d'" "mem_contracts d k = Some c"
    using that mem_contracts_Some [OF that(2)] by (auto simp: mem_store_def with_contract_def)
  show "mem_contracts d' = mem_contracts d" if "sd_Commit mem_store d = Inr d'"
    using that by (simp add: mem_store_def)
qed

lemma mem_save: "Store_Save mem_store [demo_crosstx] Map.empty =
    (Ok (), [''c1'' \<mapsto> demo_crosstx\<lparr>ct_PK := 1\<rparr>])"
  by (simp add: Store_Save_def mem_store_def mem_contracts_def store_finish_def demo_crosstx_def)


text \<open>A completed contract stays completed: no batch \<open>Save\<close> accepts changes the status of an
  identifier that is Completed, and no batch removes an identifier.\<close>

theorem save_spec_keeps_completed:
  assumes "m k = Some c" "GetStatus c = Completed"
  shows "\<exists>c'. save_spec txs m k = Some c' \<and> GetStatus c' = Completed"
  using assms
proof (induction txs arbitrary: m c)
  case (Cons t txs)
  let ?m = "case (m (ct_CrossID t), ct_Contract t) of
      (None, Some i) \<Rightarrow> m(ct_CrossID t \<mapsto> canonical i)
    | (Some old, Some i) \<Rightarrow>
        if IsFinished i then m(ct_CrossID t \<mapsto> canonical (UpdateStatus Completed old)) else m
    | _ \<Rightarrow> m"
  have "\<exists>c'. ?m k = Some c' \<and> GetStatus c' = Completed"
    using Cons.prems by (cases "k = ct_CrossID t") (auto split: option.split)
  then show ?case using Cons.IH by auto
qed simp

lemma save_spec_keeps_completed_witness:
  "\<exists>c'. save_spec [demo_crosstx] [''c1'' \<mapsto> UpdateStatus Completed demo_contract] ''c1'' = Some c'
     \<and> GetStatus c' = Completed"
  by (rule save_spec_keeps_completed [where c = "UpdateStatus Completed demo_contract"]) simp_all

end
