(* ===== verification/TxManager.thy ===== *)
theory TxManager
  imports Prque CourierDB
begin

text \<open>
  The transaction manager of the courier (fabric/courier/txmanager.go). Its goroutines are
  functions on the manager's state: one call of \<open>ProcessCrossTxs\<close> or \<open>ProcessCrossTxReceipts\<close> is
  one round of its loop, the work they hand to a goroutine of their own is a separate function.
  The clients of the two chains are parameters over a world \<open>'w\<close>. The module is built for Go 1.14
  (go.mod), where a loop variable is one variable for all rounds: a closure made in the loop sees
  the value the variable has when the closure runs.
\<close>

section \<open>State and clients\<close>

datatype exec_item = ETx crosstx | EReceipt crosstx_receipt

text \<open>What is sent to the hub: a transaction, a receipt, or the nil pointer.\<close>

datatype hub_msg = HCtx cross_tx | HRtx recept_tx | HNil

record ('d, 'f, 'w) tx_env =
  te_chain :: chain_lib
  te_hub :: hub_lib
  te_store :: "('d, 'f) store_lib"
  te_sign :: sign_fn
  te_Send :: "hub_msg \<Rightarrow> 'w \<Rightarrow> goerr option \<times> 'w"
  te_InvokeChainCode :: "string \<Rightarrow> string list \<Rightarrow> 'w \<Rightarrow> goerr option \<times> 'w"
  te_StatusEq :: "cstatus \<Rightarrow> 'f"
  te_hash_String :: "hash \<Rightarrow> string"
  te_enc_rtx :: "rtxdata \<Rightarrow> bytes"
  te_dec_rtx :: "bytes \<Rightarrow> rtxdata"

record 'd tx_manager =
  tm_DB :: 'd
  tm_pending :: "crosstx sstack"
  tm_pending_signals :: nat
  tm_executed :: "exec_item sstack"
  tm_executed_signals :: nat
  tm_outchain :: bool

definition NewTxManager :: "'d \<Rightarrow> 'd tx_manager" where
  "NewTxManager db = \<lparr> tm_DB = db, tm_pending = prque_New False, tm_pending_signals = 0,
     tm_executed = prque_New False, tm_executed_signals = 0, tm_outchain = False \<rparr>"

text \<open>\<open>prq.Push(tx, -tx.TimeStamp.Seconds)\<close>\<close>

definition push_tx :: "(crosstx \<Rightarrow> 'v) \<Rightarrow> crosstx \<Rightarrow> 'v sstack \<Rightarrow> 'v sstack outcome" where
  "push_tx f tx q =
     (case ct_TimeStamp tx of
        None \<Rightarrow> Panic ''nil pointer dereference''
      | Some ts \<Rightarrow> Ok (prque_Push (f tx) (- ts_Seconds ts) q))"

fun push_txs :: "(crosstx \<Rightarrow> 'v) \<Rightarrow> crosstx list \<Rightarrow> 'v sstack \<Rightarrow> 'v sstack outcome" where
  "push_txs f [] q = Ok q"
| "push_txs f (tx # txs) q = bind_outcome (push_tx f tx q) (push_txs f txs)"

definition push_receipt :: "crosstx_receipt \<Rightarrow> exec_item sstack \<Rightarrow> exec_item sstack" where
  "push_receipt ctr q = prque_Push (EReceipt ctr) (- cr_Sequence ctr) q"

text \<open>The two channels of signals are buffered; \<open>reload\<close> runs once, before anything else fills
  them.\<close>

definition reload :: "('d, 'f, 'w) tx_env \<Rightarrow> 'd tx_manager \<Rightarrow> 'd tx_manager outcome" where
  "reload env t =
     (let toPending = Store_Query (te_store env) 0 0 [TimestampField] False [te_StatusEq env Init] (tm_DB t) in
      bind_outcome (push_txs (\<lambda>tx. tx) toPending (tm_pending t)) (\<lambda>pending.
      let t = t\<lparr>tm_pending := pending, tm_pending_signals := tm_pending_signals t + 1\<rparr>;
          fromExecuted = Store_Query (te_store env) 0 0 [TimestampField] False [te_StatusEq env Executed] (tm_DB t) in
      bind_outcome (push_txs ETx fromExecuted (tm_executed t)) (\<lambda>executed.
      Ok (t\<lparr>tm_executed := executed\<rparr>))))"

section \<open>Adding transactions\<close>

fun classify ::
    "crosstx option list \<Rightarrow> crosstx sstack \<Rightarrow> (crosstx list \<times> crosstx list \<times> crosstx sstack) outcome" where
  "classify [] q = Ok ([], [], q)"
| "classify (None # txs) q = Panic ''nil pointer dereference''"
| "classify (Some tx # txs) q =
     (case ct_Contract tx of
        None \<Rightarrow> Panic ''nil pointer dereference''
      | Some i \<Rightarrow>
          if IsFinished i then
            bind_outcome (classify txs q) (\<lambda>(st, out, q). Ok (tx # st, out, q))
          else if IsOutOnceCompleted i then
            bind_outcome (classify txs q) (\<lambda>(st, out, q). Ok (st, tx # out, q))
          else
            bind_outcome (push_tx (\<lambda>tx. tx) tx q) (\<lambda>q.
            bind_outcome (classify txs q) (\<lambda>(st, out, q). Ok (tx # st, out, q))))"

text \<open>
  The goroutines started in the loop over \<open>outTxs\<close>: the one of round \<open>i\<close> calls
  \<open>processOutChainCtxResp\<close> with the transaction of the round \<open>sched i\<close> the loop has reached when it
  runs, or the last one when the loop is over.
\<close>

definition spawned :: "(nat \<Rightarrow> nat) \<Rightarrow> crosstx list \<Rightarrow> (string \<times> string) list" where
  "spawned sched out =
     map (\<lambda>i. let tx = out ! min (max i (sched i)) (length out - 1) in (ct_CrossID tx, ct_TxID tx))
       [0..<length out]"

definition AddCrossTxs ::
    "('d, 'f, 'w) tx_env \<Rightarrow> (nat \<Rightarrow> nat) \<Rightarrow> crosstx option list \<Rightarrow> 'd tx_manager \<Rightarrow>
     (goerr option \<times> (string \<times> string) list \<times> 'd tx_manager) outcome" where
  "AddCrossTxs env sched txs t =
     bind_outcome (classify txs (tm_pending t)) (\<lambda>(storeTxs, outTxs, pending).
     let t = t\<lparr>tm_pending := pending\<rparr>; calls = spawned sched outTxs in
     case Store_Save (te_store env) storeTxs (tm_DB t) of
       (Panic p, _) \<Rightarrow> Panic p
     | (Err e, d) \<Rightarrow> Ok (Some e, calls, t\<lparr>tm_DB := d\<rparr>)
     | (Ok _, d) \<Rightarrow>
         Ok (None, calls,
           if prque_Size (tm_pending t) \<noteq> 0
           then t\<lparr>tm_DB := d, tm_pending_signals := tm_pending_signals t + 1\<rparr>
           else t\<lparr>tm_DB := d\<rparr>))"

section \<open>Sending\<close>

definition signer11 :: eip155_signer where
  "signer11 = NewEIP155CtxSigner (Some 11)"

text \<open>\<open>signTx\<close> on the two transaction types it supports.\<close>

definition signTx :: "('d, 'f, 'w) tx_env \<Rightarrow> hub_msg \<Rightarrow> hub_msg outcome" where
  "signTx env m =
     (case m of
        HCtx ctx \<Rightarrow>
          bind_outcome (SignCtx (te_chain env) signer11 (te_sign env) ctx) (\<lambda>s. Ok (HCtx s))
      | HRtx rtx \<Rightarrow>
          bind_outcome (SignRtx (te_chain env) (NewEIP155RtxSigner (Some 11)) (te_sign env) rtx)
            (\<lambda>s. Ok (HRtx s))
      | HNil \<Rightarrow> Err (ErrNew ''[courire.TxManager] signTx unsupported type transaction''))"

fun send_loop ::
    "('d, 'f, 'w) tx_env \<Rightarrow> crosstx list \<Rightarrow> crosstx sstack \<times> 'w \<Rightarrow> string list \<Rightarrow>
     ((crosstx sstack \<times> 'w) \<times> string list) outcome" where
  "send_loop env [] qw successList = Ok (qw, successList)"
| "send_loop env (tx # txs) (q, w) successList =
     bind_outcome (toCrossHubTx (te_hub env) tx) (\<lambda>r.
       case r of
         None \<Rightarrow> send_loop env txs (q, w) successList
       | Some ctx \<Rightarrow>
           (case signTx env (HCtx ctx) of
              Panic p \<Rightarrow> Panic p
            | Err e \<Rightarrow>
                bind_outcome (push_tx (\<lambda>tx. tx) tx q) (\<lambda>q. send_loop env txs (q, w) successList)
            | Ok sctx \<Rightarrow>
                (case te_Send env sctx w of
                   (Some e, w) \<Rightarrow>
                     bind_outcome (push_tx (\<lambda>tx. tx) tx q) (\<lambda>q. send_loop env txs (q, w) successList)
                 | (None, w) \<Rightarrow> send_loop env txs (q, w) (successList @ [ct_CrossID tx]))))"

text \<open>One round of \<open>ProcessCrossTxs\<close> on a signal: it empties the queue, sends, and returns the
  identifiers for the goroutine that updates the store.\<close>

definition ProcessCrossTxs ::
    "('d, 'f, 'w) tx_env \<Rightarrow> 'd tx_manager \<times> 'w \<Rightarrow> (string list \<times> 'd tx_manager \<times> 'w) outcome" where
  "ProcessCrossTxs env tw =
     (case tw of (t, w) \<Rightarrow>
        (case prque_drain (prque_Size (tm_pending t)) (tm_pending t) of
           None \<Rightarrow> Panic ''index out of range''
         | Some (pending, q) \<Rightarrow>
             bind_outcome (send_loop env (map fst pending) (q, w) []) (\<lambda>((q, w), successList).
             Ok (successList,
                 t\<lparr>tm_pending := q, tm_pending_signals := tm_pending_signals t - 1\<rparr>, w))))"

definition pending_updater :: "crosstx \<Rightarrow> crosstx outcome" where
  "pending_updater c =
     (case ct_Contract c of
        None \<Rightarrow> Panic ''nil pointer dereference''
      | Some i \<Rightarrow> Ok (with_contract c (UpdateStatus Pending i)))"

text \<open>The goroutine after a round; an error of the store is a panic.\<close>

definition update_pending :: "('d, 'f, 'w) tx_env \<Rightarrow> string list \<Rightarrow> 'd tx_manager \<Rightarrow> 'd tx_manager outcome" where
  "update_pending env successList t =
     (case Store_Updates (te_store env) successList (map (\<lambda>_. pending_updater) successList) (tm_DB t) of
        (Ok _, d) \<Rightarrow> Ok (t\<lparr>tm_DB := d\<rparr>)
      | (Err e, d) \<Rightarrow> Panic (err_text e)
      | (Panic p, d) \<Rightarrow> Panic p)"

section \<open>Receipts\<close>

fun set_receipt :: "string \<Rightarrow> icontract \<Rightarrow> icontract" where
  "set_receipt r (PrecommitContract pc) = PrecommitContract (UpdateReceipt r pc)"
| "set_receipt r (CommitContract c) = CommitContract c"

definition executed_updater :: "crosstx_receipt \<Rightarrow> crosstx \<Rightarrow> crosstx outcome" where
  "executed_updater ctr c =
     (case ct_Contract c of
        None \<Rightarrow> Panic ''nil pointer dereference''
      | Some i \<Rightarrow> Ok (with_contract c (set_receipt (cr_Receipt ctr) (UpdateStatus Executed i))))"

text \<open>\<open>UpdateCrossTx\<close>: the updaters run in \<open>DB.Updates\<close>, after the loop that made them, when its
  variable \<open>ctr\<close> holds the last receipt.\<close>

definition UpdateCrossTx ::
    "('d, 'f, 'w) tx_env \<Rightarrow> crosstx_receipt list \<Rightarrow> 'd \<Rightarrow> unit outcome \<times> 'd" where
  "UpdateCrossTx env ctrs d =
     Store_Updates (te_store env) (map cr_CrossID ctrs) (map (\<lambda>_. executed_updater (last ctrs)) ctrs) d"

text \<open>\<open>item.(CrossTxReceipt)\<close>\<close>

fun as_receipt :: "exec_item \<Rightarrow> crosstx_receipt outcome" where
  "as_receipt (EReceipt r) = Ok r"
| "as_receipt (ETx t) = Panic ''interface conversion''"

text \<open>One round of \<open>ProcessCrossTxReceipts\<close>; it returns the receipts for the goroutine that
  commits them.\<close>

definition ProcessCrossTxReceipts ::
    "('d, 'f, 'w) tx_env \<Rightarrow> 'd tx_manager \<Rightarrow> (crosstx_receipt list \<times> 'd tx_manager) outcome" where
  "ProcessCrossTxReceipts env t =
     (case prque_drain (prque_Size (tm_executed t)) (tm_executed t) of
        None \<Rightarrow> Panic ''index out of range''
      | Some (items, q) \<Rightarrow>
          bind_outcome (traverse as_receipt (map fst items)) (\<lambda>executed.
          let t = t\<lparr>tm_executed := q, tm_executed_signals := tm_executed_signals t - 1\<rparr> in
          case UpdateCrossTx env executed (tm_DB t) of
            (Panic p, _) \<Rightarrow> Panic p
          | (Err e, d) \<Rightarrow>
              if err_is e store_NotFound then Ok ([], t\<lparr>tm_DB := d\<rparr>)
              else Ok ([], t\<lparr>tm_DB := d, tm_executed := fold push_receipt executed q\<rparr>)
          | (Ok _, d) \<Rightarrow> Ok (executed, t\<lparr>tm_DB := d\<rparr>)))"

text \<open>The goroutine that sends the commits: it pushes every receipt back, after an error and after
  a success.\<close>

fun commit_receipts ::
    "('d, 'f, 'w) tx_env \<Rightarrow> crosstx_receipt list \<Rightarrow> 'd tx_manager \<times> 'w \<Rightarrow> 'd tx_manager \<times> 'w" where
  "commit_receipts env [] tw = tw"
| "commit_receipts env (ctr # ctrs) (t, w) =
     (case te_InvokeChainCode env ''commit'' [cr_CrossID ctr, cr_Receipt ctr] w of
        (_, w) \<Rightarrow> commit_receipts env ctrs (t\<lparr>tm_executed := push_receipt ctr (tm_executed t)\<rparr>, w))"

definition AddCrossTxReceipt :: "crosstx_receipt \<Rightarrow> 'd tx_manager \<Rightarrow> 'd tx_manager" where
  "AddCrossTxReceipt ctr t =
     t\<lparr>tm_executed := push_receipt ctr (tm_executed t), tm_executed_signals := tm_executed_signals t + 1\<rparr>"

section \<open>Requests of the other chain\<close>

definition processOutChainCtxReq ::
    "('d, 'f, 'w) tx_env \<Rightarrow> cross_tx \<Rightarrow> 'd tx_manager \<times> 'w \<Rightarrow> 'd tx_manager \<times> 'w" where
  "processOutChainCtxReq env req tw =
     (case tw of (t, w) \<Rightarrow>
        let d = ctx_Data req;
            pendingReceipt = NewReceptTransaction (ctx_CTxId d) (replicate 32 0) (ctx_From d) (ctx_To d)
              ''0xdE1D7Acfd66eECC4512413d517f0484920491cAB'' Fabric SimpleChain (ctx_Payload d);
            key = te_hash_String env (rtx_CTxId (rtx_Data pendingReceipt));
            (_, db) = Store_Set (te_store env) ''outchain'' key (te_enc_rtx env (rtx_Data pendingReceipt)) (tm_DB t);
            charge = (if ctx_Charge d < 0 then CHR ''-'' # show_nat (nat (- ctx_Charge d))
                      else show_nat (nat (ctx_Charge d)));
            (_, w) = te_InvokeChainCode env ''commit''
              [''outchain'', te_hash_String env (CrossTransaction_ID req), ''invoke'', ctx_To d, ctx_From d, charge] w in
        (t\<lparr>tm_DB := db\<rparr>, w))"

definition zero_rtxdata :: rtxdata where
  "zero_rtxdata = \<lparr> rtx_CTxId = replicate 32 0, rtx_TxHash = replicate 32 0, rtx_From = [], rtx_To = [],
     rtx_Taker = [], rtx_Origin = 0, rtx_Purpose = 0, rtx_Payload = [], rtx_V = 0, rtx_R = 0, rtx_S = 0 \<rparr>"

text \<open>A signing error is only logged; the nil transaction is then sent.\<close>

definition processOutChainCtxResp ::
    "('d, 'f, 'w) tx_env \<Rightarrow> string \<Rightarrow> string \<Rightarrow> 'd tx_manager \<times> 'w \<Rightarrow> ('d tx_manager \<times> 'w) outcome" where
  "processOutChainCtxResp env crossID receipt tw =
     (case tw of (t, w) \<Rightarrow>
        let stored = te_dec_rtx env
              (Store_Get (te_store env) ''outchain'' crossID (te_enc_rtx env zero_rtxdata) (tm_DB t));
            pendingReceipt = stored\<lparr>rtx_TxHash := HexToHash (te_hub env) receipt\<rparr>;
            (_, db) = Store_Set (te_store env) ''outchain'' crossID (te_enc_rtx env pendingReceipt) (tm_DB t);
            t = t\<lparr>tm_DB := db\<rparr> in
        (case signTx env (HRtx (rtx_uncached pendingReceipt)) of
           Panic p \<Rightarrow> Panic p
         | Err e \<Rightarrow> Ok (t, snd (te_Send env HNil w))
         | Ok m \<Rightarrow> Ok (t, snd (te_Send env m w))))"

datatype received = RecvRtx recept_tx | RecvCtx cross_tx | RecvOther

text \<open>One round of \<open>receive\<close>.\<close>

definition receive ::
    "('d, 'f, 'w) tx_env \<Rightarrow> received \<Rightarrow> 'd tx_manager \<times> 'w \<Rightarrow> 'd tx_manager \<times> 'w" where
  "receive env recv tw =
     (case tw of (t, w) \<Rightarrow>
        (case recv of
           RecvRtx rtx \<Rightarrow>
             (AddCrossTxReceipt \<lparr> cr_CrossID = drop 2 (te_hash_String env (rtx_CTxId (rtx_Data rtx))),
                cr_Receipt = drop 2 (te_hash_String env (rtx_TxHash (rtx_Data rtx))), cr_Sequence = 0 \<rparr> t, w)
         | RecvCtx req \<Rightarrow>
             if \<not> tm_outchain t then (t, w)
             else processOutChainCtxReq env (req\<lparr>ctx_Data := (ctx_Data req)\<lparr>ctx_To := ''a''\<rparr>\<rparr>) (t, w)
         | RecvOther \<Rightarrow> (t, w)))"

section \<open>Queues of transactions and receipts\<close>

definition secs :: "crosstx \<Rightarrow> i64" where
  "secs tx = (case ct_TimeStamp tx of Some ts \<Rightarrow> ts_Seconds ts | None \<Rightarrow> 0)"

definition tx_item :: "(crosstx \<Rightarrow> 'v) \<Rightarrow> crosstx \<Rightarrow> 'v item" where
  "tx_item f tx = \<lparr> it_value = f tx, it_priority = - secs tx \<rparr>"

definition receipt_item :: "crosstx_receipt \<Rightarrow> exec_item item" where
  "receipt_item r = \<lparr> it_value = EReceipt r, it_priority = - cr_Sequence r \<rparr>"

lemma drain_all:
  assumes "prque_ok q"
  obtains xs q' where "prque_drain (prque_Size q) q = Some (xs, q')" "prque_ok q'" "prque_items q' = {#}"
    "mset (map (\<lambda>(v, p). \<lparr>it_value = v, it_priority = p\<rparr>) xs) = prque_items q"
    "sorted_wrt (\<lambda>a b. sint (snd b) \<le> sint (snd a)) xs"
  using prque_drain_correct [OF assms refl] by (metis prque_Size_items)

lemma drained_values:
  assumes "mset (map (\<lambda>(v, p). \<lparr>it_value = v, it_priority = p\<rparr>) xs) = M"
  shows "mset (map fst xs) = image_mset it_value M"
proof -
  have "image_mset it_value M = mset (map (it_value \<circ> (\<lambda>(v, p). \<lparr>it_value = v, it_priority = p\<rparr>)) xs)"
    by (simp add: assms [symmetric] multiset.map_comp)
  also have "it_value \<circ> (\<lambda>(v, p). \<lparr>it_value = v, it_priority = p\<rparr>) = fst"
    by (auto simp: fun_eq_iff)
  finally show ?thesis by simp
qed

lemma image_tx_item [simp]:
  "image_mset it_value (mset (map (tx_item f) txs)) = mset (map f txs)"
  by (simp add: multiset.map_comp comp_def tx_item_def)

lemma image_receipt_item [simp]:
  "image_mset it_value (mset (map receipt_item rs)) = mset (map EReceipt rs)"
  by (simp add: multiset.map_comp comp_def receipt_item_def)

lemma push_tx_ok:
  assumes "ct_TimeStamp tx \<noteq> None" "prque_ok q" "in_window (add_mset (tx_item f tx) (prque_items q))"
  shows "\<exists>q'. push_tx f tx q = Ok q' \<and> prque_ok q' \<and> prque_items q' = add_mset (tx_item f tx) (prque_items q)"
proof -
  have "push_tx f tx q = Ok (prque_Push (f tx) (- secs tx) q)"
    using assms(1) by (auto simp: push_tx_def secs_def)
  then show ?thesis
    using prque_Push_ok [OF assms(2), of "f tx" "- secs tx"] assms(3) by (simp add: tx_item_def)
qed

lemma push_txs_ok:
  assumes "\<forall>tx \<in> set txs. ct_TimeStamp tx \<noteq> None" "prque_ok q"
    "in_window (mset (map (tx_item f) txs) + prque_items q)"
  shows "\<exists>q'. push_txs f txs q = Ok q' \<and> prque_ok q' \<and>
    prque_items q' = mset (map (tx_item f) txs) + prque_items q"
  using assms
proof (induction txs arbitrary: q)
  case (Cons tx txs)
  have "in_window (add_mset (tx_item f tx) (prque_items q))"
    by (rule in_window_mono [OF Cons.prems(3)]) simp
  then obtain q1 where q1: "push_tx f tx q = Ok q1" "prque_ok q1"
      "prque_items q1 = add_mset (tx_item f tx) (prque_items q)"
    using push_tx_ok [of tx q f] Cons.prems by auto
  then show ?case using Cons.IH [OF _ q1(2)] Cons.prems by simp
qed simp

lemma push_receipts_ok:
  assumes "prque_ok q" "in_window (mset (map receipt_item rs) + prque_items q)"
  shows "prque_ok (fold push_receipt rs q) \<and>
    prque_items (fold push_receipt rs q) = mset (map receipt_item rs) + prque_items q"
  using assms
proof (induction rs arbitrary: q)
  case (Cons r rs)
  have "in_window (add_mset (receipt_item r) (prque_items q))"
    by (rule in_window_mono [OF Cons.prems(2)]) simp
  then have q1: "prque_ok (push_receipt r q)"
      "prque_items (push_receipt r q) = add_mset (receipt_item r) (prque_items q)"
    using prque_Push_ok [OF Cons.prems(1), of "EReceipt r" "- cr_Sequence r"]
    by (simp_all add: push_receipt_def receipt_item_def)
  then show ?case using Cons.IH [OF q1(1)] Cons.prems by simp
qed simp

section \<open>A concrete courier\<close>

text \<open>The store in memory, a hub that takes every transaction and counts them.\<close>

definition demo_env :: "(string \<rightharpoonup> crosstx, unit, nat) tx_env" where
  "demo_env = \<lparr> te_chain = demo_lib,
     te_hub = \<lparr> HexToHash = \<lambda>_. replicate 32 0, BigToHash = \<lambda>_. replicate 32 0, core_text = \<lambda>_. [] \<rparr>,
     te_store = mem_store\<lparr>sd_Find := \<lambda>ord r p f d. (if d = Map.empty then [] else [demo_crosstx])\<rparr>,
     te_sign = \<lambda>_. Inr demo_sig, te_Send = \<lambda>m w. (None, w + 1),
     te_InvokeChainCode = \<lambda>f args w. (None, w), te_StatusEq = \<lambda>_. (),
     te_hash_String = \<lambda>_. [], te_enc_rtx = \<lambda>_. [], te_dec_rtx = \<lambda>_. zero_rtxdata \<rparr>"

lemma demo_store_law: "store_law (te_store demo_env) mem_contracts"
  using mem_store_law by (simp add: demo_env_def store_law_def)

definition demo_pending :: "crosstx sstack" where
  "demo_pending = prque_Push demo_crosstx (- secs demo_crosstx) (prque_New False)"

lemma demo_pending_ok:
  "prque_ok demo_pending" "prque_items demo_pending = mset (map (tx_item (\<lambda>tx. tx)) [demo_crosstx])"
  using prque_Push_ok [OF prque_ok_New(1) [of False], of demo_crosstx "- secs demo_crosstx"]
  by (simp_all add: demo_pending_def tx_item_def in_window_def)

definition demo_receipt :: crosstx_receipt where
  "demo_receipt = \<lparr> cr_CrossID = ''c1'', cr_Receipt = ''r1'', cr_Sequence = 0 \<rparr>"

definition demo_executed :: "exec_item sstack" where
  "demo_executed = push_receipt demo_receipt (prque_New False)"

lemma demo_executed_ok:
  "prque_ok demo_executed" "prque_items demo_executed = mset (map receipt_item [demo_receipt])"
  using push_receipts_ok [OF prque_ok_New(1) [of False], of "[demo_receipt]"]
  by (simp_all add: demo_executed_def in_window_def)

lemma demo_drain:
  assumes "prque_ok q" "prque_items q = {#it#}"
  shows "\<exists>q'. prque_drain (prque_Size q) q = Some ([(it_value it, it_priority it)], q')
    \<and> prque_ok q' \<and> prque_items q' = {#}"
proof -
  obtain xs q' where d: "prque_drain (prque_Size q) q = Some (xs, q')" "prque_ok q'" "prque_items q' = {#}"
      "mset (map (\<lambda>(v, p). \<lparr>it_value = v, it_priority = p\<rparr>) xs) = {#it#}"
    using drain_all [OF assms(1)] assms(2) by metis
  then show ?thesis by (cases xs) auto
qed

lemma demo_signs: "\<exists>m. signTx demo_env (HCtx ctx) = Ok m"
proof -
  have "length demo_sig = 65" by (simp add: demo_sig_def)
  then show ?thesis
    by (simp add: signTx_def demo_env_def SignCtx_def sign_tx_def CrossTransaction_WithSignature_def
        signer11_def NewEIP155CtxSigner_def EIP155CtxSigner_SignatureValues_def Let_def)
qed

section \<open>A round of sending\<close>

lemma send_loop_conserves:
  assumes "send_loop env txs (q, w) ids = Ok ((q', w'), ids')"
    and "prque_ok q" "in_window (mset (map (tx_item (\<lambda>tx. tx)) txs) + prque_items q)"
    and "\<forall>t \<in> set txs. ct_TimeStamp t \<noteq> None"
  shows "\<exists>sent failed skipped. mset txs = mset sent + mset failed + mset skipped
    \<and> ids' = ids @ map ct_CrossID sent \<and> prque_ok q'
    \<and> prque_items q' = mset (map (tx_item (\<lambda>tx. tx)) failed) + prque_items q
    \<and> (\<forall>t \<in> set skipped. toCrossHubTx (te_hub env) t = Ok None)"
  using assms
proof (induction txs arbitrary: q w ids)
  case Nil
  then show ?case by (intro exI [of _ "[]"]) simp
next
  case (Cons tx txs)
  let ?P = "\<lambda>txs q ids. \<exists>sent failed skipped. mset txs = mset sent + mset failed + mset skipped
    \<and> ids' = ids @ map ct_CrossID sent \<and> prque_ok q'
    \<and> prque_items q' = mset (map (tx_item (\<lambda>tx. tx)) failed) + prque_items q
    \<and> (\<forall>t \<in> set skipped. toCrossHubTx (te_hub env) t = Ok None)"
  have win: "in_window (mset (map (tx_item (\<lambda>tx. tx)) txs) + prque_items q)"
    by (rule in_window_mono [OF Cons.prems(3)]) simp
  note IH = Cons.IH [OF _ Cons.prems(2) win]
  have skip: "?P (tx # txs) q ids"
    if sk: "send_loop env txs (q, w) ids = Ok ((q', w'), ids')" "toCrossHubTx (te_hub env) tx = Ok None"
  proof -
    obtain sent failed skipped where "mset txs = mset sent + mset failed + mset skipped"
        "ids' = ids @ map ct_CrossID sent" "prque_ok q'"
        "prque_items q' = mset (map (tx_item (\<lambda>tx. tx)) failed) + prque_items q"
        "\<forall>t \<in> set skipped. toCrossHubTx (te_hub env) t = Ok None"
      using IH [OF sk(1)] Cons.prems(4) by auto
    then show ?thesis
      using sk(2) by (intro exI [of _ sent] exI [of _ failed] exI [of _ "tx # skipped"]) simp
  qed
  have send: "?P (tx # txs) q ids"
    if sd: "send_loop env txs (q, u) (ids @ [ct_CrossID tx]) = Ok ((q', w'), ids')" for u
  proof -
    obtain sent failed skipped where "mset txs = mset sent + mset failed + mset skipped"
        "ids' = (ids @ [ct_CrossID tx]) @ map ct_CrossID sent" "prque_ok q'"
        "prque_items q' = mset (map (tx_item (\<lambda>tx. tx)) failed) + prque_items q"
        "\<forall>t \<in> set skipped. toCrossHubTx (te_hub env) t = Ok None"
      using IH [OF sd] Cons.prems(4) by auto
    then show ?thesis
      by (intro exI [of _ "tx # sent"] exI [of _ failed] exI [of _ skipped]) simp
  qed
  have again: "?P (tx # txs) q ids"
    if ag: "bind_outcome (push_tx (\<lambda>tx. tx) tx q) (\<lambda>q. send_loop env txs (q, u) ids) = Ok ((q', w'), ids')" for u
  proof -
    have "in_window (add_mset (tx_item (\<lambda>tx. tx) tx) (prque_items q))"
      by (rule in_window_mono [OF Cons.prems(3)]) simp
    then obtain q1 where q1: "push_tx (\<lambda>tx. tx) tx q = Ok q1" "prque_ok q1"
        "prque_items q1 = add_mset (tx_item (\<lambda>tx. tx) tx) (prque_items q)"
      using push_tx_ok [of tx q "\<lambda>tx. tx"] Cons.prems by auto
    then obtain sent failed skipped where "mset txs = mset sent + mset failed + mset skipped"
        "ids' = ids @ map ct_CrossID sent" "prque_ok q'"
        "prque_items q' = mset (map (tx_item (\<lambda>tx. tx)) failed) + prque_items q1"
        "\<forall>t \<in> set skipped. toCrossHubTx (te_hub env) t = Ok None"
      using Cons.IH [OF _ q1(2), of u ids] ag Cons.prems(3,4) by auto
    then show ?thesis
      using q1(3) by (intro exI [of _ sent] exI [of _ "tx # failed"] exI [of _ skipped]) simp
  qed
  obtain r where r: "toCrossHubTx (te_hub env) tx = Ok r"
    using Cons.prems(1) by (auto simp: bind_outcome_Ok_iff)
  show ?case
  proof (cases r)
    case None
    then show ?thesis using Cons.prems(1) skip r by simp
  next
    case (Some ctx)
    note r = r [unfolded Some]
    show ?thesis
    proof (cases "signTx env (HCtx ctx)")
      case (Ok m)
      obtain e u where "te_Send env m w = (e, u)" by fastforce
      then show ?thesis using Cons.prems(1) r Ok send again by (cases e) simp_all
    next
      case (Err e)
      then show ?thesis using Cons.prems(1) r again by simp
    next
      case (Panic p)
      then show ?thesis using Cons.prems(1) r by simp
    qed
  qed
qed



section \<open>Status updates\<close>

lemma Updates_loop_uniform:
  assumes "store_law lib rows" "distinct ids"
    and "\<And>c i. ct_Contract c = Some i \<Longrightarrow> u c = Ok (with_contract c (g i))"
    and "\<And>i. supported (GetStatus (g i))"
    and "store_Updates_loop lib (zip ids (map (\<lambda>_. u) ids)) tx = Ok tx'"
  shows "contracts_of rows tx' k =
    (if k \<in> set ids then map_option (\<lambda>i. canonical (g i)) (contracts_of rows tx k) else contracts_of rows tx k)
    \<and> (k \<in> set ids \<longrightarrow> contracts_of rows tx k \<noteq> None)"
  using assms(2,5)
proof (induction ids arbitrary: tx)
  case (Cons j ids)
  obtain c where c: "rows tx j = Some c"
    using Cons.prems(2)
    by (auto simp: bind_outcome_Ok_iff store_One [OF assms(1)] split: option.splits)
  obtain i where i: "ct_Contract c = Some i" using store_row [OF assms(1) c] by blast
  obtain tx1 where tx1: "sd_Update lib (with_contract c (g i)) tx = Inr tx1"
      "store_Updates_loop lib (zip ids (map (\<lambda>_. u) ids)) tx1 = Ok tx'"
    using Cons.prems(2) by (auto simp: store_One [OF assms(1)] c assms(3) [OF i] split: sum.splits)
  note r = store_Update [OF assms(1) tx1(1) c assms(4)]
  have "contracts_of rows tx1 k = (if k = j then Some (canonical (g i)) else contracts_of rows tx k)" for k
    by (simp add: contracts_of_def r)
  moreover have "contracts_of rows tx j = Some i" by (simp add: contracts_of_def c i)
  ultimately show ?case
    using Cons.IH [OF _ tx1(2)] Cons.prems(1) by auto
qed simp

lemma Store_Updates_uniform:
  assumes "store_law lib rows" "distinct ids"
    and "\<And>c i. ct_Contract c = Some i \<Longrightarrow> u c = Ok (with_contract c (g i))"
    and "\<And>i. supported (GetStatus (g i))"
    and "Store_Updates lib ids (map (\<lambda>_. u) ids) d = (Ok (), d')"
  shows "contracts_of rows d' k =
    (if k \<in> set ids then map_option (\<lambda>i. canonical (g i)) (contracts_of rows d k) else contracts_of rows d k)"
proof -
  obtain tx where l: "store_Updates_loop lib (zip ids (map (\<lambda>_. u) ids)) d = Ok tx"
      and c: "sd_Commit lib tx = Inr d'"
    using assms(5)
    by (auto simp: Store_Updates_def store_finish_def split: option.splits outcome.splits sum.splits)
  have "contracts_of rows d' k = contracts_of rows tx k"
    using store_Commit [OF assms(1) c] by (simp add: contracts_of_def)
  then show ?thesis
    using Updates_loop_uniform [OF assms(1-4) l, where k = k] by simp
qed

text \<open>The closures of \<open>UpdateCrossTx\<close> share the loop variable: after a batch of receipts has been
  stored, every contract of the batch is Executed, whatever its status was (also Completed), and
  carries the receipt of the last one.\<close>

theorem UpdateCrossTx_last_receipt:
  assumes "store_law (te_store env) rows" "distinct (map cr_CrossID ctrs)"
    and "UpdateCrossTx env ctrs d = (Ok (), d')" "ctr \<in> set ctrs"
    and "contracts_of rows d (cr_CrossID ctr) = Some (PrecommitContract pc)"
  shows "contracts_of rows d' (cr_CrossID ctr) =
    Some (PrecommitContract (pc\<lparr>p_Status := Executed, p_Receipt := cr_Receipt (last ctrs)\<rparr>))"
proof -
  let ?g = "\<lambda>i. set_receipt (cr_Receipt (last ctrs)) (UpdateStatus Executed i)"
  have st: "GetStatus (?g i) = Executed" for i by (cases i) (simp_all add: UpdateReceipt_def)
  have u: "executed_updater (last ctrs) c = Ok (with_contract c (?g i))" if "ct_Contract c = Some i" for c i
    using that by (simp add: executed_updater_def)
  have "Store_Updates (te_store env) (map cr_CrossID ctrs)
      (map (\<lambda>_. executed_updater (last ctrs)) (map cr_CrossID ctrs)) d = (Ok (), d')"
    using assms(3) by (simp add: UpdateCrossTx_def comp_def)
  from Store_Updates_uniform [OF assms(1,2) u _ this, where k = "cr_CrossID ctr"] assms(4,5) st
  show ?thesis by (simp add: UpdateReceipt_def)
qed

lemma demo_update:
  "UpdateCrossTx demo_env [demo_receipt] [''c1'' \<mapsto> demo_crosstx] =
     (Ok (), [''c1'' \<mapsto> with_contract demo_crosstx (set_receipt ''r1'' (UpdateStatus Executed demo_contract))])"
  by (simp add: UpdateCrossTx_def Store_Updates_def demo_env_def mem_store_def mem_contracts_def
      executed_updater_def demo_receipt_def demo_crosstx_def demo_contract_def with_contract_def
      store_finish_def UpdateReceipt_def)

lemma UpdateCrossTx_last_receipt_witness:
  "\<exists>pc. demo_contract = PrecommitContract pc \<and>
     contracts_of mem_contracts (snd (UpdateCrossTx demo_env [demo_receipt] [''c1'' \<mapsto> demo_crosstx])) ''c1''
     = Some (PrecommitContract (pc\<lparr>p_Status := Executed, p_Receipt := ''r1''\<rparr>))"
proof -
  obtain pc where pc: "demo_contract = PrecommitContract pc" by (simp add: demo_contract_def)
  moreover have "contracts_of mem_contracts [''c1'' \<mapsto> demo_crosstx] ''c1'' = Some (PrecommitContract pc)"
    using pc by (simp add: contracts_of_def mem_contracts_def demo_crosstx_def)
  ultimately have "contracts_of mem_contracts (snd (UpdateCrossTx demo_env [demo_receipt] [''c1'' \<mapsto> demo_crosstx])) ''c1''
      = Some (PrecommitContract (pc\<lparr>p_Status := Executed, p_Receipt := ''r1''\<rparr>))"
    using UpdateCrossTx_last_receipt [OF demo_store_law _ demo_update, of demo_receipt pc]
    unfolding demo_update by (simp add: demo_receipt_def)
  with pc show ?thesis by blast
qed

section \<open>Receipts stay in the queue\<close>

lemma commit_receipts_items:
  assumes "prque_ok (tm_executed t)" "in_window (mset (map receipt_item rs) + prque_items (tm_executed t))"
  shows "prque_items (tm_executed (fst (commit_receipts env rs (t, w)))) =
    mset (map receipt_item rs) + prque_items (tm_executed t)"
proof -
  have "tm_executed (fst (commit_receipts env rs (t, w))) = fold push_receipt rs (tm_executed t)"
    by (induction rs arbitrary: t w) (simp_all split: prod.split)
  then show ?thesis using push_receipts_ok [OF assms] by simp
qed

lemma traverse_as_receipt:
  "traverse as_receipt vs = Ok rs \<Longrightarrow> map EReceipt rs = vs"
  by (induction vs arbitrary: rs) (auto simp: bind_outcome_Ok_iff elim!: as_receipt.elims)

text \<open>A receipt never leaves the queue by being processed: after a round that stored the receipts
  and the goroutine that sent the commits, the queue holds the same receipts as before, so the next
  signal stores and commits all of them again.\<close>

theorem processed_receipts_remain:
  assumes "prque_ok (tm_executed t)" "prque_items (tm_executed t) = mset (map receipt_item rs0)"
    and "ProcessCrossTxReceipts env t = Ok (rs, t1)" "rs \<noteq> []"
  shows "mset rs = mset rs0
    \<and> prque_items (tm_executed (fst (commit_receipts env rs (t1, w)))) = prque_items (tm_executed t)"
proof -
  obtain xs q where d: "prque_drain (prque_Size (tm_executed t)) (tm_executed t) = Some (xs, q)"
      "prque_ok q" "prque_items q = {#}"
      "mset (map (\<lambda>(v, p). \<lparr>it_value = v, it_priority = p\<rparr>) xs) = prque_items (tm_executed t)"
    using drain_all [OF assms(1)] by metis
  obtain ex where ex: "traverse as_receipt (map fst xs) = Ok ex"
    using assms(3) d(1) by (auto simp: ProcessCrossTxReceipts_def bind_outcome_Ok_iff)
  obtain r d' where u: "UpdateCrossTx env ex (tm_DB t) = (r, d')" by (cases "UpdateCrossTx env ex (tm_DB t)")
  have "rs = ex" "tm_executed t1 = q"
    using assms(3,4) by (cases r; auto simp: ProcessCrossTxReceipts_def d(1) ex Let_def u split: if_splits)+
  note ex = ex this
  have "image_mset EReceipt (mset ex) = image_mset EReceipt (mset rs0)"
    using drained_values [OF d(4)] traverse_as_receipt [OF ex(1)]
    by (metis assms(2) image_receipt_item mset_map)
  moreover have "inj (image_mset EReceipt)" by (rule multiset.inj_map) (simp add: inj_def)
  ultimately have m: "mset ex = mset rs0" by (simp add: inj_eq)
  then have items: "mset (map receipt_item rs) = prque_items (tm_executed t)"
    using assms(2) ex(2) by simp
  then have "in_window (mset (map receipt_item rs) + prque_items (tm_executed t1))"
    using assms(1) ex(3) by (simp only: d(3) prque_ok_def add_0_right)
  then show ?thesis
    using commit_receipts_items [of t1 rs env w] d(2,3) ex(2,3) items m by simp
qed

lemma processed_receipts_remain_witness:
  "\<exists>t1. ProcessCrossTxReceipts demo_env
       ((NewTxManager [''c1'' \<mapsto> demo_crosstx])\<lparr>tm_executed := demo_executed\<rparr>) = Ok ([demo_receipt], t1)
     \<and> prque_items (tm_executed (fst (commit_receipts demo_env [demo_receipt] (t1, 0)))) = {#receipt_item demo_receipt#}"
proof -
  let ?t = "(NewTxManager [''c1'' \<mapsto> demo_crosstx])\<lparr>tm_executed := demo_executed\<rparr>"
  obtain q where q: "prque_drain (prque_Size demo_executed) demo_executed
      = Some ([(EReceipt demo_receipt, - cr_Sequence demo_receipt)], q)"
    using demo_drain [OF demo_executed_ok(1), of "receipt_item demo_receipt"] demo_executed_ok(2)
    by (auto simp: receipt_item_def)
  obtain t1 where t1: "ProcessCrossTxReceipts demo_env ?t = Ok ([demo_receipt], t1)"
    by (simp add: ProcessCrossTxReceipts_def q Let_def NewTxManager_def demo_update)
  then show ?thesis
    using processed_receipts_remain [OF _ _ t1, of "[demo_receipt]" 0] demo_executed_ok by simp
qed

section \<open>Restart\<close>

lemma traverse_panic:
  assumes "x \<in> set xs" "is_panic (f x)" "\<And>y e. f y \<noteq> Err e"
  shows "is_panic (traverse f xs)"
  using assms(1)
proof (induction xs)
  case (Cons y ys)
  show ?case
  proof (cases "f y")
    case (Ok z)
    with Cons assms(2) have "is_panic (traverse f ys)" by auto
    then show ?thesis by (cases "traverse f ys") (simp_all add: Ok)
  qed (use assms(3) in auto)
qed simp

lemma executed_tx_panics:
  assumes "prque_ok (tm_executed t)" "it \<in># prque_items (tm_executed t)" "it_value it = ETx c"
  shows "is_panic (ProcessCrossTxReceipts env t)"
proof -
  obtain xs q where d: "prque_drain (prque_Size (tm_executed t)) (tm_executed t) = Some (xs, q)"
      "mset (map (\<lambda>(v, p). \<lparr>it_value = v, it_priority = p\<rparr>) xs) = prque_items (tm_executed t)"
    using drain_all [OF assms(1)] by metis
  have "ETx c \<in># mset (map fst xs)"
    unfolding drained_values [OF d(2)] using assms(2,3) by (auto intro!: image_eqI [where x = it])
  then have "is_panic (traverse as_receipt (map fst xs))"
    by (intro traverse_panic [of "ETx c"]) (auto elim: as_receipt.elims)
  then show ?thesis
    by (cases "traverse as_receipt (map fst xs)") (simp_all add: ProcessCrossTxReceipts_def d(1))
qed

text \<open>A courier that restarts with an executed contract in its store panics on the first receipt
  round: \<open>reload\<close> fills the queue of receipts with transactions, and \<open>ProcessCrossTxReceipts\<close>
  asserts that each item is a receipt.\<close>

theorem reload_breaks_receipts:
  assumes "reload env (NewTxManager db) = Ok t"
    and "Store_Query (te_store env) 0 0 [TimestampField] False [te_StatusEq env Executed] db = cs"
    and "cs \<noteq> []" "in_window (mset (map (tx_item ETx) cs))"
  shows "is_panic (ProcessCrossTxReceipts env t)"
proof -
  obtain q where q: "push_txs ETx cs (prque_New False) = Ok q" "tm_executed t = q"
    using assms(1,2) by (auto simp: reload_def NewTxManager_def bind_outcome_Ok_iff Let_def)
  have stamps: "\<forall>c \<in> set cs. ct_TimeStamp c \<noteq> None" if "push_txs ETx cs q0 = Ok q" for q0
    using that
    by (induction cs arbitrary: q0)
      (auto simp: push_tx_def bind_outcome_Ok_iff split: option.splits)
  have "prque_ok q \<and> prque_items q = mset (map (tx_item ETx) cs)"
    using push_txs_ok [OF stamps [OF q(1)] prque_ok_New(1) [of False], of ETx] assms(4) q(1) by simp
  moreover obtain c where "c \<in> set cs" using assms(3) by (cases cs) auto
  ultimately show ?thesis
    using q(2) by (intro executed_tx_panics [where it = "tx_item ETx c" and c = c])
      (auto simp: tx_item_def)
qed

lemma reload_breaks_receipts_witness:
  "\<exists>t. reload demo_env (NewTxManager [''c1'' \<mapsto> demo_crosstx]) = Ok t \<and> is_panic (ProcessCrossTxReceipts demo_env t)"
proof -
  have f: "Store_Query (te_store demo_env) 0 0 [TimestampField] False [f] [''c1'' \<mapsto> demo_crosstx] = [demo_crosstx]" for f
    by (simp add: Store_Query_def demo_env_def)
  have "ct_TimeStamp demo_crosstx \<noteq> None" by (simp add: demo_crosstx_def)
  then obtain t where t: "reload demo_env (NewTxManager [''c1'' \<mapsto> demo_crosstx]) = Ok t"
    by (auto simp: reload_def NewTxManager_def f Let_def push_tx_def)
  then show ?thesis
    using reload_breaks_receipts [OF t refl] by (simp add: f in_window_def)
qed

section \<open>Goroutines over the loop variable\<close>

text \<open>When the loop over the requests that were completed is over before its goroutines run, all
  of them answer the last request, and the others are never answered.\<close>

theorem spawned_share_variable:
  assumes "out \<noteq> []" "\<forall>i < length out. length out \<le> sched i"
  shows "spawned sched out = replicate (length out) (ct_CrossID (last out), ct_TxID (last out))"
proof -
  have "spawned sched out = map (\<lambda>i. (ct_CrossID (last out), ct_TxID (last out))) [0..<length out]"
    unfolding spawned_def using assms
    by (intro map_cong) (auto simp: Let_def last_conv_nth min_def max_def)
  then show ?thesis by (simp add: map_replicate_const)
qed

lemma spawned_share_variable_witness:
  "spawned (\<lambda>_. 2) [demo_crosstx\<lparr>ct_CrossID := ''x''\<rparr>, demo_crosstx] = [(''c1'', ''t1''), (''c1'', ''t1'')]"
  using spawned_share_variable [of "[demo_crosstx\<lparr>ct_CrossID := ''x''\<rparr>, demo_crosstx]" "\<lambda>_. 2"]
  by (simp add: demo_crosstx_def less_Suc_eq numeral_2_eq_2)

end
