(* ===== verification/Syncer.thy ===== *)
theory Syncer
  imports BlockFilter TxManager
begin

text \<open>
  The block synchroniser of the courier (fabric/courier/syncer.go). Its two goroutines,
  \<open>syncBlock\<close> and \<open>processPreTxs\<close>, meet on the unbuffered channels \<open>preTxsCh\<close> and \<open>errCh\<close> and end
  when \<open>stopCh\<close> is closed; they are the two program counters of a step relation. The timer is
  reduced to whether it will fire again. A panic ends the process.
\<close>

section \<open>State\<close>

datatype sync_pc =
    SyncSelect
  | SyncSend "prepare_tx list"
  | SyncDone

text \<open>\<open>ProcErr e k\<close> waits on \<open>errCh\<close>; \<open>k\<close> is the slice it goes on with, if any.\<close>

datatype proc_pc =
    ProcSelect
  | ProcWork "prepare_tx list"
  | ProcErr goerr "crosstx option list option"
  | ProcDone

record 'd block_sync =
  bs_blockNum :: u64
  bs_filterEvents :: "string list"
  bs_sync :: sync_pc
  bs_proc :: proc_pc
  bs_timer :: bool
  bs_stopCh :: bool
  bs_stopping :: bool
  bs_txm :: "'d tx_manager"
  bs_calls :: "(string \<times> string) list"
  bs_crash :: "string option"

record ('d, 'f, 'w) sync_env =
  se_tx :: "('d, 'f, 'w) tx_env"
  se_pb :: fabric_pb
  se_json :: "bytes \<Rightarrow> goerr + json"
  se_Query :: "u64 \<Rightarrow> 'w \<Rightarrow> (goerr + block) \<times> 'w"
  se_enc_num :: "u64 \<Rightarrow> bytes"
  se_dec_num :: "bytes \<Rightarrow> u64"
  se_hook :: bool

text \<open>\<open>NewBlockSync\<close> and \<open>Start\<close>: the number of the last block asked for is read back, block 0 is
  skipped; an event of another name is only logged. The timer is created with duration 0.\<close>

definition NewBlockSync ::
    "('d, 'f, 'w) sync_env \<Rightarrow> string list \<Rightarrow> 'd tx_manager \<Rightarrow> 'd block_sync" where
  "NewBlockSync env FilterEvents txm =
     (let stored = se_dec_num env
            (Store_Get (te_store (se_tx env)) ''config'' ''number'' (se_enc_num env 0) (tm_DB txm));
          startNum = (if stored = 0 then 1 else stored) in
      \<lparr> bs_blockNum = startNum,
        bs_filterEvents = filter (\<lambda>ev. ev = ''precommit'' \<or> ev = ''commit'') FilterEvents,
        bs_sync = SyncSelect, bs_proc = ProcSelect, bs_timer = True, bs_stopCh = False,
        bs_stopping = False, bs_txm = txm, bs_calls = [], bs_crash = None \<rparr>)"

definition crash :: "string \<Rightarrow> 'd block_sync \<Rightarrow> 'd block_sync" where
  "crash p s = s\<lparr>bs_crash := Some p\<rparr>"

section \<open>The goroutine \<open>syncBlock\<close>\<close>

text \<open>The closure \<open>apply\<close>; \<open>go s.Stop()\<close> asks for a stop.\<close>

definition apply_err :: "goerr \<Rightarrow> 'd block_sync \<Rightarrow> 'd block_sync" where
  "apply_err e s =
     (if contains (err_text e) ''Entry not found in index'' then s\<lparr>bs_timer := True\<rparr>
      else if contains (err_text e) ''ignore''
      then s\<lparr>bs_blockNum := bs_blockNum s + 1, bs_timer := True\<rparr>
      else s\<lparr>bs_stopping := True\<rparr>)"

text \<open>The branch of the timer, up to the send on \<open>preTxsCh\<close>.\<close>

definition sync_tick ::
    "('d, 'f, 'w) sync_env \<Rightarrow> 'd block_sync \<times> 'w \<Rightarrow> 'd block_sync \<times> 'w" where
  "sync_tick env sw =
     (case sw of (s, w) \<Rightarrow>
        let s = s\<lparr>bs_timer := False\<rparr>;
            (e, d) = Store_Set (te_store (se_tx env)) ''config'' ''number''
              (se_enc_num env (bs_blockNum s)) (tm_DB (bs_txm s));
            s = s\<lparr>bs_txm := (bs_txm s)\<lparr>tm_DB := d\<rparr>\<rparr> in
        (case e of
           Some err \<Rightarrow> (apply_err err s, w)
         | None \<Rightarrow>
             (case se_Query env (bs_blockNum s) w of
                (Inl err, w) \<Rightarrow> (apply_err err s, w)
              | (Inr block, w) \<Rightarrow>
                  (case GetPrepareCrossTxs (se_pb env) block (\<lambda>ev. ev \<in> set (bs_filterEvents s)) of
                     Panic p \<Rightarrow> (crash p s, w)
                   | Err err \<Rightarrow> (apply_err err s, w)
                   | Ok preCrossTxs \<Rightarrow> (s\<lparr>bs_sync := SyncSend preCrossTxs\<rparr>, w)))))"

text \<open>What follows the send: both resets of the timer make it fire again.\<close>

definition sync_sent :: "prepare_tx list \<Rightarrow> 'd block_sync \<Rightarrow> 'd block_sync" where
  "sync_sent preCrossTxs s =
     (let s = s\<lparr>bs_sync := SyncSelect, bs_blockNum := bs_blockNum s + 1\<rparr> in
      case preCrossTxs of
        [] \<Rightarrow> crash ''index out of range'' s
      | tx # _ \<Rightarrow>
          (case pre_TimeStamp tx of
             None \<Rightarrow> crash ''nil pointer dereference'' s
           | Some ts \<Rightarrow> s\<lparr>bs_timer := True\<rparr>))"

section \<open>The goroutine \<open>processPreTxs\<close>\<close>

text \<open>The loop over the prepared transactions; \<open>crossTxs\<close> starts as \<open>n\<close> nil pointers and
  \<open>append(crossTxs[:i], crossTx)\<close> cuts it at \<open>i\<close>.\<close>

fun parse_loop ::
    "('d, 'f, 'w) sync_env \<Rightarrow> nat \<Rightarrow> prepare_tx list \<Rightarrow> crosstx option list \<Rightarrow>
     (goerr option \<times> crosstx option list) outcome" where
  "parse_loop env i [] crossTxs = Ok (None, crossTxs)"
| "parse_loop env i (tx # txs) crossTxs =
     (case se_json env (pre_Payload tx) of
        Inl err \<Rightarrow> Ok (Some err, crossTxs)
      | Inr j \<Rightarrow>
          (case Contract_UnmarshalJSON j of
             Panic p \<Rightarrow> Panic p
           | Err err \<Rightarrow> Ok (Some err, crossTxs)
           | Ok c \<Rightarrow>
               parse_loop env (i + 1) txs
                 (take i crossTxs @
                   [Some \<lparr> ct_Contract = Some c, ct_PK = 0, ct_CrossID = GetContractID c,
                      ct_TxID = pre_TxID tx, ct_BlockNumber = pre_BlockNumber tx,
                      ct_TimeStamp = pre_TimeStamp tx \<rparr>])))"

definition proc_add ::
    "('d, 'f, 'w) sync_env \<Rightarrow> (nat \<Rightarrow> nat) \<Rightarrow> crosstx option list \<Rightarrow> 'd block_sync \<Rightarrow> 'd block_sync" where
  "proc_add env sched crossTxs s =
     (if se_hook env then s\<lparr>bs_proc := ProcSelect\<rparr>
      else
        (case AddCrossTxs (se_tx env) sched crossTxs (bs_txm s) of
           Panic p \<Rightarrow> crash p s
         | Err e \<Rightarrow> crash (err_text e) s
         | Ok (r, calls, t) \<Rightarrow>
             s\<lparr>bs_txm := t, bs_calls := bs_calls s @ calls,
               bs_proc := (case r of None \<Rightarrow> ProcSelect | Some err \<Rightarrow> ProcErr err None)\<rparr>))"

definition proc_work ::
    "('d, 'f, 'w) sync_env \<Rightarrow> (nat \<Rightarrow> nat) \<Rightarrow> prepare_tx list \<Rightarrow> 'd block_sync \<Rightarrow> 'd block_sync" where
  "proc_work env sched preCrossTxs s =
     (case parse_loop env 0 preCrossTxs (replicate (length preCrossTxs) None) of
        Panic p \<Rightarrow> crash p s
      | Err e \<Rightarrow> crash (err_text e) s
      | Ok (Some err, crossTxs) \<Rightarrow> s\<lparr>bs_proc := ProcErr err (Some crossTxs)\<rparr>
      | Ok (None, crossTxs) \<Rightarrow> proc_add env sched crossTxs s)"

text \<open>After the send on \<open>errCh\<close>.\<close>

definition proc_sent_err ::
    "('d, 'f, 'w) sync_env \<Rightarrow> (nat \<Rightarrow> nat) \<Rightarrow> crosstx option list option \<Rightarrow> 'd block_sync \<Rightarrow> 'd block_sync" where
  "proc_sent_err env sched k s =
     (case k of
        None \<Rightarrow> s\<lparr>bs_proc := ProcSelect\<rparr>
      | Some crossTxs \<Rightarrow> proc_add env sched crossTxs s)"

text \<open>A goroutine started by \<open>AddCrossTxs\<close> that answers a request of the other chain.\<close>

definition answer_call ::
    "('d, 'f, 'w) sync_env \<Rightarrow> string \<times> string \<Rightarrow> 'd block_sync \<times> 'w \<Rightarrow> 'd block_sync \<times> 'w" where
  "answer_call env call sw =
     (case sw of (s, w) \<Rightarrow>
        (case processOutChainCtxResp (se_tx env) (fst call) (snd call) (bs_txm s, w) of
           Ok (t, w) \<Rightarrow> (s\<lparr>bs_txm := t\<rparr>, w)
         | Err e \<Rightarrow> (crash (err_text e) s, w)
         | Panic p \<Rightarrow> (crash p s, w)))"

section \<open>Steps\<close>

datatype sync_event =
    Tick u64
  | Handed u64 "prepare_tx list"
  | ErrTaken goerr
  | Worked
  | Answered
  | StopCalled
  | SyncStopped
  | ProcStopped

inductive bs_step ::
    "('d, 'f, 'w) sync_env \<Rightarrow> 'd block_sync \<times> 'w \<Rightarrow> sync_event \<Rightarrow> 'd block_sync \<times> 'w \<Rightarrow> bool"
  for env where
  tick: "bs_crash s = None \<Longrightarrow> bs_sync s = SyncSelect \<Longrightarrow> bs_timer s \<Longrightarrow>
    bs_step env (s, w) (Tick (bs_blockNum s)) (sync_tick env (s, w))"
| handed: "bs_crash s = None \<Longrightarrow> bs_sync s = SyncSend txs \<Longrightarrow> bs_proc s = ProcSelect \<Longrightarrow>
    bs_step env (s, w) (Handed (bs_blockNum s) txs) (sync_sent txs (s\<lparr>bs_proc := ProcWork txs\<rparr>), w)"
| err_taken: "bs_crash s = None \<Longrightarrow> bs_sync s = SyncSelect \<Longrightarrow> bs_proc s = ProcErr e k \<Longrightarrow>
    bs_step env (s, w) (ErrTaken e) (proc_sent_err env sched k (apply_err e s), w)"
| worked: "bs_crash s = None \<Longrightarrow> bs_proc s = ProcWork txs \<Longrightarrow>
    bs_step env (s, w) Worked (proc_work env sched txs s, w)"
| answered: "bs_crash s = None \<Longrightarrow> bs_calls s = call # calls \<Longrightarrow>
    bs_step env (s, w) Answered (answer_call env call (s\<lparr>bs_calls := calls\<rparr>, w))"
| stop_asked: "bs_crash s = None \<Longrightarrow> bs_stopping s \<Longrightarrow> \<not> bs_stopCh s \<Longrightarrow>
    bs_step env (s, w) StopCalled (s\<lparr>bs_stopCh := True\<rparr>, w)"
| sync_stopped: "bs_crash s = None \<Longrightarrow> bs_sync s = SyncSelect \<Longrightarrow> bs_stopCh s \<Longrightarrow>
    bs_step env (s, w) SyncStopped (s\<lparr>bs_sync := SyncDone\<rparr>, w)"
| proc_stopped: "bs_crash s = None \<Longrightarrow> bs_proc s = ProcSelect \<Longrightarrow> bs_stopCh s \<Longrightarrow>
    bs_step env (s, w) ProcStopped (s\<lparr>bs_proc := ProcDone\<rparr>, w)"

text \<open>\<open>Stop\<close> called from outside asks for a stop at any moment; runs are the sequences of both.\<close>

inductive bs_run ::
    "('d, 'f, 'w) sync_env \<Rightarrow> 'd block_sync \<times> 'w \<Rightarrow> sync_event list \<Rightarrow> 'd block_sync \<times> 'w \<Rightarrow> bool"
  for env where
  run_start: "bs_run env sw [] sw"
| run_step: "bs_run env sw evs sw' \<Longrightarrow> bs_step env sw' ev sw'' \<Longrightarrow> bs_run env sw (evs @ [ev]) sw''"
| run_Stop: "bs_run env sw evs (s, w) \<Longrightarrow> bs_run env sw evs (s\<lparr>bs_stopping := True\<rparr>, w)"

text \<open>\<open>wg.Wait\<close> returns when both goroutines are over.\<close>

definition bs_finished :: "'d block_sync \<Rightarrow> bool" where
  "bs_finished s \<longleftrightarrow> bs_sync s = SyncDone \<and> bs_proc s = ProcDone"

inductive_cases bs_step_cases: "bs_step env (s, w) ev sw'"

section \<open>What the pieces keep\<close>

lemma crash_simps [simp]:
  "bs_blockNum (crash p s) = bs_blockNum s" "bs_sync (crash p s) = bs_sync s"
  "bs_proc (crash p s) = bs_proc s" "bs_timer (crash p s) = bs_timer s"
  "bs_crash (crash p s) = Some p" "bs_filterEvents (crash p s) = bs_filterEvents s"
  "bs_stopCh (crash p s) = bs_stopCh s" "bs_stopping (crash p s) = bs_stopping s"
  by (simp_all add: crash_def)

lemma apply_err_simps [simp]:
  "bs_sync (apply_err e s) = bs_sync s" "bs_proc (apply_err e s) = bs_proc s"
  "bs_filterEvents (apply_err e s) = bs_filterEvents s" "bs_crash (apply_err e s) = bs_crash s"
  "bs_stopCh (apply_err e s) = bs_stopCh s" "bs_txm (apply_err e s) = bs_txm s"
  by (simp_all add: apply_err_def)

lemma apply_err_blockNum:
  "bs_blockNum (apply_err e s) = bs_blockNum s \<or> bs_blockNum (apply_err e s) = bs_blockNum s + 1"
  by (simp add: apply_err_def)

lemma apply_err_wakes: "bs_timer (apply_err e s) \<or> bs_stopping (apply_err e s)"
  by (simp add: apply_err_def)

lemma apply_err_stopping: "bs_stopping s \<Longrightarrow> bs_stopping (apply_err e s)"
  by (simp add: apply_err_def)

lemma proc_add_simps [simp]:
  "bs_blockNum (proc_add env sched l s) = bs_blockNum s" "bs_sync (proc_add env sched l s) = bs_sync s"
  "bs_timer (proc_add env sched l s) = bs_timer s" "bs_stopCh (proc_add env sched l s) = bs_stopCh s"
  "bs_stopping (proc_add env sched l s) = bs_stopping s"
  "bs_filterEvents (proc_add env sched l s) = bs_filterEvents s"
  by (simp_all add: proc_add_def split: outcome.split prod.split)

lemma proc_work_simps [simp]:
  "bs_blockNum (proc_work env sched l s) = bs_blockNum s" "bs_sync (proc_work env sched l s) = bs_sync s"
  "bs_timer (proc_work env sched l s) = bs_timer s" "bs_stopCh (proc_work env sched l s) = bs_stopCh s"
  "bs_stopping (proc_work env sched l s) = bs_stopping s"
  "bs_filterEvents (proc_work env sched l s) = bs_filterEvents s"
  by (simp_all add: proc_work_def split: outcome.split prod.split option.split)

lemma proc_sent_err_simps [simp]:
  "bs_blockNum (proc_sent_err env sched k s) = bs_blockNum s"
  "bs_sync (proc_sent_err env sched k s) = bs_sync s"
  "bs_timer (proc_sent_err env sched k s) = bs_timer s"
  "bs_stopCh (proc_sent_err env sched k s) = bs_stopCh s"
  "bs_stopping (proc_sent_err env sched k s) = bs_stopping s"
  "bs_filterEvents (proc_sent_err env sched k s) = bs_filterEvents s"
  by (simp_all add: proc_sent_err_def split: option.split)

lemma sync_sent_simps [simp]:
  "bs_blockNum (sync_sent txs s) = bs_blockNum s + 1" "bs_sync (sync_sent txs s) = SyncSelect"
  "bs_proc (sync_sent txs s) = bs_proc s" "bs_stopCh (sync_sent txs s) = bs_stopCh s"
  "bs_stopping (sync_sent txs s) = bs_stopping s"
  "bs_filterEvents (sync_sent txs s) = bs_filterEvents s"
  by (simp_all add: sync_sent_def Let_def split: list.split option.split)

lemma sync_sent_wakes: "bs_crash (sync_sent txs s) = None \<Longrightarrow> bs_timer (sync_sent txs s)"
  by (auto simp: sync_sent_def Let_def split: list.splits option.splits)

lemma answer_call_simps [simp]:
  "bs_blockNum (fst (answer_call env c (s, w))) = bs_blockNum s"
  "bs_sync (fst (answer_call env c (s, w))) = bs_sync s"
  "bs_proc (fst (answer_call env c (s, w))) = bs_proc s"
  "bs_timer (fst (answer_call env c (s, w))) = bs_timer s"
  "bs_stopCh (fst (answer_call env c (s, w))) = bs_stopCh s"
  "bs_stopping (fst (answer_call env c (s, w))) = bs_stopping s"
  "bs_filterEvents (fst (answer_call env c (s, w))) = bs_filterEvents s"
  by (simp_all add: answer_call_def split: outcome.split prod.split)

text \<open>What a block number and the answer of the chain must be for a batch to be sent.\<close>

definition batch_of :: "('d, 'f, 'w) sync_env \<Rightarrow> string list \<Rightarrow> u64 \<Rightarrow> prepare_tx list \<Rightarrow> bool" where
  "batch_of env evs n txs \<longleftrightarrow>
     (\<exists>w block w'. se_Query env n w = (Inr block, w') \<and>
        GetPrepareCrossTxs (se_pb env) block (\<lambda>ev. ev \<in> set evs) = Ok txs)"

lemma sync_tick_facts:
  assumes "sync_tick env (s, w) = (s', w')" "bs_sync s = SyncSelect"
  shows "bs_proc s' = bs_proc s" "bs_filterEvents s' = bs_filterEvents s" "bs_stopCh s' = bs_stopCh s"
    and "bs_stopping s \<Longrightarrow> bs_stopping s'"
    and "(bs_sync s' = SyncSelect \<and> (bs_crash s' = None \<longrightarrow> bs_timer s' \<or> bs_stopping s')
          \<and> (bs_blockNum s' = bs_blockNum s \<or> bs_blockNum s' = bs_blockNum s + 1))
       \<or> (\<exists>txs. bs_sync s' = SyncSend txs \<and> batch_of env (bs_filterEvents s) (bs_blockNum s) txs
          \<and> bs_blockNum s' = bs_blockNum s)"
proof -
  obtain e d where set: "Store_Set (te_store (se_tx env)) ''config'' ''number''
      (se_enc_num env (bs_blockNum s)) (tm_DB (bs_txm s)) = (e, d)" by fastforce
  let ?s = "s\<lparr>bs_timer := False, bs_txm := (bs_txm s)\<lparr>tm_DB := d\<rparr>\<rparr>"
  obtain r u where q: "se_Query env (bs_blockNum s) w = (r, u)" by fastforce
  consider (err) err where "s' = apply_err err ?s" | (crash) p where "s' = crash p ?s"
    | (send) block txs where "r = Inr block" "s' = ?s\<lparr>bs_sync := SyncSend txs\<rparr>"
        "GetPrepareCrossTxs (se_pb env) block (\<lambda>ev. ev \<in> set (bs_filterEvents s)) = Ok txs"
    using assms(1)
    by (auto simp: sync_tick_def Let_def set q split: option.splits sum.splits outcome.splits)
  note c = this
  show "bs_proc s' = bs_proc s" using c by cases simp_all
  show "bs_filterEvents s' = bs_filterEvents s" using c by cases simp_all
  show "bs_stopCh s' = bs_stopCh s" using c by cases simp_all
  show "bs_stopping s'" if "bs_stopping s"
    using c that by cases (simp_all add: apply_err_stopping)
  show "(bs_sync s' = SyncSelect \<and> (bs_crash s' = None \<longrightarrow> bs_timer s' \<or> bs_stopping s')
          \<and> (bs_blockNum s' = bs_blockNum s \<or> bs_blockNum s' = bs_blockNum s + 1))
       \<or> (\<exists>txs. bs_sync s' = SyncSend txs \<and> batch_of env (bs_filterEvents s) (bs_blockNum s) txs
          \<and> bs_blockNum s' = bs_blockNum s)"
    using c
  proof cases
    case err
    then show ?thesis
      using assms(2) apply_err_wakes [of err ?s] apply_err_blockNum [of err ?s] by simp
  next
    case send
    then show ?thesis using q unfolding batch_of_def by auto
  qed (use assms(2) in simp)
qed

section \<open>The invariant\<close>

definition bs_inv :: "('d, 'f, 'w) sync_env \<Rightarrow> 'd block_sync \<Rightarrow> bool" where
  "bs_inv env s \<longleftrightarrow>
     (bs_crash s = None \<longrightarrow> bs_sync s = SyncSelect \<longrightarrow> bs_timer s \<or> bs_stopping s) \<and>
     (\<forall>txs. bs_sync s = SyncSend txs \<longrightarrow> batch_of env (bs_filterEvents s) (bs_blockNum s) txs) \<and>
     (bs_stopCh s \<longrightarrow> bs_stopping s) \<and>
     (bs_sync s = SyncDone \<or> bs_proc s = ProcDone \<longrightarrow> bs_stopCh s)"

lemma proc_add_not_done: "bs_proc (proc_add env sched l s) = ProcDone \<Longrightarrow> bs_proc s = ProcDone"
  by (auto simp: proc_add_def split: if_splits outcome.splits prod.splits option.splits)

lemma proc_work_not_done: "bs_proc (proc_work env sched l s) = ProcDone \<Longrightarrow> bs_proc s = ProcDone"
  by (auto simp: proc_work_def dest: proc_add_not_done
      split: if_splits outcome.splits prod.splits option.splits)

lemma proc_sent_err_not_done: "bs_proc (proc_sent_err env sched k s) = ProcDone \<Longrightarrow> bs_proc s = ProcDone"
  by (auto simp: proc_sent_err_def dest: proc_add_not_done split: option.splits)

lemma crash_stays:
  "bs_crash (proc_sent_err env sched k s) = None \<Longrightarrow> bs_crash s = None"
  "bs_crash (proc_work env sched l s) = None \<Longrightarrow> bs_crash s = None"
  "bs_crash (fst (answer_call env c (s, w))) = None \<Longrightarrow> bs_crash s = None"
  by (auto simp: proc_sent_err_def proc_work_def proc_add_def answer_call_def crash_def
      split: if_splits option.splits outcome.splits prod.splits)

lemma bs_step_inv:
  assumes "bs_step env sw ev sw'" "bs_inv env (fst sw)"
  shows "bs_inv env (fst sw') \<and> bs_filterEvents (fst sw') = bs_filterEvents (fst sw)"
  using assms
proof (induction rule: bs_step.induct)
  case (tick s w)
  obtain s' w' where "sync_tick env (s, w) = (s', w')" by fastforce
  then show ?case
    using sync_tick_facts [of env s w s' w'] tick by (auto simp: bs_inv_def)
next
  case (handed s txs w)
  then show ?case using sync_sent_wakes [of txs "s\<lparr>bs_proc := ProcWork txs\<rparr>"] by (auto simp: bs_inv_def)
next
  case (err_taken s e k w sched)
  then show ?case
    using apply_err_wakes [of e s] apply_err_stopping [of s e] proc_sent_err_not_done
    by (fastforce simp: bs_inv_def)
next
  case (worked s txs w sched)
  then show ?case using proc_work_not_done by (fastforce simp: bs_inv_def)
next
  case (answered s call calls w)
  then show ?case by (auto simp: bs_inv_def)
qed (auto simp: bs_inv_def)

lemma NewBlockSync_inv: "bs_inv env (NewBlockSync env evs txm)"
  by (simp add: bs_inv_def NewBlockSync_def Let_def)

lemma bs_run_inv:
  assumes "bs_run env sw evs sw'" "bs_inv env (fst sw)"
  shows "bs_inv env (fst sw') \<and> bs_filterEvents (fst sw') = bs_filterEvents (fst sw)"
  using assms
proof (induction rule: bs_run.induct)
  case (run_step sw evs sw' ev sw'')
  then show ?case using bs_step_inv by metis
next
  case (run_Stop sw evs s w)
  then show ?case by (auto simp: bs_inv_def)
qed simp

section \<open>Blocks are handed over in order\<close>

fun handed_numbers :: "sync_event list \<Rightarrow> u64 list" where
  "handed_numbers [] = []"
| "handed_numbers (Handed n txs # evs) = n # handed_numbers evs"
| "handed_numbers (ev # evs) = handed_numbers evs"

lemma handed_numbers_append [simp]:
  "handed_numbers (xs @ ys) = handed_numbers xs @ handed_numbers ys"
  by (induction xs rule: handed_numbers.induct) simp_all

definition handed_ok :: "u64 \<Rightarrow> u64 \<Rightarrow> sync_event list \<Rightarrow> bool" where
  "handed_ok n0 n evs \<longleftrightarrow>
     unat n0 \<le> unat n \<and> unat n \<le> unat n0 + length evs \<and>
     sorted_wrt (<) (map unat (handed_numbers evs)) \<and>
     (\<forall>k \<in> set (handed_numbers evs). unat n0 \<le> unat k \<and> unat k < unat n)"

lemma unat_next: "unat (n :: u64) < 2 ^ 64 - 1 \<Longrightarrow> unat (n + 1) = unat n + 1"
  by (simp add: unat_word_ariths)

lemma bs_step_number:
  assumes "bs_step env (s, w) ev (s', w')"
  shows "(\<exists>txs. ev = Handed (bs_blockNum s) txs \<and> bs_blockNum s' = bs_blockNum s + 1 \<and> bs_sync s = SyncSend txs)
    \<or> (handed_numbers [ev] = [] \<and> (bs_blockNum s' = bs_blockNum s \<or> bs_blockNum s' = bs_blockNum s + 1))"
  using assms
proof (cases rule: bs_step.cases)
  case tick
  then show ?thesis using sync_tick_facts(5) [of env s w s' w'] by auto
next
  case (err_taken e k sched)
  then show ?thesis using apply_err_blockNum [of e s] by auto
next
  case (answered c cs)
  then show ?thesis using answer_call_simps(1) [of env c "s\<lparr>bs_calls := cs\<rparr>" w]
    by (metis block_sync.ext_inject block_sync.surjective block_sync.update_convs(9) fst_conv handed_numbers.simps(1,6))
qed auto

lemma bs_run_handed:
  assumes "bs_run env sw evs sw'" "unat (bs_blockNum (fst sw)) + length evs < 2 ^ 64"
  shows "handed_ok (bs_blockNum (fst sw)) (bs_blockNum (fst sw')) evs"
  using assms
proof (induction rule: bs_run.induct)
  case (run_start sw)
  then show ?case by (simp add: handed_ok_def)
next
  case (run_step sw evs sw' ev sw'')
  obtain s w s2 w2 where e: "sw' = (s, w)" "sw'' = (s2, w2)" by fastforce
  let ?n0 = "bs_blockNum (fst sw)"
  have ok: "handed_ok ?n0 (bs_blockNum s) evs" using run_step e by simp
  then have n: "unat (bs_blockNum s + 1) = unat (bs_blockNum s) + 1"
    using run_step.prems by (intro unat_next) (simp add: handed_ok_def)
  show ?case
    using bs_step_number [of env s w ev s2 w2] run_step.hyps(2) ok n
    by (auto simp: e handed_ok_def sorted_wrt_append less_Suc_eq)
qed (simp add: handed_ok_def)

text \<open>C6: blocks reach the transaction manager in the order of the chain and never twice in one run:
  the numbers handed over are strictly increasing, start at the number the synchroniser started
  with, and each batch is what the wanted events of the block of its number yield.\<close>

theorem blocks_handed_in_order:
  assumes "bs_run env (NewBlockSync env names txm, w0) evs (s, w)"
    and "unat (bs_blockNum (NewBlockSync env names txm)) + length evs < 2 ^ 64"
  shows "sorted_wrt (<) (map unat (handed_numbers evs))
    \<and> (\<forall>n \<in> set (handed_numbers evs). bs_blockNum (NewBlockSync env names txm) \<le> n \<and> n < bs_blockNum s)
    \<and> (\<forall>n txs. Handed n txs \<in> set evs \<longrightarrow>
         batch_of env (bs_filterEvents (NewBlockSync env names txm)) n txs)"
proof -
  have "\<forall>n txs. Handed n txs \<in> set evs \<longrightarrow> batch_of env (bs_filterEvents (fst sw)) n txs"
    if "bs_run env sw evs sw'" "bs_inv env (fst sw)" for sw sw'
    using that
  proof (induction rule: bs_run.induct)
    case (run_step sw evs sw' ev sw'')
    obtain s w s2 w2 where e: "sw' = (s, w)" "sw'' = (s2, w2)" by fastforce
    have "bs_inv env s" "bs_filterEvents s = bs_filterEvents (fst sw)"
      using bs_run_inv [OF run_step.hyps(1) run_step.prems] e by simp_all
    moreover have "bs_sync s = SyncSend txs \<and> n = bs_blockNum s" if "ev = Handed n txs" for n txs
      using bs_step_number [of env s w ev s2 w2] run_step.hyps(2) that by (auto simp: e)
    ultimately have "\<forall>n txs. ev = Handed n txs \<longrightarrow> batch_of env (bs_filterEvents (fst sw)) n txs"
      by (metis bs_inv_def)
    with run_step.IH [OF run_step.prems] show ?case by auto
  qed simp_all
  from this [OF assms(1)] have "\<forall>n txs. Handed n txs \<in> set evs \<longrightarrow>
      batch_of env (bs_filterEvents (NewBlockSync env names txm)) n txs"
    by (simp add: NewBlockSync_inv)
  moreover have "handed_ok (bs_blockNum (NewBlockSync env names txm)) (bs_blockNum s) evs"
    using bs_run_handed [OF assms(1)] assms(2) by simp
  ultimately show ?thesis by (simp add: handed_ok_def word_le_nat_alt word_less_nat_alt)
qed

section \<open>Deadlocks\<close>

definition bs_deadlocked :: "'d block_sync \<Rightarrow> bool" where
  "bs_deadlocked s \<longleftrightarrow>
     (\<exists>txs. bs_sync s = SyncSend txs) \<and> ((\<exists>e k. bs_proc s = ProcErr e k) \<or> bs_proc s = ProcDone)
     \<or> bs_sync s = SyncDone \<and> (\<exists>e k. bs_proc s = ProcErr e k)"


lemma bs_step_deadlocked:
  assumes "bs_step env sw ev sw'" "bs_deadlocked (fst sw)"
  shows "bs_deadlocked (fst sw')"
  using assms by (induction rule: bs_step.induct) (auto simp: bs_deadlocked_def)

text \<open>A deadlock is for good: once one goroutine waits to hand a batch over while the other waits
  to report an error or has ended (or the reader has ended while an error is waiting), no stop
  and no further step brings both to an end, so \<open>Stop\<close> waits forever.\<close>

theorem deadlock_forever:
  assumes "bs_run env (s, w) evs (s', w')" "bs_deadlocked s"
  shows "bs_deadlocked s' \<and> \<not> bs_finished s' \<and> handed_numbers evs = []"
proof -
  have "bs_deadlocked (fst sw') \<and> handed_numbers evs = []"
    if "bs_run env sw evs sw'" "bs_deadlocked (fst sw)" for sw sw'
    using that
  proof (induction rule: bs_run.induct)
    case (run_step sw evs sw' ev sw'')
    obtain s w where e: "sw' = (s, w)" by fastforce
    have "handed_numbers [ev] = []"
      using run_step.hyps(2) run_step.IH [OF run_step.prems] unfolding e
      by (cases rule: bs_step_cases) (auto simp: bs_deadlocked_def)
    then show ?case using run_step.IH [OF run_step.prems] bs_step_deadlocked [OF run_step.hyps(2)] by simp
  qed (auto simp: bs_deadlocked_def)
  from this [OF assms(1)] assms(2) show ?thesis
    by (auto simp: bs_deadlocked_def bs_finished_def)
qed

section \<open>What is skipped or lost\<close>

text \<open>An error whose text contains the word ignore moves the synchroniser on, whoever wrote the
  text. A payload with the contract type \<open>ignore\<close> makes \<open>processPreTxs\<close> report such an error; the
  block whose turn it is is then skipped: no later step hands it over.\<close>

theorem ignore_text_skips_block:
  assumes "bs_step env (s, w) (ErrTaken (ErrNew (''unsupported contract type: '' @ typ))) (s', w')"
    and "contains typ ''ignore''"
    and "\<not> contains (''unsupported contract type: '' @ typ) ''Entry not found in index''"
    and "bs_run env (s', w') evs (s2, w2)" "unat (bs_blockNum s) + length evs + 1 < 2 ^ 64"
  shows "bs_blockNum s \<notin> set (handed_numbers evs) \<and> bs_blockNum s < bs_blockNum s2"
proof -
  have c: "contains (''unsupported contract type: '' @ typ) ''ignore''"
    by (rule contains_prefix [OF assms(2)])
  have "bs_blockNum s' = bs_blockNum s + 1"
    using assms(1) by (cases rule: bs_step.cases) (use c assms(3) in \<open>auto simp: apply_err_def\<close>)
  moreover have "unat (bs_blockNum s + 1) = unat (bs_blockNum s) + 1"
    using assms(5) by (intro unat_next) simp
  moreover have "handed_ok (bs_blockNum s') (bs_blockNum s2) evs"
    using bs_run_handed [OF assms(4)] assms(5) calculation by simp
  ultimately show ?thesis by (auto simp: handed_ok_def word_less_nat_alt)
qed

text \<open>The number of the next block is stored before the batch of the block handed over has been
  saved. A process that ends there starts again with the next block: \<open>n + 1\<close> is the number a new
  synchroniser reads while the batch of block \<open>n\<close> is still being worked on.\<close>

theorem restart_loses_block:
  assumes "bs_crash s = None" "bs_sync s = SyncSend (tx # txs)" "bs_proc s = ProcSelect"
    and "pre_TimeStamp tx \<noteq> None"
    and "Store_Set (te_store (se_tx env)) ''config'' ''number'' (se_enc_num env (bs_blockNum s + 1))
           (tm_DB (bs_txm s)) = (None, d)"
    and "se_dec_num env (Store_Get (te_store (se_tx env)) ''config'' ''number'' (se_enc_num env 0) d)
           = bs_blockNum s + 1" "bs_blockNum s + 1 \<noteq> 0"
    and "se_Query env (bs_blockNum s + 1) w = (Inl e, w')"
  shows "\<exists>s'. bs_run env (s, w) [Handed (bs_blockNum s) (tx # txs), Tick (bs_blockNum s + 1)] (s', w')
    \<and> bs_proc s' = ProcWork (tx # txs) \<and> tm_DB (bs_txm s') = d
    \<and> bs_blockNum (NewBlockSync env names (NewTxManager (tm_DB (bs_txm s')))) = bs_blockNum s + 1"
proof -
  let ?s1 = "sync_sent (tx # txs) (s\<lparr>bs_proc := ProcWork (tx # txs)\<rparr>)"
  obtain ts where ts: "pre_TimeStamp tx = Some ts" using assms(4) by blast
  have s1: "bs_crash ?s1 = None" "bs_timer ?s1" "bs_txm ?s1 = bs_txm s"
    by (simp_all add: sync_sent_def ts assms(1))
  let ?s2 = "apply_err e (?s1\<lparr>bs_timer := False, bs_txm := (bs_txm s)\<lparr>tm_DB := d\<rparr>\<rparr>)"
  have t: "sync_tick env (?s1, w) = (?s2, w')"
    by (simp add: sync_tick_def s1 assms(5,8))
  have "bs_run env (s, w) ([] @ [Handed (bs_blockNum s) (tx # txs)]) (?s1, w)"
    by (intro bs_run.run_step [OF bs_run.run_start] bs_step.handed assms)
  moreover have "bs_step env (?s1, w) (Tick (bs_blockNum s + 1)) (?s2, w')"
    using bs_step.tick [of ?s1 env w] s1 t by simp
  ultimately have "bs_run env (s, w) ([Handed (bs_blockNum s) (tx # txs)] @ [Tick (bs_blockNum s + 1)]) (?s2, w')"
    using bs_run.run_step by fastforce
  then show ?thesis
    using assms(6,7) by (intro exI [of _ ?s2]) (simp add: NewBlockSync_def NewTxManager_def)
qed

section \<open>Concrete runs\<close>

text \<open>A store that holds the block number only, a chain whose every block carries one event, a
  payload no decoder accepts.\<close>

definition num_store :: "(bytes, unit) store_lib" where
  "num_store = \<lparr> sd_Begin = \<lambda>d. None, sd_One = \<lambda>d f k. Err store_NotFound, sd_Save = \<lambda>c d. Inr d,
     sd_Update = \<lambda>c d. Inr d, sd_Commit = Inr, sd_Find = \<lambda>ord r p f d. [],
     sd_Set = \<lambda>b k v d. Inr v, sd_Get = \<lambda>b k d. Inr d \<rparr>"

definition demo_sync :: "bool \<Rightarrow> (bytes, unit, nat) sync_env" where
  "demo_sync longer = \<lparr> se_tx = \<lparr> te_chain = demo_lib, te_hub = te_hub demo_env, te_store = num_store,
       te_sign = \<lambda>_. Inr demo_sig, te_Send = \<lambda>m w. (None, w + 1),
       te_InvokeChainCode = \<lambda>f args w. (None, w), te_StatusEq = \<lambda>_. (), te_hash_String = \<lambda>_. [],
       te_enc_rtx = \<lambda>_. [], te_dec_rtx = \<lambda>_. zero_rtxdata \<rparr>,
     se_pb = demo_pb\<lparr>pb_ChannelHeader := \<lambda>b. Inr \<lparr> ch_Type = 3, ch_TxId = ''tx'',
       ch_Timestamp = Some \<lparr> ts_Seconds = 1, ts_Nanos = 0 \<rparr> \<rparr>\<rparr>,
     se_json = \<lambda>_. Inl (ErrNew ''invalid character''),
     se_Query = \<lambda>n w. (if longer \<or> n = 1 then Inr (demo_block [5])
       else Inl (ErrNew ''Entry not found in index''), w),
     se_enc_num = \<lambda>n. replicate (unat n) 0, se_dec_num = \<lambda>b. of_nat (length b), se_hook = False \<rparr>"

definition demo_batch :: "prepare_tx list" where
  "demo_batch = [demo_pre\<lparr>pre_TimeStamp := Some \<lparr> ts_Seconds = 1, ts_Nanos = 0 \<rparr>\<rparr>]"

lemma demo_batch_prepared:
  "GetPrepareCrossTxs (se_pb (demo_sync longer)) (demo_block [5]) (\<lambda>e. e = ''precommit'') = Ok demo_batch"
  by (simp add: GetPrepareCrossTxs_def demo_block_def deref_def demo_pb_eval demo_pre_def demo_sync_def
      demo_batch_def)

definition demo_start :: "bool \<Rightarrow> bytes block_sync" where
  "demo_start longer = NewBlockSync (demo_sync longer) [''precommit''] (NewTxManager [])"

lemma demo_start_simps [simp]:
  "bs_blockNum (demo_start longer) = 1" "bs_filterEvents (demo_start longer) = [''precommit'']"
  "bs_sync (demo_start longer) = SyncSelect" "bs_proc (demo_start longer) = ProcSelect"
  "bs_timer (demo_start longer)" "bs_crash (demo_start longer) = None"
  "bs_calls (demo_start longer) = []" "\<not> bs_stopping (demo_start longer)"
  by (simp_all add: demo_start_def NewBlockSync_def demo_sync_def Store_Get_def num_store_def NewTxManager_def)

lemma demo_tick:
  assumes "bs_filterEvents s = [''precommit'']" "longer \<or> bs_blockNum s = 1"
  shows "sync_tick (demo_sync longer) (s, w) = (s\<lparr>bs_timer := False,
    bs_txm := (bs_txm s)\<lparr>tm_DB := replicate (unat (bs_blockNum s)) 0\<rparr>, bs_sync := SyncSend demo_batch\<rparr>, w)"
proof -
  have "Store_Set (te_store (se_tx (demo_sync longer))) ''config'' ''number'' b d = (None, b)" for b d
    by (simp add: Store_Set_def demo_sync_def num_store_def)
  moreover have "se_Query (demo_sync longer) (bs_blockNum s) w = (Inr (demo_block [5]), w)"
      "se_enc_num (demo_sync longer) n = replicate (unat n) 0" for n
    using assms(2) by (auto simp: demo_sync_def)
  ultimately show ?thesis
    using assms(1) demo_batch_prepared by (simp add: sync_tick_def)
qed

definition demo_sent :: "bool \<Rightarrow> bytes block_sync" where
  "demo_sent longer = fst (sync_tick (demo_sync longer) (demo_start longer, 0))"

lemma demo_sent_simps [simp]:
  "bs_blockNum (demo_sent longer) = 1" "bs_filterEvents (demo_sent longer) = [''precommit'']"
  "bs_sync (demo_sent longer) = SyncSend demo_batch" "bs_proc (demo_sent longer) = ProcSelect"
  "bs_crash (demo_sent longer) = None"
  by (simp_all add: demo_sent_def demo_tick)

lemma demo_run_sent: "bs_run (demo_sync longer) (demo_start longer, 0) [Tick 1] (demo_sent longer, 0)"
proof -
  have "bs_step (demo_sync longer) (demo_start longer, 0) (Tick 1) (sync_tick (demo_sync longer) (demo_start longer, 0))"
    using bs_step.tick [of "demo_start longer" "demo_sync longer" 0] by simp
  from bs_run.run_step [OF bs_run.run_start this] show ?thesis by (simp add: demo_sent_def demo_tick)
qed

lemma restart_loses_block_witness:
  "\<exists>s'. bs_run (demo_sync False) (demo_sent False, 0) [Handed 1 demo_batch, Tick 2] (s', 0)
     \<and> bs_proc s' = ProcWork demo_batch
     \<and> bs_blockNum (NewBlockSync (demo_sync False) [] (NewTxManager (tm_DB (bs_txm s')))) = 2"
proof -
  have "replicate 2 (0 :: byte) = [0, 0]" by (simp add: numeral_2_eq_2)
  moreover have "unat (2 :: u64) = 2" by simp
  ultimately have two: "replicate (unat (2 :: u64)) (0 :: byte) = [0, 0]" by simp
  have "Store_Set (te_store (se_tx (demo_sync False))) ''config'' ''number'' (se_enc_num (demo_sync False) 2) d
      = (None, [0, 0])" for d
    by (simp add: Store_Set_def demo_sync_def num_store_def two [simplified])
  moreover have "se_dec_num (demo_sync False) (Store_Get (te_store (se_tx (demo_sync False)))
      ''config'' ''number'' (se_enc_num (demo_sync False) 0) [0, 0]) = 2"
    by (simp add: Store_Get_def demo_sync_def num_store_def)
  moreover have "se_Query (demo_sync False) 2 0 = (Inl (ErrNew ''Entry not found in index''), 0)"
    by (simp add: demo_sync_def)
  ultimately show ?thesis
    using restart_loses_block [of "demo_sent False" "hd demo_batch" "[]" "demo_sync False" "[0, 0]" 0
        "ErrNew ''Entry not found in index''" 0 "[]"]
    by (auto simp: demo_batch_def)
qed

definition demo_working :: "bytes block_sync" where
  "demo_working = sync_sent demo_batch ((demo_sent True)\<lparr>bs_proc := ProcWork demo_batch\<rparr>)"

lemma demo_working_simps [simp]:
  "bs_blockNum demo_working = 2" "bs_filterEvents demo_working = [''precommit'']"
  "bs_sync demo_working = SyncSelect" "bs_proc demo_working = ProcWork demo_batch"
  "bs_crash demo_working = None" "bs_timer demo_working"
  by (simp_all add: demo_working_def)
    (simp_all add: demo_batch_def sync_sent_def demo_sent_def demo_tick)

lemma demo_run_working:
  "bs_run (demo_sync True) (demo_start True, 0) [Tick 1, Handed 1 demo_batch] (demo_working, 0)"
proof -
  have "bs_step (demo_sync True) (demo_sent True, 0) (Handed 1 demo_batch) (demo_working, 0)"
    using bs_step.handed [of "demo_sent True" demo_batch "demo_sync True" 0] by (simp add: demo_working_def)
  from bs_run.run_step [OF demo_run_sent this] show ?thesis by simp
qed

lemma blocks_handed_in_order_witness:
  "batch_of (demo_sync True) [''precommit''] 1 demo_batch"
  using blocks_handed_in_order [OF demo_run_working [unfolded demo_start_def]]
  by (simp flip: demo_start_def)


text \<open>The chain offers a second block while the first is being refused: both goroutines wait.\<close>

definition demo_stuck :: "bytes block_sync" where
  "demo_stuck = proc_work (demo_sync True) id demo_batch (fst (sync_tick (demo_sync True) (demo_working, 0)))"

lemma demo_refused:
  "proc_work (demo_sync longer) sched demo_batch s =
     s\<lparr>bs_proc := ProcErr (ErrNew ''invalid character'') (Some [None])\<rparr>"
  by (simp add: proc_work_def demo_batch_def demo_sync_def)

lemma demo_run_stuck:
  "bs_run (demo_sync True) (demo_start True, 0) [Tick 1, Handed 1 demo_batch, Tick 2, Worked] (demo_stuck, 0)"
proof -
  let ?s = "fst (sync_tick (demo_sync True) (demo_working, 0))"
  have "bs_step (demo_sync True) (demo_working, 0) (Tick 2) (?s, 0)"
    using bs_step.tick [of demo_working "demo_sync True" 0] by (simp add: demo_tick)
  from bs_run.run_step [OF demo_run_working this]
  have "bs_run (demo_sync True) (demo_start True, 0) [Tick 1, Handed 1 demo_batch, Tick 2] (?s, 0)" by simp
  moreover have "bs_step (demo_sync True) (?s, 0) Worked (demo_stuck, 0)"
    unfolding demo_stuck_def by (rule bs_step.worked) (simp_all add: demo_tick)
  ultimately show ?thesis using bs_run.run_step by fastforce
qed

lemma deadlock_forever_witness:
  "\<exists>s. bs_run (demo_sync True) (demo_start True, 0) [Tick 1, Handed 1 demo_batch, Tick 2, Worked] (s, 0)
     \<and> (\<forall>evs s' w'. \<not> (bs_run (demo_sync True) (s, 0) evs (s', w') \<and> bs_finished s'))"
proof -
  have "bs_deadlocked demo_stuck"
    by (simp add: demo_stuck_def demo_refused demo_tick bs_deadlocked_def)
  then have "\<not> (bs_run (demo_sync True) (demo_stuck, 0) evs (s', w') \<and> bs_finished s')" for evs s' w'
    using deadlock_forever [of "demo_sync True" demo_stuck 0 evs s' w'] by blast
  with demo_run_stuck show ?thesis by blast
qed

lemma ignore_text_skips_block_witness:
  "\<exists>s s'. bs_blockNum s = 2 \<and> bs_blockNum s' = (3 :: u64)
     \<and> bs_step (demo_sync True) (s, 0) (ErrTaken (ErrNew ''unsupported contract type: ignore'')) (s', 0)"
proof -
  let ?e = "ErrNew (''unsupported contract type: '' @ ''ignore'')"
  let ?s = "demo_working\<lparr>bs_proc := ProcErr ?e None\<rparr>"
  let ?s' = "proc_sent_err (demo_sync True) id None (apply_err ?e ?s)"
  have st: "bs_step (demo_sync True) (?s, 0) (ErrTaken ?e) (?s', 0)"
    by (rule bs_step.err_taken) simp_all
  have "bs_blockNum ?s < bs_blockNum ?s'"
    using ignore_text_skips_block [OF st _ _ bs_run.run_start] by (simp add: contains_def)
  moreover have "bs_blockNum ?s' = 2 \<or> bs_blockNum ?s' = 3"
    using apply_err_blockNum [of ?e ?s] by simp
  ultimately have "bs_blockNum ?s' = 3" by auto
  with st show ?thesis by (intro exI [of _ ?s] exI [of _ ?s']) simp
qed

end
