(* ===== verification/Chaincode.thy ===== *)
theory Chaincode
  imports Contract
begin

text \<open>
  The example chaincode (fabric/chaincode/chaincode_example02/go/chaincode_example02.go and
  contract.go): the \<open>Init\<close> and \<open>Invoke\<close> entry points, the transfer \<open>doInvoke\<close>, \<open>delete\<close>,
  \<open>query\<close>, and the two-step cross-chain contract \<open>precommit\<close> and \<open>commit\<close>.

  The shim is third-party code, so it is a parameter: what \<open>GetState\<close> answers during the
  transaction and which writes it refuses. The model records the calls that change the ledger
  in the order the code makes them; \<open>apply_calls\<close> is the documented effect a committed
  transaction has on the ledger.
\<close>

section \<open>The stub\<close>

text \<open>
  A ledger value is a text written with \<open>[]byte(strconv.Itoa(..))\<close> or a JSON document.
\<close>

datatype cell = Raw string | Doc json

datatype call =
    PutState string cell
  | DelState string
  | SetEvent string cell

record stub =
  GetState :: "string \<Rightarrow> goerr + cell option"
  PutState_err :: "string \<Rightarrow> cell \<Rightarrow> goerr option"
  DelState_err :: "string \<Rightarrow> goerr option"
  SetEvent_err :: "string \<Rightarrow> cell \<Rightarrow> goerr option"
  GetTxID :: string
  GetCreator :: string
  pem_Decode :: "string \<Rightarrow> string option"
  cert_CommonName :: "string \<Rightarrow> string option"
  json_text :: "json \<Rightarrow> string"
  sha256_hex :: "string \<Rightarrow> string"

type_synonym 'a run = "'a outcome \<times> call list"

fun bind_run :: "'a run \<Rightarrow> ('a \<Rightarrow> call list \<Rightarrow> 'b run) \<Rightarrow> 'b run" where
  "bind_run (Ok x, tr) f = f x tr"
| "bind_run (Err e, tr) f = (Err e, tr)"
| "bind_run (Panic p, tr) f = (Panic p, tr)"

definition put_state :: "stub \<Rightarrow> string \<Rightarrow> cell \<Rightarrow> call list \<Rightarrow> unit run" where
  "put_state s k v tr =
     (case PutState_err s k v of
        Some e \<Rightarrow> (Err e, tr)
      | None \<Rightarrow> (Ok (), tr @ [PutState k v]))"

definition set_event :: "stub \<Rightarrow> string \<Rightarrow> cell \<Rightarrow> call list \<Rightarrow> unit run" where
  "set_event s n v tr =
     (case SetEvent_err s n v of
        Some e \<Rightarrow> (Err e, tr)
      | None \<Rightarrow> (Ok (), tr @ [SetEvent n v]))"

datatype response = Success "cell option" | Failure string

text \<open>\<open>strconv.Atoi(string(bytes))\<close> with its error dropped. A JSON document starts with a
  brace, so it is a syntax error and the value is 0.\<close>

fun atoi_cell :: "cell \<Rightarrow> i64" where
  "atoi_cell (Raw s) = fst (atoi s)"
| "atoi_cell (Doc j) = 0"

section \<open>Transfers\<close>

definition doInvoke :: "stub \<Rightarrow> string list \<Rightarrow> call list \<Rightarrow> unit run" where
  "doInvoke s args tr =
     (if length args \<noteq> 3 then (Err (ErrNew ''Incorrect number of arguments. Expecting 3''), tr)
      else
        let A = args ! 0; B = args ! 1 in
        case GetState s A of
          Inl e \<Rightarrow> (Err (ErrNew ''Failed to get state''), tr)
        | Inr None \<Rightarrow> (Err (ErrNew ''Entity not found''), tr)
        | Inr (Some Avalbytes) \<Rightarrow>
            (case GetState s B of
               Inl e \<Rightarrow> (Err (ErrNew ''Failed to get state''), tr)
             | Inr None \<Rightarrow> (Err (ErrNew ''Entity not found''), tr)
             | Inr (Some Bvalbytes) \<Rightarrow>
                 (case atoi (args ! 2) of
                    (X, Some e) \<Rightarrow>
                      (Err (ErrNew ''Invalid transaction amount, expecting a integer value''), tr)
                  | (X, None) \<Rightarrow>
                      let Aval = atoi_cell Avalbytes - X; Bval = atoi_cell Bvalbytes + X in
                      bind_run (put_state s A (Raw (itoa Aval)) tr) (\<lambda>_ tr.
                      bind_run (put_state s B (Raw (itoa Bval)) tr) (\<lambda>_ tr.
                      set_event s ''evtTransfer''
                        (Raw (A @ '' transfer to '' @ B @ '' '' @ itoa X)) tr)))))"

text \<open>\<open>invoke\<close>: on an error it builds a response with \<open>shim.Error\<close> and drops it; the function
  returns \<open>shim.Success(nil)\<close> on both paths.\<close>

definition invoke :: "stub \<Rightarrow> string list \<Rightarrow> call list \<Rightarrow> response run" where
  "invoke s args tr =
     (case doInvoke s args tr of
        (Panic p, tr) \<Rightarrow> (Panic p, tr)
      | (_, tr) \<Rightarrow> (Ok (Success None), tr))"

definition chaincode_Init :: "stub \<Rightarrow> string list \<Rightarrow> call list \<Rightarrow> response run" where
  "chaincode_Init s args tr =
     (if length args \<noteq> 4 then (Ok (Failure ''Incorrect number of arguments. Expecting 4''), tr)
      else
        let A = args ! 0; B = args ! 2 in
        case atoi (args ! 1) of
          (Aval, Some e) \<Rightarrow> (Ok (Failure ''Expecting integer value for asset holding''), tr)
        | (Aval, None) \<Rightarrow>
            (case atoi (args ! 3) of
               (Bval, Some e) \<Rightarrow> (Ok (Failure ''Expecting integer value for asset holding''), tr)
             | (Bval, None) \<Rightarrow>
                 (case put_state s A (Raw (itoa Aval)) tr of
                    (Err e, tr) \<Rightarrow> (Ok (Failure (err_text e)), tr)
                  | (Panic p, tr) \<Rightarrow> (Panic p, tr)
                  | (Ok _, tr) \<Rightarrow>
                      (case put_state s B (Raw (itoa Bval)) tr of
                         (Err e, tr) \<Rightarrow> (Ok (Failure (err_text e)), tr)
                       | (Panic p, tr) \<Rightarrow> (Panic p, tr)
                       | (Ok _, tr) \<Rightarrow> (Ok (Success None), tr)))))"

definition chaincode_delete :: "stub \<Rightarrow> string list \<Rightarrow> call list \<Rightarrow> response run" where
  "chaincode_delete s args tr =
     (if length args \<noteq> 1 then (Ok (Failure ''Incorrect number of arguments. Expecting 1''), tr)
      else
        case DelState_err s (args ! 0) of
          Some e \<Rightarrow> (Ok (Failure ''Failed to delete state''), tr)
        | None \<Rightarrow> (Ok (Success None), tr @ [DelState (args ! 0)]))"

definition dquote :: string where "dquote = [CHR 0x22]"

definition chaincode_query :: "stub \<Rightarrow> string list \<Rightarrow> call list \<Rightarrow> response run" where
  "chaincode_query s args tr =
     (if length args \<noteq> 1 then
        (Ok (Failure ''Incorrect number of arguments. Expecting name of the person to query''), tr)
      else
        case GetState s (args ! 0) of
          Inl e \<Rightarrow>
            (Ok (Failure (''{'' @ dquote @ ''Error'' @ dquote @ '':'' @ dquote
               @ ''Failed to get state for '' @ args ! 0 @ dquote @ ''}'')), tr)
        | Inr None \<Rightarrow>
            (Ok (Failure (''{'' @ dquote @ ''Error'' @ dquote @ '':'' @ dquote
               @ ''Nil amount for '' @ args ! 0 @ dquote @ ''}'')), tr)
        | Inr (Some v) \<Rightarrow> (Ok (Success (Some v)), tr))"

section \<open>Cross-chain contracts\<close>

text \<open>\<open>bytes.IndexAny(b, chars)\<close>: the first position whose byte is one of \<open>chars\<close>, or -1.\<close>

fun index_any :: "string \<Rightarrow> string \<Rightarrow> nat option" where
  "index_any [] chars = None"
| "index_any (c # cs) chars =
     (if c \<in> set chars then Some 0 else map_option Suc (index_any cs chars))"

text \<open>\<open>creator\<close>: the three \<open>shim.Error\<close> calls build a response that is dropped, so each of
  the failures runs on into the statement that panics.\<close>

definition creator :: "stub \<Rightarrow> string outcome" where
  "creator s =
     (let creatorByte = GetCreator s in
      case index_any creatorByte ''-----BEGIN'' of
        None \<Rightarrow> Panic ''slice bounds out of range''
      | Some certStart \<Rightarrow>
          (case pem_Decode s (drop certStart creatorByte) of
             None \<Rightarrow> Panic ''nil pointer dereference''
           | Some bl \<Rightarrow>
               (case cert_CommonName s bl of
                  None \<Rightarrow> Panic ''nil pointer dereference''
                | Some name \<Rightarrow> Ok name)))"

definition precommit_core :: "string list \<Rightarrow> string \<Rightarrow> contract_core" where
  "precommit_core args who =
     (let callArgs = split_on (CHR '' '') (args ! 4) in
      \<lparr> Address = args ! 0, Value = args ! 1, Description = args ! 2, Owner = callArgs ! 0,
        ToCallFunc = args ! 3, Args = callArgs, Creator = who \<rparr>)"

definition precommit :: "stub \<Rightarrow> string list \<Rightarrow> call list \<Rightarrow> response run" where
  "precommit s args tr =
     (if length args \<le> 4 then (Panic ''index out of range'', tr)
      else
        case creator s of
          Panic p \<Rightarrow> (Panic p, tr)
        | Err e \<Rightarrow> (Err e, tr)
        | Ok who \<Rightarrow>
            let core = precommit_core args who;
                i = genContractID (json_text s) (sha256_hex s) core (GetTxID s);
                rawContract = Doc (Contract_json (PrecommitContract
                  \<lparr> p_Status = Init, p_ContractID = i, p_Receipt = [], p_Core = core \<rparr>)) in
            (case put_state s i rawContract tr of
              (Err e, tr) \<Rightarrow> (Ok (Failure (err_text e)), tr)
            | (Panic p, tr) \<Rightarrow> (Panic p, tr)
            | (Ok _, tr) \<Rightarrow>
                (case set_event s ''precommit'' rawContract tr of
                   (Err e, tr) \<Rightarrow> (Ok (Failure (err_text e)), tr)
                 | (Panic p, tr) \<Rightarrow> (Panic p, tr)
                 | (Ok _, tr) \<Rightarrow> (Ok (Success None), tr))))"

definition doCommit :: "stub \<Rightarrow> precommit_contract \<Rightarrow> call list \<Rightarrow> unit run" where
  "doCommit s c tr =
     (if ToCallFunc (p_Core c) = ''invoke'' then doInvoke s (Args (p_Core c)) tr
      else (Err (ErrNew (''undefined '' @ ToCallFunc (p_Core c))), tr))"

text \<open>\<open>%v\<close> of a string slice.\<close>

definition show_args :: "string list \<Rightarrow> string" where
  "show_args xs = ''['' @ join_with (CHR '' '') xs @ '']''"

definition commit_doc :: "cstatus \<Rightarrow> string \<Rightarrow> cell" where
  "commit_doc st i = Doc (Contract_json (CommitContract \<lparr> c_Status = st, c_ContractID = i \<rparr>))"

definition outchainCommit :: "stub \<Rightarrow> string list \<Rightarrow> call list \<Rightarrow> unit run" where
  "outchainCommit s args tr =
     (if length args \<le> 1 then (Panic ''index out of range'', tr)
      else if args ! 1 = ''invoke'' then
        (case doInvoke s (drop 2 args) tr of
           (Err e, tr) \<Rightarrow>
             (Err (ErrNew (''doInvoke args '' @ show_args args @ '', err: '' @ err_text e)), tr)
         | (Panic p, tr) \<Rightarrow> (Panic p, tr)
         | (Ok _, tr) \<Rightarrow> set_event s ''commit'' (commit_doc OutOnceCompleted (args ! 0)) tr)
      else (Err (ErrNew ''Unsupported call for outchain ''), tr))"

text \<open>\<open>json.Unmarshal(rawContract, &contract)\<close>: the amount a transfer wrote is a number, which
  is not an object.\<close>

fun unmarshal_contract :: "cell \<Rightarrow> icontract outcome" where
  "unmarshal_contract (Raw t) = Err (ErrNew ''json: cannot unmarshal into Go value of type map'')"
| "unmarshal_contract (Doc j) = Contract_UnmarshalJSON j"

definition regularCommit :: "stub \<Rightarrow> string list \<Rightarrow> call list \<Rightarrow> response run" where
  "regularCommit s args tr =
     (if length args \<le> 1 then (Panic ''index out of range'', tr)
      else
        let contractID = args ! 0; receipt = args ! 1 in
        case GetState s contractID of
          Inl e \<Rightarrow>
            (Ok (Failure (''get contract by '' @ contractID @ '', err: '' @ err_text e)), tr)
        | Inr None \<Rightarrow> (Ok (Failure (''invalid contractid '' @ contractID)), tr)
        | Inr (Some rawContract) \<Rightarrow>
            (case unmarshal_contract rawContract of
               Panic p \<Rightarrow> (Panic p, tr)
             | Err e \<Rightarrow>
                 (Ok (Failure (''parse contract with '' @ contractID @ '', err: '' @ err_text e)), tr)
             | Ok contract \<Rightarrow>
                 if GetStatus contract = Finished then
                   (Ok (Success (Some (Raw ''replicate call commit''))), tr)
                 else
                   (case contract of
                      CommitContract _ \<Rightarrow>
                        (Ok (Failure ''assert contract.IContract.(*PrecommitContract) failed''), tr)
                    | PrecommitContract c \<Rightarrow>
                        (case doCommit s c tr of
                           (Err e, tr) \<Rightarrow> (Ok (Failure (''doCommit err: '' @ err_text e)), tr)
                         | (Panic p, tr) \<Rightarrow> (Panic p, tr)
                         | (Ok _, tr) \<Rightarrow>
                             let preCommit = UpdateReceipt receipt (c\<lparr>p_Status := Finished\<rparr>);
                                 updateData = Doc (Contract_json (PrecommitContract preCommit)) in
                             (case put_state s contractID updateData tr of
                               (Err e, tr) \<Rightarrow> (Ok (Failure (err_text e)), tr)
                             | (Panic p, tr) \<Rightarrow> (Panic p, tr)
                             | (Ok _, tr) \<Rightarrow>
                                 (case set_event s ''commit'' (commit_doc Finished contractID) tr of
                                    (Err e, tr) \<Rightarrow>
                                      (Ok (Failure (''send commit event err: '' @ err_text e)), tr)
                                  | (Panic p, tr) \<Rightarrow> (Panic p, tr)
                                  | (Ok _, tr) \<Rightarrow> (Ok (Success None), tr)))))))"

definition commit :: "stub \<Rightarrow> string list \<Rightarrow> call list \<Rightarrow> response run" where
  "commit s args tr =
     (if args = [] then (Panic ''index out of range'', tr)
      else if args ! 0 = ''outchain'' then
        (case outchainCommit s (drop 1 args) tr of
           (Err e, tr) \<Rightarrow>
             (Ok (Failure (''outchainCommit '' @ show_args args @ '', err: '' @ err_text e)), tr)
         | (Panic p, tr) \<Rightarrow> (Panic p, tr)
         | (Ok _, tr) \<Rightarrow> (Ok (Success None), tr))
      else regularCommit s args tr)"

definition chaincode_Invoke :: "stub \<Rightarrow> string \<Rightarrow> string list \<Rightarrow> call list \<Rightarrow> response run" where
  "chaincode_Invoke s function args tr =
     (if function = ''invoke'' then invoke s args tr
      else if function = ''delete'' then chaincode_delete s args tr
      else if function = ''query'' then chaincode_query s args tr
      else if function = ''precommit'' then precommit s args tr
      else if function = ''commit'' then commit s args tr
      else (Ok (Failure (''Invalid invoke function name. Expecting '' @ dquote @ ''invoke'' @ dquote
             @ '' '' @ dquote @ ''delete'' @ dquote @ '' '' @ dquote @ ''query'' @ dquote)), tr))"

section \<open>The ledger\<close>

type_synonym ledger = "string \<rightharpoonup> cell"

fun apply_call :: "call \<Rightarrow> ledger \<Rightarrow> ledger" where
  "apply_call (PutState k v) L = L(k \<mapsto> v)"
| "apply_call (DelState k) L = L(k := None)"
| "apply_call (SetEvent n v) L = L"

definition apply_calls :: "call list \<Rightarrow> ledger \<Rightarrow> ledger" where
  "apply_calls tr L = fold apply_call tr L"

lemma apply_calls_simps [simp]:
  "apply_calls [] L = L"
  "apply_calls (c # tr) L = apply_calls tr (apply_call c L)"
  "apply_calls (tr @ tr') L = apply_calls tr' (apply_calls tr L)"
  by (simp_all add: apply_calls_def)

text \<open>
  The stub of a peer that answers from the ledger \<open>L\<close> and refuses nothing; a transaction
  changes the ledger when the chaincode returns a success response.
\<close>

definition on_ledger :: "stub \<Rightarrow> ledger \<Rightarrow> stub" where
  "on_ledger s L = s\<lparr>GetState := \<lambda>k. Inr (L k), PutState_err := \<lambda>_ _. None,
     DelState_err := \<lambda>_. None, SetEvent_err := \<lambda>_ _. None\<rparr>"

definition transaction :: "stub \<Rightarrow> string \<Rightarrow> string list \<Rightarrow> ledger \<Rightarrow> ledger" where
  "transaction s function args L =
     (case chaincode_Invoke (on_ledger s L) function args [] of
        (Ok (Success _), tr) \<Rightarrow> apply_calls tr L
      | _ \<Rightarrow> L)"

definition balance :: "ledger \<Rightarrow> string \<Rightarrow> i64" where
  "balance L k = (case L k of Some v \<Rightarrow> atoi_cell v | None \<Rightarrow> 0)"

lemma on_ledger_simps [simp]:
  "GetState (on_ledger s L) k = Inr (L k)"
  "PutState_err (on_ledger s L) k v = None"
  "DelState_err (on_ledger s L) k = None"
  "SetEvent_err (on_ledger s L) n v = None"
  "GetTxID (on_ledger s L) = GetTxID s"
  "json_text (on_ledger s L) = json_text s"
  "sha256_hex (on_ledger s L) = sha256_hex s"
  by (simp_all add: on_ledger_def)

lemma put_state_on_ledger [simp]: "put_state (on_ledger s L) k v tr = (Ok (), tr @ [PutState k v])"
  by (simp add: put_state_def)

lemma set_event_on_ledger [simp]: "set_event (on_ledger s L) n v tr = (Ok (), tr @ [SetEvent n v])"
  by (simp add: set_event_def)

lemma creator_on_ledger [simp]: "creator (on_ledger s L) = creator s"
  by (simp add: creator_def on_ledger_def Let_def split: option.split)

lemma doInvoke_on_ledger:
  assumes "L A = Some a" "L B = Some b" "atoi x = (X, None)"
  shows "doInvoke (on_ledger s L) [A, B, x] tr = (Ok (),
    tr @ [PutState A (Raw (itoa (atoi_cell a - X))), PutState B (Raw (itoa (atoi_cell b + X))),
          SetEvent ''evtTransfer'' (Raw (A @ '' transfer to '' @ B @ '' '' @ itoa X))])"
  using assms by (simp add: doInvoke_def Let_def)

lemma doInvoke_not_panic: "fst (doInvoke s args tr) \<noteq> Panic p"
  by (auto simp: doInvoke_def Let_def put_state_def set_event_def
      split: sum.splits option.splits prod.splits)

lemma balance_upd [simp]:
  "balance (L(k \<mapsto> v)) k' = (if k' = k then atoi_cell v else balance L k')"
  by (simp add: balance_def)

lemma balance_Some: "L k = Some v \<Longrightarrow> balance L k = atoi_cell v"
  by (simp add: balance_def)

section \<open>Transfers on the ledger\<close>

lemma transaction_invoke:
  assumes "L A = Some a" "L B = Some b" "atoi x = (X, None)"
  shows "transaction s ''invoke'' [A, B, x] L =
    L(A \<mapsto> Raw (itoa (balance L A - X)), B \<mapsto> Raw (itoa (balance L B + X)))"
  using assms
  by (simp add: transaction_def chaincode_Invoke_def invoke_def doInvoke_on_ledger balance_Some)

text \<open>C26: a transfer between two different existing accounts moves exactly the amount: the
  payer loses it, the payee gains it (both at 64 bits), the sum of the two balances and every
  other key of the ledger stay as they were.\<close>

theorem invoke_conserves:
  assumes "L A = Some a" "L B = Some b" "A \<noteq> B" "atoi x = (X, None)"
    and "L' = transaction s ''invoke'' [A, B, x] L"
  shows "balance L' A = balance L A - X \<and> balance L' B = balance L B + X
    \<and> balance L' A + balance L' B = balance L A + balance L B
    \<and> (\<forall>k. k \<notin> {A, B} \<longrightarrow> L' k = L k)"
  using assms by (simp add: transaction_invoke)

definition demo_stub :: stub where
  "demo_stub = \<lparr> GetState = \<lambda>_. Inr None, PutState_err = \<lambda>_ _. None, DelState_err = \<lambda>_. None,
     SetEvent_err = \<lambda>_ _. None, GetTxID = ''tx1'', GetCreator = ''Org1MSP-----BEGIN'',
     pem_Decode = \<lambda>t. Some t, cert_CommonName = \<lambda>t. Some ''admin'',
     json_text = \<lambda>_. ''{}'', sha256_hex = \<lambda>t. t \<rparr>"

definition demo_ledger :: ledger where
  "demo_ledger = [''a'' \<mapsto> Raw ''100'', ''b'' \<mapsto> Raw ''200'']"

lemma atoi_demo [simp]: "atoi ''10'' = (10, None)" "atoi ''100'' = (100, None)"
    "atoi ''200'' = (200, None)"
  by (simp_all add: atoi_def parse_signed_def digit_val_def)

lemma demo_ledger_simps:
  "demo_ledger ''a'' = Some (Raw ''100'')" "demo_ledger ''b'' = Some (Raw ''200'')"
  "balance demo_ledger ''a'' = 100" "balance demo_ledger ''b'' = 200"
  by (simp_all add: demo_ledger_def balance_def)

lemma invoke_conserves_witness:
  "balance (transaction demo_stub ''invoke'' [''a'', ''b'', ''10''] demo_ledger) ''b'' = 210"
  using invoke_conserves [of demo_ledger "''a''" "Raw ''100''" "''b''" "Raw ''200''" "''10''" 10
      "transaction demo_stub ''invoke'' [''a'', ''b'', ''10''] demo_ledger" demo_stub]
  by (simp add: demo_ledger_def balance_def)

text \<open>C39: a transfer from an account to itself creates money: the two writes to the same key
  are made from the value read before either, and the second one, the credit, stays.\<close>

theorem invoke_self_transfer_mints:
  assumes "L A = Some a" "atoi x = (X, None)"
  shows "balance (transaction s ''invoke'' [A, A, x] L) A = balance L A + X"
  using assms by (simp add: transaction_invoke)

lemma invoke_self_transfer_mints_witness:
  "balance (transaction demo_stub ''invoke'' [''a'', ''a'', ''10''] demo_ledger) ''a'' = 110"
  using invoke_self_transfer_mints [of demo_ledger "''a''" "Raw ''100''" "''10''" 10 demo_stub]
  by (simp add: demo_ledger_def balance_def)

text \<open>\<open>invoke\<close> reports success whatever happened: wrong arguments, an unknown account, a
  write the peer refused. A failed transfer that never reached its first write leaves no call
  behind.\<close>

theorem invoke_always_succeeds:
  "fst (invoke s args tr) = Ok (Success None)
   \<and> snd (invoke s args tr) = snd (doInvoke s args tr)"
proof (cases "doInvoke s args tr")
  case (Pair r tr')
  with doInvoke_not_panic [of s args tr] show ?thesis
    by (cases r) (auto simp: invoke_def)
qed

section \<open>Commits on the ledger\<close>

lemma regularCommit_success:
  assumes "regularCommit s [i, r] tr = (Ok (Success v), tr')"
    and "v \<noteq> Some (Raw ''replicate call commit'')"
  shows "\<exists>c tr1. p_Status c \<noteq> Finished
    \<and> tr' = tr1 @ [PutState i (Doc (Contract_json (PrecommitContract
              (UpdateReceipt r (c\<lparr>p_Status := Finished\<rparr>))))),
            SetEvent ''commit'' (commit_doc Finished i)]"
  using assms
  by (auto simp: regularCommit_def Let_def put_state_def set_event_def
      split: sum.splits option.splits outcome.splits icontract.splits prod.splits if_splits)

lemma replicate_commit:
  assumes "L i = Some (Doc (Contract_json c))" "GetStatus c = Finished"
  shows "regularCommit (on_ledger s L) [i, r] tr =
    (Ok (Success (Some (Raw ''replicate call commit''))), tr)"
proof -
  have "Contract_UnmarshalJSON (Contract_json c) = Ok (canonical c)"
    using assms(2) by (intro Contract_read_back) (simp add: supported_def)
  moreover have "GetStatus (canonical c) = Finished"
    using assms(2) by (cases c) auto
  ultimately show ?thesis
    using assms(1) by (simp add: regularCommit_def Let_def)
qed

lemma commit_regular: "i \<noteq> ''outchain'' \<Longrightarrow> commit s [i, r] tr = regularCommit s [i, r] tr"
  by (simp add: commit_def)

text \<open>Once a contract has been committed, every later commit of it, with any receipt, is
  answered with \<open>replicate call commit\<close> and makes no call that changes the ledger.\<close>

theorem commit_once:
  assumes "chaincode_Invoke (on_ledger s L) ''commit'' [i, r] [] = (Ok (Success None), tr)"
    and "i \<noteq> ''outchain''"
  shows "chaincode_Invoke (on_ledger s' (apply_calls tr L)) ''commit'' [i, r'] [] =
    (Ok (Success (Some (Raw ''replicate call commit''))), [])"
proof -
  have "regularCommit (on_ledger s L) [i, r] [] = (Ok (Success None), tr)"
    using assms by (simp add: chaincode_Invoke_def commit_regular)
  then obtain c tr1 where "tr = tr1 @ [PutState i (Doc (Contract_json (PrecommitContract
              (UpdateReceipt r (c\<lparr>p_Status := Finished\<rparr>))))),
            SetEvent ''commit'' (commit_doc Finished i)]"
    using regularCommit_success by blast
  then have "apply_calls tr L i =
      Some (Doc (Contract_json (PrecommitContract (UpdateReceipt r (c\<lparr>p_Status := Finished\<rparr>)))))"
    by simp
  then show ?thesis
    using assms(2)
    by (simp add: chaincode_Invoke_def commit_regular replicate_commit UpdateReceipt_def)
qed

definition contract_id :: "stub \<Rightarrow> string list \<Rightarrow> string \<Rightarrow> string" where
  "contract_id s args who =
     genContractID (json_text s) (sha256_hex s) (precommit_core args who) (GetTxID s)"

definition stored_contract :: "cstatus \<Rightarrow> string \<Rightarrow> string \<Rightarrow> contract_core \<Rightarrow> cell" where
  "stored_contract st i r core = Doc (Contract_json (PrecommitContract
     \<lparr> p_Status = st, p_ContractID = i, p_Receipt = r, p_Core = core \<rparr>))"

lemma transaction_precommit:
  assumes "creator s = Ok who" "length args > 4"
  shows "transaction s ''precommit'' args L =
    L(contract_id s args who \<mapsto> stored_contract Init (contract_id s args who) [] (precommit_core args who))"
  using assms
  by (simp add: transaction_def chaincode_Invoke_def precommit_def Let_def contract_id_def
      stored_contract_def)

lemma regularCommit_stored:
  assumes "L i = Some (stored_contract st i r0 core)"
    and "st \<in> {Init, Pending, Executed, Completed}"
    and "ToCallFunc core = ''invoke''" "Args core = [A, B, x]"
    and "L A = Some a" "L B = Some b" "atoi x = (X, None)"
  shows "regularCommit (on_ledger s L) [i, r] [] = (Ok (Success None),
      [PutState A (Raw (itoa (atoi_cell a - X))), PutState B (Raw (itoa (atoi_cell b + X))),
       SetEvent ''evtTransfer'' (Raw (A @ '' transfer to '' @ B @ '' '' @ itoa X)),
       PutState i (stored_contract Finished i r core),
       SetEvent ''commit'' (commit_doc Finished i)])"
proof -
  let ?c = "\<lparr> p_Status = st, p_ContractID = i, p_Receipt = r0, p_Core = core \<rparr>"
  have "Contract_UnmarshalJSON (Contract_json (PrecommitContract ?c)) = Ok (PrecommitContract ?c)"
    using assms(2) by (subst Contract_read_back) (auto simp: supported_def)
  moreover have "st \<noteq> Finished" using assms(2) by auto
  ultimately show ?thesis
    using assms
    by (simp add: regularCommit_def Let_def stored_contract_def doCommit_def doInvoke_on_ledger
        UpdateReceipt_def)
qed

lemma transaction_commit:
  assumes "L i = Some (stored_contract st i r0 core)" "i \<noteq> ''outchain''"
    and "st \<in> {Init, Pending, Executed, Completed}"
    and "ToCallFunc core = ''invoke''" "Args core = [A, B, x]"
    and "L A = Some a" "L B = Some b" "atoi x = (X, None)"
  shows "transaction s ''commit'' [i, r] L =
    L(A \<mapsto> Raw (itoa (balance L A - X)), B \<mapsto> Raw (itoa (balance L B + X)),
      i \<mapsto> stored_contract Finished i r core)"
  using regularCommit_stored [OF assms(1,3-8), of s r] assms(2,6,7)
  by (simp add: transaction_def chaincode_Invoke_def commit_regular balance_Some)

definition demo_core :: contract_core where
  "demo_core = \<lparr> Address = ''0x1'', Value = ''5'', Description = [], Owner = ''a'',
     ToCallFunc = ''invoke'', Args = [''a'', ''b'', ''10''], Creator = ''admin'' \<rparr>"

lemma commit_once_witness:
  "chaincode_Invoke (on_ledger demo_stub
     (apply_calls
       [PutState ''a'' (Raw (itoa 90)), PutState ''b'' (Raw (itoa 210)),
        SetEvent ''evtTransfer'' (Raw (''a transfer to b '' @ itoa 10)),
        PutState ''c'' (stored_contract Finished ''c'' ''r'' demo_core),
        SetEvent ''commit'' (commit_doc Finished ''c'')]
       (demo_ledger(''c'' \<mapsto> stored_contract Init ''c'' [] demo_core)))) ''commit'' [''c'', ''r2''] []
   = (Ok (Success (Some (Raw ''replicate call commit''))), [])"
proof (rule commit_once)
  show "chaincode_Invoke (on_ledger demo_stub
      (demo_ledger(''c'' \<mapsto> stored_contract Init ''c'' [] demo_core))) ''commit'' [''c'', ''r''] [] =
    (Ok (Success None),
       [PutState ''a'' (Raw (itoa 90)), PutState ''b'' (Raw (itoa 210)),
        SetEvent ''evtTransfer'' (Raw (''a transfer to b '' @ itoa 10)),
        PutState ''c'' (stored_contract Finished ''c'' ''r'' demo_core),
        SetEvent ''commit'' (commit_doc Finished ''c'')])"
    using regularCommit_stored [of "demo_ledger(''c'' \<mapsto> stored_contract Init ''c'' [] demo_core)"
        "''c''" Init "[]" demo_core "''a''" "''b''" "''10''" "Raw ''100''" "Raw ''200''" 10
        demo_stub "''r''"]
    by (simp add: chaincode_Invoke_def commit_regular demo_ledger_simps demo_core_def)
qed simp

text \<open>C1: the two-step protocol end to end. A precommit that names the call
  \<open>invoke\<close> and the arguments \<open>A B x\<close> stores the contract as Init and moves nothing; the commit
  that answers it moves the amount and stores the contract as Finished with the receipt.\<close>

theorem precommit_commit_transfers:
  assumes "creator s = Ok who" "args = [adr, val, desc, ''invoke'', join_with (CHR '' '') [A, B, x]]"
    and "\<forall>w \<in> {A, B, x}. CHR '' '' \<notin> set w"
    and "L A = Some a" "L B = Some b" "atoi x = (X, None)"
    and "i = contract_id s args who" "i \<notin> {A, B, ''outchain''}"
  shows "transaction s ''precommit'' args L = L(i \<mapsto> stored_contract Init i [] (precommit_core args who))
    \<and> transaction s' ''commit'' [i, r] (transaction s ''precommit'' args L) =
        L(A \<mapsto> Raw (itoa (balance L A - X)), B \<mapsto> Raw (itoa (balance L B + X)),
          i \<mapsto> stored_contract Finished i r (precommit_core args who))"
proof
  let ?L1 = "L(i \<mapsto> stored_contract Init i [] (precommit_core args who))"
  show L1: "transaction s ''precommit'' args L = ?L1"
    using assms by (simp add: transaction_precommit)
  have "split_on (CHR '' '') (join_with (CHR '' '') [A, B, x]) = [A, B, x]"
    using assms(3) by (intro split_join) auto
  then have core: "ToCallFunc (precommit_core args who) = ''invoke''"
      "Args (precommit_core args who) = [A, B, x]"
    by (simp_all add: precommit_core_def assms(2) del: join_with.simps)
  have "?L1 A = Some a" "?L1 B = Some b" "balance ?L1 A = balance L A" "balance ?L1 B = balance L B"
    using assms(4,5,8) by auto
  then have "transaction s' ''commit'' [i, r] ?L1 =
        ?L1(A \<mapsto> Raw (itoa (balance L A - X)), B \<mapsto> Raw (itoa (balance L B + X)),
           i \<mapsto> stored_contract Finished i r (precommit_core args who))"
    using transaction_commit [where L = ?L1 and st = Init, OF _ _ _ core] assms(6,8) by simp
  then show "transaction s' ''commit'' [i, r] (transaction s ''precommit'' args L) =
        L(A \<mapsto> Raw (itoa (balance L A - X)), B \<mapsto> Raw (itoa (balance L B + X)),
          i \<mapsto> stored_contract Finished i r (precommit_core args who))"
    unfolding L1 by (simp add: fun_eq_iff)
qed

lemma precommit_commit_transfers_witness:
  "transaction demo_stub ''commit'' [''{}tx1'', ''r'']
     (transaction demo_stub ''precommit'' [''0x1'', ''5'', ''d'', ''invoke'', ''a b 10''] demo_ledger) ''b''
   = Some (Raw (itoa 210))"
proof -
  have "creator demo_stub = Ok ''admin''"
    by (simp add: creator_def demo_stub_def)
  moreover have "join_with (CHR '' '') [''a'', ''b'', ''10''] = ''a b 10''" by simp
  moreover have "contract_id demo_stub [''0x1'', ''5'', ''d'', ''invoke'', ''a b 10''] ''admin'' = ''{}tx1''"
    by (simp add: contract_id_def genContractID_def demo_stub_def)
  ultimately show ?thesis
    using precommit_commit_transfers [of demo_stub "''admin''" "[''0x1'', ''5'', ''d'', ''invoke'', ''a b 10'']"
      "''0x1''" "''5''" "''d''" "''a''" "''b''" "''10''" demo_ledger "Raw ''100''"
      "Raw ''200''" 10 "''{}tx1''" demo_stub "''r''"]
    by (auto simp: demo_ledger_simps)
qed

lemma transaction_outchain:
  assumes "L A = Some a" "L B = Some b" "atoi x = (X, None)"
  shows "transaction s ''commit'' [''outchain'', i, ''invoke'', A, B, x] L =
    L(A \<mapsto> Raw (itoa (balance L A - X)), B \<mapsto> Raw (itoa (balance L B + X)))"
  using assms
  by (simp add: transaction_def chaincode_Invoke_def commit_def outchainCommit_def
      doInvoke_on_ledger balance_Some)

text \<open>Nothing records that a request of another chain has been served: committing the same
  cross-chain identifier twice moves the amount twice.\<close>

theorem outchain_commit_replays:
  fixes s :: stub and i :: string
  assumes "L A = Some a" "L B = Some b" "A \<noteq> B" "atoi x = (X, None)"
  defines "step \<equiv> transaction s ''commit'' [''outchain'', i, ''invoke'', A, B, x]"
  shows "balance (step (step L)) A = balance L A - 2 * X
    \<and> balance (step (step L)) B = balance L B + 2 * X"
proof -
  have 1: "step L = L(A \<mapsto> Raw (itoa (balance L A - X)), B \<mapsto> Raw (itoa (balance L B + X)))"
    using assms by (simp add: transaction_outchain)
  have "step L A = Some (Raw (itoa (balance L A - X)))" "step L B = Some (Raw (itoa (balance L B + X)))"
    using assms(3) by (simp_all add: 1)
  from transaction_outchain [OF this assms(4), of s i]
  have "step (step L) = (step L)(A \<mapsto> Raw (itoa (balance (step L) A - X)),
      B \<mapsto> Raw (itoa (balance (step L) B + X)))"
    by (simp only: step_def)
  moreover have "balance (step L) A = balance L A - X" "balance (step L) B = balance L B + X"
    using assms(3) by (simp_all add: 1)
  ultimately show ?thesis
    using assms(3) by (simp add: algebra_simps)
qed

lemma outchain_commit_replays_witness:
  "balance (transaction demo_stub ''commit'' [''outchain'', ''x1'', ''invoke'', ''a'', ''b'', ''10'']
     (transaction demo_stub ''commit'' [''outchain'', ''x1'', ''invoke'', ''a'', ''b'', ''10'']
        demo_ledger)) ''b'' = 220"
  using outchain_commit_replays [of demo_ledger "''a''" "Raw ''100''" "''b''" "Raw ''200''" "''10''" 10
      demo_stub "''x1''"]
  by (simp add: demo_ledger_def balance_def)

text \<open>The balances given to \<open>Init\<close> are what \<open>query\<close> reads back, in their canonical
  decimal form.\<close>

theorem init_query:
  assumes "atoi x = (X, None)" "atoi y = (Y, None)" "A \<noteq> B"
    and "chaincode_Init (on_ledger s L) [A, x, B, y] [] = (Ok v, tr)"
  shows "v = Success None
    \<and> chaincode_query (on_ledger s (apply_calls tr L)) [A] [] = (Ok (Success (Some (Raw (itoa X)))), [])
    \<and> chaincode_query (on_ledger s (apply_calls tr L)) [B] [] = (Ok (Success (Some (Raw (itoa Y)))), [])"
  using assms by (auto simp: chaincode_Init_def chaincode_query_def Let_def)

lemma init_query_witness:
  "chaincode_query (on_ledger demo_stub
     (apply_calls [PutState ''a'' (Raw (itoa 100)), PutState ''b'' (Raw (itoa 200))] demo_ledger))
     [''a''] [] = (Ok (Success (Some (Raw (itoa 100)))), [])"
  using init_query [of "''100''" 100 "''200''" 200 "''a''" "''b''" demo_stub demo_ledger "Success None"
      "[PutState ''a'' (Raw (itoa 100)), PutState ''b'' (Raw (itoa 200))]"]
  by (simp add: chaincode_Init_def Let_def)

end
