(* ===== verification/Repo.thy ===== *)
theory Repo
  imports Certs "HOL-Library.Multiset"
begin

text \<open>
  The network file of a hub's repository (repo/network.go): reading the nodes, sorting them by peer id, numbering
  them, finding this hub among them and the addresses of the others. Multiaddresses, peer ids and
  the TOML reader are parameters; files are those of Certs.thy. The rest of the repository is in KeyStore.thy.
\<close>

section \<open>The network file\<close>

text \<open>\<open>np_SplitAddr\<close> gives the peer id behind an address, empty if there is none; \<open>np_id_String\<close> is its
  text; \<open>np_pid\<close> is \<open>KeyPairFromStdKey\<close> with \<open>IDFromPublicKey\<close>.\<close>

record ('a, 'i, 'k) net_lib =
  np_NewMultiaddr :: "string \<Rightarrow> goerr + 'a"
  np_SplitAddr :: "'a \<Rightarrow> string"
  np_AddrInfos :: "'a list \<Rightarrow> goerr + 'i list"
  np_id_String :: "string \<Rightarrow> string"
  np_pid :: "'k \<Rightarrow> goerr + string"

record network_node =
  nn_ID :: u64
  nn_Addr :: string
  nn_Addrs :: "string list"

record 'i network_config =
  nc_ID :: u64
  nc_N :: u64
  nc_PeerId :: string
  nc_LocalAddr :: string
  nc_Nodes :: "network_node list"
  nc_OtherNodes :: "u64 \<rightharpoonup> 'i"

fun of_sum :: "goerr + 'b \<Rightarrow> 'b outcome" where
  "of_sum (Inl e) = Err e"
| "of_sum (Inr x) = Ok x"

definition AddrsToPeerInfo :: "('a, 'i, 'k) net_lib \<Rightarrow> string list \<Rightarrow> 'i list outcome" where
  "AddrsToPeerInfo lib multiAddrs =
     bind_outcome (traverse (\<lambda>m. of_sum (np_NewMultiaddr lib m)) multiAddrs) (\<lambda>maddrs.
     of_sum (np_AddrInfos lib maddrs))"

definition MultiaddrToPeerID :: "('a, 'i, 'k) net_lib \<Rightarrow> string \<Rightarrow> string outcome" where
  "MultiaddrToPeerID lib multiAddr =
     (case np_NewMultiaddr lib multiAddr of
        Inl e \<Rightarrow> Err e
      | Inr maddri \<Rightarrow>
          let PeerID = np_SplitAddr lib maddri in
          if PeerID = [] then Ok [] else Ok (np_id_String lib PeerID))"

text \<open>\<open>Less\<close>: an address that does not parse or has no peer id is a panic. Strings compare by bytes.\<close>

fun go_less :: "string \<Rightarrow> string \<Rightarrow> bool" where
  "go_less a [] = False"
| "go_less [] (c # b) = True"
| "go_less (c # a) (d # b) =
     (of_char c < (of_char d :: nat) \<or> c = d \<and> go_less a b)"

definition node_Less :: "('a, 'i, 'k) net_lib \<Rightarrow> network_node \<Rightarrow> network_node \<Rightarrow> bool outcome" where
  "node_Less lib ni nj =
     bind_outcome (index_or_panic (nn_Addrs ni) 0) (\<lambda>multiAddri.
     bind_outcome (index_or_panic (nn_Addrs nj) 0) (\<lambda>multiAddrj.
     case np_NewMultiaddr lib multiAddri of
       Inl e \<Rightarrow> Panic (err_text e)
     | Inr maddri \<Rightarrow>
         (case np_NewMultiaddr lib multiAddrj of
            Inl e \<Rightarrow> Panic (err_text e)
          | Inr maddrj \<Rightarrow>
              if np_SplitAddr lib maddri = [] then Panic ''nil''
              else if np_SplitAddr lib maddrj = [] then Panic ''nil''
              else Ok (go_less (np_SplitAddr lib maddri) (np_SplitAddr lib maddrj)))))"

text \<open>\<open>sort.Sort\<close> as the insertion sort it is on short slices: each node is swapped down past the ones it is
  less than. The sorted part is kept reversed. For different peer ids any correct sort gives the same.\<close>

fun swap_down :: "('a, 'i, 'k) net_lib \<Rightarrow> network_node \<Rightarrow> network_node list \<Rightarrow> network_node list outcome" where
  "swap_down lib n [] = Ok [n]"
| "swap_down lib n (p # ps) =
     bind_outcome (node_Less lib n p) (\<lambda>b.
     if b then bind_outcome (swap_down lib n ps) (\<lambda>r. Ok (p # r)) else Ok (n # p # ps))"

fun sort_loop :: "('a, 'i, 'k) net_lib \<Rightarrow> network_node list \<Rightarrow> network_node list \<Rightarrow> network_node list outcome" where
  "sort_loop lib [] done = Ok (rev done)"
| "sort_loop lib (n # ns) done = bind_outcome (swap_down lib n done) (sort_loop lib ns)"

definition sort_nodes :: "('a, 'i, 'k) net_lib \<Rightarrow> network_node list \<Rightarrow> network_node list outcome" where
  "sort_nodes lib ns = sort_loop lib ns []"

definition GetPidFromPrivFile ::
    "('a, 'i, 'k) net_lib \<Rightarrow> ('k, 'p, 'r) cert_lib \<Rightarrow> string \<Rightarrow> 'r tool_world \<Rightarrow> string outcome" where
  "GetPidFromPrivFile lib cl privPath w =
     bind_outcome (of_result (ErrWrap ''read private key'') (read_file privPath w)) (\<lambda>data.
     bind_outcome (of_sum (ParsePrivateKey cl (Some data))) (\<lambda>stdPriv.
     of_sum (np_pid lib stdPriv)))"

text \<open>The default address of each node; its id, numbered from 1, and whether it is this hub.\<close>

definition default_addr :: "network_node \<Rightarrow> network_node outcome" where
  "default_addr n =
     (if nn_Addr n = [] then bind_outcome (index_or_panic (nn_Addrs n) 0) (\<lambda>a. Ok (n\<lparr>nn_Addr := a\<rparr>)) else Ok n)"

fun number_nodes ::
    "('a, 'i, 'k) net_lib \<Rightarrow> string \<Rightarrow> u64 \<Rightarrow> network_node list \<Rightarrow> u64 option \<Rightarrow>
     (network_node list \<times> u64 option) outcome" where
  "number_nodes lib PeerID i [] self = Ok ([], self)"
| "number_nodes lib PeerID i (n # ns) self =
     bind_outcome (index_or_panic (nn_Addrs n) 0) (\<lambda>a.
     bind_outcome (MultiaddrToPeerID lib a) (\<lambda>pid.
     bind_outcome (number_nodes lib PeerID (i + 1) ns (if pid = PeerID then Some (i + 1) else self)) (\<lambda>(ms, self).
     Ok (n\<lparr>nn_ID := i + 1\<rparr> # ms, self))))"

fun other_nodes ::
    "('a, 'i, 'k) net_lib \<Rightarrow> u64 \<Rightarrow> network_node list \<Rightarrow> (u64 \<rightharpoonup> 'i) \<Rightarrow> (u64 \<rightharpoonup> 'i) outcome" where
  "other_nodes lib self [] m = Ok m"
| "other_nodes lib self (n # ns) m =
     (if nn_ID n \<noteq> self then
        bind_outcome (wrap_err ''wrong network addr'' (AddrsToPeerInfo lib (nn_Addrs n))) (\<lambda>addrs.
        if length addrs \<noteq> 1 then Err (ErrNew ''different PeerIDs in the same node'')
        else other_nodes lib self ns (m(nn_ID n \<mapsto> addrs ! 0)))
      else other_nodes lib self ns m)"

definition local_addr :: "u64 \<Rightarrow> network_node list \<Rightarrow> string" where
  "local_addr self ns = fold (\<lambda>n a. if nn_ID n = self then nn_Addr n else a) ns []"

text \<open>The rest of \<open>loadNetworkConfig\<close> once the nodes are numbered and this hub was found.\<close>

definition finish_network ::
    "('a, 'i, 'k) net_lib \<Rightarrow> string \<Rightarrow> u64 \<Rightarrow> network_node list \<Rightarrow> u64 option \<Rightarrow> 'i network_config outcome" where
  "finish_network lib PeerID N nodes self =
     (case self of
        None \<Rightarrow> Err (ErrNew ''PeerID of this node was not matched to any of these nodes'')
      | Some i \<Rightarrow>
          let localAddr = local_addr i nodes in
          if localAddr = [] then Err (ErrNew ''lack of local address'')
          else
            (case last_index_of localAddr ''/p2p/'' of
               None \<Rightarrow> Err (ErrNew ''pid is not existed in bootstrap'')
             | Some idx \<Rightarrow>
                 bind_outcome (other_nodes lib i nodes Map.empty) (\<lambda>m.
                 Ok \<lparr> nc_ID = i, nc_N = N, nc_PeerId = PeerID, nc_LocalAddr = take idx localAddr,
                      nc_Nodes = nodes, nc_OtherNodes = m \<rparr>)))"

text \<open>\<open>loadNetworkConfig\<close> on the lists of addresses of the file. The field \<open>N\<close> is always 0 when it is tested,
  so the error ``wrong nodes number'' cannot occur.\<close>

definition loadNetworkConfig ::
    "('a, 'i, 'k) net_lib \<Rightarrow> ('k, 'p, 'r) cert_lib \<Rightarrow> (bytes \<Rightarrow> goerr + string list list) \<Rightarrow> string \<Rightarrow>
     'r tool_world \<Rightarrow> 'i network_config outcome" where
  "loadNetworkConfig lib cl toml repoRoot w =
     bind_outcome (of_result id (read_file (path_join repoRoot ''network.toml'') w)) (\<lambda>data.
     bind_outcome (of_sum (toml data)) (\<lambda>addrs.
     bind_outcome (traverse default_addr (map (\<lambda>as. \<lparr> nn_ID = 0, nn_Addr = [], nn_Addrs = as \<rparr>) addrs)) (\<lambda>nodes.
     bind_outcome (GetPidFromPrivFile lib cl (path_join repoRoot ''certs/node.priv'') w) (\<lambda>PeerID.
     bind_outcome (sort_nodes lib nodes) (\<lambda>nodes.
     bind_outcome (number_nodes lib PeerID 0 nodes None) (\<lambda>(nodes, self).
     finish_network lib PeerID (word_of_nat (length addrs)) nodes self))))))"

section \<open>Sorting by peer id\<close>

text \<open>The peer id a node is sorted by, if its first address has one.\<close>

definition node_key :: "('a, 'i, 'k) net_lib \<Rightarrow> network_node \<Rightarrow> string option" where
  "node_key lib n =
     (case nn_Addrs n of
        [] \<Rightarrow> None
      | a # _ \<Rightarrow>
          (case np_NewMultiaddr lib a of
             Inl e \<Rightarrow> None
           | Inr m \<Rightarrow> if np_SplitAddr lib m = [] then None else Some (np_SplitAddr lib m)))"

lemma node_Less_keys:
  "node_key lib x = Some a \<Longrightarrow> node_key lib y = Some b \<Longrightarrow> node_Less lib x y = Ok (go_less a b)"
  by (auto simp: node_key_def node_Less_def split: list.splits sum.splits if_splits)

lemma node_Less_no_key:
  "node_key lib x = None \<or> node_key lib y = None \<Longrightarrow> is_panic (node_Less lib x y)"
  by (cases "nn_Addrs x"; cases "nn_Addrs y")
    (auto simp: node_key_def node_Less_def split: sum.splits if_splits)

lemma go_less_irrefl: "\<not> go_less a a"
  by (induction a) auto

lemma go_less_total: "a = b \<or> go_less a b \<or> go_less b a"
proof (induction a b rule: go_less.induct)
  case (3 c a d b)
  have "of_char c = (of_char d :: nat) \<longleftrightarrow> c = d" by simp
  then show ?case using 3 by (auto simp: not_less_iff_gr_or_eq)
qed (simp_all, (metis go_less.simps(2) list.exhaust))

lemma go_less_trans: "go_less a b \<Longrightarrow> go_less b c \<Longrightarrow> go_less a c"
proof (induction a b arbitrary: c rule: go_less.induct)
  case (2 x b)
  then show ?case by (cases c) auto
next
  case (3 x a y b)
  then show ?case by (cases c) auto
qed simp

lemma go_less_asym: "go_less a b \<Longrightarrow> \<not> go_less b a"
  using go_less_irrefl go_less_trans by blast

lemma not_less_trans: "\<not> go_less a b \<Longrightarrow> \<not> go_less b c \<Longrightarrow> \<not> go_less a c"
  using go_less_total go_less_trans by metis

definition keyed :: "('a, 'i, 'k) net_lib \<Rightarrow> network_node list \<Rightarrow> bool" where
  "keyed lib ns \<longleftrightarrow> (\<forall>n \<in> set ns. node_key lib n \<noteq> None)"

definition node_ge :: "('a, 'i, 'k) net_lib \<Rightarrow> network_node \<Rightarrow> network_node \<Rightarrow> bool" where
  "node_ge lib x y \<longleftrightarrow> \<not> go_less (the (node_key lib x)) (the (node_key lib y))"

lemma swap_down_sorted:
  assumes "keyed lib (n # ps)" "sorted_wrt (node_ge lib) ps"
  shows "\<exists>r. swap_down lib n ps = Ok r \<and> mset r = mset (n # ps) \<and> sorted_wrt (node_ge lib) r"
  using assms
proof (induction ps)
  case (Cons p ps)
  obtain a b where k: "node_key lib n = Some a" "node_key lib p = Some b"
    using Cons.prems(1) by (auto simp: keyed_def)
  show ?case
  proof (cases "go_less a b")
    case True
    obtain r where r: "swap_down lib n ps = Ok r" "mset r = mset (n # ps)" "sorted_wrt (node_ge lib) r"
      using Cons by (auto simp: keyed_def)
    have "set r = insert n (set ps)" using mset_eq_setD [OF r(2)] by simp
    then have "\<forall>x \<in> set r. node_ge lib p x"
      using Cons.prems(2) True k go_less_asym by (auto simp: node_ge_def)
    then show ?thesis using True k r by (simp add: node_Less_keys)
  next
    case False
    then have np: "node_ge lib n p" using k by (simp add: node_ge_def)
    moreover have "\<forall>x \<in> set ps. node_ge lib n x"
      using np Cons.prems(2) not_less_trans unfolding node_ge_def by (metis list.set_intros(1) sorted_wrt.simps(2))
    ultimately show ?thesis using False k Cons.prems(2) by (simp add: node_Less_keys)
  qed
qed simp

lemma keyed_mset: "mset xs = mset ys \<Longrightarrow> keyed lib xs \<longleftrightarrow> keyed lib ys"
  unfolding keyed_def by (metis mset_eq_setD)

lemma sort_loop_sorted:
  assumes "keyed lib (ns @ ps)" "sorted_wrt (node_ge lib) ps"
  shows "\<exists>r. sort_loop lib ns ps = Ok r \<and> mset r = mset (ns @ ps) \<and> sorted_wrt (node_ge lib) (rev r)"
  using assms
proof (induction ns arbitrary: ps)
  case (Cons n ns)
  obtain r where r: "swap_down lib n ps = Ok r" "mset r = mset (n # ps)" "sorted_wrt (node_ge lib) r"
    using swap_down_sorted [of lib n ps] Cons.prems by (auto simp: keyed_def)
  have "keyed lib (ns @ r)"
    using Cons.prems(1) keyed_mset [OF r(2), of lib] by (auto simp: keyed_def)
  then show ?case using Cons.IH [OF _ r(3)] r(1,2) by auto
qed simp

lemma sort_nodes_sorted:
  "keyed lib ns \<Longrightarrow> \<exists>r. sort_nodes lib ns = Ok r \<and> mset r = mset ns \<and> sorted_wrt (node_ge lib) (rev r)"
  using sort_loop_sorted [of lib ns "[]"] by (simp add: sort_nodes_def)

text \<open>A strict order has one way to sort a set.\<close>

lemma strictly_sorted_unique:
  assumes "sorted_wrt P xs" "sorted_wrt P ys" "set xs = set ys" "\<And>x. \<not> P x x"
    and "\<And>x y z. P x y \<Longrightarrow> P y z \<Longrightarrow> P x z"
  shows "xs = ys"
  using assms(1-3)
proof (induction xs arbitrary: ys)
  case (Cons x xs)
  obtain y ys' where ys: "ys = y # ys'" using Cons.prems(3) by (cases ys) auto
  have xy: "x = y"
  proof (rule ccontr)
    assume "x \<noteq> y"
    then have "P x y" "P y x" using Cons.prems ys by auto
    then show False using assms(4,5) by blast
  qed
  have "x \<notin> set xs" "x \<notin> set ys'" using Cons.prems ys xy assms(4) by auto
  then have "set xs = set ys'" using Cons.prems(3) ys xy by auto
  then show ?case using Cons ys xy by simp
qed simp

lemma sorted_distinct_strict:
  assumes "sorted_wrt (node_ge lib) (rev r)" "distinct (map (node_key lib) r)" "keyed lib r"
  shows "sorted_wrt (\<lambda>x y. go_less (the (node_key lib x)) (the (node_key lib y))) r"
  using assms
proof (induction r)
  case (Cons n r)
  have "go_less (the (node_key lib n)) (the (node_key lib x))" if "x \<in> set r" for x
  proof -
    have "node_key lib x \<in> node_key lib ` set r" using that by (rule imageI)
    then have "node_key lib x \<noteq> node_key lib n" using Cons.prems(2) by auto
    moreover have "node_key lib x \<noteq> None" "node_key lib n \<noteq> None"
      using that Cons.prems(3) by (simp_all add: keyed_def)
    ultimately have "the (node_key lib x) \<noteq> the (node_key lib n)" by (metis option.expand)
    moreover have "node_ge lib x n" using Cons.prems(1) that by (simp add: sorted_wrt_append)
    ultimately show ?thesis using go_less_total unfolding node_ge_def by blast
  qed
  then show ?case using Cons by (simp add: sorted_wrt_append keyed_def)
qed simp

lemma sort_nodes_permuted:
  assumes "keyed lib ns" "distinct (map (node_key lib) ns)" "mset ns = mset ns'"
  shows "sort_nodes lib ns = sort_nodes lib ns'"
proof -
  have k': "keyed lib ns'" using keyed_mset [OF assms(3), of lib] assms(1) by simp
  obtain r r' where r: "sort_nodes lib ns = Ok r" "mset r = mset ns" "sorted_wrt (node_ge lib) (rev r)"
      and r': "sort_nodes lib ns' = Ok r'" "mset r' = mset ns'" "sorted_wrt (node_ge lib) (rev r')"
    using sort_nodes_sorted [OF assms(1)] sort_nodes_sorted [OF k'] by blast
  have m: "mset (map (node_key lib) r) = mset (map (node_key lib) ns)"
      "mset (map (node_key lib) r') = mset (map (node_key lib) ns)"
    using r(2) r'(2) assms(3) by simp_all
  then have d: "distinct (map (node_key lib) r)" "distinct (map (node_key lib) r')"
    using assms(2) mset_eq_imp_distinct_iff by blast+
  have k: "keyed lib r" "keyed lib r'"
    using keyed_mset [OF r(2), of lib] keyed_mset [OF r'(2), of lib] assms(1) k' by simp_all
  have "set r = set r'" using r(2) r'(2) assms(3) by (metis mset_eq_setD)
  then have "r = r'"
    by (rule strictly_sorted_unique [OF sorted_distinct_strict [OF r(3) d(1) k(1)]
          sorted_distinct_strict [OF r'(3) d(2) k(2)]])
      (use go_less_irrefl go_less_trans in blast)+
  then show ?thesis using r(1) r'(1) by simp
qed

section \<open>Numbering\<close>

fun numbered_from :: "u64 \<Rightarrow> network_node list \<Rightarrow> network_node list" where
  "numbered_from i [] = []"
| "numbered_from i (n # ns) = n\<lparr>nn_ID := i + 1\<rparr> # numbered_from (i + 1) ns"

lemma numbered_ids: "map nn_ID (numbered_from i ns) = map (\<lambda>k. i + word_of_nat k) [1..<Suc (length ns)]"
proof (induction ns arbitrary: i)
  case (Cons n ns)
  have "[1..<Suc (length (n # ns))] = 1 # map Suc [1..<Suc (length ns)]"
    by (simp add: map_Suc_upt upt_conv_Cons del: upt_Suc)
  then show ?case using Cons by (simp add: comp_def add.assoc)
qed simp

lemma length_numbered [simp]: "length (numbered_from i ns) = length ns"
  by (induction ns arbitrary: i) auto

lemma numbered_distinct:
  assumes "length ns < 2 ^ 64"
  shows "distinct (map nn_ID (numbered_from 0 ns))"
proof -
  have "inj_on (word_of_nat :: nat \<Rightarrow> u64) (set [1..<Suc (length ns)])"
    using assms by (auto intro!: inj_onI simp: word_of_nat_eq_iff take_bit_nat_eq_self)
  then show ?thesis by (simp add: numbered_ids distinct_map del: upt_Suc)
qed

lemma number_nodes_Ok:
  assumes "number_nodes lib PeerID i ns self = Ok (ms, self')"
  shows "ms = numbered_from i ns \<and>
    (self' = self \<or> (\<exists>j \<in> set (map nn_ID ms). self' = Some j))"
  using assms
proof (induction ns arbitrary: i self ms)
  case (Cons n ns)
  obtain s ms' where r: "number_nodes lib PeerID (i + 1) ns s = Ok (ms', self')"
      "ms = n\<lparr>nn_ID := i + 1\<rparr> # ms'" "s = self \<or> s = Some (i + 1)"
  proof -
    obtain pid r where "number_nodes lib PeerID (i + 1) ns (if pid = PeerID then Some (i + 1) else self) = Ok r"
        "(case r of (ms', self) \<Rightarrow> Ok (n\<lparr>nn_ID := i + 1\<rparr> # ms', self)) = Ok (ms, self')"
      using Cons.prems by (simp only: number_nodes.simps bind_outcome_Ok_iff) blast
    moreover obtain ms' s' where "r = (ms', s')" by fastforce
    ultimately show thesis
      using that [of "if pid = PeerID then Some (i + 1) else self" ms'] by simp
  qed
  from Cons.IH [OF r(1)] r(2,3) show ?case by auto
qed simp

lemma other_nodes_Ok:
  assumes "other_nodes lib self ns m = Ok m'" "distinct (map nn_ID ns)"
  shows "(\<forall>n \<in> set ns. nn_ID n \<noteq> self \<longrightarrow>
      (\<exists>a. AddrsToPeerInfo lib (nn_Addrs n) = Ok [a] \<and> m' (nn_ID n) = Some a))
    \<and> (\<forall>i. i \<notin> nn_ID ` set ns \<or> i = self \<longrightarrow> m' i = m i)"
  using assms
proof (induction ns arbitrary: m)
  case (Cons n ns)
  show ?case
  proof (cases "nn_ID n = self")
    case True
    then show ?thesis using Cons by auto
  next
    case False
    obtain a where a: "AddrsToPeerInfo lib (nn_Addrs n) = Ok [a]"
        "other_nodes lib self ns (m(nn_ID n \<mapsto> a)) = Ok m'"
      using Cons.prems(1) False by (auto simp: bind_outcome_Ok_iff length_Suc_conv split: if_splits)
    note ih = Cons.IH [OF a(2)]
    have n: "nn_ID n \<notin> nn_ID ` set ns" using Cons.prems(2) by simp
    with ih Cons.prems(2) have "m' (nn_ID n) = Some a" by simp
    then show ?thesis using ih Cons.prems(2) a(1) False by auto
  qed
qed simp

lemma other_nodes_known:
  assumes "other_nodes lib self ns Map.empty = Ok m'" "distinct (map nn_ID ns)" "i \<in> nn_ID ` set ns" "i \<noteq> self"
  shows "m' i \<noteq> None"
proof -
  obtain n where "n \<in> set ns" "i = nn_ID n" using assms(3) by auto
  then show ?thesis using other_nodes_Ok [OF assms(1,2)] assms(4) by auto
qed

lemma local_addr_found:
  assumes "distinct (map nn_ID ns)" "n \<in> set ns"
  shows "local_addr (nn_ID n) ns = nn_Addr n"
proof -
  have none: "fold (\<lambda>x a. if nn_ID x = i then nn_Addr x else a) xs b = b" if "i \<notin> nn_ID ` set xs" for i xs b
    using that by (induction xs arbitrary: b) auto
  have "fold (\<lambda>x a. if nn_ID x = nn_ID n then nn_Addr x else a) ns b = nn_Addr n" for b
    using assms
  proof (induction ns arbitrary: b)
    case (Cons x ns)
    then show ?case using none by auto
  qed simp
  then show ?thesis by (simp add: local_addr_def)
qed

text \<open>What a successful load went through.\<close>

definition file_nodes :: "string list list \<Rightarrow> network_node list" where
  "file_nodes addrs = map (\<lambda>as. \<lparr> nn_ID = 0, nn_Addr = hd as, nn_Addrs = as \<rparr>) addrs"

lemma default_addrs:
  assumes "traverse default_addr (map (\<lambda>as. \<lparr> nn_ID = 0, nn_Addr = [], nn_Addrs = as \<rparr>) addrs) = Ok ns"
  shows "ns = file_nodes addrs"
  using assms
  by (induction addrs arbitrary: ns)
    (auto simp: bind_outcome_Ok_iff default_addr_def index_or_panic_def file_nodes_def hd_conv_nth split: if_splits)

lemma load_network_Ok:
  assumes "loadNetworkConfig lib cl toml repoRoot w = Ok c"
  obtains data addrs ns where
    "read_file (path_join repoRoot ''network.toml'') w = Inr data" "toml data = Inr addrs"
    "sort_nodes lib (file_nodes addrs) = Ok ns" "nc_Nodes c = numbered_from 0 ns"
    "nc_N c = word_of_nat (length addrs)" "nc_ID c \<in> set (map nn_ID (nc_Nodes c))"
    "other_nodes lib (nc_ID c) (nc_Nodes c) Map.empty = Ok (nc_OtherNodes c)"
    "last_index_of (local_addr (nc_ID c) (nc_Nodes c)) ''/p2p/'' = Some (length (nc_LocalAddr c))"
    "nc_LocalAddr c = take (length (nc_LocalAddr c)) (local_addr (nc_ID c) (nc_Nodes c))"
proof -
  obtain data addrs ns0 PeerID ns r where
      1: "of_result id (read_file (path_join repoRoot ''network.toml'') w) = Ok data" "of_sum (toml data) = Ok addrs"
      "traverse default_addr (map (\<lambda>as. \<lparr> nn_ID = 0, nn_Addr = [], nn_Addrs = as \<rparr>) addrs) = Ok ns0"
      "sort_nodes lib ns0 = Ok ns" "number_nodes lib PeerID 0 ns None = Ok r"
      "(case r of (nodes, self) \<Rightarrow> finish_network lib PeerID (word_of_nat (length addrs)) nodes self) = Ok c"
    using assms unfolding loadNetworkConfig_def bind_outcome_Ok_iff by blast
  obtain nodes self where r: "r = (nodes, self)" by fastforce
  obtain i idx m where s: "self = Some i" "last_index_of (local_addr i nodes) ''/p2p/'' = Some idx"
      "other_nodes lib i nodes Map.empty = Ok m"
      "c = \<lparr> nc_ID = i, nc_N = word_of_nat (length addrs), nc_PeerId = PeerID,
         nc_LocalAddr = take idx (local_addr i nodes), nc_Nodes = nodes, nc_OtherNodes = m \<rparr>"
    using 1(6) by (auto simp: r finish_network_def Let_def bind_outcome_Ok_iff split: option.splits if_splits)
  have bound: "i \<le> length s" if "last_index_of s t = Some i" for i s t
    using that by (induction s t arbitrary: i rule: last_index_of.induct) (auto split: if_splits option.splits)
  have "nodes = numbered_from 0 ns" "i \<in> set (map nn_ID nodes)"
    using number_nodes_Ok [OF 1(5) [unfolded r]] s(1) by auto
  moreover have "length (take idx (local_addr i nodes)) = idx" using bound [OF s(2)] by simp
  moreover have "read_file (path_join repoRoot ''network.toml'') w = Inr data" "toml data = Inr addrs"
    using 1(1,2) by (auto elim!: of_result.elims of_sum.elims)
  ultimately show thesis
    using that [of data addrs ns] 1(4) s default_addrs [OF 1(3)] by auto
qed

section \<open>What the hubs of a network agree on\<close>

lemma last_index_of_Some: "last_index_of s t = Some i \<Longrightarrow> \<exists>r. s = take i s @ t @ r"
proof (induction s t arbitrary: i rule: last_index_of.induct)
  case (2 c s t)
  show ?case
  proof (cases "last_index_of s t")
    case None
    then have "starts_with (c # s) t" "i = 0" using "2.prems" by (auto split: if_splits)
    then show ?thesis by (auto simp: starts_with_iff)
  next
    case (Some j)
    then show ?thesis using "2.IH" [OF Some] "2.prems" by auto
  qed
qed (auto split: if_splits)

lemma sort_nodes_length:
  assumes "sort_nodes lib ns = Ok r"
  shows "length r = length ns"
proof -
  have sw: "swap_down lib n ps = Ok q \<Longrightarrow> length q = Suc (length ps)" for n ps q
    by (induction ps arbitrary: q) (auto simp: bind_outcome_Ok_iff split: if_splits)
  have "sort_loop lib ns ps = Ok r \<Longrightarrow> length r = length ns + length ps" for ps
    using sw by (induction ns arbitrary: ps) (fastforce simp: bind_outcome_Ok_iff)+
  then show ?thesis using assms by (simp add: sort_nodes_def)
qed

lemma length_file_nodes [simp]: "length (file_nodes addrs) = length addrs"
  by (simp add: file_nodes_def)


text \<open>C15: hubs that list the same nodes, in whatever order, number them alike: they hold the same node list and
  the same peer under every number that is neither's own, and each has the other among its peers.\<close>

theorem hubs_agree:
  assumes "loadNetworkConfig lib cl toml dir w = Ok c" "loadNetworkConfig lib cl' toml dir' w' = Ok c'"
    and "read_file (path_join dir ''network.toml'') w = Inr d" "toml d = Inr addrs"
    and "read_file (path_join dir' ''network.toml'') w' = Inr d'" "toml d' = Inr addrs'"
    and "mset addrs = mset addrs'" "length addrs < 2 ^ 64"
    and "keyed lib (file_nodes addrs)" "distinct (map (node_key lib) (file_nodes addrs))"
  shows "nc_Nodes c = nc_Nodes c'
    \<and> (\<forall>i. i \<noteq> nc_ID c \<and> i \<noteq> nc_ID c' \<longrightarrow> nc_OtherNodes c i = nc_OtherNodes c' i)
    \<and> (nc_ID c \<noteq> nc_ID c' \<longrightarrow> nc_OtherNodes c (nc_ID c') \<noteq> None \<and> nc_OtherNodes c' (nc_ID c) \<noteq> None)"
proof -
  obtain data as ns where l: "read_file (path_join dir ''network.toml'') w = Inr data" "toml data = Inr as"
      "sort_nodes lib (file_nodes as) = Ok ns" "nc_Nodes c = numbered_from 0 ns"
      "nc_ID c \<in> set (map nn_ID (nc_Nodes c))"
      "other_nodes lib (nc_ID c) (nc_Nodes c) Map.empty = Ok (nc_OtherNodes c)"
    by (rule load_network_Ok [OF assms(1)])
  obtain data' as' ns' where l': "read_file (path_join dir' ''network.toml'') w' = Inr data'" "toml data' = Inr as'"
      "sort_nodes lib (file_nodes as') = Ok ns'" "nc_Nodes c' = numbered_from 0 ns'"
      "nc_ID c' \<in> set (map nn_ID (nc_Nodes c'))"
      "other_nodes lib (nc_ID c') (nc_Nodes c') Map.empty = Ok (nc_OtherNodes c')"
    by (rule load_network_Ok [OF assms(2)])
  have eq: "as = addrs" "as' = addrs'" using l(1,2) l'(1,2) assms(3-6) by simp_all
  have "mset (file_nodes addrs) = mset (file_nodes addrs')" using assms(7) by (simp add: file_nodes_def)
  from sort_nodes_permuted [OF assms(9,10) this] have "ns = ns'" using l(3) l'(3) eq by simp
  then have nodes: "nc_Nodes c = nc_Nodes c'" using l(4) l'(4) by simp
  have "length ns < 2 ^ 64" using sort_nodes_length [OF l(3)] eq(1) assms(8) by simp
  then have d: "distinct (map nn_ID (nc_Nodes c))" using numbered_distinct l(4) by simp
  note o = other_nodes_Ok [OF l(6) d] and o' = other_nodes_Ok [OF l'(6) d [unfolded nodes]]
  have "nc_OtherNodes c i = nc_OtherNodes c' i" if "i \<noteq> nc_ID c" "i \<noteq> nc_ID c'" for i
  proof (cases "i \<in> nn_ID ` set (nc_Nodes c)")
    case True
    then obtain n where n: "n \<in> set (nc_Nodes c)" "nn_ID n = i" by auto
    have "\<exists>a. AddrsToPeerInfo lib (nn_Addrs n) = Ok [a] \<and> nc_OtherNodes c i = Some a"
      using o n that(1) by auto
    moreover have "\<exists>a. AddrsToPeerInfo lib (nn_Addrs n) = Ok [a] \<and> nc_OtherNodes c' i = Some a"
      using o' n that(2) nodes by auto
    ultimately show ?thesis by auto
  next
    case False
    then show ?thesis using o o' nodes by simp
  qed
  moreover have "nc_OtherNodes c (nc_ID c') \<noteq> None \<and> nc_OtherNodes c' (nc_ID c) \<noteq> None" if "nc_ID c \<noteq> nc_ID c'"
    using other_nodes_known [OF l(6) d, of "nc_ID c'"] other_nodes_known [OF l'(6) d [unfolded nodes], of "nc_ID c"]
      l(5) l'(5) nodes that by auto
  ultimately show ?thesis using nodes by blast
qed

lemma no_key_panics:
  "ps \<noteq> [] \<Longrightarrow> keyed lib ps \<Longrightarrow> sorted_wrt (node_ge lib) ps \<Longrightarrow> \<exists>n \<in> set ns. node_key lib n = None \<Longrightarrow>
   is_panic (sort_loop lib ns ps)"
proof (induction ns arbitrary: ps)
  case (Cons n ns)
  obtain p ps' where ps: "ps = p # ps'" using Cons.prems(1) by (cases ps) auto
  show ?case
  proof (cases "node_key lib n")
    case None
    then have "is_panic (node_Less lib n p)" by (intro node_Less_no_key) simp
    then show ?thesis using ps by (cases "node_Less lib n p") auto
  next
    case (Some a)
    then have "keyed lib (n # ps)" using Cons.prems(2) by (simp add: keyed_def)
    then obtain r where r: "swap_down lib n ps = Ok r" "mset r = mset (n # ps)" "sorted_wrt (node_ge lib) r"
      using swap_down_sorted Cons.prems(3) by blast
    have "r \<noteq> []" "keyed lib r"
      using r(2) keyed_mset [OF r(2), of lib] \<open>keyed lib (n # ps)\<close> by auto
    then show ?thesis using Cons.IH [OF _ _ r(3)] Cons.prems(4) Some r(1) by auto
  qed
qed simp

text \<open>In a network file of two nodes or more, one first address without a peer id, or one that does not
  parse, ends the program in a panic, not in the error a caller could report.\<close>

theorem bad_address_panics:
  assumes "read_file (path_join repoRoot ''network.toml'') w = Inr d" "toml d = Inr addrs" "[] \<notin> set addrs"
    and "GetPidFromPrivFile lib cl (path_join repoRoot ''certs/node.priv'') w = Ok PeerID"
    and "2 \<le> length addrs" "\<not> keyed lib (file_nodes addrs)"
  shows "is_panic (loadNetworkConfig lib cl toml repoRoot w)"
proof -
  have "traverse default_addr (map (\<lambda>as. \<lparr> nn_ID = 0, nn_Addr = [], nn_Addrs = as \<rparr>) addrs) = Ok (file_nodes addrs)"
    using assms(3)
    by (induction addrs) (auto simp: default_addr_def file_nodes_def hd_conv_nth)
  moreover obtain x y ns where xs: "file_nodes addrs = x # y # ns"
    using assms(5) length_file_nodes [of addrs]
    by (cases "file_nodes addrs"; cases "tl (file_nodes addrs)") auto
  have "is_panic (sort_nodes lib (x # y # ns))"
  proof (cases "node_key lib x")
    case None
    then have "is_panic (node_Less lib y x)" by (intro node_Less_no_key) simp
    then show ?thesis by (cases "node_Less lib y x") (auto simp: sort_nodes_def)
  next
    case (Some a)
    have "is_panic (sort_loop lib (y # ns) [x])"
      by (rule no_key_panics) (use assms(6) xs Some in \<open>auto simp: keyed_def\<close>)
    then show ?thesis by (simp add: sort_nodes_def)
  qed
  then have "is_panic (sort_nodes lib (file_nodes addrs))" by (simp only: xs)
  ultimately show ?thesis
    using assms(1,2,4) by (cases "sort_nodes lib (file_nodes addrs)") (simp_all add: loadNetworkConfig_def)
qed

section \<open>Two concrete hubs\<close>

text \<open>Two hubs list the same two nodes in different orders.\<close>

definition demo_netlib :: "(string, string, byte) net_lib" where
  "demo_netlib =
     \<lparr> np_NewMultiaddr = Inr,
       np_SplitAddr = (\<lambda>m. case last_index_of m ''/p2p/'' of None \<Rightarrow> [] | Some i \<Rightarrow> drop (i + 5) m),
       np_AddrInfos = (\<lambda>ms. Inr ms), np_id_String = (\<lambda>i. i),
       np_pid = (\<lambda>k. Inr (if k = 40 then ''A'' else ''B'')) \<rparr>"

definition demo_toml :: "bytes \<Rightarrow> goerr + string list list" where
  "demo_toml d = Inr (if d = [1] then [[''/x/p2p/A''], [''/y/p2p/B'']]
     else if d = [2] then [[''/y/p2p/B''], [''/x/p2p/A'']] else [[''/x''], [''/y/p2p/B'']])"

definition demo_root :: "byte \<Rightarrow> byte \<Rightarrow> byte tool_world" where
  "demo_root t k = \<lparr> tw_files = [''network.toml'' \<mapsto> [t], ''certs/node.priv'' \<mapsto> [0, k]], tw_rand = 0, tw_now = 0 \<rparr>"

definition demo_nodes :: "network_node list" where
  "demo_nodes = [\<lparr> nn_ID = 1, nn_Addr = ''/x/p2p/A'', nn_Addrs = [''/x/p2p/A''] \<rparr>,
     \<lparr> nn_ID = 2, nn_Addr = ''/y/p2p/B'', nn_Addrs = [''/y/p2p/B''] \<rparr>]"

lemma demo_read:
  "read_file (path_join [] ''network.toml'') (demo_root t k) = Inr [t]"
  "GetPidFromPrivFile demo_netlib demo_cert_lib (path_join [] ''certs/node.priv'') (demo_root t k) =
     Ok (if k = 40 then ''A'' else ''B'')"
  by (simp_all add: read_file_def path_join_def path_clean_def demo_root_def GetPidFromPrivFile_def
      ParsePrivateKey_def demo_cert_lib_def demo_netlib_def)

lemma demo_netlib_simps:
  "np_NewMultiaddr demo_netlib m = Inr m" "np_AddrInfos demo_netlib ms = Inr ms" "np_id_String demo_netlib i = i"
  "np_SplitAddr demo_netlib ''/x/p2p/A'' = ''A''" "np_SplitAddr demo_netlib ''/y/p2p/B'' = ''B''"
  "np_SplitAddr demo_netlib ''/x'' = []"
  by (simp_all add: demo_netlib_def)

lemmas demo_load_simps = demo_netlib_simps loadNetworkConfig_def demo_read demo_toml_def default_addr_def sort_nodes_def node_Less_def
  finish_network_def local_addr_def MultiaddrToPeerID_def AddrsToPeerInfo_def

lemma demo_load_1:
  "loadNetworkConfig demo_netlib demo_cert_lib demo_toml [] (demo_root 1 40) =
     Ok \<lparr> nc_ID = 1, nc_N = 2, nc_PeerId = ''A'', nc_LocalAddr = ''/x'', nc_Nodes = demo_nodes,
          nc_OtherNodes = [2 \<mapsto> ''/y/p2p/B''] \<rparr>"
  by (simp add: demo_load_simps demo_nodes_def Let_def)

lemma demo_load_2:
  "loadNetworkConfig demo_netlib demo_cert_lib demo_toml [] (demo_root 2 41) =
     Ok \<lparr> nc_ID = 2, nc_N = 2, nc_PeerId = ''B'', nc_LocalAddr = ''/y'', nc_Nodes = demo_nodes,
          nc_OtherNodes = [1 \<mapsto> ''/x/p2p/A''] \<rparr>"
  by (simp add: demo_load_simps demo_nodes_def Let_def)


lemma hubs_agree_witness:
  "\<exists>c c'. loadNetworkConfig demo_netlib demo_cert_lib demo_toml [] (demo_root 1 40) = Ok c
    \<and> loadNetworkConfig demo_netlib demo_cert_lib demo_toml [] (demo_root 2 41) = Ok c' \<and> nc_Nodes c = nc_Nodes c'"
proof -
  let ?a = "[[''/x/p2p/A''], [''/y/p2p/B'']]" and ?b = "[[''/y/p2p/B''], [''/x/p2p/A'']]"
  have t: "demo_toml [1] = Inr ?a" "demo_toml [2] = Inr ?b" by (simp_all add: demo_toml_def)
  have m: "mset ?a = mset ?b" "length ?a < 2 ^ 64" by simp_all
  have k: "keyed demo_netlib (file_nodes ?a)" "distinct (map (node_key demo_netlib) (file_nodes ?a))"
    by (simp_all add: keyed_def file_nodes_def node_key_def demo_netlib_def)
  from hubs_agree [OF demo_load_1 demo_load_2 demo_read(1) t(1) demo_read(1) t(2) m k]
  show ?thesis using demo_load_1 demo_load_2 by simp
qed

lemma bad_address_panics_witness:
  "is_panic (loadNetworkConfig demo_netlib demo_cert_lib demo_toml [] (demo_root 3 40))"
proof -
  let ?a = "[[''/x''], [''/y/p2p/B'']]"
  have t: "demo_toml [3] = Inr ?a" by (simp add: demo_toml_def)
  have a: "[] \<notin> set ?a" "2 \<le> length ?a" by simp_all
  have k: "\<not> keyed demo_netlib (file_nodes ?a)"
    by (simp add: keyed_def file_nodes_def node_key_def demo_netlib_def)
  show ?thesis
    by (rule bad_address_panics [where toml = demo_toml, OF demo_read(1) t a(1) demo_read(2) a(2) k])
qed

end
