(* ===== verification/KeyStore.thy ===== *)
theory KeyStore
  imports Repo CoreTx
begin

text \<open>
  The rest of a hub's repository: the key store (repo/key/keystore.go), the node's key and the file it
  leaves (repo/key.go), the key tools (cmd/crosshub/key.go), the certificates (repo/cert.go), the
  configuration and the paths (repo/config.go), and loading all of it (repo/repo.go). The cipher, the curve and the
  JSON codec are parameters.
\<close>

section \<open>The key store\<close>

record key_file =
  kf_Address :: address
  kf_PrivateKey :: string
  kf_Encrypted :: bool

record ('k, 'd) key_lib =
  kl_GenerateKey :: "goerr + 'k"
  kl_Bytes :: "'k \<Rightarrow> goerr + bytes"
  kl_UnmarshalPrivateKey :: "bytes \<Rightarrow> goerr + 'k"
  kl_PubkeyToAddress :: "'k \<Rightarrow> address"
  kl_sym :: "bytes \<Rightarrow> goerr + 'd"
  kl_Encrypt :: "'d \<Rightarrow> bytes \<Rightarrow> goerr + bytes"
  kl_Decrypt :: "'d \<Rightarrow> bytes \<Rightarrow> goerr + bytes"
  kl_MarshalIndent :: "key_file \<Rightarrow> goerr + bytes"
  kl_Marshal :: "key_file \<Rightarrow> goerr + bytes"
  kl_Unmarshal :: "bytes \<Rightarrow> goerr + key_file"

definition padding :: string where
  "padding = ''abcdefghijklmnopqrstuvwxyz''"

definition padded :: "string \<Rightarrow> bytes" where
  "padded password = str_bytes (password @ padding)"

text \<open>\<open>%s\<close> of an error loses the chain.\<close>

definition flat_err :: "string \<Rightarrow> goerr \<Rightarrow> goerr" where
  "flat_err t e = ErrNew (t @ '': '' @ err_text e)"

definition NewWithPrivateKey :: "('k, 'd) key_lib \<Rightarrow> 'k \<Rightarrow> string \<Rightarrow> key_file outcome" where
  "NewWithPrivateKey lib privateKey password =
     bind_outcome (of_result (flat_err ''marshal key'') (kl_Bytes lib privateKey)) (\<lambda>bs.
     bind_outcome
       (if password \<noteq> [] then
          bind_outcome (of_result id (kl_sym lib (padded password))) (\<lambda>des.
          bind_outcome (of_result (flat_err ''encrypt private key'') (kl_Encrypt lib des bs)) (\<lambda>data.
          Ok (hex_encode data, True)))
        else Ok (hex_encode bs, False)) (\<lambda>(cipher, encrypted).
     Ok \<lparr> kf_Address = kl_PubkeyToAddress lib privateKey, kf_PrivateKey = cipher, kf_Encrypted = encrypted \<rparr>))"

definition NewKey :: "('k, 'd) key_lib \<Rightarrow> string \<Rightarrow> key_file outcome" where
  "NewKey lib password =
     bind_outcome (of_result (flat_err ''generate key'') (kl_GenerateKey lib)) (\<lambda>k.
     NewWithPrivateKey lib k password)"

definition GetPrivateKey :: "('k, 'd) key_lib \<Rightarrow> key_file \<Rightarrow> string \<Rightarrow> 'k outcome" where
  "GetPrivateKey lib key password =
     (case hex_decode (kf_PrivateKey key) of
        None \<Rightarrow> Err (ErrNew ''encoding/hex'')
      | Some bs \<Rightarrow>
          bind_outcome
            (if kf_Encrypted key then
               bind_outcome (of_result id (kl_sym lib (padded password))) (\<lambda>des.
               of_result id (kl_Decrypt lib des bs))
             else Ok bs) (\<lambda>bs.
          of_result id (kl_UnmarshalPrivateKey lib bs)))"

definition key_Pretty :: "('k, 'd) key_lib \<Rightarrow> key_file \<Rightarrow> bytes outcome" where
  "key_Pretty lib key = of_result id (kl_MarshalIndent lib key)"

definition key_Marshal :: "('k, 'd) key_lib \<Rightarrow> key_file \<Rightarrow> bytes outcome" where
  "key_Marshal lib key = of_result id (kl_Marshal lib key)"

definition key_Unmarshal :: "('k, 'd) key_lib \<Rightarrow> bytes \<Rightarrow> key_file outcome" where
  "key_Unmarshal lib data = of_result id (kl_Unmarshal lib data)"

definition LoadKeyFile :: "('k, 'd) key_lib \<Rightarrow> string \<Rightarrow> 'r tool_world \<Rightarrow> key_file outcome" where
  "LoadKeyFile lib path w = bind_outcome (of_result id (read_file path w)) (key_Unmarshal lib)"

section \<open>Configuration and paths\<close>

record fabric_config =
  fc_User :: string
  fc_ChannelId :: string
  fc_ChaincodeId :: string
  fc_PeerUrl :: "string list option"
  fc_ConfigPath :: string
  fc_Events :: "string list option"
  fc_DataDir :: string
  fc_Outchain :: bool
  fc_LogLevel :: string

record hub_config =
  hc_Role :: u8
  hc_Title :: string
  hc_RepoRoot :: string
  hc_Contract :: string
  hc_RpcIp :: string
  hc_RpcPort :: string
  hc_Grpc :: i64
  hc_Gateway :: i64
  hc_AllowedOrigins :: "string list"
  hc_Verify :: bool
  hc_Fabric :: fabric_config

definition DefaultConfig :: hub_config where
  "DefaultConfig =
     \<lparr> hc_Role = 0, hc_Title = ''CrossHub configuration file'', hc_RepoRoot = [], hc_Contract = [], hc_RpcIp = [],
       hc_RpcPort = [], hc_Grpc = 60011, hc_Gateway = 9091, hc_AllowedOrigins = [''*''], hc_Verify = True,
       hc_Fabric = \<lparr> fc_User = [], fc_ChannelId = [], fc_ChaincodeId = [], fc_PeerUrl = None, fc_ConfigPath = [],
         fc_Events = None, fc_DataDir = [], fc_Outchain = False, fc_LogLevel = [] \<rparr> \<rparr>"

text \<open>\<open>viper\<close> reads the file, with the environment over it, into a zero configuration.\<close>

definition UnmarshalConfig ::
    "(bytes \<Rightarrow> goerr + hub_config) \<Rightarrow> string \<Rightarrow> 'r tool_world \<Rightarrow> hub_config outcome" where
  "UnmarshalConfig viper repoRoot w =
     bind_outcome (of_result id (read_file (path_join repoRoot ''crosshub.toml'') w)) (\<lambda>data.
     bind_outcome (of_result id (viper data)) (\<lambda>config.
     Ok (config\<lparr>hc_RepoRoot := repoRoot\<rparr>)))"

definition PathRoot :: "string \<Rightarrow> (string \<Rightarrow> goerr + string) \<Rightarrow> string outcome" where
  "PathRoot env_dir expand = (if env_dir = [] then of_result id (expand ''~/.crosshub'') else Ok env_dir)"

definition PathRootWithDefault :: "string \<Rightarrow> (string \<Rightarrow> goerr + string) \<Rightarrow> string \<Rightarrow> string outcome" where
  "PathRootWithDefault env_dir expand path = (if path = [] then PathRoot env_dir expand else Ok path)"

definition GetAPI :: "string \<Rightarrow> 'r tool_world \<Rightarrow> bytes outcome" where
  "GetAPI repoRoot w = of_result id (read_file (path_join repoRoot ''api'') w)"

definition GetKeyPath :: "string \<Rightarrow> string" where
  "GetKeyPath repoRoot = path_join repoRoot ''key.json''"

definition GetStoragePath :: "string \<Rightarrow> string list \<Rightarrow> string" where
  "GetStoragePath repoRoot subPath = fold (\<lambda>s p. path_join p s) subPath (path_join repoRoot ''storage'')"

definition Initialized :: "string \<Rightarrow> 'r tool_world \<Rightarrow> bool" where
  "Initialized repoRoot w = (tw_files w (path_clean (path_join repoRoot ''crosshub.toml'')) \<noteq> None)"

section \<open>Certificates\<close>

record 'p hub_certs =
  ht_NodeCertData :: bytes
  ht_AgencyCertData :: bytes
  ht_CACertData :: bytes
  ht_NodeCert :: "'p x509"
  ht_AgencyCert :: "'p x509"
  ht_CACert :: "'p x509"

definition loadCert ::
    "('k, 'p, 'r) cert_lib \<Rightarrow> string \<Rightarrow> 'r tool_world \<Rightarrow> ('p x509 \<times> bytes) outcome" where
  "loadCert cl certPath w =
     bind_outcome (of_result (ErrWrap ''read cert'') (read_file certPath w)) (\<lambda>data.
     bind_outcome (of_result (ErrWrap ''parse cert'') (ParseCert cl (Some data))) (\<lambda>c.
     Ok (c, data)))"

definition loadCerts :: "('k, 'p, 'r) cert_lib \<Rightarrow> string \<Rightarrow> 'r tool_world \<Rightarrow> 'p hub_certs outcome" where
  "loadCerts cl repoRoot w =
     bind_outcome (wrap_err ''load node cert'' (loadCert cl (path_join repoRoot ''certs/node.cert'') w)) (\<lambda>(n, nd).
     bind_outcome (wrap_err ''load agency cert'' (loadCert cl (path_join repoRoot ''certs/agency.cert'') w)) (\<lambda>(a, ad).
     bind_outcome (wrap_err ''load ca cert'' (loadCert cl (path_join repoRoot ''certs/ca.cert'') w)) (\<lambda>(c, cd).
     Ok \<lparr> ht_NodeCertData = nd, ht_AgencyCertData = ad, ht_CACertData = cd, ht_NodeCert = n, ht_AgencyCert = a,
          ht_CACert = c \<rparr>)))"

section \<open>The node's key\<close>

record ('k, 'l) hub_key =
  hk_PID :: string
  hk_Address :: string
  hk_PrivKey :: 'k
  hk_Libp2pPrivKey :: 'l

definition write_file :: "file_env \<Rightarrow> string \<Rightarrow> bytes \<Rightarrow> 'r tool_world \<Rightarrow> unit outcome \<times> 'r tool_world" where
  "write_file fs path data w =
     (case fe_write fs path of
        Some e \<Rightarrow> (Err e, w)
      | None \<Rightarrow> (Ok (), w\<lparr>tw_files := (tw_files w)(path_clean path \<mapsto> data)\<rparr>))"

text \<open>\<open>loadPrivKey\<close>: if there is no key file it writes one, with an empty password. \<open>gjson\<close> finds no \<open>pid\<close> in a
  PEM file, which is the empty string.\<close>

definition write_key_file ::
    "file_env \<Rightarrow> ('k, 'd) key_lib \<Rightarrow> 'k \<Rightarrow> string \<Rightarrow> string \<Rightarrow> 'r tool_world \<Rightarrow> unit outcome \<times> 'r tool_world" where
  "write_key_file fs kl privKey password keyPath w =
     (case bind_outcome (NewWithPrivateKey kl privKey password) (key_Pretty kl) of
        Panic p \<Rightarrow> (Panic p, w)
      | Err e \<Rightarrow> (Err e, w)
      | Ok data \<Rightarrow> write_file fs keyPath data w)"

definition loadPrivKey ::
    "file_env \<Rightarrow> ('k, 'p, 'r) cert_lib \<Rightarrow> ('k, 'd) key_lib \<Rightarrow> ('k \<Rightarrow> goerr + 'l) \<Rightarrow> (address \<Rightarrow> string) \<Rightarrow>
     (bytes \<Rightarrow> string) \<Rightarrow> string \<Rightarrow> 'r tool_world \<Rightarrow> ('k, 'l) hub_key outcome \<times> 'r tool_world" where
  "loadPrivKey fs cl kl libp2p addr_Hex gjson_pid repoRoot w =
     (case
        bind_outcome (of_result id (read_file (path_join repoRoot ''certs/node.priv'') w)) (\<lambda>data.
        bind_outcome (of_result id (ParsePrivateKey cl (Some data))) (\<lambda>stdPriv.
        bind_outcome (of_result id (libp2p stdPriv)) (\<lambda>l. Ok (data, stdPriv, l))))
      of
        Panic p \<Rightarrow> (Panic p, w)
      | Err e \<Rightarrow> (Err e, w)
      | Ok (data, privKey, l) \<Rightarrow>
          let keyPath = path_join repoRoot ''key.json'';
              key = \<lparr> hk_PID = gjson_pid data, hk_Address = addr_Hex (kl_PubkeyToAddress kl privKey),
                hk_PrivKey = privKey, hk_Libp2pPrivKey = l \<rparr> in
          if tw_files w (path_clean keyPath) \<noteq> None then (Ok key, w)
          else
            (case write_key_file fs kl privKey [] keyPath w of
               (Panic p, w) \<Rightarrow> (Panic p, w)
             | (Err e, w) \<Rightarrow> (Err e, w)
             | (Ok _, w) \<Rightarrow> (Ok key, w)))"

section \<open>The whole repository\<close>

record ('k, 'l, 'p, 'i) hub_repo =
  hr_Config :: hub_config
  hr_NetworkConfig :: "'i network_config"
  hr_Key :: "('k, 'l) hub_key"
  hr_Certs :: "'p hub_certs"

definition repo_Load ::
    "file_env \<Rightarrow> ('a, 'i, 'k) net_lib \<Rightarrow> ('k, 'p, 'r) cert_lib \<Rightarrow> ('k, 'd) key_lib \<Rightarrow> ('k \<Rightarrow> goerr + 'l) \<Rightarrow>
     (address \<Rightarrow> string) \<Rightarrow> (bytes \<Rightarrow> string) \<Rightarrow> (bytes \<Rightarrow> goerr + hub_config) \<Rightarrow>
     (bytes \<Rightarrow> goerr + string list list) \<Rightarrow> string \<Rightarrow> 'r tool_world \<Rightarrow>
     ('k, 'l, 'p, 'i) hub_repo outcome \<times> 'r tool_world" where
  "repo_Load fs nl cl kl libp2p addr_Hex gjson_pid viper toml repoRoot w =
     (case
        bind_outcome (UnmarshalConfig viper repoRoot w) (\<lambda>config.
        bind_outcome (wrap_err ''load network config'' (loadNetworkConfig nl cl toml repoRoot w)) (\<lambda>networkConfig.
        bind_outcome (loadCerts cl repoRoot w) (\<lambda>certs. Ok (config, networkConfig, certs))))
      of
        Panic p \<Rightarrow> (Panic p, w)
      | Err e \<Rightarrow> (Err e, w)
      | Ok (config, networkConfig, certs) \<Rightarrow>
          (case loadPrivKey fs cl kl libp2p addr_Hex gjson_pid repoRoot w of
             (Panic p, w) \<Rightarrow> (Panic p, w)
           | (Err e, w) \<Rightarrow> (Err (ErrWrap ''load private key'' e), w)
           | (Ok key, w) \<Rightarrow>
               (Ok \<lparr> hr_Config = config, hr_NetworkConfig = networkConfig, hr_Key = key, hr_Certs = certs \<rparr>, w)))"

section \<open>The key tools\<close>

definition create_account :: "('k, 'd) key_lib \<Rightarrow> 'k \<Rightarrow> key_file outcome" where
  "create_account kl k =
     (case NewWithPrivateKey kl k ''bitxhub'' of Err e \<Rightarrow> Err (flat_err ''create account error'' e) | r \<Rightarrow> r)"

text \<open>\<open>key gen\<close> with \<open>--save\<close> writes the file, without it prints the text.\<close>

definition generateKey ::
    "file_env \<Rightarrow> ('k, 'p, 'r) cert_lib \<Rightarrow> ('k, 'd) key_lib \<Rightarrow> string outcome \<Rightarrow> string \<Rightarrow> bool \<Rightarrow> 'r tool_world \<Rightarrow>
     bytes outcome \<times> 'r tool_world" where
  "generateKey fs cl kl rootDir privPath save w =
     (case
        bind_outcome (of_result (ErrWrap ''read private key'') (read_file privPath w)) (\<lambda>data.
        bind_outcome (of_result id (ParsePrivateKey cl (Some data))) (\<lambda>stdPriv.
        bind_outcome (create_account kl stdPriv) (\<lambda>act.
        bind_outcome (key_Pretty kl act) (\<lambda>out.
        if save then bind_outcome rootDir (\<lambda>repoRoot. Ok (out, Some (path_join repoRoot ''key.json'')))
        else Ok (out, None)))))
      of
        Panic p \<Rightarrow> (Panic p, w)
      | Err e \<Rightarrow> (Err e, w)
      | Ok (out, None) \<Rightarrow> (Ok out, w)
      | Ok (out, Some keyPath) \<Rightarrow>
          (case write_file fs keyPath out w of
             (Ok _, w) \<Rightarrow> (Ok [], w)
           | (Err e, w) \<Rightarrow> (Err (ErrWrap ''write key file'' e), w)
           | (Panic p, w) \<Rightarrow> (Panic p, w)))"

definition showKey :: "string outcome \<Rightarrow> 'r tool_world \<Rightarrow> bytes outcome" where
  "showKey rootDir w =
     bind_outcome rootDir (\<lambda>repoRoot. of_result id (read_file (path_join repoRoot ''key.json'') w))"

definition getAddress ::
    "('k, 'p, 'r) cert_lib \<Rightarrow> ('k, 'd) key_lib \<Rightarrow> string \<Rightarrow> 'r tool_world \<Rightarrow> address outcome" where
  "getAddress cl kl privPath w =
     bind_outcome (of_result (ErrWrap ''read private key'') (read_file privPath w)) (\<lambda>data.
     bind_outcome (of_result id (ParsePrivateKey cl (Some data))) (\<lambda>stdPriv.
     bind_outcome (create_account kl stdPriv) (\<lambda>act.
     Ok (kf_Address act))))"

definition getPid ::
    "('a, 'i, 'k) net_lib \<Rightarrow> ('k, 'p, 'r) cert_lib \<Rightarrow> string \<Rightarrow> 'r tool_world \<Rightarrow> string outcome" where
  "getPid nl cl privPath w = GetPidFromPrivFile nl cl privPath w"

section \<open>What is kept where\<close>

text \<open>Documented behaviour of the libraries: each decoder reads back what its encoder wrote.\<close>

definition key_law :: "('k, 'd) key_lib \<Rightarrow> bool" where
  "key_law lib \<longleftrightarrow>
     (\<forall>k b. kl_Bytes lib k = Inr b \<longrightarrow> kl_UnmarshalPrivateKey lib b = Inr k)
     \<and> (\<forall>p d b c. kl_sym lib p = Inr d \<and> kl_Encrypt lib d b = Inr c \<longrightarrow> kl_Decrypt lib d c = Inr b)
     \<and> (\<forall>f b. kl_MarshalIndent lib f = Inr b \<longrightarrow> kl_Unmarshal lib b = Inr f)
     \<and> (\<forall>f b. kl_Marshal lib f = Inr b \<longrightarrow> kl_Unmarshal lib b = Inr f)"

lemma of_result_Ok [simp]: "of_result f r = Ok x \<longleftrightarrow> r = Inr x"
  by (cases r) auto

lemma of_sum_Ok [simp]: "of_sum r = Ok x \<longleftrightarrow> r = Inr x"
  by (cases r) auto

lemma create_account_Ok [simp]: "create_account kl k = Ok act \<longleftrightarrow> NewWithPrivateKey kl k ''bitxhub'' = Ok act"
  by (simp add: create_account_def split: outcome.split)

lemma NewWithPrivateKey_reads:
  assumes "key_law lib" "NewWithPrivateKey lib k password = Ok key"
  shows "GetPrivateKey lib key password = Ok k" "password = [] \<Longrightarrow> GetPrivateKey lib key password' = Ok k"
proof -
  obtain bs where bs: "kl_Bytes lib k = Inr bs" using assms(2) by (auto simp: NewWithPrivateKey_def bind_outcome_Ok_iff)
  then have u: "kl_UnmarshalPrivateKey lib bs = Inr k" using assms(1) by (simp add: key_law_def)
  show plain: "GetPrivateKey lib key password' = Ok k" if "password = []" for password'
    using assms(2) bs u that by (auto simp: NewWithPrivateKey_def GetPrivateKey_def)
  show "GetPrivateKey lib key password = Ok k"
  proof (cases "password = []")
    case False
    obtain des data where d: "kl_sym lib (padded password) = Inr des" "kl_Encrypt lib des bs = Inr data"
        "kf_PrivateKey key = hex_encode data" "kf_Encrypted key"
      using assms(2) bs False by (auto simp: NewWithPrivateKey_def bind_outcome_Ok_iff)
    have "kl_Decrypt lib des data = Inr bs" using assms(1) d(1,2) unfolding key_law_def by blast
    then show ?thesis using d u by (simp add: GetPrivateKey_def)
  qed (use plain in simp)
qed


lemma write_file_reads:
  "write_file fs path data w = (Ok (), w') \<Longrightarrow> read_file path w' = Inr data"
  by (auto simp: write_file_def read_file_def split: option.splits)

lemma write_key_file_loads:
  assumes "key_law kl" "write_key_file fs kl k password keyPath w = (Ok (), w')"
  shows "\<exists>f. LoadKeyFile kl keyPath w' = Ok f \<and> GetPrivateKey kl f password = Ok k
    \<and> (password = [] \<longrightarrow> (\<forall>password'. GetPrivateKey kl f password' = Ok k))"
proof -
  obtain data where d: "bind_outcome (NewWithPrivateKey kl k password) (key_Pretty kl) = Ok data"
      "write_file fs keyPath data w = (Ok (), w')"
    using assms(2) by (auto simp: write_key_file_def split: outcome.splits)
  then obtain f where f: "NewWithPrivateKey kl k password = Ok f" "kl_MarshalIndent kl f = Inr data"
    by (auto simp: bind_outcome_Ok_iff key_Pretty_def)
  have "kl_Unmarshal kl data = Inr f" using assms(1) f(2) unfolding key_law_def by blast
  then have "LoadKeyFile kl keyPath w' = Ok f"
    using write_file_reads [OF d(2)] by (simp add: LoadKeyFile_def key_Unmarshal_def)
  then show ?thesis using NewWithPrivateKey_reads [OF assms(1) f(1)] by auto
qed

text \<open>The first start of a hub writes the node's private key to \<open>key.json\<close> without encryption: whoever can
  read the file gets the key with any password.\<close>

theorem first_start_writes_plain_key:
  assumes "key_law kl" "loadPrivKey fs cl kl libp2p addr_Hex gjson_pid repoRoot w = (Ok key, w')"
    and "tw_files w (path_clean (path_join repoRoot ''key.json'')) = None"
  shows "\<exists>f. LoadKeyFile kl (path_join repoRoot ''key.json'') w' = Ok f
    \<and> (\<forall>password. GetPrivateKey kl f password = Ok (hk_PrivKey key))"
proof -
  obtain k where k: "write_key_file fs kl k [] (path_join repoRoot ''key.json'') w = (Ok (), w')" "hk_PrivKey key = k"
    using assms(2,3) by (auto simp: loadPrivKey_def Let_def split: outcome.splits prod.splits)
  then show ?thesis using write_key_file_loads [OF assms(1) k(1)] by auto
qed

text \<open>\<open>key gen --save\<close> leaves a file the key store opens with the tool's password, and the key is the one
  of the PEM file.\<close>

theorem generateKey_loads:
  assumes "key_law kl" "generateKey fs cl kl (Ok dir) privPath True w = (Ok out, w')"
  shows "\<exists>data k f. read_file privPath w = Inr data \<and> ParsePrivateKey cl (Some data) = Inr k
    \<and> LoadKeyFile kl (path_join dir ''key.json'') w' = Ok f \<and> GetPrivateKey kl f ''bitxhub'' = Ok k"
proof -
  obtain data k act out1 where r: "read_file privPath w = Inr data" "ParsePrivateKey cl (Some data) = Inr k"
      "NewWithPrivateKey kl k ''bitxhub'' = Ok act" "key_Pretty kl act = Ok out1"
      "write_file fs (path_join dir ''key.json'') out1 w = (Ok (), w')"
    using assms(2)
    by (auto simp: generateKey_def bind_outcome_Ok_iff split: outcome.splits prod.splits option.splits)
  then have "write_key_file fs kl k ''bitxhub'' (path_join dir ''key.json'') w = (Ok (), w')"
    by (simp add: write_key_file_def)
  from write_key_file_loads [OF assms(1) this] r(1,2) show ?thesis by auto
qed

lemma load_network_PeerId:
  assumes "loadNetworkConfig nl cl toml repoRoot w = Ok c"
  shows "GetPidFromPrivFile nl cl (path_join repoRoot ''certs/node.priv'') w = Ok (nc_PeerId c)"
proof -
  obtain p N q where "GetPidFromPrivFile nl cl (path_join repoRoot ''certs/node.priv'') w = Ok p"
      "(case q of (nodes, self) \<Rightarrow> finish_network nl p N nodes self) = Ok c"
    using assms unfolding loadNetworkConfig_def bind_outcome_Ok_iff by blast
  then show ?thesis
    by (auto simp: finish_network_def Let_def bind_outcome_Ok_iff split: prod.splits option.splits if_splits)
qed

text \<open>A loaded repository has one identity: the peer id of its network configuration, under which it looked
  for itself among the nodes, is the one of the private key it serves with.\<close>

theorem repo_one_identity:
  assumes "repo_Load fs nl cl kl libp2p addr_Hex gjson_pid viper toml repoRoot w = (Ok r, w')"
  shows "np_pid nl (hk_PrivKey (hr_Key r)) = Inr (nc_PeerId (hr_NetworkConfig r))"
proof -
  obtain c key where c: "loadNetworkConfig nl cl toml repoRoot w = Ok c" "hr_NetworkConfig r = c"
      "loadPrivKey fs cl kl libp2p addr_Hex gjson_pid repoRoot w = (Ok key, w')" "hr_Key r = key"
    using assms by (auto simp: repo_Load_def bind_outcome_Ok_iff split: outcome.splits prod.splits)
  obtain data k where k: "read_file (path_join repoRoot ''certs/node.priv'') w = Inr data"
      "ParsePrivateKey cl (Some data) = Inr k" "hk_PrivKey key = k"
    using c(3) by (auto simp: loadPrivKey_def Let_def bind_outcome_Ok_iff split: outcome.splits prod.splits if_splits)
  then show ?thesis
    using load_network_PeerId [OF c(1)] c(2,4) by (simp add: GetPidFromPrivFile_def)
qed

section \<open>A concrete repository\<close>

text \<open>Keys are bytes; the cipher adds the first byte of the password; a key file is written as its flag and
  its key.\<close>

definition demo_key_lib :: "(byte, byte) key_lib" where
  "demo_key_lib =
     \<lparr> kl_GenerateKey = Inr 40, kl_Bytes = (\<lambda>k. Inr [k]),
       kl_UnmarshalPrivateKey = (\<lambda>b. case b of [k] \<Rightarrow> Inr k | _ \<Rightarrow> Inl (ErrNew ''key'')),
       kl_PubkeyToAddress = (\<lambda>k. [k]), kl_sym = (\<lambda>p. Inr (hd p)),
       kl_Encrypt = (\<lambda>d b. Inr (map (\<lambda>x. x + d) b)), kl_Decrypt = (\<lambda>d b. Inr (map (\<lambda>x. x - d) b)),
       kl_MarshalIndent = (\<lambda>f. case hex_decode (kf_PrivateKey f) of
         Some [c] \<Rightarrow> (if hex_encode [c] = kf_PrivateKey f \<and> length (kf_Address f) = 1
                      then Inr [if kf_Encrypted f then 1 else 0, hd (kf_Address f), c] else Inl (ErrNew ''json''))
       | _ \<Rightarrow> Inl (ErrNew ''json'')),
       kl_Marshal = (\<lambda>f. Inl (ErrNew ''json'')),
       kl_Unmarshal = (\<lambda>b. case b of
         [e, a, c] \<Rightarrow> Inr \<lparr> kf_Address = [a], kf_PrivateKey = hex_encode [c], kf_Encrypted = (e = 1) \<rparr>
       | _ \<Rightarrow> Inl (ErrNew ''json'')) \<rparr>"

lemma demo_key_law: "key_law demo_key_lib"
  by (auto simp: key_law_def demo_key_lib_def comp_def length_Suc_conv
      split: list.splits option.splits if_splits)


lemma demo_paths:
  "path_join [] ''key.json'' = ''key.json''" "path_join [] ''certs/node.priv'' = ''certs/node.priv''"
  "path_join [] ''crosshub.toml'' = ''crosshub.toml''" "path_join [] ''network.toml'' = ''network.toml''"
  "path_join [] ''certs/node.cert'' = ''certs/node.cert''" "path_join [] ''certs/agency.cert'' = ''certs/agency.cert''"
  "path_join [] ''certs/ca.cert'' = ''certs/ca.cert''"
  "path_clean ''key.json'' = ''key.json''" "path_clean ''certs/node.priv'' = ''certs/node.priv''"
  "path_clean ''crosshub.toml'' = ''crosshub.toml''" "path_clean ''network.toml'' = ''network.toml''"
  "path_clean ''certs/node.cert'' = ''certs/node.cert''" "path_clean ''certs/agency.cert'' = ''certs/agency.cert''"
  "path_clean ''certs/ca.cert'' = ''certs/ca.cert''"
  by code_simp+

lemma demo_ParsePrivateKey: "ParsePrivateKey demo_cert_lib (Some [0, k]) = Inr k"
  by (simp add: ParsePrivateKey_def demo_cert_lib_def)

lemma demo_write_key:
  "\<exists>w'. write_key_file demo_files demo_key_lib 40 [] ''key.json'' w = (Ok (), w')"
proof -
  have n: "NewWithPrivateKey demo_key_lib 40 [] = Ok \<lparr> kf_Address = [40], kf_PrivateKey = hex_encode [40], kf_Encrypted = False \<rparr>"
    by (simp add: NewWithPrivateKey_def demo_key_lib_def del: hex_encode.simps)
  have p: "key_Pretty demo_key_lib \<lparr> kf_Address = [40], kf_PrivateKey = hex_encode [40], kf_Encrypted = False \<rparr> = Ok [0, 40, 40]"
    by (simp add: key_Pretty_def demo_key_lib_def del: hex_encode.simps)
  show ?thesis by (simp add: write_key_file_def n p write_file_def demo_files_def del: hex_encode.simps)
qed

lemma demo_loadPrivKey:
  assumes "tw_files w ''certs/node.priv'' = Some [0, 40]" "tw_files w ''key.json'' = None"
  shows "\<exists>key w'. loadPrivKey demo_files demo_cert_lib demo_key_lib (\<lambda>k. Inr ()) (\<lambda>a. ''0x'') (\<lambda>b. []) [] w = (Ok key, w')
    \<and> hk_PrivKey key = 40"
proof -
  obtain w' where "write_key_file demo_files demo_key_lib 40 [] ''key.json'' w = (Ok (), w')"
    using demo_write_key by blast
  then show ?thesis using assms
    by (simp add: loadPrivKey_def demo_paths read_file_def demo_ParsePrivateKey Let_def)
qed

definition demo_first :: "(byte, unit) hub_key outcome \<times> byte tool_world" where
  "demo_first = loadPrivKey demo_files demo_cert_lib demo_key_lib (\<lambda>k. Inr ()) (\<lambda>a. ''0x'') (\<lambda>b. []) [] (demo_root 1 40)"

lemma first_start_writes_plain_key_witness:
  "\<exists>f. LoadKeyFile demo_key_lib ''key.json'' (snd demo_first) = Ok f \<and> GetPrivateKey demo_key_lib f ''x'' = Ok 40"
proof -
  have n: "tw_files (demo_root 1 40) ''certs/node.priv'' = Some [0, 40]" "tw_files (demo_root 1 40) ''key.json'' = None"
    by (simp_all add: demo_root_def)
  obtain key w' where k: "demo_first = (Ok key, w')" "hk_PrivKey key = 40"
    using demo_loadPrivKey [OF n] unfolding demo_first_def by blast
  have "tw_files (demo_root 1 40) (path_clean (path_join [] ''key.json'')) = None"
    using n(2) by (simp add: demo_paths)
  from first_start_writes_plain_key [OF demo_key_law k(1) [unfolded demo_first_def] this] obtain f where
    "LoadKeyFile demo_key_lib ''key.json'' w' = Ok f" "GetPrivateKey demo_key_lib f ''x'' = Ok 40"
    using k(2) by (auto simp: demo_paths)
  moreover have "snd demo_first = w'" unfolding k(1) by (rule snd_conv)
  ultimately show ?thesis by metis
qed

lemma generateKey_loads_witness:
  "\<exists>f (w' :: byte tool_world). LoadKeyFile demo_key_lib ''key.json'' w' = Ok f \<and> GetPrivateKey demo_key_lib f ''bitxhub'' = Ok 40"
proof -
  have rd: "read_file ''certs/node.priv'' (demo_root 1 40) = Inr [0, 40]"
    by (simp add: demo_root_def read_file_def demo_paths)
  obtain w' where g: "generateKey demo_files demo_cert_lib demo_key_lib (Ok []) ''certs/node.priv'' True (demo_root 1 40)
      = (Ok [], w')"
    by (simp add: generateKey_def create_account_def rd demo_paths demo_ParsePrivateKey NewWithPrivateKey_def
        demo_key_lib_def key_Pretty_def write_file_def demo_files_def del: hex_encode.simps)
  obtain data k f where r: "read_file ''certs/node.priv'' (demo_root 1 40) = Inr data"
      "ParsePrivateKey demo_cert_lib (Some data) = Inr k"
      "LoadKeyFile demo_key_lib (path_join [] ''key.json'') w' = Ok f" "GetPrivateKey demo_key_lib f ''bitxhub'' = Ok k"
    using generateKey_loads [OF demo_key_law g] by blast
  have "data = [0, 40]" using r(1) rd by simp
  then have "k = 40" using r(2) demo_ParsePrivateKey by simp
  then show ?thesis using r(3,4) by (auto simp: demo_paths)
qed

definition demo_repo_files :: "byte tool_world" where
  "demo_repo_files = (demo_root 1 40)\<lparr>tw_files := [''network.toml'' \<mapsto> [1], ''certs/node.priv'' \<mapsto> [0, 40],
     ''crosshub.toml'' \<mapsto> [], ''certs/node.cert'' \<mapsto> [2, 0, 40, 41], ''certs/agency.cert'' \<mapsto> [2, 1, 41, 42],
     ''certs/ca.cert'' \<mapsto> [2, 1, 42, 42]]\<rparr>"

lemma demo_repo_reads:
  "read_file ''network.toml'' demo_repo_files = Inr [1]" "read_file ''certs/node.priv'' demo_repo_files = Inr [0, 40]"
  "read_file ''crosshub.toml'' demo_repo_files = Inr []" "read_file ''certs/node.cert'' demo_repo_files = Inr [2, 0, 40, 41]"
  "read_file ''certs/agency.cert'' demo_repo_files = Inr [2, 1, 41, 42]"
  "read_file ''certs/ca.cert'' demo_repo_files = Inr [2, 1, 42, 42]"
  "tw_files demo_repo_files ''certs/node.priv'' = Some [0, 40]" "tw_files demo_repo_files ''key.json'' = None"
  by (simp_all add: demo_repo_files_def read_file_def demo_paths)

lemma demo_root_reads:
  "read_file ''network.toml'' (demo_root 1 40) = Inr [1]" "read_file ''certs/node.priv'' (demo_root 1 40) = Inr [0, 40]"
  by (simp_all add: demo_root_def read_file_def demo_paths)

lemma demo_repo_network:
  "loadNetworkConfig demo_netlib demo_cert_lib demo_toml [] demo_repo_files =
     loadNetworkConfig demo_netlib demo_cert_lib demo_toml [] (demo_root 1 40)"
  by (simp only: loadNetworkConfig_def GetPidFromPrivFile_def demo_paths demo_repo_reads demo_root_reads)

lemma demo_repo_certs: "\<exists>x. loadCerts demo_cert_lib [] demo_repo_files = Ok x"
proof -
  have "\<exists>x. ParseCert demo_cert_lib (Some [2, a, b, c]) = Inr x" for a b c
    by (simp add: ParseCert_def demo_cert_lib_def)
  then obtain f where "\<And>a b c. ParseCert demo_cert_lib (Some [2, a, b, c]) = Inr (f a b c)" by metis
  then show ?thesis by (simp add: loadCerts_def loadCert_def demo_paths demo_repo_reads)
qed

lemma repo_one_identity_witness:
  "\<exists>r w'. repo_Load demo_files demo_netlib demo_cert_lib demo_key_lib (\<lambda>k. Inr ()) (\<lambda>a. ''0x'') (\<lambda>b. [])
      (\<lambda>d. Inr DefaultConfig) demo_toml [] demo_repo_files = (Ok r, w')
    \<and> np_pid demo_netlib (hk_PrivKey (hr_Key r)) = Inr (nc_PeerId (hr_NetworkConfig r))"
proof -
  obtain c where c: "UnmarshalConfig (\<lambda>d. Inr DefaultConfig) [] demo_repo_files = Ok c"
    by (simp add: UnmarshalConfig_def demo_paths demo_repo_reads)
  obtain t where t: "loadCerts demo_cert_lib [] demo_repo_files = Ok t" using demo_repo_certs by blast
  obtain n where n: "loadNetworkConfig demo_netlib demo_cert_lib demo_toml [] demo_repo_files = Ok n"
    using demo_load_1 unfolding demo_repo_network by blast
  obtain k w' where k: "loadPrivKey demo_files demo_cert_lib demo_key_lib (\<lambda>k. Inr ()) (\<lambda>a. ''0x'') (\<lambda>b. []) [] demo_repo_files
      = (Ok k, w')" using demo_loadPrivKey demo_repo_reads by blast
  obtain r where l: "repo_Load demo_files demo_netlib demo_cert_lib demo_key_lib (\<lambda>k. Inr ()) (\<lambda>a. ''0x'') (\<lambda>b. [])
      (\<lambda>d. Inr DefaultConfig) demo_toml [] demo_repo_files = (Ok r, w')"
    by (simp add: repo_Load_def c t n k)
  from repo_one_identity [OF this] l show ?thesis by blast
qed

end
