(* ===== verification/Courier.thy ===== *)
theory Courier
  imports Syncer Chaincode KeyStore
begin

text \<open>
  The courier as a whole (fabric/courier/handler.go, database.go, tx.go, client/config.go, client/client.go): its
  configuration, the client of the fabric network, the channel to the hub, how the handler is put together and how
  it stops; and what the transaction manager (TxManager.thy) does to the ledger of the chaincode (Chaincode.thy)
  through this client. The SDK, storm and the runtime of the goroutines are parameters or steps.
\<close>

section \<open>Configuration\<close>

text \<open>\<open>utils.Fatalf\<close> ends the process with the text.\<close>

datatype 'a exits = Goes 'a | Fatal string

fun bind_exits :: "'a exits \<Rightarrow> ('a \<Rightarrow> 'b exits) \<Rightarrow> 'b exits" where
  "bind_exits (Goes x) f = f x"
| "bind_exits (Fatal t) f = Fatal t"

definition Fatalf :: "string \<Rightarrow> 'a exits" where
  "Fatalf t = Fatal (''[courier] Fatal: '' @ t @ [CHR 0x0A])"

record courier_config =
  kc_ConfigPath :: string
  kc_Targets :: "string list"
  kc_FilterEvents :: "string list"
  kc_user :: string
  kc_channelID :: string
  kc_chaincodeID :: string
  kc_dataDir :: string

definition missing_elem :: "fabric_config \<Rightarrow> string" where
  "missing_elem cfg =
     (if fc_DataDir cfg = [] then ''datadir''
      else if fc_ChannelId cfg = [] then ''channelid''
      else if fc_ChaincodeId cfg = [] then ''chaincodeid''
      else if fc_User cfg = [] then ''user''
      else if fc_PeerUrl cfg = None then ''peerurl''
      else if fc_Events cfg = None then ''events''
      else if fc_ConfigPath cfg = [] then ''configpath''
      else [])"

definition checkConfig :: "fabric_config \<Rightarrow> goerr option" where
  "checkConfig cfg =
     (let elem = missing_elem cfg in if elem \<noteq> [] then Some (ErrNew (elem @ '' not set'')) else None)"

text \<open>Ranging over a nil slice is ranging over an empty one.\<close>

definition slice :: "'a list option \<Rightarrow> 'a list" where
  "slice s = (case s of None \<Rightarrow> [] | Some xs \<Rightarrow> xs)"

definition InitConfig :: "fabric_config \<Rightarrow> courier_config exits" where
  "InitConfig fabric =
     (case checkConfig fabric of
        Some e \<Rightarrow> Fatalf (''[courier.Config] err: '' @ err_text e)
      | None \<Rightarrow> Goes
          \<lparr> kc_ConfigPath = fc_ConfigPath fabric, kc_Targets = slice (fc_PeerUrl fabric),
            kc_FilterEvents = slice (fc_Events fabric), kc_user = fc_User fabric,
            kc_channelID = fc_ChannelId fabric, kc_chaincodeID = fc_ChaincodeId fabric,
            kc_dataDir = fc_DataDir fabric \<rparr>)"

section \<open>The client\<close>

record channel_request =
  xr_ChaincodeID :: string
  xr_Fcn :: string
  xr_Args :: "bytes list"

record 'w sdk_lib =
  sdk_New :: "string \<Rightarrow> unit outcome"
  sdk_Channel :: "string \<Rightarrow> string \<Rightarrow> unit outcome"
  sdk_Ledger :: "string \<Rightarrow> string \<Rightarrow> unit outcome"
  sdk_Execute :: "string list \<Rightarrow> channel_request \<Rightarrow> 'w \<Rightarrow> (goerr + string) \<times> 'w"
  sdk_QueryBlock :: "u64 \<Rightarrow> 'w \<Rightarrow> (goerr + block) \<times> 'w"

text \<open>A step of \<open>initialize\<close>: its deferred function turns a panic into \<open>Fatalf\<close> too.\<close>

definition init_step :: "string \<Rightarrow> 'a outcome \<Rightarrow> 'a exits" where
  "init_step t r =
     (case r of
        Ok x \<Rightarrow> Goes x
      | Err e \<Rightarrow> Fatalf (t @ err_text e)
      | Panic p \<Rightarrow> Fatalf (''[FClient] initialize fatal: '' @ p))"

definition initializeSDK :: "'w sdk_lib \<Rightarrow> courier_config \<Rightarrow> unit exits" where
  "initializeSDK lib cfg = init_step ''[courier.FClient] fabsdk.New err: '' (sdk_New lib (kc_ConfigPath cfg))"

definition initializeChannelClient :: "'w sdk_lib \<Rightarrow> courier_config \<Rightarrow> unit exits" where
  "initializeChannelClient lib cfg =
     init_step ''[courier.FClient] channel.New err: '' (sdk_Channel lib (kc_channelID cfg) (kc_user cfg))"

definition initializeLedgerClient :: "'w sdk_lib \<Rightarrow> courier_config \<Rightarrow> unit exits" where
  "initializeLedgerClient lib cfg =
     init_step ''[courier.FClient] ledger.New err: '' (sdk_Ledger lib (kc_channelID cfg) (kc_user cfg))"

definition NewFabCli :: "'w sdk_lib \<Rightarrow> courier_config \<Rightarrow> courier_config exits" where
  "NewFabCli lib cfg =
     bind_exits (initializeSDK lib cfg) (\<lambda>_.
     bind_exits (initializeChannelClient lib cfg) (\<lambda>_.
     bind_exits (initializeLedgerClient lib cfg) (\<lambda>_. Goes cfg)))"

definition packArgs :: "string list \<Rightarrow> bytes list" where
  "packArgs params = map str_bytes params"

definition FClient_InvokeChainCode ::
  "'w sdk_lib \<Rightarrow> courier_config \<Rightarrow> string \<Rightarrow> string list \<Rightarrow> 'w \<Rightarrow> (goerr + string) \<times> 'w" where
  "FClient_InvokeChainCode lib cfg fcn args w =
     sdk_Execute lib (kc_Targets cfg)
       \<lparr> xr_ChaincodeID = kc_chaincodeID cfg, xr_Fcn = fcn, xr_Args = packArgs args \<rparr> w"

definition FClient_QueryBlockByNum :: "'w sdk_lib \<Rightarrow> u64 \<Rightarrow> 'w \<Rightarrow> (goerr + block) \<times> 'w" where
  "FClient_QueryBlockByNum lib number w = sdk_QueryBlock lib number w"

definition Mock_Send :: "u32 \<Rightarrow> goerr option \<times> u32" where
  "Mock_Send n = (None, n + 1)"

section \<open>The channel to the hub\<close>

text \<open>A Go channel with a buffer. Sending to a full one waits, which is \<open>None\<close>. A panic of the send, or of the log
  line behind it that asks the message for its id, becomes the error.\<close>

record cross_chan =
  xc_buf :: "hub_msg list"
  xc_cap :: nat
  xc_closed :: bool

definition CrossChannel_Send :: "hub_msg \<Rightarrow> cross_chan \<Rightarrow> (goerr option \<times> cross_chan) option" where
  "CrossChannel_Send tx c =
     (if xc_closed c then Some (Some (ErrNew ''send on closed channel''), c)
      else if xc_cap c \<le> length (xc_buf c) then None
      else Some
        (if tx = HNil
         then Some (ErrNew ''runtime error: invalid memory address or nil pointer dereference'') else None,
         c\<lparr>xc_buf := xc_buf c @ [tx]\<rparr>))"

section \<open>The handler\<close>

record 'd courier_handler =
  hd_blkSync :: "'d block_sync"
  hd_rootDB_open :: bool
  hd_stopCh :: bool

text \<open>\<open>open_storm\<close> is \<open>storm.Open\<close> with the node \<open>From("mychannel")\<close> taken; the result of \<open>MkdirAll\<close> is dropped.\<close>

definition OpenStormDB :: "(string \<Rightarrow> goerr + 'd) \<Rightarrow> string \<Rightarrow> string \<Rightarrow> goerr + 'd" where
  "OpenStormDB open_storm tempDir dataDir =
     open_storm (path_join (if dataDir \<noteq> [] then dataDir else tempDir) ''rootdb'')"

definition Handler_New ::
  "'w sdk_lib \<Rightarrow> (string \<Rightarrow> goerr + 'd) \<Rightarrow> string \<Rightarrow> ('d, 'f, 'w) sync_env \<Rightarrow> courier_config \<Rightarrow>
    (goerr + 'd courier_handler) exits" where
  "Handler_New lib open_storm tempDir env cfg =
     bind_exits (NewFabCli lib cfg) (\<lambda>fabCli. Goes
       (case OpenStormDB open_storm tempDir (kc_dataDir cfg) of
          Inl e \<Rightarrow> Inl e
        | Inr store \<Rightarrow>
            let txm = NewTxManager store in
            Inr \<lparr> hd_blkSync = NewBlockSync env (kc_FilterEvents fabCli) txm, hd_rootDB_open = True,
                  hd_stopCh = False \<rparr>))"

text \<open>\<open>Start\<close>: the manager reloads what was stored, then the synchroniser starts.\<close>

definition Handler_Start :: "('d, 'f, 'w) sync_env \<Rightarrow> 'd courier_handler \<Rightarrow> 'd courier_handler outcome" where
  "Handler_Start env h =
     bind_outcome (reload (se_tx env) (bs_txm (hd_blkSync h))) (\<lambda>txm.
       Ok (h\<lparr>hd_blkSync := (hd_blkSync h)\<lparr>bs_txm := txm\<rparr>\<rparr>))"

definition SetOutChainFlag :: "bool \<Rightarrow> 'd courier_handler \<Rightarrow> 'd courier_handler" where
  "SetOutChainFlag flag h =
     h\<lparr>hd_blkSync := (hd_blkSync h)\<lparr>bs_txm := (bs_txm (hd_blkSync h))\<lparr>tm_outchain := flag\<rparr>\<rparr>\<rparr>"

section \<open>Stopping\<close>

text \<open>
  The goroutines of the transaction manager and its wait group. \<open>Start\<close> adds 3 to the counter for its three
  goroutines; \<open>receive\<close> adds 1 again when it begins. A goroutine started for one message adds 1 before it runs and
  takes it back at its end. \<open>Stop\<close> closes \<open>stopCh\<close> and waits for the counter to be 0.
\<close>

datatype main_pc = MainRuns | MainOver

datatype recv_pc = RecvStarts | RecvRuns | RecvOver

record tm_group =
  tg_count :: nat
  tg_stopCh :: bool
  tg_txs :: main_pc
  tg_receipts :: main_pc
  tg_receive :: recv_pc
  tg_workers :: nat

definition tm_started :: tm_group where
  "tm_started = \<lparr> tg_count = 3, tg_stopCh = False, tg_txs = MainRuns, tg_receipts = MainRuns,
     tg_receive = RecvStarts, tg_workers = 0 \<rparr>"

inductive tm_step :: "tm_group \<Rightarrow> tm_group \<Rightarrow> bool" where
  receive_begins: "tg_receive g = RecvStarts \<Longrightarrow>
    tm_step g (g\<lparr>tg_receive := RecvRuns, tg_count := tg_count g + 1\<rparr>)"
| worker_begins: "tm_step g (g\<lparr>tg_workers := tg_workers g + 1, tg_count := tg_count g + 1\<rparr>)"
| worker_ends: "tg_workers g > 0 \<Longrightarrow>
    tm_step g (g\<lparr>tg_workers := tg_workers g - 1, tg_count := tg_count g - 1\<rparr>)"
| txs_end: "tg_stopCh g \<Longrightarrow> tg_txs g = MainRuns \<Longrightarrow>
    tm_step g (g\<lparr>tg_txs := MainOver, tg_count := tg_count g - 1\<rparr>)"
| receipts_end: "tg_stopCh g \<Longrightarrow> tg_receipts g = MainRuns \<Longrightarrow>
    tm_step g (g\<lparr>tg_receipts := MainOver, tg_count := tg_count g - 1\<rparr>)"
| receive_ends: "tg_receive g = RecvRuns \<Longrightarrow>
    tm_step g (g\<lparr>tg_receive := RecvOver, tg_count := tg_count g - 1\<rparr>)"

inductive_simps tm_step_simps: "tm_step g g'"

text \<open>\<open>Handler.Stop\<close>: the synchroniser is asked to stop and waited for, then the manager, then the database is
  closed. The other goroutines go on meanwhile.\<close>

datatype life_pc = NotStopping | WaitSync | WaitTxm | StopReturned

record 'd courier_life =
  cl_sync :: "'d block_sync"
  cl_txm :: tm_group
  cl_pc :: life_pc
  cl_stopCh :: bool
  cl_db_open :: bool

definition courier_started :: "'d courier_handler \<Rightarrow> 'd courier_life" where
  "courier_started h = \<lparr> cl_sync = hd_blkSync h, cl_txm = tm_started, cl_pc = NotStopping,
     cl_stopCh = hd_stopCh h, cl_db_open = hd_rootDB_open h \<rparr>"

inductive life_step :: "('d, 'f, 'w) sync_env \<Rightarrow> 'd courier_life \<times> 'w \<Rightarrow> 'd courier_life \<times> 'w \<Rightarrow> bool" for env where
  life_sync: "bs_step env (cl_sync l, w) ev (s', w') \<Longrightarrow> life_step env (l, w) (l\<lparr>cl_sync := s'\<rparr>, w')"
| life_txm: "tm_step (cl_txm l) g \<Longrightarrow> life_step env (l, w) (l\<lparr>cl_txm := g\<rparr>, w)"
| life_stop: "cl_pc l = NotStopping \<Longrightarrow>
    life_step env (l, w) (l\<lparr>cl_pc := WaitSync, cl_sync := (cl_sync l)\<lparr>bs_stopping := True\<rparr>\<rparr>, w)"
| life_sync_over: "cl_pc l = WaitSync \<Longrightarrow> bs_finished (cl_sync l) \<Longrightarrow>
    life_step env (l, w)
      (l\<lparr>cl_pc := WaitTxm, cl_stopCh := True, cl_txm := (cl_txm l)\<lparr>tg_stopCh := True\<rparr>\<rparr>, w)"
| life_txm_over: "cl_pc l = WaitTxm \<Longrightarrow> tg_count (cl_txm l) = 0 \<Longrightarrow>
    life_step env (l, w) (l\<lparr>cl_pc := StopReturned, cl_db_open := False\<rparr>, w)"

fun main_owes :: "main_pc \<Rightarrow> nat" where
  "main_owes MainRuns = 1"
| "main_owes MainOver = 0"

fun recv_owes :: "recv_pc \<Rightarrow> nat" where
  "recv_owes RecvStarts = 1"
| "recv_owes RecvRuns = 2"
| "recv_owes RecvOver = 1"

text \<open>What the counter stands at: one for each goroutine that still runs, and one that nobody takes back.\<close>

definition group_ok :: "tm_group \<Rightarrow> bool" where
  "group_ok g \<longleftrightarrow>
     tg_count g = main_owes (tg_txs g) + main_owes (tg_receipts g) + recv_owes (tg_receive g) + tg_workers g"

lemma group_ok_started: "group_ok tm_started"
  by (simp add: group_ok_def tm_started_def)

lemma group_ok_step: "tm_step g g' \<Longrightarrow> group_ok g \<Longrightarrow> group_ok g'"
  by (induction rule: tm_step.induct) (auto simp: group_ok_def)

lemma group_ok_positive: "group_ok g \<Longrightarrow> tg_count g > 0"
  by (cases "tg_receive g") (simp_all add: group_ok_def)

definition life_ok :: "'d courier_life \<Rightarrow> bool" where
  "life_ok l \<longleftrightarrow> group_ok (cl_txm l) \<and> cl_pc l \<noteq> StopReturned"

lemma life_ok_step:
  assumes "life_step env (l, w) (l', w')" "life_ok l"
  shows "life_ok l' \<and> cl_db_open l' = cl_db_open l"
  using assms(1)
proof (cases rule: life_step.cases)
  case (life_txm g)
  then show ?thesis using assms(2) group_ok_step [OF life_txm(3)] by (simp add: life_ok_def)
next
  case life_sync_over
  then show ?thesis using assms(2) by (auto simp: life_ok_def group_ok_def)
next
  case life_txm_over
  then show ?thesis using assms(2) group_ok_positive [of "cl_txm l"] by (simp add: life_ok_def)
qed (use assms(2) in \<open>auto simp: life_ok_def\<close>)

lemma life_ok_reach:
  assumes "(life_step env)\<^sup>*\<^sup>* (l, w) (l', w')" "life_ok l"
  shows "life_ok l' \<and> cl_db_open l' = cl_db_open l"
  using assms
proof (induction "(l', w')" arbitrary: l' w' rule: rtranclp_induct)
  case (step y)
  obtain l1 w1 where "y = (l1, w1)" by fastforce
  then show ?case using step life_ok_step by metis
qed simp

text \<open>C5: \<open>Stop\<close> of the courier never returns, and never closes the database: \<open>receive\<close> adds one to the wait group
  that nothing takes back, so whatever the goroutines do the counter stays above 0.\<close>

theorem Stop_never_returns:
  assumes "(life_step env)\<^sup>*\<^sup>* (courier_started h, w) (l, w')"
  shows "cl_pc l \<noteq> StopReturned \<and> tg_count (cl_txm l) > 0 \<and> cl_db_open l = hd_rootDB_open h"
proof -
  have "life_ok (courier_started h)"
    by (simp add: life_ok_def courier_started_def group_ok_started)
  then have "life_ok l \<and> cl_db_open l = cl_db_open (courier_started h)" by (rule life_ok_reach [OF assms])
  then show ?thesis using group_ok_positive by (auto simp: life_ok_def courier_started_def)
qed

lemma Stop_never_returns_witness:
  fixes w :: nat
  defines "h \<equiv> \<lparr> hd_blkSync = demo_start False, hd_rootDB_open = True, hd_stopCh = False \<rparr>"
  defines "l \<equiv> (courier_started h)\<lparr>cl_pc := WaitSync, cl_sync := (demo_start False)\<lparr>bs_stopping := True\<rparr>\<rparr>"
  shows "cl_pc l \<noteq> StopReturned \<and> tg_count (cl_txm l) > 0 \<and> cl_db_open l"
proof -
  have "life_step (demo_sync False) (courier_started h, w) (l, w)"
    using life_stop [of "courier_started h" "demo_sync False" w] by (simp add: courier_started_def h_def l_def)
  then have "(life_step (demo_sync False))\<^sup>*\<^sup>* (courier_started h, w) (l, w)" by blast
  from Stop_never_returns [OF this] show ?thesis by (simp add: h_def)
qed

section \<open>The courier and the chaincode\<close>

definition bytes_str :: "bytes \<Rightarrow> string" where
  "bytes_str bs = map (\<lambda>b. char_of (unat b)) bs"

lemma bytes_str_inverse [simp]: "bytes_str (str_bytes s) = s"
proof -
  have "char_of (unat (word_of_nat (of_char c) :: byte)) = c" for c :: char
    using nat_of_char_less_256 [of c] by (simp add: unat_of_nat take_bit_eq_mod)
  then show ?thesis by (simp add: bytes_str_def str_bytes_def comp_def)
qed

text \<open>What \<open>Execute\<close> promises: an error changes nothing; otherwise the function of the chaincode has run, for some
  stub, and the peers have committed what it wrote.\<close>

definition peer_law :: "'w sdk_lib \<Rightarrow> ('w \<Rightarrow> ledger) \<Rightarrow> bool" where
  "peer_law lib ledger_of \<longleftrightarrow>
     (\<forall>targets rq w. case sdk_Execute lib targets rq w of
        (Inl e, w') \<Rightarrow> ledger_of w' = ledger_of w
      | (Inr txid, w') \<Rightarrow>
          (\<exists>s. ledger_of w' = transaction s (xr_Fcn rq) (map bytes_str (xr_Args rq)) (ledger_of w)))"

text \<open>The manager calls the chaincode through \<open>FClient\<close>.\<close>

definition client_InvokeChainCode ::
  "'w sdk_lib \<Rightarrow> courier_config \<Rightarrow> string \<Rightarrow> string list \<Rightarrow> 'w \<Rightarrow> goerr option \<times> 'w" where
  "client_InvokeChainCode lib cfg f args w =
     (case FClient_InvokeChainCode lib cfg f args w of
        (Inl e, w) \<Rightarrow> (Some e, w)
      | (Inr txid, w) \<Rightarrow> (None, w))"

definition fabric_env :: "'w sdk_lib \<Rightarrow> courier_config \<Rightarrow> ('d, 'f, 'w) tx_env \<Rightarrow> bool" where
  "fabric_env lib cfg env \<longleftrightarrow> te_InvokeChainCode env = client_InvokeChainCode lib cfg"

lemma client_invokes:
  assumes "peer_law lib ledger_of" "client_InvokeChainCode lib cfg f args w = (r, w')"
  shows "(r \<noteq> None \<longrightarrow> ledger_of w' = ledger_of w) \<and>
    (r = None \<longrightarrow> (\<exists>s. ledger_of w' = transaction s f args (ledger_of w)))"
proof -
  let ?rq = "\<lparr> xr_ChaincodeID = kc_chaincodeID cfg, xr_Fcn = f, xr_Args = packArgs args \<rparr>"
  have "map bytes_str (packArgs args) = args" by (simp add: packArgs_def comp_def)
  moreover have "case sdk_Execute lib (kc_Targets cfg) ?rq w of
      (Inl e, w') \<Rightarrow> ledger_of w' = ledger_of w
    | (Inr txid, w') \<Rightarrow> (\<exists>s. ledger_of w' = transaction s (xr_Fcn ?rq) (map bytes_str (xr_Args ?rq)) (ledger_of w))"
    by (rule assms(1) [unfolded peer_law_def, rule_format])
  ultimately show ?thesis using assms(2)
    by (auto simp: client_InvokeChainCode_def FClient_InvokeChainCode_def split: prod.splits sum.splits)
qed

text \<open>The ledger after the commit of a contract.\<close>

definition committed :: "string \<Rightarrow> string \<Rightarrow> contract_core \<Rightarrow> string \<Rightarrow> string \<Rightarrow> i64 \<Rightarrow> ledger \<Rightarrow> ledger" where
  "committed i r core A B X L =
     L(A \<mapsto> Raw (itoa (balance L A - X)), B \<mapsto> Raw (itoa (balance L B + X)), i \<mapsto> stored_contract Finished i r core)"

lemma commit_again:
  assumes "i \<noteq> ''outchain''"
  shows "transaction s ''commit'' [i, r'] (committed i r core A B X L) = committed i r core A B X L"
proof -
  have "regularCommit (on_ledger s (committed i r core A B X L)) [i, r'] [] =
      (Ok (Success (Some (Raw ''replicate call commit''))), [])"
    by (rule replicate_commit [where c = "PrecommitContract \<lparr> p_Status = Finished, p_ContractID = i, p_Receipt = r, p_Core = core \<rparr>"])
      (simp_all add: committed_def stored_contract_def)
  then show ?thesis using assms by (simp add: transaction_def chaincode_Invoke_def commit_regular)
qed


text \<open>A network of one peer, whose world is the ledger.\<close>

definition demo_sdk :: "ledger sdk_lib" where
  "demo_sdk = \<lparr> sdk_New = \<lambda>_. Ok (), sdk_Channel = \<lambda>_ _. Ok (), sdk_Ledger = \<lambda>_ _. Ok (),
     sdk_Execute = \<lambda>_ rq L. (Inr ''tx'', transaction demo_stub (xr_Fcn rq) (map bytes_str (xr_Args rq)) L),
     sdk_QueryBlock = \<lambda>_ L. (Inl (ErrNew ''Entry not found in index''), L) \<rparr>"

definition demo_fabric :: courier_config where
  "demo_fabric = \<lparr> kc_ConfigPath = ''config.yaml'', kc_Targets = [''peer0''], kc_FilterEvents = [''precommit'', ''commit''],
     kc_user = ''Admin'', kc_channelID = ''mychannel'', kc_chaincodeID = ''mycc'', kc_dataDir = ''data'' \<rparr>"

definition demo_courier_env :: "(bytes, unit, ledger) tx_env" where
  "demo_courier_env = \<lparr> te_chain = demo_lib,
     te_hub = (te_hub demo_env)\<lparr>HexToHash := str_bytes\<rparr>, te_store = num_store,
     te_sign = \<lambda>_. Inr demo_sig, te_Send = \<lambda>m w. (None, w),
     te_InvokeChainCode = client_InvokeChainCode demo_sdk demo_fabric, te_StatusEq = \<lambda>_. (),
     te_hash_String = \<lambda>h. ''0x'' @ bytes_str h, te_enc_rtx = \<lambda>_. [], te_dec_rtx = \<lambda>_. zero_rtxdata \<rparr>"

lemma demo_courier_laws:
  "peer_law demo_sdk (\<lambda>L. L)" "fabric_env demo_sdk demo_fabric demo_courier_env"
  by (auto simp: peer_law_def demo_sdk_def fabric_env_def demo_courier_env_def)

definition demo_stored :: ledger where
  "demo_stored = demo_ledger(''c'' \<mapsto> stored_contract Init ''c'' [] demo_core)"

definition demo_told :: "crosstx_receipt list" where
  "demo_told = [\<lparr> cr_CrossID = ''c'', cr_Receipt = ''r1'', cr_Sequence = 0 \<rparr>,
     \<lparr> cr_CrossID = ''c'', cr_Receipt = ''r2'', cr_Sequence = 0 \<rparr>]"


section \<open>Requests of the other chain\<close>

lemma parse_uint_error: "parse_uint acc s = Inl ErrRange \<Longrightarrow> parse_uint acc (s @ t) = Inl ErrRange"
  by (induction acc s rule: parse_uint.induct) (auto split: option.splits if_splits)

lemma parse_uint_big: "n \<ge> 2 ^ 64 \<Longrightarrow> parse_uint 0 (show_nat n) = Inl ErrRange"
proof (induction n rule: less_induct)
  case (less n)
  then have s: "show_nat n = show_nat (n div 10) @ [digit_char (n mod 10)]"
    by (subst show_nat.simps) simp
  show ?case
  proof (cases "n div 10 \<ge> 2 ^ 64")
    case True
    then have "parse_uint 0 (show_nat (n div 10)) = Inl ErrRange" using less by simp
    then show ?thesis unfolding s by (rule parse_uint_error)
  next
    case False
    then have "parse_uint 0 (show_nat (n div 10)) = Inr (n div 10)" by (intro parse_uint_show_nat) simp
    moreover have "parse_uint acc cs = Inr m \<Longrightarrow> parse_uint acc (cs @ [c]) = parse_uint m [c]" for acc m cs c
      by (induction acc cs rule: parse_uint.induct) (auto split: option.splits if_splits)
    ultimately show ?thesis using less.prems unfolding s by simp
  qed
qed

lemma show_nat_sign: "\<exists>c cs. show_nat n = c # cs \<and> c \<noteq> CHR ''-'' \<and> c \<noteq> CHR ''+''"
proof -
  obtain d where "d < 10" "hd (show_nat n) = digit_char d" using hd_show_nat by blast
  then show ?thesis using digit_char_sign [of d] by (cases "show_nat n") auto
qed

lemma parse_signed_big:
  assumes "if neg then m > 2 ^ 63 else m \<ge> 2 ^ 63"
  shows "snd (parse_signed neg (show_nat m)) \<noteq> None"
proof (cases "m < 2 ^ 64")
  case True
  have "show_nat m \<noteq> []" using show_nat_sign [of m] by auto
  then show ?thesis using parse_uint_show_nat [OF True] assms by (cases neg) (simp_all add: parse_signed_def)
next
  case False
  have "show_nat m \<noteq> []" using show_nat_sign [of m] by auto
  then show ?thesis using parse_uint_big [of m] False by (simp add: parse_signed_def not_less)
qed

text \<open>\<open>(*big.Int).String\<close>, read by \<open>Atoi\<close>.\<close>

definition big_text :: "int \<Rightarrow> string" where
  "big_text n = (if n < 0 then CHR ''-'' # show_nat (nat (- n)) else show_nat (nat n))"

lemma atoi_big_text:
  "- (2 ^ 63) \<le> n \<Longrightarrow> n < 2 ^ 63 \<Longrightarrow> atoi (big_text n) = (word_of_int n, None)"
  "\<not> (- (2 ^ 63) \<le> n \<and> n < 2 ^ 63) \<Longrightarrow> snd (atoi (big_text n)) \<noteq> None"
proof -
  show "atoi (big_text n) = (word_of_int n, None)" if "- (2 ^ 63) \<le> n" "n < 2 ^ 63"
  proof -
    have "sint (word_of_int n :: i64) = n" using that by (simp add: signed_of_int signed_take_bit_int_eq_self)
    then have "itoa (word_of_int n) = big_text n" by (simp only: itoa_def big_text_def)
    then show ?thesis using atoi_itoa [of "word_of_int n"] by simp
  qed
  show "snd (atoi (big_text n)) \<noteq> None" if out: "\<not> (- (2 ^ 63) \<le> n \<and> n < 2 ^ 63)"
  proof (cases "n < 0")
    case True
    then have "big_text n = CHR ''-'' # show_nat (nat (- n))" "nat (- n) > 2 ^ 63" using out by (auto simp: big_text_def)
    then show ?thesis using parse_signed_big [of True "nat (- n)"] by (simp add: atoi_def)
  next
    case False
    then have n: "big_text n = show_nat (nat n)" "nat n \<ge> 2 ^ 63" using out by (auto simp: big_text_def)
    obtain c cs where "show_nat (nat n) = c # cs" "c \<noteq> CHR ''-''" "c \<noteq> CHR ''+''" using show_nat_sign by blast
    then have "atoi (big_text n) = parse_signed False (show_nat (nat n))" by (simp add: n(1) atoi_def)
    then show ?thesis using parse_signed_big [of False "nat n"] n(2) by simp
  qed
qed

lemma outchain_ledger:
  assumes "L A = Some a" "L B = Some b"
  shows "transaction s ''commit'' [''outchain'', i, ''invoke'', A, B, big_text n] L =
    (if - (2 ^ 63) \<le> n \<and> n < 2 ^ 63
     then L(A \<mapsto> Raw (itoa (balance L A - word_of_int n)), B \<mapsto> Raw (itoa (balance L B + word_of_int n)))
     else L)"
proof (cases "- (2 ^ 63) \<le> n \<and> n < 2 ^ 63")
  case True
  then show ?thesis using transaction_outchain [OF assms] atoi_big_text(1) by simp
next
  case False
  obtain X e where x: "atoi (big_text n) = (X, Some e)" using atoi_big_text(2) [OF False] by (metis not_None_eq prod.collapse)
  have "transaction s ''commit'' [''outchain'', i, ''invoke'', A, B, big_text n] L = L"
    using assms x by (simp add: transaction_def chaincode_Invoke_def commit_def outchainCommit_def doInvoke_def Let_def)
  then show ?thesis unfolding if_not_P [OF False] .
qed

text \<open>A request of the other chain: with the flag set, the charge goes from account \<open>a\<close> to the sender's account,
  in one transaction of the chaincode, or nothing happens. A charge that is no 64-bit number moves nothing, though
  the receipt for it has been stored.\<close>

theorem request_served:
  assumes "peer_law lib ledger_of" "fabric_env lib cfg env" "tm_outchain t"
    and "ledger_of w = L" "L ''a'' = Some a" "L (ctx_From (ctx_Data req)) = Some b"
  shows "let n = ctx_Charge (ctx_Data req); L' = ledger_of (snd (receive env (RecvCtx req) (t, w))) in
    L' = L \<or> (- (2 ^ 63) \<le> n \<and> n < 2 ^ 63 \<and>
      L' = L(''a'' \<mapsto> Raw (itoa (balance L ''a'' - word_of_int n)),
             ctx_From (ctx_Data req) \<mapsto> Raw (itoa (balance L (ctx_From (ctx_Data req)) + word_of_int n))))"
proof -
  let ?n = "ctx_Charge (ctx_Data req)" and ?from = "ctx_From (ctx_Data req)"
  let ?req = "req\<lparr>ctx_Data := (ctx_Data req)\<lparr>ctx_To := ''a''\<rparr>\<rparr>"
  let ?args = "[''outchain'', te_hash_String env (CrossTransaction_ID ?req), ''invoke'', ''a'', ?from, big_text ?n]"
  obtain e w' where w': "client_InvokeChainCode lib cfg ''commit'' ?args w = (e, w')" by fastforce
  have "snd (receive env (RecvCtx req) (t, w)) = w'"
    using assms(2,3) w' by (auto simp: receive_def processOutChainCtxReq_def fabric_env_def big_text_def Let_def split: prod.splits if_splits)
  moreover have "ledger_of w' = L \<or> (\<exists>s. ledger_of w' = transaction s ''commit'' ?args L)"
    using client_invokes [OF assms(1) w'] assms(4) by (cases e) auto
  ultimately show ?thesis using outchain_ledger [OF assms(5,6)] by (auto simp: Let_def)
qed

lemma request_served_witness:
  defines "req \<equiv> NewCrossTransaction 0 10 ''b'' [] SimpleChain Fabric (replicate 32 0) (replicate 32 0) (replicate 32 0) []"
  defines "L' \<equiv> snd (receive demo_courier_env (RecvCtx req) ((NewTxManager [])\<lparr>tm_outchain := True\<rparr>, demo_ledger))"
  shows "L' = demo_ledger \<or> L' = demo_ledger(''a'' \<mapsto> Raw (itoa 90), ''b'' \<mapsto> Raw (itoa 210))"
  using request_served [OF demo_courier_laws, of "(NewTxManager [])\<lparr>tm_outchain := True\<rparr>" demo_ledger demo_ledger
      "Raw ''100''" req "Raw ''200''"]
  by (auto simp: req_def L'_def NewCrossTransaction_def uncached_def demo_ledger_simps Let_def)

section \<open>From a precommit to the ledger\<close>


definition demo_contract_args :: "string list" where
  "demo_contract_args = [''0x1'', ''5'', ''d'', ''invoke'', ''a b 10'']"

definition demo_event :: json where
  "demo_event = Contract_json (PrecommitContract \<lparr> p_Status = Init, p_ContractID = ''{}tx1'', p_Receipt = [],
     p_Core = precommit_core demo_contract_args ''admin'' \<rparr>)"

definition demo_courier_sync :: "(bytes, unit, ledger) sync_env" where
  "demo_courier_sync = \<lparr> se_tx = demo_courier_env, se_pb = se_pb (demo_sync False),
     se_json = \<lambda>_. Inr demo_event, se_Query = FClient_QueryBlockByNum demo_sdk,
     se_enc_num = \<lambda>n. replicate (unat n) 0, se_dec_num = \<lambda>b. of_nat (length b), se_hook = False \<rparr>"


end
