(* ===== verification/Hub.thy ===== *)
theory Hub
  imports Courier IndexDB Chainview Swarm
begin

text \<open>
  The hub as a program (cmd/crosshub/start.go, init.go, config.go, api/crossapi.go, api/api_backend.go): the queries
  of the API, how \<open>start\<close> puts a hub together, what a signal does to it, and how a hub is set up. At the end a
  receipt on its way from the contract of one chain to the ledger of the other. The RPC server, the packed files and
  \<open>prettyjson\<close> are parameters.
\<close>

section \<open>Queries of the API\<close>

record rpc_tx =
  rpc_CTxId :: hash
  rpc_TxHash :: hash
  rpc_BlockHash :: hash
  rpc_Value :: int
  rpc_Charge :: int
  rpc_From :: string
  rpc_To :: string
  rpc_Origin :: u64
  rpc_Purpose :: u64
  rpc_Payload :: bytes
  rpc_V :: int
  rpc_R :: int
  rpc_S :: int

definition newRPCCrossTransaction :: "cross_tx option \<Rightarrow> rpc_tx option" where
  "newRPCCrossTransaction tx =
     (case tx of
        None \<Rightarrow> None
      | Some tx \<Rightarrow>
          let d = ctx_Data tx in
          Some \<lparr> rpc_CTxId = CrossTransaction_ID tx, rpc_TxHash = ctx_TxHash d, rpc_BlockHash = ctx_BlockHash d,
            rpc_Value = ctx_Value d, rpc_Charge = ctx_Charge d, rpc_From = ctx_From d, rpc_To = ctx_To d,
            rpc_Origin = ucast (ctx_Origin d), rpc_Purpose = ucast (ctx_Purpose d), rpc_Payload = ctx_Payload d,
            rpc_V = ctx_V d, rpc_R = ctx_R d, rpc_S = ctx_S d \<rparr>)"

record 'd query_api =
  qa_remoteDb :: "'d index_db"
  qa_localDb :: "'d index_db"

definition NewPublicCrossQueryApi :: "'d index_db \<Rightarrow> 'd index_db \<Rightarrow> 'd query_api" where
  "NewPublicCrossQueryApi db idb = \<lparr> qa_remoteDb = db, qa_localDb = idb \<rparr>"

type_synonym ctx_pages = "u8 \<rightharpoonup> cross_tx list"

definition QueryByPage ::
    "('d, 'f) storm_lib \<Rightarrow> 'd query_api \<Rightarrow> i64 \<Rightarrow> i64 \<Rightarrow> i64 \<Rightarrow> i64 \<Rightarrow> ctx_pages \<times> ctx_pages" where
  "QueryByPage lib s localSize localPage remoteSize remotePage =
     (let orderBy = [PriceIndex] in
      ([2 \<mapsto> IndexDB_Query lib localSize localPage orderBy False [] (qa_localDb s)],
       [5 \<mapsto> IndexDB_Query lib localSize localPage orderBy False [] (qa_remoteDb s)]))"

text \<open>Go's \<open>append\<close> to an entry of a map that may be missing, for each transaction of each status. A map is ranged over
  in any order; its entries do not meet.\<close>

type_synonym rpc_page = "u8 \<rightharpoonup> rpc_tx option list"

definition append_entry :: "u8 \<Rightarrow> cross_tx \<Rightarrow> rpc_page \<Rightarrow> rpc_page" where
  "append_entry st tx m =
     m(st \<mapsto> (case m st of None \<Rightarrow> [] | Some l \<Rightarrow> l) @ [newRPCCrossTransaction (Some tx)])"

definition page_of :: "ctx_pages \<Rightarrow> rpc_page" where
  "page_of pages = (\<lambda>st. case pages st of None \<Rightarrow> None | Some txs \<Rightarrow> fold (append_entry st) txs Map.empty st)"

definition CtxContentByPage ::
    "('d, 'f) storm_lib \<Rightarrow> 'd query_api \<Rightarrow> i64 \<Rightarrow> i64 \<Rightarrow> i64 \<Rightarrow> i64 \<Rightarrow> string \<rightharpoonup> rpc_page" where
  "CtxContentByPage lib s localSize localPage remoteSize remotePage =
     (let (locals, remotes) = QueryByPage lib s localSize localPage remoteSize remotePage in
      [''local'' \<mapsto> page_of locals, ''remote'' \<mapsto> page_of remotes])"

lemma fold_append_entry:
  "fold (append_entry st) txs m st =
     (if txs = [] then m st
      else Some ((case m st of None \<Rightarrow> [] | Some l \<Rightarrow> l) @ map (\<lambda>tx. newRPCCrossTransaction (Some tx)) txs))"
  by (induction txs arbitrary: m) (auto simp: append_entry_def split: option.splits)

text \<open>What a client reads of the answer: a missing entry is the empty page.\<close>

definition listed :: "(string \<rightharpoonup> rpc_page) \<Rightarrow> string \<Rightarrow> u8 \<Rightarrow> rpc_tx option list" where
  "listed content k st =
     (case content k of None \<Rightarrow> [] | Some page \<Rightarrow> (case page st of None \<Rightarrow> [] | Some l \<Rightarrow> l))"

lemma listed_pages:
  "listed (CtxContentByPage lib s ls lp rs rp) ''local'' 2 =
     map (\<lambda>tx. newRPCCrossTransaction (Some tx)) (IndexDB_Query lib ls lp [PriceIndex] False [] (qa_localDb s))"
  "listed (CtxContentByPage lib s ls lp rs rp) ''remote'' 5 =
     map (\<lambda>tx. newRPCCrossTransaction (Some tx)) (IndexDB_Query lib ls lp [PriceIndex] False [] (qa_remoteDb s))"
  by (simp_all add: listed_def CtxContentByPage_def QueryByPage_def page_of_def fold_append_entry Let_def)

text \<open>What storm documents of \<open>Limit\<close> and \<open>Skip\<close>: a window of what the query finds without them.\<close>

definition window_law :: "('d, 'f) storm_lib \<Rightarrow> bool" where
  "window_law lib \<longleftrightarrow>
     (\<forall>order rev n k filters d. sint n > 0 \<longrightarrow> sint k \<ge> 0 \<longrightarrow>
        db_Find lib \<lparr> q_order = order, q_reverse = rev, q_limit = Some n, q_skip = Some k \<rparr> filters d =
        take (nat (sint n)) (drop (nat (sint k))
          (db_Find lib \<lparr> q_order = order, q_reverse = rev, q_limit = None, q_skip = None \<rparr> filters d)))"

lemma windows_cover: "concat (map (\<lambda>p. take k (drop (k * p) xs)) [0..<n]) = take (k * n) xs"
proof (induction n)
  case (Suc n)
  have "take (k * Suc n) xs = take (k * n) xs @ take k (drop (k * n) xs)"
    by (metis mult_Suc_right add.commute take_add)
  with Suc show ?case by simp
qed simp

lemma page_window:
  assumes "window_law lib" "0 < sz" "sz * (p + 1) < 2 ^ 63"
  shows "IndexDB_Query lib (word_of_nat sz) (word_of_nat (p + 1)) ord False fs d =
    take sz (drop (sz * p) (IndexDB_Query lib 0 0 ord False fs d))"
proof -
  have small: "sz < 2 ^ 63" "p + 1 < 2 ^ 63" "sz * p < 2 ^ 63"
  proof -
    have "sz * 1 \<le> sz * (p + 1)" "1 * (p + 1) \<le> sz * (p + 1)" using assms(2) by (intro mult_le_mono; simp)+
    then show "sz < 2 ^ 63" "p + 1 < 2 ^ 63" "sz * p < 2 ^ 63" using assms(3) by simp_all
  qed
  have s: "sint (word_of_nat n :: i64) = int n" if "n < 2 ^ 63" for n
    using that by (simp add: signed_of_nat signed_take_bit_int_eq_self)
  have "(word_of_nat sz :: i64) * (word_of_nat (p + 1) - 1) = word_of_nat (sz * p)" by simp
  then show ?thesis
    using assms(1,2) s [OF small(1)] s [OF small(2)] s [OF small(3)]
    unfolding IndexDB_Query_def window_law_def
    by (simp add: take_map drop_map nat_mult_distrib)
qed


text \<open>A database of rows that pages as documented.\<close>

definition paged_storm :: "(ctx_row list, unit) storm_lib" where
  "paged_storm = \<lparr> db_Begin = \<lambda>_. None, db_One = \<lambda>d f k. Inl (ErrNew ''not found''), db_Save = \<lambda>r d. Inr (r # d),
     db_Update = \<lambda>r d. Inr d, db_DeleteStruct = \<lambda>r d. Inr d, db_Commit = Inr,
     db_Find = \<lambda>q fs d.
       let found = (case q_skip q of None \<Rightarrow> d | Some k \<Rightarrow> drop (nat (sint k)) d) in
       (case q_limit q of None \<Rightarrow> found | Some n \<Rightarrow> take (nat (sint n)) found),
     db_Count = \<lambda>fs d. int (length d), db_Set = \<lambda>b k v d. Inr d, db_Get = \<lambda>b k d. Inr 0,
     evict = \<lambda>m. m, float_of_rat = \<lambda>q. q \<rparr>"

definition demo_api :: "ctx_row list query_api" where
  "demo_api = NewPublicCrossQueryApi
     \<lparr> idb_chainID = 5, idb_db = [zero_row, zero_row, zero_row], idb_cache = None \<rparr>
     \<lparr> idb_chainID = 2, idb_db = [zero_row], idb_cache = None \<rparr>"


section \<open>Setting up a repository\<close>

text \<open>\<open>box\<close> are the packed files in the order of the walk; \<open>mkdir p\<close> is the error of making the directory of \<open>p\<close> when
  it is missing. An error ends the walk.\<close>

fun Initialize ::
    "file_env \<Rightarrow> (string \<Rightarrow> goerr option) \<Rightarrow> (string \<times> bytes) list \<Rightarrow> string \<Rightarrow> 'r tool_world \<Rightarrow>
      unit outcome \<times> 'r tool_world" where
  "Initialize fs mkdir [] repoRoot w = (Ok (), w)"
| "Initialize fs mkdir ((s, data) # box) repoRoot w =
     (let p = path_join repoRoot s in
      case mkdir p of
        Some e \<Rightarrow> (Err e, w)
      | None \<Rightarrow>
          (case write_file fs p data w of
             (Ok _, w) \<Rightarrow> Initialize fs mkdir box repoRoot w
           | r \<Rightarrow> r))"

text \<open>\<open>input\<close> is the line the user types when asked.\<close>

definition initialize ::
    "file_env \<Rightarrow> (string \<Rightarrow> goerr option) \<Rightarrow> (string \<times> bytes) list \<Rightarrow> string \<Rightarrow> (string \<Rightarrow> goerr + string) \<Rightarrow> string \<Rightarrow>
      string \<Rightarrow> 'r tool_world \<Rightarrow> unit outcome \<times> 'r tool_world" where
  "initialize fs mkdir box env_dir expand repo input w =
     (case PathRootWithDefault env_dir expand repo of
        Panic p \<Rightarrow> (Panic p, w)
      | Err e \<Rightarrow> (Err e, w)
      | Ok repoRoot \<Rightarrow>
          if Initialized repoRoot w then
            if input = ''Y'' \<or> input = ''y'' then Initialize fs mkdir box repoRoot w else (Ok (), w)
          else Initialize fs mkdir box repoRoot w)"

text \<open>The files of a pack under a root; the last of a name counts.\<close>

fun packed_files :: "string \<Rightarrow> (string \<times> bytes) list \<Rightarrow> string \<rightharpoonup> bytes" where
  "packed_files repoRoot [] = Map.empty"
| "packed_files repoRoot ((s, data) # box) = [path_clean (path_join repoRoot s) \<mapsto> data] ++ packed_files repoRoot box"

lemma packed_files_member: "(s, data) \<in> set box \<Longrightarrow> packed_files repoRoot box (path_clean (path_join repoRoot s)) \<noteq> None"
  by (induction box) (auto simp: map_add_def split: option.splits)

lemma Initialize_files:
  assumes "Initialize fs mkdir box repoRoot w = (Ok u, w')"
  shows "tw_files w' = tw_files w ++ packed_files repoRoot box"
  using assms
proof (induction box arbitrary: w)
  case (Cons f box)
  obtain s data where f: "f = (s, data)" by fastforce
  obtain w1 where "write_file fs (path_join repoRoot s) data w = (Ok (), w1)" "Initialize fs mkdir box repoRoot w1 = (Ok u, w')"
      "tw_files w1 = (tw_files w)(path_clean (path_join repoRoot s) \<mapsto> data)"
    using Cons.prems unfolding f by (auto simp: write_file_def Let_def split: option.splits)
  then have "tw_files w' = (tw_files w)(path_clean (path_join repoRoot s) \<mapsto> data) ++ packed_files repoRoot box"
    using Cons.IH by metis
  then show ?case by (auto simp: f map_add_def split: option.splits)
qed simp

text \<open>Setting up a repository. When \<open>initialize\<close> reports no error, either a configuration was there and the
  user declined, and no file has changed, or every packed file lies under the root with its content and every other
  file is as before; with \<open>crosshub.toml\<close> in the pack the repository then counts as initialised.\<close>

theorem initialize_files:
  assumes "PathRootWithDefault env_dir expand repo = Ok repoRoot"
    and "initialize fs mkdir box env_dir expand repo input w = (Ok u, w')"
  shows "if Initialized repoRoot w \<and> input \<noteq> ''Y'' \<and> input \<noteq> ''y'' then w' = w
    else (\<forall>f. tw_files w' f = (case packed_files repoRoot box f of None \<Rightarrow> tw_files w f | Some data \<Rightarrow> Some data))
      \<and> (''crosshub.toml'' \<in> fst ` set box \<longrightarrow> Initialized repoRoot w')"
proof (cases "Initialized repoRoot w \<and> input \<noteq> ''Y'' \<and> input \<noteq> ''y''")
  case False
  then have "Initialize fs mkdir box repoRoot w = (Ok u, w')"
    using assms by (simp add: initialize_def split: if_splits)
  then have files: "tw_files w' = tw_files w ++ packed_files repoRoot box" by (rule Initialize_files)
  have "packed_files repoRoot box (path_clean (path_join repoRoot ''crosshub.toml'')) \<noteq> None"
    if "''crosshub.toml'' \<in> fst ` set box"
    using that packed_files_member [of "''crosshub.toml''" _ box repoRoot] by force
  then have "Initialized repoRoot w'" if "''crosshub.toml'' \<in> fst ` set box"
    using that by (auto simp: Initialized_def files map_add_def split: option.splits)
  with False show ?thesis by (auto simp: files map_add_def)
qed (use assms in \<open>auto simp: initialize_def\<close>)

definition demo_box :: "(string \<times> bytes) list" where
  "demo_box = [(''api'', [1]), (''crosshub.toml'', [2])]"

definition demo_open_files :: file_env where
  "demo_open_files = \<lparr> fe_create = \<lambda>_. None, fe_write = \<lambda>_. None \<rparr>"

definition demo_bare_world :: "unit tool_world" where
  "demo_bare_world = \<lparr> tw_files = Map.empty, tw_rand = (), tw_now = 0 \<rparr>"

lemma initialize_files_witness:
  "\<exists>w'. initialize demo_open_files (\<lambda>_. None) demo_box ''r'' Inr [] [] demo_bare_world = (Ok (), w') \<and> Initialized ''r'' w'"
proof -
  have root: "PathRootWithDefault ''r'' Inr [] = Ok ''r''" by (simp add: PathRootWithDefault_def PathRoot_def)
  have new: "\<not> Initialized ''r'' demo_bare_world" by (simp add: Initialized_def demo_bare_world_def)
  obtain w' where w': "initialize demo_open_files (\<lambda>_. None) demo_box ''r'' Inr [] [] demo_bare_world = (Ok (), w')"
    using new by (simp add: initialize_def root demo_box_def write_file_def demo_open_files_def)
  from initialize_files [OF root w'] new have "Initialized ''r'' w'" by (simp add: demo_box_def)
  with w' show ?thesis by blast
qed

section \<open>Showing the configuration\<close>

text \<open>\<open>members\<close> is \<open>Bytes\<close> read back into a map, \<open>pretty\<close> is \<open>prettyjson.Marshal\<close>; a missing entry is a nil value.\<close>

definition showConfig ::
    "string \<Rightarrow> (string \<Rightarrow> goerr + string) \<Rightarrow> (bytes \<Rightarrow> goerr + hub_config) \<Rightarrow> (hub_config \<Rightarrow> goerr + json) \<Rightarrow>
      (hub_config \<Rightarrow> goerr + (string \<rightharpoonup> json)) \<Rightarrow> (json \<Rightarrow> goerr + string) \<Rightarrow> string \<Rightarrow> string list \<Rightarrow> 'r tool_world \<Rightarrow>
      string outcome" where
  "showConfig env_dir expand viper whole members pretty repo args w =
     bind_outcome (if repo = [] then PathRoot env_dir expand else Ok repo) (\<lambda>repoRoot.
     bind_outcome (UnmarshalConfig viper repoRoot w) (\<lambda>cfg.
       case args of
         [] \<Rightarrow> bind_outcome (of_result id (whole cfg)) (\<lambda>j. of_result id (pretty j))
       | k # _ \<Rightarrow>
           bind_outcome (of_result id (members cfg)) (\<lambda>m.
           of_result id (pretty (case m k of None \<Rightarrow> JNull | Some v \<Rightarrow> v)))))"

section \<open>Running a hub\<close>

text \<open>What runs beside the swarm: a view of a chain in role 1, a courier in any other role.\<close>

datatype ('v, 'd) hub_side = HubView "'v viewer" | HubCourier "'d courier_handler"

text \<open>\<open>load\<close> is \<open>repo.Load\<close>, \<open>swarm_up\<close> and \<open>new_view\<close> are the constructors of Swarm.thy and Chainview.thy with what they
  dial and open. \<open>Fatalf\<close> in the courier's constructors ends the process.\<close>

definition start ::
    "string outcome \<Rightarrow> (string \<Rightarrow> 'w \<Rightarrow> ('k, 'l, 'p, 'i) hub_repo outcome \<times> 'w) \<Rightarrow>
      (('k, 'l, 'p, 'i) hub_repo \<Rightarrow> 'w \<Rightarrow> goerr option \<times> 'w) \<Rightarrow> (('k, 'l, 'p, 'i) hub_repo \<Rightarrow> goerr + 'v viewer) \<Rightarrow>
      ('v, 'f, 'w) view_env \<Rightarrow> 'u sdk_lib \<Rightarrow> (string \<Rightarrow> goerr + 'd) \<Rightarrow> string \<Rightarrow> ('d, 'g, 'u) sync_env \<Rightarrow> 'w \<Rightarrow>
      (('v, 'd) hub_side outcome \<times> 'w) exits" where
  "start rootPath load swarm_up new_view venv lib open_storm tempDir senv w =
     (case rootPath of
        Panic p \<Rightarrow> Goes (Panic p, w)
      | Err e \<Rightarrow> Goes (Err (ErrWrap ''get repo path'' e), w)
      | Ok repoRoot \<Rightarrow>
     (case load repoRoot w of
        (Panic p, w) \<Rightarrow> Goes (Panic p, w)
      | (Err e, w) \<Rightarrow> Goes (Err (ErrWrap ''repo load'' e), w)
      | (Ok repo, w) \<Rightarrow>
     (case swarm_up repo w of
        (Some e, w) \<Rightarrow> Goes (Err e, w)
      | (None, w) \<Rightarrow>
          if hc_Role (hr_Config repo) = 1 then
            (case new_view repo of
               Inl e \<Rightarrow> Goes (Err e, w)
             | Inr v \<Rightarrow>
                 (case viewer_Start venv [] (v, w) of
                    Panic p \<Rightarrow> Goes (Panic p, w)
                  | Err e \<Rightarrow> Goes (Err e, w)
                  | Ok (v, w) \<Rightarrow> Goes (Ok (HubView v), w)))
          else
            (let fabric = hc_Fabric (hr_Config repo) in
             bind_exits (InitConfig fabric) (\<lambda>cfg.
             bind_exits (Handler_New lib open_storm tempDir senv cfg) (\<lambda>r.
               case r of
                 Inl e \<Rightarrow> Goes (Err e, w)
               | Inr h \<Rightarrow>
                   Goes (bind_outcome (Handler_Start senv (SetOutChainFlag (fc_Outchain fabric) h))
                     (\<lambda>h. Ok (HubCourier h)), w)))))))"

text \<open>SIGTERM or SIGINT: the view is stopped; the courier's \<open>Stop\<close> is deferred, and \<open>os.Exit\<close> runs nothing that is
  deferred. Both end with status 0.\<close>

definition interrupt :: "('v, 'f, 'w) view_env \<Rightarrow> ('v, 'd) hub_side \<Rightarrow> ('v, 'd) hub_side" where
  "interrupt venv side =
     (case side of HubView v \<Rightarrow> HubView (viewer_Stop venv v) | HubCourier h \<Rightarrow> HubCourier h)"

text \<open>What storm promises of \<open>Set\<close> and \<open>Get\<close>.\<close>

definition config_law :: "('d, 'f) storm_lib \<Rightarrow> bool" where
  "config_law lib \<longleftrightarrow> (\<forall>b k v d. \<exists>d'. db_Set lib b k v d = Inr d' \<and> db_Get lib b k d' = Inr v)"

text \<open>An interrupted hub. A view is found again at the height it was at: the one \<open>New\<close> makes on the database left
  behind starts where the interrupted one had got to. A courier is not stopped at all: its database is left open.\<close>

theorem interrupted_hub:
  assumes "config_law (ve_storm venv)"
    and "interrupt venv (HubView v) = HubView v'" "open_db ''chain2'' = idb_db (vw_LocalStore v')"
  shows "vw_currentHeight (NewViewer venv open_db (vw_Address v)) = vw_currentHeight v \<and> vw_cancelled v'
    \<and> interrupt venv (HubCourier h) = HubCourier h"
proof -
  obtain d' where "db_Set (ve_storm venv) ''config'' ''currentHeight'' (vw_currentHeight v) (idb_db (vw_LocalStore v)) = Inr d'"
      "db_Get (ve_storm venv) ''config'' ''currentHeight'' d' = Inr (vw_currentHeight v)"
    using assms(1) unfolding config_law_def by blast
  moreover from this have "v' = v\<lparr>vw_LocalStore := (vw_LocalStore v)\<lparr>idb_db := d'\<rparr>, vw_cancelled := True\<rparr>"
    using assms(2) by (simp add: interrupt_def viewer_Stop_def IndexDB_Set_def)
  moreover have "show_nat 2 = ''2''" by code_simp
  ultimately show ?thesis
    using assms(3)
    by (simp add: NewViewer_def NewIndexDB_def IndexDB_Get_def interrupt_def Let_def)
qed

definition demo_height_storm :: "(u64, unit) storm_lib" where
  "demo_height_storm = \<lparr> db_Begin = \<lambda>_. None, db_One = \<lambda>d f k. Inl (ErrNew ''not found''), db_Save = \<lambda>r d. Inr d,
     db_Update = \<lambda>r d. Inr d, db_DeleteStruct = \<lambda>r d. Inr d, db_Commit = Inr, db_Find = \<lambda>q fs d. [],
     db_Count = \<lambda>fs d. 0, db_Set = \<lambda>b k v d. Inr v, db_Get = \<lambda>b k d. Inr d, evict = \<lambda>m. m, float_of_rat = \<lambda>q. q \<rparr>"

definition demo_height_env :: "(u64, unit, nat) view_env" where
  "demo_height_env = \<lparr> ve_lib = demo_lib, ve_storm = demo_height_storm, ve_sign = \<lambda>_. Inr demo_sig,
     ve_makerTx = [1], ve_takerTx = [2], ve_makerFinish = [3],
     ve_unpack_maker = ve_unpack_maker (demo_view True), ve_unpack_taker = ve_unpack_taker (demo_view True),
     ve_unpack_finish = ve_unpack_finish (demo_view True), ve_addr_String = \<lambda>_. [],
     ve_blockNumber = \<lambda>w. (Inr w, w), ve_FilterLogs = \<lambda>from to a w. (Inr [], w),
     ve_CallContract = \<lambda>a d n w. (Inl (ErrNew ''reverted''), w), ve_pack = \<lambda>f r. Inr [],
     ve_PendingNonce = \<lambda>w. (Inr 0, w), ve_tx_Hash = \<lambda>_. [], ve_tx_WithSignature = \<lambda>tx sig. Inr tx,
     ve_SendTransaction = \<lambda>tx w. (None, w) \<rparr>"

definition demo_running_view :: "u64 viewer" where
  "demo_running_view = (NewViewer demo_height_env (\<lambda>_. 0) ''0x1'')\<lparr>vw_currentHeight := 77\<rparr>"

lemma interrupted_hub_witness:
  "vw_currentHeight (NewViewer demo_height_env (\<lambda>_. 77) ''0x1'') = 77"
proof -
  have law: "config_law (ve_storm demo_height_env)"
    by (simp add: config_law_def demo_height_env_def demo_height_storm_def)
  have addr: "vw_Address demo_running_view = ''0x1''" "vw_currentHeight demo_running_view = 77"
    by (simp_all add: demo_running_view_def NewViewer_def Let_def)
  let ?v = "viewer_Stop demo_height_env demo_running_view"
  have stop: "interrupt demo_height_env (HubView demo_running_view) = HubView ?v" by (simp add: interrupt_def)
  have "idb_db (vw_LocalStore ?v) = 77"
    by (simp add: viewer_Stop_def IndexDB_Set_def demo_height_env_def demo_height_storm_def demo_running_view_def)
  then have "vw_currentHeight (NewViewer demo_height_env (\<lambda>_. 77) (vw_Address demo_running_view)) = vw_currentHeight demo_running_view"
    using interrupted_hub [OF law stop, of "\<lambda>_. 77"] by metis
  then show ?thesis by (simp only: addr)
qed

section \<open>From chain to chain\<close>

text \<open>How the courier's \<open>receive\<close> sees what the swarm puts on \<open>messageCh\<close>: the swarm never puts a nil transaction.\<close>

fun received_of :: "view_msg \<Rightarrow> received option" where
  "received_of (ViewRtx rtx) = Some (RecvRtx rtx)"
| "received_of (ViewCtx (Some ctx)) = Some (RecvCtx ctx)"
| "received_of (ViewCtx None) = None"

lemma taker_event_sends:
  assumes "taker_event env e v = Ok v'"
  shows "\<exists>rtx. vw_sent v' = vw_sent v @ [ViewRtx rtx] \<and> rtx_CTxId (rtx_Data rtx) = tk_TxId (ve_unpack_taker env (lg_Data e))
    \<and> rtx_TxHash (rtx_Data rtx) = lg_TxHash e"
proof -
  let ?args = "ve_unpack_taker env (lg_Data e)"
  let ?rtm = "NewReceptTransaction (tk_TxId ?args) (lg_TxHash e) (ve_addr_String env (tk_From ?args))
    (ve_addr_String env (tk_To ?args)) (tk_Taker ?args) 2 (tk_Purpose ?args) (tk_Payload ?args)"
  obtain rtx where rtx: "SignRtx (ve_lib env) (MakeRtxSigner 11) (ve_sign env) ?rtm = Ok rtx"
      "vw_sent v' = vw_sent v @ [ViewRtx rtx]"
    using assms
    by (cases "SignRtx (ve_lib env) (MakeRtxSigner 11) (ve_sign env) ?rtm")
      (auto simp: taker_event_def nil_deref_def Let_def)
  then have "rtx_CTxId (rtx_Data rtx) = tk_TxId ?args \<and> rtx_TxHash (rtx_Data rtx) = lg_TxHash e"
    by (auto simp: SignRtx_def sign_tx_def ReceptTransaction_WithSignature_def bind_outcome_Ok_iff rtx_uncached_def
        NewReceptTransaction_def split: sum.splits)
  with rtx show ?thesis by blast
qed


definition demo_taker_view :: "(hash \<rightharpoonup> ctx_row, unit, nat) view_env" where
  "demo_taker_view = (demo_view True)\<lparr>ve_unpack_taker := \<lambda>_. \<lparr> tk_TxId = str_bytes ''c'', tk_From = [], tk_To = [],
     tk_Taker = ''t'', tk_Purpose = 5, tk_Payload = [] \<rparr>\<rparr>"

lemma demo_taker_event: "\<exists>v'. taker_event demo_taker_view demo_maker_log demo_viewer = Ok v'"
proof -
  have "length demo_sig = 65" by (simp add: demo_sig_def)
  moreover have "ve_lib demo_taker_view = demo_lib" "\<And>h. ve_sign demo_taker_view h = Inr demo_sig"
    by (simp_all add: demo_taker_view_def demo_view_def)
  ultimately have "\<exists>rtx. SignRtx (ve_lib demo_taker_view) (MakeRtxSigner 11) (ve_sign demo_taker_view) tx = Ok rtx" for tx
    by (simp add: SignRtx_def sign_tx_def ReceptTransaction_WithSignature_def MakeRtxSigner_def NewEIP155RtxSigner_def
        EIP155RtxSigner_SignatureValues_def Let_def)
  then obtain f where "\<And>tx. SignRtx (ve_lib demo_taker_view) (MakeRtxSigner 11) (ve_sign demo_taker_view) tx = Ok (f tx)"
    by metis
  then show ?thesis by (simp add: taker_event_def Let_def)
qed


end
