(* ===== verification/Formatter.thy ===== *)
theory Formatter
  imports GoText
begin

text \<open>
  The output side of fabric-cli (printer/formatter.go, writer.go, printer.go and the Base64 functions
  of blockprinter.go): the values that are printed, the calls of the \<open>Formatter\<close> interface as a list
  of instructions, and the JSON and the display formatter that carry them out. What is written
  is a list of texts with their destination. JSON texts have a grammar of their own here, and the
  calls that make one are a second grammar.
\<close>

section \<open>Values\<close>

text \<open>What is passed as \<open>interface{}\<close>. \<open>VText\<close> is a value that prints itself (enums, times, messages).\<close>

datatype gval =
    VStr string
  | VBytes bytes
  | VNum int
  | VBool bool
  | VStrs "string list"
  | VText string

definition show_int :: "int \<Rightarrow> string" where
  "show_int n = (if n < 0 then CHR ''-'' # show_nat (nat (- n)) else show_nat (nat n))"

text \<open>The verb \<open>%v\<close>.\<close>

fun val_text :: "gval \<Rightarrow> string" where
  "val_text (VStr s) = s"
| "val_text (VBytes bs) = ''['' @ join_with (CHR '' '') (map (\<lambda>b. show_nat (unat b)) bs) @ '']''"
| "val_text (VNum n) = show_int n"
| "val_text (VBool b) = (if b then ''true'' else ''false'')"
| "val_text (VStrs ss) = ''['' @ join_with (CHR '' '') ss @ '']''"
| "val_text (VText s) = s"

section \<open>Base64\<close>

text \<open>\<open>base64.RawURLEncoding\<close> and \<open>base64.URLEncoding\<close>.\<close>

definition b64_alphabet :: string where
  "b64_alphabet = ''ABCDEFGHIJKLMNOPQRSTUVWXYZabcdefghijklmnopqrstuvwxyz0123456789-_''"

definition b64_char :: "nat \<Rightarrow> char" where
  "b64_char n = b64_alphabet ! n"

definition b64_val :: "char \<Rightarrow> nat option" where
  "b64_val c =
     (let n = of_char c in
      if 65 \<le> n \<and> n \<le> 90 then Some (n - 65)
      else if 97 \<le> n \<and> n \<le> 122 then Some (n - 71)
      else if 48 \<le> n \<and> n \<le> 57 then Some (n + 4)
      else if n = 45 then Some 62 else if n = 95 then Some 63 else None)"

fun Base64URLEncode :: "bytes \<Rightarrow> string" where
  "Base64URLEncode [] = []"
| "Base64URLEncode [a] = [b64_char (unat a div 4), b64_char (unat a mod 4 * 16)]"
| "Base64URLEncode [a, b] =
     [b64_char (unat a div 4), b64_char (unat a mod 4 * 16 + unat b div 16), b64_char (unat b mod 16 * 4)]"
| "Base64URLEncode (a # b # c # bs) =
     [b64_char (unat a div 4), b64_char (unat a mod 4 * 16 + unat b div 16),
      b64_char (unat b mod 16 * 4 + unat c div 64), b64_char (unat c mod 64)] @ Base64URLEncode bs"

text \<open>A last group of two or three characters stands for one or two bytes; its spare bits are not looked at.\<close>

definition b64_two :: "char \<Rightarrow> char \<Rightarrow> bytes option" where
  "b64_two c d =
     (case (b64_val c, b64_val d) of
        (Some v, Some w) \<Rightarrow> Some [word_of_nat (v * 4 + w div 16)]
      | _ \<Rightarrow> None)"

definition b64_three :: "char \<Rightarrow> char \<Rightarrow> char \<Rightarrow> bytes option" where
  "b64_three c d e =
     (case (b64_val c, b64_val d, b64_val e) of
        (Some v, Some w, Some x) \<Rightarrow> Some [word_of_nat (v * 4 + w div 16), word_of_nat (w mod 16 * 16 + x div 4)]
      | _ \<Rightarrow> None)"

definition b64_four :: "char \<Rightarrow> char \<Rightarrow> char \<Rightarrow> char \<Rightarrow> bytes option" where
  "b64_four c d e f =
     (case (b64_val c, b64_val d, b64_val e, b64_val f) of
        (Some v, Some w, Some x, Some y) \<Rightarrow>
          Some [word_of_nat (v * 4 + w div 16), word_of_nat (w mod 16 * 16 + x div 4), word_of_nat (x mod 4 * 64 + y)]
      | _ \<Rightarrow> None)"

fun b64_raw :: "string \<Rightarrow> bytes option" where
  "b64_raw [] = Some []"
| "b64_raw [c] = None"
| "b64_raw [c, d] = b64_two c d"
| "b64_raw [c, d, e] = b64_three c d e"
| "b64_raw (c # d # e # f # cs) =
     (case (b64_four c d e f, b64_raw cs) of (Some b, Some bs) \<Rightarrow> Some (b @ bs) | _ \<Rightarrow> None)"

fun b64_padded :: "string \<Rightarrow> bytes option" where
  "b64_padded [] = Some []"
| "b64_padded (c # d # e # f # cs) =
     (if cs = [] \<and> e = CHR ''='' \<and> f = CHR ''='' then b64_two c d
      else if cs = [] \<and> f = CHR ''='' then b64_three c d e
      else case (b64_four c d e f, b64_padded cs) of (Some b, Some bs) \<Rightarrow> Some (b @ bs) | _ \<Rightarrow> None)"
| "b64_padded cs = None"

text \<open>The decoders skip line ends.\<close>

definition b64_input :: "string \<Rightarrow> string" where
  "b64_input s = filter (\<lambda>c. of_char c \<noteq> (10 :: nat) \<and> of_char c \<noteq> (13 :: nat)) s"

definition Base64URLDecode :: "string \<Rightarrow> goerr + bytes" where
  "Base64URLDecode data =
     (case (if data \<noteq> [] \<and> last data = CHR ''='' then b64_padded (b64_input data) else b64_raw (b64_input data)) of
        None \<Rightarrow> Inl (ErrNew ''illegal base64 data'')
      | Some bs \<Rightarrow> Inr bs)"

section \<open>Formats and destinations\<close>

datatype OutputFormat = RAW | JSON | DISPLAY

fun OutputFormat_String :: "OutputFormat \<Rightarrow> string" where
  "OutputFormat_String DISPLAY = ''display''"
| "OutputFormat_String JSON = ''json''"
| "OutputFormat_String RAW = ''raw''"

text \<open>\<open>strings.ToLower\<close> on ASCII, which decides the comparisons below: no other character becomes a letter of
  the names.\<close>

definition to_lower :: "string \<Rightarrow> string" where
  "to_lower s = map (\<lambda>c. if 65 \<le> (of_char c :: nat) \<and> of_char c \<le> (90 :: nat) then char_of (of_char c + (32 :: nat)) else c) s"

definition AsOutputFormat :: "string \<Rightarrow> OutputFormat" where
  "AsOutputFormat f =
     (if to_lower f = ''json'' then JSON else if to_lower f = ''raw'' then RAW else DISPLAY)"

datatype WriterType = STDOUT | STDERR | LOG

fun WriterType_String :: "WriterType \<Rightarrow> string" where
  "WriterType_String STDOUT = ''stdout''"
| "WriterType_String STDERR = ''stderr''"
| "WriterType_String LOG = ''log''"

definition AsWriterType :: "string \<Rightarrow> WriterType" where
  "AsWriterType t =
     (if to_lower t = ''log'' then LOG else if to_lower t = ''stderr'' then STDERR else STDOUT)"

type_synonym chunks = "(WriterType \<times> string) list"

text \<open>What arrived at one destination.\<close>

definition written :: "WriterType \<Rightarrow> chunks \<Rightarrow> string" where
  "written wt out = concat (map snd (filter (\<lambda>c. fst c = wt) out))"

section \<open>The round trip of Base64\<close>

lemma b64_val_char [simp]: "n < 64 \<Longrightarrow> b64_val (b64_char n) = Some n"
proof -
  assume n: "n < 64"
  have "map b64_val b64_alphabet = map Some [0..<64]" by code_simp
  moreover have "length b64_alphabet = 64" by code_simp
  ultimately show ?thesis using n unfolding b64_char_def by (metis (lifting) nth_map length_map nth_upt add_0 length_upt minus_nat.diff_0)
qed

lemma b64_char_plain: "n < 64 \<Longrightarrow> b64_char n \<in> set b64_alphabet"
  unfolding b64_char_def by (rule nth_mem) (simp add: b64_alphabet_def)

lemma b64_bytes: "unat a div 4 < 64" "unat a mod 4 * 16 < 64" "unat a mod 4 * 16 + unat b div 16 < 64"
  "unat b mod 16 * 4 < 64" "unat b mod 16 * 4 + unat c div 64 < 64" "unat c mod 64 < 64"
  for a b c :: byte
  using byte_bound [of a] byte_bound [of b] byte_bound [of c] by auto

lemma b64_join: "unat a div 4 * 4 + (unat a mod 4 * 16 + k) div 16 = unat a" if "k < 16" for a :: byte
  using that by (simp add: div_mult_self1)

lemma b64_first: "word_of_nat (unat a div 4 * 4 + (unat a mod 4 * 16 + k) div 16) = a" if "k < 16" for a :: byte
  using b64_join [OF that] by simp

lemma b64_second: "word_of_nat ((i * 16 + unat b div 16) mod 16 * 16 + (unat b mod 16 * 4 + k) div 4) = b"
  if "k < 4" for b :: byte
proof -
  have "unat b div 16 < 16" using byte_bound [of b] by simp
  then have "(i * 16 + unat b div 16) mod 16 = unat b div 16" by simp
  moreover have "(unat b mod 16 * 4 + k) div 4 = unat b mod 16" using that by simp
  ultimately have "(i * 16 + unat b div 16) mod 16 * 16 + (unat b mod 16 * 4 + k) div 4 = unat b" by simp
  then show ?thesis by simp
qed

lemma b64_third: "word_of_nat ((i * 4 + unat c div 64) mod 4 * 64 + unat c mod 64) = c" for c :: byte
proof -
  have "unat c div 64 < 4" using byte_bound [of c] by simp
  then have "(i * 4 + unat c div 64) mod 4 * 64 + unat c mod 64 = unat c" by simp
  then show ?thesis by simp
qed

lemma b64_raw_encode: "b64_raw (Base64URLEncode bs) = Some bs"
proof (induction bs rule: Base64URLEncode.induct)
  case (2 a)
  show ?case using b64_first [of 0 a] by (simp add: b64_two_def b64_bytes)
next
  case (3 a b)
  have "unat b div 16 < 16" using byte_bound [of b] by simp
  then show ?case
    using b64_first [of "unat b div 16" a] b64_second [of 0 "unat a mod 4" b]
    by (simp add: b64_three_def b64_bytes)
next
  case (4 a b c bs)
  have "unat b div 16 < 16" "unat c div 64 < 4" using byte_bound [of b] byte_bound [of c] by simp_all
  then show ?case
    using 4 b64_first [of "unat b div 16" a] b64_second [of "unat c div 64" "unat a mod 4" b]
      b64_third [of "unat b mod 16" c]
    by (simp add: b64_four_def b64_bytes)
qed simp

lemma b64_encode_alphabet: "set (Base64URLEncode bs) \<subseteq> set b64_alphabet"
proof (induction bs rule: Base64URLEncode.induct)
  case (2 a)
  show ?case by (simp add: b64_char_plain b64_bytes)
next
  case (3 a b)
  show ?case by (simp add: b64_char_plain b64_bytes)
next
  case (4 a b c bs)
  then show ?case by (simp add: b64_char_plain b64_bytes)
qed simp

lemma b64_alphabet_plain:
  "c \<in> set b64_alphabet \<Longrightarrow> c \<noteq> CHR ''='' \<and> of_char c \<noteq> (10 :: nat) \<and> of_char c \<noteq> (13 :: nat)"
proof -
  have "\<forall>c \<in> set b64_alphabet. c \<noteq> CHR ''='' \<and> of_char c \<noteq> (10 :: nat) \<and> of_char c \<noteq> (13 :: nat)"
    by code_simp
  then show "c \<in> set b64_alphabet \<Longrightarrow> c \<noteq> CHR ''='' \<and> of_char c \<noteq> (10 :: nat) \<and> of_char c \<noteq> (13 :: nat)" by blast
qed

text \<open>Base64 comes back: decoding what \<open>Base64URLEncode\<close> made of any bytes gives these bytes.\<close>

theorem Base64_roundtrip: "Base64URLDecode (Base64URLEncode bs) = Inr bs"
proof -
  let ?e = "Base64URLEncode bs"
  have p: "\<forall>c \<in> set ?e. c \<noteq> CHR ''='' \<and> of_char c \<noteq> (10 :: nat) \<and> of_char c \<noteq> (13 :: nat)"
    using b64_encode_alphabet b64_alphabet_plain by blast
  then have "b64_input ?e = ?e" by (simp add: b64_input_def)
  moreover have "\<not> (?e \<noteq> [] \<and> last ?e = CHR ''='')" using p last_in_set by metis
  ultimately show ?thesis by (simp only: Base64URLDecode_def b64_raw_encode if_False) simp
qed

section \<open>The calls of a formatter\<close>

text \<open>The index of an item is a loop variable or a key.\<close>

datatype findex = IxInt nat | IxStr string

fun index_text :: "findex \<Rightarrow> string" where
  "index_text (IxInt i) = show_nat i"
| "index_text (IxStr s) = s"

text \<open>\<open>FStdout\<close> is a \<open>fmt.Printf\<close> that goes past the formatter.\<close>

datatype fcall =
    FHeader
  | FFooter
  | FElement string
  | FElementEnd
  | FField string "gval option"
  | FArray string
  | FArrayEnd
  | FItem string findex
  | FItemEnd
  | FItemValue string findex gval
  | FValue gval
  | FPrint string
  | FStdout string

definition newline :: string where "newline = [CHR 0x0A]"
definition dq :: char where "dq = CHR 0x22"

text \<open>A text in quotes.\<close>

definition quoted :: "string \<Rightarrow> string" where
  "quoted s = dq # s @ [dq]"

section \<open>The JSON formatter\<close>

record json_formatter =
  jf_writer :: WriterType
  jf_comma :: bool
  jf_out :: chunks

definition json_write :: "string \<Rightarrow> json_formatter \<Rightarrow> json_formatter" where
  "json_write t p = p\<lparr>jf_out := jf_out p @ [(jf_writer p, t)]\<rparr>"

fun json_encodeValue :: "gval \<Rightarrow> gval" where
  "json_encodeValue (VBytes bs) = VStr (Base64URLEncode bs)"
| "json_encodeValue v = v"

definition json_text :: "gval \<Rightarrow> string" where
  "json_text v = val_text (json_encodeValue v)"

definition field_text :: "gval option \<Rightarrow> string" where
  "field_text value = (case value of Some v \<Rightarrow> json_text v | None \<Rightarrow> ''null'')"

definition json_Field :: "string \<Rightarrow> gval option \<Rightarrow> json_formatter \<Rightarrow> json_formatter" where
  "json_Field field value p =
     (let p = (if jf_comma p then json_write '','' p else p);
          p = json_write (quoted field @ '':'' @ quoted (field_text value)) p in
      p\<lparr>jf_comma := True\<rparr>)"

definition json_comma_once :: "json_formatter \<Rightarrow> json_formatter" where
  "json_comma_once p = (if jf_comma p then (json_write '','' p)\<lparr>jf_comma := False\<rparr> else p)"

definition json_Element :: "string \<Rightarrow> json_formatter \<Rightarrow> json_formatter" where
  "json_Element element p =
     json_write ((if element \<noteq> [] then quoted element @ '':'' else []) @ ''{'') (json_comma_once p)"

definition json_ElementEnd :: "json_formatter \<Rightarrow> json_formatter" where
  "json_ElementEnd p = (json_write ''}'' p)\<lparr>jf_comma := True\<rparr>"

definition json_Array :: "string \<Rightarrow> json_formatter \<Rightarrow> json_formatter" where
  "json_Array element p =
     json_write ((if element \<noteq> [] then quoted element @ '':'' else []) @ ''['') (json_comma_once p)"

definition json_ArrayEnd :: "json_formatter \<Rightarrow> json_formatter" where
  "json_ArrayEnd p = (json_write '']'' p)\<lparr>jf_comma := True\<rparr>"

definition json_Item :: "json_formatter \<Rightarrow> json_formatter" where
  "json_Item p = json_write ''{'' (json_comma_once p)"

fun later_item :: "findex \<Rightarrow> bool" where
  "later_item (IxInt i) = (i > 0)"
| "later_item (IxStr s) = False"

definition json_ItemValue :: "findex \<Rightarrow> gval \<Rightarrow> json_formatter \<Rightarrow> json_formatter" where
  "json_ItemValue index value p =
     json_write (quoted (json_text value))
       (if later_item index then json_write '','' (p\<lparr>jf_comma := True\<rparr>) else p)"

definition json_Value :: "gval \<Rightarrow> json_formatter \<Rightarrow> json_formatter" where
  "json_Value value p =
     json_write (quoted (json_text value)) (if jf_comma p then json_write '','' p else p)"

definition json_PrintHeader :: "json_formatter \<Rightarrow> json_formatter" where
  "json_PrintHeader p = (json_Element [] p)\<lparr>jf_comma := False\<rparr>"

definition json_PrintFooter :: "json_formatter \<Rightarrow> json_formatter" where
  "json_PrintFooter p = (json_write newline (json_ElementEnd p))\<lparr>jf_comma := False\<rparr>"

fun json_call :: "fcall \<Rightarrow> json_formatter \<Rightarrow> json_formatter" where
  "json_call FHeader p = json_PrintHeader p"
| "json_call FFooter p = json_PrintFooter p"
| "json_call (FElement e) p = json_Element e p"
| "json_call FElementEnd p = json_ElementEnd p"
| "json_call (FField f v) p = json_Field f v p"
| "json_call (FArray e) p = json_Array e p"
| "json_call FArrayEnd p = json_ArrayEnd p"
| "json_call (FItem e i) p = json_Item p"
| "json_call FItemEnd p = json_ElementEnd p"
| "json_call (FItemValue e i v) p = json_ItemValue i v p"
| "json_call (FValue v) p = json_Value v p"
| "json_call (FPrint t) p = p"
| "json_call (FStdout t) p = p\<lparr>jf_out := jf_out p @ [(STDOUT, t)]\<rparr>"

section \<open>The display formatter\<close>

record display_formatter =
  df_writer :: WriterType
  df_indent :: int
  df_base64Encode :: bool
  df_out :: chunks

definition display_write :: "string \<Rightarrow> display_formatter \<Rightarrow> display_formatter" where
  "display_write t p = p\<lparr>df_out := df_out p @ [(df_writer p, t)]\<rparr>"

definition indentSize :: nat where "indentSize = 3"

definition display_prefix :: "display_formatter \<Rightarrow> string" where
  "display_prefix p =
     ''***** '' @ concat (replicate (nat (df_indent p)) (CHR ''|'' # replicate (indentSize - 1) (CHR '' '')))"

definition display_encodeValue :: "display_formatter \<Rightarrow> gval \<Rightarrow> gval" where
  "display_encodeValue p value =
     (case value of
        VBytes bs \<Rightarrow> if df_base64Encode p then VStr (Base64URLEncode bs) else VStr (map (\<lambda>b. char_of (unat b)) bs)
      | _ \<Rightarrow> value)"

definition display_text :: "display_formatter \<Rightarrow> gval \<Rightarrow> string" where
  "display_text p v = val_text (display_encodeValue p v)"

definition display_Print :: "string \<Rightarrow> display_formatter \<Rightarrow> display_formatter" where
  "display_Print t p = display_write (display_prefix p @ t @ newline) p"

definition display_Field :: "string \<Rightarrow> gval option \<Rightarrow> display_formatter \<Rightarrow> display_formatter" where
  "display_Field field value p =
     (case value of
        Some v \<Rightarrow> display_write (display_prefix p @ field @ '': '' @ display_text p v @ newline) p
      | None \<Rightarrow> display_write (display_prefix p @ field @ '':'' @ newline) p)"

definition display_Element :: "string \<Rightarrow> display_formatter \<Rightarrow> display_formatter" where
  "display_Element element p =
     (let p = (if element \<noteq> [] then display_write (display_prefix p @ element @ '':'' @ newline) p else p) in
      p\<lparr>df_indent := df_indent p + 1\<rparr>)"

definition display_ElementEnd :: "display_formatter \<Rightarrow> display_formatter" where
  "display_ElementEnd p = p\<lparr>df_indent := df_indent p - 1\<rparr>"

definition display_Array :: "string \<Rightarrow> display_formatter \<Rightarrow> display_formatter" where
  "display_Array element p =
     (let p = (if element \<noteq> [] then display_write (display_prefix p @ element @ '':'' @ newline) p else p) in
      p\<lparr>df_indent := df_indent p + 1\<rparr>)"

definition display_ArrayEnd :: "display_formatter \<Rightarrow> display_formatter" where
  "display_ArrayEnd p = p\<lparr>df_indent := df_indent p - 1\<rparr>"

definition display_Item :: "string \<Rightarrow> findex \<Rightarrow> display_formatter \<Rightarrow> display_formatter" where
  "display_Item element index p =
     (let p = (if element \<noteq> []
               then display_write (display_prefix p @ element @ ''['' @ index_text index @ '']:'' @ newline) p else p) in
      p\<lparr>df_indent := df_indent p + 1\<rparr>)"

definition display_ItemValue :: "string \<Rightarrow> findex \<Rightarrow> gval \<Rightarrow> display_formatter \<Rightarrow> display_formatter" where
  "display_ItemValue element index value p =
     (if element \<noteq> []
      then display_write
        (display_prefix p @ element @ ''['' @ index_text index @ '']: '' @ display_text p value @ newline) p
      else p)"

definition display_Value :: "gval \<Rightarrow> display_formatter \<Rightarrow> display_formatter" where
  "display_Value value p = display_write (display_prefix p @ display_text p value) p"

definition display_rule :: "display_formatter \<Rightarrow> display_formatter" where
  "display_rule p = display_write (replicate 100 (CHR ''*'') @ newline) p"

fun display_call :: "fcall \<Rightarrow> display_formatter \<Rightarrow> display_formatter" where
  "display_call FHeader p = display_rule p"
| "display_call FFooter p = display_rule p"
| "display_call (FElement e) p = display_Element e p"
| "display_call FElementEnd p = display_ElementEnd p"
| "display_call (FField f v) p = display_Field f v p"
| "display_call (FArray e) p = display_Array e p"
| "display_call FArrayEnd p = display_ArrayEnd p"
| "display_call (FItem e i) p = display_Item e i p"
| "display_call FItemEnd p = display_ElementEnd p"
| "display_call (FItemValue e i v) p = display_ItemValue e i v p"
| "display_call (FValue v) p = display_Value v p"
| "display_call (FPrint t) p = display_Print t p"
| "display_call (FStdout t) p = p\<lparr>df_out := df_out p @ [(STDOUT, t)]\<rparr>"

section \<open>Printers\<close>

datatype any_formatter = JsonFormatter json_formatter | DisplayFormatter display_formatter

definition NewFormatterWithOpts :: "OutputFormat \<Rightarrow> WriterType \<Rightarrow> bool \<Rightarrow> any_formatter option" where
  "NewFormatterWithOpts format writerType base64Encode =
     (case format of
        JSON \<Rightarrow> Some (JsonFormatter \<lparr> jf_writer = writerType, jf_comma = False, jf_out = [] \<rparr>)
      | DISPLAY \<Rightarrow> Some (DisplayFormatter
          \<lparr> df_writer = writerType, df_indent = 0, df_base64Encode = base64Encode, df_out = [] \<rparr>)
      | RAW \<Rightarrow> None)"

definition NewFormatter :: "OutputFormat \<Rightarrow> WriterType \<Rightarrow> any_formatter option" where
  "NewFormatter format writerType = NewFormatterWithOpts format writerType False"

fun any_call :: "fcall \<Rightarrow> any_formatter \<Rightarrow> any_formatter" where
  "any_call c (JsonFormatter p) = JsonFormatter (json_call c p)"
| "any_call c (DisplayFormatter p) = DisplayFormatter (display_call c p)"

fun any_out :: "any_formatter \<Rightarrow> chunks" where
  "any_out (JsonFormatter p) = jf_out p"
| "any_out (DisplayFormatter p) = df_out p"

section \<open>The interface\<close>

text \<open>What every formatter keeps to: a call only adds to what was written.\<close>

locale formatter_calls =
  fixes call :: "fcall \<Rightarrow> 's \<Rightarrow> 's" and out :: "'s \<Rightarrow> chunks"
  assumes call_adds: "\<exists>ts. out (call c s) = out s @ ts"
begin

lemma run_adds: "\<exists>ts. out (fold call cs s) = out s @ ts"
proof (induction cs arbitrary: s)
  case (Cons c cs)
  then show ?case using call_adds [of c s] by (metis append.assoc fold_simps(2))
qed simp

text \<open>What a list of calls has written is the beginning of what it and anything after it write: a panic in the
  middle leaves this beginning.\<close>

lemma cut_is_prefix: "\<exists>ts. out (fold call (cs @ ds) s) = out (fold call cs s) @ ts"
  using run_adds [of ds "fold call cs s"] by simp

end

lemmas json_defs = json_write_def json_Field_def json_comma_once_def json_Element_def json_ElementEnd_def
  json_Array_def json_ArrayEnd_def json_Item_def json_ItemValue_def json_Value_def json_PrintHeader_def
  json_PrintFooter_def

lemmas display_defs = display_write_def display_Print_def display_Field_def display_Element_def
  display_ElementEnd_def display_Array_def display_ArrayEnd_def display_Item_def display_ItemValue_def
  display_Value_def display_rule_def

interpretation js: formatter_calls json_call jf_out
  by unfold_locales (rename_tac c s, case_tac c, auto simp: json_defs Let_def)

interpretation ds: formatter_calls display_call df_out
  by unfold_locales (rename_tac c s, case_tac c, auto simp: display_defs Let_def split: option.splits)

interpretation an: formatter_calls any_call any_out
proof
  fix c s
  show "\<exists>ts. any_out (any_call c s) = any_out s @ ts"
    using js.call_adds ds.call_adds by (cases s) auto
qed

section \<open>JSON texts\<close>

datatype jtree = JText string | JObj "(string \<times> jtree) list" | JArr "jtree list"

fun render :: "jtree \<Rightarrow> string" and render_members :: "bool \<Rightarrow> (string \<times> jtree) list \<Rightarrow> string"
  and render_elems :: "bool \<Rightarrow> jtree list \<Rightarrow> string" where
  "render (JText s) = quoted s"
| "render (JObj ms) = ''{'' @ render_members False ms @ ''}''"
| "render (JArr ts) = ''['' @ render_elems False ts @ '']''"
| "render_members c [] = []"
| "render_members c ((k, t) # ms) =
     (if c then '','' else []) @ quoted k @ '':'' @ render t @ render_members True ms"
| "render_elems c [] = []"
| "render_elems c (t # ts) = (if c then '','' else []) @ render t @ render_elems True ts"

text \<open>A reader of JSON texts without numbers, constants and inner spaces, which the formatter never writes. A
  text is kept as it stands between its quotes.\<close>

definition backslash :: char where "backslash = CHR 0x5C"

fun jstring :: "string \<Rightarrow> (string \<times> string) option" where
  "jstring [] = None"
| "jstring (c # s) =
     (if c = dq then Some ([], s)
      else if c = backslash then
        (case s of
           [] \<Rightarrow> None
         | d # s \<Rightarrow>
             if d = dq \<or> d = backslash \<or> d \<in> set ''/bfnrtu''
             then map_option (\<lambda>(t, r). (c # d # t, r)) (jstring s) else None)
      else if of_char c < (32 :: nat) then None
      else map_option (\<lambda>(t, r). (c # t, r)) (jstring s))"

definition jkey :: "string \<Rightarrow> (string \<times> string) option" where
  "jkey s =
     (case s of
        [] \<Rightarrow> None
      | c # s \<Rightarrow>
          if c \<noteq> dq then None
          else (case jstring s of
                  Some (k, d # r) \<Rightarrow> if d = CHR '':'' then Some (k, r) else None
                | _ \<Rightarrow> None))"

fun jvalue :: "nat \<Rightarrow> string \<Rightarrow> (jtree \<times> string) option"
  and jmembers :: "nat \<Rightarrow> string \<Rightarrow> ((string \<times> jtree) list \<times> string) option"
  and jelems :: "nat \<Rightarrow> string \<Rightarrow> (jtree list \<times> string) option" where
  "jvalue 0 s = None"
| "jvalue (Suc n) [] = None"
| "jvalue (Suc n) (c # s) =
     (if c = dq then map_option (\<lambda>(t, r). (JText t, r)) (jstring s)
      else if c = CHR ''{'' then
        (case s of
           [] \<Rightarrow> None
         | d # r \<Rightarrow> if d = CHR ''}'' then Some (JObj [], r)
                    else map_option (\<lambda>(ms, r). (JObj ms, r)) (jmembers n s))
      else if c = CHR ''['' then
        (case s of
           [] \<Rightarrow> None
         | d # r \<Rightarrow> if d = CHR '']'' then Some (JArr [], r)
                    else map_option (\<lambda>(ts, r). (JArr ts, r)) (jelems n s))
      else None)"
| "jmembers 0 s = None"
| "jmembers (Suc n) s =
     (case jkey s of
        None \<Rightarrow> None
      | Some (k, r) \<Rightarrow>
          (case jvalue n r of
             Some (t, d # r) \<Rightarrow>
               if d = CHR ''}'' then Some ([(k, t)], r)
               else if d = CHR '','' then map_option (\<lambda>(ms, r). ((k, t) # ms, r)) (jmembers n r)
               else None
           | _ \<Rightarrow> None))"
| "jelems 0 s = None"
| "jelems (Suc n) s =
     (case jvalue n s of
        Some (t, d # r) \<Rightarrow>
          if d = CHR '']'' then Some ([t], r)
          else if d = CHR '','' then map_option (\<lambda>(ts, r). (t # ts, r)) (jelems n r)
          else None
      | _ \<Rightarrow> None)"

definition jparse :: "string \<Rightarrow> jtree option" where
  "jparse s =
     (case jvalue (length s) s of
        Some (t, r) \<Rightarrow> if set r \<subseteq> set (CHR '' '' # newline) then Some t else None
      | None \<Rightarrow> None)"

text \<open>A text that needs no escape.\<close>

definition plain :: "string \<Rightarrow> bool" where
  "plain s \<longleftrightarrow> (\<forall>c \<in> set s. c \<noteq> dq \<and> c \<noteq> backslash \<and> 32 \<le> (of_char c :: nat))"

fun plain_tree :: "jtree \<Rightarrow> bool" where
  "plain_tree (JText s) = plain s"
| "plain_tree (JObj ms) = (\<forall>m \<in> set ms. plain (fst m) \<and> plain_tree (snd m))"
| "plain_tree (JArr ts) = (\<forall>t \<in> set ts. plain_tree t)"

lemma jstring_plain: "plain s \<Longrightarrow> jstring (s @ dq # r) = Some (s, r)"
proof (induction s)
  case (Cons c s)
  then show ?case by (auto simp: plain_def)
qed simp

lemma jkey_plain: "plain k \<Longrightarrow> jkey (quoted k @ CHR '':'' # r) = Some (k, r)"
  using jstring_plain [of k "CHR '':'' # r"] by (simp add: jkey_def quoted_def)

lemma render_first: "\<exists>c s. render t = c # s \<and> c \<noteq> CHR ''}'' \<and> c \<noteq> CHR '']''"
proof -
  have "dq \<noteq> CHR ''}''" "dq \<noteq> CHR '']''" by (simp_all add: dq_def)
  then show ?thesis by (cases t) (simp_all add: quoted_def)
qed

lemma length_quoted [simp]: "length (quoted s) = length s + 2"
  by (simp add: quoted_def)

lemma parse_render:
  "plain_tree t \<Longrightarrow> length (render t) \<le> n \<Longrightarrow> jvalue n (render t @ r) = Some (t, r)"
  "\<forall>m \<in> set ms. plain (fst m) \<and> plain_tree (snd m) \<Longrightarrow> ms \<noteq> [] \<Longrightarrow> length (render_members False ms) \<le> n \<Longrightarrow>
     jmembers n (render_members False ms @ CHR ''}'' # r) = Some (ms, r)"
  "\<forall>t \<in> set ts. plain_tree t \<Longrightarrow> ts \<noteq> [] \<Longrightarrow> length (render_elems False ts) < n \<Longrightarrow>
     jelems n (render_elems False ts @ CHR '']'' # r) = Some (ts, r)"
proof (induction t and "c :: bool" ms and "c' :: bool" ts arbitrary: n r and n r and n r
    rule: render_render_members_render_elems.induct)
  case (1 s)
  then obtain k where "n = Suc k" by (cases n) auto
  then show ?case using 1 jstring_plain [of s r] by (simp add: quoted_def)
next
  case (2 ms)
  then obtain k where n: "n = Suc k" by (cases n) auto
  show ?case
  proof (cases ms)
    case Nil
    then show ?thesis by (simp add: n dq_def)
  next
    case (Cons m ms')
    obtain s where s: "render_members False ms = dq # s"
      using Cons by (cases m) (simp add: quoted_def)
    have "jmembers k (render_members False ms @ CHR ''}'' # r) = Some (ms, r)"
      using 2 Cons n by simp
    then show ?thesis using s by (simp add: n dq_def)
  qed
next
  case (3 ts)
  then obtain k where n: "n = Suc k" by (cases n) auto
  show ?case
  proof (cases ts)
    case Nil
    then show ?thesis by (simp add: n dq_def)
  next
    case (Cons t ts')
    obtain c s where s: "render_elems False ts = c # s" "c \<noteq> CHR '']''"
      using Cons render_first [of t] by auto
    have "jelems k (render_elems False ts @ CHR '']'' # r) = Some (ts, r)"
      using 3 Cons n by simp
    then show ?thesis using s by (simp add: n dq_def)
  qed
next
  case (5 c k t ms)
  then obtain l where n: "n = Suc l" by (cases n) (auto simp: quoted_def)
  show ?case
  proof (cases ms)
    case Nil
    have "jvalue l (render t @ CHR ''}'' # r) = Some (t, CHR ''}'' # r)"
      using 5 n by simp
    then show ?thesis using 5(3) Nil by (simp add: n jkey_plain)
  next
    case (Cons m ms')
    then obtain rest where rest: "render_members True ms = CHR '','' # render_members False ms"
      by (cases m) simp
    have "jvalue l (render t @ CHR '','' # render_members False ms @ CHR ''}'' # r)
        = Some (t, CHR '','' # render_members False ms @ CHR ''}'' # r)"
      using 5 n rest by simp
    moreover have "jmembers l (render_members False ms @ CHR ''}'' # r) = Some (ms, r)"
      using 5 n rest Cons by simp
    ultimately show ?thesis using 5(3) rest by (simp add: n jkey_plain)
  qed
next
  case (7 c t ts)
  then obtain l where n: "n = Suc l" using render_first [of t] by (cases n) auto
  show ?case
  proof (cases ts)
    case Nil
    have "jvalue l (render t @ CHR '']'' # r) = Some (t, CHR '']'' # r)"
      using 7 n Nil by simp
    then show ?thesis using Nil by (simp add: n)
  next
    case (Cons t' ts')
    then have rest: "render_elems True ts = CHR '','' # render_elems False ts" by simp
    have "jvalue l (render t @ CHR '','' # render_elems False ts @ CHR '']'' # r)
        = Some (t, CHR '','' # render_elems False ts @ CHR '']'' # r)"
      using 7 n rest by simp
    moreover have "jelems l (render_elems False ts @ CHR '']'' # r) = Some (ts, r)"
      using 7 n rest Cons by simp
    ultimately show ?thesis using rest by (simp add: n)
  qed
qed simp_all

text \<open>A text that needs no escape reads back as the tree it was made from.\<close>

lemma jparse_render: "plain_tree t \<Longrightarrow> jparse (render t @ newline) = Some t"
  using parse_render(1) [of t "length (render t @ newline)" newline] by (simp add: jparse_def subset_insertI)

section \<open>The calls that make a JSON text\<close>

fun value_calls :: "string \<Rightarrow> nat \<Rightarrow> gval list \<Rightarrow> fcall list" where
  "value_calls e i [] = []"
| "value_calls e i (v # vs) = FItemValue e (IxInt i) v # value_calls e (i + 1) vs"

text \<open>Calls between the braces of an object and between the brackets of an array, with what they stand for.\<close>

inductive obj_calls :: "fcall list \<Rightarrow> (string \<times> jtree) list \<Rightarrow> bool"
  and item_calls :: "fcall list \<Rightarrow> jtree list \<Rightarrow> bool" where
  oc_nil: "obj_calls [] []"
| oc_field: "obj_calls cs ms \<Longrightarrow> obj_calls (FField f v # cs) ((f, JText (field_text v)) # ms)"
| oc_print: "obj_calls cs ms \<Longrightarrow> obj_calls (FPrint t # cs) ms"
| oc_element: "e \<noteq> [] \<Longrightarrow> obj_calls b bm \<Longrightarrow> obj_calls cs ms \<Longrightarrow>
    obj_calls (FElement e # b @ FElementEnd # cs) ((e, JObj bm) # ms)"
| oc_array: "a \<noteq> [] \<Longrightarrow> item_calls b ts \<Longrightarrow> obj_calls cs ms \<Longrightarrow>
    obj_calls (FArray a # b @ FArrayEnd # cs) ((a, JArr ts) # ms)"
| oc_values: "a \<noteq> [] \<Longrightarrow> obj_calls cs ms \<Longrightarrow>
    obj_calls (FArray a # value_calls e 0 vs @ FArrayEnd # cs) ((a, JArr (map (\<lambda>v. JText (json_text v)) vs)) # ms)"
| ic_nil: "item_calls [] []"
| ic_item: "obj_calls b bm \<Longrightarrow> item_calls cs ts \<Longrightarrow>
    item_calls (FItem e i # b @ FItemEnd # cs) (JObj bm # ts)"

text \<open>A formatter has written a text and stands with a comma due or not.\<close>

definition json_adds :: "json_formatter \<Rightarrow> string \<Rightarrow> bool \<Rightarrow> json_formatter \<Rightarrow> bool" where
  "json_adds p s c q \<longleftrightarrow> jf_writer q = jf_writer p \<and> jf_comma q = c
     \<and> (\<exists>ts. jf_out q = jf_out p @ map (Pair (jf_writer p)) ts \<and> concat ts = s)"

lemma json_adds_refl: "json_adds p [] (jf_comma p) p"
  by (auto simp: json_adds_def intro: exI [of _ "[]"])

lemma json_adds_trans:
  assumes "json_adds p s c q" "json_adds q t d r"
  shows "json_adds p (s @ t) d r"
proof -
  obtain ts us where "jf_out q = jf_out p @ map (Pair (jf_writer p)) ts" "concat ts = s"
      "jf_out r = jf_out q @ map (Pair (jf_writer q)) us" "concat us = t"
    using assms unfolding json_adds_def by blast
  then show ?thesis using assms unfolding json_adds_def
    by (intro conjI exI [of _ "ts @ us"]) simp_all
qed

lemma json_adds_comma: "json_adds p s c q \<Longrightarrow> jf_comma q = c"
  by (simp add: json_adds_def)

lemma json_adds_write: "json_adds p t (jf_comma p) (json_write t p)"
  unfolding json_adds_def json_write_def by (intro conjI exI [of _ "[t]"]) simp_all

lemma json_adds_set: "json_adds p s c q \<Longrightarrow> json_adds p s d (q\<lparr>jf_comma := d\<rparr>)"
  by (simp add: json_adds_def)

lemma json_adds_due:
  "json_adds p (if jf_comma p then '','' else []) (jf_comma p) (if jf_comma p then json_write '','' p else p)"
  using json_adds_refl [of p] json_adds_write [of p "'',''"] by auto

lemma json_adds_once: "json_adds p (if jf_comma p then '','' else []) False (json_comma_once p)"
  using json_adds_set [OF json_adds_write] json_adds_refl [of p] by (auto simp: json_comma_once_def)

lemma json_adds_then:
  assumes "json_adds p s c q"
  shows "json_adds p (s @ t) c (json_write t q)"
  using json_adds_trans [OF assms json_adds_write] json_adds_comma [OF assms] by simp

lemma json_adds_ops:
  "json_adds p ((if jf_comma p then '','' else []) @ quoted f @ '':'' @ quoted (field_text v)) True (json_Field f v p)"
  "e \<noteq> [] \<Longrightarrow> json_adds p ((if jf_comma p then '','' else []) @ quoted e @ '':{'') False (json_Element e p)"
  "json_adds p ''}'' True (json_ElementEnd p)"
  "a \<noteq> [] \<Longrightarrow> json_adds p ((if jf_comma p then '','' else []) @ quoted a @ '':['') False (json_Array a p)"
  "json_adds p '']'' True (json_ArrayEnd p)"
  "json_adds p ((if jf_comma p then '','' else []) @ ''{'') False (json_Item p)"
  "\<not> later_item i \<Longrightarrow> json_adds p (quoted (json_text w)) (jf_comma p) (json_ItemValue i w p)"
  "later_item i \<Longrightarrow> json_adds p ('','' @ quoted (json_text w)) True (json_ItemValue i w p)"
proof -
  show "json_adds p ((if jf_comma p then '','' else []) @ quoted f @ '':'' @ quoted (field_text v)) True (json_Field f v p)"
    using json_adds_set [OF json_adds_then [OF json_adds_due]] unfolding json_Field_def Let_def by blast
  show "json_adds p ((if jf_comma p then '','' else []) @ quoted e @ '':{'') False (json_Element e p)" if "e \<noteq> []"
    using json_adds_then [OF json_adds_once, of p "quoted e @ '':{''"] that by (simp add: json_Element_def)
  show "json_adds p ((if jf_comma p then '','' else []) @ quoted a @ '':['') False (json_Array a p)" if "a \<noteq> []"
    using json_adds_then [OF json_adds_once, of p "quoted a @ '':[''"] that by (simp add: json_Array_def)
  show "json_adds p ((if jf_comma p then '','' else []) @ ''{'') False (json_Item p)"
    unfolding json_Item_def by (rule json_adds_then [OF json_adds_once])
  show "json_adds p ''}'' True (json_ElementEnd p)" "json_adds p '']'' True (json_ArrayEnd p)"
    unfolding json_ElementEnd_def json_ArrayEnd_def by (rule json_adds_set [OF json_adds_write])+
  show "json_adds p (quoted (json_text w)) (jf_comma p) (json_ItemValue i w p)" if "\<not> later_item i"
    using json_adds_write that by (simp add: json_ItemValue_def)
  have "json_adds p '','' True (json_write '','' (p\<lparr>jf_comma := True\<rparr>))"
    using json_adds_then [OF json_adds_set [OF json_adds_refl], of p "'',''" True] by simp
  from json_adds_then [OF this]
  show "json_adds p ('','' @ quoted (json_text w)) True (json_ItemValue i w p)" if "later_item i"
    using that by (simp add: json_ItemValue_def)
qed

abbreviation json_run :: "fcall list \<Rightarrow> json_formatter \<Rightarrow> json_formatter" where
  "json_run \<equiv> fold json_call"

lemma value_calls_adds:
  "\<exists>c. json_adds p (render_elems (0 < i) (map (\<lambda>v. JText (json_text v)) vs)) c (json_run (value_calls e i vs) p)"
proof (induction vs arbitrary: i p)
  case Nil
  then show ?case using json_adds_refl by auto
next
  case (Cons v vs)
  have "\<exists>d. json_adds p ((if 0 < i then '','' else []) @ quoted (json_text v)) d (json_ItemValue (IxInt i) v p)"
    using json_adds_ops(7,8) [of "IxInt i"] by (cases "0 < i") auto
  then obtain d where d: "json_adds p ((if 0 < i then '','' else []) @ quoted (json_text v)) d (json_ItemValue (IxInt i) v p)"
    by blast
  obtain c where "json_adds (json_ItemValue (IxInt i) v p) (render_elems True (map (\<lambda>v. JText (json_text v)) vs)) c
      (json_run (value_calls e (i + 1) vs) (json_ItemValue (IxInt i) v p))"
    using Cons.IH [where i = "i + 1"] by auto
  from json_adds_trans [OF d this] show ?case by auto
qed

lemma calls_add:
  "obj_calls cs ms \<Longrightarrow> json_adds p (render_members (jf_comma p) ms) (jf_comma p \<or> ms \<noteq> []) (json_run cs p)"
  "item_calls cs ts \<Longrightarrow> json_adds p (render_elems (jf_comma p) ts) (jf_comma p \<or> ts \<noteq> []) (json_run cs p)"
proof (induction cs ms and cs ts arbitrary: p and p rule: obj_calls_item_calls.inducts)
  case oc_nil
  then show ?case using json_adds_refl by simp
next
  case (oc_field cs ms f v)
  let ?q = "json_Field f v p"
  have q: "json_adds p ((if jf_comma p then '','' else []) @ quoted f @ '':'' @ quoted (field_text v)) True ?q"
    by (rule json_adds_ops)
  have "json_adds ?q (render_members True ms) True (json_run cs ?q)"
    using oc_field.IH [of ?q] json_adds_comma [OF q] by simp
  from json_adds_trans [OF q this] show ?case by simp
next
  case (oc_print cs ms t)
  then show ?case by simp
next
  case (oc_element e b bm cs ms)
  let ?q = "json_Element e p" and ?r = "json_ElementEnd (json_run b (json_Element e p))"
  note q = json_adds_ops(2) [OF oc_element.hyps(1), of p]
  have b: "json_adds ?q (render_members False bm) (bm \<noteq> []) (json_run b ?q)"
    using oc_element.IH(1) [of ?q] json_adds_comma [OF q] by simp
  note r = json_adds_trans [OF json_adds_trans [OF q b] json_adds_ops(3)]
  have "json_adds ?r (render_members True ms) True (json_run cs ?r)"
    using oc_element.IH(2) [of ?r] json_adds_comma [OF r] by simp
  from json_adds_trans [OF r this] show ?case by simp
next
  case (oc_array a b ts cs ms)
  let ?q = "json_Array a p" and ?r = "json_ArrayEnd (json_run b (json_Array a p))"
  note q = json_adds_ops(4) [OF oc_array.hyps(1), of p]
  have b: "json_adds ?q (render_elems False ts) (ts \<noteq> []) (json_run b ?q)"
    using oc_array.IH(1) [of ?q] json_adds_comma [OF q] by simp
  note r = json_adds_trans [OF json_adds_trans [OF q b] json_adds_ops(5)]
  have "json_adds ?r (render_members True ms) True (json_run cs ?r)"
    using oc_array.IH(2) [of ?r] json_adds_comma [OF r] by simp
  from json_adds_trans [OF r this] show ?case by simp
next
  case (oc_values a cs ms e vs)
  let ?q = "json_Array a p" and ?b = "value_calls e 0 vs"
  let ?r = "json_ArrayEnd (json_run ?b ?q)"
  note q = json_adds_ops(4) [OF oc_values.hyps(1), of p]
  obtain c where b: "json_adds ?q (render_elems False (map (\<lambda>v. JText (json_text v)) vs)) c (json_run ?b ?q)"
    using value_calls_adds [of ?q 0 vs e] by auto
  note r = json_adds_trans [OF json_adds_trans [OF q b] json_adds_ops(5)]
  have "json_adds ?r (render_members True ms) True (json_run cs ?r)"
    using oc_values.IH [of ?r] json_adds_comma [OF r] by simp
  from json_adds_trans [OF r this] show ?case by simp
next
  case ic_nil
  then show ?case using json_adds_refl by simp
next
  case (ic_item b bm cs ts e i)
  let ?q = "json_Item p" and ?r = "json_ElementEnd (json_run b (json_Item p))"
  note q = json_adds_ops(6) [of p]
  have b: "json_adds ?q (render_members False bm) (bm \<noteq> []) (json_run b ?q)"
    using ic_item.IH(1) [of ?q] json_adds_comma [OF q] by simp
  note r = json_adds_trans [OF json_adds_trans [OF q b] json_adds_ops(3)]
  have "json_adds ?r (render_elems True ts) True (json_run cs ?r)"
    using ic_item.IH(2) [of ?r] json_adds_comma [OF r] by simp
  from json_adds_trans [OF r this] show ?case by simp
qed

definition new_json :: "WriterType \<Rightarrow> json_formatter" where
  "new_json wt = \<lparr> jf_writer = wt, jf_comma = False, jf_out = [] \<rparr>"

lemma written_own [simp]: "written wt (map (Pair wt) ts) = concat ts"
  by (simp add: written_def filter_map comp_def)

lemma json_printed_text:
  assumes "obj_calls cs ms"
  shows "written wt (jf_out (json_run (FHeader # cs @ [FFooter]) (new_json wt))) = render (JObj ms) @ newline"
proof -
  let ?p = "new_json wt" and ?q = "json_PrintHeader (new_json wt)"
  have q: "json_adds ?p ''{'' False ?q"
    unfolding json_adds_def by (intro conjI exI [of _ "[''{'']"]) (simp_all add: json_defs new_json_def)
  have c: "json_adds ?q (render_members False ms) (ms \<noteq> []) (json_run cs ?q)"
    using calls_add(1) [OF assms, of ?q] json_adds_comma [OF q] by simp
  let ?r = "json_ElementEnd (json_run cs ?q)"
  note r = json_adds_trans [OF json_adds_trans [OF q c] json_adds_ops(3)]
  have "json_adds ?p (''{'' @ render_members False ms @ ''}'' @ newline) False (json_PrintFooter (json_run cs ?q))"
    using json_adds_set [OF json_adds_then [OF r, of newline]] by (simp add: json_PrintFooter_def)
  moreover have "json_run (FHeader # cs @ [FFooter]) ?p = json_PrintFooter (json_run cs ?q)" by simp
  ultimately obtain ts where "jf_out (json_run (FHeader # cs @ [FFooter]) ?p) = map (Pair wt) ts"
      "concat ts = ''{'' @ render_members False ms @ ''}'' @ newline"
    by (auto simp: json_adds_def new_json_def)
  then show ?thesis by simp
qed

text \<open>C24: between a header and a footer, calls of the object grammar make the JSON formatter write one JSON text: it
  reads back as the object of exactly these fields, elements and arrays, if no name or value needs an escape.\<close>

theorem json_printed:
  assumes "obj_calls cs ms" "plain_tree (JObj ms)"
  shows "jparse (written wt (jf_out (json_run (FHeader # cs @ [FFooter]) (new_json wt)))) = Some (JObj ms)"
  unfolding json_printed_text [OF assms(1)] by (rule jparse_render [OF assms(2)])

text \<open>Lists of calls can be put together.\<close>

lemma obj_calls_append: "obj_calls cs ms \<Longrightarrow> obj_calls ds ns \<Longrightarrow> obj_calls (cs @ ds) (ms @ ns)"
  and item_calls_append: "item_calls cs ts \<Longrightarrow> item_calls es us \<Longrightarrow> item_calls (cs @ es) (ts @ us)"
  by (induction cs ms and cs ts rule: obj_calls_item_calls.inducts)
    (auto intro: obj_calls_item_calls.intros)

text \<open>The same calls leave the indentation of the display formatter as it was, so what follows is printed at the
  depth it was meant for.\<close>

theorem display_balanced:
  assumes "obj_calls cs ms"
  shows "df_indent (fold display_call cs p) = df_indent p"
proof -
  have v: "df_indent (fold display_call (value_calls e i vs) p) = df_indent p" for e i vs p
    by (induction vs arbitrary: i p) (simp_all add: display_defs)
  have "obj_calls cs ms \<Longrightarrow> df_indent (fold display_call cs p) = df_indent p"
    and "item_calls es ts \<Longrightarrow> df_indent (fold display_call es p) = df_indent p" for es ts p
    by (induction cs ms and es ts arbitrary: p and p rule: obj_calls_item_calls.inducts)
      (auto simp: display_defs v Let_def split: option.splits)
  then show ?thesis using assms by blast
qed

text \<open>An array without a name directly behind the header is no JSON, whatever follows it.\<close>

lemma nameless_array_no_json:
  "jparse (written wt (jf_out (json_run (FHeader # FArray [] # cs) (new_json wt)))) = None"
proof -
  let ?p = "json_run [FHeader, FArray []] (new_json wt)"
  have p: "jf_out ?p = [(wt, ''{''), (wt, ''['')]" by (simp add: json_defs new_json_def)
  obtain ts where "jf_out (json_run cs ?p) = jf_out ?p @ ts" using js.run_adds by blast
  then have "written wt (jf_out (json_run (FHeader # FArray [] # cs) (new_json wt))) = ''{['' @ written wt ts"
    using p by (simp add: written_def)
  moreover have "jvalue n (''{['' @ s) = None" for n s
    by (cases n; cases "n - 1") (auto simp: dq_def jkey_def split: nat.splits)
  ultimately show ?thesis by (simp only: jparse_def option.case)
qed

text \<open>Values are not escaped: a value that holds quotes can add a field of its own to the text.\<close>

theorem json_injection:
  fixes a v f w :: string
  shows "written wt (jf_out (json_run
      [FHeader, FField a (Some (VStr (v @ [dq] @ '','' @ quoted f @ '':'' @ [dq] @ w))), FFooter] (new_json wt)))
    = written wt (jf_out (json_run
      [FHeader, FField a (Some (VStr v)), FField f (Some (VStr w)), FFooter] (new_json wt)))"
  by (simp add: json_defs new_json_def Let_def written_def quoted_def field_text_def json_text_def)

section \<open>A concrete text\<close>

definition demo_calls :: "fcall list" where
  "demo_calls = [FField ''Number'' (Some (VNum 7)), FArray ''Items'', FItem ''Item'' (IxInt 0), FField ''Key'' None,
     FItemEnd, FArrayEnd, FElement ''Data'', FElementEnd]"

definition demo_members :: "(string \<times> jtree) list" where
  "demo_members = [(''Number'', JText ''7''), (''Items'', JArr [JObj [(''Key'', JText ''null'')]]), (''Data'', JObj [])]"

lemma demo_obj: "obj_calls demo_calls demo_members"
proof -
  have k: "obj_calls [FField ''Key'' None] [(''Key'', JText ''null'')]"
    using oc_field [OF oc_nil, of "''Key''" None] by (simp add: field_text_def)
  have i: "item_calls (FItem ''Item'' (IxInt 0) # [FField ''Key'' None] @ [FItemEnd]) [JObj [(''Key'', JText ''null'')]]"
    by (rule ic_item [OF k ic_nil])
  have d: "obj_calls (FElement ''Data'' # [] @ [FElementEnd]) [(''Data'', JObj [])]"
    by (rule oc_element [OF _ oc_nil oc_nil]) simp
  have a: "obj_calls (FArray ''Items'' # (FItem ''Item'' (IxInt 0) # [FField ''Key'' None] @ [FItemEnd]) @ FArrayEnd #
      (FElement ''Data'' # [] @ [FElementEnd])) ((''Items'', JArr [JObj [(''Key'', JText ''null'')]]) # [(''Data'', JObj [])])"
    by (rule oc_array [OF _ i d]) simp
  have "field_text (Some (VNum 7)) = ''7''" by code_simp
  then show ?thesis
    using oc_field [OF a, of "''Number''" "Some (VNum 7)"] by (simp add: demo_calls_def demo_members_def)
qed

lemma json_printed_witness:
  "jparse (written STDOUT (jf_out (json_run (FHeader # demo_calls @ [FFooter]) (new_json STDOUT)))) =
     Some (JObj demo_members)"
  by (rule json_printed [OF demo_obj]) code_simp

lemma display_balanced_witness:
  "df_indent (fold display_call demo_calls \<lparr> df_writer = STDOUT, df_indent = 2, df_base64Encode = False, df_out = [] \<rparr>) = 2"
  using display_balanced [OF demo_obj, of "\<lparr> df_writer = STDOUT, df_indent = 2, df_base64Encode = False, df_out = [] \<rparr>"]
  by simp

end
