(* ===== verification/BlockMessages.thy ===== *)
theory BlockMessages
  imports Formatter
begin

text \<open>
  The messages of a block that fabric-cli prints (printer/blockprinter.go): those of the fabric protocol, with
  the fields that are printed. A pointer is an option, a Go map an association list in the order of its
  iteration. Decoding a message is a parameter.
\<close>

section \<open>Messages\<close>

record pb_blockchain_info =
  bi_Height :: nat
  bi_CurrentBlockHash :: bytes
  bi_PreviousBlockHash :: bytes

record pb_header =
  bh_Number :: nat
  bh_PreviousHash :: bytes
  bh_DataHash :: bytes

text \<open>\<open>Data\<close> and \<open>Metadata\<close> are the byte strings of the two messages.\<close>

record pb_block =
  bl_Header :: "pb_header option"
  bl_Data :: "bytes list option"
  bl_Metadata :: "bytes list option"

record pb_envelope =
  en_Payload :: bytes
  en_Signature :: bytes

record pb_payload_header =
  ph_ChannelHeader :: bytes
  ph_SignatureHeader :: bytes

record pb_envelope_payload =
  pl_Header :: "pb_payload_header option"
  pl_Data :: bytes

datatype header_type = CONFIG | CONFIG_UPDATE | ENDORSER_TRANSACTION | OtherHeader string

fun header_type_text :: "header_type \<Rightarrow> string" where
  "header_type_text CONFIG = ''CONFIG''"
| "header_type_text CONFIG_UPDATE = ''CONFIG_UPDATE''"
| "header_type_text ENDORSER_TRANSACTION = ''ENDORSER_TRANSACTION''"
| "header_type_text (OtherHeader t) = t"

record pb_channel_header =
  ch_Type :: header_type
  ch_Version :: int
  ch_Timestamp :: string
  ch_ChannelId :: string
  ch_TxId :: string
  ch_Epoch :: nat
  ch_Extension :: bytes

record pb_signature_header =
  sh_Creator :: bytes
  sh_Nonce :: bytes

record pb_metadata =
  md_Value :: bytes
  md_Signatures :: "bytes list"

record pb_chaincode_id =
  ci_Path :: string
  ci_Name :: string
  ci_Version :: string

record pb_chaincode_info =
  cn_Name :: string
  cn_Version :: string
  cn_Path :: string
  cn_Input :: string
  cn_Escc :: string
  cn_Vscc :: string

record pb_response =
  re_Status :: int
  re_Message :: string
  re_Payload :: bytes

record pb_endorsement =
  ed_Endorser :: bytes
  ed_Signature :: bytes

record pb_proposal_response =
  pp_Response :: "pb_response option"
  pp_Payload :: bytes
  pp_Endorsement :: "pb_endorsement option"

record tx_proposal_response =
  tp_Endorser :: string
  tp_Status :: int
  tp_ProposalResponse :: "pb_proposal_response option"

record pb_chaincode_event =
  ce_ChaincodeId :: string
  ce_TxId :: string
  ce_EventName :: string
  ce_Payload :: bytes

record pb_filtered_tx =
  ft_Txid :: string
  ft_Type :: string
  ft_TxValidationCode :: string
  ft_Actions :: "pb_chaincode_event option list option"

record pb_filtered_block =
  fb_ChannelId :: string
  fb_Number :: nat
  fb_FilteredTransactions :: "pb_filtered_tx list"

record pb_processed_tx =
  pt_TransactionEnvelope :: "pb_envelope option"
  pt_ValidationCode :: string

record pb_chaincode_data =
  cx_Name :: string
  cx_Version :: string
  cx_Escc :: string
  cx_Vscc :: string
  cx_Policy :: bytes
  cx_Data :: bytes
  cx_Id :: bytes
  cx_InstantiationPolicy :: bytes

record pb_cds_data =
  cz_CodeHash :: bytes
  cz_MetaDataHash :: bytes

subsection \<open>Policies and configuration\<close>

datatype sig_policy = SignedBy int | NOutOf int "sig_policy list" | OtherPolicy string

datatype principal_class = ROLE | ORGANIZATION_UNIT | IDENTITY | OtherClass string

fun principal_class_text :: "principal_class \<Rightarrow> string" where
  "principal_class_text ROLE = ''ROLE''"
| "principal_class_text ORGANIZATION_UNIT = ''ORGANIZATION_UNIT''"
| "principal_class_text IDENTITY = ''IDENTITY''"
| "principal_class_text (OtherClass t) = t"

record msp_principal =
  mp_PrincipalClassification :: principal_class
  mp_Principal :: bytes

record sig_policy_envelope =
  sp_Rule :: "sig_policy option"
  sp_Identities :: "msp_principal list"

record msp_role =
  mr_MspIdentifier :: string
  mr_Role :: string

record msp_unit =
  mu_MspIdentifier :: string
  mu_OrganizationalUnitIdentifier :: string
  mu_CertifiersIdentifier :: bytes

record implicit_meta_policy =
  im_SubPolicy :: string
  im_Rule :: string

datatype policy_type = SIGNATURE | MSP | IMPLICIT_META | OtherPolicyType

record pb_config_policy =
  cp_Version :: nat
  cp_Policy :: "(policy_type \<times> bytes) option"
  cp_ModPolicy :: string

record pb_config_value =
  cv_Version :: nat
  cv_Value :: bytes
  cv_ModPolicy :: string

datatype config_group = ConfigGroup
  (cg_Version: nat) (cg_ModPolicy: string) (cg_Groups: "(string \<times> config_group) list")
  (cg_Values: "(string \<times> pb_config_value) list") (cg_Policies: "(string \<times> pb_config_policy) list")

record pb_config =
  cc_Sequence :: nat
  cc_ChannelGroup :: "config_group option"

record pb_config_envelope =
  co_Config :: "pb_config option"
  co_LastUpdate :: "pb_envelope option"

record pb_config_signature =
  cs_SignatureHeader :: bytes
  cs_Signature :: bytes

record pb_config_update_envelope =
  cu_ConfigUpdate :: bytes
  cu_Signatures :: "pb_config_signature list"

record pb_config_update =
  up_ChannelId :: string
  up_ReadSet :: "config_group option"
  up_WriteSet :: "config_group option"

record anchor_peer =
  ap_Host :: string
  ap_Port :: int

record msp_config =
  mc_Type :: int
  mc_Config :: bytes

record fabric_msp_config =
  fm_Name :: string
  fm_Admins :: "bytes list"

record batch_size =
  bs_MaxMessageCount :: nat
  bs_AbsoluteMaxBytes :: nat
  bs_PreferredMaxBytes :: nat

record static_coll_config =
  sc_Name :: string
  sc_MemberOrgsPolicy :: "sig_policy_envelope option"
  sc_RequiredPeerCount :: int
  sc_MaximumPeerCount :: int
  sc_BlockToLive :: nat
  sc_MemberOnlyRead :: bool
  sc_MemberOnlyWrite :: bool

subsection \<open>Transactions\<close>

record chaincode_input =
  ip_Args :: "bytes list"
  ip_Decorations :: "(string \<times> bytes) list"

record chaincode_spec =
  cq_Type :: string
  cq_ChaincodeId :: "pb_chaincode_id option"
  cq_Input :: "chaincode_input option"
  cq_Timeout :: int

record cc_proposal_payload =
  px_Input :: bytes
  px_TransientMap :: "(string \<times> bytes) list"

record endorsed_action =
  ea_ProposalResponsePayload :: bytes
  ea_Endorsements :: "pb_endorsement list"

record cc_action_payload =
  ay_ChaincodeProposalPayload :: bytes
  ay_Action :: "endorsed_action option"

record tx_action =
  ta_Header :: bytes
  ta_Payload :: bytes

record response_payload =
  rp_ProposalHash :: bytes
  rp_Extension :: bytes

record chaincode_action =
  cw_Results :: bytes
  cw_Events :: bytes
  cw_Response :: "pb_response option"

type_synonym kv_version = "(nat \<times> nat) option"

record kv_read =
  kr_Key :: string
  kr_Version :: kv_version

record kv_write =
  kw_Key :: string
  kw_IsDelete :: bool
  kw_Value :: bytes

datatype reads_info = RawReads "kv_read list" | MerkleHashes nat nat "bytes list" | NoReads | OtherReads string

record range_query =
  rq_StartKey :: string
  rq_EndKey :: string
  rq_ItrExhausted :: bool
  rq_ReadsInfo :: reads_info

record kv_rwset =
  ks_Reads :: "kv_read list"
  ks_RangeQueriesInfo :: "range_query list"
  ks_Writes :: "kv_write list"

record hashed_read =
  hr_KeyHash :: bytes
  hr_Version :: kv_version

record hashed_write =
  hw_KeyHash :: bytes
  hw_IsDelete :: bool
  hw_ValueHash :: bytes

record hashed_rwset =
  hs_HashedReads :: "hashed_read list"
  hs_HashedWrites :: "hashed_write list"

record coll_rwset =
  cr_CollectionName :: string
  cr_HashedRwSet :: "hashed_rwset option"
  cr_PvtRwSetHash :: bytes

record ns_rwset =
  nr_NameSpace :: string
  nr_KvRwSet :: "kv_rwset option"
  nr_CollHashedRwSets :: "coll_rwset list"

section \<open>Decoding\<close>

text \<open>\<open>proto.Unmarshal\<close> for each message, \<open>TxRwSet.FromProtoBytes\<close>, and the text of a validation flag. The
  one-field messages give their field.\<close>

record proto =
  un_Envelope :: "bytes \<Rightarrow> goerr + pb_envelope"
  un_Payload :: "bytes \<Rightarrow> goerr + pb_envelope_payload"
  un_ChannelHeader :: "bytes \<Rightarrow> goerr + pb_channel_header"
  un_SignatureHeader :: "bytes \<Rightarrow> goerr + pb_signature_header"
  un_HeaderExtension :: "bytes \<Rightarrow> goerr + pb_chaincode_id option"
  un_Metadata :: "bytes \<Rightarrow> goerr + pb_metadata"
  un_LastConfig :: "bytes \<Rightarrow> goerr + nat"
  un_Transaction :: "bytes \<Rightarrow> goerr + tx_action list"
  un_ActionPayload :: "bytes \<Rightarrow> goerr + cc_action_payload"
  un_ProposalPayload :: "bytes \<Rightarrow> goerr + cc_proposal_payload"
  un_InvocationSpec :: "bytes \<Rightarrow> goerr + chaincode_spec option"
  un_ResponsePayload :: "bytes \<Rightarrow> goerr + response_payload"
  un_ChaincodeAction :: "bytes \<Rightarrow> goerr + chaincode_action"
  un_TxRwSet :: "bytes \<Rightarrow> goerr + ns_rwset list"
  un_ChaincodeEvent :: "bytes \<Rightarrow> goerr + pb_chaincode_event"
  un_ChaincodeData :: "bytes \<Rightarrow> goerr + pb_chaincode_data"
  un_CDSData :: "bytes \<Rightarrow> goerr + pb_cds_data"
  un_CollConfig :: "bytes \<Rightarrow> goerr + static_coll_config option list"
  un_flag_text :: "byte \<Rightarrow> string"

record config_proto = proto +
  un_SignaturePolicy :: "bytes \<Rightarrow> goerr + sig_policy_envelope"
  un_ImplicitMeta :: "bytes \<Rightarrow> goerr + implicit_meta_policy"
  un_ConfigPolicy :: "bytes \<Rightarrow> goerr + pb_config_policy"
  un_ConfigEnvelope :: "bytes \<Rightarrow> goerr + pb_config_envelope"
  un_ConfigUpdateEnvelope :: "bytes \<Rightarrow> goerr + pb_config_update_envelope"
  un_ConfigUpdate :: "bytes \<Rightarrow> goerr + pb_config_update"
  un_MSPRole :: "bytes \<Rightarrow> goerr + msp_role"
  un_OrganizationUnit :: "bytes \<Rightarrow> goerr + msp_unit"
  un_MSPConfig :: "bytes \<Rightarrow> goerr + msp_config"
  un_FabricMSPConfig :: "bytes \<Rightarrow> goerr + fabric_msp_config"
  un_AnchorPeers :: "bytes \<Rightarrow> goerr + anchor_peer list"
  un_ConsensusType :: "bytes \<Rightarrow> goerr + string"
  un_BatchSize :: "bytes \<Rightarrow> goerr + batch_size"
  un_BatchTimeout :: "bytes \<Rightarrow> goerr + string"
  un_ChannelRestrictions :: "bytes \<Rightarrow> goerr + nat"
  un_HashingAlgorithm :: "bytes \<Rightarrow> goerr + string"
  un_HashingStructure :: "bytes \<Rightarrow> goerr + nat"
  un_OrdererAddresses :: "bytes \<Rightarrow> goerr + string list"
  un_Consortium :: "bytes \<Rightarrow> goerr + string"
  un_Capabilities :: "bytes \<Rightarrow> goerr + string list"

end
