(* ===== verification/BlockPrinter.thy ===== *)
theory BlockPrinter
  imports BlockMessages
begin

text \<open>
  The block printer of fabric-cli (printer/blockprinter.go, protoutils.go): one function for every kind of
  message of a block, which makes the calls of the formatter (Formatter.thy) and may panic on the way.
\<close>

section \<open>Printing steps\<close>

text \<open>The calls made, and the panic that ended them.\<close>

type_synonym pr = "fcall list \<times> string option"

definition emit :: "fcall \<Rightarrow> pr" where
  "emit c = ([c], None)"

fun seqs :: "pr list \<Rightarrow> pr" where
  "seqs [] = ([], None)"
| "seqs (p # ps) =
     (case snd p of
        Some e \<Rightarrow> p
      | None \<Rightarrow> (fst p @ fst (seqs ps), snd (seqs ps)))"

text \<open>To evaluate it, every step is looked at once.\<close>

lemma seqs_code [code]:
  "seqs [] = ([], None)"
  "seqs (p # ps) =
     (case p of
        (cs, Some e) \<Rightarrow> (cs, Some e)
      | (cs, None) \<Rightarrow> (case seqs ps of (ds, e) \<Rightarrow> (cs @ ds, e)))"
  by (auto split: prod.splits option.splits)

definition panics :: "string \<Rightarrow> pr" where
  "panics t = ([], Some t)"

text \<open>Reading through a pointer; decoding, with the panic of an error.\<close>

definition through :: "'a option \<Rightarrow> ('a \<Rightarrow> pr) \<Rightarrow> pr" where
  "through x f = (case x of None \<Rightarrow> panics ''nil pointer dereference'' | Some y \<Rightarrow> f y)"

definition decoded :: "string \<Rightarrow> goerr + 'a \<Rightarrow> ('a \<Rightarrow> pr) \<Rightarrow> pr" where
  "decoded prefix r f = (case r of Inl e \<Rightarrow> panics (prefix @ err_text e) | Inr x \<Rightarrow> f x)"

definition unmarshalOrPanic :: "goerr + 'a \<Rightarrow> ('a \<Rightarrow> pr) \<Rightarrow> pr" where
  "unmarshalOrPanic r f = decoded [] r f"

definition element :: "string \<Rightarrow> pr \<Rightarrow> pr" where
  "element e body = seqs [emit (FElement e), body, emit FElementEnd]"

definition array :: "string \<Rightarrow> pr \<Rightarrow> pr" where
  "array a body = seqs [emit (FArray a), body, emit FArrayEnd]"

definition item_of :: "string \<Rightarrow> findex \<Rightarrow> pr \<Rightarrow> pr" where
  "item_of e i body = seqs [emit (FItem e i), body, emit FItemEnd]"

text \<open>The loops: items numbered by the loop variable, items named by their key, single values.\<close>

definition for_items :: "string \<Rightarrow> ('a \<Rightarrow> pr) \<Rightarrow> 'a list \<Rightarrow> pr" where
  "for_items e f xs = seqs (map (\<lambda>(i, x). item_of e (IxInt i) (f x)) (enumerate 0 xs))"

definition for_keys :: "string \<Rightarrow> (string \<Rightarrow> 'a \<Rightarrow> pr) \<Rightarrow> (string \<times> 'a) list \<Rightarrow> pr" where
  "for_keys e f kvs = seqs (map (\<lambda>(k, v). item_of e (IxStr k) (f k v)) kvs)"

definition for_values :: "string \<Rightarrow> gval list \<Rightarrow> pr" where
  "for_values e vs = seqs (map (\<lambda>(i, v). emit (FItemValue e (IxInt i) v)) (enumerate 0 vs))"

definition field :: "string \<Rightarrow> gval \<Rightarrow> pr" where
  "field f v = emit (FField f (Some v))"

definition field_s :: "string \<Rightarrow> string \<Rightarrow> pr" where "field_s f s = field f (VStr s)"
definition field_b :: "string \<Rightarrow> bytes \<Rightarrow> pr" where "field_b f b = field f (VBytes b)"
definition field_n :: "string \<Rightarrow> nat \<Rightarrow> pr" where "field_n f n = field f (VNum (int n))"
definition field_i :: "string \<Rightarrow> int \<Rightarrow> pr" where "field_i f n = field f (VNum n)"
definition field_64 :: "string \<Rightarrow> bytes \<Rightarrow> pr" where "field_64 f b = field f (VStr (Base64URLEncode b))"
definition field_t :: "string \<Rightarrow> string \<Rightarrow> pr" where "field_t f t = field f (VText t)"
definition field_tf :: "string \<Rightarrow> bool \<Rightarrow> pr" where "field_tf f b = field f (VBool b)"

lemma seqs_cong_items [fundef_cong]:
  assumes "xs = ys" "\<And>x. x \<in> set ys \<Longrightarrow> f x = g x"
  shows "for_items e f xs = for_items e g ys"
proof -
  have "map (\<lambda>(i, x). item_of e (IxInt i) (f x)) (enumerate 0 ys) = map (\<lambda>(i, x). item_of e (IxInt i) (g x)) (enumerate 0 ys)"
    using assms(2) by (auto simp: in_set_enumerate_eq intro!: map_cong)
  then show ?thesis unfolding for_items_def assms(1) by (rule arg_cong)
qed

lemma for_keys_cong [fundef_cong]:
  assumes "xs = ys" "\<And>k x. (k, x) \<in> set ys \<Longrightarrow> f k x = g k x"
  shows "for_keys e f xs = for_keys e g ys"
  using assms by (auto simp: for_keys_def intro!: arg_cong [of _ _ seqs])

section \<open>Policies\<close>

definition PrintMSPPrincipal :: "'a config_proto_scheme \<Rightarrow> msp_principal \<Rightarrow> pr" where
  "PrintMSPPrincipal cd prin = seqs
     [field_t ''PrincipalClassification'' (principal_class_text (mp_PrincipalClassification prin)),
      element ''Principal''
        (case mp_PrincipalClassification prin of
           ROLE \<Rightarrow> unmarshalOrPanic (un_MSPRole cd (mp_Principal prin)) (\<lambda>mspRole. seqs
             [field_t ''Role'' (mr_Role mspRole),
              field_s ''MspIdentifier'' (mr_MspIdentifier mspRole)])
         | IDENTITY \<Rightarrow> emit (FValue (VBytes (mp_Principal prin)))
         | ORGANIZATION_UNIT \<Rightarrow> unmarshalOrPanic (un_OrganizationUnit cd (mp_Principal prin)) (\<lambda>unit. seqs
             [field_s ''MspIdentifier'' (mu_MspIdentifier unit),
              field_s ''OrganizationalUnitIdentifier'' (mu_OrganizationalUnitIdentifier unit),
              field_b ''CertifiersIdentifier'' (mu_CertifiersIdentifier unit)])
         | OtherClass _ \<Rightarrow> emit (FValue (VStr ''unknown PrincipalClassification'')))]"

definition PrintSignaturePolicySignedBy :: "int \<Rightarrow> pr" where
  "PrintSignaturePolicySignedBy signedBy = field_i ''SignedBy'' signedBy"

text \<open>\<open>PrintSignaturePolicy\<close> and \<open>PrintSignaturePolicyNOutOf\<close>, which call each other.\<close>

fun print_policy :: "sig_policy \<Rightarrow> pr" where
  "print_policy (SignedBy n) = seqs [field_s ''Type'' ''SignedBy'', PrintSignaturePolicySignedBy n]"
| "print_policy (NOutOf n rules) = seqs
     [field_s ''Type'' ''NOutOf'',
      field_i ''N'' n,
      array ''Rules'' (for_items ''Rule'' print_policy rules)]"
| "print_policy (OtherPolicy t) =
     emit (FPrint (''!!!!!!! Don'' @ [CHR 0x27] @ ''t know how to print signature policy: '' @ t))"

definition PrintSignaturePolicy :: "sig_policy option \<Rightarrow> pr" where
  "PrintSignaturePolicy sigPolicy = through sigPolicy print_policy"

definition PrintSignaturePolicyEnvelope :: "'a config_proto_scheme \<Rightarrow> sig_policy_envelope option \<Rightarrow> pr" where
  "PrintSignaturePolicyEnvelope cd sigPolicyEnv = seqs
     [element ''Rule'' (through sigPolicyEnv (\<lambda>env. PrintSignaturePolicy (sp_Rule env))),
      through sigPolicyEnv (\<lambda>env.
        array ''Identities'' (for_items ''Identity'' (PrintMSPPrincipal cd) (sp_Identities env)))]"

definition PrintImplicitMetaPolicy :: "implicit_meta_policy \<Rightarrow> pr" where
  "PrintImplicitMetaPolicy impMetaPolicy = seqs
     [field_t ''Rule'' (im_Rule impMetaPolicy), field_s ''Sub-policy'' (im_SubPolicy impMetaPolicy)]"

definition PrintConfigPolicy :: "'a config_proto_scheme \<Rightarrow> pb_config_policy \<Rightarrow> pr" where
  "PrintConfigPolicy cd policy = seqs
     [field_s ''ModPolicy'' (cp_ModPolicy policy),
      field_n ''Version'' (cp_Version policy),
      (case cp_Policy policy of
         None \<Rightarrow> seqs []
       | Some (SIGNATURE, value) \<Rightarrow> unmarshalOrPanic (un_SignaturePolicy cd value) (\<lambda>sigPolicyEnv. seqs
           [field_s ''Type'' ''SIGNATURE'', PrintSignaturePolicyEnvelope cd (Some sigPolicyEnv)])
       | Some (MSP, value) \<Rightarrow> seqs
           [field_s ''Type'' ''MSP'',
            emit (FPrint (''!!!!!!! Don'' @ [CHR 0x27] @ ''t know how to Print MSP policy''))]
       | Some (IMPLICIT_META, value) \<Rightarrow> unmarshalOrPanic (un_ImplicitMeta cd value) (\<lambda>impMetaPolicy. seqs
           [field_s ''Type'' ''IMPLICIT_META'', PrintImplicitMetaPolicy impMetaPolicy])
       | Some (OtherPolicyType, value) \<Rightarrow> seqs [])]"

section \<open>Configuration\<close>

definition PrintBatchSize :: "batch_size \<Rightarrow> pr" where
  "PrintBatchSize batchSize = seqs
     [field_n ''MaxMessageCount'' (bs_MaxMessageCount batchSize),
      field_n ''AbsoluteMaxBytes'' (bs_AbsoluteMaxBytes batchSize),
      field_n ''PreferredMaxBytes'' (bs_PreferredMaxBytes batchSize)]"

definition PrintFabricMSPConfig :: "fabric_msp_config \<Rightarrow> pr" where
  "PrintFabricMSPConfig mspConfig = seqs
     [field_s ''Name'' (fm_Name mspConfig),
      array ''Admins'' (for_values ''Admin Cert'' (map VBytes (fm_Admins mspConfig)))]"

definition PrintMSPConfig :: "'a config_proto_scheme \<Rightarrow> msp_config \<Rightarrow> pr" where
  "PrintMSPConfig cd mspConfig =
     (if mc_Type mspConfig = 0 then seqs
        [emit (FPrint ''Type: FABRIC''),
         unmarshalOrPanic (un_FabricMSPConfig cd (mc_Config mspConfig)) (\<lambda>config. seqs
           [emit (FPrint ''Config:''), PrintFabricMSPConfig config])]
      else emit (FPrint ''Type: OTHER''))"

definition PrintAnchorPeer :: "anchor_peer \<Rightarrow> pr" where
  "PrintAnchorPeer anchorPeer = seqs [field_s ''Host'' (ap_Host anchorPeer), field_i ''Port'' (ap_Port anchorPeer)]"

definition PrintAnchorPeers :: "anchor_peer list \<Rightarrow> pr" where
  "PrintAnchorPeers anchorPeers = array ''AnchorPeers'' (for_items ''Anchor Peer'' PrintAnchorPeer anchorPeers)"

definition PrintCapabilities :: "string list \<Rightarrow> pr" where
  "PrintCapabilities capabilities = seqs (map (field_s ''Capability'') capabilities)"

text \<open>\<open>PrintConfigValue\<close>: what the name of the value says it holds.\<close>

definition config_value_body :: "'a config_proto_scheme \<Rightarrow> string \<Rightarrow> bytes \<Rightarrow> pr" where
  "config_value_body cd name value =
     (if name = ''AnchorPeers'' then unmarshalOrPanic (un_AnchorPeers cd value) (\<lambda>anchorPeers.
        element ''AnchorPeers'' (PrintAnchorPeers anchorPeers))
      else if name = ''MSP'' then unmarshalOrPanic (un_MSPConfig cd value) (\<lambda>mspConfig.
        element ''MSPConfig'' (PrintMSPConfig cd mspConfig))
      else if name = ''ConsensusType'' then unmarshalOrPanic (un_ConsensusType cd value) (\<lambda>consensusType.
        field_s ''ConsensusType'' consensusType)
      else if name = ''BatchSize'' then unmarshalOrPanic (un_BatchSize cd value) (\<lambda>batchSize.
        element ''BatchSize'' (PrintBatchSize batchSize))
      else if name = ''BatchTimeout'' then unmarshalOrPanic (un_BatchTimeout cd value) (\<lambda>batchTimeout.
        field_s ''Timeout'' batchTimeout)
      else if name = ''ChannelRestrictions'' then unmarshalOrPanic (un_ChannelRestrictions cd value) (\<lambda>maxCount.
        element ''ChannelRestrictions'' (field_n ''MaxCount'' maxCount))
      else if name = ''ChannelCreationPolicy'' then unmarshalOrPanic (un_ConfigPolicy cd value) (\<lambda>creationPolicy.
        element ''ChannelCreationPolicy'' (PrintConfigPolicy cd creationPolicy))
      else if name = ''HashingAlgorithm'' then unmarshalOrPanic (un_HashingAlgorithm cd value) (\<lambda>algorithm.
        element ''HashingAlgorithm'' (field_s ''Name'' algorithm))
      else if name = ''BlockDataHashingStructure'' then unmarshalOrPanic (un_HashingStructure cd value) (\<lambda>width.
        element ''BlockDataHashingStructure'' (field_n ''Width'' width))
      else if name = ''OrdererAddresses'' then unmarshalOrPanic (un_OrdererAddresses cd value) (\<lambda>addresses.
        element ''OrdererAddresses'' (field ''Addresses'' (VStrs addresses)))
      else if name = ''Consortium'' then unmarshalOrPanic (un_Consortium cd value) (\<lambda>consortium.
        element ''Consortium'' (field_s ''Name'' consortium))
      else if name = ''Capabilities'' then unmarshalOrPanic (un_Capabilities cd value) (\<lambda>capabilities.
        element ''Capabilities'' (PrintCapabilities capabilities))
      else emit (FPrint (''!!!!!!! Don'' @ [CHR 0x27] @ ''t know how to Print config value: '' @ name)))"

definition PrintConfigValue :: "'a config_proto_scheme \<Rightarrow> string \<Rightarrow> pb_config_value \<Rightarrow> pr" where
  "PrintConfigValue cd name value = seqs
     [field_n ''Version'' (cv_Version value),
      field_s ''ModPolicy'' (cv_ModPolicy value),
      config_value_body cd name (cv_Value value)]"

lemma size_config_group:
  assumes "(k, g) \<in> set gs"
  shows "size g < size (ConfigGroup v m gs vs ps)"
proof -
  have "size g \<le> size_list (size_prod (\<lambda>_. 0) size) gs"
    using size_list_estimation' [OF assms, of "size g" "size_prod (\<lambda>_. 0) size"] by simp
  then show ?thesis by simp
qed

function print_group :: "'a config_proto_scheme \<Rightarrow> config_group \<Rightarrow> pr" where
  "print_group cd (ConfigGroup version modPolicy groups values policies) = seqs
     [field_n ''Version'' version,
      field_s ''ModPolicy'' modPolicy,
      array ''Groups'' (for_keys ''Group'' (\<lambda>key grp. print_group cd grp) groups),
      array ''Values'' (for_keys ''Value'' (\<lambda>key val. PrintConfigValue cd key val) values),
      array ''Policies'' (for_keys ''Policy'' (\<lambda>key policy. PrintConfigPolicy cd policy) policies)]"
  by pat_completeness auto
termination
  by (relation "measure (\<lambda>(cd, g). size g)") (use size_config_group in \<open>auto simp del: config_group.size\<close>)

definition PrintConfigGroup :: "'a config_proto_scheme \<Rightarrow> config_group option \<Rightarrow> pr" where
  "PrintConfigGroup cd configGroup = (case configGroup of None \<Rightarrow> seqs [] | Some g \<Rightarrow> print_group cd g)"

definition PrintConfig :: "'a config_proto_scheme \<Rightarrow> pb_config option \<Rightarrow> pr" where
  "PrintConfig cd config = through config (\<lambda>config. seqs
     [field_n ''Sequence'' (cc_Sequence config),
      element ''ChannelGroup'' (PrintConfigGroup cd (cc_ChannelGroup config))])"

definition PrintSignatureHeader :: "pb_signature_header \<Rightarrow> pr" where
  "PrintSignatureHeader sigHdr = seqs [field_b ''Nonce'' (sh_Nonce sigHdr), field_b ''Creator'' (sh_Creator sigHdr)]"

text \<open>\<open>errors.Wrap\<close> of protoutils.go.\<close>

definition wrap_msg :: "string \<Rightarrow> goerr + 'a \<Rightarrow> goerr + 'a" where
  "wrap_msg t r = (case r of Inl e \<Rightarrow> Inl (ErrWrap t e) | Inr x \<Rightarrow> Inr x)"

definition GetSignatureHeader :: "'a config_proto_scheme \<Rightarrow> bytes \<Rightarrow> goerr + pb_signature_header" where
  "GetSignatureHeader cd bs = wrap_msg ''error unmarshaling SignatureHeader'' (un_SignatureHeader cd bs)"

definition payload_ChannelHeader :: "'a config_proto_scheme \<Rightarrow> bytes \<Rightarrow> goerr + pb_channel_header" where
  "payload_ChannelHeader cd bs = wrap_msg ''error unmarshaling ChannelHeader'' (un_ChannelHeader cd bs)"

definition envelope_GetTransaction :: "'a config_proto_scheme \<Rightarrow> bytes \<Rightarrow> goerr + tx_action list" where
  "envelope_GetTransaction cd txBytes = wrap_msg ''error unmarshaling Transaction'' (un_Transaction cd txBytes)"

definition tx_ActionPayload :: "'a config_proto_scheme \<Rightarrow> bytes \<Rightarrow> goerr + cc_action_payload" where
  "tx_ActionPayload cd capBytes =
     wrap_msg ''error unmarshaling ChaincodeActionPayload'' (un_ActionPayload cd capBytes)"

definition ExtractPayload :: "'a config_proto_scheme \<Rightarrow> pb_envelope \<Rightarrow> goerr + pb_envelope_payload" where
  "ExtractPayload cd envelope = wrap_msg ''no payload in envelope'' (un_Payload cd (en_Payload envelope))"

definition block_GetEnvelope :: "'a config_proto_scheme \<Rightarrow> bytes \<Rightarrow> goerr + pb_envelope" where
  "block_GetEnvelope cd data = wrap_msg ''error unmarshaling Envelope'' (un_Envelope cd data)"

definition ExtractEnvelope :: "'a config_proto_scheme \<Rightarrow> pb_block \<Rightarrow> int \<Rightarrow> goerr + pb_envelope" where
  "ExtractEnvelope cd block index =
     (case bl_Data block of
        None \<Rightarrow> Inl (ErrNew ''block data is nil'')
      | Some data \<Rightarrow>
          if index < 0 \<or> index \<ge> int (length data) then Inl (ErrNew ''envelope index out of bounds'')
          else wrap_msg (''block data does not carry an envelope at index '' @ show_int index)
            (block_GetEnvelope cd (data ! nat index)))"

definition PrintConfigSignature :: "'a config_proto_scheme \<Rightarrow> pb_config_signature \<Rightarrow> pr" where
  "PrintConfigSignature cd sig = seqs
     [field_b ''Signature'' (cs_Signature sig),
      decoded [] (GetSignatureHeader cd (cs_SignatureHeader sig)) (\<lambda>sigHeader.
        element ''SignatureHeader'' (PrintSignatureHeader sigHeader))]"

definition PrintConfigUpdate :: "'a config_proto_scheme \<Rightarrow> pb_config_update \<Rightarrow> pr" where
  "PrintConfigUpdate cd configUpdate = seqs
     [field_s ''ChannelId'' (up_ChannelId configUpdate),
      element ''ReadSet'' (PrintConfigGroup cd (up_ReadSet configUpdate)),
      element ''WriteSet'' (PrintConfigGroup cd (up_WriteSet configUpdate))]"

definition PrintConfigUpdateEnvelope :: "'a config_proto_scheme \<Rightarrow> pb_config_update_envelope \<Rightarrow> pr" where
  "PrintConfigUpdateEnvelope cd envelope = seqs
     [array ''Signatures'' (for_items ''Config Signature'' (PrintConfigSignature cd) (cu_Signatures envelope)),
      decoded [] (un_ConfigUpdate cd (cu_ConfigUpdate envelope)) (\<lambda>configUpdate.
        element ''ConfigUpdate'' (PrintConfigUpdate cd configUpdate))]"

section \<open>Chaincodes\<close>

definition PrintChaincodeID :: "pb_chaincode_id option \<Rightarrow> pr" where
  "PrintChaincodeID ccID =
     (case ccID of
        None \<Rightarrow> seqs []
      | Some ccID \<Rightarrow> seqs
          [field_s ''Name'' (ci_Name ccID), field_s ''Version'' (ci_Version ccID), field_s ''Path'' (ci_Path ccID)])"

definition PrintChaincodeInfo :: "pb_chaincode_info \<Rightarrow> pr" where
  "PrintChaincodeInfo ccInfo = seqs
     [field_s ''Name'' (cn_Name ccInfo), field_s ''Path'' (cn_Path ccInfo), field_s ''Version'' (cn_Version ccInfo),
      field_s ''Escc'' (cn_Escc ccInfo), field_s ''Vscc'' (cn_Vscc ccInfo), field_s ''Input'' (cn_Input ccInfo)]"

definition PrintCDSData :: "pb_cds_data \<Rightarrow> pr" where
  "PrintCDSData cdsData = seqs
     [field_64 ''CodeHash'' (cz_CodeHash cdsData), field_64 ''MetaDataHash'' (cz_MetaDataHash cdsData)]"

definition doPrintChaincodeData :: "'a config_proto_scheme \<Rightarrow> pb_chaincode_data \<Rightarrow> pr" where
  "doPrintChaincodeData cd ccData = seqs
     [field_b ''Id'' (cx_Id ccData),
      field_s ''Name'' (cx_Name ccData),
      field_s ''Version'' (cx_Version ccData),
      field_s ''Escc'' (cx_Escc ccData),
      field_s ''Vscc'' (cx_Vscc ccData),
      unmarshalOrPanic (un_CDSData cd (cx_Data ccData)) (\<lambda>cdsData. element ''Data'' (PrintCDSData cdsData)),
      unmarshalOrPanic (un_SignaturePolicy cd (cx_Policy ccData)) (\<lambda>policy.
        element ''Policy'' (PrintSignaturePolicyEnvelope cd (Some policy))),
      unmarshalOrPanic (un_SignaturePolicy cd (cx_InstantiationPolicy ccData)) (\<lambda>instPolicy.
        element ''InstantiationPolicy'' (PrintSignaturePolicyEnvelope cd (Some instPolicy)))]"

definition printStaticCollectionConfig :: "'a config_proto_scheme \<Rightarrow> static_coll_config \<Rightarrow> pr" where
  "printStaticCollectionConfig cd config = seqs
     [field_s ''Name'' (sc_Name config),
      field_n ''BlockToLive'' (sc_BlockToLive config),
      field_i ''MaximumPeerCount'' (sc_MaximumPeerCount config),
      field_i ''RequiredPeerCount'' (sc_RequiredPeerCount config),
      field_tf ''MemberOnlyRead'' (sc_MemberOnlyRead config),
      field_tf ''MemberOnlyWrite'' (sc_MemberOnlyWrite config),
      element ''MemberOrgsPolicy'' (PrintSignaturePolicyEnvelope cd (sc_MemberOrgsPolicy config))]"

text \<open>The \<open>continue\<close> for an unknown type leaves the item open.\<close>

definition print_coll :: "'a config_proto_scheme \<Rightarrow> nat \<Rightarrow> static_coll_config option \<Rightarrow> pr" where
  "print_coll cd i c = seqs
     [emit (FItem ''Config'' (IxInt i)),
      (case c of
         None \<Rightarrow> emit (FValue (VStr ''unknown config type''))
       | Some sc \<Rightarrow> seqs [printStaticCollectionConfig cd sc, emit FItemEnd])]"

definition doPrintCollConfig :: "'a config_proto_scheme \<Rightarrow> static_coll_config option list \<Rightarrow> pr" where
  "doPrintCollConfig cd collConfig =
     array ''CollectionConfig'' (seqs (map (\<lambda>(i, c). print_coll cd i c) (enumerate 0 collConfig)))"

definition PrintChaincodeInput :: "chaincode_input option \<Rightarrow> pr" where
  "PrintChaincodeInput ccInput = seqs
     [array ''Args'' (through ccInput (\<lambda>i. for_values ''Arg'' (map VBytes (ip_Args i)))),
      array ''Decorations'' (through ccInput (\<lambda>i. seqs
        (map (\<lambda>(key, value). emit (FItemValue ''Decoration'' (IxStr key) (VBytes value))) (ip_Decorations i))))]"

definition PrintChaincodeSpec :: "chaincode_spec option \<Rightarrow> pr" where
  "PrintChaincodeSpec ccSpec = seqs
     [element ''ChaincodeId'' (through ccSpec (\<lambda>s. PrintChaincodeID (cq_ChaincodeId s))),
      through ccSpec (\<lambda>ccSpec. seqs
        [field_i ''Timeout'' (cq_Timeout ccSpec),
         field_t ''Type'' (cq_Type ccSpec),
         element ''Input'' (PrintChaincodeInput (cq_Input ccSpec))])]"

definition PrintChaincodeInvocationSpec :: "chaincode_spec option \<Rightarrow> pr" where
  "PrintChaincodeInvocationSpec cis = element ''ChaincodeSpec'' (PrintChaincodeSpec cis)"

definition PrintChaincodeDeploymentSpec :: "chaincode_spec option \<Rightarrow> pr" where
  "PrintChaincodeDeploymentSpec depSpec = element ''ChaincodeSpec'' (PrintChaincodeSpec depSpec)"

section \<open>Read and write sets\<close>

definition PrintVersion :: "kv_version \<Rightarrow> pr" where
  "PrintVersion version =
     (case version of
        None \<Rightarrow> seqs []
      | Some (blockNum, txNum) \<Rightarrow> seqs [field_n ''BlockNum'' blockNum, field_n ''TxNum'' txNum])"

definition PrintRead :: "kv_read \<Rightarrow> pr" where
  "PrintRead r = seqs [field_s ''Key'' (kr_Key r), element ''Version'' (PrintVersion (kr_Version r))]"

definition PrintWrite :: "kv_write \<Rightarrow> pr" where
  "PrintWrite w = seqs
     [field_s ''Key'' (kw_Key w), field_tf ''IsDelete'' (kw_IsDelete w), field_b ''Value'' (kw_Value w)]"

definition isCollectionConfigKey :: "string \<Rightarrow> bool" where
  "isCollectionConfigKey key = contains key ''~''"

definition printChaincodeData :: "'a config_proto_scheme \<Rightarrow> bytes \<Rightarrow> pr" where
  "printChaincodeData cd value =
     (case un_ChaincodeData cd value of
        Inl e \<Rightarrow> emit (FStdout (''Error unmarshalling chaincode data from lscc KV WriteSet: '' @ err_text e))
      | Inr chaincodeData \<Rightarrow> element ''Value_ChaincodeData'' (doPrintChaincodeData cd chaincodeData))"

definition printCollectionConfig :: "'a config_proto_scheme \<Rightarrow> bytes \<Rightarrow> pr" where
  "printCollectionConfig cd value =
     (case un_CollConfig cd value of
        Inl e \<Rightarrow> emit (FStdout (''Error unmarshalling collection config from lscc KV WriteSet: '' @ err_text e))
      | Inr cp \<Rightarrow> doPrintCollConfig cd cp)"

definition PrintLSCCWrite :: "'a config_proto_scheme \<Rightarrow> kv_write \<Rightarrow> pr" where
  "PrintLSCCWrite cd w = seqs
     [field_s ''Key'' (kw_Key w),
      field_tf ''IsDelete'' (kw_IsDelete w),
      (if kw_IsDelete w then seqs []
       else if isCollectionConfigKey (kw_Key w) then printCollectionConfig cd (kw_Value w)
       else printChaincodeData cd (kw_Value w))]"

definition PrintRawReads :: "kv_read list \<Rightarrow> pr" where
  "PrintRawReads kvReads = array ''QueryReads'' (for_items ''Read'' PrintRead kvReads)"

definition PrintReadsMerkleHashes :: "nat \<Rightarrow> nat \<Rightarrow> bytes list \<Rightarrow> pr" where
  "PrintReadsMerkleHashes maxDegree maxLevel hashes = seqs
     [field_n ''MaxDegree'' maxDegree,
      field_n ''MaxLevel'' maxLevel,
      array ''MaxLevelHashes'' (for_values ''Hash'' (map (\<lambda>r. VStr (Base64URLEncode r)) hashes))]"

definition PrintReadsInfo :: "reads_info \<Rightarrow> pr" where
  "PrintReadsInfo ri =
     (case ri of
        RawReads kvReads \<Rightarrow> PrintRawReads kvReads
      | MerkleHashes maxDegree maxLevel hashes \<Rightarrow> PrintReadsMerkleHashes maxDegree maxLevel hashes
      | NoReads \<Rightarrow> seqs []
      | OtherReads t \<Rightarrow> emit (FPrint (''unknown type: '' @ t)))"

definition PrintRangeQueryInfo :: "range_query \<Rightarrow> pr" where
  "PrintRangeQueryInfo rqi = seqs
     [field_s ''StartKey'' (rq_StartKey rqi),
      field_s ''EndKey'' (rq_EndKey rqi),
      field_tf ''ItrExhausted'' (rq_ItrExhausted rqi),
      element ''ReadsInfo'' (PrintReadsInfo (rq_ReadsInfo rqi))]"

definition PrintKvRwSet :: "'a config_proto_scheme \<Rightarrow> kv_rwset option \<Rightarrow> string \<Rightarrow> pr" where
  "PrintKvRwSet cd kvRWSet namespace = seqs
     [array ''Reads'' (through kvRWSet (\<lambda>s. for_items ''Read'' PrintRead (ks_Reads s))),
      array ''Writes'' (through kvRWSet (\<lambda>s.
        for_items ''Write'' (\<lambda>w. if namespace = ''lscc'' then PrintLSCCWrite cd w else PrintWrite w) (ks_Writes s))),
      array ''RangeQueriesInfo'' (through kvRWSet (\<lambda>s.
        for_items ''RangeQueryInfo'' PrintRangeQueryInfo (ks_RangeQueriesInfo s)))]"

definition PrintHashedRead :: "hashed_read \<Rightarrow> pr" where
  "PrintHashedRead hashedRead = seqs
     [field_64 ''KeyHash'' (hr_KeyHash hashedRead), PrintVersion (hr_Version hashedRead)]"

definition PrintHashedWrite :: "hashed_write \<Rightarrow> pr" where
  "PrintHashedWrite hashedWrite = seqs
     [field_64 ''KeyHash'' (hw_KeyHash hashedWrite),
      field_64 ''ValueHash'' (hw_ValueHash hashedWrite),
      field_tf ''IsDelete'' (hw_IsDelete hashedWrite)]"

definition PrintHashedReads :: "hashed_read list \<Rightarrow> pr" where
  "PrintHashedReads hashedReads = array ''HashedReads'' (for_items ''HashedRead'' PrintHashedRead hashedReads)"

definition PrintHashedWrites :: "hashed_write list \<Rightarrow> pr" where
  "PrintHashedWrites hashedWrites = array ''HashedWrites'' (for_items ''HashedWrite'' PrintHashedWrite hashedWrites)"

definition PrintHashedRwSet :: "hashed_rwset option \<Rightarrow> pr" where
  "PrintHashedRwSet hashedRwSet = through hashedRwSet (\<lambda>s. seqs
     [PrintHashedReads (hs_HashedReads s), PrintHashedWrites (hs_HashedWrites s)])"

definition PrintCollHashedRwSet :: "coll_rwset \<Rightarrow> pr" where
  "PrintCollHashedRwSet collHashedRwSet = seqs
     [field_s ''CollectionName'' (cr_CollectionName collHashedRwSet),
      field_64 ''PvtRwSetHash'' (cr_PvtRwSetHash collHashedRwSet),
      element ''HashedRwSet'' (PrintHashedRwSet (cr_HashedRwSet collHashedRwSet))]"

definition PrintCollHashedRwSets :: "coll_rwset list \<Rightarrow> pr" where
  "PrintCollHashedRwSets sets = array ''CollHashedRwSets'' (for_items ''CollHashedRwSet'' PrintCollHashedRwSet sets)"

definition PrintNsReadWriteSet :: "'a config_proto_scheme \<Rightarrow> ns_rwset \<Rightarrow> pr" where
  "PrintNsReadWriteSet cd nsRWSet = seqs
     [field_s ''NameSpace'' (nr_NameSpace nsRWSet),
      element ''KvRwSet'' (PrintKvRwSet cd (nr_KvRwSet nsRWSet) (nr_NameSpace nsRWSet)),
      element ''CollHashedRwSets'' (PrintCollHashedRwSets (nr_CollHashedRwSets nsRWSet))]"

definition PrintTxReadWriteSet :: "'a config_proto_scheme \<Rightarrow> ns_rwset list \<Rightarrow> pr" where
  "PrintTxReadWriteSet cd txRWSet = array ''NsRWs'' (for_items ''TxRwSet'' (PrintNsReadWriteSet cd) txRWSet)"

section \<open>Transactions\<close>

definition PrintResponse :: "pb_response option \<Rightarrow> pr" where
  "PrintResponse response = through response (\<lambda>r. seqs
     [field_s ''Message'' (re_Message r), field_i ''Status'' (re_Status r), field_b ''Payload'' (re_Payload r)])"

definition PrintChaincodeResponse :: "pb_response option \<Rightarrow> pr" where
  "PrintChaincodeResponse response = through response (\<lambda>r. seqs
     [field_s ''Message'' (re_Message r), field_i ''Status'' (re_Status r), field_b ''Payload'' (re_Payload r)])"

definition PrintChaincodeEventFromBlock :: "pb_chaincode_event \<Rightarrow> pr" where
  "PrintChaincodeEventFromBlock e = seqs
     [field_s ''ChaincodeId'' (ce_ChaincodeId e), field_s ''EventName'' (ce_EventName e),
      field_s ''TxID'' (ce_TxId e), field_b ''Payload'' (ce_Payload e)]"

definition PrintEndorsement :: "pb_endorsement option \<Rightarrow> pr" where
  "PrintEndorsement endorsement = through endorsement (\<lambda>e. seqs
     [field_b ''Endorser'' (ed_Endorser e), field_b ''Signature'' (ed_Signature e)])"

definition PrintChaincodeAction :: "'a config_proto_scheme \<Rightarrow> chaincode_action \<Rightarrow> pr" where
  "PrintChaincodeAction cd chaincodeAction = seqs
     [element ''Response'' (PrintChaincodeResponse (cw_Response chaincodeAction)),
      element ''Results''
        (if length (cw_Results chaincodeAction) > 0 then
           decoded [] (un_TxRwSet cd (cw_Results chaincodeAction)) (PrintTxReadWriteSet cd)
         else seqs []),
      element ''Events''
        (if length (cw_Events chaincodeAction) > 0 then
           unmarshalOrPanic (un_ChaincodeEvent cd (cw_Events chaincodeAction)) PrintChaincodeEventFromBlock
         else seqs [])]"

definition PrintProposalResponsePayload :: "'a config_proto_scheme \<Rightarrow> response_payload \<Rightarrow> pr" where
  "PrintProposalResponsePayload cd prp = seqs
     [field_64 ''ProposalHash'' (rp_ProposalHash prp),
      unmarshalOrPanic (un_ChaincodeAction cd (rp_Extension prp)) (\<lambda>chaincodeAction.
        element ''Extension'' (PrintChaincodeAction cd chaincodeAction))]"

definition PrintAction :: "'a config_proto_scheme \<Rightarrow> endorsed_action option \<Rightarrow> pr" where
  "PrintAction cd action = seqs
     [array ''Endorsements'' (through action (\<lambda>a.
        for_items ''Endorsement'' (\<lambda>e. PrintEndorsement (Some e)) (ea_Endorsements a))),
      through action (\<lambda>a. unmarshalOrPanic (un_ResponsePayload cd (ea_ProposalResponsePayload a)) (\<lambda>prp.
        element ''ProposalResponsePayload'' (PrintProposalResponsePayload cd prp)))]"

definition PrintChaincodeProposalPayload :: "'a config_proto_scheme \<Rightarrow> cc_proposal_payload \<Rightarrow> pr" where
  "PrintChaincodeProposalPayload cd cpp =
     decoded [] (un_InvocationSpec cd (px_Input cpp)) (\<lambda>cis. seqs
       [element ''Input'' (PrintChaincodeInvocationSpec cis),
        array ''TransientMap'' (for_keys ''Key'' (\<lambda>key value. field_b ''Value'' value) (px_TransientMap cpp))])"

definition PrintChaincodeActionPayload :: "'a config_proto_scheme \<Rightarrow> cc_action_payload \<Rightarrow> pr" where
  "PrintChaincodeActionPayload cd chaPayload =
     decoded [] (un_ProposalPayload cd (ay_ChaincodeProposalPayload chaPayload)) (\<lambda>cpp. seqs
       [element ''ChaincodeProposalPayload'' (PrintChaincodeProposalPayload cd cpp),
        element ''Action'' (PrintAction cd (ay_Action chaPayload))])"

definition PrintTXAction :: "'a config_proto_scheme \<Rightarrow> tx_action \<Rightarrow> pr" where
  "PrintTXAction cd action = seqs
     [element ''Header'' (decoded [] (GetSignatureHeader cd (ta_Header action)) PrintSignatureHeader),
      element ''Payload'' (decoded [] (tx_ActionPayload cd (ta_Payload action)) (PrintChaincodeActionPayload cd))]"

definition PrintTransaction :: "'a config_proto_scheme \<Rightarrow> tx_action list \<Rightarrow> pr" where
  "PrintTransaction cd actions = array ''Actions'' (for_items ''Action'' (PrintTXAction cd) actions)"

definition PrintFilteredCCAction :: "pb_chaincode_event option \<Rightarrow> pr" where
  "PrintFilteredCCAction action =
     (let e = (case action of
                 None \<Rightarrow> \<lparr> ce_ChaincodeId = [], ce_TxId = [], ce_EventName = [], ce_Payload = [] \<rparr>
               | Some e \<Rightarrow> e) in
      seqs [field_s ''Txid'' (ce_TxId e), field_s ''ChaincodeId'' (ce_ChaincodeId e),
        field_s ''EventName'' (ce_EventName e), field_b ''Payload'' (ce_Payload e)])"

definition PrintFilteredTransaction :: "pb_filtered_tx \<Rightarrow> pr" where
  "PrintFilteredTransaction tx = seqs
     [field_s ''Txid'' (ft_Txid tx),
      field_t ''Type'' (ft_Type tx),
      field_t ''TxValidationCode'' (ft_TxValidationCode tx),
      element ''ChaincodeEvents'' (array ''ChaincodeEvents''
        (case ft_Actions tx of None \<Rightarrow> seqs [] | Some actions \<Rightarrow> seqs (map PrintFilteredCCAction actions)))]"

section \<open>Envelopes\<close>

definition PrintChaincodeHeaderExtension :: "pb_chaincode_id option \<Rightarrow> pr" where
  "PrintChaincodeHeaderExtension ccHdrExt = element ''ChaincodeId'' (PrintChaincodeID ccHdrExt)"

definition PrintChannelHeader :: "'a config_proto_scheme \<Rightarrow> pb_channel_header \<Rightarrow> pr" where
  "PrintChannelHeader cd chdr = seqs
     [field_t ''Type'' (header_type_text (ch_Type chdr)),
      field_s ''ChannelId'' (ch_ChannelId chdr),
      field_n ''Epoch'' (ch_Epoch chdr),
      unmarshalOrPanic (un_HeaderExtension cd (ch_Extension chdr)) (\<lambda>ccHdrExt.
        element ''Extension'' (PrintChaincodeHeaderExtension ccHdrExt)),
      field_t ''Timestamp'' (ch_Timestamp chdr),
      field_s ''TxId'' (ch_TxId chdr),
      field_i ''Version'' (ch_Version chdr)]"

text \<open>A configuration holds the envelope of its last update, which is printed in turn: the functions from here to
  \<open>PrintEnvelope\<close> take the printer for it.\<close>

definition PrintConfigEnvelope :: "'a config_proto_scheme \<Rightarrow> (pb_envelope option \<Rightarrow> pr) \<Rightarrow> pb_config_envelope \<Rightarrow> pr" where
  "PrintConfigEnvelope cd print_env envelope = seqs
     [element ''Config'' (PrintConfig cd (co_Config envelope)),
      element ''LastUpdate'' (print_env (co_LastUpdate envelope))]"

definition PrintData :: "'a config_proto_scheme \<Rightarrow> (pb_envelope option \<Rightarrow> pr) \<Rightarrow> header_type \<Rightarrow> bytes \<Rightarrow> pr" where
  "PrintData cd print_env headerType data =
     (if headerType = CONFIG then
        decoded ''Bad envelope: '' (un_ConfigEnvelope cd data) (\<lambda>envelope. seqs
          [emit (FPrint ''Config Envelope:''), PrintConfigEnvelope cd print_env envelope])
      else if headerType = CONFIG_UPDATE then
        decoded ''Bad envelope: '' (un_ConfigUpdateEnvelope cd data) (\<lambda>envelope. seqs
          [emit (FPrint ''Config Update Envelope:''), PrintConfigUpdateEnvelope cd envelope])
      else if headerType = ENDORSER_TRANSACTION then
        decoded ''Bad envelope: '' (envelope_GetTransaction cd data) (\<lambda>tx. seqs
          [emit (FPrint ''Transaction:''), PrintTransaction cd tx])
      else field_64 ''Unsupported Envelope'' data)"

text \<open>\<open>PrintPayload\<close>: the channel header is read for the header and again for the data.\<close>

definition payload_header :: "'a config_proto_scheme \<Rightarrow> pb_payload_header \<Rightarrow> pr" where
  "payload_header cd hdr =
     decoded [] (payload_ChannelHeader cd (ph_ChannelHeader hdr)) (\<lambda>chdr. seqs
       [element ''ChannelHeader'' (PrintChannelHeader cd chdr),
        decoded [] (GetSignatureHeader cd (ph_SignatureHeader hdr)) (\<lambda>sigHeader.
          element ''SignatureHeader'' (PrintSignatureHeader sigHeader))])"

definition PrintPayload :: "'a config_proto_scheme \<Rightarrow> (pb_envelope option \<Rightarrow> pr) \<Rightarrow> pb_envelope_payload \<Rightarrow> pr" where
  "PrintPayload cd print_env payload = seqs
     [element ''Header'' (through (pl_Header payload) (payload_header cd)),
      through (pl_Header payload) (\<lambda>hdr.
        decoded [] (payload_ChannelHeader cd (ph_ChannelHeader hdr)) (\<lambda>chdr.
          element ''Data'' (seqs
            [field_t ''Type'' (header_type_text (ch_Type chdr)),
             PrintData cd print_env (ch_Type chdr) (pl_Data payload)])))]"

fun print_envelope :: "nat \<Rightarrow> 'a config_proto_scheme \<Rightarrow> pb_envelope option \<Rightarrow> pr" where
  "print_envelope 0 cd envelope = panics ''stack overflow''"
| "print_envelope (Suc n) cd envelope = through envelope (\<lambda>envelope. seqs
     [field_b ''Signature'' (en_Signature envelope),
      decoded [] (ExtractPayload cd envelope) (\<lambda>payload.
        element ''Payload'' (PrintPayload cd (print_envelope n cd) payload))])"

definition envelope_fuel :: "pb_envelope option \<Rightarrow> nat" where
  "envelope_fuel envelope = (case envelope of None \<Rightarrow> 1 | Some e \<Rightarrow> length (en_Payload e) + 2)"

definition PrintEnvelope :: "'a config_proto_scheme \<Rightarrow> pb_envelope option \<Rightarrow> pr" where
  "PrintEnvelope cd envelope = print_envelope (envelope_fuel envelope) cd envelope"


section \<open>Metadata\<close>

text \<open>\<open>getMetadataOrPanic\<close>: the list of metadata is read through a pointer and by index. The error of the decoder is
  dropped.\<close>

definition metadata_at :: "bytes list option \<Rightarrow> nat \<Rightarrow> (bytes \<Rightarrow> pr) \<Rightarrow> pr" where
  "metadata_at blockMetaData index f = through blockMetaData (\<lambda>metadata.
     if index < length metadata then f (metadata ! index) else panics ''index out of range'')"

definition getMetadataOrPanic ::
  "'a config_proto_scheme \<Rightarrow> bytes list option \<Rightarrow> nat \<Rightarrow> (pb_metadata \<Rightarrow> pr) \<Rightarrow> pr" where
  "getMetadataOrPanic cd blockMetaData index f = metadata_at blockMetaData index (\<lambda>bs.
     case un_Metadata cd bs of
       Inl e \<Rightarrow> panics (''Unable to unmarshal meta data at index '' @ show_nat index)
     | Inr md \<Rightarrow> f md)"

definition PrintSignaturesMetadata :: "'a config_proto_scheme \<Rightarrow> pb_metadata \<Rightarrow> pr" where
  "PrintSignaturesMetadata cd metadata =
     array ''Signatures'' (seqs (map (\<lambda>(i, hdr).
       decoded ''Failed unmarshalling meta data signature header. Error: '' (GetSignatureHeader cd hdr)
         (\<lambda>shdr. item_of ''Metadata Signature'' (IxInt i) (PrintSignatureHeader shdr)))
       (enumerate 0 (md_Signatures metadata))))"

definition PrintLastConfigMetadata :: "'a config_proto_scheme \<Rightarrow> pb_metadata \<Rightarrow> pr" where
  "PrintLastConfigMetadata cd metadata =
     decoded ''Failed unmarshalling meta data last config. Error: '' (un_LastConfig cd (md_Value metadata))
       (field_n ''Last Config Index'')"

definition PrintTransactionsFilterMetadata :: "'a config_proto_scheme \<Rightarrow> bytes \<Rightarrow> pr" where
  "PrintTransactionsFilterMetadata cd txFilter =
     array ''TransactionFilters'' (for_values ''TxValidationFlag'' (map (\<lambda>f. VText (un_flag_text cd f)) txFilter))"

definition PrintOrdererMetadata :: "pb_metadata \<Rightarrow> pr" where
  "PrintOrdererMetadata metadata = field_b ''Orderer Metadata'' (md_Value metadata)"

definition PrintBlockMetadata :: "'a config_proto_scheme \<Rightarrow> bytes list option \<Rightarrow> pr" where
  "PrintBlockMetadata cd blockMetaData = seqs
     [getMetadataOrPanic cd blockMetaData 0 (PrintSignaturesMetadata cd),
      getMetadataOrPanic cd blockMetaData 1 (PrintLastConfigMetadata cd),
      metadata_at blockMetaData 2 (PrintTransactionsFilterMetadata cd),
      getMetadataOrPanic cd blockMetaData 3 PrintOrdererMetadata]"

section \<open>Proposal responses and peers\<close>

definition PrintProposalResponse :: "'a config_proto_scheme \<Rightarrow> pb_proposal_response option \<Rightarrow> pr" where
  "PrintProposalResponse cd response =
     (case response of
        None \<Rightarrow> seqs []
      | Some r \<Rightarrow> seqs
          [element ''Response'' (PrintResponse (pp_Response r)),
           unmarshalOrPanic (un_ResponsePayload cd (pp_Payload r)) (\<lambda>prp.
             element ''ProposalResponsePayload'' (PrintProposalResponsePayload cd prp)),
           element ''Endorsement'' (PrintEndorsement (pp_Endorsement r))])"

definition PrintTxProposalResponse :: "'a config_proto_scheme \<Rightarrow> bool \<Rightarrow> tx_proposal_response \<Rightarrow> pr" where
  "PrintTxProposalResponse cd payloadOnly response =
     (if payloadOnly then
        (if tp_Status response \<noteq> 200 then field_i ''Err'' (tp_Status response)
         else case tp_ProposalResponse response of
             None \<Rightarrow> emit (FField ''Response'' None)
           | Some pr \<Rightarrow> (case pp_Response pr of
                 None \<Rightarrow> emit (FField ''Response'' None)
               | Some r \<Rightarrow> field_b ''Payload'' (re_Payload r)))
      else seqs
        [field_s ''Endorser'' (tp_Endorser response),
         field_i ''Status'' (tp_Status response),
         element ''ProposalResponse'' (PrintProposalResponse cd (tp_ProposalResponse response))])"

text \<open>A \<open>fab.Peer\<close>; its height is known when it is a \<open>fab.PeerState\<close> too.\<close>

record fab_peer =
  pe_URL :: string
  pe_MSPID :: string
  pe_BlockHeight :: "nat option"

definition PrintPeer :: "fab_peer \<Rightarrow> pr" where
  "PrintPeer peer = seqs
     [field_s ''URL'' (pe_URL peer),
      field_s ''MSP'' (pe_MSPID peer),
      (case pe_BlockHeight peer of None \<Rightarrow> seqs [] | Some h \<Rightarrow> field_n ''BlockHeight'' h)]"

section \<open>The printers\<close>

text \<open>Every printer writes a header and a footer around its calls; without a formatter it writes the texts \<open>raw\<close>
  that \<open>fmt.Printf\<close> makes of its argument.\<close>

definition framed :: "pr \<Rightarrow> pr" where
  "framed body = seqs [emit FHeader, body, emit FFooter]"

definition printed :: "any_formatter option \<Rightarrow> string list \<Rightarrow> pr \<Rightarrow> chunks \<times> string option" where
  "printed formatter raw p =
     (case formatter of
        None \<Rightarrow> (map (Pair STDOUT) raw, None)
      | Some f \<Rightarrow> (any_out (fold any_call (fst p) f), snd p))"

definition raw_line :: "('v \<Rightarrow> string) \<Rightarrow> 'v \<Rightarrow> string list" where
  "raw_line show_v v = [show_v v @ newline]"

definition raw_responses :: "('v \<Rightarrow> string) \<Rightarrow> 'v list \<Rightarrow> string list" where
  "raw_responses show_v vs =
     map (\<lambda>(i, v). ''Response['' @ show_nat i @ '']: '' @ show_v v @ newline) (enumerate 0 vs)"

definition blockchain_info_body :: "pb_blockchain_info \<Rightarrow> pr" where
  "blockchain_info_body info = seqs
     [field_n ''Height'' (bi_Height info),
      field_64 ''CurrentBlockHash'' (bi_CurrentBlockHash info),
      field_64 ''PreviousBlockHash'' (bi_PreviousBlockHash info)]"

definition block_header_body :: "pb_header \<Rightarrow> pr" where
  "block_header_body h = seqs
     [field_n ''Number'' (bh_Number h),
      field_64 ''PreviousHash'' (bh_PreviousHash h),
      field_64 ''DataHash'' (bh_DataHash h)]"

definition block_data_body :: "'a config_proto_scheme \<Rightarrow> pb_block \<Rightarrow> pr" where
  "block_data_body cd block = array ''Data'' (through (bl_Data block) (\<lambda>data.
     for_items ''Envelope''
       (\<lambda>i. decoded [] (ExtractEnvelope cd block (int i)) (\<lambda>envelope. PrintEnvelope cd (Some envelope)))
       [0..<length data]))"

definition block_body :: "'a config_proto_scheme \<Rightarrow> pb_block \<Rightarrow> pr" where
  "block_body cd block = seqs
     [element ''Header'' (through (bl_Header block) block_header_body),
      element ''Metadata'' (PrintBlockMetadata cd (bl_Metadata block)),
      element ''Data'' (block_data_body cd block)]"

definition filtered_block_body :: "pb_filtered_block \<Rightarrow> pr" where
  "filtered_block_body block = seqs
     [field_s ''ChannelID'' (fb_ChannelId block),
      field_n ''Number'' (fb_Number block),
      element ''FilteredTransactions'' (array ''FilteredTransactions''
        (seqs (map PrintFilteredTransaction (fb_FilteredTransactions block))))]"

definition channels_body :: "string list \<Rightarrow> pr" where
  "channels_body channels = array ''Channels'' (seqs (map (field_s ''ChannelId'') channels))"

definition peers_body :: "fab_peer list \<Rightarrow> pr" where
  "peers_body peers = array ''Peers'' (for_keys ''Peer'' (\<lambda>url peer. PrintPeer peer) (map (\<lambda>p. (pe_URL p, p)) peers))"

definition chaincodes_body :: "pb_chaincode_info list \<Rightarrow> pr" where
  "chaincodes_body chaincodes =
     array [] (for_keys ''ChaincodeInfo'' (\<lambda>name info. PrintChaincodeInfo info) (map (\<lambda>c. (cn_Name c, c)) chaincodes))"

definition processed_tx_body :: "'a config_proto_scheme \<Rightarrow> pb_processed_tx \<Rightarrow> pr" where
  "processed_tx_body cd tx = seqs
     [emit (FPrint (''ValidationCode: '' @ pt_ValidationCode tx)),
      PrintEnvelope cd (pt_TransactionEnvelope tx)]"

definition chaincode_data_body ::
  "'a config_proto_scheme \<Rightarrow> pb_chaincode_data \<Rightarrow> static_coll_config option list option \<Rightarrow> pr" where
  "chaincode_data_body cd ccData collConfig = seqs
     [doPrintChaincodeData cd ccData,
      (case collConfig of None \<Rightarrow> seqs [] | Some cp \<Rightarrow> doPrintCollConfig cd cp)]"

definition proposal_responses_body :: "'a config_proto_scheme \<Rightarrow> bool \<Rightarrow> tx_proposal_response list \<Rightarrow> pr" where
  "proposal_responses_body cd payloadOnly responses =
     array [] (for_items ''Response'' (PrintTxProposalResponse cd payloadOnly) responses)"

definition responses_body :: "pb_response list \<Rightarrow> pr" where
  "responses_body responses = array [] (for_items ''Response'' (\<lambda>r. PrintResponse (Some r)) responses)"

definition chaincode_event_body :: "pb_chaincode_event \<Rightarrow> pr" where
  "chaincode_event_body event = seqs
     [field_s ''ChaincodeID'' (ce_ChaincodeId event),
      field_s ''EventName'' (ce_EventName event),
      field_s ''TxID'' (ce_TxId event),
      field_b ''Payload'' (ce_Payload event)]"

definition PrintBlockchainInfo ::
  "any_formatter option \<Rightarrow> (pb_blockchain_info \<Rightarrow> string) \<Rightarrow> pb_blockchain_info \<Rightarrow> chunks \<times> string option" where
  "PrintBlockchainInfo f show_v info = printed f (raw_line show_v info) (framed (blockchain_info_body info))"

definition PrintBlock ::
  "any_formatter option \<Rightarrow> (pb_block \<Rightarrow> string) \<Rightarrow> 'a config_proto_scheme \<Rightarrow> pb_block \<Rightarrow> chunks \<times> string option" where
  "PrintBlock f show_v cd block = printed f (raw_line show_v block) (framed (block_body cd block))"

definition PrintFilteredBlock ::
  "any_formatter option \<Rightarrow> (pb_filtered_block \<Rightarrow> string) \<Rightarrow> pb_filtered_block \<Rightarrow> chunks \<times> string option" where
  "PrintFilteredBlock f show_v block = printed f (raw_line show_v block) (framed (filtered_block_body block))"

definition PrintChannels ::
  "any_formatter option \<Rightarrow> (string list \<Rightarrow> string) \<Rightarrow> string list \<Rightarrow> chunks \<times> string option" where
  "PrintChannels f show_v channels = printed f (raw_line show_v channels) (framed (channels_body channels))"

definition PrintPeers ::
  "any_formatter option \<Rightarrow> (fab_peer list \<Rightarrow> string) \<Rightarrow> fab_peer list \<Rightarrow> chunks \<times> string option" where
  "PrintPeers f show_v peers = printed f (raw_line show_v peers) (framed (peers_body peers))"

definition PrintChaincodes ::
  "any_formatter option \<Rightarrow> (pb_chaincode_info list \<Rightarrow> string) \<Rightarrow> pb_chaincode_info list \<Rightarrow> chunks \<times> string option" where
  "PrintChaincodes f show_v chaincodes = printed f (raw_line show_v chaincodes) (framed (chaincodes_body chaincodes))"

definition PrintProcessedTransaction ::
  "any_formatter option \<Rightarrow> (pb_processed_tx \<Rightarrow> string) \<Rightarrow> 'a config_proto_scheme \<Rightarrow> pb_processed_tx \<Rightarrow>
    chunks \<times> string option" where
  "PrintProcessedTransaction f show_v cd tx = printed f (raw_line show_v tx) (framed (processed_tx_body cd tx))"

definition PrintChaincodeData ::
  "any_formatter option \<Rightarrow> (pb_chaincode_data \<Rightarrow> string) \<Rightarrow> 'a config_proto_scheme \<Rightarrow> pb_chaincode_data \<Rightarrow>
    static_coll_config option list option \<Rightarrow> chunks \<times> string option" where
  "PrintChaincodeData f show_v cd ccData collConfig =
     printed f (raw_line show_v ccData) (framed (chaincode_data_body cd ccData collConfig))"

definition PrintTxProposalResponses ::
  "any_formatter option \<Rightarrow> (tx_proposal_response \<Rightarrow> string) \<Rightarrow> 'a config_proto_scheme \<Rightarrow> tx_proposal_response list \<Rightarrow>
    bool \<Rightarrow> chunks \<times> string option" where
  "PrintTxProposalResponses f show_v cd responses payloadOnly =
     printed f (raw_responses show_v responses) (framed (proposal_responses_body cd payloadOnly responses))"

definition PrintResponses ::
  "any_formatter option \<Rightarrow> (pb_response \<Rightarrow> string) \<Rightarrow> pb_response list \<Rightarrow> chunks \<times> string option" where
  "PrintResponses f show_v responses = printed f (raw_responses show_v responses) (framed (responses_body responses))"

definition PrintChaincodeEvent ::
  "any_formatter option \<Rightarrow> (pb_chaincode_event \<Rightarrow> string) \<Rightarrow> pb_chaincode_event \<Rightarrow> chunks \<times> string option" where
  "PrintChaincodeEvent f show_v event = printed f (raw_line show_v event) (framed (chaincode_event_body event))"

end
