(* ===== verification/BlockJson.thy ===== *)
theory BlockJson
  imports BlockPrinter
begin

text \<open>
  What the block printer (BlockPrinter.thy) makes the JSON formatter write. The printing functions build calls of
  the object grammar of Formatter.thy, as long as they do not make one of the calls the grammar has no place for.
\<close>

section \<open>Printers of objects and of arrays\<close>

text \<open>Not in the grammar: a bare value, a value named by a text, and a text that goes past the formatter.\<close>

fun tree_call :: "fcall \<Rightarrow> bool" where
  "tree_call (FValue v) = False"
| "tree_call (FStdout t) = False"
| "tree_call (FItemValue e i v) = (case i of IxInt n \<Rightarrow> True | IxStr s \<Rightarrow> False)"
| "tree_call c = True"

definition tree_printed :: "pr \<Rightarrow> bool" where
  "tree_printed p \<longleftrightarrow> snd p = None \<and> list_all tree_call (fst p)"

definition obj_pr :: "pr \<Rightarrow> bool" where
  "obj_pr p \<longleftrightarrow> (tree_printed p \<longrightarrow> (\<exists>ms. obj_calls (fst p) ms))"

definition items_pr :: "pr \<Rightarrow> bool" where
  "items_pr p \<longleftrightarrow> (tree_printed p \<longrightarrow> (\<exists>ts. item_calls (fst p) ts))"

definition arr_pr :: "pr \<Rightarrow> bool" where
  "arr_pr p \<longleftrightarrow>
     (tree_printed p \<longrightarrow> (\<exists>ts. item_calls (fst p) ts) \<or> (\<exists>e vs. fst p = value_calls e 0 vs))"

named_theorems pr_rules

lemma tree_seqs_Cons: "tree_printed (seqs (p # ps)) \<longleftrightarrow> tree_printed p \<and> tree_printed (seqs ps)"
  by (auto simp: tree_printed_def split: option.splits)

lemma calls_seqs_Cons: "tree_printed p \<Longrightarrow> fst (seqs (p # ps)) = fst p @ fst (seqs ps)"
  by (simp add: tree_printed_def)

lemma tree_seqs: "tree_printed (seqs ps) \<longleftrightarrow> (\<forall>p \<in> set ps. tree_printed p)"
  by (induction ps) (simp_all add: tree_seqs_Cons del: seqs.simps(2), simp add: tree_printed_def)

lemma calls_seqs: "tree_printed (seqs ps) \<Longrightarrow> fst (seqs ps) = concat (map fst ps)"
proof (induction ps)
  case (Cons p ps)
  then show ?case unfolding tree_seqs_Cons by (simp only: calls_seqs_Cons list.map concat.simps)
qed simp

lemma tree_emit: "tree_printed (emit c) \<longleftrightarrow> tree_call c"
  by (simp add: emit_def tree_printed_def)

lemma fst_emit: "fst (emit c) = [c]"
  by (simp add: emit_def)

lemma tree_wrapped: "tree_printed (seqs [emit c, b, emit d]) \<longleftrightarrow> tree_call c \<and> tree_printed b \<and> tree_call d"
  by (simp add: tree_seqs tree_emit del: seqs.simps)

lemma calls_wrapped: "tree_printed (seqs [emit c, b, emit d]) \<Longrightarrow> fst (seqs [emit c, b, emit d]) = c # fst b @ [d]"
  by (simp add: calls_seqs fst_emit del: seqs.simps)

lemma tree_panics [simp]: "\<not> tree_printed (panics t)"
  by (simp add: panics_def tree_printed_def)

lemma obj_panics [pr_rules]: "obj_pr (panics t)" "items_pr (panics t)" "arr_pr (panics t)"
  by (simp_all add: obj_pr_def items_pr_def arr_pr_def)

lemma obj_emit [pr_rules]: "obj_pr (emit (FField f v))" "obj_pr (emit (FPrint t))"
    "obj_pr (emit (FValue w))" "obj_pr (emit (FStdout t))"
  using oc_field [OF oc_nil, of f v] oc_print [OF oc_nil, of t]
  by (auto simp: obj_pr_def tree_emit fst_emit)

lemma obj_field [pr_rules]: "obj_pr (field f v)"
  by (simp add: field_def obj_emit)

lemma obj_fields [pr_rules]:
  "obj_pr (field_s f s)" "obj_pr (field_b f b)" "obj_pr (field_n f n)" "obj_pr (field_i f i)"
  "obj_pr (field_64 f b)" "obj_pr (field_t f s)" "obj_pr (field_tf f tf)"
  by (simp_all add: field_s_def field_b_def field_n_def field_i_def field_64_def field_t_def field_tf_def obj_field)

lemma obj_seqs_Nil [pr_rules]: "obj_pr (seqs [])"
  using oc_nil by (auto simp: obj_pr_def)

lemma obj_seqs_Cons [pr_rules]: "obj_pr p \<Longrightarrow> obj_pr (seqs ps) \<Longrightarrow> obj_pr (seqs (p # ps))"
  unfolding obj_pr_def tree_seqs_Cons by (metis calls_seqs_Cons obj_calls_append)

lemma obj_seqs_map: "(\<And>x. x \<in> set xs \<Longrightarrow> obj_pr (f x)) \<Longrightarrow> obj_pr (seqs (map f xs))"
  by (induction xs) (simp_all add: obj_seqs_Nil obj_seqs_Cons del: seqs.simps)

lemma items_seqs_map: "(\<And>x. x \<in> set xs \<Longrightarrow> items_pr (f x)) \<Longrightarrow> items_pr (seqs (map f xs))"
proof (induction xs)
  case Nil
  show ?case using ic_nil by (auto simp: items_pr_def)
next
  case (Cons x xs)
  then have "items_pr (f x)" "items_pr (seqs (map f xs))" by simp_all
  then show ?case unfolding items_pr_def list.map tree_seqs_Cons by (metis calls_seqs_Cons item_calls_append)
qed

lemma obj_element [pr_rules]: "e \<noteq> [] \<Longrightarrow> obj_pr b \<Longrightarrow> obj_pr (element e b)"
  unfolding obj_pr_def element_def using oc_element [OF _ _ oc_nil] by (metis calls_wrapped tree_wrapped)

lemma items_item [pr_rules]: "obj_pr b \<Longrightarrow> items_pr (item_of e i b)"
  unfolding obj_pr_def items_pr_def item_of_def using ic_item [OF _ ic_nil] by (metis calls_wrapped tree_wrapped)

lemma obj_array [pr_rules]: "a \<noteq> [] \<Longrightarrow> arr_pr b \<Longrightarrow> obj_pr (array a b)"
  unfolding obj_pr_def arr_pr_def array_def using oc_array [OF _ _ oc_nil] oc_values [OF _ oc_nil]
  by (metis calls_wrapped tree_wrapped)

lemma items_arr: "items_pr p \<Longrightarrow> arr_pr p"
  by (auto simp: items_pr_def arr_pr_def)

lemma arr_items [pr_rules]: "(\<And>x. x \<in> set xs \<Longrightarrow> obj_pr (f x)) \<Longrightarrow> arr_pr (for_items e f xs)"
  unfolding for_items_def
  by (intro items_arr items_seqs_map) (auto simp: in_set_enumerate_eq intro!: items_item)

lemma arr_keys [pr_rules]: "(\<And>k x. (k, x) \<in> set kvs \<Longrightarrow> obj_pr (f k x)) \<Longrightarrow> arr_pr (for_keys e f kvs)"
  unfolding for_keys_def by (intro items_arr items_seqs_map) (auto intro: items_item)

lemma seqs_values: "seqs (map (\<lambda>(i, v). emit (FItemValue e (IxInt i) v)) (enumerate n vs)) = (value_calls e n vs, None)"
  by (induction vs arbitrary: n) (simp_all add: emit_def)

lemma arr_values [pr_rules]: "arr_pr (for_values e vs)"
  by (auto simp: arr_pr_def for_values_def seqs_values)

lemma pr_through [pr_rules]:
  "(\<And>y. x = Some y \<Longrightarrow> obj_pr (f y)) \<Longrightarrow> obj_pr (through x f)"
  "(\<And>y. x = Some y \<Longrightarrow> items_pr (f y)) \<Longrightarrow> items_pr (through x f)"
  "(\<And>y. x = Some y \<Longrightarrow> arr_pr (f y)) \<Longrightarrow> arr_pr (through x f)"
  by (auto simp: through_def obj_panics split: option.splits)

lemma pr_decoded [pr_rules]:
  "(\<And>y. r = Inr y \<Longrightarrow> obj_pr (f y)) \<Longrightarrow> obj_pr (decoded t r f)"
  "(\<And>y. r = Inr y \<Longrightarrow> items_pr (f y)) \<Longrightarrow> items_pr (decoded t r f)"
  by (auto simp: decoded_def obj_panics split: sum.splits)

lemma pr_unmarshal [pr_rules]: "(\<And>y. r = Inr y \<Longrightarrow> obj_pr (f y)) \<Longrightarrow> obj_pr (unmarshalOrPanic r f)"
  by (simp add: unmarshalOrPanic_def pr_decoded)

text \<open>A function of the printer is taken apart by its definition, its cases and these rules.\<close>

declare seqs.simps [simp del]

lemma obj_ifs [pr_rules]:
  "(b \<Longrightarrow> obj_pr p) \<Longrightarrow> (\<not> b \<Longrightarrow> obj_pr q) \<Longrightarrow> obj_pr (if b then p else q)"
  "(x = None \<Longrightarrow> obj_pr p) \<Longrightarrow> (\<And>y. x = Some y \<Longrightarrow> obj_pr (f y)) \<Longrightarrow>
    obj_pr (case x of None \<Rightarrow> p | Some y \<Rightarrow> f y)"
  by (auto split: option.splits)

section \<open>Policies and configuration\<close>

lemma obj_principal [pr_rules]: "obj_pr (PrintMSPPrincipal cd prin)"
  unfolding PrintMSPPrincipal_def by (intro pr_rules) (auto split: principal_class.splits intro!: pr_rules)

lemma obj_policy [pr_rules]: "obj_pr (print_policy p)"
  by (induction p rule: print_policy.induct) (auto simp: PrintSignaturePolicySignedBy_def intro!: pr_rules)

lemma obj_policies [pr_rules]:
  "obj_pr (PrintSignaturePolicy sp)" "obj_pr (PrintSignaturePolicyEnvelope cd env)" "obj_pr (PrintImplicitMetaPolicy im)"
  unfolding PrintSignaturePolicy_def PrintSignaturePolicyEnvelope_def PrintImplicitMetaPolicy_def
  by (intro pr_rules; simp)+

lemma obj_config_policy [pr_rules]: "obj_pr (PrintConfigPolicy cd policy)"
  unfolding PrintConfigPolicy_def
  by (intro pr_rules) (auto split: option.splits prod.splits policy_type.splits intro!: pr_rules)

lemma obj_config_values [pr_rules]:
  "obj_pr (PrintBatchSize bs)" "obj_pr (PrintFabricMSPConfig fc)" "obj_pr (PrintMSPConfig cd mc)"
  "obj_pr (PrintAnchorPeer ap)" "obj_pr (PrintAnchorPeers aps)" "obj_pr (PrintCapabilities cs)"
  unfolding PrintBatchSize_def PrintFabricMSPConfig_def PrintMSPConfig_def PrintAnchorPeer_def PrintAnchorPeers_def
    PrintCapabilities_def
  by (intro pr_rules obj_seqs_map; simp)+

lemma obj_config_value [pr_rules]: "obj_pr (PrintConfigValue cd name v)"
  unfolding PrintConfigValue_def config_value_body_def by (intro pr_rules; simp)

lemma obj_group [pr_rules]: "obj_pr (print_group cd g)"
  by (induction cd g rule: print_group.induct) (auto intro!: pr_rules)

lemma obj_config [pr_rules]:
  "obj_pr (PrintConfigGroup cd cg)" "obj_pr (PrintConfig cd c)" "obj_pr (PrintSignatureHeader sh)"
  "obj_pr (PrintConfigSignature cd cs)" "obj_pr (PrintConfigUpdate cd cu)" "obj_pr (PrintConfigUpdateEnvelope cd ce)"
  unfolding PrintConfigGroup_def PrintConfig_def PrintSignatureHeader_def PrintConfigSignature_def PrintConfigUpdate_def
    PrintConfigUpdateEnvelope_def
  by (intro pr_rules; simp)+

section \<open>Chaincodes\<close>

lemma obj_chaincodes [pr_rules]:
  "obj_pr (PrintChaincodeID i)" "obj_pr (PrintChaincodeInfo ci)" "obj_pr (PrintCDSData cds)"
  "obj_pr (doPrintChaincodeData cd data)" "obj_pr (printStaticCollectionConfig cd sc)"
  unfolding PrintChaincodeID_def PrintChaincodeInfo_def PrintCDSData_def doPrintChaincodeData_def
    printStaticCollectionConfig_def
  by (intro pr_rules; simp)+

text \<open>An unknown collection leaves its item open, and makes a bare value.\<close>

lemma items_coll: "items_pr (print_coll cd i c)"
proof (cases c)
  case None
  then show ?thesis by (simp add: print_coll_def items_pr_def tree_seqs tree_emit)
next
  case (Some sc)
  have "print_coll cd i c = item_of ''Config'' (IxInt i) (printStaticCollectionConfig cd sc)"
    by (simp add: Some print_coll_def item_of_def seqs.simps emit_def split: option.splits)
  then show ?thesis by (simp add: items_item obj_chaincodes)
qed

lemma obj_colls [pr_rules]: "obj_pr (doPrintCollConfig cd cs)"
  unfolding doPrintCollConfig_def by (intro pr_rules items_arr items_seqs_map) (auto intro: items_coll)

text \<open>The decorations are values named by texts: the array is in the grammar when there are none.\<close>

lemma arr_decorations:
  "arr_pr (seqs (map (\<lambda>(key, value). emit (FItemValue ''Decoration'' (IxStr key) (VBytes value))) ds))"
proof (cases ds)
  case Nil
  then show ?thesis using ic_nil by (auto simp: arr_pr_def seqs.simps)
next
  case (Cons d ds')
  then show ?thesis by (simp add: arr_pr_def tree_seqs_Cons tree_emit split: prod.splits)
qed

lemma obj_chaincode_specs [pr_rules]:
  "obj_pr (PrintChaincodeInput ip)" "obj_pr (PrintChaincodeSpec cs)" "obj_pr (PrintChaincodeInvocationSpec cs)"
  "obj_pr (PrintChaincodeDeploymentSpec cs)"
  unfolding PrintChaincodeInput_def PrintChaincodeSpec_def PrintChaincodeInvocationSpec_def
    PrintChaincodeDeploymentSpec_def
  by (intro pr_rules arr_decorations; simp)+

section \<open>Read and write sets\<close>

lemma obj_writes [pr_rules]:
  "obj_pr (PrintVersion v)" "obj_pr (PrintRead r)" "obj_pr (PrintWrite w)" "obj_pr (printChaincodeData cd bs)"
  "obj_pr (printCollectionConfig cd bs)" "obj_pr (PrintLSCCWrite cd w)"
proof -
  show v: "obj_pr (PrintVersion v)" for v
    unfolding PrintVersion_def by (intro pr_rules) (auto intro!: pr_rules)
  show "obj_pr (PrintRead r)" "obj_pr (PrintWrite w)"
    unfolding PrintRead_def PrintWrite_def by (intro pr_rules v; simp)+
  show c: "obj_pr (printChaincodeData cd bs)" "obj_pr (printCollectionConfig cd bs)" for bs
    unfolding printChaincodeData_def printCollectionConfig_def by (auto split: sum.splits intro!: pr_rules)
  show "obj_pr (PrintLSCCWrite cd w)"
    unfolding PrintLSCCWrite_def by (intro pr_rules c)
qed

lemma obj_reads_info [pr_rules]: "obj_pr (PrintReadsInfo ri)"
  unfolding PrintReadsInfo_def PrintRawReads_def PrintReadsMerkleHashes_def
  by (cases ri) (auto intro!: pr_rules)

lemma obj_rwsets [pr_rules]:
  "obj_pr (PrintRangeQueryInfo rqi)" "obj_pr (PrintKvRwSet cd ks ns)" "obj_pr (PrintHashedRead hr)"
  "obj_pr (PrintHashedWrite hw)" "obj_pr (PrintHashedReads hrs)" "obj_pr (PrintHashedWrites hws)"
  "obj_pr (PrintHashedRwSet hs)" "obj_pr (PrintCollHashedRwSet cr)" "obj_pr (PrintCollHashedRwSets crs)"
  "obj_pr (PrintNsReadWriteSet cd nr)" "obj_pr (PrintTxReadWriteSet cd nrs)"
  unfolding PrintRangeQueryInfo_def PrintKvRwSet_def PrintHashedRead_def PrintHashedWrite_def PrintHashedReads_def
    PrintHashedWrites_def PrintHashedRwSet_def PrintCollHashedRwSet_def PrintCollHashedRwSets_def
    PrintNsReadWriteSet_def PrintTxReadWriteSet_def
  by (intro pr_rules; simp)+

section \<open>Transactions and envelopes\<close>

lemma obj_responses [pr_rules]:
  "obj_pr (PrintResponse r)" "obj_pr (PrintChaincodeResponse r)" "obj_pr (PrintChaincodeEventFromBlock e)"
  "obj_pr (PrintEndorsement ed)" "obj_pr (PrintChaincodeAction cd ca)" "obj_pr (PrintProposalResponsePayload cd prp)"
  unfolding PrintResponse_def PrintChaincodeResponse_def PrintChaincodeEventFromBlock_def PrintEndorsement_def
    PrintChaincodeAction_def PrintProposalResponsePayload_def
  by (intro pr_rules; simp)+

lemma obj_actions [pr_rules]:
  "obj_pr (PrintAction cd a)" "obj_pr (PrintChaincodeProposalPayload cd cpp)" "obj_pr (PrintChaincodeActionPayload cd cap)"
  "obj_pr (PrintTXAction cd ta)" "obj_pr (PrintTransaction cd tas)"
  unfolding PrintAction_def PrintChaincodeProposalPayload_def PrintChaincodeActionPayload_def PrintTXAction_def
    PrintTransaction_def
  by (intro pr_rules; simp)+

lemma obj_channel_header [pr_rules]: "obj_pr (PrintChannelHeader cd ch)"
  unfolding PrintChannelHeader_def PrintChaincodeHeaderExtension_def by (intro pr_rules; simp)

lemma obj_payload:
  assumes "\<And>e. obj_pr (print_env e)"
  shows "obj_pr (PrintPayload cd print_env p)"
  unfolding PrintPayload_def payload_header_def PrintData_def PrintConfigEnvelope_def
  by (intro pr_rules assms; simp)

lemma obj_envelope_fuel: "obj_pr (print_envelope n cd e)"
proof (induction n arbitrary: e)
  case (Suc n)
  show ?case unfolding print_envelope.simps by (intro pr_rules obj_payload Suc; simp)
qed (simp add: obj_panics)

lemma obj_envelope [pr_rules]: "obj_pr (PrintEnvelope cd e)"
  by (simp add: PrintEnvelope_def obj_envelope_fuel)

lemma pr_metadata:
  "(\<And>bs. obj_pr (f bs)) \<Longrightarrow> obj_pr (metadata_at md i f)"
  "(\<And>m. obj_pr (g m)) \<Longrightarrow> obj_pr (getMetadataOrPanic cd md i g)"
  by (auto simp: metadata_at_def getMetadataOrPanic_def split: sum.splits intro!: pr_rules)

lemma obj_metadata [pr_rules]: "obj_pr (PrintBlockMetadata cd md)"
proof -
  have "obj_pr (PrintSignaturesMetadata cd m)" for m
    unfolding PrintSignaturesMetadata_def
    by (intro pr_rules items_arr items_seqs_map) (auto intro!: pr_rules)
  then show ?thesis
    unfolding PrintBlockMetadata_def PrintLastConfigMetadata_def PrintTransactionsFilterMetadata_def
      PrintOrdererMetadata_def
    by (intro pr_rules pr_metadata; simp)
qed

lemma obj_proposal_responses [pr_rules]:
  "obj_pr (PrintProposalResponse cd r)" "obj_pr (PrintTxProposalResponse cd po tr)" "obj_pr (PrintPeer peer)"
  unfolding PrintProposalResponse_def PrintTxProposalResponse_def PrintPeer_def
  by (intro pr_rules; simp)+

lemma obj_bodies:
  "obj_pr (blockchain_info_body info)" "obj_pr (block_body cd b)" "obj_pr (peers_body peers)"
  "obj_pr (processed_tx_body cd tx)" "obj_pr (chaincode_data_body cd ccd cc)" "obj_pr (chaincode_event_body ev)"
  unfolding blockchain_info_body_def block_body_def block_header_body_def block_data_body_def peers_body_def
    processed_tx_body_def chaincode_data_body_def chaincode_event_body_def
  by (intro pr_rules; simp)+

section \<open>What is written\<close>

lemma framed_done:
  assumes "snd (framed b) = None"
  shows "snd b = None" "fst (framed b) = FHeader # fst b @ [FFooter]"
  using assms by (auto simp: framed_def seqs.simps emit_def split: option.splits)

lemma fold_any_json: "fold any_call cs (JsonFormatter p) = JsonFormatter (json_run cs p)"
  by (induction cs arbitrary: p) simp_all

lemma new_json_formatter: "NewFormatter JSON wt = Some (JsonFormatter (new_json wt))"
  by (simp add: NewFormatter_def NewFormatterWithOpts_def new_json_def)

lemma printed_framed:
  assumes "printed (NewFormatter JSON wt) raw (framed b) = (out, None)" "obj_calls (fst b) ms"
  shows "written wt out = render (JObj ms) @ newline"
proof -
  have out: "out = jf_out (json_run (fst (framed b)) (new_json wt))" and n: "snd (framed b) = None"
    using assms(1) by (simp_all add: printed_def new_json_formatter fold_any_json)
  show ?thesis unfolding out framed_done(2) [OF n] by (rule json_printed_text [OF assms(2)])
qed

lemma printed_done: "printed (NewFormatter JSON wt) raw (framed b) = (out, None) \<Longrightarrow> snd b = None"
  using framed_done(1) by (simp add: printed_def new_json_formatter)

text \<open>An array of numbered items has as many elements.\<close>

lemma items_count:
  assumes "\<And>x. obj_pr (f x)" "tree_printed (seqs (map (\<lambda>(i, x). item_of e (IxInt i) (f x)) (enumerate n xs)))"
  shows "\<exists>ts. item_calls (fst (seqs (map (\<lambda>(i, x). item_of e (IxInt i) (f x)) (enumerate n xs)))) ts \<and> length ts = length xs"
  using assms(2)
proof (induction xs arbitrary: n)
  case Nil
  then show ?case using ic_nil by (auto simp: seqs.simps)
next
  case (Cons x xs)
  let ?p = "item_of e (IxInt n) (f x)" and ?ps = "map (\<lambda>(i, x). item_of e (IxInt i) (f x)) (enumerate (Suc n) xs)"
  have t: "tree_printed ?p" "tree_printed (seqs ?ps)"
    using Cons.prems by (simp_all add: tree_seqs_Cons)
  then obtain ts where ts: "item_calls (fst (seqs ?ps)) ts" "length ts = length xs" using Cons.IH by blast
  have w: "tree_printed (f x)" "fst ?p = FItem e (IxInt n) # fst (f x) @ [FItemEnd]"
    using t(1) unfolding item_of_def by (simp_all add: tree_wrapped calls_wrapped)
  then obtain bm where "obj_calls (fst (f x)) bm" using assms(1) unfolding obj_pr_def by blast
  then have "item_calls (fst ?p @ fst (seqs ?ps)) (JObj bm # ts)"
    unfolding w using ic_item ts(1) by simp
  then show ?case using ts(2) calls_seqs_Cons [OF t(1), of ?ps] by (intro exI [of _ "JObj bm # ts"]) simp
qed

lemma tree_element: "tree_printed (element e b) \<Longrightarrow> tree_printed b \<and> fst (element e b) = FElement e # fst b @ [FElementEnd]"
  unfolding element_def by (simp add: tree_wrapped calls_wrapped)

lemma tree_array: "tree_printed (array a b) \<Longrightarrow> tree_printed b \<and> fst (array a b) = FArray a # fst b @ [FArrayEnd]"
  unfolding array_def by (simp add: tree_wrapped calls_wrapped)

lemma tree_through: "tree_printed (through x f) \<Longrightarrow> \<exists>y. x = Some y \<and> tree_printed (f y)"
  by (auto simp: through_def split: option.splits)

text \<open>What is written of the header of a block.\<close>

definition header_members :: "pb_header \<Rightarrow> (string \<times> jtree) list" where
  "header_members h =
     [(''Number'', JText (show_int (int (bh_Number h)))),
      (''PreviousHash'', JText (Base64URLEncode (bh_PreviousHash h))),
      (''DataHash'', JText (Base64URLEncode (bh_DataHash h)))]"

lemma header_calls: "obj_calls (fst (block_header_body h)) (header_members h)"
proof -
  have "fst (block_header_body h) = [FField ''Number'' (Some (VNum (int (bh_Number h)))),
      FField ''PreviousHash'' (Some (VStr (Base64URLEncode (bh_PreviousHash h)))),
      FField ''DataHash'' (Some (VStr (Base64URLEncode (bh_DataHash h))))]"
    by (simp add: block_header_body_def field_n_def field_64_def field_def emit_def seqs.simps)
  moreover have "header_members h = [(''Number'', JText (field_text (Some (VNum (int (bh_Number h)))))),
      (''PreviousHash'', JText (field_text (Some (VStr (Base64URLEncode (bh_PreviousHash h)))))),
      (''DataHash'', JText (field_text (Some (VStr (Base64URLEncode (bh_DataHash h))))))]"
    by (simp add: header_members_def field_text_def json_text_def)
  ultimately show ?thesis using oc_field [OF oc_field [OF oc_field [OF oc_nil]]] by simp
qed

lemma block_calls:
  assumes "tree_printed (block_body cd block)"
  shows "\<exists>h data m es. bl_Header block = Some h \<and> bl_Data block = Some data \<and> length es = length data \<and>
    obj_calls (fst (block_body cd block))
      [(''Header'', JObj (header_members h)), (''Metadata'', JObj m), (''Data'', JObj [(''Data'', JArr es)])]"
proof -
  let ?h = "element ''Header'' (through (bl_Header block) block_header_body)"
    and ?m = "element ''Metadata'' (PrintBlockMetadata cd (bl_Metadata block))"
    and ?d = "element ''Data'' (block_data_body cd block)"
  let ?f = "\<lambda>i. decoded [] (ExtractEnvelope cd block (int i)) (\<lambda>envelope. PrintEnvelope cd (Some envelope))"
  have t: "tree_printed ?h" "tree_printed ?m" "tree_printed ?d"
    using assms by (simp_all add: block_body_def tree_seqs)
  have all: "fst (block_body cd block) = fst ?h @ fst ?m @ fst ?d"
    using assms unfolding block_body_def by (simp add: calls_seqs)
  obtain h where h: "bl_Header block = Some h" using tree_element [OF t(1)] tree_through by blast
  have "fst ?h = FElement ''Header'' # fst (block_header_body h) @ [FElementEnd]"
    using tree_element [OF t(1)] by (simp add: h through_def)
  then have hc: "obj_calls (fst ?h) [(''Header'', JObj (header_members h))]"
    using oc_element [OF _ header_calls oc_nil] by simp
  obtain m where "obj_calls (fst (PrintBlockMetadata cd (bl_Metadata block))) m"
    using tree_element [OF t(2)] obj_metadata unfolding obj_pr_def by blast
  then have mc: "obj_calls (fst ?m) [(''Metadata'', JObj m)]"
    using tree_element [OF t(2)] oc_element [OF _ _ oc_nil] by simp
  have ta: "tree_printed (block_data_body cd block)" using tree_element [OF t(3)] by blast
  note ta' = tree_array [OF ta [unfolded block_data_body_def]]
  obtain data where data: "bl_Data block = Some data" using ta' tree_through by blast
  have "tree_printed (for_items ''Envelope'' ?f [0..<length data])"
    using ta' by (simp add: data through_def)
  moreover have "obj_pr (?f i)" for i by (intro pr_rules)
  ultimately obtain es where es: "item_calls (fst (for_items ''Envelope'' ?f [0..<length data])) es" "length es = length data"
    using items_count [of ?f "''Envelope''" 0 "[0..<length data]"] unfolding for_items_def by auto
  have "fst (block_data_body cd block) = FArray ''Data'' # fst (for_items ''Envelope'' ?f [0..<length data]) @ [FArrayEnd]"
    using ta' by (simp add: block_data_body_def data through_def)
  then have "obj_calls (fst (block_data_body cd block)) [(''Data'', JArr es)]"
    using oc_array [OF _ es(1) oc_nil] by simp
  then have "obj_calls (fst ?d) [(''Data'', JObj [(''Data'', JArr es)])]"
    using tree_element [OF t(3)] oc_element [OF _ _ oc_nil] by simp
  then have "obj_calls (fst (block_body cd block))
      ([(''Header'', JObj (header_members h))] @ [(''Metadata'', JObj m)] @ [(''Data'', JObj [(''Data'', JArr es)])])"
    unfolding all by (intro obj_calls_append hc mc)
  then show ?thesis using h data es(2) by auto
qed

text \<open>C22: a block printed as JSON is one JSON text: when no message fails to decode, and no call is made that the JSON
  formatter has no place for, the text is the object of the header with its number and hashes, the metadata, and as
  many envelopes as the block has data. It reads back as this object if nothing in it needs an escape.\<close>

theorem PrintBlock_json:
  assumes "PrintBlock (NewFormatter JSON wt) show_v cd block = (out, None)"
    and "list_all tree_call (fst (block_body cd block))"
  shows "\<exists>h data m es t. bl_Header block = Some h \<and> bl_Data block = Some data \<and> length es = length data \<and>
    t = JObj [(''Header'', JObj (header_members h)), (''Metadata'', JObj m), (''Data'', JObj [(''Data'', JArr es)])] \<and>
    written wt out = render t @ newline \<and> (plain_tree t \<longrightarrow> jparse (written wt out) = Some t)"
proof -
  have p: "printed (NewFormatter JSON wt) (raw_line show_v block) (framed (block_body cd block)) = (out, None)"
    using assms(1) by (simp add: PrintBlock_def)
  have "tree_printed (block_body cd block)"
    using printed_done [OF p] assms(2) by (simp add: tree_printed_def)
  then obtain h data m es where *: "bl_Header block = Some h" "bl_Data block = Some data" "length es = length data"
    "obj_calls (fst (block_body cd block))
      [(''Header'', JObj (header_members h)), (''Metadata'', JObj m), (''Data'', JObj [(''Data'', JArr es)])]"
    using block_calls by blast
  show ?thesis using *(1-3) printed_framed [OF p *(4)] jparse_render by metis
qed

section \<open>Peers\<close>

definition peer_tree :: "fab_peer \<Rightarrow> jtree" where
  "peer_tree p = JObj ([(''URL'', JText (pe_URL p)), (''MSP'', JText (pe_MSPID p))]
     @ (case pe_BlockHeight p of None \<Rightarrow> [] | Some h \<Rightarrow> [(''BlockHeight'', JText (show_int (int h)))]))"

lemma peer_item: "\<exists>b. item_of ''Peer'' i (PrintPeer p) = (FItem ''Peer'' i # b @ [FItemEnd], None) \<and>
    (\<exists>ms. obj_calls b ms \<and> peer_tree p = JObj ms)"
proof -
  let ?b = "[FField ''URL'' (Some (VStr (pe_URL p))), FField ''MSP'' (Some (VStr (pe_MSPID p)))]"
  have u: "obj_calls (?b @ cs) ((''URL'', JText (pe_URL p)) # (''MSP'', JText (pe_MSPID p)) # ms)" if "obj_calls cs ms" for cs ms
    using oc_field [OF oc_field [OF that, of "''MSP''" "Some (VStr (pe_MSPID p))"], of "''URL''" "Some (VStr (pe_URL p))"]
    by (simp add: field_text_def json_text_def)
  show ?thesis
  proof (cases "pe_BlockHeight p")
    case None
    then show ?thesis using u [OF oc_nil]
      by (simp add: item_of_def PrintPeer_def field_s_def field_def emit_def seqs.simps peer_tree_def)
  next
    case (Some h)
    have "obj_calls [FField ''BlockHeight'' (Some (VNum (int h)))] [(''BlockHeight'', JText (show_int (int h)))]"
      using oc_field [OF oc_nil, of "''BlockHeight''" "Some (VNum (int h))"] by (simp add: field_text_def json_text_def)
    from u [OF this] Some show ?thesis
      by (simp add: item_of_def PrintPeer_def field_s_def field_n_def field_def emit_def seqs.simps peer_tree_def)
  qed
qed

lemma peers_items:
  "\<exists>cs. for_keys ''Peer'' (\<lambda>url peer. PrintPeer peer) (map (\<lambda>p. (pe_URL p, p)) peers) = (cs, None) \<and>
    item_calls cs (map peer_tree peers)"
proof (induction peers)
  case Nil
  then show ?case using ic_nil by (simp add: for_keys_def seqs.simps)
next
  case (Cons p peers)
  obtain cs where cs: "for_keys ''Peer'' (\<lambda>url peer. PrintPeer peer) (map (\<lambda>p. (pe_URL p, p)) peers) = (cs, None)"
    "item_calls cs (map peer_tree peers)" using Cons.IH by blast
  obtain b ms where b: "item_of ''Peer'' (IxStr (pe_URL p)) (PrintPeer p) = (FItem ''Peer'' (IxStr (pe_URL p)) # b @ [FItemEnd], None)"
    "obj_calls b ms" "peer_tree p = JObj ms" using peer_item by blast
  have "for_keys ''Peer'' (\<lambda>url peer. PrintPeer peer) (map (\<lambda>p. (pe_URL p, p)) (p # peers))
      = (FItem ''Peer'' (IxStr (pe_URL p)) # b @ FItemEnd # cs, None)"
    using cs(1) b(1) by (simp add: for_keys_def seqs.simps)
  then show ?case using ic_item [OF b(2) cs(2)] b(3) by simp
qed

text \<open>The peers of a channel printed as JSON are one JSON text, the array of their addresses, organizations and
  heights, in their order.\<close>

theorem PrintPeers_json:
  fixes peers :: "fab_peer list"
  defines "t \<equiv> JObj [(''Peers'', JArr (map peer_tree peers))]"
  assumes "plain_tree t"
  shows "snd (PrintPeers (NewFormatter JSON wt) show_v peers) = None \<and>
    jparse (written wt (fst (PrintPeers (NewFormatter JSON wt) show_v peers))) = Some t"
proof -
  obtain cs where cs: "for_keys ''Peer'' (\<lambda>url peer. PrintPeer peer) (map (\<lambda>p. (pe_URL p, p)) peers) = (cs, None)"
    "item_calls cs (map peer_tree peers)" using peers_items by blast
  then have b: "peers_body peers = (FArray ''Peers'' # cs @ [FArrayEnd], None)"
    by (simp add: peers_body_def array_def emit_def seqs.simps)
  then have n: "snd (framed (peers_body peers)) = None" by (simp add: framed_def emit_def seqs.simps)
  then have p: "printed (NewFormatter JSON wt) raw (framed (peers_body peers))
      = (fst (printed (NewFormatter JSON wt) raw (framed (peers_body peers))), None)" for raw
    by (simp add: printed_def new_json_formatter)
  have "obj_calls (fst (peers_body peers)) [(''Peers'', JArr (map peer_tree peers))]"
    unfolding b using oc_array [OF _ cs(2) oc_nil] by simp
  from printed_framed [OF p this, of "raw_line show_v peers"]
  have "jparse (written wt (fst (PrintPeers (NewFormatter JSON wt) show_v peers))) = Some t"
    using jparse_render [OF assms(2)] unfolding PrintPeers_def t_def by (simp only:)
  moreover have "snd (PrintPeers (NewFormatter JSON wt) show_v peers) = None"
    using arg_cong [OF p, of snd] unfolding PrintPeers_def by (simp only: snd_conv)
  ultimately show ?thesis by blast
qed

section \<open>What is no JSON\<close>

lemma framed_array: "\<exists>cs. fst (framed (array a b)) = FHeader # FArray a # cs"
proof -
  have "\<exists>cs. fst (array a b) = FArray a # cs"
    by (cases "snd b") (auto simp: array_def seqs.simps emit_def)
  then show ?thesis by (cases "snd (array a b)") (auto simp: framed_def seqs.simps emit_def)
qed

lemma printed_nameless: "jparse (written wt (fst (printed (NewFormatter JSON wt) raw (framed (array [] b))))) = None"
proof -
  obtain cs where c: "fst (framed (array [] b)) = FHeader # FArray [] # cs" using framed_array by blast
  show ?thesis
    unfolding printed_def new_json_formatter option.case fst_conv fold_any_json any_out.simps c
    by (rule nameless_array_no_json)
qed

text \<open>What is written for chaincodes, for responses and for proposal responses is no JSON, whatever they are: their
  array has no name and stands in the object of the header.\<close>

theorem nameless_printers:
  "jparse (written wt (fst (PrintChaincodes (NewFormatter JSON wt) show_c chaincodes))) = None \<and>
   jparse (written wt (fst (PrintResponses (NewFormatter JSON wt) show_r responses))) = None \<and>
   jparse (written wt (fst (PrintTxProposalResponses (NewFormatter JSON wt) show_t cd proposals payloadOnly))) = None"
proof -
  have "jparse (written wt (fst (PrintChaincodes (NewFormatter JSON wt) show_c chaincodes))) = None"
    unfolding PrintChaincodes_def chaincodes_body_def by (rule printed_nameless)
  moreover have "jparse (written wt (fst (PrintResponses (NewFormatter JSON wt) show_r responses))) = None"
    unfolding PrintResponses_def responses_body_def by (rule printed_nameless)
  moreover have "jparse (written wt (fst (PrintTxProposalResponses (NewFormatter JSON wt) show_t cd proposals payloadOnly))) = None"
    unfolding PrintTxProposalResponses_def proposal_responses_body_def by (rule printed_nameless)
  ultimately show ?thesis by blast
qed

lemma seqs_emits: "seqs (map (\<lambda>x. emit (g x)) xs) = (map g xs, None)"
  by (induction xs) (simp_all add: seqs.simps emit_def)

text \<open>What each kind of text cannot be, from what follows its first part.\<close>

lemma no_json:
  assumes "plain k"
  shows "jelems n (quoted k @ CHR '':'' # s) = None"
proof -
  have 1: "jvalue m (quoted k @ CHR '':'' # s) \<in> {None, Some (JText k, CHR '':'' # s)}" for m
    using jstring_plain [OF assms, of "CHR '':'' # s"] by (cases m) (simp_all add: quoted_def)
  have 2: "jvalue m u \<in> {None, Some (t, CHR '':'' # r)} \<Longrightarrow> jelems (Suc m) u = None" for m u t r by auto
  show ?thesis
  proof (cases n)
    case (Suc m)
    show ?thesis unfolding Suc by (rule 2 [OF 1])
  qed simp
qed

lemma no_json_array: "(\<And>n. jelems n (dq # s) = None) \<Longrightarrow> jvalue n (CHR ''['' # dq # s) = None"
  by (cases n) (simp_all add: dq_def)

lemma no_json_object: "(\<And>n. jmembers n (dq # s) = None) \<Longrightarrow> jvalue n (CHR ''{'' # dq # s) = None"
  by (cases n) (simp_all add: dq_def)

lemma no_json_member: "jkey s = Some (k, r) \<Longrightarrow> (\<And>n. jvalue n r = None) \<Longrightarrow> jmembers n s = None"
  by (cases n) simp_all

lemma channels_parse: "jparse (''{'' @ quoted ''Channels'' @ '':['' @ quoted ''ChannelId'' @ '':'' @ s) = None"
proof -
  let ?e = "quoted ''ChannelId'' @ CHR '':'' # s"
  have p: "plain ''ChannelId''" "plain ''Channels''" by (simp_all add: plain_def dq_def backslash_def)
  have q: "quoted t @ u = dq # t @ dq # u" for t u by (simp add: quoted_def)
  have "jvalue n (CHR ''['' # ?e) = None" for n
    using no_json_array no_json [OF p(1)] unfolding q by blast
  then have "jmembers n (quoted ''Channels'' @ CHR '':'' # CHR ''['' # ?e) = None" for n
    using no_json_member jkey_plain [OF p(2)] by blast
  then have "jvalue n (CHR ''{'' # quoted ''Channels'' @ CHR '':'' # CHR ''['' # ?e) = None" for n
    using no_json_object unfolding q by blast
  then show ?thesis by (simp only: jparse_def option.case append_assoc append.simps)
qed

text \<open>The channels of a peer, if there are any, are printed as fields inside an array, which is no JSON.\<close>

theorem PrintChannels_no_json:
  "jparse (written wt (fst (PrintChannels (NewFormatter JSON wt) show_v (c # cs)))) = None"
proof -
  have "channels_body (c # cs) =
      (FArray ''Channels'' # map (\<lambda>c. FField ''ChannelId'' (Some (VStr c))) (c # cs) @ [FArrayEnd], None)"
    using seqs_emits [of "\<lambda>c. FField ''ChannelId'' (Some (VStr c))" "c # cs"]
    unfolding channels_body_def array_def field_s_def [abs_def] field_def by (simp add: seqs.simps emit_def)
  then have "\<exists>ds. fst (framed (channels_body (c # cs))) = [FHeader, FArray ''Channels'', FField ''ChannelId'' (Some (VStr c))] @ ds"
    by (simp add: framed_def seqs.simps emit_def)
  then obtain ds where "fst (framed (channels_body (c # cs))) = [FHeader, FArray ''Channels'', FField ''ChannelId'' (Some (VStr c))] @ ds"
    by blast
  then have "fst (PrintChannels (NewFormatter JSON wt) show_v (c # cs)) =
      jf_out (json_run ds (json_run [FHeader, FArray ''Channels'', FField ''ChannelId'' (Some (VStr c))] (new_json wt)))"
    by (simp add: PrintChannels_def printed_def new_json_formatter fold_any_json)
  moreover obtain us where "jf_out (json_run ds (json_run [FHeader, FArray ''Channels'', FField ''ChannelId'' (Some (VStr c))] (new_json wt)))
      = jf_out (json_run [FHeader, FArray ''Channels'', FField ''ChannelId'' (Some (VStr c))] (new_json wt)) @ us"
    using js.run_adds by blast
  moreover have "jf_out (json_run [FHeader, FArray ''Channels'', FField ''ChannelId'' (Some (VStr c))] (new_json wt)) =
      map (Pair wt) [''{'', quoted ''Channels'' @ '':['', quoted ''ChannelId'' @ '':'' @ quoted (field_text (Some (VStr c)))]"
    by (simp add: json_defs new_json_def Let_def)
  ultimately have "written wt (fst (PrintChannels (NewFormatter JSON wt) show_v (c # cs))) =
      ''{'' @ quoted ''Channels'' @ '':['' @ quoted ''ChannelId'' @ '':'' @ quoted (field_text (Some (VStr c))) @ written wt us"
    by (simp add: written_def)
  then show ?thesis using channels_parse by simp
qed

section \<open>Envelopes within envelopes\<close>

text \<open>What decoding keeps to: a message holds its byte strings, and the envelope of the last update with its own
  length and key.\<close>

definition decodes_parts :: "'a config_proto_scheme \<Rightarrow> bool" where
  "decodes_parts cd \<longleftrightarrow>
     (\<forall>bs p. un_Payload cd bs = Inr p \<longrightarrow> length (pl_Data p) \<le> length bs) \<and>
     (\<forall>bs ce e. un_ConfigEnvelope cd bs = Inr ce \<longrightarrow> co_LastUpdate ce = Some e \<longrightarrow> length (en_Payload e) < length bs)"

lemma decoded_cong: "(\<And>x. r = Inr x \<Longrightarrow> f x = g x) \<Longrightarrow> decoded t r f = decoded t r g"
  by (auto simp: decoded_def split: sum.splits)

lemma through_cong: "(\<And>y. x = Some y \<Longrightarrow> f y = g y) \<Longrightarrow> through x f = through x g"
  by (auto simp: through_def split: option.splits)

lemma payload_cong:
  assumes "\<And>ce. un_ConfigEnvelope cd (pl_Data p) = Inr ce \<Longrightarrow> pe (co_LastUpdate ce) = qe (co_LastUpdate ce)"
  shows "PrintPayload cd pe p = PrintPayload cd qe p"
proof -
  have "PrintData cd pe t (pl_Data p) = PrintData cd qe t (pl_Data p)" for t
    using assms by (auto simp: PrintData_def PrintConfigEnvelope_def intro!: decoded_cong)
  then show ?thesis by (simp add: PrintPayload_def)
qed

lemma payload_decoded: "ExtractPayload cd e = Inr p \<Longrightarrow> un_Payload cd (en_Payload e) = Inr p"
  by (auto simp: ExtractPayload_def wrap_msg_def split: sum.splits)

lemma update_fuel:
  assumes "decodes_parts cd" "ExtractPayload cd e = Inr p" "un_ConfigEnvelope cd (pl_Data p) = Inr ce"
  shows "envelope_fuel (co_LastUpdate ce) \<le> length (en_Payload e) + 1"
proof (cases "co_LastUpdate ce")
  case (Some u)
  then have "length (en_Payload u) < length (pl_Data p)" "length (pl_Data p) \<le> length (en_Payload e)"
    using assms(1,3) payload_decoded [OF assms(2)] unfolding decodes_parts_def by blast+
  then show ?thesis by (simp add: envelope_fuel_def Some)
qed (simp add: envelope_fuel_def)

text \<open>Two printers of the last update that agree when there is enough fuel make the same of an envelope.\<close>

lemma envelope_step:
  assumes "decodes_parts cd" "\<And>u. envelope_fuel u \<le> length (en_Payload e) + 1 \<Longrightarrow> pe u = qe u"
  shows "decoded [] (ExtractPayload cd e) (\<lambda>p. element ''Payload'' (PrintPayload cd pe p))
       = decoded [] (ExtractPayload cd e) (\<lambda>p. element ''Payload'' (PrintPayload cd qe p))"
  using update_fuel [OF assms(1)] assms(2)
  by (intro decoded_cong arg_cong [where f = "element ''Payload''"] payload_cong) blast

lemma enough_fuel:
  assumes "decodes_parts cd"
  shows "envelope_fuel env \<le> n \<Longrightarrow> envelope_fuel env \<le> m \<Longrightarrow> print_envelope n cd env = print_envelope m cd env"
proof (induction n arbitrary: m env)
  case 0
  then show ?case by (auto simp: envelope_fuel_def split: option.splits)
next
  case (Suc n)
  then obtain k where m: "m = Suc k" by (cases m) (auto simp: envelope_fuel_def split: option.splits)
  have "decoded [] (ExtractPayload cd e) (\<lambda>p. element ''Payload'' (PrintPayload cd (print_envelope n cd) p))
      = decoded [] (ExtractPayload cd e) (\<lambda>p. element ''Payload'' (PrintPayload cd (print_envelope k cd) p))"
    if "env = Some e" for e
    using Suc.prems m that by (intro envelope_step [OF assms] Suc.IH) (simp_all add: envelope_fuel_def)
  then show ?case unfolding m print_envelope.simps by (intro through_cong) simp
qed

text \<open>C23: printing an envelope ends: it satisfies the recursion of the code, in which the last update within a
  configuration is printed by the same function, and any greater bound on the depth prints the same.\<close>

theorem PrintEnvelope_ends:
  assumes "decodes_parts cd"
  shows "PrintEnvelope cd env = through env (\<lambda>e. seqs
      [field_b ''Signature'' (en_Signature e),
       decoded [] (ExtractPayload cd e) (\<lambda>p. element ''Payload'' (PrintPayload cd (PrintEnvelope cd) p))]) \<and>
    (\<forall>k. print_envelope (envelope_fuel env + k) cd env = PrintEnvelope cd env)"
proof
  show "\<forall>k. print_envelope (envelope_fuel env + k) cd env = PrintEnvelope cd env"
    unfolding PrintEnvelope_def by (intro allI enough_fuel [OF assms]) simp_all
next
  have "decoded [] (ExtractPayload cd e) (\<lambda>p. element ''Payload'' (PrintPayload cd (print_envelope (Suc (length (en_Payload e))) cd) p))
      = decoded [] (ExtractPayload cd e) (\<lambda>p. element ''Payload'' (PrintPayload cd (PrintEnvelope cd) p))" for e
    unfolding PrintEnvelope_def by (intro envelope_step [OF assms] enough_fuel [OF assms]) simp_all
  then show "PrintEnvelope cd env = through env (\<lambda>e. seqs
      [field_b ''Signature'' (en_Signature e),
       decoded [] (ExtractPayload cd e) (\<lambda>p. element ''Payload'' (PrintPayload cd (PrintEnvelope cd) p))])"
    unfolding PrintEnvelope_def [of cd env] by (cases env) (simp_all add: envelope_fuel_def through_def)
qed

section \<open>A concrete block\<close>

definition fails :: "bytes \<Rightarrow> goerr + 'b" where
  "fails b = Inl (ErrNew ''unexpected EOF'')"

definition demo_proto :: "unit config_proto_scheme" where
  "demo_proto = \<lparr> un_Envelope = \<lambda>b. Inr \<lparr> en_Payload = b, en_Signature = [1] \<rparr>,
     un_Payload = \<lambda>b. Inr \<lparr> pl_Header = Some \<lparr> ph_ChannelHeader = take 1 b, ph_SignatureHeader = [2] \<rparr>, pl_Data = tl b \<rparr>,
     un_ChannelHeader = \<lambda>b. Inr \<lparr> ch_Type = if b = [9] then CONFIG else OtherHeader ''MESSAGE'', ch_Version = 1, ch_Timestamp = ''now'', ch_ChannelId = ''ch'', ch_TxId = ''tx'', ch_Epoch = 0, ch_Extension = [] \<rparr>,
     un_SignatureHeader = \<lambda>b. Inr \<lparr> sh_Creator = b, sh_Nonce = [] \<rparr>,
     un_HeaderExtension = \<lambda>b. Inr None,
     un_Metadata = \<lambda>b. Inr \<lparr> md_Value = b, md_Signatures = [[3]] \<rparr>,
     un_LastConfig = \<lambda>b. Inr 5,
     un_Transaction = fails,
     un_ActionPayload = fails,
     un_ProposalPayload = fails,
     un_InvocationSpec = fails,
     un_ResponsePayload = fails,
     un_ChaincodeAction = fails,
     un_TxRwSet = fails,
     un_ChaincodeEvent = fails,
     un_ChaincodeData = fails,
     un_CDSData = fails,
     un_CollConfig = fails,
     un_flag_text = (\<lambda>b. ''VALID''),
     un_SignaturePolicy = fails,
     un_ImplicitMeta = fails,
     un_ConfigPolicy = fails,
     un_ConfigEnvelope = \<lambda>b. if b = [] then fails b else Inr \<lparr> co_Config = Some \<lparr> cc_Sequence = 1, cc_ChannelGroup = None \<rparr>,
       co_LastUpdate = Some \<lparr> en_Payload = tl b, en_Signature = [] \<rparr> \<rparr>,
     un_ConfigUpdateEnvelope = fails,
     un_ConfigUpdate = fails,
     un_MSPRole = fails,
     un_OrganizationUnit = fails,
     un_MSPConfig = fails,
     un_FabricMSPConfig = fails,
     un_AnchorPeers = fails,
     un_ConsensusType = fails,
     un_BatchSize = fails,
     un_BatchTimeout = fails,
     un_ChannelRestrictions = fails,
     un_HashingAlgorithm = fails,
     un_HashingStructure = fails,
     un_OrdererAddresses = fails,
     un_Consortium = fails,
     un_Capabilities = fails \<rparr>"

definition demo_full_block :: pb_block where
  "demo_full_block = \<lparr> bl_Header = Some \<lparr> bh_Number = 7, bh_PreviousHash = [1, 2], bh_DataHash = [3] \<rparr>,
     bl_Data = Some [[9, 9, 2], [3]], bl_Metadata = Some [[], [], [0, 0], []] \<rparr>"

lemma PrintBlock_json_witness:
  "\<exists>m es t. length es = 2 \<and>
    t = JObj [(''Header'', JObj (header_members (the (bl_Header demo_full_block)))), (''Metadata'', JObj m),
      (''Data'', JObj [(''Data'', JArr es)])] \<and>
    written STDOUT (fst (PrintBlock (NewFormatter JSON STDOUT) (\<lambda>b. []) demo_proto demo_full_block)) = render t @ newline"
proof -
  let ?out = "fst (PrintBlock (NewFormatter JSON STDOUT) (\<lambda>b. []) demo_proto demo_full_block)"
  have "(\<lambda>b. snd b = None \<and> list_all tree_call (fst b)) (block_body demo_proto demo_full_block)"
    by code_simp
  then have b: "snd (block_body demo_proto demo_full_block) = None" and 2: "list_all tree_call (fst (block_body demo_proto demo_full_block))"
    by simp_all
  have "snd (PrintBlock (NewFormatter JSON STDOUT) (\<lambda>b. []) demo_proto demo_full_block) = None"
    using b by (simp add: PrintBlock_def printed_def new_json_formatter framed_def seqs.simps emit_def)
  then have 1: "PrintBlock (NewFormatter JSON STDOUT) (\<lambda>b. []) demo_proto demo_full_block = (?out, None)"
    by (intro prod_eqI) (simp_all only: fst_conv snd_conv)
  obtain h data m es t where *: "bl_Header demo_full_block = Some h" "bl_Data demo_full_block = Some data" "length es = length data"
    "t = JObj [(''Header'', JObj (header_members h)), (''Metadata'', JObj m), (''Data'', JObj [(''Data'', JArr es)])]"
    "written STDOUT ?out = render t @ newline"
    using PrintBlock_json [OF 1 2] by (elim exE conjE) (rule that; assumption)
  have "length es = 2" "the (bl_Header demo_full_block) = h" using *(1-3) by (auto simp: demo_full_block_def)
  then show ?thesis using *(4,5) by blast
qed

definition demo_peers :: "fab_peer list" where
  "demo_peers = [\<lparr> pe_URL = ''grpc:peer0'', pe_MSPID = ''Org1'', pe_BlockHeight = Some 3 \<rparr>]"

lemma PrintPeers_json_witness:
  "jparse (written STDOUT (fst (PrintPeers (NewFormatter JSON STDOUT) (\<lambda>p. []) demo_peers))) =
     Some (JObj [(''Peers'', JArr (map peer_tree demo_peers))])"
proof -
  have "plain_tree (JObj [(''Peers'', JArr (map peer_tree demo_peers))])" by code_simp
  then show ?thesis using PrintPeers_json [of demo_peers STDOUT "\<lambda>p. []"] by blast
qed

lemma PrintEnvelope_ends_witness:
  "print_envelope (envelope_fuel (Some \<lparr> en_Payload = [9, 9, 1], en_Signature = [] \<rparr>) + 7) demo_proto
      (Some \<lparr> en_Payload = [9, 9, 1], en_Signature = [] \<rparr>) =
    PrintEnvelope demo_proto (Some \<lparr> en_Payload = [9, 9, 1], en_Signature = [] \<rparr>)"
proof -
  have "decodes_parts demo_proto"
    by (auto simp: decodes_parts_def demo_proto_def fails_def split: if_splits)
  then show ?thesis using PrintEnvelope_ends by blast
qed

end
