(* ===== verification/CliConfig.thy ===== *)
theory CliConfig
  imports GoText Complex_Main
begin

text \<open>
  The options of fabric-cli (fabric/fabric-cli/config/config.go): the flags with their defaults and texts, the
  functions \<open>InitX\<close> that declare them, the functions that read an option, and the flags every command declares. What a
  function does to the flag set is the call it makes of \<open>pflag\<close>; parsing the command line is \<open>pflag\<close>'s.
\<close>

section \<open>Flags\<close>

definition AutoDetectSelectionProvider :: string where
  "AutoDetectSelectionProvider = ''auto''"

definition StaticSelectionProvider :: string where
  "StaticSelectionProvider = ''static''"

definition DynamicSelectionProvider :: string where
  "DynamicSelectionProvider = ''dynamic''"

definition FabricSelectionProvider :: string where
  "FabricSelectionProvider = ''fabric''"

definition UserFlag :: string where
  "UserFlag = ''user''"

definition userDescription :: string where
  "userDescription = ''The user''"

definition defaultUser :: string where
  "defaultUser = []"

definition PasswordFlag :: string where
  "PasswordFlag = ''pw''"

definition passwordDescription :: string where
  "passwordDescription = ''The password of the user''"

definition defaultPassword :: string where
  "defaultPassword = []"

definition ChaincodeVersionFlag :: string where
  "ChaincodeVersionFlag = ''v''"

definition chaincodeVersionDescription :: string where
  "chaincodeVersionDescription = ''The chaincode version''"

definition defaultChaincodeVersion :: string where
  "defaultChaincodeVersion = ''v0''"

definition LoggingLevelFlag :: string where
  "LoggingLevelFlag = ''logging-level''"

definition loggingLevelDescription :: string where
  "loggingLevelDescription = ''Logging level - ERROR, WARN, INFO, DEBUG''"

definition defaultLoggingLevel :: string where
  "defaultLoggingLevel = ''ERROR''"

definition OrgIDsFlag :: string where
  "OrgIDsFlag = ''orgid''"

definition orgIDsDescription :: string where
  "orgIDsDescription = ''A comma-separated list of organization IDs''"

definition defaultOrgIDs :: string where
  "defaultOrgIDs = []"

definition ChannelIDFlag :: string where
  "ChannelIDFlag = ''cid''"

definition channelIDDescription :: string where
  "channelIDDescription = ''The channel ID''"

definition defaultChannelID :: string where
  "defaultChannelID = []"

definition ChaincodeIDFlag :: string where
  "ChaincodeIDFlag = ''ccid''"

definition chaincodeIDDescription :: string where
  "chaincodeIDDescription = ''The Chaincode ID''"

definition defaultChaincodeID :: string where
  "defaultChaincodeID = []"

definition ChaincodePathFlag :: string where
  "ChaincodePathFlag = ''ccp''"

definition chaincodePathDescription :: string where
  "chaincodePathDescription = ''The chaincode path''"

definition defaultChaincodePath :: string where
  "defaultChaincodePath = []"

definition ConfigFileFlag :: string where
  "ConfigFileFlag = ''config''"

definition configFileDescription :: string where
  "configFileDescription = ''The path of the config.yaml file''"

definition defaultConfigFile :: string where
  "defaultConfigFile = []"

definition PeerURLFlag :: string where
  "PeerURLFlag = ''peer''"

definition peerURLDescription :: string where
  "peerURLDescription =
     ''A comma-separated list of peer targets, e.g. '' @ [CHR 0x27] @
     ''grpcs://localhost:7051,grpcs://localhost:8051'' @ [CHR 0x27]"

definition defaultPeerURL :: string where
  "defaultPeerURL = []"

definition OrdererFlag :: string where
  "OrdererFlag = ''orderer''"

definition ordererURLDescription :: string where
  "ordererURLDescription = ''The URL of the orderer, e.g. grpcs://localhost:7050''"

definition defaultOrdererURL :: string where
  "defaultOrdererURL = []"

definition PrintFormatFlag :: string where
  "PrintFormatFlag = ''format''"

definition printFormatDescription :: string where
  "printFormatDescription = ''The output format - display, json, raw''"

definition WriterFlag :: string where
  "WriterFlag = ''writer''"

definition writerDescription :: string where
  "writerDescription = ''The writer - stdout, stderr, log''"

definition Base64Flag :: string where
  "Base64Flag = ''base64''"

definition base64Description :: string where
  "base64Description =
     ''If true then binary values are encoded in base64 (only applies to '' @ [CHR 0x27] @ ''display'' @
     [CHR 0x27] @ '' format)''"

definition CertificateFileFlag :: string where
  "CertificateFileFlag = ''cacert''"

definition certificateDescription :: string where
  "certificateDescription = ''The path of the ca-cert.pem file''"

definition defaultCertificate :: string where
  "defaultCertificate = []"

definition ArgsFlag :: string where
  "ArgsFlag = ''args''"

definition argsDescription :: string where
  "argsDescription =
     ''The args in JSON format. Example: {'' @ [CHR 0x22] @ ''Func'' @ [CHR 0x22] @ '':'' @ [CHR 0x22] @
     ''function'' @ [CHR 0x22] @ '','' @ [CHR 0x22] @ ''Args'' @ [CHR 0x22] @ '':['' @ [CHR 0x22] @ ''arg1'' @
     [CHR 0x22] @ '','' @ [CHR 0x22] @ ''arg2'' @ [CHR 0x22] @
     '']}. Note that $rand(N) may be used anywhere within the value of the arg in order to generate a '' @
     ''random value between 0 and N. For example {'' @ [CHR 0x22] @ ''Func'' @ [CHR 0x22] @ '':'' @
     [CHR 0x22] @ ''function'' @ [CHR 0x22] @ '','' @ [CHR 0x22] @ ''Args'' @ [CHR 0x22] @ '':['' @
     [CHR 0x22] @ ''arg_$rand(100)'' @ [CHR 0x22] @ '','' @ [CHR 0x22] @ ''$rand(10)'' @ [CHR 0x22] @
     '']}.''"

definition IterationsFlag :: string where
  "IterationsFlag = ''iterations''"

definition iterationsDescription :: string where
  "iterationsDescription = ''The number of times to invoke the chaincode''"

definition defaultIterations :: string where
  "defaultIterations = ''1''"

definition SleepFlag :: string where
  "SleepFlag = ''sleep''"

definition sleepTimeDescription :: string where
  "sleepTimeDescription = ''The number of milliseconds to sleep between invocations of the chaincode.''"

definition defaultSleepTime :: string where
  "defaultSleepTime = ''0''"

definition TxFileFlag :: string where
  "TxFileFlag = ''txfile''"

definition txFileDescription :: string where
  "txFileDescription = ''The path of the channel.tx file''"

definition defaultTxFile :: string where
  "defaultTxFile = []"

definition ChaincodeEventFlag :: string where
  "ChaincodeEventFlag = ''event''"

definition chaincodeEventDescription :: string where
  "chaincodeEventDescription = ''The name of the chaincode event to listen for''"

definition defaultChaincodeEvent :: string where
  "defaultChaincodeEvent = []"

definition SeekTypeFlag :: string where
  "SeekTypeFlag = ''seek''"

definition seekTypeDescription :: string where
  "seekTypeDescription =
     ''The seek type. Possible values: oldest - delivers all blocks from the oldest block; newest - '' @
     ''delivers the newest block; from - delivers from the block number as specified by the '' @ [CHR 0x27] @
     ''--num'' @ [CHR 0x27] @ '' flag''"

definition defaultSeekType :: string where
  "defaultSeekType = ''newest''"

definition TxIDFlag :: string where
  "TxIDFlag = ''txid''"

definition txIDDescription :: string where
  "txIDDescription = ''The transaction ID''"

definition defaultTxID :: string where
  "defaultTxID = []"

definition BlockNumFlag :: string where
  "BlockNumFlag = ''num''"

definition blockNumDescription :: string where
  "blockNumDescription = ''The block number''"

definition defaultBlockNum :: string where
  "defaultBlockNum = ''0''"

definition BlockHashFlag :: string where
  "BlockHashFlag = ''hash''"

definition blockHashDescription :: string where
  "blockHashDescription = ''The block hash''"

definition defaultBlockHash :: string where
  "defaultBlockHash = []"

definition TraverseFlag :: string where
  "TraverseFlag = ''traverse''"

definition traverseDescription :: string where
  "traverseDescription =
     ''Blocks will be traversed starting with the given block in reverse order up to the given number of '' @
     ''blocks''"

definition defaultTraverse :: string where
  "defaultTraverse = ''0''"

definition ChaincodePolicyFlag :: string where
  "ChaincodePolicyFlag = ''policy''"

definition chaincodePolicyDescription :: string where
  "chaincodePolicyDescription =
     ''The chaincode policy, e.g. OutOf(1,'' @ [CHR 0x27] @ ''Org1MSP.admin'' @ [CHR 0x27] @ '','' @
     [CHR 0x27] @ ''Org2MSP.admin'' @ [CHR 0x27] @ '',AND('' @ [CHR 0x27] @ ''Org3MSP.member'' @ [CHR 0x27] @
     '','' @ [CHR 0x27] @ ''Org4MSP.member'' @ [CHR 0x27] @ ''))''"

definition defaultChaincodePolicy :: string where
  "defaultChaincodePolicy = []"

definition CollectionConfigFileFlag :: string where
  "CollectionConfigFileFlag = ''collconfig''"

definition collectionConfigFileDescription :: string where
  "collectionConfigFileDescription =
     ''The path of the JSON file that contains the private data collection configuration for the chaincode''"

definition defaultCollectionConfigFile :: string where
  "defaultCollectionConfigFile = []"

definition TimeoutFlag :: string where
  "TimeoutFlag = ''timeout''"

definition timeoutDescription :: string where
  "timeoutDescription = ''The timeout (in milliseconds) for the operation''"

definition defaultTimeout :: string where
  "defaultTimeout = ''5000''"

definition PrintPayloadOnlyFlag :: string where
  "PrintPayloadOnlyFlag = ''payload''"

definition printPayloadOnlyDescription :: string where
  "printPayloadOnlyDescription =
     ''If specified then only the payload from the transaction proposal response(s) will be output''"

definition defaultPrintPayloadOnly :: string where
  "defaultPrintPayloadOnly = ''false''"

definition ValidateFlag :: string where
  "ValidateFlag = ''validate''"

definition validateDescription :: string where
  "validateDescription = ''If specified then endorsement responses from queries will be validated''"

definition defaultValidate :: string where
  "defaultValidate = ''false''"

definition ConcurrencyFlag :: string where
  "ConcurrencyFlag = ''concurrency''"

definition concurrencyDescription :: string where
  "concurrencyDescription =
     ''Specifies the number of concurrent requests sent on an invoke or a query chaincode request''"

definition defaultConcurrency :: string where
  "defaultConcurrency = ''1''"

definition MaxAttemptsFlag :: string where
  "MaxAttemptsFlag = ''attempts''"

definition maxAttemptsDescription :: string where
  "maxAttemptsDescription =
     ''Specifies the maximum number of attempts to be made for a single chaincode invocation request. If '' @
     ''>1 then retries will be attempted should transient errors occur.''"

definition defaultMaxAttempts :: string where
  "defaultMaxAttempts = ''3''"

definition InitialBackoffFlag :: string where
  "InitialBackoffFlag = ''backoff''"

definition initialBackoffDescription :: string where
  "initialBackoffDescription =
     ''The initial backoff is the time (in milliseconds) to wait before resubmitting an invocation after '' @
     ''a transient error''"

definition defaultInitialBackoff :: string where
  "defaultInitialBackoff = ''1000''"

definition MaxBackoffFlag :: string where
  "MaxBackoffFlag = ''maxbackoff''"

definition maxBackoffDescription :: string where
  "maxBackoffDescription = ''The maximum backoff time (in milliseconds)''"

definition defaultMaxBackoff :: string where
  "defaultMaxBackoff = ''5000''"

definition BackoffFactorFlag :: string where
  "BackoffFactorFlag = ''backofffactor''"

definition backoffFactorDescription :: string where
  "backoffFactorDescription =
     ''The factor by which the backoff time is multiplied each time a retry fails. For example, if the '' @
     ''initial backoff is 1s and factor is 2 then the next retry will have a backoff of 2s and a '' @
     ''subsequent backoff will be 4s up to the maximum backoff''"

definition defaultBackoffFactor :: string where
  "defaultBackoffFactor = ''2''"

definition VerboseFlag :: string where
  "VerboseFlag = ''verbose''"

definition verboseDescription :: string where
  "verboseDescription =
     ''If specified then the transaction proposal responses will be output when iterations > 1, '' @
     ''otherwise transaction proposal responses are only output when iterations = 1''"

definition defaultVerbosity :: string where
  "defaultVerbosity = ''false''"

definition SelectionProviderFlag :: string where
  "SelectionProviderFlag = ''selectprovider''"

definition selectionProviderDescription :: string where
  "selectionProviderDescription =
     ''The peer selection provider for invoke/query commands. The possible values are: (1) static - '' @
     ''Selects all peers; (2) dynamic - Uses the built-in selection service from the SDK to select a '' @
     ''minimal set of peers according to the endorsement policy of the chaincode; (3) fabric - Uses Fabric'' @
     [CHR 0x27] @
     ''s Discovery Service to select a minimal set of peers according to the endorsement/collection '' @
     ''policy of the chaincode; (4) auto (default) - Automatically determines which selection service to '' @
     ''use based on channel capabilities.''"

definition defaultSelectionProvider :: string where
  "defaultSelectionProvider = AutoDetectSelectionProvider"

definition GoPathFlag :: string where
  "GoPathFlag = ''gopath''"

definition goPathDescription :: string where
  "goPathDescription = ''GOPATH for chaincode install command. If not set, GOPATH is taken from the environment''"

definition defaultGoPath :: string where
  "defaultGoPath = []"

definition getEmptyArgs :: string where
  "getEmptyArgs = ''{}''"

section \<open>Options\<close>

record cli_options =
  co_certificate :: string
  co_user :: string
  co_password :: string
  co_loggingLevel :: string
  co_orgIDsStr :: string
  co_channelID :: string
  co_chaincodeID :: string
  co_chaincodePath :: string
  co_chaincodeVersion :: string
  co_peerURL :: string
  co_ordererURL :: string
  co_iterations :: i64
  co_sleepTime :: i64
  co_configFile :: string
  co_txFile :: string
  co_txID :: string
  co_printFormat :: string
  co_writer :: string
  co_base64 :: bool
  co_args :: string
  co_chaincodeEvent :: string
  co_seekType :: string
  co_blockHash :: string
  co_blockNum :: u64
  co_traverse :: i64
  co_chaincodePolicy :: string
  co_collectionConfigFile :: string
  co_timeout :: i64
  co_printPayloadOnly :: bool
  co_validate :: bool
  co_concurrency :: i64
  co_maxAttempts :: i64
  co_initialBackoff :: i64
  co_maxBackoff :: i64
  co_backoffFactor :: rat
  co_verbose :: bool
  co_selectionProvider :: string
  co_goPath :: string

text \<open>The values after the package has been loaded.\<close>

definition init_options :: cli_options where
  "init_options = \<lparr> co_certificate = [], co_user = defaultUser, co_password = defaultPassword,
     co_loggingLevel = defaultLoggingLevel, co_orgIDsStr = defaultOrgIDs, co_channelID = defaultChannelID,
     co_chaincodeID = [], co_chaincodePath = [], co_chaincodeVersion = defaultChaincodeVersion, co_peerURL = [],
     co_ordererURL = [], co_iterations = 1, co_sleepTime = 0, co_configFile = [], co_txFile = [], co_txID = [],
     co_printFormat = [], co_writer = [], co_base64 = False, co_args = getEmptyArgs, co_chaincodeEvent = [],
     co_seekType = [], co_blockHash = [], co_blockNum = 0, co_traverse = 0, co_chaincodePolicy = [],
     co_collectionConfigFile = [], co_timeout = 0, co_printPayloadOnly = False, co_validate = False,
     co_concurrency = 1, co_maxAttempts = 0, co_initialBackoff = 0, co_maxBackoff = 0, co_backoffFactor = 0,
     co_verbose = False, co_selectionProvider = [], co_goPath = [] \<rparr>"

text \<open>A call of \<open>pflag\<close>: the option it points to, the flag's name, its default and its text.\<close>

datatype flag_call =
    StringVar (flag_ptr: string) (flag_name: string) string (flag_usage: string)
  | IntVar (flag_ptr: string) (flag_name: string) i64 (flag_usage: string)
  | Int64Var (flag_ptr: string) (flag_name: string) i64 (flag_usage: string)
  | Uint64Var (flag_ptr: string) (flag_name: string) u64 (flag_usage: string)
  | BoolVar (flag_ptr: string) (flag_name: string) bool (flag_usage: string)
  | Float64Var (flag_ptr: string) (flag_name: string) rat (flag_usage: string)

text \<open>What an \<open>InitX\<close> prints, and the call it makes or \<open>os.Exit(-1)\<close>.\<close>

datatype flag_init = InitFlag string flag_call | InitExit string

definition getDefaultValueAndDescription :: "string \<Rightarrow> string \<Rightarrow> string list \<Rightarrow> string \<times> string" where
  "getDefaultValueAndDescription defaultValue defaultDescription overrides =
     (if length overrides > 0 then overrides ! 0 else defaultValue,
      if length overrides > 1 then overrides ! 1 else defaultDescription)"

definition string_flag :: "string \<Rightarrow> string \<Rightarrow> string \<times> string \<Rightarrow> flag_init" where
  "string_flag ptr name vd = InitFlag [] (StringVar ptr name (fst vd) (snd vd))"

definition bool_flag :: "string \<Rightarrow> string \<Rightarrow> string \<times> string \<Rightarrow> flag_init" where
  "bool_flag ptr name vd = InitFlag [] (BoolVar ptr name (fst vd = ''true'') (snd vd))"

definition invalid_number :: "string \<Rightarrow> string \<Rightarrow> string" where
  "invalid_number told value = ''Invalid number for '' @ told @ '': '' @ value @ [CHR 0x0A]"

text \<open>\<open>told\<close> is the flag the message names, \<open>fallback\<close> what is taken instead of a default that is no number; without
  one the process ends.\<close>

definition int_flag ::
    "(string \<Rightarrow> string \<Rightarrow> i64 \<Rightarrow> string \<Rightarrow> flag_call) \<Rightarrow> string \<Rightarrow> string \<Rightarrow> string \<Rightarrow> i64 option \<Rightarrow>
      string \<times> string \<Rightarrow> flag_init" where
  "int_flag var ptr name told fallback vd =
     (case atoi (fst vd) of
        (i, None) \<Rightarrow> InitFlag [] (var ptr name i (snd vd))
      | (i, Some e) \<Rightarrow>
          (case fallback of
             None \<Rightarrow> InitExit (invalid_number told (fst vd))
           | Some i \<Rightarrow> InitFlag (invalid_number told (fst vd)) (var ptr name i (snd vd))))"

text \<open>\<open>float64(i)\<close> is exact up to 2 to the 53.\<close>

definition float_flag ::
    "string \<Rightarrow> string \<Rightarrow> string \<Rightarrow> i64 option \<Rightarrow> string \<times> string \<Rightarrow> flag_init" where
  "float_flag = int_flag (\<lambda>ptr name i. Float64Var ptr name (of_int (sint i)))"

definition uint_flag :: "string \<Rightarrow> string \<Rightarrow> string \<Rightarrow> string \<times> string \<Rightarrow> flag_init" where
  "uint_flag ptr name told vd =
     (case (if fst vd = [] then Inl ErrSyntax else parse_uint 0 (fst vd)) of
        Inl e \<Rightarrow> InitExit (invalid_number told (fst vd))
      | Inr n \<Rightarrow> InitFlag [] (Uint64Var ptr name (word_of_nat n) (snd vd)))"

definition InitLoggingLevel :: "string list \<Rightarrow> flag_init" where
  "InitLoggingLevel over = string_flag ''loggingLevel'' LoggingLevelFlag
     (getDefaultValueAndDescription defaultLoggingLevel loggingLevelDescription over)"

definition InitConfigFile :: "string list \<Rightarrow> flag_init" where
  "InitConfigFile over = string_flag ''configFile'' ConfigFileFlag
     (getDefaultValueAndDescription defaultConfigFile configFileDescription over)"

definition InitOrgIDs :: "string list \<Rightarrow> flag_init" where
  "InitOrgIDs over = string_flag ''orgIDsStr'' OrgIDsFlag
     (getDefaultValueAndDescription defaultOrgIDs orgIDsDescription over)"

definition InitChannelID :: "string list \<Rightarrow> flag_init" where
  "InitChannelID over = string_flag ''channelID'' ChannelIDFlag
     (getDefaultValueAndDescription defaultChannelID channelIDDescription over)"

definition InitUserName :: "string list \<Rightarrow> flag_init" where
  "InitUserName over = string_flag ''user'' UserFlag
     (getDefaultValueAndDescription defaultUser userDescription over)"

definition InitUserPassword :: "string list \<Rightarrow> flag_init" where
  "InitUserPassword over = string_flag ''password'' PasswordFlag
     (getDefaultValueAndDescription defaultPassword passwordDescription over)"

definition InitChaincodeID :: "string list \<Rightarrow> flag_init" where
  "InitChaincodeID over = string_flag ''chaincodeID'' ChaincodeIDFlag
     (getDefaultValueAndDescription defaultChaincodeID chaincodeIDDescription over)"

definition InitChaincodeEvent :: "string list \<Rightarrow> flag_init" where
  "InitChaincodeEvent over = string_flag ''chaincodeEvent'' ChaincodeEventFlag
     (getDefaultValueAndDescription defaultChaincodeEvent chaincodeEventDescription over)"

definition InitSeekType :: "string list \<Rightarrow> flag_init" where
  "InitSeekType over = string_flag ''seekType'' SeekTypeFlag
     (getDefaultValueAndDescription defaultSeekType seekTypeDescription over)"

definition InitChaincodePath :: "string list \<Rightarrow> flag_init" where
  "InitChaincodePath over = string_flag ''chaincodePath'' ChaincodePathFlag
     (getDefaultValueAndDescription defaultChaincodePath chaincodePathDescription over)"

definition InitChaincodeVersion :: "string list \<Rightarrow> flag_init" where
  "InitChaincodeVersion over = string_flag ''chaincodeVersion'' ChaincodeVersionFlag
     (getDefaultValueAndDescription defaultChaincodeVersion chaincodeVersionDescription over)"

definition InitPeerURL :: "string list \<Rightarrow> flag_init" where
  "InitPeerURL over = string_flag ''peerURL'' PeerURLFlag
     (getDefaultValueAndDescription defaultPeerURL peerURLDescription over)"

definition InitOrdererURL :: "string list \<Rightarrow> flag_init" where
  "InitOrdererURL over = string_flag ''ordererURL'' OrdererFlag
     (getDefaultValueAndDescription defaultOrdererURL ordererURLDescription over)"

definition InitIterations :: "string list \<Rightarrow> flag_init" where
  "InitIterations over = int_flag IntVar ''iterations'' IterationsFlag IterationsFlag None
    
     (getDefaultValueAndDescription defaultIterations iterationsDescription over)"

definition InitSleepTime :: "string list \<Rightarrow> flag_init" where
  "InitSleepTime over = int_flag Int64Var ''sleepTime'' SleepFlag SleepFlag None
    
     (getDefaultValueAndDescription defaultSleepTime sleepTimeDescription over)"

definition InitBlockNum :: "string list \<Rightarrow> flag_init" where
  "InitBlockNum over = uint_flag ''blockNum'' BlockNumFlag BlockNumFlag
    
     (getDefaultValueAndDescription defaultBlockNum blockNumDescription over)"

definition InitBlockHash :: "string list \<Rightarrow> flag_init" where
  "InitBlockHash over = string_flag ''blockHash'' BlockHashFlag
     (getDefaultValueAndDescription defaultBlockHash blockHashDescription over)"

definition InitTraverse :: "string list \<Rightarrow> flag_init" where
  "InitTraverse over = int_flag IntVar ''traverse'' TraverseFlag TimeoutFlag (Some 1)
    
     (getDefaultValueAndDescription defaultTraverse traverseDescription over)"

definition InitPrintFormat :: "string list \<Rightarrow> flag_init" where
  "InitPrintFormat over = string_flag ''printFormat'' PrintFormatFlag
     (getDefaultValueAndDescription ''display'' printFormatDescription over)"

definition InitWriter :: "string list \<Rightarrow> flag_init" where
  "InitWriter over = string_flag ''writer'' WriterFlag
     (getDefaultValueAndDescription ''stdout'' writerDescription over)"

definition InitBase64 :: "string list \<Rightarrow> flag_init" where
  "InitBase64 over = bool_flag ''base64'' Base64Flag
     (getDefaultValueAndDescription ''false'' writerDescription over)"

definition InitOrdererTLSCertificate :: "string list \<Rightarrow> flag_init" where
  "InitOrdererTLSCertificate over = string_flag ''certificate'' CertificateFileFlag
     (getDefaultValueAndDescription defaultCertificate certificateDescription over)"

definition InitArgs :: "string list \<Rightarrow> flag_init" where
  "InitArgs over = string_flag ''args'' ArgsFlag
     (getDefaultValueAndDescription getEmptyArgs argsDescription over)"

definition InitTxFile :: "string list \<Rightarrow> flag_init" where
  "InitTxFile over = string_flag ''txFile'' TxFileFlag
     (getDefaultValueAndDescription defaultTxFile txFileDescription over)"

definition InitTxID :: "string list \<Rightarrow> flag_init" where
  "InitTxID over = string_flag ''txID'' TxIDFlag
     (getDefaultValueAndDescription defaultTxID txIDDescription over)"

definition InitChaincodePolicy :: "string list \<Rightarrow> flag_init" where
  "InitChaincodePolicy over = string_flag ''chaincodePolicy'' ChaincodePolicyFlag
     (getDefaultValueAndDescription defaultChaincodePolicy chaincodePolicyDescription over)"

definition InitCollectionConfigFile :: "string list \<Rightarrow> flag_init" where
  "InitCollectionConfigFile over = string_flag ''collectionConfigFile'' CollectionConfigFileFlag
     (getDefaultValueAndDescription defaultCollectionConfigFile collectionConfigFileDescription over)"

definition InitTimeout :: "string list \<Rightarrow> flag_init" where
  "InitTimeout over = int_flag Int64Var ''timeout'' TimeoutFlag TimeoutFlag (Some 1000)
    
     (getDefaultValueAndDescription defaultTimeout timeoutDescription over)"

definition InitPrintPayloadOnly :: "string list \<Rightarrow> flag_init" where
  "InitPrintPayloadOnly over = bool_flag ''printPayloadOnly'' PrintPayloadOnlyFlag
     (getDefaultValueAndDescription defaultPrintPayloadOnly printPayloadOnlyDescription over)"

definition InitValidate :: "string list \<Rightarrow> flag_init" where
  "InitValidate over = bool_flag ''validate'' ValidateFlag
     (getDefaultValueAndDescription defaultValidate validateDescription over)"

definition InitConcurrency :: "string list \<Rightarrow> flag_init" where
  "InitConcurrency over = int_flag IntVar ''concurrency'' ConcurrencyFlag TimeoutFlag (Some 1)
    
     (getDefaultValueAndDescription defaultConcurrency concurrencyDescription over)"

definition InitMaxAttempts :: "string list \<Rightarrow> flag_init" where
  "InitMaxAttempts over = int_flag IntVar ''maxAttempts'' MaxAttemptsFlag TimeoutFlag (Some 1)
    
     (getDefaultValueAndDescription defaultMaxAttempts maxAttemptsDescription over)"

definition InitInitialBackoff :: "string list \<Rightarrow> flag_init" where
  "InitInitialBackoff over = int_flag Int64Var ''initialBackoff'' InitialBackoffFlag TimeoutFlag (Some 1000)
    
     (getDefaultValueAndDescription defaultInitialBackoff initialBackoffDescription over)"

definition InitMaxBackoff :: "string list \<Rightarrow> flag_init" where
  "InitMaxBackoff over = int_flag Int64Var ''maxBackoff'' MaxBackoffFlag TimeoutFlag (Some 1000)
    
     (getDefaultValueAndDescription defaultMaxBackoff maxBackoffDescription over)"

definition InitBackoffFactor :: "string list \<Rightarrow> flag_init" where
  "InitBackoffFactor over = float_flag ''backoffFactor'' BackoffFactorFlag TimeoutFlag (Some 1000)
    
     (getDefaultValueAndDescription defaultBackoffFactor backoffFactorDescription over)"

definition InitVerbosity :: "string list \<Rightarrow> flag_init" where
  "InitVerbosity over = bool_flag ''verbose'' VerboseFlag
     (getDefaultValueAndDescription defaultVerbosity verboseDescription over)"

definition InitSelectionProvider :: "string list \<Rightarrow> flag_init" where
  "InitSelectionProvider over = string_flag ''selectionProvider'' SelectionProviderFlag
     (getDefaultValueAndDescription defaultSelectionProvider selectionProviderDescription over)"

definition InitGoPath :: "string list \<Rightarrow> flag_init" where
  "InitGoPath over = string_flag ''goPath'' GoPathFlag
     (getDefaultValueAndDescription defaultGoPath goPathDescription over)"

section \<open>Reading options\<close>

text \<open>\<open>TrimSpace\<close> leaves nothing of a text of spaces. The spaces outside ASCII are left out.\<close>

definition is_space :: "char \<Rightarrow> bool" where
  "is_space c \<longleftrightarrow> c \<in> {CHR 0x09, CHR 0x0A, CHR 0x0B, CHR 0x0C, CHR 0x0D, CHR 0x20}"

definition comma_list :: "string \<Rightarrow> string list" where
  "comma_list s = (if list_all is_space s then [] else split_on (CHR '','') s)"

definition OrgIDs :: "cli_options \<Rightarrow> string list" where
  "OrgIDs opts = comma_list (co_orgIDsStr opts)"

definition OrgID :: "cli_options \<Rightarrow> string" where
  "OrgID opts = (if OrgIDs opts = [] then [] else OrgIDs opts ! 0)"

definition PeerURLs :: "cli_options \<Rightarrow> string list" where
  "PeerURLs opts = comma_list (co_peerURL opts)"

text \<open>Durations are nanoseconds in 64 bits.\<close>

definition Millisecond :: i64 where "Millisecond = 1000000"

definition Timeout :: "cli_options \<Rightarrow> i64" where
  "Timeout opts = co_timeout opts * Millisecond"

definition InitialBackoff :: "cli_options \<Rightarrow> i64" where
  "InitialBackoff opts = co_initialBackoff opts * Millisecond"

definition MaxBackoff :: "cli_options \<Rightarrow> i64" where
  "MaxBackoff opts = co_maxBackoff opts * Millisecond"

definition Concurrency :: "cli_options \<Rightarrow> 16 word" where
  "Concurrency opts = ucast (co_concurrency opts)"

record cli_config =
  cg_setFlags :: "string \<rightharpoonup> string"

text \<open>\<open>InitConfig\<close>: the flags the user has set, with their values; the configuration file is read by the SDK.\<close>

definition cli_InitConfig :: "(string \<times> string) list \<Rightarrow> cli_config" where
  "cli_InitConfig visited = \<lparr> cg_setFlags = map_of (rev visited) \<rparr>"

definition IsFlagSet :: "cli_config \<Rightarrow> string \<Rightarrow> bool" where
  "IsFlagSet c name \<longleftrightarrow> cg_setFlags c name \<noteq> None"

definition GoPath :: "cli_config \<Rightarrow> cli_options \<Rightarrow> string \<Rightarrow> string" where
  "GoPath c opts env_gopath = (if \<not> IsFlagSet c GoPathFlag then env_gopath else co_goPath opts)"

section \<open>The flags of the commands\<close>

definition cli_flags :: "flag_init list" where
  "cli_flags =
   [InitConfigFile [], InitLoggingLevel [], InitUserName [], InitUserPassword [], InitOrdererTLSCertificate [],
    InitPrintFormat [], InitWriter [], InitBase64 [], InitOrgIDs []]"

definition invoke_flags :: "flag_init list" where
  "invoke_flags =
   [InitPeerURL [], InitChannelID [], InitChaincodeID [], InitArgs [], InitIterations [], InitSleepTime [],
    InitTimeout [], InitPrintPayloadOnly [], InitConcurrency [], InitMaxAttempts [], InitInitialBackoff [],
    InitMaxBackoff [], InitBackoffFactor [], InitVerbosity [], InitSelectionProvider []]"

definition instantiate_flags :: "flag_init list" where
  "instantiate_flags =
   [InitPeerURL [], InitChannelID [], InitChaincodeID [], InitChaincodePath [], InitChaincodeVersion [],
    InitArgs [], InitChaincodePolicy [], InitCollectionConfigFile [], InitTimeout []]"

definition query_flags :: "flag_init list" where
  "query_flags =
   [InitPeerURL [], InitChannelID [], InitChaincodeID [], InitArgs [], InitIterations [], InitSleepTime [],
    InitTimeout [], InitPrintPayloadOnly [], InitConcurrency [], InitVerbosity [], InitSelectionProvider [],
    InitValidate []]"

definition info_flags :: "flag_init list" where
  "info_flags =
   [InitPeerURL [], InitChannelID [], InitChaincodeID []]"

definition install_flags :: "flag_init list" where
  "install_flags =
   [InitPeerURL [[], ''The URL of the peer on which to install the chaincode, e.g. localhost:7051''],
    InitChannelID [], InitChaincodeID [], InitChaincodePath [], InitChaincodeVersion [], InitGoPath []]"

definition upgrade_flags :: "flag_init list" where
  "upgrade_flags =
   [InitPeerURL [], InitChannelID [], InitChaincodeID [], InitChaincodePath [], InitChaincodeVersion [],
    InitArgs [], InitChaincodePolicy [], InitCollectionConfigFile [], InitTimeout []]"

definition chaincode_flags :: "flag_init list" where
  "chaincode_flags =
   [InitChannelID []]"

definition join_flags :: "flag_init list" where
  "join_flags =
   [InitChannelID [], InitOrdererURL [], InitPeerURL []]"

definition create_flags :: "flag_init list" where
  "create_flags =
   [InitChannelID [], InitOrdererURL [], InitTxFile []]"

definition channel_flags :: "flag_init list" where
  "channel_flags =
   [InitChannelID []]"

definition listenfilteredblock_flags :: "flag_init list" where
  "listenfilteredblock_flags =
   [InitChannelID [],
    InitPeerURL [[], ''The URL of the peer on which to listen for events, e.g. localhost:7051''],
    InitSeekType [], InitBlockNum []]"

definition listenblock_flags :: "flag_init list" where
  "listenblock_flags =
   [InitChannelID [],
    InitPeerURL [[], ''The URL of the peer on which to listen for events, e.g. localhost:7051''],
    InitSeekType [], InitBlockNum []]"

definition listentx_flags :: "flag_init list" where
  "listentx_flags =
   [InitChannelID [], InitTxID [],
    InitPeerURL [[], ''The URL of the peer on which to listen for events, e.g. grpcs://localhost:7051'']]"

definition listencc_flags :: "flag_init list" where
  "listencc_flags =
   [InitChannelID [],
    InitPeerURL [[], ''The URL of the peer on which to listen for events, e.g. grpcs://localhost:7051''],
    InitChaincodeID [], InitChaincodeEvent []]"

definition querypeers_flags :: "flag_init list" where
  "querypeers_flags =
   [InitChannelID [], InitPeerURL []]"

definition query_parent_flags :: "flag_init list" where
  "query_parent_flags =
   [InitChannelID []]"

definition querychannels_flags :: "flag_init list" where
  "querychannels_flags =
   [InitPeerURL []]"

definition queryblock_flags :: "flag_init list" where
  "queryblock_flags =
   [InitChannelID [], InitBlockNum [], InitBlockHash [], InitTraverse [],
    InitPeerURL [[], ''The URL of the peer on which to install the chaincode, e.g. grpcs://localhost:7051'']]"

definition queryinstalled_flags :: "flag_init list" where
  "queryinstalled_flags =
   [InitPeerURL []]"

definition queryinfo_flags :: "flag_init list" where
  "queryinfo_flags =
   [InitTxID [], InitChannelID [], InitPeerURL []]"

definition querytx_flags :: "flag_init list" where
  "querytx_flags =
   [InitChannelID [], InitTxID [], InitPeerURL []]"

definition querylocalpeers_flags :: "flag_init list" where
  "querylocalpeers_flags =
   [InitOrgIDs [], InitPeerURL []]"

definition all_flags :: "flag_init list" where
  "all_flags =
   [InitLoggingLevel [], InitConfigFile [], InitOrgIDs [], InitChannelID [], InitUserName [],
    InitUserPassword [], InitChaincodeID [], InitChaincodeEvent [], InitSeekType [], InitChaincodePath [],
    InitChaincodeVersion [], InitPeerURL [], InitOrdererURL [], InitIterations [], InitSleepTime [],
    InitBlockNum [], InitBlockHash [], InitTraverse [], InitPrintFormat [], InitWriter [], InitBase64 [],
    InitOrdererTLSCertificate [], InitArgs [], InitTxFile [], InitTxID [], InitChaincodePolicy [],
    InitCollectionConfigFile [], InitTimeout [], InitPrintPayloadOnly [], InitValidate [], InitConcurrency [],
    InitMaxAttempts [], InitInitialBackoff [], InitMaxBackoff [], InitBackoffFactor [], InitVerbosity [],
    InitSelectionProvider [], InitGoPath []]"

definition commands_flags :: "flag_init list list" where
  "commands_flags =
   [cli_flags, invoke_flags, instantiate_flags, query_flags, info_flags, install_flags, upgrade_flags, chaincode_flags,
    join_flags, create_flags, channel_flags, listenfilteredblock_flags, listenblock_flags, listentx_flags,
    listencc_flags, querypeers_flags, query_parent_flags, querychannels_flags, queryblock_flags, queryinstalled_flags,
    queryinfo_flags, querytx_flags, querylocalpeers_flags]"

section \<open>The flags agree\<close>

fun plain_call :: "flag_init \<Rightarrow> flag_call option" where
  "plain_call (InitFlag [] c) = Some c"
| "plain_call (InitFlag (t # ts) c) = None"
| "plain_call (InitExit t) = None"

definition flag_calls :: "flag_init list \<Rightarrow> flag_call list" where
  "flag_calls fs = List.map_filter plain_call fs"

fun no_usage :: "flag_call \<Rightarrow> flag_call" where
  "no_usage (StringVar p n v u) = StringVar p n v []"
| "no_usage (IntVar p n v u) = IntVar p n v []"
| "no_usage (Int64Var p n v u) = Int64Var p n v []"
| "no_usage (Uint64Var p n v u) = Uint64Var p n v []"
| "no_usage (BoolVar p n v u) = BoolVar p n v []"
| "no_usage (Float64Var p n v u) = Float64Var p n v []"

fun call_of :: "flag_init \<Rightarrow> flag_call" where
  "call_of (InitFlag t c) = c"
| "call_of (InitExit t) = StringVar [] [] [] []"

lemmas init_defs =
    InitLoggingLevel_def InitConfigFile_def InitOrgIDs_def InitChannelID_def InitUserName_def
    InitUserPassword_def InitChaincodeID_def InitChaincodeEvent_def InitSeekType_def InitChaincodePath_def
    InitChaincodeVersion_def InitPeerURL_def InitOrdererURL_def InitIterations_def InitSleepTime_def
    InitBlockNum_def InitBlockHash_def InitTraverse_def InitPrintFormat_def InitWriter_def InitBase64_def
    InitOrdererTLSCertificate_def InitArgs_def InitTxFile_def InitTxID_def InitChaincodePolicy_def
    InitCollectionConfigFile_def InitTimeout_def InitPrintPayloadOnly_def InitValidate_def InitConcurrency_def
    InitMaxAttempts_def InitInitialBackoff_def InitMaxBackoff_def InitBackoffFactor_def InitVerbosity_def
    InitSelectionProvider_def InitGoPath_def
    string_flag_def bool_flag_def int_flag_def float_flag_def uint_flag_def getDefaultValueAndDescription_def

lemmas number_defaults =
    defaultIterations_def defaultSleepTime_def defaultBlockNum_def defaultTraverse_def defaultTimeout_def
    defaultConcurrency_def defaultMaxAttempts_def defaultInitialBackoff_def defaultMaxBackoff_def
    defaultBackoffFactor_def atoi_def parse_signed_def digit_val_def

lemma init_plain:
    "plain_call (InitLoggingLevel []) = Some (call_of (InitLoggingLevel []))"
    "plain_call (InitConfigFile []) = Some (call_of (InitConfigFile []))"
    "plain_call (InitOrgIDs []) = Some (call_of (InitOrgIDs []))"
    "plain_call (InitChannelID []) = Some (call_of (InitChannelID []))"
    "plain_call (InitUserName []) = Some (call_of (InitUserName []))"
    "plain_call (InitUserPassword []) = Some (call_of (InitUserPassword []))"
    "plain_call (InitChaincodeID []) = Some (call_of (InitChaincodeID []))"
    "plain_call (InitChaincodeEvent []) = Some (call_of (InitChaincodeEvent []))"
    "plain_call (InitSeekType []) = Some (call_of (InitSeekType []))"
    "plain_call (InitChaincodePath []) = Some (call_of (InitChaincodePath []))"
    "plain_call (InitChaincodeVersion []) = Some (call_of (InitChaincodeVersion []))"
    "plain_call (InitPeerURL []) = Some (call_of (InitPeerURL []))"
    "plain_call (InitOrdererURL []) = Some (call_of (InitOrdererURL []))"
    "plain_call (InitIterations []) = Some (call_of (InitIterations []))"
    "plain_call (InitSleepTime []) = Some (call_of (InitSleepTime []))"
    "plain_call (InitBlockNum []) = Some (call_of (InitBlockNum []))"
    "plain_call (InitBlockHash []) = Some (call_of (InitBlockHash []))"
    "plain_call (InitTraverse []) = Some (call_of (InitTraverse []))"
    "plain_call (InitPrintFormat []) = Some (call_of (InitPrintFormat []))"
    "plain_call (InitWriter []) = Some (call_of (InitWriter []))"
    "plain_call (InitBase64 []) = Some (call_of (InitBase64 []))"
    "plain_call (InitOrdererTLSCertificate []) = Some (call_of (InitOrdererTLSCertificate []))"
    "plain_call (InitArgs []) = Some (call_of (InitArgs []))"
    "plain_call (InitTxFile []) = Some (call_of (InitTxFile []))"
    "plain_call (InitTxID []) = Some (call_of (InitTxID []))"
    "plain_call (InitChaincodePolicy []) = Some (call_of (InitChaincodePolicy []))"
    "plain_call (InitCollectionConfigFile []) = Some (call_of (InitCollectionConfigFile []))"
    "plain_call (InitTimeout []) = Some (call_of (InitTimeout []))"
    "plain_call (InitPrintPayloadOnly []) = Some (call_of (InitPrintPayloadOnly []))"
    "plain_call (InitValidate []) = Some (call_of (InitValidate []))"
    "plain_call (InitConcurrency []) = Some (call_of (InitConcurrency []))"
    "plain_call (InitMaxAttempts []) = Some (call_of (InitMaxAttempts []))"
    "plain_call (InitInitialBackoff []) = Some (call_of (InitInitialBackoff []))"
    "plain_call (InitMaxBackoff []) = Some (call_of (InitMaxBackoff []))"
    "plain_call (InitBackoffFactor []) = Some (call_of (InitBackoffFactor []))"
    "plain_call (InitVerbosity []) = Some (call_of (InitVerbosity []))"
    "plain_call (InitSelectionProvider []) = Some (call_of (InitSelectionProvider []))"
    "plain_call (InitGoPath []) = Some (call_of (InitGoPath []))"
    "plain_call (InitPeerURL [d, u]) = Some (call_of (InitPeerURL [d, u]))"
  by (simp_all add: init_defs number_defaults)

lemma init_ptr:
    "flag_ptr (call_of (InitLoggingLevel [])) = ''loggingLevel''"
    "flag_ptr (call_of (InitConfigFile [])) = ''configFile''"
    "flag_ptr (call_of (InitOrgIDs [])) = ''orgIDsStr''"
    "flag_ptr (call_of (InitChannelID [])) = ''channelID''" "flag_ptr (call_of (InitUserName [])) = ''user''"
    "flag_ptr (call_of (InitUserPassword [])) = ''password''"
    "flag_ptr (call_of (InitChaincodeID [])) = ''chaincodeID''"
    "flag_ptr (call_of (InitChaincodeEvent [])) = ''chaincodeEvent''"
    "flag_ptr (call_of (InitSeekType [])) = ''seekType''"
    "flag_ptr (call_of (InitChaincodePath [])) = ''chaincodePath''"
    "flag_ptr (call_of (InitChaincodeVersion [])) = ''chaincodeVersion''"
    "flag_ptr (call_of (InitPeerURL [])) = ''peerURL''"
    "flag_ptr (call_of (InitOrdererURL [])) = ''ordererURL''"
    "flag_ptr (call_of (InitIterations [])) = ''iterations''"
    "flag_ptr (call_of (InitSleepTime [])) = ''sleepTime''"
    "flag_ptr (call_of (InitBlockNum [])) = ''blockNum''"
    "flag_ptr (call_of (InitBlockHash [])) = ''blockHash''"
    "flag_ptr (call_of (InitTraverse [])) = ''traverse''"
    "flag_ptr (call_of (InitPrintFormat [])) = ''printFormat''"
    "flag_ptr (call_of (InitWriter [])) = ''writer''" "flag_ptr (call_of (InitBase64 [])) = ''base64''"
    "flag_ptr (call_of (InitOrdererTLSCertificate [])) = ''certificate''"
    "flag_ptr (call_of (InitArgs [])) = ''args''" "flag_ptr (call_of (InitTxFile [])) = ''txFile''"
    "flag_ptr (call_of (InitTxID [])) = ''txID''"
    "flag_ptr (call_of (InitChaincodePolicy [])) = ''chaincodePolicy''"
    "flag_ptr (call_of (InitCollectionConfigFile [])) = ''collectionConfigFile''"
    "flag_ptr (call_of (InitTimeout [])) = ''timeout''"
    "flag_ptr (call_of (InitPrintPayloadOnly [])) = ''printPayloadOnly''"
    "flag_ptr (call_of (InitValidate [])) = ''validate''"
    "flag_ptr (call_of (InitConcurrency [])) = ''concurrency''"
    "flag_ptr (call_of (InitMaxAttempts [])) = ''maxAttempts''"
    "flag_ptr (call_of (InitInitialBackoff [])) = ''initialBackoff''"
    "flag_ptr (call_of (InitMaxBackoff [])) = ''maxBackoff''"
    "flag_ptr (call_of (InitBackoffFactor [])) = ''backoffFactor''"
    "flag_ptr (call_of (InitVerbosity [])) = ''verbose''"
    "flag_ptr (call_of (InitSelectionProvider [])) = ''selectionProvider''"
    "flag_ptr (call_of (InitGoPath [])) = ''goPath''"
  by (simp_all add: init_defs number_defaults)

lemma init_name:
    "flag_name (call_of (InitLoggingLevel [])) = ''logging-level''"
    "flag_name (call_of (InitConfigFile [])) = ''config''" "flag_name (call_of (InitOrgIDs [])) = ''orgid''"
    "flag_name (call_of (InitChannelID [])) = ''cid''" "flag_name (call_of (InitUserName [])) = ''user''"
    "flag_name (call_of (InitUserPassword [])) = ''pw''" "flag_name (call_of (InitChaincodeID [])) = ''ccid''"
    "flag_name (call_of (InitChaincodeEvent [])) = ''event''"
    "flag_name (call_of (InitSeekType [])) = ''seek''" "flag_name (call_of (InitChaincodePath [])) = ''ccp''"
    "flag_name (call_of (InitChaincodeVersion [])) = ''v''" "flag_name (call_of (InitPeerURL [])) = ''peer''"
    "flag_name (call_of (InitOrdererURL [])) = ''orderer''"
    "flag_name (call_of (InitIterations [])) = ''iterations''"
    "flag_name (call_of (InitSleepTime [])) = ''sleep''" "flag_name (call_of (InitBlockNum [])) = ''num''"
    "flag_name (call_of (InitBlockHash [])) = ''hash''" "flag_name (call_of (InitTraverse [])) = ''traverse''"
    "flag_name (call_of (InitPrintFormat [])) = ''format''" "flag_name (call_of (InitWriter [])) = ''writer''"
    "flag_name (call_of (InitBase64 [])) = ''base64''"
    "flag_name (call_of (InitOrdererTLSCertificate [])) = ''cacert''"
    "flag_name (call_of (InitArgs [])) = ''args''" "flag_name (call_of (InitTxFile [])) = ''txfile''"
    "flag_name (call_of (InitTxID [])) = ''txid''" "flag_name (call_of (InitChaincodePolicy [])) = ''policy''"
    "flag_name (call_of (InitCollectionConfigFile [])) = ''collconfig''"
    "flag_name (call_of (InitTimeout [])) = ''timeout''"
    "flag_name (call_of (InitPrintPayloadOnly [])) = ''payload''"
    "flag_name (call_of (InitValidate [])) = ''validate''"
    "flag_name (call_of (InitConcurrency [])) = ''concurrency''"
    "flag_name (call_of (InitMaxAttempts [])) = ''attempts''"
    "flag_name (call_of (InitInitialBackoff [])) = ''backoff''"
    "flag_name (call_of (InitMaxBackoff [])) = ''maxbackoff''"
    "flag_name (call_of (InitBackoffFactor [])) = ''backofffactor''"
    "flag_name (call_of (InitVerbosity [])) = ''verbose''"
    "flag_name (call_of (InitSelectionProvider [])) = ''selectprovider''"
    "flag_name (call_of (InitGoPath [])) = ''gopath''"
    "flag_name (call_of (InitPeerURL [d, u])) = ''peer''"
  by (simp_all add: init_defs number_defaults
      LoggingLevelFlag_def ConfigFileFlag_def OrgIDsFlag_def ChannelIDFlag_def UserFlag_def PasswordFlag_def
      ChaincodeIDFlag_def ChaincodeEventFlag_def SeekTypeFlag_def ChaincodePathFlag_def
      ChaincodeVersionFlag_def PeerURLFlag_def OrdererFlag_def IterationsFlag_def SleepFlag_def
      BlockNumFlag_def BlockHashFlag_def TraverseFlag_def PrintFormatFlag_def WriterFlag_def Base64Flag_def
      CertificateFileFlag_def ArgsFlag_def TxFileFlag_def TxIDFlag_def ChaincodePolicyFlag_def
      CollectionConfigFileFlag_def TimeoutFlag_def PrintPayloadOnlyFlag_def ValidateFlag_def
      ConcurrencyFlag_def MaxAttemptsFlag_def InitialBackoffFlag_def MaxBackoffFlag_def BackoffFactorFlag_def
      VerboseFlag_def SelectionProviderFlag_def GoPathFlag_def)

lemma init_peer_usage: "no_usage (call_of (InitPeerURL [[], u])) = no_usage (call_of (InitPeerURL []))"
  by (simp add: init_defs defaultPeerURL_def)

lemma flag_calls_simps [simp]:
  "flag_calls [] = []"
  "plain_call f = Some c \<Longrightarrow> flag_calls (f # fs) = c # flag_calls fs"
  by (simp_all add: flag_calls_def)

lemmas command_flags_defs = commands_flags_def cli_flags_def invoke_flags_def instantiate_flags_def query_flags_def
  info_flags_def install_flags_def upgrade_flags_def chaincode_flags_def join_flags_def create_flags_def
  channel_flags_def listenfilteredblock_flags_def listenblock_flags_def listentx_flags_def listencc_flags_def
  querypeers_flags_def query_parent_flags_def querychannels_flags_def queryblock_flags_def queryinstalled_flags_def
  queryinfo_flags_def querytx_flags_def querylocalpeers_flags_def

text \<open>All commands declare their flags on the same options, so what one declares another must not spoil. No
  declaration prints or ends the process, no command declares a name twice, every option has one flag of its own,
  and every command declares it with the same name, type and default: whichever command runs, an option that is
  not given has the one default.\<close>

theorem commands_flags_agree:
  "list_all (\<lambda>c. length (flag_calls c) = length c) (all_flags # commands_flags)
    \<and> distinct (map flag_ptr (flag_calls all_flags)) \<and> distinct (map flag_name (flag_calls all_flags))
    \<and> list_all (\<lambda>c. distinct (map flag_name (flag_calls c))) commands_flags
    \<and> list_all (\<lambda>c. list_all (\<lambda>f. f \<in> set (map no_usage (flag_calls all_flags))) (map no_usage (flag_calls c))) commands_flags"
proof (intro conjI)
  show "distinct (map flag_ptr (flag_calls all_flags))" by (simp add: all_flags_def init_plain init_ptr)
  show "distinct (map flag_name (flag_calls all_flags))" by (simp add: all_flags_def init_plain init_name)
  show "list_all (\<lambda>c. length (flag_calls c) = length c) (all_flags # commands_flags)"
    by (simp add: all_flags_def command_flags_defs init_plain)
  show "list_all (\<lambda>c. distinct (map flag_name (flag_calls c))) commands_flags"
    by (simp add: command_flags_defs init_plain init_name)
  show "list_all (\<lambda>c. list_all (\<lambda>f. f \<in> set (map no_usage (flag_calls all_flags))) (map no_usage (flag_calls c))) commands_flags"
    by (simp add: all_flags_def command_flags_defs init_plain init_peer_usage)
qed

lemma comma_list_join:
  assumes "xs \<noteq> []" "\<forall>x \<in> set xs. CHR '','' \<notin> set x" "\<not> list_all is_space (hd xs)"
  shows "comma_list (join_with (CHR '','') xs) = xs"
proof -
  have "\<not> list_all is_space (join_with (CHR '','') xs)"
  proof (cases xs)
    case (Cons y ys)
    then show ?thesis using assms(3) by (cases ys) auto
  qed (use assms(1) in simp)
  then show ?thesis using assms(1,2) by (simp add: comma_list_def split_join)
qed

end
