(* ===== verification/Action.thy ===== *)
theory Action
  imports CliConfig CliTasks Certs
begin

text \<open>
  The base of every command of fabric-cli (fabric/fabric-cli/action/action.go, svcproviderfactory.go): choosing the peers,
  the users, the sessions and the clients made for them. The SDK, with the network it has been configured for, is a
  parameter. The configured organisations come in the order in which Go ranges over their map.
\<close>

section \<open>The network\<close>

record sdk_peer =
  sp_URL :: string
  sp_MSPID :: string

record identity =
  id_MSPID :: string
  id_ID :: string

record peer_config =
  pc_URL :: string

record network =
  nw_Organizations :: "(string \<times> string) list"
  nw_PeersConfig :: "string \<Rightarrow> peer_config list option"
  nw_OrderersConfig :: "string list"

text \<open>The calls of the SDK: building it and its anonymous context, the peer of a configuration, the MSP client of an
  organisation with \<open>Enroll\<close> and \<open>GetSigningIdentity\<close>, an orderer, and a client of some kind for a session.\<close>

datatype client_kind = ChannelClient_of string | EventClient_of string | LedgerClient_of string | ResMgmt

record ('o, 'c) action_sdk =
  as_New :: "goerr option"
  as_Context :: "goerr + network"
  as_CreatePeer :: "peer_config \<Rightarrow> goerr + sdk_peer"
  as_msp_New :: "string \<Rightarrow> goerr option"
  as_Enroll :: "string \<Rightarrow> string \<Rightarrow> string \<Rightarrow> goerr option"
  as_GetSigningIdentity :: "string \<Rightarrow> string \<Rightarrow> goerr + identity"
  as_NewOrderer :: "string \<Rightarrow> goerr + 'o"
  as_NewClient :: "client_kind \<Rightarrow> identity \<Rightarrow> goerr + 'c"

record cli_action =
  ac_network :: network
  ac_peersByOrg :: "string \<rightharpoonup> sdk_peer list"
  ac_peers :: "sdk_peer list"
  ac_orgIDByPeer :: "string \<rightharpoonup> string"
  ac_sessions :: "string \<rightharpoonup> identity"

section \<open>Initialize\<close>

fun containsString :: "string list \<Rightarrow> string \<Rightarrow> bool" where
  "containsString [] s = False"
| "containsString (str # sarr) s = (if s = str then True else containsString sarr s)"

lemma containsString_set [simp]: "containsString sarr s \<longleftrightarrow> s \<in> set sarr"
  by (induction sarr) auto

fun create_peers :: "('o, 'c) action_sdk \<Rightarrow> peer_config list \<Rightarrow> goerr + sdk_peer list" where
  "create_peers sdk [] = Inr []"
| "create_peers sdk (p # ps) =
     (case as_CreatePeer sdk p of
        Inl e \<Rightarrow> Inl (ErrWrap ''failed to create peer from config'' e)
      | Inr endorser \<Rightarrow> (case create_peers sdk ps of Inl e \<Rightarrow> Inl e | Inr peers \<Rightarrow> Inr (endorser # peers)))"

text \<open>A missing entry of a Go map of strings reads as the empty string.\<close>

definition org_at :: "(string \<rightharpoonup> string) \<Rightarrow> string \<Rightarrow> string" where
  "org_at m url = (case m url of None \<Rightarrow> [] | Some org \<Rightarrow> org)"

text \<open>The loop over the organisations.\<close>

fun load_orgs ::
    "('o, 'c) action_sdk \<Rightarrow> (string \<Rightarrow> peer_config list option) \<Rightarrow> (string \<times> string) list \<Rightarrow>
      (string \<rightharpoonup> string) \<times> sdk_peer list \<Rightarrow> goerr + (string \<rightharpoonup> string) \<times> sdk_peer list" where
  "load_orgs sdk peersConfig [] st = Inr st"
| "load_orgs sdk peersConfig ((orgID, msp) # orgs) (orgIDByPeer, allPeers) =
     (case peersConfig orgID of
        None \<Rightarrow> Inl (ErrNew (''failed to get peer configs for org ['' @ orgID @ '']''))
      | Some cfgs \<Rightarrow>
          (case create_peers sdk cfgs of
             Inl e \<Rightarrow> Inl e
           | Inr peers \<Rightarrow>
               load_orgs sdk peersConfig orgs
                 (fold (\<lambda>p m. m(sp_URL p \<mapsto> orgID)) peers orgIDByPeer, allPeers @ peers)))"

definition getPeers ::
    "(string \<rightharpoonup> string) \<Rightarrow> sdk_peer list \<Rightarrow> string list \<Rightarrow> string list \<Rightarrow> goerr + sdk_peer list" where
  "getPeers orgIDByPeer allPeers peerURLs orgIDs =
     (let selectAll = (peerURLs = [] \<and> orgIDs = []);
          allPeerURLs = map sp_URL allPeers;
          selectedPeers = filter (\<lambda>peer. selectAll \<or> containsString peerURLs (sp_URL peer) \<or>
            peerURLs = [] \<and> containsString orgIDs (org_at orgIDByPeer (sp_URL peer))) allPeers in
      case find (\<lambda>url. \<not> containsString allPeerURLs url) peerURLs of
        Some url \<Rightarrow> Inl (ErrNew (''invalid peer URL: '' @ url))
      | None \<Rightarrow> Inr selectedPeers)"

fun by_org ::
    "(string \<rightharpoonup> string) \<Rightarrow> sdk_peer list \<Rightarrow> (string \<rightharpoonup> sdk_peer list) \<Rightarrow> goerr + (string \<rightharpoonup> sdk_peer list)" where
  "by_org orgIDByPeer [] peersByOrg = Inr peersByOrg"
| "by_org orgIDByPeer (peer # peers) peersByOrg =
     (let orgID = org_at orgIDByPeer (sp_URL peer) in
      if orgID = [] then Inl (ErrNew (''unable to find org for peer: '' @ sp_URL peer))
      else by_org orgIDByPeer peers
        (peersByOrg(orgID \<mapsto> (case peersByOrg orgID of None \<Rightarrow> [] | Some ps \<Rightarrow> ps) @ [peer])))"

definition action_Initialize :: "('o, 'c) action_sdk \<Rightarrow> cli_options \<Rightarrow> goerr + cli_action" where
  "action_Initialize sdk opts =
     (case as_New sdk of
        Some e \<Rightarrow> Inl (ErrNew (''Error initializing SDK: '' @ err_text e))
      | None \<Rightarrow>
     (case as_Context sdk of
        Inl e \<Rightarrow> Inl (ErrWrap ''Error creating anonymous provider'' e)
      | Inr nw \<Rightarrow>
     (case load_orgs sdk (nw_PeersConfig nw) (nw_Organizations nw) (Map.empty, []) of
        Inl e \<Rightarrow> Inl e
      | Inr (orgIDByPeer, allPeers) \<Rightarrow>
     (case getPeers orgIDByPeer allPeers (PeerURLs opts) (OrgIDs opts) of
        Inl e \<Rightarrow> Inl e
      | Inr peers \<Rightarrow>
     (case by_org orgIDByPeer peers Map.empty of
        Inl e \<Rightarrow> Inl e
      | Inr peersByOrg \<Rightarrow>
          Inr \<lparr> ac_network = nw, ac_peersByOrg = peersByOrg, ac_peers = peers, ac_orgIDByPeer = orgIDByPeer,
            ac_sessions = Map.empty \<rparr>)))))"

datatype logging_level = CRITICAL | ERROR | WARNING | INFO | DEBUG

definition levelFromName :: "string \<Rightarrow> logging_level" where
  "levelFromName levelName =
     (if levelName = ''CRITICAL'' then CRITICAL
      else if levelName = ''ERROR'' then ERROR
      else if levelName = ''WARNING'' then WARNING
      else if levelName = ''INFO'' then INFO
      else if levelName = ''DEBUG'' then DEBUG
      else ERROR)"

section \<open>Peers and organisations\<close>

text \<open>\<open>Peer\<close> is nil without peers.\<close>

definition action_Peer :: "cli_action \<Rightarrow> sdk_peer option" where
  "action_Peer a = (if ac_peers a = [] then None else Some (ac_peers a ! 0))"

definition OrgOfPeer :: "cli_action \<Rightarrow> string \<Rightarrow> goerr + string" where
  "OrgOfPeer a peerURL =
     (case ac_orgIDByPeer a peerURL of
        None \<Rightarrow> Inl (ErrNew (''org not found for peer '' @ peerURL))
      | Some orgID \<Rightarrow> Inr orgID)"

definition action_OrgID :: "cli_action \<Rightarrow> string outcome" where
  "action_OrgID a =
     (if ac_peers a = [] then Panic ''no peers to choose from!''
      else case OrgOfPeer a (sp_URL (ac_peers a ! 0)) of Inl e \<Rightarrow> Panic (err_text e) | Inr orgID \<Rightarrow> Ok orgID)"

definition GetOrgID :: "cli_action \<Rightarrow> string \<Rightarrow> goerr + string" where
  "GetOrgID a mspID =
     (case find (\<lambda>(orgID, msp). mspID = msp) (nw_Organizations (ac_network a)) of
        Some (orgID, msp) \<Rightarrow> Inr orgID
      | None \<Rightarrow> Inl (ErrNew (''unable to find org ID for MSP ['' @ mspID @ '']'')))"

definition PeerFromURL :: "cli_action \<Rightarrow> string \<Rightarrow> sdk_peer option" where
  "PeerFromURL a url = find (\<lambda>peer. url = sp_URL peer) (ac_peers a)"

text \<open>\<open>errors.Errorf\<close> has a verb too many here, and \<open>Peer\<close> is not nil when \<open>OrgID\<close> has returned.\<close>

definition action_PeerConfig :: "cli_action \<Rightarrow> peer_config outcome" where
  "action_PeerConfig a =
     bind_outcome (action_OrgID a) (\<lambda>orgID.
     case nw_PeersConfig (ac_network a) orgID of
       None \<Rightarrow> Err (ErrNew (''Error reading peers config for '' @ orgID @ '': %!v(MISSING)''))
     | Some peersConfig \<Rightarrow>
         let peer = ac_peers a ! 0 in
         (case find (\<lambda>p. sp_URL peer = [] \<or> pc_URL p = sp_URL peer) peersConfig of
            Some p \<Rightarrow> Ok p
          | None \<Rightarrow> Err (ErrNew (''No configuration found for peer '' @ sp_URL peer))))"

section \<open>Users and sessions\<close>

definition OrgUser :: "('o, 'c) action_sdk \<Rightarrow> string \<Rightarrow> string \<Rightarrow> goerr + identity" where
  "OrgUser sdk orgID username =
     (if username = [] then Inl (ErrNew ''no username specified'')
      else case as_msp_New sdk orgID of
        Some e \<Rightarrow> Inl (ErrNew (''error creating MSP client: '' @ err_text e))
      | None \<Rightarrow>
          (case as_GetSigningIdentity sdk orgID username of
             Inl e \<Rightarrow> Inl (ErrNew (''GetSigningIdentity returned error: '' @ err_text e))
           | Inr user \<Rightarrow> Inr user))"

definition newUser :: "('o, 'c) action_sdk \<Rightarrow> string \<Rightarrow> string \<Rightarrow> string \<Rightarrow> goerr + identity" where
  "newUser sdk orgID username pwd =
     (case as_msp_New sdk orgID of
        Some e \<Rightarrow> Inl (ErrNew (''error creating MSP client: '' @ err_text e))
      | None \<Rightarrow>
          (case as_Enroll sdk orgID username pwd of
             Some e \<Rightarrow> Inl (ErrNew (''Enroll returned error: '' @ err_text e))
           | None \<Rightarrow>
               (case as_GetSigningIdentity sdk orgID username of
                  Inl e \<Rightarrow> Inl (ErrNew (''GetSigningIdentity returned error: '' @ err_text e))
                | Inr user \<Rightarrow> Inr user)))"

definition action_defaultUser :: string where "action_defaultUser = ''User1''"
definition adminUser :: string where "adminUser = ''Admin''"

definition action_User :: "('o, 'c) action_sdk \<Rightarrow> cli_options \<Rightarrow> cli_action \<Rightarrow> identity outcome" where
  "action_User sdk opts a =
     (let userName = (if co_user opts = [] then action_defaultUser else co_user opts) in
      bind_outcome (action_OrgID a) (\<lambda>orgID. of_result id (OrgUser sdk orgID userName)))"

definition OrgAdminUser :: "('o, 'c) action_sdk \<Rightarrow> cli_options \<Rightarrow> string \<Rightarrow> goerr + identity" where
  "OrgAdminUser sdk opts orgID =
     (let userName = (if co_user opts = [] then adminUser else co_user opts) in OrgUser sdk orgID userName)"

definition session_key :: "identity \<Rightarrow> string" where
  "session_key user = id_MSPID user @ ''_'' @ id_ID user"

text \<open>\<open>context\<close>: a session is the SDK's context for the identity it was made with.\<close>

definition action_context :: "identity \<Rightarrow> cli_action \<Rightarrow> identity \<times> cli_action" where
  "action_context user a =
     (let key = session_key user in
      case ac_sessions a key of
        Some session \<Rightarrow> (session, a)
      | None \<Rightarrow> (user, a\<lparr>ac_sessions := (ac_sessions a)(key \<mapsto> user)\<rparr>))"

section \<open>Clients\<close>

text \<open>The client of a user: the session of \<open>context\<close>, then the SDK's client on it. \<open>context\<close> has no error to return.\<close>

definition client_for ::
    "('o, 'c) action_sdk \<Rightarrow> (goerr \<Rightarrow> goerr) \<Rightarrow> client_kind \<Rightarrow> identity \<Rightarrow> cli_action \<Rightarrow> 'c outcome \<times> cli_action" where
  "client_for sdk wrap kind user a =
     (case action_context user a of (session, a) \<Rightarrow> (of_result wrap (as_NewClient sdk kind session), a))"

definition user_text :: "identity \<Rightarrow> string" where
  "user_text user = ''['' @ id_MSPID user @ '','' @ id_ID user @ '']''"

definition err_for :: "string \<Rightarrow> goerr \<Rightarrow> goerr" where
  "err_for t e = ErrNew (t @ '': '' @ err_text e)"

definition ChannelClient ::
    "('o, 'c) action_sdk \<Rightarrow> cli_options \<Rightarrow> cli_action \<Rightarrow> 'c outcome \<times> cli_action" where
  "ChannelClient sdk opts a =
     (case action_User sdk opts a of
        Panic p \<Rightarrow> (Panic p, a)
      | Err e \<Rightarrow> (Err (err_for ''error getting user'' e), a)
      | Ok user \<Rightarrow> client_for sdk id (ChannelClient_of (co_channelID opts)) user a)"

definition ClientForUser ::
    "('o, 'c) action_sdk \<Rightarrow> string \<Rightarrow> identity \<Rightarrow> cli_action \<Rightarrow> 'c outcome \<times> cli_action" where
  "ClientForUser sdk channelID user a =
     client_for sdk (err_for (''error creating new resmgmt client for user '' @ user_text user))
       (ChannelClient_of channelID) user a"

definition action_Client ::
    "('o, 'c) action_sdk \<Rightarrow> cli_options \<Rightarrow> string \<Rightarrow> cli_action \<Rightarrow> 'c outcome \<times> cli_action" where
  "action_Client sdk opts channelID a =
     (case action_User sdk opts a of
        Panic p \<Rightarrow> (Panic p, a)
      | Err e \<Rightarrow> (Err e, a)
      | Ok user \<Rightarrow> ClientForUser sdk channelID user a)"

definition OrgAdminChannelClient ::
    "('o, 'c) action_sdk \<Rightarrow> cli_options \<Rightarrow> string \<Rightarrow> cli_action \<Rightarrow> 'c outcome \<times> cli_action" where
  "OrgAdminChannelClient sdk opts orgID a =
     (case OrgAdminUser sdk opts orgID of
        Inl e \<Rightarrow> (Err e, a)
      | Inr user \<Rightarrow>
          (case ClientForUser sdk (co_channelID opts) user a of
             (Err e, a) \<Rightarrow> (Err (err_for ''error creating fabric client'' e), a)
           | r \<Rightarrow> r))"

definition AdminChannelClient ::
    "('o, 'c) action_sdk \<Rightarrow> cli_options \<Rightarrow> cli_action \<Rightarrow> 'c outcome \<times> cli_action" where
  "AdminChannelClient sdk opts a =
     (case action_OrgID a of
        Panic p \<Rightarrow> (Panic p, a)
      | Err e \<Rightarrow> (Err e, a)
      | Ok orgID \<Rightarrow> OrgAdminChannelClient sdk opts orgID a)"

text \<open>\<open>ChannelProvider\<close> with the client made on it: its errors carry a text of the caller.\<close>

definition provider_client ::
    "('o, 'c) action_sdk \<Rightarrow> cli_options \<Rightarrow> string \<Rightarrow> (string \<Rightarrow> client_kind) \<Rightarrow> cli_action \<Rightarrow> 'c outcome \<times> cli_action" where
  "provider_client sdk opts name kind a =
     (case action_User sdk opts a of
        Panic p \<Rightarrow> (Panic p, a)
      | Err e \<Rightarrow> (Err (err_for ''error creating channel provider'' e), a)
      | Ok user \<Rightarrow>
          client_for sdk (err_for (''error creating new '' @ name @ '' client'')) (kind (co_channelID opts)) user a)"

definition action_EventClient ::
    "('o, 'c) action_sdk \<Rightarrow> cli_options \<Rightarrow> cli_action \<Rightarrow> 'c outcome \<times> cli_action" where
  "action_EventClient sdk opts = provider_client sdk opts ''event'' EventClient_of"

definition LedgerClient ::
    "('o, 'c) action_sdk \<Rightarrow> cli_options \<Rightarrow> cli_action \<Rightarrow> 'c outcome \<times> cli_action" where
  "LedgerClient sdk opts = provider_client sdk opts ''ledger'' LedgerClient_of"

definition ResourceMgmtClientForUser ::
    "('o, 'c) action_sdk \<Rightarrow> identity \<Rightarrow> cli_action \<Rightarrow> 'c outcome \<times> cli_action" where
  "ResourceMgmtClientForUser sdk user a =
     client_for sdk (err_for (''error creating new resmgmt client for user '' @ user_text user)) ResMgmt user a"

definition ResourceMgmtClientForOrg ::
    "('o, 'c) action_sdk \<Rightarrow> cli_options \<Rightarrow> string \<Rightarrow> cli_action \<Rightarrow> 'c outcome \<times> cli_action" where
  "ResourceMgmtClientForOrg sdk opts orgID a =
     (case OrgAdminUser sdk opts orgID of
        Inl e \<Rightarrow> (Err e, a)
      | Inr user \<Rightarrow> ResourceMgmtClientForUser sdk user a)"

definition ResourceMgmtClient ::
    "('o, 'c) action_sdk \<Rightarrow> cli_options \<Rightarrow> cli_action \<Rightarrow> 'c outcome \<times> cli_action" where
  "ResourceMgmtClient sdk opts a =
     (case action_OrgID a of
        Panic p \<Rightarrow> (Panic p, a)
      | Err e \<Rightarrow> (Err e, a)
      | Ok orgID \<Rightarrow> ResourceMgmtClientForOrg sdk opts orgID a)"

definition ChannelMgmtClientForUser ::
    "('o, 'c) action_sdk \<Rightarrow> string \<Rightarrow> identity \<Rightarrow> cli_action \<Rightarrow> 'c outcome \<times> cli_action" where
  "ChannelMgmtClientForUser sdk channelID user a =
     client_for sdk (err_for (''error creating new channel client for user '' @ user_text user))
       (ChannelClient_of channelID) user a"

section \<open>Orderers and arguments\<close>

fun action_Orderers_loop :: "('o, 'c) action_sdk \<Rightarrow> string \<Rightarrow> string list \<Rightarrow> goerr + 'o list" where
  "action_Orderers_loop sdk ordererURL [] = Inr []"
| "action_Orderers_loop sdk ordererURL (url # urls) =
     (if ordererURL = [] \<or> url = ordererURL then
        (case as_NewOrderer sdk url of
           Inl e \<Rightarrow> Inl (ErrWrap ''creating orderer failed'' e)
         | Inr newOrderer \<Rightarrow>
             (case action_Orderers_loop sdk ordererURL urls of
                Inl e \<Rightarrow> Inl e
              | Inr orderers \<Rightarrow> Inr (newOrderer # orderers)))
      else action_Orderers_loop sdk ordererURL urls)"

definition Orderers :: "('o, 'c) action_sdk \<Rightarrow> cli_options \<Rightarrow> cli_action \<Rightarrow> goerr + 'o list" where
  "Orderers sdk opts a = action_Orderers_loop sdk (co_ordererURL opts) (nw_OrderersConfig (ac_network a))"

text \<open>\<open>rand n\<close> is \<open>rand.Intn(n)\<close>, below \<open>n\<close>.\<close>

definition RandomOrderer ::
    "('o, 'c) action_sdk \<Rightarrow> cli_options \<Rightarrow> (nat \<Rightarrow> nat) \<Rightarrow> cli_action \<Rightarrow> goerr + 'o" where
  "RandomOrderer sdk opts rand a =
     (case Orderers sdk opts a of
        Inl e \<Rightarrow> Inl e
      | Inr orderers \<Rightarrow>
          if orderers = [] then Inl (ErrNew ''No orders found'') else Inr (orderers ! rand (length orderers)))"

text \<open>\<open>read_list\<close> and \<open>read_one\<close> are \<open>json.Unmarshal\<close> into a list and into one argument.\<close>

definition ArgsArray ::
    "(string \<Rightarrow> goerr + arg_struct list) \<Rightarrow> (string \<Rightarrow> goerr + arg_struct) \<Rightarrow> cli_options \<Rightarrow> goerr + arg_struct list" where
  "ArgsArray read_list read_one opts =
     (if starts_with (co_args opts) ''['' then
        (case read_list (co_args opts) of
           Inl e \<Rightarrow> Inl (ErrNew (''Error unmarshaling JSON arg string: '' @ err_text e))
         | Inr argsArray \<Rightarrow> Inr argsArray)
      else
        (case read_one (co_args opts) of
           Inl e \<Rightarrow> Inl (ErrNew (''Error unmarshaling JSON arg string: '' @ err_text e))
         | Inr args \<Rightarrow> Inr [args]))"

section \<open>What \<open>Initialize\<close> selects\<close>

lemma by_org_groups:
  assumes "by_org m ps acc = Inr r"
  shows "(\<forall>p \<in> set ps. org_at m (sp_URL p) \<noteq> []) \<and>
    (\<forall>org. r org = (case filter (\<lambda>p. org_at m (sp_URL p) = org) ps of
        [] \<Rightarrow> acc org
      | q # qs \<Rightarrow> Some ((case acc org of None \<Rightarrow> [] | Some l \<Rightarrow> l) @ q # qs)))"
  using assms
proof (induction ps arbitrary: acc)
  case (Cons p ps)
  let ?org = "org_at m (sp_URL p)"
  let ?acc = "acc(?org \<mapsto> (case acc ?org of None \<Rightarrow> [] | Some l \<Rightarrow> l) @ [p])"
  have step: "?org \<noteq> []" "by_org m ps ?acc = Inr r" using Cons.prems by (simp_all add: Let_def split: if_splits)
  note IH = Cons.IH [OF step(2)]
  have "r org = (case filter (\<lambda>p. org_at m (sp_URL p) = org) (p # ps) of
        [] \<Rightarrow> acc org
      | q # qs \<Rightarrow> Some ((case acc org of None \<Rightarrow> [] | Some l \<Rightarrow> l) @ q # qs))" for org
    using IH [THEN conjunct2, rule_format, of org]
    by (cases "org = ?org") (auto split: list.splits)
  then show ?case using step(1) IH by simp
qed simp

lemma find_None_subset: "find (\<lambda>x. x \<notin> S) xs = None \<longleftrightarrow> set xs \<subseteq> S"
  by (induction xs) auto

lemma Initialize_parts:
  assumes "action_Initialize sdk opts = Inr a"
  shows "\<exists>allPeers. load_orgs sdk (nw_PeersConfig (ac_network a)) (nw_Organizations (ac_network a)) (Map.empty, []) =
        Inr (ac_orgIDByPeer a, allPeers)
    \<and> getPeers (ac_orgIDByPeer a) allPeers (PeerURLs opts) (OrgIDs opts) = Inr (ac_peers a)
    \<and> by_org (ac_orgIDByPeer a) (ac_peers a) Map.empty = Inr (ac_peersByOrg a)"
  using assms by (auto simp: action_Initialize_def split: option.splits sum.splits)

lemma getPeers_selects:
  assumes "getPeers m allPeers urls orgs = Inr peers"
  shows "set urls \<subseteq> sp_URL ` set allPeers"
    "peers = filter (\<lambda>p. if urls \<noteq> [] then sp_URL p \<in> set urls else orgs = [] \<or> org_at m (sp_URL p) \<in> set orgs) allPeers"
  using assms by (auto simp: getPeers_def find_None_subset split: option.splits intro: filter_cong)

lemma grouped_OrgID:
  assumes "by_org (ac_orgIDByPeer a) (ac_peers a) Map.empty = Inr (ac_peersByOrg a)"
  shows "action_OrgID a = (case ac_peers a of
      [] \<Rightarrow> Panic ''no peers to choose from!''
    | p # ps \<Rightarrow> Ok (org_at (ac_orgIDByPeer a) (sp_URL p)))"
  using by_org_groups [OF assms, THEN conjunct1]
  by (cases "ac_peers a") (auto simp: action_OrgID_def OrgOfPeer_def org_at_def split: option.splits)


section \<open>Whose session\<close>

text \<open>The sessions of an action were each made for a user with the key they are kept under.\<close>

definition sessions_ok :: "cli_action \<Rightarrow> bool" where
  "sessions_ok a \<longleftrightarrow> (\<forall>k u. ac_sessions a k = Some u \<longrightarrow> session_key u = k)"

lemma context_keeps:
  "sessions_ok a \<Longrightarrow> sessions_ok (snd (action_context user a))"
  "sessions_ok a \<Longrightarrow> session_key (fst (action_context user a)) = session_key user"
  by (auto simp: sessions_ok_def action_context_def Let_def split: option.splits)

lemma key_unambiguous:
  assumes "session_key u = session_key v" "CHR ''_'' \<notin> set (id_MSPID u)" "CHR ''_'' \<notin> set (id_MSPID v)"
  shows "u = v"
proof -
  have "split_on (CHR ''_'') (id_MSPID w @ CHR ''_'' # id_ID w) = id_MSPID w # split_on (CHR ''_'') (id_ID w)"
    if "CHR ''_'' \<notin> set (id_MSPID w)" for w :: identity
    using that by (rule split_on_append)
  then have "id_MSPID u = id_MSPID v" using assms by (metis append_Cons append_Nil list.inject session_key_def)
  then show ?thesis using assms(1) by (simp add: session_key_def identity.equality)
qed

text \<open>The users for whom a run of a command asks for sessions, one after the other.\<close>

definition sessions_for :: "identity list \<Rightarrow> cli_action \<Rightarrow> cli_action" where
  "sessions_for users a = fold (\<lambda>u a. snd (action_context u a)) users a"

text \<open>C37: a session is the user's own, whatever sessions were asked for before, when no MSP of the network has an underscore
  in its name. With one it need not be: the user \<open>c\<close> of the MSP \<open>a_b\<close> is given the session of the user \<open>b_c\<close> of
  the MSP \<open>a\<close>.\<close>

theorem session_is_own:
  assumes "ac_sessions a = Map.empty" "\<forall>u \<in> set (user # users). CHR ''_'' \<notin> set (id_MSPID u)"
  shows "fst (action_context user (sessions_for users a)) = user
    \<and> fst (action_context \<lparr> id_MSPID = ''a_b'', id_ID = ''c'' \<rparr> (sessions_for [\<lparr> id_MSPID = ''a'', id_ID = ''b_c'' \<rparr>] a)) =
      \<lparr> id_MSPID = ''a'', id_ID = ''b_c'' \<rparr>"
proof -
  have "(\<forall>k u. ac_sessions (sessions_for users a) k = Some u \<longrightarrow> session_key u = k \<and> u \<in> set users)"
    using assms(1)
  proof (induction users rule: rev_induct)
    case (snoc v vs)
    then show ?case
      by (auto simp: sessions_for_def action_context_def Let_def split: option.splits if_splits)
  qed (simp add: sessions_for_def)
  then have "fst (action_context user (sessions_for users a)) = user"
    using key_unambiguous assms(2) by (auto simp: action_context_def Let_def split: option.splits)
  moreover have "fst (action_context \<lparr> id_MSPID = ''a_b'', id_ID = ''c'' \<rparr> (sessions_for [\<lparr> id_MSPID = ''a'', id_ID = ''b_c'' \<rparr>] a)) =
      \<lparr> id_MSPID = ''a'', id_ID = ''b_c'' \<rparr>"
    using assms(1) by (simp add: sessions_for_def action_context_def session_key_def)
  ultimately show ?thesis by blast
qed

definition demo_peer :: "string \<Rightarrow> sdk_peer" where
  "demo_peer url = \<lparr> sp_URL = url, sp_MSPID = ''M'' \<rparr>"

definition demo_network :: network where
  "demo_network = \<lparr> nw_Organizations = [(''org1'', ''Org1MSP''), (''org2'', ''Org2MSP'')],
     nw_PeersConfig = [''org1'' \<mapsto> [\<lparr> pc_URL = ''p0'' \<rparr>, \<lparr> pc_URL = ''p1'' \<rparr>], ''org2'' \<mapsto> [\<lparr> pc_URL = ''p2'' \<rparr>]],
     nw_OrderersConfig = [''o1''] \<rparr>"

definition demo_action_sdk :: "(string, client_kind \<times> identity) action_sdk" where
  "demo_action_sdk = \<lparr> as_New = None, as_Context = Inr demo_network, as_CreatePeer = \<lambda>c. Inr (demo_peer (pc_URL c)),
     as_msp_New = \<lambda>_. None, as_Enroll = \<lambda>_ _ _. None,
     as_GetSigningIdentity = \<lambda>org name. Inr \<lparr> id_MSPID = org, id_ID = name \<rparr>, as_NewOrderer = Inr,
     as_NewClient = \<lambda>kind session. Inr (kind, session) \<rparr>"

lemma demo_load_orgs:
  "load_orgs demo_action_sdk (nw_PeersConfig demo_network) (nw_Organizations demo_network) (Map.empty, []) =
    Inr ([''p0'' \<mapsto> ''org1'', ''p1'' \<mapsto> ''org1'', ''p2'' \<mapsto> ''org2''], [demo_peer ''p0'', demo_peer ''p1'', demo_peer ''p2''])"
  by (simp add: demo_network_def demo_action_sdk_def demo_peer_def)


lemma session_is_own_witness:
  "fst (action_context \<lparr> id_MSPID = ''m'', id_ID = ''u'' \<rparr>
     (sessions_for [\<lparr> id_MSPID = ''m'', id_ID = ''v'' \<rparr>]
       \<lparr> ac_network = demo_network, ac_peersByOrg = Map.empty, ac_peers = [], ac_orgIDByPeer = Map.empty,
         ac_sessions = Map.empty \<rparr>)) = \<lparr> id_MSPID = ''m'', id_ID = ''u'' \<rparr>"
  by (rule session_is_own [THEN conjunct1]) simp_all

end
