(* ===== verification/CliCommands.thy ===== *)
theory CliCommands
  imports Action Executor
begin

text \<open>
  The commands of fabric-cli that change something, over the base of Action.thy: installing, instantiating and upgrading
  a chaincode (fabric/fabric-cli/chaincode), joining and creating a channel (fabric/fabric-cli/channel); the selection
  service of a channel (action/svcproviderfactory.go). What the SDK and its packager do is a parameter over a world; a
  command returns the text it prints, how it ends and the world.
\<close>

section \<open>Running a command\<close>

text \<open>What a command prints, and how its \<open>Run\<close> ends: with the help text, with a logged error, or without. Cobra is told none
  of it.\<close>

datatype cmd_end = CmdHelp | CmdFailed string goerr | CmdDone | CmdPanic string

definition text_line :: "string \<Rightarrow> string" where
  "text_line t = t @ [CHR 0x0A]"

definition run_command ::
    "string \<Rightarrow> (string \<times> string) list \<Rightarrow> goerr + 'a \<Rightarrow> ('a \<Rightarrow> 'w \<Rightarrow> (string \<times> unit outcome) \<times> 'w) \<Rightarrow> 'w \<Rightarrow>
      (string \<times> cmd_end) \<times> 'w" where
  "run_command name required init invoke w =
     (case find (\<lambda>(value, what). value = []) required of
        Some (_, what) \<Rightarrow> ((text_line [] @ text_line (text_line (''Must specify the '' @ what)), CmdHelp), w)
      | None \<Rightarrow>
          (case init of
             Inl e \<Rightarrow> (([], CmdFailed (''Error while initializing '' @ name) e), w)
           | Inr action \<Rightarrow>
               (case invoke action w of
                  ((t, Ok _), w) \<Rightarrow> ((t, CmdDone), w)
                | ((t, Err e), w) \<Rightarrow> ((t, CmdFailed (''Error while running '' @ name) e), w)
                | ((t, Panic p), w) \<Rightarrow> ((t, CmdPanic p), w))))"

text \<open>The exit status: cobra's \<open>Execute\<close> returns no error from a \<open>Run\<close>, a panic ends a Go program with 2.\<close>

fun exit_status :: "cmd_end \<Rightarrow> nat" where
  "exit_status (CmdPanic p) = 2"
| "exit_status _ = 0"

text \<open>The constructors that insist on a peer: \<open>Peers\<close> is empty after a failed \<open>Initialize\<close> too.\<close>

definition with_peer :: "goerr + cli_action \<Rightarrow> goerr + cli_action" where
  "with_peer init =
     (case init of
        Inl e \<Rightarrow> Inl (ErrNew ''a peer must be specified'')
      | Inr a \<Rightarrow> if ac_peers a = [] then Inl (ErrNew ''a peer must be specified'') else Inr a)"

definition newChannelJoinAction :: "('o, 'c) action_sdk \<Rightarrow> cli_options \<Rightarrow> goerr + cli_action" where
  "newChannelJoinAction sdk opts =
     (case action_Initialize sdk opts of
        Inl e \<Rightarrow> Inl e
      | Inr a \<Rightarrow>
          if ac_peers a = [] then Inl (ErrNew ''at least one peer is required for join'') else Inr a)"

section \<open>Deploying a chaincode\<close>

record 'p collection_entry =
  clc_Name :: string
  clc_MemberOrgsPolicy :: 'p
  clc_RequiredPeerCount :: "32 word"
  clc_MaximumPeerCount :: "32 word"

record coll_json =
  cj_Name :: string
  cj_Policy :: string
  cj_RequiredPeerCount :: "32 word"
  cj_MaxPeerCount :: "32 word"

record 'p deploy_request =
  dr_Name :: string
  dr_Path :: string
  dr_Version :: string
  dr_Args :: "bytes list"
  dr_Policy :: 'p
  dr_CollConfig :: "'p collection_entry list"

text \<open>\<open>cauthdsl\<close>, files and their JSON, the argument evaluator of CliArgs.thy, and the two calls of the resource manager.\<close>

record ('p, 'c, 'w) deploy_lib =
  dl_FromString :: "string \<Rightarrow> goerr + 'p"
  dl_AcceptAllPolicy :: 'p
  dl_SignedByAnyMember :: "string list \<Rightarrow> 'p"
  dl_ReadFile :: "string \<Rightarrow> goerr + bytes"
  dl_read_colls :: "bytes \<Rightarrow> goerr + coll_json list"
  dl_read_args :: "string \<Rightarrow> goerr + arg_struct"
  dl_AsBytes :: "string list \<Rightarrow> bytes list outcome"
  dl_InstantiateCC :: "'c \<Rightarrow> string \<Rightarrow> 'p deploy_request \<Rightarrow> sdk_peer list \<Rightarrow> 'w \<Rightarrow> goerr option \<times> 'w"
  dl_UpgradeCC :: "'c \<Rightarrow> string \<Rightarrow> 'p deploy_request \<Rightarrow> sdk_peer list \<Rightarrow> 'w \<Rightarrow> goerr option \<times> 'w"

definition newChaincodePolicy :: "('p, 'c, 'w) deploy_lib \<Rightarrow> string \<Rightarrow> goerr + 'p" where
  "newChaincodePolicy lib policyString =
     (case dl_FromString lib policyString of
        Inl e \<Rightarrow> Inl (ErrNew (''invalid chaincode policy ['' @ policyString @ '']: '' @ err_text e))
      | Inr ccPolicy \<Rightarrow> Inr ccPolicy)"

definition instantiate_policy :: "('p, 'c, 'w) deploy_lib \<Rightarrow> cli_options \<Rightarrow> goerr + 'p" where
  "instantiate_policy lib opts =
     (if co_chaincodePolicy opts \<noteq> [] then newChaincodePolicy lib (co_chaincodePolicy opts)
      else Inr (dl_AcceptAllPolicy lib))"

fun msp_ids :: "(string \<times> string) list \<Rightarrow> string list \<Rightarrow> goerr + string list" where
  "msp_ids orgs [] = Inr []"
| "msp_ids orgs (orgID # orgIDs) =
     (case map_of orgs orgID of
        None \<Rightarrow> Inl (ErrNew (''Unable to get the MSP ID from org ID '' @ orgID))
      | Some msp \<Rightarrow> (case msp_ids orgs orgIDs of Inl e \<Rightarrow> Inl e | Inr mspIDs \<Rightarrow> Inr (msp # mspIDs)))"

definition upgrade_policy :: "('p, 'c, 'w) deploy_lib \<Rightarrow> cli_options \<Rightarrow> cli_action \<Rightarrow> goerr + 'p" where
  "upgrade_policy lib opts a =
     (if co_chaincodePolicy opts \<noteq> [] then newChaincodePolicy lib (co_chaincodePolicy opts)
      else case msp_ids (nw_Organizations (ac_network a)) (OrgIDs opts) of
        Inl e \<Rightarrow> Inl e
      | Inr mspIDs \<Rightarrow> Inr (dl_SignedByAnyMember lib mspIDs))"

fun getCollectionConfig :: "('p, 'c, 'w) deploy_lib \<Rightarrow> coll_json list \<Rightarrow> goerr + 'p collection_entry list" where
  "getCollectionConfig lib [] = Inr []"
| "getCollectionConfig lib (item # cconf) =
     (case dl_FromString lib (cj_Policy item) of
        Inl e \<Rightarrow> Inl (ErrWrap (''invalid policy '' @ cj_Policy item) e)
      | Inr p \<Rightarrow>
          (case getCollectionConfig lib cconf of
             Inl e \<Rightarrow> Inl e
           | Inr ccarray \<Rightarrow>
               Inr (\<lparr> clc_Name = cj_Name item, clc_MemberOrgsPolicy = p, clc_RequiredPeerCount = cj_RequiredPeerCount item,
                 clc_MaximumPeerCount = cj_MaxPeerCount item \<rparr> # ccarray)))"

definition getCollectionConfigFromFile :: "('p, 'c, 'w) deploy_lib \<Rightarrow> string \<Rightarrow> goerr + 'p collection_entry list" where
  "getCollectionConfigFromFile lib ccFile =
     (case dl_ReadFile lib ccFile of
        Inl e \<Rightarrow> Inl (ErrWrap (''could not read file ['' @ ccFile @ '']'') e)
      | Inr fileBytes \<Rightarrow>
          (case dl_read_colls lib fileBytes of
             Inl e \<Rightarrow> Inl (ErrWrap (''error parsing collection configuration in file ['' @ ccFile @ '']'') e)
           | Inr cconf \<Rightarrow> getCollectionConfig lib cconf))"

definition deploy_collections :: "('p, 'c, 'w) deploy_lib \<Rightarrow> cli_options \<Rightarrow> goerr + 'p collection_entry list" where
  "deploy_collections lib opts =
     (if co_collectionConfigFile opts = [] then Inr []
      else case getCollectionConfigFromFile lib (co_collectionConfigFile opts) of
        Inl e \<Rightarrow> Inl (ErrWrap (''error getting private data collection configuration from file ['' @
          co_collectionConfigFile opts @ '']'') e)
      | Inr colls \<Rightarrow> Inr colls)"

text \<open>What \<open>invoke\<close> of both actions does up to the request.\<close>

definition deploy_prepare ::
    "('p, 'c, 'w) deploy_lib \<Rightarrow> ('o, 'c) action_sdk \<Rightarrow> cli_options \<Rightarrow> (cli_action \<Rightarrow> goerr + 'p) \<Rightarrow> cli_action \<Rightarrow>
      ('c \<times> 'p deploy_request) outcome" where
  "deploy_prepare lib sdk opts policy a =
     bind_outcome (of_result (err_for ''Error unmarshalling JSON arg string'') (dl_read_args lib (co_args opts))) (\<lambda>args.
     case ResourceMgmtClient sdk opts a of (r, a) \<Rightarrow>
     bind_outcome r (\<lambda>client.
     bind_outcome (of_result id (policy a)) (\<lambda>chaincodePolicy.
     bind_outcome (of_result id (deploy_collections lib opts)) (\<lambda>collConfig.
     bind_outcome (dl_AsBytes lib (as_Args args)) (\<lambda>bs.
     Ok (client, \<lparr> dr_Name = co_chaincodeID opts, dr_Path = co_chaincodePath opts, dr_Version = co_chaincodeVersion opts,
       dr_Args = bs, dr_Policy = chaincodePolicy, dr_CollConfig = collConfig \<rparr>))))))"

text \<open>What it does with the answer: both take the error that the chaincode exists for a success.\<close>

definition deployed :: "cli_options \<Rightarrow> string \<Rightarrow> goerr option \<Rightarrow> string \<times> unit outcome" where
  "deployed opts done r =
     (case r of
        Some e \<Rightarrow>
          if contains (err_text e) (''chaincode exists '' @ co_chaincodeID opts)
          then (text_line (''...chaincode '' @ co_chaincodeID opts @ '' already instantiated.''), Ok ())
          else ([], Err (ErrNew (''error instantiating chaincode: '' @ err_text e)))
      | None \<Rightarrow>
          (text_line (''...successfuly '' @ done @ '' chaincode '' @ co_chaincodeID opts @ '' on channel '' @
             co_channelID opts @ ''.''), Ok ()))"

definition instantiate_invoke ::
    "('p, 'c, 'w) deploy_lib \<Rightarrow> ('o, 'c) action_sdk \<Rightarrow> cli_options \<Rightarrow> cli_action \<Rightarrow> 'w \<Rightarrow>
      (string \<times> unit outcome) \<times> 'w" where
  "instantiate_invoke lib sdk opts a w =
     (case deploy_prepare lib sdk opts (\<lambda>_. instantiate_policy lib opts) a of
        Panic p \<Rightarrow> (([], Panic p), w)
      | Err e \<Rightarrow> (([], Err e), w)
      | Ok (client, req) \<Rightarrow>
          (case dl_InstantiateCC lib client (co_channelID opts) req (take 1 (ac_peers a)) w of
             (r, w) \<Rightarrow> (deployed opts ''instantiated'' r, w)))"

definition upgrade_invoke ::
    "('p, 'c, 'w) deploy_lib \<Rightarrow> ('o, 'c) action_sdk \<Rightarrow> cli_options \<Rightarrow> cli_action \<Rightarrow> 'w \<Rightarrow>
      (string \<times> unit outcome) \<times> 'w" where
  "upgrade_invoke lib sdk opts a w =
     (case deploy_prepare lib sdk opts (upgrade_policy lib opts) a of
        Panic p \<Rightarrow> (([], Panic p), w)
      | Err e \<Rightarrow> (([], Err e), w)
      | Ok (client, req) \<Rightarrow>
          (case dl_UpgradeCC lib client (co_channelID opts) req (ac_peers a) w of
             (r, w) \<Rightarrow> (deployed opts ''upgraded'' r, w)))"

definition instantiate_Run ::
    "('p, 'c, 'w) deploy_lib \<Rightarrow> ('o, 'c) action_sdk \<Rightarrow> cli_options \<Rightarrow> 'w \<Rightarrow> (string \<times> cmd_end) \<times> 'w" where
  "instantiate_Run lib sdk opts =
     run_command ''instantiateAction'' [(co_chaincodeID opts, ''chaincode ID''), (co_chaincodePath opts, ''path of the chaincode'')]
       (with_peer (action_Initialize sdk opts)) (instantiate_invoke lib sdk opts)"

definition upgrade_Run ::
    "('p, 'c, 'w) deploy_lib \<Rightarrow> ('o, 'c) action_sdk \<Rightarrow> cli_options \<Rightarrow> 'w \<Rightarrow> (string \<times> cmd_end) \<times> 'w" where
  "upgrade_Run lib sdk opts =
     run_command ''upgradeAction'' [(co_chaincodeID opts, ''chaincode ID''), (co_chaincodePath opts, ''path of the chaincode'')]
       (with_peer (action_Initialize sdk opts)) (upgrade_invoke lib sdk opts)"

section \<open>Installing and joining\<close>

text \<open>One call for each organisation, in the order Go ranges over \<open>PeersByOrg\<close>: its peers are announced, an error does not
  end the loop, the last one is returned.\<close>

definition org_header :: "string \<Rightarrow> sdk_peer list \<Rightarrow> string" where
  "org_header announced peers = text_line announced @ concat (map (\<lambda>peer. text_line (''-- '' @ sp_URL peer)) peers)"

fun for_orgs ::
    "(string \<Rightarrow> string) \<Rightarrow> ('a \<Rightarrow> string \<Rightarrow> sdk_peer list \<Rightarrow> 'w \<Rightarrow> ((string \<times> unit outcome) \<times> 'a) \<times> 'w) \<Rightarrow>
      (string \<times> sdk_peer list) list \<Rightarrow> goerr option \<Rightarrow> string \<Rightarrow> 'a \<Rightarrow> 'w \<Rightarrow> (string \<times> unit outcome) \<times> 'w" where
  "for_orgs announce call [] lastErr out a w =
     ((out, case lastErr of None \<Rightarrow> Ok () | Some e \<Rightarrow> Err e), w)"
| "for_orgs announce call ((orgID, peers) # orgs) lastErr out a w =
     (let out = out @ org_header (announce orgID) peers in
      case call a orgID peers w of
        (((t, Ok _), a), w) \<Rightarrow> for_orgs announce call orgs lastErr (out @ t) a w
      | (((t, Err e), a), w) \<Rightarrow> for_orgs announce call orgs (Some e) (out @ t) a w
      | (((t, Panic p), a), w) \<Rightarrow> ((out @ t, Panic p), w))"

record install_response =
  ir_Target :: string
  ir_Status :: "32 word"
  ir_Info :: string

record install_request =
  iq_Name :: string
  iq_Path :: string
  iq_Version :: string
  iq_Package :: bytes

record ('c, 'w) install_lib =
  il_NewCCPackage :: "string \<Rightarrow> string \<Rightarrow> goerr + bytes"
  il_InstallCC :: "'c \<Rightarrow> install_request \<Rightarrow> sdk_peer list \<Rightarrow> 'w \<Rightarrow> (goerr + install_response list) \<times> 'w"
  il_JoinChannel :: "'c \<Rightarrow> string \<Rightarrow> sdk_peer list \<Rightarrow> string \<Rightarrow> 'w \<Rightarrow> goerr option \<times> 'w"
  il_SaveChannel :: "'c \<Rightarrow> string \<Rightarrow> string \<Rightarrow> identity \<Rightarrow> string \<Rightarrow> 'w \<Rightarrow> goerr option \<times> 'w"

text \<open>The texts and the errors of the responses.\<close>

fun install_responses :: "string \<Rightarrow> install_response list \<Rightarrow> string \<times> goerr list" where
  "install_responses ccIDVersion [] = ([], [])"
| "install_responses ccIDVersion (resp # responses) =
     (case install_responses ccIDVersion responses of (out, errs) \<Rightarrow>
        if ir_Info resp = ''already installed'' then
          (text_line (''Chaincode '' @ ccIDVersion @ '' already installed on peer: '' @ ir_Target resp @ ''.'') @ out, errs)
        else if ir_Status resp \<noteq> 200 then
          (out, ErrNew (''installCC returned error from peer '' @ ir_Target resp @ '': '' @ ir_Info resp) # errs)
        else
          (text_line (''...successfuly installed chaincode '' @ ccIDVersion @ '' on peer '' @ ir_Target resp @ ''.'') @ out,
           errs))"

definition installChaincode ::
    "('c, 'w) install_lib \<Rightarrow> ('o, 'c) action_sdk \<Rightarrow> cli_options \<Rightarrow> string \<Rightarrow> cli_action \<Rightarrow> string \<Rightarrow> sdk_peer list \<Rightarrow>
      'w \<Rightarrow> ((string \<times> unit outcome) \<times> cli_action) \<times> 'w" where
  "installChaincode lib sdk opts gopath a orgID targets w =
     (case ResourceMgmtClientForOrg sdk opts orgID a of
        (Panic p, a) \<Rightarrow> ((([], Panic p), a), w)
      | (Err e, a) \<Rightarrow> ((([], Err e), a), w)
      | (Ok client, a) \<Rightarrow>
          (case il_NewCCPackage lib (co_chaincodePath opts) gopath of
             Inl e \<Rightarrow> ((([], Err e), a), w)
           | Inr ccPkg \<Rightarrow>
               (case il_InstallCC lib client \<lparr> iq_Name = co_chaincodeID opts, iq_Path = co_chaincodePath opts,
                    iq_Version = co_chaincodeVersion opts, iq_Package = ccPkg \<rparr> targets w of
                  (Inl e, w) \<Rightarrow> ((([], Err (err_for ''InstallChaincode returned error'' e)), a), w)
                | (Inr responses, w) \<Rightarrow>
                    (case install_responses (co_chaincodeID opts @ ''.'' @ co_chaincodeVersion opts) responses of
                       (out, []) \<Rightarrow> (((out, Ok ()), a), w)
                     | (out, e # errs) \<Rightarrow> (((out, Err e), a), w)))))"

definition joinChannel ::
    "('c, 'w) install_lib \<Rightarrow> (string, 'c) action_sdk \<Rightarrow> cli_options \<Rightarrow> (nat \<Rightarrow> nat) \<Rightarrow> cli_action \<Rightarrow> string \<Rightarrow>
      sdk_peer list \<Rightarrow> 'w \<Rightarrow> ((string \<times> unit outcome) \<times> cli_action) \<times> 'w" where
  "joinChannel lib sdk opts rand a orgID peers w =
     (let out = text_line (''==========> JOIN ORG: '' @ orgID) in
      case ResourceMgmtClientForOrg sdk opts orgID a of
        (Panic p, a) \<Rightarrow> (((out, Panic p), a), w)
      | (Err e, a) \<Rightarrow> (((out, Err e), a), w)
      | (Ok client, a) \<Rightarrow>
          (case RandomOrderer sdk opts rand a of
             Inl e \<Rightarrow> (((out, Err e), a), w)
           | Inr ord \<Rightarrow>
               (case il_JoinChannel lib client (co_channelID opts) peers ord w of
                  (Some e, w) \<Rightarrow> (((out, Err (ErrWrap ''Could not join channel: %v'' e)), a), w)
                | (None, w) \<Rightarrow> (((out @ text_line (''Channel '' @ co_channelID opts @ '' joined!''), Ok ()), a), w))))"

text \<open>\<open>order\<close> is how Go ranges over the map of the action.\<close>

definition install_invoke ::
    "('c, 'w) install_lib \<Rightarrow> ('o, 'c) action_sdk \<Rightarrow> cli_options \<Rightarrow> string \<Rightarrow>
      ((string \<rightharpoonup> sdk_peer list) \<Rightarrow> (string \<times> sdk_peer list) list) \<Rightarrow> cli_action \<Rightarrow> 'w \<Rightarrow>
      (string \<times> unit outcome) \<times> 'w" where
  "install_invoke lib sdk opts gopath order a =
     for_orgs (\<lambda>orgID. ''Installing chaincode '' @ co_chaincodeID opts @ '' on org['' @ orgID @ ''] peers:'')
       (installChaincode lib sdk opts gopath) (order (ac_peersByOrg a)) None [] a"

definition join_invoke ::
    "('c, 'w) install_lib \<Rightarrow> (string, 'c) action_sdk \<Rightarrow> cli_options \<Rightarrow> (nat \<Rightarrow> nat) \<Rightarrow>
      ((string \<rightharpoonup> sdk_peer list) \<Rightarrow> (string \<times> sdk_peer list) list) \<Rightarrow> cli_action \<Rightarrow> 'w \<Rightarrow>
      (string \<times> unit outcome) \<times> 'w" where
  "join_invoke lib sdk opts rand order a =
     for_orgs (\<lambda>orgID. ''Joining channel '' @ co_channelID opts @ '' on org['' @ orgID @ ''] peers:'')
       (joinChannel lib sdk opts rand) (order (ac_peersByOrg a)) None
       (text_line (''Attempting to join channel: '' @ co_channelID opts)) a"

definition install_Run ::
    "('c, 'w) install_lib \<Rightarrow> ('o, 'c) action_sdk \<Rightarrow> cli_options \<Rightarrow> string \<Rightarrow>
      ((string \<rightharpoonup> sdk_peer list) \<Rightarrow> (string \<times> sdk_peer list) list) \<Rightarrow> 'w \<Rightarrow> (string \<times> cmd_end) \<times> 'w" where
  "install_Run lib sdk opts gopath order =
     run_command ''installAction'' [(co_chaincodeID opts, ''chaincode ID''), (co_chaincodePath opts, ''path of the chaincode'')]
       (action_Initialize sdk opts) (install_invoke lib sdk opts gopath order)"

definition join_Run ::
    "('c, 'w) install_lib \<Rightarrow> (string, 'c) action_sdk \<Rightarrow> cli_options \<Rightarrow> (nat \<Rightarrow> nat) \<Rightarrow>
      ((string \<rightharpoonup> sdk_peer list) \<Rightarrow> (string \<times> sdk_peer list) list) \<Rightarrow> 'w \<Rightarrow> (string \<times> cmd_end) \<times> 'w" where
  "join_Run lib sdk opts rand order =
     run_command ''channelJoinAction'' [] (newChannelJoinAction sdk opts) (join_invoke lib sdk opts rand order)"

definition create_invoke ::
    "('c, 'w) install_lib \<Rightarrow> (string, 'c) action_sdk \<Rightarrow> cli_options \<Rightarrow> (nat \<Rightarrow> nat) \<Rightarrow> cli_action \<Rightarrow> 'w \<Rightarrow>
      (string \<times> unit outcome) \<times> 'w" where
  "create_invoke lib sdk opts rand a w =
     (case bind_outcome (action_OrgID a) (\<lambda>orgID. of_result id (OrgAdminUser sdk opts orgID)) of
        Panic p \<Rightarrow> (([], Panic p), w)
      | Err e \<Rightarrow> (([], Err e), w)
      | Ok user \<Rightarrow>
          (case ResourceMgmtClient sdk opts a of
             (Panic p, a) \<Rightarrow> (([], Panic p), w)
           | (Err e, a) \<Rightarrow> (([], Err e), w)
           | (Ok client, a) \<Rightarrow>
               (let out = text_line (''Attempting to create/update channel: '' @ co_channelID opts) in
                case RandomOrderer sdk opts rand a of
                  Inl e \<Rightarrow> ((out, Err e), w)
                | Inr ord \<Rightarrow>
                    (case il_SaveChannel lib client (co_channelID opts) (co_txFile opts) user ord w of
                       (Some e, w) \<Rightarrow> ((out, Err (ErrNew (''Error from save channel: '' @ err_text e))), w)
                     | (None, w) \<Rightarrow>
                         ((out @ text_line (''Channel created/updated: '' @ co_channelID opts), Ok ()), w)))))"

definition create_Run ::
    "('c, 'w) install_lib \<Rightarrow> (string, 'c) action_sdk \<Rightarrow> cli_options \<Rightarrow> (nat \<Rightarrow> nat) \<Rightarrow> 'w \<Rightarrow> (string \<times> cmd_end) \<times> 'w" where
  "create_Run lib sdk opts rand =
     run_command ''channelCreateAction'' [] (action_Initialize sdk opts) (create_invoke lib sdk opts rand)"

section \<open>Selection of endorsers\<close>

text \<open>A channel provider keeps the selection service it has made first.\<close>

record ('d, 's) selection_lib =
  sl_Discovery :: "string \<Rightarrow> goerr + 'd"
  sl_static :: "'d \<Rightarrow> 's option \<times> goerr option"
  sl_dynamic :: "string \<Rightarrow> 'd \<Rightarrow> 's option \<times> goerr option"
  sl_fabric :: "string \<Rightarrow> 'd \<Rightarrow> 's option \<times> goerr option"

definition new_selection ::
    "('d, 's) selection_lib \<Rightarrow> cli_options \<Rightarrow> string \<Rightarrow> 'd \<Rightarrow> 's option \<times> goerr option" where
  "new_selection lib opts channelID discovery =
     (if co_selectionProvider opts = StaticSelectionProvider then sl_static lib discovery
      else if co_selectionProvider opts = DynamicSelectionProvider then sl_dynamic lib channelID discovery
      else if co_selectionProvider opts = FabricSelectionProvider then sl_fabric lib channelID discovery
      else (None, Some (ErrNew (''invalid selection provider: '' @ co_selectionProvider opts))))"

definition ChannelService ::
    "('d, 's) selection_lib \<Rightarrow> cli_options \<Rightarrow> string \<Rightarrow> 's option \<Rightarrow> (goerr + 's option) \<times> 's option" where
  "ChannelService lib opts channelID selection =
     (case sl_Discovery lib channelID of
        Inl e \<Rightarrow> (Inl e, selection)
      | Inr discovery \<Rightarrow>
          (case selection of
             Some s \<Rightarrow> (Inr selection, selection)
           | None \<Rightarrow>
               (case new_selection lib opts channelID discovery of
                  (selection, Some e) \<Rightarrow> (Inl e, selection)
                | (selection, None) \<Rightarrow> (Inr selection, selection))))"

section \<open>Every organisation is tried\<close>

text \<open>What the calls for the organisations print and return, each in the state the one before has left.\<close>

fun org_results ::
    "(string \<Rightarrow> string) \<Rightarrow> ('a \<Rightarrow> string \<Rightarrow> sdk_peer list \<Rightarrow> 'w \<Rightarrow> ((string \<times> unit outcome) \<times> 'a) \<times> 'w) \<Rightarrow>
      (string \<times> sdk_peer list) list \<Rightarrow> 'a \<Rightarrow> 'w \<Rightarrow> (string \<times> unit outcome) list \<times> 'w" where
  "org_results announce call [] a w = ([], w)"
| "org_results announce call ((orgID, peers) # orgs) a w =
     (case call a orgID peers w of (((t, r), a), w) \<Rightarrow>
        (case org_results announce call orgs a w of (rs, w) \<Rightarrow> ((org_header (announce orgID) peers @ t, r) # rs, w)))"

fun err_of_outcome :: "'a outcome \<Rightarrow> goerr option" where
  "err_of_outcome (Err e) = Some e"
| "err_of_outcome _ = None"

definition last_error :: "'a outcome list \<Rightarrow> goerr option" where
  "last_error rs = (case rev (List.map_filter err_of_outcome rs) of [] \<Rightarrow> None | e # es \<Rightarrow> Some e)"

text \<open>All texts, and the last error if there is one.\<close>

definition all_or_last :: "string \<Rightarrow> (string \<times> unit outcome) list \<Rightarrow> string \<times> unit outcome" where
  "all_or_last out rs =
     (out @ concat (map fst rs), case last_error (map snd rs) of None \<Rightarrow> Ok () | Some e \<Rightarrow> Err e)"

lemma last_error_Cons:
  "last_error (r # rs) = (case last_error rs of Some e \<Rightarrow> Some e | None \<Rightarrow> err_of_outcome r)"
  by (cases r) (auto simp: last_error_def split: list.splits)

lemma for_orgs_results:
  assumes "\<And>a orgID peers w. \<not> is_panic (snd (fst (fst (call a orgID peers w))))"
  shows "org_results announce call orgs a w = (rs, w') \<Longrightarrow>
    for_orgs announce call orgs lastErr out a w =
      ((out @ concat (map fst rs),
        case (case last_error (map snd rs) of Some e \<Rightarrow> Some e | None \<Rightarrow> lastErr) of None \<Rightarrow> Ok () | Some e \<Rightarrow> Err e), w')"
proof (induction orgs arbitrary: a w rs lastErr out)
  case (Cons x orgs)
  obtain orgID peers where x: "x = (orgID, peers)" by fastforce
  obtain t r a1 w1 where c: "call a orgID peers w = (((t, r), a1), w1)" by (metis surj_pair)
  obtain rs1 where rs: "org_results announce call orgs a1 w1 = (rs1, w')"
      "rs = (org_header (announce orgID) peers @ t, r) # rs1"
    using Cons.prems by (auto simp: x c split: prod.splits)
  have "\<not> is_panic r" using assms [of a orgID peers w] c by simp
  then show ?case
    by (cases r) (simp_all add: x c rs(2) last_error_Cons Let_def Cons.IH [OF rs(1)] split: option.splits)
qed (simp add: last_error_def)

lemma no_panic_client: "\<not> is_panic (fst (ResourceMgmtClientForOrg sdk opts orgID a))"
proof -
  have "\<not> is_panic (of_result f r)" for f and r :: "goerr + 'x" by (cases r) simp_all
  then show ?thesis
    by (auto simp: ResourceMgmtClientForOrg_def ResourceMgmtClientForUser_def client_for_def split: sum.splits prod.splits)
qed

lemma org_calls_no_panic:
  "\<not> is_panic (snd (fst (fst (installChaincode lib sdk opts gopath a orgID peers w))))"
  "\<not> is_panic (snd (fst (fst (joinChannel lib sdk' opts rand a orgID peers w))))"
  using no_panic_client [of sdk opts orgID a] no_panic_client [of sdk' opts orgID a]
  by (auto simp: installChaincode_def joinChannel_def Let_def
      split: prod.splits outcome.splits sum.splits option.splits list.splits)

lemma for_orgs_all:
  assumes "\<And>a orgID peers w. \<not> is_panic (snd (fst (fst (call a orgID peers w))))"
  shows "for_orgs announce call orgs None out a w =
    map_prod (all_or_last out) id (org_results announce call orgs a w)"
proof -
  obtain rs w' where rs: "org_results announce call orgs a w = (rs, w')" by fastforce
  show ?thesis using for_orgs_results [OF assms rs, of None out]
    by (simp add: all_or_last_def rs split: option.splits)
qed

text \<open>C34: installing and joining reach every organisation. Whatever fails for one, the next one is tried in the state that
  is left; everything they print is printed, and the error is the last one.\<close>

theorem all_orgs_tried:
  "install_invoke lib sdk opts gopath order a w =
     map_prod (all_or_last []) id (org_results
       (\<lambda>orgID. ''Installing chaincode '' @ co_chaincodeID opts @ '' on org['' @ orgID @ ''] peers:'')
       (installChaincode lib sdk opts gopath) (order (ac_peersByOrg a)) a w)
   \<and> join_invoke lib sdk' opts rand order a w =
     map_prod (all_or_last (text_line (''Attempting to join channel: '' @ co_channelID opts))) id (org_results
       (\<lambda>orgID. ''Joining channel '' @ co_channelID opts @ '' on org['' @ orgID @ ''] peers:'')
       (joinChannel lib sdk' opts rand) (order (ac_peersByOrg a)) a w)"
  unfolding install_invoke_def join_invoke_def
  by (intro conjI for_orgs_all org_calls_no_panic)

section \<open>What the commands do not report\<close>

lemma first_selection_kept:
  "snd (ChannelService lib opts channelID None) = Some s \<Longrightarrow>
    ChannelService lib opts channelID' (Some s) =
      (case sl_Discovery lib channelID' of Inl e \<Rightarrow> Inl e | Inr d \<Rightarrow> Inr (Some s), Some s)"
  by (simp add: ChannelService_def split: sum.splits)

lemma upgrade_policy_no_orgs:
  "co_chaincodePolicy opts = [] \<Longrightarrow> OrgIDs opts = [] \<Longrightarrow> upgrade_policy lib opts a = Inr (dl_SignedByAnyMember lib [])"
  by (simp add: upgrade_policy_def)

lemma with_peer_hides: "with_peer (Inl e) = Inl (ErrNew ''a peer must be specified'')"
  by (simp add: with_peer_def)

section \<open>No concurrency\<close>

lemma no_workers_step: "ex_step e ev e' \<Longrightarrow> workers e = [] \<Longrightarrow> done_tasks ev = []"
  by (induction rule: ex_step.induct) simp_all

lemma no_workers_run: "ex_run e evs e' \<Longrightarrow> workers e = [] \<Longrightarrow> concat (map done_tasks evs) = [] \<and> workers e' = []"
proof (induction rule: ex_run.induct)
  case (ex_more e evs e' ev e'')
  then show ?case using no_workers_step [OF ex_more.hyps(2)] ex_step_workers [OF ex_more.hyps(2)] by simp
qed simp

lemma Concurrency_wraps: "co_concurrency opts = of_int (65536 * k) \<Longrightarrow> Concurrency opts = 0"
proof -
  assume c: "co_concurrency opts = of_int (65536 * k)"
  have "Concurrency opts = of_int (take_bit 64 (65536 * k))"
    unfolding Concurrency_def c unsigned_of_int by simp
  moreover have "take_bit 16 (take_bit 64 (65536 * k)) = 0" by (simp add: take_bit_take_bit) (simp add: take_bit_eq_mod)
  ultimately show ?thesis by (simp add: word_of_int_eq_iff [of _ 0, simplified])
qed


definition hung_executor :: "char executor" where
  "hung_executor = snd (executor_Stop True (snd (executor_Submit False (CHR ''t'') (started_executor ''Invoke'' 0 32767))))"


end
