(* ===== verification/CliQueries.thy ===== *)
theory CliQueries
  imports CliCommands BlockMessages
begin

text \<open>
  The commands of fabric-cli that only read: the queries (fabric/fabric-cli/query, chaincode/getinfocmd.go) and the
  listening to events (fabric/fabric-cli/event). What the SDK's clients answer is a parameter; a query returns the data
  it hands to the printer of BlockPrinter.thy.
\<close>

section \<open>Querying blocks\<close>

text \<open>A block of the ledger; \<open>PreviousHash\<close> of a decoded header is nil exactly when it is empty. The printed blocks come
  with the error, which the caller drops.\<close>

fun traverse_blocks :: "(bytes \<Rightarrow> goerr + pb_block) \<Rightarrow> pb_block \<Rightarrow> nat \<Rightarrow> pb_block list \<times> goerr option outcome" where
  "traverse_blocks QueryBlockByHash currentBlock 0 = ([], Ok None)"
| "traverse_blocks QueryBlockByHash currentBlock (Suc num) =
     (case bl_Header currentBlock of
        None \<Rightarrow> ([], Panic ''nil pointer dereference'')
      | Some h \<Rightarrow>
          (case QueryBlockByHash (bh_PreviousHash h) of
             Inl e \<Rightarrow> ([], Ok (Some e))
           | Inr block \<Rightarrow>
               (case bl_Header block of
                  None \<Rightarrow> ([block], Panic ''nil pointer dereference'')
                | Some h' \<Rightarrow>
                    if bh_PreviousHash h' \<noteq> [] then
                      (case traverse_blocks QueryBlockByHash block num of (printed, r) \<Rightarrow> (block # printed, r))
                    else ([block], Ok None))))"

record ledger_client =
  lc_QueryBlock :: "u64 \<Rightarrow> goerr + pb_block"
  lc_QueryBlockByHash :: "bytes \<Rightarrow> goerr + pb_block"

definition queryblock_block :: "cli_config \<Rightarrow> cli_options \<Rightarrow> ledger_client \<Rightarrow> pb_block outcome" where
  "queryblock_block cfg opts client =
     (if IsFlagSet cfg BlockNumFlag then of_result id (lc_QueryBlock client (co_blockNum opts))
      else if IsFlagSet cfg BlockHashFlag then
        bind_outcome (of_result id (Base64URLDecode (co_blockHash opts))) (\<lambda>hashBytes.
        of_result id (lc_QueryBlockByHash client hashBytes))
      else Err (ErrNew ''must specify either a block number of a block hash''))"

text \<open>The blocks printed, and how the command ends.\<close>

definition queryblock_invoke ::
    "cli_config \<Rightarrow> (string, ledger_client) action_sdk \<Rightarrow> cli_options \<Rightarrow> cli_action \<Rightarrow> pb_block list \<times> unit outcome" where
  "queryblock_invoke cfg sdk opts a =
     (case LedgerClient sdk opts a of
        (Panic p, a) \<Rightarrow> ([], Panic p)
      | (Err e, a) \<Rightarrow> ([], Err (err_for ''Error getting admin channel client'' e))
      | (Ok client, a) \<Rightarrow>
          (case queryblock_block cfg opts client of
             Panic p \<Rightarrow> ([], Panic p)
           | Err e \<Rightarrow> ([], Err e)
           | Ok block \<Rightarrow>
               (case traverse_blocks (lc_QueryBlockByHash client) block (nat (sint (co_traverse opts - 1))) of
                  (printed, Panic p) \<Rightarrow> (block # printed, Panic p)
                | (printed, _) \<Rightarrow> (block # printed, Ok ()))))"

section \<open>Listening to events\<close>

text \<open>What the \<open>select\<close> of a listening command takes next: the key pressed, an event, or that the channel is closed.\<close>

datatype 'e heard = EnterPressed | Heard 'e | EventsClosed

text \<open>\<open>errors.WithMessage\<close> of a nil error is nil.\<close>

definition WithMessage :: "goerr option \<Rightarrow> string \<Rightarrow> goerr option" where
  "WithMessage err t = map_option (ErrWrap t) err"

text \<open>The loop of the block and chaincode listeners: what it hands to the printer, and the error it returns once it does.
  \<open>err\<close> is the error of the registration, which is nil here.\<close>

fun listen_loop :: "string \<Rightarrow> goerr option \<Rightarrow> 'e heard list \<Rightarrow> 'e list \<times> goerr option option" where
  "listen_loop lost err [] = ([], None)"
| "listen_loop lost err (EnterPressed # hs) = ([], Some None)"
| "listen_loop lost err (EventsClosed # hs) = ([], Some (WithMessage err lost))"
| "listen_loop lost err (Heard e # hs) = (case listen_loop lost err hs of (printed, r) \<Rightarrow> (e # printed, r))"

text \<open>\<open>listentx\<close> waits once.\<close>

fun listen_once :: "string \<Rightarrow> goerr option \<Rightarrow> 'e heard list \<Rightarrow> 'e list \<times> goerr option option" where
  "listen_once lost err [] = ([], None)"
| "listen_once lost err (EnterPressed # hs) = ([], Some None)"
| "listen_once lost err (EventsClosed # hs) = ([], Some (WithMessage err lost))"
| "listen_once lost err (Heard e # hs) = ([e], Some None)"

text \<open>The four \<open>invoke\<close>s: the client, the registration, the loop. \<open>None\<close> is a command that still waits.\<close>

definition listen_invoke ::
    "(string, 'c) action_sdk \<Rightarrow> cli_options \<Rightarrow> string \<Rightarrow> (goerr option \<Rightarrow> 'e heard list \<Rightarrow> 'e list \<times> goerr option option) \<Rightarrow>
      ('c \<Rightarrow> goerr + 'e heard list) \<Rightarrow> cli_action \<Rightarrow> 'e list \<times> unit outcome option" where
  "listen_invoke sdk opts registering loop register a =
     (case action_EventClient sdk opts a of
        (Panic p, a) \<Rightarrow> ([], Some (Panic p))
      | (Err e, a) \<Rightarrow> ([], Some (Err e))
      | (Ok client, a) \<Rightarrow>
          (case register client of
             Inl e \<Rightarrow> ([], Some (Err (ErrWrap registering e)))
           | Inr hs \<Rightarrow>
               (case loop None hs of (printed, r) \<Rightarrow>
                  (printed, map_option (\<lambda>err. case err of None \<Rightarrow> Ok () | Some e \<Rightarrow> Err e) r))))"

record 'c event_lib =
  el_RegisterBlockEvent :: "'c \<Rightarrow> goerr + pb_block heard list"
  el_RegisterFilteredBlockEvent :: "'c \<Rightarrow> goerr + pb_filtered_block heard list"
  el_RegisterChaincodeEvent :: "string \<Rightarrow> string \<Rightarrow> 'c \<Rightarrow> goerr + pb_chaincode_event heard list"
  el_RegisterTxStatusEvent :: "string \<Rightarrow> 'c \<Rightarrow> goerr + (string \<times> string) heard list"

definition listenblock_invoke ::
    "'c event_lib \<Rightarrow> (string, 'c) action_sdk \<Rightarrow> cli_options \<Rightarrow> cli_action \<Rightarrow> pb_block list \<times> unit outcome option" where
  "listenblock_invoke lib sdk opts =
     listen_invoke sdk opts ''Error registering for block events''
       (listen_loop ''unexpected closed channel while waiting for block event'') (el_RegisterBlockEvent lib)"

definition listenfilteredblock_invoke ::
    "'c event_lib \<Rightarrow> (string, 'c) action_sdk \<Rightarrow> cli_options \<Rightarrow> cli_action \<Rightarrow>
      pb_filtered_block list \<times> unit outcome option" where
  "listenfilteredblock_invoke lib sdk opts =
     listen_invoke sdk opts ''Error registering for filtered block events''
       (listen_loop ''unexpected closed channel while waiting for filtered block event'')
       (el_RegisterFilteredBlockEvent lib)"

definition listencc_invoke ::
    "'c event_lib \<Rightarrow> (string, 'c) action_sdk \<Rightarrow> cli_options \<Rightarrow> cli_action \<Rightarrow>
      pb_chaincode_event list \<times> unit outcome option" where
  "listencc_invoke lib sdk opts =
     listen_invoke sdk opts ''Error registering for block events''
       (listen_loop ''unexpected closed channel while waiting for block event'')
       (el_RegisterChaincodeEvent lib (co_chaincodeID opts) (co_chaincodeEvent opts))"

definition listentx_invoke ::
    "'c event_lib \<Rightarrow> (string, 'c) action_sdk \<Rightarrow> cli_options \<Rightarrow> cli_action \<Rightarrow>
      (string \<times> string) list \<times> unit outcome option" where
  "listentx_invoke lib sdk opts =
     listen_invoke sdk opts ''Error registering for block events''
       (listen_once ''unexpected closed channel while waiting for tx status event'')
       (el_RegisterTxStatusEvent lib (co_txID opts))"

text \<open>What is heard before the key is pressed or the channel is closed.\<close>

fun heard_events :: "'e heard list \<Rightarrow> 'e list" where
  "heard_events (Heard e # hs) = e # heard_events hs"
| "heard_events _ = []"

fun is_heard :: "'e heard \<Rightarrow> bool" where
  "is_heard (Heard e) = True"
| "is_heard _ = False"

lemma listen_prints:
  "listen_loop lost None hs = (heard_events hs, if list_all is_heard hs then None else Some None)"
  by (induction hs rule: heard_events.induct) (auto simp: WithMessage_def)

text \<open>Listening to blocks hands the printer every block up to the key press, in order, and ends without an error then;
  when the SDK closes the channel it ends the same way: the error meant for that is made from a nil one.\<close>

theorem listenblock_prints:
  assumes "fst (action_EventClient sdk opts a) = Ok client" "el_RegisterBlockEvent lib client = Inr hs"
  shows "listenblock_invoke lib sdk opts a = (heard_events hs, if list_all is_heard hs then None else Some (Ok ()))"
  using assms by (auto simp: listenblock_invoke_def listen_invoke_def listen_prints split: prod.splits outcome.splits)

section \<open>The other queries\<close>

text \<open>The \<open>Run\<close> of a query: \<open>early\<close> is what it misses before \<open>Initialize\<close>, \<open>missing\<close> what it misses after it.\<close>

definition must_specify :: "string \<Rightarrow> string" where
  "must_specify what = text_line [] @ text_line (text_line (''Must specify '' @ what))"

definition run_query ::
    "string \<Rightarrow> string option \<Rightarrow> goerr + 'a \<Rightarrow> string option \<Rightarrow> ('a \<Rightarrow> 'r list \<times> unit outcome) \<Rightarrow>
      'r list \<times> string \<times> cmd_end" where
  "run_query name early init missing run =
     (case early of
        Some what \<Rightarrow> ([], must_specify what, CmdHelp)
      | None \<Rightarrow>
     (case init of
        Inl e \<Rightarrow> ([], [], CmdFailed (''Error while initializing '' @ name) e)
      | Inr a \<Rightarrow>
          (case missing of
             Some what \<Rightarrow> ([], must_specify what, CmdHelp)
           | None \<Rightarrow>
               (case run a of
                  (shown, Ok _) \<Rightarrow> (shown, [], CmdDone)
                | (shown, Err e) \<Rightarrow> (shown, [], CmdFailed (''Error while running '' @ name) e)
                | (shown, Panic p) \<Rightarrow> (shown, [], CmdPanic p)))))"

definition queryblock_Run ::
    "cli_config \<Rightarrow> (string, ledger_client) action_sdk \<Rightarrow> cli_options \<Rightarrow> pb_block list \<times> string \<times> cmd_end" where
  "queryblock_Run cfg sdk opts =
     run_query ''queryBlockAction'' None (action_Initialize sdk opts) None (queryblock_invoke cfg sdk opts)"

text \<open>One answer, or none with the error.\<close>

fun shown :: "'r outcome \<Rightarrow> 'r list \<times> unit outcome" where
  "shown (Ok r) = ([r], Ok ())"
| "shown (Err e) = ([], Err e)"
| "shown (Panic p) = ([], Panic p)"

text \<open>The calls of the SDK: the clients' queries, the discovery of peers for a session, and \<open>proto.Unmarshal\<close>.\<close>

record ('c, 'k) query_lib =
  ql_QueryInfo :: "'c \<Rightarrow> goerr + pb_blockchain_info"
  ql_QueryTransaction :: "'c \<Rightarrow> string \<Rightarrow> goerr + pb_processed_tx"
  ql_QueryChannels :: "'c \<Rightarrow> sdk_peer \<Rightarrow> goerr + string list"
  ql_QueryInstalled :: "'c \<Rightarrow> sdk_peer \<Rightarrow> goerr + pb_chaincode_info list"
  ql_local_peers :: "identity \<Rightarrow> goerr + sdk_peer list"
  ql_channel_peers :: "identity \<Rightarrow> string \<Rightarrow> goerr + sdk_peer list"
  ql_Query :: "'c \<Rightarrow> string \<Rightarrow> string \<Rightarrow> string list \<Rightarrow> string \<Rightarrow> goerr + bytes"
  ql_ChaincodeData :: "bytes \<Rightarrow> goerr + pb_chaincode_data"
  ql_CollectionConfig :: "bytes \<Rightarrow> goerr + 'k"

definition queryinfo_run ::
    "('c, 'k) query_lib \<Rightarrow> (string, 'c) action_sdk \<Rightarrow> cli_options \<Rightarrow> cli_action \<Rightarrow> pb_blockchain_info outcome" where
  "queryinfo_run lib sdk opts a =
     (case LedgerClient sdk opts a of
        (Panic p, a) \<Rightarrow> Panic p
      | (Err e, a) \<Rightarrow> Err (err_for ''Error getting admin ledger client'' e)
      | (Ok client, a) \<Rightarrow> of_result id (ql_QueryInfo lib client))"

definition queryinfo_Run ::
    "('c, 'k) query_lib \<Rightarrow> (string, 'c) action_sdk \<Rightarrow> cli_options \<Rightarrow> pb_blockchain_info list \<times> string \<times> cmd_end" where
  "queryinfo_Run lib sdk opts =
     run_query ''queryInfoAction'' None (action_Initialize sdk opts)
       (if co_channelID opts = [] then Some ''channel ID'' else None) (shown \<circ> queryinfo_run lib sdk opts)"

definition querytx_run ::
    "('c, 'k) query_lib \<Rightarrow> (string, 'c) action_sdk \<Rightarrow> cli_options \<Rightarrow> cli_action \<Rightarrow> pb_processed_tx outcome" where
  "querytx_run lib sdk opts a =
     (case LedgerClient sdk opts a of
        (Panic p, a) \<Rightarrow> Panic p
      | (Err e, a) \<Rightarrow> Err (err_for ''Error getting ledger client'' e)
      | (Ok client, a) \<Rightarrow> of_result id (ql_QueryTransaction lib client (co_txID opts)))"

definition querytx_Run ::
    "('c, 'k) query_lib \<Rightarrow> (string, 'c) action_sdk \<Rightarrow> cli_options \<Rightarrow> pb_processed_tx list \<times> string \<times> cmd_end" where
  "querytx_Run lib sdk opts =
     run_query ''queryTXAction'' (if co_txID opts = [] then Some ''the transaction ID'' else None)
       (action_Initialize sdk opts) None (shown \<circ> querytx_run lib sdk opts)"

text \<open>\<open>channels\<close> and \<open>installed\<close> ask one peer; the text names the first peer of the action.\<close>

definition peer_query ::
    "('c outcome \<Rightarrow> 'c outcome) \<Rightarrow> ('o, 'c) action_sdk \<Rightarrow> cli_options \<Rightarrow> ('c \<Rightarrow> sdk_peer \<Rightarrow> goerr + 'r) \<Rightarrow> cli_action \<Rightarrow>
      (string \<times> 'r) outcome" where
  "peer_query wrap sdk opts query a =
     (case PeerURLs opts of
        [url] \<Rightarrow>
          (case PeerFromURL a url of
             None \<Rightarrow> Err (ErrNew (''invalid peer URL: ['' @ url @ '']''))
           | Some peer \<Rightarrow>
               bind_outcome (bind_outcome (action_OrgID a) (\<lambda>orgID. of_result id (OrgAdminUser sdk opts orgID))) (\<lambda>user.
               bind_outcome (wrap (fst (ResourceMgmtClientForUser sdk user a))) (\<lambda>client.
               bind_outcome (of_result id (query client peer)) (\<lambda>response.
               case action_Peer a of
                 None \<Rightarrow> Panic ''nil pointer dereference''
               | Some p \<Rightarrow> Ok (sp_URL p, response)))))
      | _ \<Rightarrow> Err (ErrNew ''must specify exactly one peer URL''))"

definition querychannels_run ::
    "('c, 'k) query_lib \<Rightarrow> ('o, 'c) action_sdk \<Rightarrow> cli_options \<Rightarrow> cli_action \<Rightarrow> (string \<times> string list) outcome" where
  "querychannels_run lib sdk opts = peer_query (wrap_err ''error getting fabric client'') sdk opts (ql_QueryChannels lib)"

definition queryinstalled_run ::
    "('c, 'k) query_lib \<Rightarrow> ('o, 'c) action_sdk \<Rightarrow> cli_options \<Rightarrow> cli_action \<Rightarrow>
      (string \<times> pb_chaincode_info list) outcome" where
  "queryinstalled_run lib sdk opts = peer_query id sdk opts (ql_QueryInstalled lib)"

definition one_peer_missing :: "cli_options \<Rightarrow> string option" where
  "one_peer_missing opts = (if length (PeerURLs opts) \<noteq> 1 then Some ''exactly one peer URL'' else None)"

definition querychannels_Run ::
    "('c, 'k) query_lib \<Rightarrow> ('o, 'c) action_sdk \<Rightarrow> cli_options \<Rightarrow> (string \<times> string list) list \<times> string \<times> cmd_end" where
  "querychannels_Run lib sdk opts =
     run_query ''queryChannelsAction'' None (action_Initialize sdk opts) (one_peer_missing opts)
       (shown \<circ> querychannels_run lib sdk opts)"

definition queryinstalled_Run ::
    "('c, 'k) query_lib \<Rightarrow> ('o, 'c) action_sdk \<Rightarrow> cli_options \<Rightarrow>
      (string \<times> pb_chaincode_info list) list \<times> string \<times> cmd_end" where
  "queryinstalled_Run lib sdk opts =
     run_query ''queryInstalledAction'' None (action_Initialize sdk opts) (one_peer_missing opts)
       (shown \<circ> queryinstalled_run lib sdk opts)"

text \<open>\<open>LocalContext\<close> and \<open>ChannelProvider\<close>: the session of the user.\<close>

definition querylocalpeers_run ::
    "('c, 'k) query_lib \<Rightarrow> ('o, 'c) action_sdk \<Rightarrow> cli_options \<Rightarrow> cli_action \<Rightarrow> sdk_peer list outcome" where
  "querylocalpeers_run lib sdk opts a =
     (case action_User sdk opts a of
        Panic p \<Rightarrow> Panic p
      | Err e \<Rightarrow> Err (err_for ''error getting user'' e)
      | Ok user \<Rightarrow> of_result id (ql_local_peers lib (fst (action_context user a))))"

definition querylocalpeers_Run ::
    "('c, 'k) query_lib \<Rightarrow> ('o, 'c) action_sdk \<Rightarrow> cli_options \<Rightarrow> sdk_peer list list \<times> string \<times> cmd_end" where
  "querylocalpeers_Run lib sdk opts =
     run_query ''queryLocalPeersAction'' None (action_Initialize sdk opts) (if OrgID opts = [] then Some ''org ID'' else None)
       (shown \<circ> querylocalpeers_run lib sdk opts)"

definition querypeers_run ::
    "('c, 'k) query_lib \<Rightarrow> ('o, 'c) action_sdk \<Rightarrow> cli_options \<Rightarrow> cli_action \<Rightarrow> sdk_peer list outcome" where
  "querypeers_run lib sdk opts a =
     bind_outcome (action_User sdk opts a) (\<lambda>user.
     of_result id (ql_channel_peers lib (fst (action_context user a)) (co_channelID opts)))"

definition querypeers_Run ::
    "('c, 'k) query_lib \<Rightarrow> ('o, 'c) action_sdk \<Rightarrow> cli_options \<Rightarrow> sdk_peer list list \<times> string \<times> cmd_end" where
  "querypeers_Run lib sdk opts =
     run_query ''queryPeersAction'' None (action_Initialize sdk opts)
       (if co_channelID opts = [] then Some ''channel ID'' else None) (shown \<circ> querypeers_run lib sdk opts)"

text \<open>Whom \<open>query channels\<close> and \<open>query installed\<close> ask. With one peer URL, the peer asked is the first one with that URL, as
  the administrator of its organisation, and the text printed over the answer names it.\<close>

theorem asked_peer:
  assumes "action_Initialize sdk opts = Inr a" "PeerURLs opts = [url]"
  shows "\<exists>p. sp_URL p = url \<and> PeerFromURL a url = Some p \<and> peer_query wrap sdk opts query a =
    bind_outcome (of_result id (OrgAdminUser sdk opts (org_at (ac_orgIDByPeer a) url))) (\<lambda>user.
    bind_outcome (wrap (fst (ResourceMgmtClientForUser sdk user a))) (\<lambda>client.
    bind_outcome (of_result id (query client p)) (\<lambda>response. Ok (url, response))))"
proof -
  obtain allPeers where
    peers: "getPeers (ac_orgIDByPeer a) allPeers [url] (OrgIDs opts) = Inr (ac_peers a)"
    and groups: "by_org (ac_orgIDByPeer a) (ac_peers a) Map.empty = Inr (ac_peersByOrg a)"
    using Initialize_parts [OF assms(1)] assms(2) by auto
  have all: "p \<in> set (ac_peers a) \<Longrightarrow> sp_URL p = url" for p
    using getPeers_selects(2) [OF peers] by simp
  have "ac_peers a \<noteq> []" using getPeers_selects [OF peers] by (auto simp: filter_empty_conv)
  then obtain p ps where ps: "ac_peers a = p # ps" by (cases "ac_peers a") auto
  then have "sp_URL p = url" using all by simp
  then show ?thesis
    using grouped_OrgID [OF groups] by (simp add: peer_query_def assms(2) PeerFromURL_def action_Peer_def ps)
qed

section \<open>Information on a chaincode\<close>

text \<open>Both questions go to the lifecycle chaincode, at the endpoint of the first peer.\<close>

definition lifecycleSCC :: string where "lifecycleSCC = ''lscc''"
definition getCCDataFunc :: string where "getCCDataFunc = ''getccdata''"
definition getCollConfigFunc :: string where "getCollConfigFunc = ''getcollectionsconfig''"

definition ask_lifecycle ::
    "('c, 'k) query_lib \<Rightarrow> 'c \<Rightarrow> cli_action \<Rightarrow> string \<Rightarrow> string list \<Rightarrow> string \<Rightarrow> (bytes \<Rightarrow> goerr + 'r) \<Rightarrow> 'r outcome" where
  "ask_lifecycle lib client a fcn args what unmarshal =
     (case action_Peer a of
        None \<Rightarrow> Panic ''nil pointer dereference''
      | Some peer \<Rightarrow>
          bind_outcome (of_result (err_for (''error querying for '' @ what)) (ql_Query lib client lifecycleSCC fcn args (sp_URL peer)))
            (\<lambda>payload. of_result id (unmarshal payload)))"

definition getCCData ::
    "('c, 'k) query_lib \<Rightarrow> cli_options \<Rightarrow> 'c \<Rightarrow> cli_action \<Rightarrow> pb_chaincode_data outcome" where
  "getCCData lib opts client a =
     ask_lifecycle lib client a getCCDataFunc [co_channelID opts, co_chaincodeID opts] ''chaincode info''
       (\<lambda>payload. case ql_ChaincodeData lib payload of
          Inl e \<Rightarrow> Inl (err_for ''error unmarshalling chaincode data'' e) | Inr d \<Rightarrow> Inr d)"

definition getCollConfig :: "('c, 'k) query_lib \<Rightarrow> cli_options \<Rightarrow> 'c \<Rightarrow> cli_action \<Rightarrow> 'k outcome" where
  "getCollConfig lib opts client a =
     ask_lifecycle lib client a getCollConfigFunc [co_chaincodeID opts] ''collections config''
       (\<lambda>payload. case ql_CollectionConfig lib payload of
          Inl e \<Rightarrow> Inl (err_for ''error unmarshalling collections config'' e) | Inr k \<Rightarrow> Inr k)"

text \<open>A chaincode without collections is no error.\<close>

definition getinfo_invoke ::
    "('c, 'k) query_lib \<Rightarrow> ('o, 'c) action_sdk \<Rightarrow> cli_options \<Rightarrow> cli_action \<Rightarrow> (pb_chaincode_data \<times> 'k option) outcome" where
  "getinfo_invoke lib sdk opts a =
     (case ChannelClient sdk opts a of
        (Panic p, a) \<Rightarrow> Panic p
      | (Err e, a) \<Rightarrow> Err (err_for ''error retrieving channel client'' e)
      | (Ok client, a) \<Rightarrow>
          bind_outcome (wrap_err ''error querying for chaincode data'' (getCCData lib opts client a)) (\<lambda>ccData.
          case getCollConfig lib opts client a of
            Panic p \<Rightarrow> Panic p
          | Err e \<Rightarrow>
              if contains (err_text e) ''collections config not defined for chaincode'' then Ok (ccData, None)
              else Err (ErrWrap ''error querying for collection config'' e)
          | Ok collConfig \<Rightarrow> Ok (ccData, Some collConfig)))"

definition newGetInfoAction :: "('o, 'c) action_sdk \<Rightarrow> cli_options \<Rightarrow> goerr + cli_action" where
  "newGetInfoAction sdk opts = with_peer (action_Initialize sdk opts)"

definition getinfo_Run ::
    "('c, 'k) query_lib \<Rightarrow> ('o, 'c) action_sdk \<Rightarrow> cli_options \<Rightarrow>
      (pb_chaincode_data \<times> 'k option) list \<times> string \<times> cmd_end" where
  "getinfo_Run lib sdk opts =
     run_query ''getAction'' (if co_chaincodeID opts = [] then Some ''the chaincode ID'' else None)
       (newGetInfoAction sdk opts) None (shown \<circ> getinfo_invoke lib sdk opts)"

section \<open>The chain of blocks\<close>

text \<open>A chain of blocks up to number \<open>top\<close>: each is found under the hash its successor names, and only the first names
  none.\<close>

definition chained :: "(bytes \<Rightarrow> goerr + pb_block) \<Rightarrow> (nat \<Rightarrow> pb_block) \<Rightarrow> nat \<Rightarrow> bool" where
  "chained q chain height \<longleftrightarrow>
     (\<forall>k \<le> height. \<exists>h. bl_Header (chain k) = Some h \<and> (bh_PreviousHash h = [] \<longleftrightarrow> k = 0)
        \<and> (k > 0 \<longrightarrow> q (bh_PreviousHash h) = Inr (chain (k - 1))))"

lemma upt_Suc_map: "[0..<Suc n] = 0 # map Suc [0..<n]"
  using upt_conv_Cons [of 0 "Suc n"] by (simp add: map_Suc_upt del: upt_Suc)

lemma max_min_Suc: "max 1 (min m (h + 1)) = Suc (min (m - 1) h)" for m h :: nat
  by arith

lemma traverse_chain:
  assumes "chained q chain height" "0 < height" "0 < n"
  shows "traverse_blocks q (chain height) n = (map (\<lambda>k. chain (height - Suc k)) [0..<min n height], Ok None)"
  using assms
proof (induction n arbitrary: height)
  case (Suc n)
  obtain h where h: "bl_Header (chain height) = Some h" "q (bh_PreviousHash h) = Inr (chain (height - 1))"
    using Suc.prems(1,2) unfolding chained_def by blast
  obtain h' where h': "bl_Header (chain (height - 1)) = Some h'" "bh_PreviousHash h' = [] \<longleftrightarrow> height - 1 = 0"
    using Suc.prems(1) unfolding chained_def by (meson diff_le_self)
  show ?case
  proof (cases "height - 1 = 0 \<or> n = 0")
    case True
    then have one: "min (Suc n) height = 1" using Suc.prems(2) by auto
    have "traverse_blocks q (chain height) (Suc n) = ([chain (height - 1)], Ok None)"
      using h h' True by (cases "height - 1 = 0") simp_all
    then show ?thesis by (simp add: one)
  next
    case False
    have "chained q chain (height - 1)" using Suc.prems(1) unfolding chained_def by (meson diff_le_self le_trans)
    then have IH: "traverse_blocks q (chain (height - 1)) n =
        (map (\<lambda>k. chain (height - 1 - Suc k)) [0..<min n (height - 1)], Ok None)"
      using Suc.IH [of "height - 1"] False by simp
    have "min (Suc n) height = Suc (min n (height - 1))" using Suc.prems(2) by simp
    then have "[0..<min (Suc n) height] = 0 # map Suc [0..<min n (height - 1)]" by (simp only: upt_Suc_map)
    then show ?thesis using h h' IH False by (simp add: comp_def)
  qed
qed simp

lemma sint_pred: "(w :: i64) \<noteq> - (2 ^ 63) \<Longrightarrow> sint (w - 1) = sint w - 1"
proof -
  assume w: "w \<noteq> - (2 ^ 63)"
  have "sint w \<noteq> - (2 ^ 63)"
  proof
    assume s: "sint w = - (2 ^ 63)"
    have "w = word_of_int (sint w)" by simp
    also have "\<dots> = - (2 ^ 63)" by (simp only: s of_int_minus of_int_power of_int_numeral)
    finally show False using w by simp
  qed
  moreover have "- (2 ^ 63) \<le> sint w" "sint w < 2 ^ 63" using sint_ge [of w] sint_lt [of w] by simp_all
  ultimately have "signed_take_bit 63 (sint w - 1) = sint w - 1"
    by (intro signed_take_bit_int_eq_self) simp_all
  moreover have "sint (w - 1) = signed_take_bit 63 (sint w - 1)"
    using sint_word_ariths(2) [of w 1] by simp
  ultimately show ?thesis by simp
qed
lemma traverse_first:
  assumes "chained q chain 0" "q [] = Inl e"
  shows "fst (traverse_blocks q (chain 0) n) = [] \<and> \<not> is_panic (snd (traverse_blocks q (chain 0) n))"
  using assms by (cases n) (auto simp: chained_def)


definition demo_blocks :: "nat \<Rightarrow> pb_block" where
  "demo_blocks k = \<lparr> bl_Header = Some \<lparr> bh_Number = k, bh_PreviousHash = replicate k 0, bh_DataHash = [] \<rparr>,
     bl_Data = None, bl_Metadata = None \<rparr>"

definition demo_block_ledger :: ledger_client where
  "demo_block_ledger = \<lparr> lc_QueryBlock = \<lambda>n. Inr (demo_blocks (unat n)),
     lc_QueryBlockByHash = \<lambda>h. if h = [] then Inl (ErrNew ''not found'') else Inr (demo_blocks (length h - 1)) \<rparr>"

definition demo_ledger_sdk :: "(string, ledger_client) action_sdk" where
  "demo_ledger_sdk = \<lparr> as_New = None, as_Context = Inr demo_network, as_CreatePeer = \<lambda>c. Inr (demo_peer (pc_URL c)),
     as_msp_New = \<lambda>_. None, as_Enroll = \<lambda>_ _ _. None,
     as_GetSigningIdentity = \<lambda>org name. Inr \<lparr> id_MSPID = org, id_ID = name \<rparr>, as_NewOrderer = Inr,
     as_NewClient = \<lambda>kind session. Inr demo_block_ledger \<rparr>"

lemma demo_chained: "chained (lc_QueryBlockByHash demo_block_ledger) demo_blocks 3"
  by (simp add: chained_def demo_block_ledger_def demo_blocks_def)


definition demo_installed :: "client_kind \<times> identity \<Rightarrow> sdk_peer \<Rightarrow> goerr + string" where
  "demo_installed client peer = Inr (id_MSPID (snd client) @ '':'' @ sp_URL peer)"

lemma asked_peer_witness:
  "\<exists>a. action_Initialize demo_action_sdk (init_options\<lparr>co_peerURL := ''p2''\<rparr>) = Inr a \<and>
    peer_query id demo_action_sdk (init_options\<lparr>co_peerURL := ''p2''\<rparr>) demo_installed a = Ok (''p2'', ''org2:p2'')"
proof -
  let ?o = "init_options\<lparr>co_peerURL := ''p2''\<rparr>"
  have urls: "PeerURLs ?o = [''p2'']" by (simp add: PeerURLs_def comma_list_def is_space_def)
  obtain a where a: "action_Initialize demo_action_sdk ?o = Inr a"
      "ac_orgIDByPeer a = [''p0'' \<mapsto> ''org1'', ''p1'' \<mapsto> ''org1'', ''p2'' \<mapsto> ''org2'']" "ac_sessions a = Map.empty"
    using demo_load_orgs
    by (simp add: action_Initialize_def getPeers_def urls demo_action_sdk_def org_at_def demo_peer_def)
  obtain p where p: "sp_URL p = ''p2''" "peer_query id demo_action_sdk ?o demo_installed a =
      bind_outcome (of_result id (OrgAdminUser demo_action_sdk ?o (org_at (ac_orgIDByPeer a) ''p2''))) (\<lambda>user.
      bind_outcome (id (fst (ResourceMgmtClientForUser demo_action_sdk user a))) (\<lambda>client.
      bind_outcome (of_result id (demo_installed client p)) (\<lambda>response. Ok (''p2'', response))))"
    using asked_peer [OF a(1) urls, of id demo_installed] by blast
  have "peer_query id demo_action_sdk ?o demo_installed a = Ok (''p2'', ''org2:p2'')"
    unfolding p(2) using p(1)
    by (simp add: a(2,3) org_at_def OrgAdminUser_def OrgUser_def demo_action_sdk_def init_options_def adminUser_def
        ResourceMgmtClientForUser_def client_for_def action_context_def demo_installed_def Let_def)
  then show ?thesis using a(1) by blast
qed

lemma listenblock_prints_witness:
  "listenblock_invoke
     \<lparr> el_RegisterBlockEvent = \<lambda>client. Inr [Heard (demo_blocks 7), Heard (demo_blocks 8), EventsClosed],
       el_RegisterFilteredBlockEvent = \<lambda>client. Inr [], el_RegisterChaincodeEvent = \<lambda>cc ev client. Inr [],
       el_RegisterTxStatusEvent = \<lambda>tx client. Inr [] \<rparr>
     demo_action_sdk init_options
     \<lparr> ac_network = demo_network, ac_peersByOrg = [''org1'' \<mapsto> [demo_peer ''p0'']], ac_peers = [demo_peer ''p0''],
       ac_orgIDByPeer = [''p0'' \<mapsto> ''org1''], ac_sessions = Map.empty \<rparr>
   = ([demo_blocks 7, demo_blocks 8], Some (Ok ()))"
  by (subst listenblock_prints [where client = "(EventClient_of defaultChannelID, \<lparr> id_MSPID = ''org1'', id_ID = ''User1'' \<rparr>)"
        and hs = "[Heard (demo_blocks 7), Heard (demo_blocks 8), EventsClosed]"])
    (simp_all add: action_EventClient_def provider_client_def action_User_def action_OrgID_def OrgOfPeer_def demo_peer_def
      OrgUser_def demo_action_sdk_def client_for_def action_context_def Let_def init_options_def action_defaultUser_def
      defaultUser_def)

end
