(* ===== verification/CliInvoke.thy ===== *)
theory CliInvoke
  imports CliCommands CliTasks
begin

text \<open>
  The commands \<open>invoke\<close> and \<open>query\<close> of fabric-cli as a whole (fabric/fabric-cli/chaincode/invokecmd.go, querycmd.go): from
  the options and the action of Action.thy through the tasks of CliTasks.thy to what the user is told. The schedule of
  the executor is a list of multi tasks; the printed averages are rationals.
\<close>

section \<open>The commands\<close>

definition command_config :: "cli_options \<Rightarrow> cmd_config" where
  "command_config opts =
     \<lparr> cf_Iterations = sint (co_iterations opts), cf_ChaincodeID = co_chaincodeID opts,
       cf_Verbose = co_verbose opts, cf_PayloadOnly = co_printPayloadOnly opts, cf_Validate = co_validate opts \<rparr>"

text \<open>Without a peer and an organisation the SDK chooses the endorsers.\<close>

definition command_targets :: "cli_options \<Rightarrow> cli_action \<Rightarrow> string list" where
  "command_targets opts a =
     (if co_peerURL opts \<noteq> [] \<or> OrgIDs opts \<noteq> [] then map sp_URL (ac_peers a) else [])"

text \<open>\<open>None\<close> is a command that waits for its tasks; a panic of a task ends the process.\<close>

definition command_result ::
    "arg_struct list \<Rightarrow> ('e cc_task, ('w, 'p, 'e) cmd_state) cmd \<Rightarrow> ('e report \<times> cmd_summary option) outcome option" where
  "command_result argsArray c =
     (case cm_panic c of
        Some p \<Rightarrow> Some (Panic p)
      | None \<Rightarrow>
          if cm_wg c \<noteq> 0 then None
          else Some (bind_outcome (cmd_summarize argsArray c) (\<lambda>su. Ok (cmd_report c, su))))"

record read_args =
  ra_list :: "string \<Rightarrow> goerr + arg_struct list"
  ra_one :: "string \<Rightarrow> goerr + arg_struct"

text \<open>What both do before the tasks are built.\<close>

definition command_prepare ::
    "read_args \<Rightarrow> ('o, 'c) action_sdk \<Rightarrow> cli_options \<Rightarrow> cli_action \<Rightarrow> ('c \<times> arg_struct list) outcome" where
  "command_prepare rd sdk opts a =
     (case fst (ChannelClient sdk opts a) of
        Panic p \<Rightarrow> Panic p
      | Err e \<Rightarrow> Err (err_for ''Error getting channel client'' e)
      | Ok client \<Rightarrow>
          bind_outcome (of_result id (ArgsArray (ra_list rd) (ra_one rd) opts)) (\<lambda>argsArray. Ok (client, argsArray)))"

definition invoke_action ::
    "read_args \<Rightarrow> ('o, 'c) action_sdk \<Rightarrow> ('c \<Rightarrow> ('w, 'r, 'p) cc_env) \<Rightarrow> cli_options \<Rightarrow> u64 \<Rightarrow> nat list \<Rightarrow> cli_action \<Rightarrow> 'w \<Rightarrow>
      (invoke_error report \<times> cmd_summary option) outcome option" where
  "invoke_action rd sdk env opts q js a w =
     (case command_prepare rd sdk opts a of
        Panic p \<Rightarrow> Some (Panic p)
      | Err e \<Rightarrow> Some (Err e)
      | Ok (client, argsArray) \<Rightarrow>
          command_result argsArray (multi_run (invoke_Invoke (env client)) js
            (cmd_begin (command_config opts) (command_targets opts a) argsArray q w)))"

definition query_action ::
    "read_args \<Rightarrow> ('o, 'c) action_sdk \<Rightarrow> ('c \<Rightarrow> ('w, 'r, 'p) cc_env) \<Rightarrow> cli_options \<Rightarrow> u64 \<Rightarrow> nat list \<Rightarrow> cli_action \<Rightarrow> 'w \<Rightarrow>
      (goerr report \<times> cmd_summary option) outcome option" where
  "query_action rd sdk env opts q js a w =
     (case command_prepare rd sdk opts a of
        Panic p \<Rightarrow> Some (Panic p)
      | Err e \<Rightarrow> Some (Err e)
      | Ok (client, argsArray) \<Rightarrow>
          command_result argsArray (multi_run (query_Invoke (env client)) js
            (cmd_begin (command_config opts) (command_targets opts a) argsArray q w)))"

text \<open>Durations are nanoseconds; the floating point sum is taken as the sum of its terms.\<close>

definition average :: "int list \<Rightarrow> rat" where
  "average durations =
     (if durations = [] then 0
      else fold (\<lambda>duration total. total + of_int duration / 1000000000) durations 0 / of_nat (length durations))"

lemma average_sum: "average ds = of_int (sum_list ds) / 1000000000 / of_nat (length ds)"
proof -
  have "fold (\<lambda>d t. t + of_int d / 1000000000) ds k = k + of_int (sum_list ds) / (1000000000 :: rat)" for k
    by (induction ds arbitrary: k) (simp_all add: add_divide_distrib)
  then show ?thesis by (simp add: average_def)
qed

section \<open>What the user is told\<close>

lemma command_told:
  assumes "counted ta_lastErr ta_attempt cs_success cs_errs c" "cmd_tasks c = nat (cf_Iterations cf) * length argsArray"
    and "length (cm_multi c) = nat (cf_Iterations (cf :: cmd_config))" "command_result argsArray c = Some (Ok (rep, su))"
  shows "argsArray \<noteq> [] \<and> (\<exists>successes errs. rep = (if errs = [] then NoReport else ErrorsReport errs)
    \<and> successes + length errs = nat (cf_Iterations cf) * length argsArray
    \<and> (su = None \<longleftrightarrow> cf_Iterations cf \<le> 1)
    \<and> list_all (\<lambda>s. su_Successfull s = successes) (case su of None \<Rightarrow> [] | Some s \<Rightarrow> [s]))"
proof -
  have wg: "cm_wg c = 0" and su: "cmd_summarize argsArray c = Ok su" "rep = cmd_report c"
    using assms(4) by (auto simp: command_result_def cmd_summarize_def Let_def split: option.splits if_splits)
  have args: "argsArray \<noteq> []" using su(1) by (auto simp: cmd_summarize_def)
  have told: "told_all cf argsArray c" by (rule counted_told [OF assms(1) wg assms(2,3)])
  have "int (length (cm_multi c) * length argsArray) div int (length argsArray) = int (length (cm_multi c))"
    using args by simp
  then have "su = None \<longleftrightarrow> cf_Iterations cf \<le> 1"
      "list_all (\<lambda>s. su_Successfull s = cs_success (cm_state c)) (case su of None \<Rightarrow> [] | Some s \<Rightarrow> [s])"
    using su(1) args assms(3) by (auto simp: cmd_summarize_def Let_def split: if_splits)
  then show ?thesis using su(2) told args unfolding told_all_def
    by (intro conjI exI [of _ "cs_success (cm_state c)"] exI [of _ "cs_errs (cm_state c)"]) simp_all
qed

text \<open>C16: an \<open>invoke\<close> that ends has told everything. When it ends without an error or a panic there was an argument, and the
  successes it counts and the errors it prints add up to the iterations times the arguments; every error is printed, and
  the summary, with its number of successes, comes exactly with more than one iteration.\<close>

theorem invoke_tells_all:
  assumes "invoke_action rd sdk env opts q js a w = Some (Ok (rep, su))"
  shows "\<exists>client argsArray successes errs. command_prepare rd sdk opts a = Ok (client, argsArray) \<and> argsArray \<noteq> []
    \<and> rep = (if errs = [] then NoReport else ErrorsReport errs)
    \<and> successes + length errs = nat (sint (co_iterations opts)) * length argsArray
    \<and> (su = None \<longleftrightarrow> sint (co_iterations opts) \<le> 1)
    \<and> list_all (\<lambda>s. su_Successfull s = successes) (case su of None \<Rightarrow> [] | Some s \<Rightarrow> [s])"
proof -
  obtain client argsArray where p: "command_prepare rd sdk opts a = Ok (client, argsArray)"
    using assms by (auto simp: invoke_action_def split: outcome.splits)
  let ?b = "cmd_begin (command_config opts) (command_targets opts a) argsArray q w"
  have r: "command_result argsArray (multi_run (invoke_Invoke (env client)) js ?b) = Some (Ok (rep, su))"
    using assms by (simp add: invoke_action_def p)
  have n: "cf_Iterations (command_config opts) = sint (co_iterations opts)" by (simp add: command_config_def)
  show ?thesis
    using command_told [OF it.run_counted [OF begin_counted] _ _ r, of "command_config opts", unfolded n] p
      run_shape [of "invoke_Invoke (env client)" js ?b]
    unfolding begin_tasks n by blast
qed

text \<open>The same for \<open>query\<close>.\<close>

lemma query_tells_all:
  assumes "query_action rd sdk env opts q js a w = Some (Ok (rep, su))"
  shows "\<exists>client argsArray successes errs. command_prepare rd sdk opts a = Ok (client, argsArray) \<and> argsArray \<noteq> []
    \<and> rep = (if errs = [] then NoReport else ErrorsReport errs)
    \<and> successes + length errs = nat (sint (co_iterations opts)) * length argsArray
    \<and> (su = None \<longleftrightarrow> sint (co_iterations opts) \<le> 1)
    \<and> list_all (\<lambda>s. su_Successfull s = successes) (case su of None \<Rightarrow> [] | Some s \<Rightarrow> [s])"
proof -
  obtain client argsArray where p: "command_prepare rd sdk opts a = Ok (client, argsArray)"
    using assms by (auto simp: query_action_def split: outcome.splits)
  let ?b = "cmd_begin (command_config opts) (command_targets opts a) argsArray q w"
  have r: "command_result argsArray (multi_run (query_Invoke (env client)) js ?b) = Some (Ok (rep, su))"
    using assms by (simp add: query_action_def p)
  have n: "cf_Iterations (command_config opts) = sint (co_iterations opts)" by (simp add: command_config_def)
  show ?thesis
    using command_told [OF qt.run_counted [OF begin_counted] _ _ r, of "command_config opts", unfolded n] p
      run_shape [of "query_Invoke (env client)" js ?b]
    unfolding begin_tasks n by blast
qed

text \<open>An empty list of arguments is no error: no task is run, and the summary divides by its length.\<close>

lemma no_args_panic:
  assumes "command_prepare rd sdk opts a = Ok (client, [])"
    and "command_result [] (multi_run (invoke_Invoke (env client)) js
      (cmd_begin (command_config opts) (command_targets opts a) [] q w)) \<noteq> None"
  shows "\<exists>p. invoke_action rd sdk env opts q js a w = Some (Panic p)"
  using assms by (auto simp: invoke_action_def command_result_def cmd_summarize_def Let_def split: option.splits if_splits)

definition demo_read_args :: read_args where
  "demo_read_args = \<lparr> ra_list = \<lambda>s. Inl (ErrNew s), ra_one = \<lambda>s. Inr \<lparr> as_Func = ''invoke'', as_Args = [] \<rparr> \<rparr>"

definition demo_invoke_options :: cli_options where
  "demo_invoke_options = init_options\<lparr>co_iterations := 2, co_chaincodeID := ''cc'', co_args := [], co_verbose := False,
     co_printPayloadOnly := False, co_validate := False\<rparr>"

definition demo_invoke_action :: cli_action where
  "demo_invoke_action = \<lparr> ac_network = demo_network, ac_peersByOrg = [''org1'' \<mapsto> [demo_peer ''p0'']],
     ac_peers = [demo_peer ''p0''], ac_orgIDByPeer = [''p0'' \<mapsto> ''org1''], ac_sessions = Map.empty \<rparr>"

lemma demo_invoke_prepare:
  "\<exists>client. command_prepare demo_read_args demo_action_sdk demo_invoke_options demo_invoke_action = Ok (client, demo_call)"
  by (simp add: command_prepare_def ChannelClient_def action_User_def action_OrgID_def OrgOfPeer_def demo_peer_def OrgUser_def
      demo_action_sdk_def client_for_def action_context_def Let_def demo_invoke_action_def demo_invoke_options_def
      init_options_def defaultUser_def action_defaultUser_def ArgsArray_def demo_read_args_def demo_call_def)

lemma demo_no_panic:
  "cm_panic (multi_run (invoke_Invoke demo_client) [1, 0, 1, 0] (cmd_begin demo_config [] demo_call 0 0)) = None"
  by (simp add: demo_cmd_simps invoke_Invoke_def doInvoke_task_def classify_response_def invoke_completed_def
      eval_nat_numeral)

lemma invoke_tells_all_witness:
  "\<exists>rep su errs. invoke_action demo_read_args demo_action_sdk (\<lambda>client. demo_client) demo_invoke_options 0 [1, 0, 1, 0]
      demo_invoke_action 0 = Some (Ok (rep, su))
    \<and> rep = (if errs = [] then NoReport else ErrorsReport errs) \<and> length errs \<le> 2 \<and> su \<noteq> None"
proof -
  have conf: "command_config demo_invoke_options = demo_config"
      "command_targets demo_invoke_options demo_invoke_action = []"
    by (simp_all add: command_config_def demo_config_def demo_invoke_options_def command_targets_def init_options_def
        OrgIDs_def comma_list_def defaultOrgIDs_def)
  obtain client where c: "command_prepare demo_read_args demo_action_sdk demo_invoke_options demo_invoke_action = Ok (client, demo_call)"
    using demo_invoke_prepare by blast
  have "\<exists>su. cmd_summarize demo_call (multi_run (invoke_Invoke demo_client) [1, 0, 1, 0] (cmd_begin demo_config [] demo_call 0 0)) = Ok su"
    by (simp add: cmd_summarize_def Let_def demo_call_def)
  then obtain rep su where r: "invoke_action demo_read_args demo_action_sdk (\<lambda>client. demo_client) demo_invoke_options 0 [1, 0, 1, 0]
      demo_invoke_action 0 = Some (Ok (rep, su))"
    by (auto simp: invoke_action_def c conf command_result_def demo_invoke_run demo_no_panic simp del: multi_run.simps One_nat_def)
  obtain argsArray successes errs where "argsArray = demo_call" "rep = (if errs = [] then NoReport else ErrorsReport errs)"
      "successes + length errs = nat (sint (co_iterations demo_invoke_options)) * length argsArray"
      "su = None \<longleftrightarrow> sint (co_iterations demo_invoke_options) \<le> 1"
    using invoke_tells_all [OF r] c by auto
  then show ?thesis using r
    by (intro exI [of _ rep] exI [of _ su] exI [of _ errs]) (auto simp: demo_invoke_options_def demo_call_def)
qed

end
