(* ===== verification/SignTx.thy ===== *)
theory SignTx
  imports Chainview
begin

text \<open>
  The tool that repairs unfinished cross transactions (cmd/signTx/main.go): it replays one maker or taker event of a chain,
  or goes through the blocks of both chains and reports the events no other event has finished. The clients of the two
  chains and the transaction types of go-simplechain are a parameter over a world; a client is named by the \<open>IsMain\<close> of its
  chain. A log carries the number of its block beside the fields of Chainview.thy.
\<close>

section \<open>Configuration and state\<close>

record chain_config =
  cf_Url :: string
  cf_ChainID :: u64
  cf_ContractAddr :: string
  cf_FromBlock :: u64
  cf_EndBlock :: u64
  cf_ConfirmNum :: u64

record sign_config =
  cf_Anchor :: string
  cf_AnchorKey :: string
  cf_RequireSignatures :: i64
  cf_Main :: chain_config
  cf_Sub :: chain_config

record mined_log = log_event +
  lg_BlockNumber :: u64

record sign_chain =
  sh_ChainID :: int
  sh_ContractAddr :: address
  sh_IsMain :: bool
  sh_ConfirmNumber :: u64
  sh_MakerEvents :: "hash \<rightharpoonup> mined_log"
  sh_TakerEvents :: "hash \<rightharpoonup> mined_log"

record sign_handler =
  hn_AnchorAddr :: address
  hn_MainChain :: sign_chain
  hn_SubChain :: sign_chain

record block_tx =
  bt_To :: "address option"
  bt_Hash :: hash

record st_recept =
  rc_CTxId :: hash
  rc_TxHash :: hash
  rc_From :: address
  rc_To :: address
  rc_DestinationId :: int
  rc_ChainId :: int

record st_cross =
  cr_Value :: int
  cr_DestinationValue :: int
  cr_DestinationId :: int
  cr_CTxId :: hash
  cr_TxHash :: hash
  cr_BlockHash :: hash
  cr_From :: address
  cr_To :: address
  cr_Input :: bytes

record tran_param =
  tp_gasLimit :: u64
  tp_gasPrice :: int
  tp_data :: bytes

record ('c, 'm, 't, 'w) sign_env =
  sv_HexToAddress :: "string \<Rightarrow> address"
  sv_MakerTopic :: hash
  sv_TakerTopic :: hash
  sv_MakerFinishTopic :: hash
  sv_ReadFile :: "string \<Rightarrow> goerr + bytes"
  sv_config_json :: "bytes \<Rightarrow> goerr + sign_config"
  sv_abi :: "goerr option"
  sv_Dial :: "string \<Rightarrow> goerr option"
  sv_HexToECDSA :: "string \<Rightarrow> goerr option"
  sv_hex_Decode :: "string \<Rightarrow> bytes"
  sv_HexToHash :: "string \<Rightarrow> hash"
  sv_BlockByNumber :: "bool \<Rightarrow> u64 \<Rightarrow> 'w \<Rightarrow> (goerr + block_tx list) \<times> 'w"
  sv_TransactionReceipt :: "bool \<Rightarrow> hash \<Rightarrow> 'w \<Rightarrow> (goerr + mined_log list) \<times> 'w"
  sv_NonceAt :: "bool \<Rightarrow> address \<Rightarrow> 'w \<Rightarrow> (goerr + u64) \<times> 'w"
  sv_SuggestGasPrice :: "bool \<Rightarrow> 'w \<Rightarrow> (goerr + int) \<times> 'w"
  sv_ConstructData :: "st_recept \<Rightarrow> goerr + bytes"
  sv_SignTx :: "int \<Rightarrow> chain_tx \<Rightarrow> goerr + 't"
  sv_SendTransaction :: "bool \<Rightarrow> 't \<Rightarrow> 'w \<Rightarrow> goerr option \<times> 'w"
  sv_NewCrossTransaction :: "st_cross \<Rightarrow> 'c"
  sv_Ctx_Hash :: "int \<Rightarrow> 'c \<Rightarrow> hash"
  sv_Sign :: sign_fn
  sv_WithSignature :: "int \<Rightarrow> 'c \<Rightarrow> bytes \<Rightarrow> 'c outcome"
  sv_WithSignatures :: "'c option \<Rightarrow> u64 \<Rightarrow> 'm outcome"
  sv_SetStatus_Waiting :: "'m \<Rightarrow> 'm"
  sv_AddSignature :: "'c \<Rightarrow> 'm \<Rightarrow> goerr + 'm"
  sv_SignaturesLength :: "'m \<Rightarrow> nat"
  sv_decode_txs :: "bytes \<Rightarrow> goerr + 'c list"
  sv_encode_txs :: "'m \<Rightarrow> goerr + bytes"
  sv_SendCrossTx :: "bool \<Rightarrow> 'm \<Rightarrow> 'w \<Rightarrow> goerr option \<times> 'w"

definition ParseConfig :: "('c, 'm, 't, 'w) sign_env \<Rightarrow> string \<Rightarrow> goerr + sign_config" where
  "ParseConfig env path =
     (case sv_ReadFile env path of
        Inl e \<Rightarrow> Inl e
      | Inr configStr \<Rightarrow> (case sv_config_json env configStr of Inl e \<Rightarrow> Inl e | Inr cfg \<Rightarrow> Inr cfg))"

definition new_chain :: "('c, 'm, 't, 'w) sign_env \<Rightarrow> bool \<Rightarrow> chain_config \<Rightarrow> sign_chain" where
  "new_chain env isMain c =
     \<lparr> sh_ChainID = int (unat (cf_ChainID c)), sh_ContractAddr = sv_HexToAddress env (cf_ContractAddr c),
       sh_IsMain = isMain, sh_ConfirmNumber = cf_ConfirmNum c, sh_MakerEvents = Map.empty, sh_TakerEvents = Map.empty \<rparr>"

text \<open>Every error on the way panics, the first one first.\<close>

definition NewSignHandler :: "('c, 'm, 't, 'w) sign_env \<Rightarrow> sign_config \<Rightarrow> sign_handler outcome" where
  "NewSignHandler env config =
     (case List.map_filter id
         [sv_abi env, sv_Dial env (cf_Url (cf_Main config)), sv_Dial env (cf_Url (cf_Sub config)),
          sv_HexToECDSA env (cf_AnchorKey config)] of
        e # es \<Rightarrow> Panic (err_text e)
      | [] \<Rightarrow> Ok \<lparr> hn_AnchorAddr = sv_HexToAddress env (cf_Anchor config), hn_MainChain = new_chain env True (cf_Main config),
          hn_SubChain = new_chain env False (cf_Sub config) \<rparr>)"

section \<open>A taker event\<close>

definition sign_createTransaction ::
    "('c, 'm, 't, 'w) sign_env \<Rightarrow> sign_chain \<Rightarrow> st_recept \<Rightarrow> 'w \<Rightarrow> (goerr + tran_param) \<times> 'w" where
  "sign_createTransaction env chain rws w =
     (case sv_SuggestGasPrice env (sh_IsMain chain) w of
        (Inl e, w) \<Rightarrow> (Inl e, w)
      | (Inr gasPrice, w) \<Rightarrow>
          (case sv_ConstructData env rws of
             Inl e \<Rightarrow> (Inl e, w)
           | Inr data \<Rightarrow> (Inr \<lparr> tp_gasLimit = 250000, tp_gasPrice = gasPrice, tp_data = data \<rparr>, w)))"

definition newSignedTransaction ::
    "('c, 'm, 't, 'w) sign_env \<Rightarrow> u64 \<Rightarrow> address \<Rightarrow> u64 \<Rightarrow> int \<Rightarrow> bytes \<Rightarrow> int \<Rightarrow> goerr + 't" where
  "newSignedTransaction env nonce to gasLimit gasPrice data networkId =
     sv_SignTx env networkId \<lparr> ct_nonce = nonce, ct_to = to, ct_amount = 0, ct_gasLimit = gasLimit,
       ct_gasPrice = gasPrice, ct_input = data \<rparr>"

definition other_chain :: "sign_handler \<Rightarrow> sign_chain \<Rightarrow> sign_chain" where
  "other_chain h chain = (if sh_IsMain chain then hn_SubChain h else hn_MainChain h)"

text \<open>The receipt of the event. An address is the last 20 bytes of 32.\<close>

definition taker_recept :: "sign_chain \<Rightarrow> mined_log \<Rightarrow> st_recept outcome" where
  "taker_recept chain event =
     bind_outcome (index_or_panic (lg_Topics event) 2) (\<lambda>topic.
     bind_outcome (slice_or_panic (lg_Data event) 44 64) (\<lambda>src.
     bind_outcome (index_or_panic (lg_Topics event) 1) (\<lambda>ctxId.
     bind_outcome (slice_or_panic (lg_Data event) 0 32) (\<lambda>dest.
     Ok \<lparr> rc_CTxId = ctxId, rc_TxHash = lg_TxHash event, rc_From = src, rc_To = drop 12 topic,
       rc_DestinationId = int (be_nat dest), rc_ChainId = sh_ChainID chain \<rparr>))))"

text \<open>The error of \<open>sign_createTransaction\<close> is logged; its nil parameters are then read. One of the node's \<open>SendTransaction\<close> is
  logged too.\<close>

definition sign_TakerEvent ::
    "('c, 'm, 't, 'w) sign_env \<Rightarrow> sign_handler \<Rightarrow> sign_chain \<Rightarrow> mined_log \<Rightarrow> 'w \<Rightarrow> unit outcome \<times> 'w" where
  "sign_TakerEvent env h chain event w =
     (let other = other_chain h chain in
      case sv_NonceAt env (sh_IsMain other) (hn_AnchorAddr h) w of
        (Inl e, w) \<Rightarrow> (Panic (err_text e), w)
      | (Inr nonce, w) \<Rightarrow>
     (case taker_recept chain event of
        Panic p \<Rightarrow> (Panic p, w)
      | Err e \<Rightarrow> (Err e, w)
      | Ok rtx \<Rightarrow>
          if (of_int (rc_DestinationId rtx) :: u64) = of_int (sh_ChainID other) then
            (case sign_createTransaction env other rtx w of
               (Inl e, w) \<Rightarrow> (nil_deref, w)
             | (Inr param, w) \<Rightarrow>
                 (case newSignedTransaction env nonce (sh_ContractAddr other) (tp_gasLimit param) (tp_gasPrice param)
                     (tp_data param) (sh_ChainID other) of
                    Inl e \<Rightarrow> (Panic (err_text e), w)
                  | Inr tx \<Rightarrow> (case sv_SendTransaction env (sh_IsMain other) tx w of (_, w) \<Rightarrow> (Ok (), w))))
          else (Ok (), w)))"

section \<open>A maker event\<close>

text \<open>The transaction of the event; the length of its input is the low 64 bits of a word, as a signed number.\<close>

definition input_slice :: "bytes \<Rightarrow> i64 \<Rightarrow> bytes outcome" where
  "input_slice data cnt =
     (let hi = sint (192 + cnt) in
      if 192 \<le> hi \<and> hi \<le> int (length data) then Ok (take (nat hi - 192) (drop 192 data))
      else Panic ''slice bounds out of range'')"

definition maker_cross :: "mined_log \<Rightarrow> st_cross outcome" where
  "maker_cross event =
     bind_outcome (index_or_panic (lg_Topics event) 2) (\<lambda>topic.
     bind_outcome (slice_or_panic (lg_Data event) 12 32) (\<lambda>dst.
     bind_outcome (index_or_panic (lg_Topics event) 1) (\<lambda>ctxId.
     bind_outcome (slice_or_panic (lg_Data event) 160 192) (\<lambda>len.
     bind_outcome (slice_or_panic (lg_Data event) 64 96) (\<lambda>value.
     bind_outcome (slice_or_panic (lg_Data event) 96 128) (\<lambda>destValue.
     bind_outcome (slice_or_panic (lg_Data event) 32 64) (\<lambda>dest.
     bind_outcome (input_slice (lg_Data event) (of_nat (be_nat len))) (\<lambda>input.
     Ok \<lparr> cr_Value = int (be_nat value), cr_DestinationValue = int (be_nat destValue),
       cr_DestinationId = int (be_nat dest), cr_CTxId = ctxId, cr_TxHash = lg_TxHash event,
       cr_BlockHash = lg_BlockHash event, cr_From = drop 12 topic, cr_To = dst, cr_Input = input \<rparr>))))))))"

definition sign_SignCtx :: "('c, 'm, 't, 'w) sign_env \<Rightarrow> int \<Rightarrow> 'c \<Rightarrow> 'c outcome" where
  "sign_SignCtx env chainID tx = sign_tx (sv_Ctx_Hash env chainID) (sv_WithSignature env chainID) (sv_Sign env) tx"

fun add_signatures :: "('c, 'm, 't, 'w) sign_env \<Rightarrow> 'c list \<Rightarrow> 'm \<Rightarrow> 'm outcome" where
  "add_signatures env [] m = Ok m"
| "add_signatures env (tx # txs) m =
     (case sv_AddSignature env tx m of Inl e \<Rightarrow> Panic (err_text e) | Inr m \<Rightarrow> add_signatures env txs m)"

text \<open>With the signatures of others at hand the transaction is sent once there are enough; its signatures are printed.\<close>

definition sign_MakeEvent ::
    "('c, 'm, 't, 'w) sign_env \<Rightarrow> sign_chain \<Rightarrow> mined_log \<Rightarrow> bytes \<Rightarrow> i64 \<Rightarrow> 'w \<Rightarrow> bytes outcome \<times> 'w" where
  "sign_MakeEvent env chain event crossTxBytes requerSigns w =
     (case bind_outcome (maker_cross event) (\<lambda>args.
         bind_outcome (or_nil (sign_SignCtx env (sh_ChainID chain) (sv_NewCrossTransaction env args))) (\<lambda>signedTx.
         bind_outcome (sv_WithSignatures env signedTx (lg_BlockNumber event + sh_ConfirmNumber chain)) (\<lambda>m.
         if crossTxBytes = [] then Ok (sv_SetStatus_Waiting env m)
         else case sv_decode_txs env crossTxBytes of
           Inl e \<Rightarrow> Panic (err_text e)
         | Inr addTxs \<Rightarrow> add_signatures env addTxs (sv_SetStatus_Waiting env m)))) of
        Panic p \<Rightarrow> (Panic p, w)
      | Err e \<Rightarrow> (Err e, w)
      | Ok m \<Rightarrow>
          (case if crossTxBytes \<noteq> [] \<and> sint requerSigns \<le> int (sv_SignaturesLength env m)
              then sv_SendCrossTx env (sh_IsMain chain) m w else (None, w) of
             (Some e, w) \<Rightarrow> (Panic (err_text e), w)
           | (None, w) \<Rightarrow>
               (case sv_encode_txs env m of
                  Inl e \<Rightarrow> (Panic (err_text e), w)
                | Inr data \<Rightarrow> (Ok data, w))))"

section \<open>One transaction\<close>

text \<open>A log is tested for both events; only the second test looks at the sizes.\<close>

fun handle_logs ::
    "('c, 'm, 't, 'w) sign_env \<Rightarrow> sign_handler \<Rightarrow> sign_chain \<Rightarrow> bytes \<Rightarrow> i64 \<Rightarrow> mined_log list \<Rightarrow> 'w \<Rightarrow> unit outcome \<times> 'w" where
  "handle_logs env h chain addBytes requerSigns [] w = (Ok (), w)"
| "handle_logs env h chain addBytes requerSigns (v # logs) w =
     (if lg_Topics v = [] then handle_logs env h chain addBytes requerSigns logs w
      else
        let topic = lg_Topics v ! 0 in
        case (if topic = sv_MakerTopic env then
                (case index_or_panic (lg_Topics v) 1 of
                   Ok ctxId \<Rightarrow> sign_MakeEvent env chain v addBytes requerSigns w
                 | Err e \<Rightarrow> (Err e, w)
                 | Panic p \<Rightarrow> (Panic p, w))
              else (Ok [], w)) of
          (Panic p, w) \<Rightarrow> (Panic p, w)
        | (Err e, w) \<Rightarrow> (Err e, w)
        | (Ok printed, w) \<Rightarrow>
            (case (if 3 \<le> length (lg_Topics v) \<and> topic = sv_TakerTopic env \<and> 128 \<le> length (lg_Data v)
                   then sign_TakerEvent env h chain v w else (Ok (), w)) of
               (Panic p, w) \<Rightarrow> (Panic p, w)
             | (Err e, w) \<Rightarrow> (Err e, w)
             | (Ok _, w) \<Rightarrow> handle_logs env h chain addBytes requerSigns logs w))"

definition handleTx ::
    "('c, 'm, 't, 'w) sign_env \<Rightarrow> string \<Rightarrow> sign_handler \<Rightarrow> sign_chain \<Rightarrow> i64 \<Rightarrow> hash \<Rightarrow> 'w \<Rightarrow> unit outcome \<times> 'w" where
  "handleTx env addCrossTx h chain requerSigns txHash w =
     (case sv_TransactionReceipt env (sh_IsMain chain) txHash w of
        (Inl e, w) \<Rightarrow> (Panic (err_text e), w)
      | (Inr logs, w) \<Rightarrow> handle_logs env h chain (sv_hex_Decode env addCrossTx) requerSigns logs w)"

section \<open>The events of a range of blocks\<close>

definition isCrossChainContractAddr :: "sign_chain \<Rightarrow> address \<Rightarrow> bool" where
  "isCrossChainContractAddr c addr \<longleftrightarrow> addr = sh_ContractAddr c"

definition is_maker_log :: "('c, 'm, 't, 'w) sign_env \<Rightarrow> mined_log \<Rightarrow> bool" where
  "is_maker_log env v \<longleftrightarrow>
     lg_Topics v \<noteq> [] \<and> lg_Topics v ! 0 = sv_MakerTopic env \<and> 3 \<le> length (lg_Topics v) \<and> 160 \<le> length (lg_Data v)"

definition is_taker_log :: "('c, 'm, 't, 'w) sign_env \<Rightarrow> mined_log \<Rightarrow> bool" where
  "is_taker_log env v \<longleftrightarrow>
     3 \<le> length (lg_Topics v) \<and> lg_Topics v ! 0 = sv_TakerTopic env \<and> 128 \<le> length (lg_Data v)"

definition is_finish_log :: "('c, 'm, 't, 'w) sign_env \<Rightarrow> mined_log \<Rightarrow> bool" where
  "is_finish_log env v \<longleftrightarrow> 3 \<le> length (lg_Topics v) \<and> lg_Topics v ! 0 = sv_MakerFinishTopic env"

fun scan_logs ::
    "('c, 'm, 't, 'w) sign_env \<Rightarrow> mined_log list \<Rightarrow> sign_chain \<Rightarrow> hash list \<Rightarrow> sign_chain \<times> hash list" where
  "scan_logs env [] chain finishes = (chain, finishes)"
| "scan_logs env (v # logs) chain finishes =
     (let ctxId = lg_Topics v ! 1 in
      if is_maker_log env v then
        scan_logs env logs (chain\<lparr>sh_MakerEvents := (sh_MakerEvents chain)(ctxId \<mapsto> v)\<rparr>) finishes
      else if is_taker_log env v then
        scan_logs env logs (chain\<lparr>sh_TakerEvents := (sh_TakerEvents chain)(ctxId \<mapsto> v)\<rparr>) finishes
      else if is_finish_log env v then scan_logs env logs chain (finishes @ [ctxId])
      else scan_logs env logs chain finishes)"

fun delete_all :: "hash list \<Rightarrow> (hash \<rightharpoonup> 'v) \<Rightarrow> (hash \<rightharpoonup> 'v)" where
  "delete_all [] m = m"
| "delete_all (k # ks) m = delete_all ks (m(k := None))"

text \<open>The receipt is asked for once rest after an error.\<close>

definition receipt_retry ::
    "('c, 'm, 't, 'w) sign_env \<Rightarrow> bool \<Rightarrow> hash \<Rightarrow> 'w \<Rightarrow> mined_log list outcome \<times> 'w" where
  "receipt_retry env isMain txHash w =
     (case sv_TransactionReceipt env isMain txHash w of
        (Inr logs, w) \<Rightarrow> (Ok logs, w)
      | (Inl e, w) \<Rightarrow>
          (case sv_TransactionReceipt env isMain txHash w of
             (Inr logs, w) \<Rightarrow> (Ok logs, w)
           | (Inl e, w) \<Rightarrow> (Panic (err_text e), w)))"

fun scan_txs ::
    "('c, 'm, 't, 'w) sign_env \<Rightarrow> block_tx list \<Rightarrow> sign_chain \<Rightarrow> hash list \<Rightarrow> 'w \<Rightarrow>
      (sign_chain \<times> hash list) outcome \<times> 'w" where
  "scan_txs env [] chain finishes w = (Ok (chain, finishes), w)"
| "scan_txs env (tx # txs) chain finishes w =
     (if (case bt_To tx of None \<Rightarrow> False | Some to \<Rightarrow> isCrossChainContractAddr chain to) then
        (case receipt_retry env (sh_IsMain chain) (bt_Hash tx) w of
           (Panic p, w) \<Rightarrow> (Panic p, w)
         | (Err e, w) \<Rightarrow> (Err e, w)
         | (Ok logs, w) \<Rightarrow>
             (case scan_logs env logs chain finishes of (chain, finishes) \<Rightarrow>
                scan_txs env txs (chain\<lparr>sh_MakerEvents := delete_all finishes (sh_MakerEvents chain)\<rparr>) finishes w))
      else scan_txs env txs chain finishes w)"

fun scan_blocks ::
    "('c, 'm, 't, 'w) sign_env \<Rightarrow> u64 list \<Rightarrow> sign_chain \<Rightarrow> hash list \<Rightarrow> 'w \<Rightarrow>
      (sign_chain \<times> hash list) outcome \<times> 'w" where
  "scan_blocks env [] chain finishes w = (Ok (chain, finishes), w)"
| "scan_blocks env (i # ns) chain finishes w =
     (case sv_BlockByNumber env (sh_IsMain chain) i w of
        (Inl e, w) \<Rightarrow> (Panic (err_text e), w)
      | (Inr txs, w) \<Rightarrow>
          (case scan_txs env txs chain finishes w of
             (Ok (chain, finishes), w) \<Rightarrow> scan_blocks env ns chain finishes w
           | r \<Rightarrow> r))"

text \<open>The numbers from \<open>from\<close> below \<open>end\<close>; the counter does not wrap.\<close>

definition parseContractLogs ::
    "('c, 'm, 't, 'w) sign_env \<Rightarrow> sign_chain \<Rightarrow> u64 \<Rightarrow> u64 \<Rightarrow> 'w \<Rightarrow> (sign_chain \<times> hash list) outcome \<times> 'w" where
  "parseContractLogs env chain src limit w = scan_blocks env (map of_nat [unat src..<unat limit]) chain [] w"

definition parseCrossChainEvents ::
    "('c, 'm, 't, 'w) sign_env \<Rightarrow> sign_handler \<Rightarrow> chain_config \<Rightarrow> chain_config \<Rightarrow> 'w \<Rightarrow> sign_handler outcome \<times> 'w" where
  "parseCrossChainEvents env h mainConfig subConfig w =
     (case parseContractLogs env (hn_MainChain h) (cf_FromBlock mainConfig) (cf_EndBlock mainConfig) w of
        (Panic p, w) \<Rightarrow> (Panic p, w)
      | (Err e, w) \<Rightarrow> (Err e, w)
      | (Ok (main, mainFinish), w) \<Rightarrow>
     (case parseContractLogs env (hn_SubChain h) (cf_FromBlock subConfig) (cf_EndBlock subConfig) w of
        (Panic p, w) \<Rightarrow> (Panic p, w)
      | (Err e, w) \<Rightarrow> (Err e, w)
      | (Ok (side, subFinish), w) \<Rightarrow>
          (Ok (h\<lparr>hn_MainChain := main\<lparr>sh_TakerEvents := delete_all subFinish (sh_TakerEvents main)\<rparr>,
             hn_SubChain := side\<lparr>sh_TakerEvents := delete_all mainFinish (sh_TakerEvents side)\<rparr>\<rparr>), w)))"

definition signTx_main ::
    "('c, 'm, 't, 'w) sign_env \<Rightarrow> string \<Rightarrow> bool \<Rightarrow> string \<Rightarrow> string \<Rightarrow> string \<Rightarrow> 'w \<Rightarrow> sign_handler outcome \<times> 'w" where
  "signTx_main env configPath parseCrossChain role txHash addCrossTx w =
     (case ParseConfig env configPath of
        Inl e \<Rightarrow> (Panic (err_text e), w)
      | Inr config \<Rightarrow>
     (case NewSignHandler env config of
        Panic p \<Rightarrow> (Panic p, w)
      | Err e \<Rightarrow> (Err e, w)
      | Ok h \<Rightarrow>
          if parseCrossChain then parseCrossChainEvents env h (cf_Main config) (cf_Sub config) w
          else
            (case (if role = ''mainchain'' then
                     handleTx env addCrossTx h (hn_MainChain h) (cf_RequireSignatures config) (sv_HexToHash env txHash) w
                   else if role = ''subchain'' then
                     handleTx env addCrossTx h (hn_SubChain h) (cf_RequireSignatures config) (sv_HexToHash env txHash) w
                   else (Ok (), w)) of
               (Panic p, w) \<Rightarrow> (Panic p, w)
             | (Err e, w) \<Rightarrow> (Err e, w)
             | (Ok _, w) \<Rightarrow> (Ok h, w))))"

section \<open>What is left unfinished\<close>

text \<open>The receipts \<open>parseContractLogs\<close> reads, in the order it reads them.\<close>

fun tx_logs :: "('c, 'm, 't, 'w) sign_env \<Rightarrow> bool \<Rightarrow> address \<Rightarrow> block_tx list \<Rightarrow> 'w \<Rightarrow> mined_log list outcome \<times> 'w" where
  "tx_logs env isMain addr [] w = (Ok [], w)"
| "tx_logs env isMain addr (tx # txs) w =
     (if bt_To tx = Some addr then
        (case receipt_retry env isMain (bt_Hash tx) w of
           (Panic p, w) \<Rightarrow> (Panic p, w)
         | (Err e, w) \<Rightarrow> (Err e, w)
         | (Ok logs, w) \<Rightarrow> (case tx_logs env isMain addr txs w of (r, w) \<Rightarrow> (bind_outcome r (\<lambda>rest. Ok (logs @ rest)), w)))
      else tx_logs env isMain addr txs w)"

fun block_logs :: "('c, 'm, 't, 'w) sign_env \<Rightarrow> bool \<Rightarrow> address \<Rightarrow> u64 list \<Rightarrow> 'w \<Rightarrow> mined_log list outcome \<times> 'w" where
  "block_logs env isMain addr [] w = (Ok [], w)"
| "block_logs env isMain addr (i # ns) w =
     (case sv_BlockByNumber env isMain i w of
        (Inl e, w) \<Rightarrow> (Panic (err_text e), w)
      | (Inr txs, w) \<Rightarrow>
          (case tx_logs env isMain addr txs w of
             (Ok logs, w) \<Rightarrow>
               (case block_logs env isMain addr ns w of (r, w) \<Rightarrow> (bind_outcome r (\<lambda>rest. Ok (logs @ rest)), w))
           | r \<Rightarrow> r))"

definition range_logs ::
    "('c, 'm, 't, 'w) sign_env \<Rightarrow> sign_chain \<Rightarrow> u64 \<Rightarrow> u64 \<Rightarrow> 'w \<Rightarrow> mined_log list outcome \<times> 'w" where
  "range_logs env chain src limit w =
     block_logs env (sh_IsMain chain) (sh_ContractAddr chain) (map of_nat [unat src..<unat limit]) w"

text \<open>The events among some logs: the last of each kind for a transaction, and what has been finished.\<close>

definition log_entry :: "mined_log \<Rightarrow> hash \<times> mined_log" where
  "log_entry v = (lg_Topics v ! 1, v)"

definition maker_events :: "('c, 'm, 't, 'w) sign_env \<Rightarrow> mined_log list \<Rightarrow> (hash \<times> mined_log) list" where
  "maker_events env logs = map log_entry (filter (is_maker_log env) logs)"

definition taker_events :: "('c, 'm, 't, 'w) sign_env \<Rightarrow> mined_log list \<Rightarrow> (hash \<times> mined_log) list" where
  "taker_events env logs = map log_entry (filter (\<lambda>v. \<not> is_maker_log env v \<and> is_taker_log env v) logs)"

definition finished_ids :: "('c, 'm, 't, 'w) sign_env \<Rightarrow> mined_log list \<Rightarrow> hash list" where
  "finished_ids env logs =
     map (\<lambda>v. lg_Topics v ! 1) (filter (\<lambda>v. \<not> is_maker_log env v \<and> \<not> is_taker_log env v \<and> is_finish_log env v) logs)"

lemmas event_defs = maker_events_def taker_events_def finished_ids_def log_entry_def

definition last_event :: "(hash \<times> mined_log) list \<Rightarrow> hash \<rightharpoonup> mined_log" where
  "last_event evs = map_of (rev evs)"

lemma last_event_simps [simp]:
  "last_event [] = Map.empty"
  "last_event (xs @ ys) = last_event xs ++ last_event ys"
  "last_event ((k, v) # xs) = [k \<mapsto> v] ++ last_event xs"
  by (simp_all add: last_event_def map_add_def fun_eq_iff split: option.splits)

lemma delete_all_restrict: "delete_all ks m = m |` (- set ks)"
  by (induction ks arbitrary: m) (auto simp: restrict_map_def fun_eq_iff)

lemma scan_logs_events:
  "scan_logs env logs chain finishes =
    (chain\<lparr>sh_MakerEvents := sh_MakerEvents chain ++ last_event (maker_events env logs),
       sh_TakerEvents := sh_TakerEvents chain ++ last_event (taker_events env logs)\<rparr>,
     finishes @ finished_ids env logs)"
  by (induction logs arbitrary: chain finishes) (simp_all add: event_defs Let_def)

text \<open>What a scan has made of a chain after some logs, with all that is finished deleted.\<close>

definition scanned ::
    "('c, 'm, 't, 'w) sign_env \<Rightarrow> sign_chain \<Rightarrow> hash list \<Rightarrow> mined_log list \<Rightarrow> sign_chain \<times> hash list" where
  "scanned env chain finishes logs =
     (let finishes = finishes @ finished_ids env logs in
      (chain\<lparr>sh_MakerEvents := (sh_MakerEvents chain ++ last_event (maker_events env logs)) |` (- set finishes),
         sh_TakerEvents := sh_TakerEvents chain ++ last_event (taker_events env logs)\<rparr>, finishes))"

lemma scanned_append:
  "(case scanned env chain finishes logs of (chain, finishes) \<Rightarrow> scanned env chain finishes rest) =
    scanned env chain finishes (logs @ rest)"
  by (simp add: scanned_def Let_def event_defs)
    (auto simp: restrict_map_def map_add_def fun_eq_iff split: option.splits)

lemma scanned_nothing: "sh_MakerEvents chain |` (- set finishes) = sh_MakerEvents chain \<Longrightarrow> scanned env chain finishes [] = (chain, finishes)"
  by (simp add: scanned_def event_defs)

lemma scanned_clean: "scanned env chain finishes logs = (chain', finishes') \<Longrightarrow>
    sh_MakerEvents chain' |` (- set finishes') = sh_MakerEvents chain' \<and>
    sh_IsMain chain' = sh_IsMain chain \<and> sh_ContractAddr chain' = sh_ContractAddr chain"
  by (auto simp: scanned_def Let_def)

lemma scan_txs_logs:
  assumes "sh_MakerEvents chain |` (- set finishes) = sh_MakerEvents chain"
  shows "scan_txs env txs chain finishes w =
    (case tx_logs env (sh_IsMain chain) (sh_ContractAddr chain) txs w of
       (r, w) \<Rightarrow> (bind_outcome r (\<lambda>logs. Ok (scanned env chain finishes logs)), w))"
  using assms
proof (induction txs arbitrary: chain finishes w)
  case (Cons tx txs)
  show ?case
  proof (cases "bt_To tx = Some (sh_ContractAddr chain)")
    case False
    then show ?thesis using Cons.IH [OF Cons.prems] by (auto simp: isCrossChainContractAddr_def split: option.splits)
  next
    case True
    obtain r w1 where r: "receipt_retry env (sh_IsMain chain) (bt_Hash tx) w = (r, w1)" by fastforce
    show ?thesis
    proof (cases r)
      case (Ok logs)
      obtain chain' finishes' where s: "scanned env chain finishes logs = (chain', finishes')" by fastforce
      note clean = scanned_clean [OF s]
      have step: "(case scan_logs env logs chain finishes of (chain, finishes) \<Rightarrow>
          (chain\<lparr>sh_MakerEvents := delete_all finishes (sh_MakerEvents chain)\<rparr>, finishes)) = (chain', finishes')"
        using s by (cases chain) (auto simp: scan_logs_events scanned_def delete_all_restrict Let_def)
      have "scan_txs env (tx # txs) chain finishes w = scan_txs env txs chain' finishes' w1"
        using step True by (auto simp: r Ok isCrossChainContractAddr_def split: prod.splits)
      also have "\<dots> = (case tx_logs env (sh_IsMain chain') (sh_ContractAddr chain') txs w1 of
          (r, w) \<Rightarrow> (bind_outcome r (\<lambda>rest. Ok (scanned env chain' finishes' rest)), w))"
        using Cons.IH clean by blast
      also have "(\<lambda>rest. scanned env chain' finishes' rest) = (\<lambda>rest. scanned env chain finishes (logs @ rest))"
        using scanned_append [where env = env and chain = chain and finishes = finishes and logs = logs] s by (auto simp: fun_eq_iff)
      finally show ?thesis using True clean
        by (cases "fst (tx_logs env (sh_IsMain chain) (sh_ContractAddr chain) txs w1)")
          (simp_all add: r Ok split: prod.splits)
    qed (simp_all add: True r isCrossChainContractAddr_def)
  qed
qed (simp add: scanned_nothing)

lemma scan_blocks_logs:
  assumes "sh_MakerEvents chain |` (- set finishes) = sh_MakerEvents chain"
  shows "scan_blocks env ns chain finishes w =
    (case block_logs env (sh_IsMain chain) (sh_ContractAddr chain) ns w of
       (r, w) \<Rightarrow> (bind_outcome r (\<lambda>logs. Ok (scanned env chain finishes logs)), w))"
  using assms
proof (induction ns arbitrary: chain finishes w)
  case (Cons i ns)
  obtain b w1 where b: "sv_BlockByNumber env (sh_IsMain chain) i w = (b, w1)" by fastforce
  show ?case
  proof (cases b)
    case (Inr txs)
    obtain r w2 where r: "tx_logs env (sh_IsMain chain) (sh_ContractAddr chain) txs w1 = (r, w2)" by fastforce
    note txs = scan_txs_logs [OF Cons.prems, of env txs w1, unfolded r prod.case]
    show ?thesis
    proof (cases r)
      case (Ok logs)
      obtain chain' finishes' where s: "scanned env chain finishes logs = (chain', finishes')" by fastforce
      note clean = scanned_clean [OF s]
      have "(\<lambda>rest. scanned env chain' finishes' rest) = (\<lambda>rest. scanned env chain finishes (logs @ rest))"
        using scanned_append [where env = env and chain = chain and finishes = finishes and logs = logs] s by (auto simp: fun_eq_iff)
      then show ?thesis using Cons.IH [of chain' finishes' w2] clean txs s
        by (cases "fst (block_logs env (sh_IsMain chain) (sh_ContractAddr chain) ns w2)")
          (simp_all add: b Inr r Ok split: prod.splits)
    qed (use txs in \<open>simp_all add: b Inr r\<close>)
  qed (simp add: b)
qed (simp add: scanned_nothing)

lemma parse_logs:
  assumes "sh_MakerEvents chain = Map.empty" "sh_TakerEvents chain = Map.empty"
    and "range_logs env chain src limit w = (Ok logs, w')"
  shows "parseContractLogs env chain src limit w =
    (Ok (chain\<lparr>sh_MakerEvents := last_event (maker_events env logs) |` (- set (finished_ids env logs)),
       sh_TakerEvents := last_event (taker_events env logs)\<rparr>, finished_ids env logs), w')"
  using assms(3) scan_blocks_logs [of chain "[]" env "map of_nat [unat src..<unat limit]" w] assms(1,2)
  by (simp add: parseContractLogs_def range_logs_def scanned_def Let_def)

text \<open>C31: what the tool reports. Of a new handler, over ranges of blocks that can be read, the maker events left on a chain are
  the last ones of the transactions no log of that chain finishes, wherever in the range it is; the taker events left are
  the last ones of the transactions no log of the other chain finishes.\<close>

theorem unfinished_events:
  assumes "sh_MakerEvents (hn_MainChain h) = Map.empty" "sh_TakerEvents (hn_MainChain h) = Map.empty"
    and "sh_MakerEvents (hn_SubChain h) = Map.empty" "sh_TakerEvents (hn_SubChain h) = Map.empty"
    and "range_logs env (hn_MainChain h) (cf_FromBlock mc) (cf_EndBlock mc) w = (Ok mainLogs, w1)"
    and "range_logs env (hn_SubChain h) (cf_FromBlock sc) (cf_EndBlock sc) w1 = (Ok subLogs, w2)"
  shows "\<exists>h'. parseCrossChainEvents env h mc sc w = (Ok h', w2)
    \<and> sh_MakerEvents (hn_MainChain h') = last_event (maker_events env mainLogs) |` (- set (finished_ids env mainLogs))
    \<and> sh_TakerEvents (hn_MainChain h') = last_event (taker_events env mainLogs) |` (- set (finished_ids env subLogs))
    \<and> sh_MakerEvents (hn_SubChain h') = last_event (maker_events env subLogs) |` (- set (finished_ids env subLogs))
    \<and> sh_TakerEvents (hn_SubChain h') = last_event (taker_events env subLogs) |` (- set (finished_ids env mainLogs))"
  using parse_logs [OF assms(1,2,5)] parse_logs [OF assms(3,4,6)]
  by (simp add: parseCrossChainEvents_def delete_all_restrict)

text \<open>The replay of one transaction does not look at the size of a maker event: a log with the topic alone panics, which
  the scan passes over.\<close>

lemma short_maker_panics:
  assumes "lg_Topics v = [sv_MakerTopic env]"
  shows "fst (handle_logs env h chain add requerSigns (v # logs) w) = Panic ''index out of range''"
    "\<not> is_maker_log env v"
  using assms by (simp_all add: Let_def is_maker_log_def)

text \<open>What the replay of a taker event sends. With another destination, nothing; else one transaction from the anchor to the
  contract of the other chain, with the nonce and the gas price of its node. A node that refuses it is no error; one that
  has no gas price, or data that cannot be packed, is a nil pointer.\<close>

theorem TakerEvent_sends:
  assumes "taker_recept chain event = Ok rtx" "other = other_chain h chain"
    and "sv_NonceAt env (sh_IsMain other) (hn_AnchorAddr h) w = (Inr nonce, w1)"
  shows "sign_TakerEvent env h chain event w =
    (if (of_int (rc_DestinationId rtx) :: u64) \<noteq> of_int (sh_ChainID other) then (Ok (), w1)
     else case sv_SuggestGasPrice env (sh_IsMain other) w1 of
       (Inl e, w2) \<Rightarrow> (nil_deref, w2)
     | (Inr price, w2) \<Rightarrow>
         (case sv_ConstructData env rtx of
            Inl e \<Rightarrow> (nil_deref, w2)
          | Inr data \<Rightarrow>
              (case sv_SignTx env (sh_ChainID other) \<lparr> ct_nonce = nonce, ct_to = sh_ContractAddr other, ct_amount = 0,
                   ct_gasLimit = 250000, ct_gasPrice = price, ct_input = data \<rparr> of
                 Inl e \<Rightarrow> (Panic (err_text e), w2)
               | Inr tx \<Rightarrow> (Ok (), snd (sv_SendTransaction env (sh_IsMain other) tx w2)))))"
  using assms by (auto simp: sign_TakerEvent_def sign_createTransaction_def newSignedTransaction_def Let_def
      split: prod.splits sum.splits)

definition demo_log :: "byte \<Rightarrow> byte \<Rightarrow> mined_log" where
  "demo_log topic ctxId = \<lparr> lg_Topics = [[topic], [ctxId], replicate 32 0], lg_Data = replicate 160 0, lg_TxHash = [9],
     lg_BlockHash = [8], lg_BlockNumber = 0 \<rparr>"

definition demo_sign_env :: "(nat, nat, chain_tx, chain_tx list) sign_env" where
  "demo_sign_env = \<lparr> sv_HexToAddress = (\<lambda>s. [7]), sv_MakerTopic = [1], sv_TakerTopic = [2], sv_MakerFinishTopic = [3],
     sv_ReadFile = (\<lambda>f. Inl (ErrNew f)), sv_config_json = (\<lambda>b. Inl (ErrNew [])), sv_abi = None, sv_Dial = (\<lambda>u. None),
     sv_HexToECDSA = (\<lambda>k. None), sv_hex_Decode = (\<lambda>s. []), sv_HexToHash = (\<lambda>s. []),
     sv_BlockByNumber = (\<lambda>isMain i w. (Inr [\<lparr> bt_To = Some [7], bt_Hash = (if isMain then [10] else [11]) \<rparr>], w)),
     sv_TransactionReceipt = (\<lambda>isMain h w.
       (Inr (if h = [10] then [demo_log 1 5, demo_log 1 6, demo_log 3 5] else [demo_log 2 5, demo_log 2 6]), w)),
     sv_NonceAt = (\<lambda>isMain a w. (Inr 4, w)), sv_SuggestGasPrice = (\<lambda>isMain w. (Inr 2, w)),
     sv_ConstructData = (\<lambda>r. Inr []), sv_SignTx = (\<lambda>c t. Inr t), sv_SendTransaction = (\<lambda>isMain t w. (None, w @ [t])),
     sv_NewCrossTransaction = (\<lambda>c. 0), sv_Ctx_Hash = (\<lambda>c t. []), sv_Sign = (\<lambda>h. Inr []),
     sv_WithSignature = (\<lambda>c t b. Ok t), sv_WithSignatures = (\<lambda>t n. Ok 0), sv_SetStatus_Waiting = id,
     sv_AddSignature = (\<lambda>t m. Inr m), sv_SignaturesLength = (\<lambda>m. 1), sv_decode_txs = (\<lambda>b. Inr []),
     sv_encode_txs = (\<lambda>m. Inr []), sv_SendCrossTx = (\<lambda>isMain m w. (None, w)) \<rparr>"

definition demo_chain_config :: chain_config where
  "demo_chain_config = \<lparr> cf_Url = [], cf_ChainID = 0, cf_ContractAddr = [], cf_FromBlock = 0, cf_EndBlock = 1, cf_ConfirmNum = 0 \<rparr>"

definition demo_sign_handler :: sign_handler where
  "demo_sign_handler = \<lparr> hn_AnchorAddr = [7], hn_MainChain = new_chain demo_sign_env True demo_chain_config,
     hn_SubChain = new_chain demo_sign_env False demo_chain_config \<rparr>"

lemma demo_main_logs:
  "range_logs demo_sign_env (hn_MainChain demo_sign_handler) 0 1 [] = (Ok [demo_log 1 5, demo_log 1 6, demo_log 3 5], [])"
  "range_logs demo_sign_env (hn_SubChain demo_sign_handler) 0 1 [] = (Ok [demo_log 2 5, demo_log 2 6], [])"
  by (simp_all add: range_logs_def demo_sign_env_def demo_sign_handler_def new_chain_def receipt_retry_def)

lemma unfinished_events_witness:
  "\<exists>h'. fst (parseCrossChainEvents demo_sign_env demo_sign_handler demo_chain_config demo_chain_config []) = Ok h'
    \<and> dom (sh_MakerEvents (hn_MainChain h')) = {[6]} \<and> dom (sh_TakerEvents (hn_SubChain h')) = {[6]}"
proof -
  obtain h' where h': "parseCrossChainEvents demo_sign_env demo_sign_handler demo_chain_config demo_chain_config [] = (Ok h', [])"
    and m: "sh_MakerEvents (hn_MainChain h') = last_event (maker_events demo_sign_env [demo_log 1 5, demo_log 1 6, demo_log 3 5])
      |` (- set (finished_ids demo_sign_env [demo_log 1 5, demo_log 1 6, demo_log 3 5]))"
    and t: "sh_TakerEvents (hn_SubChain h') = last_event (taker_events demo_sign_env [demo_log 2 5, demo_log 2 6])
      |` (- set (finished_ids demo_sign_env [demo_log 1 5, demo_log 1 6, demo_log 3 5]))"
    using unfinished_events [of demo_sign_handler demo_sign_env demo_chain_config "[]"
        "[demo_log 1 5, demo_log 1 6, demo_log 3 5]" "[]" demo_chain_config "[demo_log 2 5, demo_log 2 6]" "[]"] demo_main_logs
    by (simp add: demo_chain_config_def demo_sign_handler_def new_chain_def) blast
  have "dom (sh_MakerEvents (hn_MainChain h')) = {[6]}" unfolding m
    by (auto simp: event_defs is_maker_log_def is_taker_log_def is_finish_log_def demo_sign_env_def demo_log_def
        restrict_map_def split: if_splits)
  moreover have "dom (sh_TakerEvents (hn_SubChain h')) = {[6]}" unfolding t
    by (auto simp: event_defs is_maker_log_def is_taker_log_def is_finish_log_def demo_sign_env_def demo_log_def
        restrict_map_def split: if_splits)
  ultimately show ?thesis using h' by simp
qed

lemma be_nat_replicate: "be_nat (replicate n 0) = 0"
  by (induction n) (simp_all add: be_nat_def)

lemma TakerEvent_sends_witness:
  "sign_TakerEvent demo_sign_env demo_sign_handler (hn_MainChain demo_sign_handler) (demo_log 2 5) [] =
    (Ok (), [\<lparr> ct_nonce = 4, ct_to = [7], ct_amount = 0, ct_gasLimit = 250000, ct_gasPrice = 2, ct_input = [] \<rparr>])"
proof -
  let ?r = "\<lparr> rc_CTxId = [5], rc_TxHash = [9], rc_From = replicate 20 0, rc_To = replicate 20 0, rc_DestinationId = 0,
    rc_ChainId = 0 \<rparr>"
  have r: "taker_recept (hn_MainChain demo_sign_handler) (demo_log 2 5) = Ok ?r"
    by (simp add: taker_recept_def demo_log_def slice_or_panic_def be_nat_replicate demo_sign_handler_def new_chain_def
        demo_chain_config_def)
  show ?thesis
    by (subst TakerEvent_sends [OF r refl, where nonce = 4 and ?w1.0 = "[]"])
      (simp_all add: demo_sign_env_def demo_sign_handler_def new_chain_def other_chain_def demo_chain_config_def)
qed

end
