(* ===== verification/Scripts.thy ===== *)
theory Scripts
  imports Hub
begin

text \<open>
  The scripts of cmd that send transactions to the contract of a chain (cmd/add, addTest, remove, removeTest, register,
  maker, taker) or read the pages of a hub (cmd/query). The node's client, the packing of the ABI and the query of a
  hub's API are parameters; the pages are those of Hub.thy. Printing is left out.
\<close>

section \<open>Shared parts\<close>

record order =
  or_TxId :: hash
  or_TxHash :: hash
  or_BlockHash :: hash
  or_Value :: int
  or_Charge :: int
  or_From :: address
  or_To :: address
  or_Origin :: u8
  or_Purpose :: u8
  or_Payload :: bytes
  or_V :: "int list"
  or_R :: "bytes list"
  or_S :: "bytes list"

datatype abi_arg =
    AbiInt int | AbiUint8 u8 | AbiAddresses "address list" | AbiStrings "string list" | AbiString string | AbiBytes bytes
  | AbiOrder order

record send_args =
  sx_From :: address
  sx_To :: address
  sx_Gas :: u64
  sx_GasPrice :: "int option"
  sx_Value :: "int option"
  sx_Input :: bytes

record script_flags =
  fl_rawurl :: string
  fl_sendurl :: string
  fl_contract :: string
  fl_chainId :: u64
  fl_from :: string
  fl_gaslimit :: u64
  fl_anchors :: "string list"
  fl_signConfirm :: u64
  fl_value :: u64
  fl_destValue :: u64
  fl_count :: i64
  fl_limit :: u64
  fl_page :: u64

text \<open>\<open>scr_pages\<close> is \<open>cross_ctxContentByPage\<close> with its four numbers; \<open>scr_order\<close> how Go ranges over the map of a page.\<close>

record 'w script_env =
  scr_lib :: chain_lib
  scr_hex :: "goerr option"
  scr_abi :: "goerr option"
  scr_Dial :: "string \<Rightarrow> goerr option"
  scr_Pack :: "string \<Rightarrow> abi_arg list \<Rightarrow> goerr + bytes"
  scr_send :: "string \<Rightarrow> send_args \<Rightarrow> 'w \<Rightarrow> (goerr + hash) \<times> 'w"
  scr_pages :: "string \<Rightarrow> u64 \<Rightarrow> u64 \<Rightarrow> u64 \<Rightarrow> u64 \<Rightarrow> 'w \<Rightarrow> (goerr + (string \<rightharpoonup> rpc_page)) \<times> 'w"
  scr_order :: "rpc_page \<Rightarrow> (u8 \<times> rpc_tx option list) list"

text \<open>How a script ends: after its transactions, with a printed error, through \<open>log.Fatalln\<close>, or with a panic.\<close>

datatype script_end = Sent "hash list" | Stopped "hash list" goerr | FatalExit goerr | Crashed string

definition gas_price :: int where "gas_price = 1000000000"

text \<open>\<open>uint64\<close> and \<open>uint8\<close> of a number.\<close>

definition u64_int :: "u64 \<Rightarrow> int" where "u64_int n = int (unat n)"

definition script_args ::
    "'w script_env \<Rightarrow> script_flags \<Rightarrow> int option \<Rightarrow> int option \<Rightarrow> bytes \<Rightarrow> send_args" where
  "script_args env fl price value input =
     \<lparr> sx_From = HexToAddress (scr_lib env) (fl_from fl), sx_To = HexToAddress (scr_lib env) (fl_contract fl),
       sx_Gas = fl_gaslimit fl, sx_GasPrice = price, sx_Value = value, sx_Input = input \<rparr>"

fun send_times :: "'w script_env \<Rightarrow> string \<Rightarrow> send_args \<Rightarrow> nat \<Rightarrow> hash list \<Rightarrow> 'w \<Rightarrow> script_end \<times> 'w" where
  "send_times env url args 0 sent w = (Sent sent, w)"
| "send_times env url args (Suc n) sent w =
     (case scr_send env url args w of
        (Inl e, w) \<Rightarrow> (Stopped sent e, w)
      | (Inr h, w) \<Rightarrow> send_times env url args n (sent @ [h]) w)"

section \<open>Anchors\<close>

definition send_anchors ::
    "'w script_env \<Rightarrow> script_flags \<Rightarrow> string \<Rightarrow> int option \<Rightarrow> 'w \<Rightarrow> script_end \<times> 'w" where
  "send_anchors env fl fcn price w =
     (case scr_Dial env (fl_rawurl fl) of
        Some e \<Rightarrow> (Stopped [] e, w)
      | None \<Rightarrow>
     (case scr_hex env of
        Some e \<Rightarrow> (Stopped [] e, w)
      | None \<Rightarrow>
     (case scr_abi env of
        Some e \<Rightarrow> (FatalExit e, w)
      | None \<Rightarrow>
     (case scr_Pack env fcn
         [AbiInt (u64_int (fl_chainId fl)), AbiAddresses (map (HexToAddress (scr_lib env)) (take 2 (fl_anchors fl)))] of
        Inl e \<Rightarrow> (FatalExit e, w)
      | Inr input \<Rightarrow> send_times env (fl_rawurl fl) (script_args env fl price (Some 0) input) 1 [] w))))"

definition add_main :: "'w script_env \<Rightarrow> script_flags \<Rightarrow> 'w \<Rightarrow> script_end \<times> 'w" where
  "add_main env fl = send_anchors env fl ''addAnchors'' (Some gas_price)"

definition addTest_main :: "'w script_env \<Rightarrow> script_flags \<Rightarrow> 'w \<Rightarrow> script_end \<times> 'w" where
  "addTest_main env fl = send_anchors env fl ''addAnchors'' (Some gas_price)"

definition remove_main :: "'w script_env \<Rightarrow> script_flags \<Rightarrow> 'w \<Rightarrow> script_end \<times> 'w" where
  "remove_main env fl = send_anchors env fl ''removeAnchors'' (Some gas_price)"

definition removeTest_main :: "'w script_env \<Rightarrow> script_flags \<Rightarrow> 'w \<Rightarrow> script_end \<times> 'w" where
  "removeTest_main env fl = send_anchors env fl ''removeAnchors'' None"

definition register_main :: "'w script_env \<Rightarrow> script_flags \<Rightarrow> 'w \<Rightarrow> script_end \<times> 'w" where
  "register_main env fl w =
     (case scr_Dial env (fl_rawurl fl) of
        Some e \<Rightarrow> (Stopped [] e, w)
      | None \<Rightarrow>
     (case scr_hex env of
        Some e \<Rightarrow> (Stopped [] e, w)
      | None \<Rightarrow>
     (case scr_abi env of
        Some e \<Rightarrow> (FatalExit e, w)
      | None \<Rightarrow>
     (case scr_Pack env ''chainRegister''
         [AbiInt (u64_int (fl_chainId fl)), AbiInt 10000000000000000000000, AbiUint8 (ucast (fl_signConfirm fl)),
          AbiAddresses (map (HexToAddress (scr_lib env)) (take 3 (fl_anchors fl)))] of
        Inl e \<Rightarrow> (Stopped [] e, w)
      | Inr input \<Rightarrow> send_times env (fl_rawurl fl) (script_args env fl (Some gas_price) None input) 1 [] w))))"

section \<open>Maker and taker\<close>

definition maker_main :: "'w script_env \<Rightarrow> script_flags \<Rightarrow> 'w \<Rightarrow> script_end \<times> 'w" where
  "maker_main env fl w =
     (case scr_Dial env (fl_rawurl fl) of
        Some e \<Rightarrow> (Stopped [] e, w)
      | None \<Rightarrow>
     (case scr_hex env of
        Some e \<Rightarrow> (Stopped [] e, w)
      | None \<Rightarrow>
     (case scr_abi env of
        Some e \<Rightarrow> (FatalExit e, w)
      | None \<Rightarrow>
     (case scr_Pack env ''makerStart''
         [AbiInt (u64_int (fl_destValue fl)), AbiUint8 (ucast (fl_chainId fl)), AbiStrings [''b'', ''''], AbiBytes []] of
        Inl e \<Rightarrow> (Stopped [] e, w)
      | Inr input \<Rightarrow>
          send_times env (fl_rawurl fl) (script_args env fl (Some gas_price) (Some (u64_int (fl_value fl))) input)
            (nat (sint (fl_count fl))) [] w))))"

text \<open>The order of a transaction: \<open>To\<close> is left zero, \<open>copy\<close> into an array keeps the first 32 bytes of the padded number.\<close>

definition taker_order :: "chain_lib \<Rightarrow> rpc_tx \<Rightarrow> order" where
  "taker_order lib v =
     \<lparr> or_TxId = rpc_CTxId v, or_TxHash = rpc_TxHash v, or_BlockHash = rpc_BlockHash v, or_Value = rpc_Value v,
       or_Charge = rpc_Charge v, or_From = HexToAddress lib (rpc_From v), or_To = zero_address,
       or_Origin = ucast (rpc_Origin v), or_Purpose = ucast (rpc_Purpose v), or_Payload = rpc_Payload v,
       or_V = [rpc_V v], or_R = [take 32 (pad32 lib (rpc_R v))], or_S = [take 32 (pad32 lib (rpc_S v))] \<rparr>"

definition taker_skips :: "chain_lib \<Rightarrow> address \<Rightarrow> rpc_tx \<Rightarrow> bool" where
  "taker_skips lib from_addr v \<longleftrightarrow> rpc_To v \<noteq> [] \<and> HexToAddress lib (rpc_To v) \<noteq> from_addr"

definition taker_input :: "'w script_env \<Rightarrow> rpc_tx \<Rightarrow> goerr + bytes" where
  "taker_input env v =
     scr_Pack env ''taker'' [AbiOrder (taker_order (scr_lib env) v), AbiString ''b'', AbiBytes (str_bytes ''i am b!'')]"

fun take_orders :: "'w script_env \<Rightarrow> script_flags \<Rightarrow> rpc_tx option list \<Rightarrow> hash list \<Rightarrow> 'w \<Rightarrow> script_end \<times> 'w" where
  "take_orders env fl [] sent w = (Sent sent, w)"
| "take_orders env fl (None # vs) sent w = (Crashed ''nil pointer dereference'', w)"
| "take_orders env fl (Some v # vs) sent w =
     (if taker_skips (scr_lib env) (HexToAddress (scr_lib env) (fl_from fl)) v then take_orders env fl vs sent w
      else case taker_input env v of
        Inl e \<Rightarrow> take_orders env fl vs sent w
      | Inr input \<Rightarrow>
          (case scr_send env (fl_sendurl fl) (script_args env fl (Some gas_price) (Some (rpc_Charge v)) input) w of
             (Inl e, w) \<Rightarrow> (Stopped sent e, w)
           | (Inr h, w) \<Rightarrow> take_orders env fl vs (sent @ [h]) w))"

definition remote_page :: "(string \<rightharpoonup> rpc_page) \<Rightarrow> rpc_page" where
  "remote_page content = (case content ''remote'' of None \<Rightarrow> Map.empty | Some page \<Rightarrow> page)"

definition taker_main :: "'w script_env \<Rightarrow> script_flags \<Rightarrow> 'w \<Rightarrow> script_end \<times> 'w" where
  "taker_main env fl w =
     (case scr_hex env of
        Some e \<Rightarrow> (Stopped [] e, w)
      | None \<Rightarrow>
     (case scr_abi env of
        Some e \<Rightarrow> (FatalExit e, w)
      | None \<Rightarrow>
     (case scr_Dial env (fl_rawurl fl) of
        Some e \<Rightarrow> (Stopped [] e, w)
      | None \<Rightarrow>
     (case scr_pages env (fl_rawurl fl) 1 1 (fl_limit fl) 1 w of
        (Inl e, w) \<Rightarrow> (Stopped [] e, w)
      | (Inr content, w) \<Rightarrow>
     (case scr_Dial env (fl_sendurl fl) of
        Some e \<Rightarrow> (Stopped [] e, w)
      | None \<Rightarrow> take_orders env fl (concat (map snd (scr_order env (remote_page content)))) [] w)))))"

text \<open>What the query prints: status, position and hash of every remote transaction.\<close>

fun page_lines :: "u8 \<Rightarrow> nat \<Rightarrow> rpc_tx option list \<Rightarrow> (u8 \<times> nat \<times> hash) list outcome" where
  "page_lines st i [] = Ok []"
| "page_lines st i (None # vs) = nil_deref"
| "page_lines st i (Some v # vs) =
     bind_outcome (page_lines st (i + 1) vs) (\<lambda>ls. Ok ((st, i, rpc_TxHash v) # ls))"

fun pages_lines :: "(u8 \<times> rpc_tx option list) list \<Rightarrow> (u8 \<times> nat \<times> hash) list outcome" where
  "pages_lines [] = Ok []"
| "pages_lines ((st, vs) # pages) =
     bind_outcome (page_lines st 0 vs) (\<lambda>ls. bind_outcome (pages_lines pages) (\<lambda>more. Ok (ls @ more)))"

definition query_main :: "'w script_env \<Rightarrow> script_flags \<Rightarrow> 'w \<Rightarrow> (u8 \<times> nat \<times> hash) list outcome \<times> 'w" where
  "query_main env fl w =
     (case scr_Dial env (fl_rawurl fl) of
        Some e \<Rightarrow> (Ok [], w)
      | None \<Rightarrow>
     (case scr_pages env (fl_rawurl fl) 0 0 (fl_limit fl) (fl_page fl) w of
        (Inl e, w) \<Rightarrow> (Ok [], w)
      | (Inr content, w) \<Rightarrow> (pages_lines (scr_order env (remote_page content)), w)))"

section \<open>The taker against a hub\<close>

text \<open>The sends of a list of arguments, until one fails.\<close>

fun send_all :: "'w script_env \<Rightarrow> string \<Rightarrow> send_args list \<Rightarrow> hash list \<Rightarrow> 'w \<Rightarrow> script_end \<times> 'w" where
  "send_all env url [] sent w = (Sent sent, w)"
| "send_all env url (args # as) sent w =
     (case scr_send env url args w of
        (Inl e, w) \<Rightarrow> (Stopped sent e, w)
      | (Inr h, w) \<Rightarrow> send_all env url as (sent @ [h]) w)"

definition taker_sends :: "'w script_env \<Rightarrow> script_flags \<Rightarrow> rpc_tx list \<Rightarrow> send_args list" where
  "taker_sends env fl vs =
     List.map_filter (\<lambda>v.
       if taker_skips (scr_lib env) (HexToAddress (scr_lib env) (fl_from fl)) v then None
       else case taker_input env v of
         Inl e \<Rightarrow> None
       | Inr input \<Rightarrow> Some (script_args env fl (Some gas_price) (Some (rpc_Charge v)) input)) vs"

lemma take_orders_sends: "take_orders env fl (map Some vs) sent w = send_all env (fl_sendurl fl) (taker_sends env fl vs) sent w"
  by (induction vs arbitrary: sent w) (auto simp: taker_sends_def split: sum.splits prod.splits)

text \<open>The remote page of a hub for the taker's numbers: one entry, with the transactions of the query.\<close>

definition hub_txs :: "('d, 'f) storm_lib \<Rightarrow> 'd query_api \<Rightarrow> i64 \<Rightarrow> i64 \<Rightarrow> rpc_tx list" where
  "hub_txs lib s localSize localPage =
     map (\<lambda>tx. the (newRPCCrossTransaction (Some tx)))
       (IndexDB_Query lib localSize localPage [PriceIndex] False [] (qa_remoteDb s))"

lemma remote_page_hub:
  "remote_page (CtxContentByPage lib s ls lp rs rp) =
    (if hub_txs lib s ls lp = [] then Map.empty else [5 \<mapsto> map Some (hub_txs lib s ls lp)])"
  by (auto simp: remote_page_def CtxContentByPage_def QueryByPage_def page_of_def fold_append_entry hub_txs_def
      newRPCCrossTransaction_def Let_def fun_eq_iff comp_def)

text \<open>What Go does with a map of at most one entry.\<close>

definition order_law :: "(rpc_page \<Rightarrow> (u8 \<times> rpc_tx option list) list) \<Rightarrow> bool" where
  "order_law ord \<longleftrightarrow> ord Map.empty = [] \<and> (\<forall>k v. ord [k \<mapsto> v] = [(k, v)])"

lemma order_hub:
  "order_law ord \<Longrightarrow> concat (map snd (ord (remote_page (CtxContentByPage lib s ls lp rs rp)))) = map Some (hub_txs lib s ls lp)"
  by (simp add: remote_page_hub order_law_def)

text \<open>The taker against a hub. It sends the orders of the hub's page that name nobody or itself, each with
  the charge as its value; but it asks with 1 and 1 for the local side and with \<open>--count\<close> for the remote one, and a hub
  uses the first two for both: whatever the count, it takes at most one order.\<close>

theorem taker_takes_one:
  assumes "window_law lib" "order_law (scr_order env)" "scr_hex env = None" "scr_abi env = None"
    and "scr_Dial env (fl_rawurl fl) = None" "scr_Dial env (fl_sendurl fl) = None"
    and "scr_pages env (fl_rawurl fl) 1 1 (fl_limit fl) 1 w = (Inr (CtxContentByPage lib s 1 1 (fl_limit fl) 1), w')"
  shows "taker_main env fl w = send_all env (fl_sendurl fl)
      (taker_sends env fl (take 1 (hub_txs lib s 0 0))) [] w'
    \<and> length (taker_sends env fl (take 1 (hub_txs lib s 0 0))) \<le> 1"
proof -
  have "IndexDB_Query lib 1 1 [PriceIndex] False [] (qa_remoteDb s) =
      take 1 (IndexDB_Query lib 0 0 [PriceIndex] False [] (qa_remoteDb s))"
    using page_window [OF assms(1), of 1 0 "[PriceIndex]" "[]" "qa_remoteDb s"] by simp
  then have one: "hub_txs lib s 1 1 = take 1 (hub_txs lib s 0 0)" by (simp add: hub_txs_def take_map)
  have "taker_main env fl w = take_orders env fl (map Some (hub_txs lib s 1 1)) [] w'"
    using assms(3-7) order_hub [OF assms(2), of lib s 1 1 "fl_limit fl" 1] by (simp add: taker_main_def)
  moreover have "length (taker_sends env fl vs) \<le> length vs" for vs
    unfolding taker_sends_def by (induction vs) (auto simp: map_filter_simps split: option.splits)
  ultimately show ?thesis by (simp add: one take_orders_sends) (metis length_take min.bounded_iff order_trans)
qed

definition demo_script_env :: "send_args list script_env" where
  "demo_script_env = \<lparr>
     scr_lib = \<lparr> Keccak = id, LeftPadBytes = \<lambda>b n. b, HexToAddress = str_bytes, DeriveChainId = id,
       RecoverPlain = \<lambda>h r s v b. Inl (ErrNew []) \<rparr>,
     scr_hex = None, scr_abi = None, scr_Dial = \<lambda>u. None, scr_Pack = \<lambda>f args. Inr [1],
     scr_send = \<lambda>url args w. (Inr [2], w @ [args]),
     scr_pages = \<lambda>url ls lp rs rp w. (Inr (CtxContentByPage paged_storm demo_api ls lp rs rp), w),
     scr_order = \<lambda>m. map (\<lambda>k. (k, the (m k))) (sorted_list_of_set (dom m)) \<rparr>"

definition demo_script_flags :: script_flags where
  "demo_script_flags = \<lparr> fl_rawurl = ''hub'', fl_sendurl = ''node'', fl_contract = ''c'', fl_chainId = 5, fl_from = ''a'',
     fl_gaslimit = 1, fl_anchors = [], fl_signConfirm = 0, fl_value = 0, fl_destValue = 0, fl_count = 0, fl_limit = 10,
     fl_page = 1 \<rparr>"

lemma taker_takes_one_witness:
  "\<exists>sends. taker_main demo_script_env demo_script_flags [] = send_all demo_script_env ''node'' sends [] [] \<and> length sends \<le> 1
    \<and> length (IndexDB_Query paged_storm 0 0 [PriceIndex] False [] (qa_remoteDb demo_api)) = 3"
proof -
  have law: "window_law paged_storm" by (simp add: window_law_def paged_storm_def)
  have "order_law (scr_order demo_script_env)" by (simp add: order_law_def demo_script_env_def)
  then have "taker_main demo_script_env demo_script_flags [] = send_all demo_script_env (fl_sendurl demo_script_flags)
      (taker_sends demo_script_env demo_script_flags (take 1 (hub_txs paged_storm demo_api 0 0))) [] []
    \<and> length (taker_sends demo_script_env demo_script_flags (take 1 (hub_txs paged_storm demo_api 0 0))) \<le> 1"
    by (intro taker_takes_one [OF law]) (simp_all add: demo_script_env_def)
  moreover have "length (IndexDB_Query paged_storm 0 0 [PriceIndex] False [] (qa_remoteDb demo_api)) = 3"
    by (simp add: IndexDB_Query_def paged_storm_def demo_api_def NewPublicCrossQueryApi_def)
  ultimately show ?thesis by (simp add: demo_script_flags_def) blast
qed

end
