(* ===== verification/Spec2Isabelle.thy ===== *)
theory Spec2Isabelle
  imports Prque Peers Chainview Swarm Executor CliTasks Hub BlockJson CliQueries CliInvoke SignTx Scripts
begin

text \<open>
  Verification library for crosshub, the hub that carries transactions between chains.

  The program. A hub stands beside one chain and exchanges transactions with the hubs of other chains. The chain view
  (chainview) polls the contract of its chain and turns its events into signed cross transactions and receipts (core); it
  keeps them in two databases (database) and puts them on a channel. The swarm (swarm, over the framing and the streams of
  hubnet) sends what is on the channel to the connected hubs, whose certificates (cert) it has checked against the keys of
  the repository (repo), and hands what they send to the chain view. A hub of a Fabric network runs a courier
  (fabric/courier) in place of the chain view: it reads the blocks of the ledger, keeps the contracts the chaincode
  (fabric/chaincode) has precommitted, sends them to the other hubs and commits them when their receipts arrive. The hub is
  started by cmd/crosshub and asked through api. fabric/fabric-cli is a command line client of the Fabric network, and
  the other programs of cmd are tools around the contract.

  Conventions. A Go error is the type goerr, a call that returns, fails or panics an outcome, a fallible call of a
  library goerr + 'a. Integers keep their width as words where the code can wrap; big.Int is int. A struct is a record, a
  nil pointer None. Third-party code is a field of a record of parameters (chain_lib, storm_lib, fabric_pb, view_env,
  swarm_env, action_sdk and others), mostly over a world that a call may change. What the proofs use of it is a named law
  (left_pad_law, derive_law, recover_law, window_law and the like), and a witness beside each theorem instantiates it. Log
  lines are left out, and printing where a component's note in the manifest says so. Goroutines are steps of a relation, or
  a schedule that is an argument.

  Shared theories. Prelude: outcomes, loops that stop at an error, lists. GoText: strings, strconv, hex and math/big.
  GoHeap: container/heap over any heap interface, with the locale heap_interface, interpreted for the two heaps.

  Core. CoreTx: core/cross_transaction.go, recept_transaction.go and their signing (the locale tx_signing, interpreted for
  transactions and receipts): a signed transaction gives back its sender. IndexDB: database/indexdb.go and the rows of
  ctx_list.go; the cache and the database never disagree. Contract: fabric/courier/contractlib/type.go with its JSON.

  Between the hubs. Hubnet: hubnet/rlpx.go, message.go, stream_manager.go, p2p.go, handle.go: a frame written is the frame
  read, and a frame of size 0 wraps. Peers: the network service as a whole, its constructor and any run of it.
  Certs: cert/cert.go and cmd/crosshub/cert.go: a certificate issued along the chain of tools passes the check. Repo and KeyStore: repo and cmd/crosshub/key.go: hubs with the same network file number the nodes
  alike; the key store. Chainview: chainview/chainview.go: the polling windows, the events, the messages of others. Swarm:
  swarm: only a checked peer is connected, and a transaction handed to one hub's channel reaches the chain view of the next.

  The Fabric side. Chaincode: the functions the example chaincode dispatches to, over its ledger. Prque, CourierDB,
  BlockFilter, TxManager, Syncer, Courier: the courier's queue, store, block filter, transaction manager, block synchroniser,
  and the courier put together: nothing in the queue is lost, blocks are handed over in order, a contract is committed at
  most once, a precommit reaches the ledger, and Stop waits for ever
  (receive adds to the wait group a count that nothing takes back).

  The program as a whole. Hub: api, cmd/crosshub/start.go, init.go, config.go: the pages of the API, a hub's start and
  end, and a receipt from the contract of one chain to the ledger of the other.

  fabric-cli. Executor: the executor and its workers as a step relation; it neither loses nor repeats a task and Stop ends.
  CliArgs: the argument language. CliTasks and CliInvoke: the tasks under every schedule (the locale task_ops, interpreted
  for invoke and query) and the two commands. CliConfig: the options and flags. Action: Initialize, sessions, clients.
  CliCommands and CliQueries: the other commands. Formatter (the locale formatter_calls, interpreted for three formatters),
  BlockMessages, BlockPrinter, BlockJson: the printer, and what of its output is JSON.

  The tools. SignTx: cmd/signTx, with what its scan of blocks leaves. Scripts: the other programs of cmd.

  Recursion and fuel. Loops over data are structural, or functions with a measure. The printer follows the last update of
  a configuration with fuel: PrintEnvelope takes the envelope_fuel of the envelope, got from the length of its
  payload, which PrintEnvelope_ends shows to be enough for a decoder whose parts are shorter than the whole. What may
  wait for ever (a listening command, a command whose tasks have not run, Stop of the courier) is an option or a step
  relation. 64-bit counters are words; a bound such as 2 ^ 63 in a hypothesis keeps them from wrapping.

  Not modelled. core/fabric_*.go is commented out as a whole, and so is most of core/cross_transaction.go. core/events.go,
  interface.go and errors.go declare structs and interfaces; app/hub.go is an unused struct. The command
  objects of cobra and cli, main functions that only run them, the packed files, the logger, the ticker that prints in between
  and the generated protobuf code have no behaviour of their own. The chaincode's type.go repeats the text of
  contractlib/type.go.
\<close>

end
